(* ===== verification/Gadgetron_Prelude.thy ===== *)
theory Gadgetron_Prelude
  imports Main "HOL-Library.Word" "HOL-Library.Char_ord" "HOL-Library.List_Lexorder"
    "HOL-Library.Sublist" "HOL-Library.Product_Lexorder"
begin

text \<open>
  The vocabulary every component of the development shares.

  \<^item> the machine types of the Rust sources and their saturating operations;
  \<^item> \<open>Result\<close> values as sums (\<open>Inl\<close> is \<open>Err\<close>), the early return of the \<open>?\<close> operator
    as \<open>and_then\<close>, a loop of fallible checks as \<open>try_each\<close>;
  \<^item> strings as UTF-8 byte strings with the character tests of \<open>std\<close>;
  \<^item> \<open>BTreeSet\<close> and \<open>BTreeMap\<close> as strictly increasing lists, \<open>HashMap\<close> as a finite map
    with an explicit visiting order.

  The collections \<open>result_simps\<close>, \<open>text_simps\<close> and \<open>ordered_simps\<close> carry the facts the
  component proofs unfold.
\<close>

named_theorems result_simps \<open>early returns and fallible loops\<close>
named_theorems text_simps \<open>character classes and string validators\<close>
named_theorems ordered_simps \<open>ordered sets and maps as lists\<close>

section \<open>Machine integers\<close>

type_synonym u8 = "8 word"
type_synonym u16 = "16 word"
type_synonym u32 = "32 word"
type_synonym u64 = "64 word"
type_synonym usize = "64 word"
type_synonym uuid = "128 word"

definition saturating_sub :: "'w::len word \<Rightarrow> 'w word \<Rightarrow> 'w word" where
  "saturating_sub a b = (if a < b then 0 else a - b)"

definition saturating_mul :: "'w::len word \<Rightarrow> 'w word \<Rightarrow> 'w word" where
  "saturating_mul a b =
     (if unat a * unat b < 2 ^ LENGTH('w) then a * b else - 1)"

definition saturating_add :: "'w::len word \<Rightarrow> 'w word \<Rightarrow> 'w word" where
  "saturating_add a b =
     (if unat a + unat b < 2 ^ LENGTH('w) then a + b else - 1)"

text \<open>
  The arithmetic \<open>a + b\<close> of Rust panics on overflow in a build with overflow checks and
  wraps in a build without them.  \<open>plus_overflows\<close> is the condition on which the builds
  differ; the wrapped value is the word sum.
\<close>

definition plus_overflows :: "'w::len word \<Rightarrow> 'w word \<Rightarrow> bool" where
  "plus_overflows a b \<longleftrightarrow> 2 ^ LENGTH('w) \<le> unat a + unat b"

lemma unat_saturating_sub: "unat (saturating_sub a b) = unat a - unat b"
  by (auto simp: saturating_sub_def word_less_nat_alt unat_sub word_le_nat_alt)

lemma unat_saturating_mul:
  "unat (saturating_mul a b) = min (unat a * unat b) (2 ^ LENGTH('w) - 1)"
  for a b :: "'w::len word"
proof (cases "unat a * unat b < 2 ^ LENGTH('w)")
  case True
  then show ?thesis
    by (auto simp: saturating_mul_def unat_word_ariths)
next
  case False
  then have "2 ^ LENGTH('w) - 1 \<le> unat a * unat b" by simp
  with False show ?thesis
    by (simp add: saturating_mul_def unsigned_minus_1_eq_mask mask_eq_exp_minus_1 min.absorb2)
qed

lemma unat_saturating_add:
  "unat (saturating_add a b) = min (unat a + unat b) (2 ^ LENGTH('w) - 1)"
  for a b :: "'w::len word"
proof (cases "unat a + unat b < 2 ^ LENGTH('w)")
  case True
  then show ?thesis
    by (auto simp: saturating_add_def unat_word_ariths)
next
  case False
  then have "2 ^ LENGTH('w) - 1 \<le> unat a + unat b" by simp
  with False show ?thesis
    by (simp add: saturating_add_def unsigned_minus_1_eq_mask mask_eq_exp_minus_1 min.absorb2)
qed

lemma unat_plus_no_overflow:
  "\<not> plus_overflows a b \<Longrightarrow> unat (a + b) = unat a + unat b"
  by (simp add: plus_overflows_def unat_word_ariths)

section \<open>Results and early return\<close>

type_synonym ('e, 'a) result = "'e + 'a"

definition and_then :: "('e, 'a) result \<Rightarrow> ('a \<Rightarrow> ('e, 'b) result) \<Rightarrow> ('e, 'b) result" where
  "and_then r k = (case r of Inl e \<Rightarrow> Inl e | Inr a \<Rightarrow> k a)"

definition check :: "bool \<Rightarrow> 'e \<Rightarrow> ('e, unit) result" where
  "check ok e = (if ok then Inr () else Inl e)"

definition ok_or :: "'a option \<Rightarrow> 'e \<Rightarrow> ('e, 'a) result" where
  "ok_or v e = (case v of None \<Rightarrow> Inl e | Some a \<Rightarrow> Inr a)"

fun try_each :: "('a \<Rightarrow> ('e, unit) result) \<Rightarrow> 'a list \<Rightarrow> ('e, unit) result" where
  "try_each f [] = Inr ()"
| "try_each f (x # xs) = and_then (f x) (\<lambda>_. try_each f xs)"

definition is_ok :: "('e, 'a) result \<Rightarrow> bool" where
  "is_ok r = (case r of Inl _ \<Rightarrow> False | Inr _ \<Rightarrow> True)"

lemma and_then_Inl [simp]: "and_then (Inl e) k = Inl e"
  by (simp add: and_then_def)

lemma and_then_Inr [simp]: "and_then (Inr a) k = k a"
  by (simp add: and_then_def)

lemma and_then_eq_Inr [result_simps]:
  "and_then r k = Inr b \<longleftrightarrow> (\<exists>a. r = Inr a \<and> k a = Inr b)"
  by (cases r) auto

lemma and_then_eq_Inl [result_simps]:
  "and_then r k = Inl e \<longleftrightarrow> r = Inl e \<or> (\<exists>a. r = Inr a \<and> k a = Inl e)"
  by (cases r) auto

lemma check_eq_Inr [result_simps]: "check b e = Inr u \<longleftrightarrow> b"
  by (simp add: check_def)

lemma check_eq_Inl [result_simps]: "check b e = Inl e' \<longleftrightarrow> \<not> b \<and> e' = e"
  by (auto simp: check_def)

lemma check_True [simp]: "check True e = Inr ()"
  by (simp add: check_def)

lemma check_False [simp]: "check False e = Inl e"
  by (simp add: check_def)

lemma ok_or_eq_Inr [result_simps]: "ok_or v e = Inr a \<longleftrightarrow> v = Some a"
  by (auto simp: ok_or_def split: option.splits)

lemma ok_or_eq_Inl [result_simps]: "ok_or v e = Inl e' \<longleftrightarrow> v = None \<and> e' = e"
  by (auto simp: ok_or_def split: option.splits)

lemma try_each_eq_Inr [result_simps]:
  "try_each f xs = Inr u \<longleftrightarrow> (\<forall>x \<in> set xs. f x = Inr ())"
  by (induction xs) (auto simp: result_simps)

text \<open>A fallible loop stops at its first failing element: everything before it passed.\<close>

lemma try_each_eq_InlD:
  "try_each f xs = Inl e \<Longrightarrow>
     \<exists>ys x zs. xs = ys @ x # zs \<and> (\<forall>y \<in> set ys. f y = Inr ()) \<and> f x = Inl e"
proof (induction xs)
  case Nil
  then show ?case by simp
next
  case (Cons a xs)
  show ?case
  proof (cases "f a")
    case (Inl b)
    with Cons.prems show ?thesis
      by (intro exI [of _ "[]"] exI [of _ a] exI [of _ xs]) simp
  next
    case (Inr b)
    with Cons obtain ys x zs where
      "xs = ys @ x # zs" "\<forall>y \<in> set ys. f y = Inr ()" "f x = Inl e"
      by auto
    with Inr show ?thesis
      by (intro exI [of _ "a # ys"] exI [of _ x] exI [of _ zs]) simp
  qed
qed

text \<open>
  A sequence of fallible checks \<open>c1?; c2?; \<dots>\<close>, and the loop over \<open>xs.iter().enumerate()\<close>.
\<close>

definition all_ok :: "('e, unit) result list \<Rightarrow> ('e, unit) result" where
  "all_ok rs = try_each (\<lambda>r. r) rs"

definition try_indexed :: "(nat \<Rightarrow> 'a \<Rightarrow> ('e, unit) result) \<Rightarrow> 'a list \<Rightarrow> ('e, unit) result" where
  "try_indexed f xs = try_each (\<lambda>(i, x). f i x) (enumerate 0 xs)"

definition when_some :: "'a option \<Rightarrow> ('a \<Rightarrow> ('e, unit) result) \<Rightarrow> ('e, unit) result" where
  "when_some v f = (case v of None \<Rightarrow> Inr () | Some a \<Rightarrow> f a)"

lemma all_ok_Nil [simp]: "all_ok [] = Inr ()"
  by (simp add: all_ok_def)

lemma all_ok_Cons: "all_ok (r # rs) = and_then r (\<lambda>_. all_ok rs)"
  by (simp add: all_ok_def)

lemma all_ok_eq_Inr [result_simps]: "all_ok rs = Inr u \<longleftrightarrow> (\<forall>r \<in> set rs. r = Inr ())"
  by (simp add: all_ok_def result_simps)

lemma try_indexed_eq_Inr [result_simps]:
  "try_indexed f xs = Inr u \<longleftrightarrow> (\<forall>i < length xs. f i (xs ! i) = Inr ())"
proof -
  have "set (enumerate 0 xs) = (\<lambda>i. (i, xs ! i)) ` {..<length xs}"
    by (auto simp: in_set_enumerate_eq image_iff)
  then show ?thesis by (auto simp: try_indexed_def result_simps)
qed

lemma when_some_eq_Inr [result_simps]: "when_some v f = Inr u \<longleftrightarrow> (\<forall>a. v = Some a \<longrightarrow> f a = Inr ())"
  by (auto simp: when_some_def split: option.splits)

lemma when_some_simps [simp]: "when_some None f = Inr ()" "when_some (Some a) f = f a"
  by (simp_all add: when_some_def)

lemma try_indexed_member:
  "try_indexed f xs = Inr u \<Longrightarrow> x \<in> set xs \<Longrightarrow> \<exists>i. f i x = Inr ()"
  by (auto simp: result_simps in_set_conv_nth)

text \<open>A loop whose body may panic: \<open>None\<close> is a panic, which ends the loop.\<close>

fun fold_opt :: "('a \<Rightarrow> 's \<Rightarrow> 's option) \<Rightarrow> 'a list \<Rightarrow> 's \<Rightarrow> 's option" where
  "fold_opt f [] s = Some s"
| "fold_opt f (x # xs) s = (case f x s of None \<Rightarrow> None | Some s' \<Rightarrow> fold_opt f xs s')"

lemma fold_opt_append:
  "fold_opt f (xs @ ys) s = (case fold_opt f xs s of None \<Rightarrow> None | Some s' \<Rightarrow> fold_opt f ys s')"
  by (induction xs arbitrary: s) (auto split: option.splits)

text \<open>The rule for such a loop: the body is total on the invariant and keeps it.\<close>

lemma fold_opt_inv:
  assumes "I [] s"
    and "\<And>ys x zs s. xs = ys @ x # zs \<Longrightarrow> I ys s \<Longrightarrow> \<exists>s'. f x s = Some s' \<and> I (ys @ [x]) s'"
  shows "\<exists>s'. fold_opt f xs s = Some s' \<and> I xs s'"
proof -
  have "\<exists>s'. fold_opt f zs t = Some s' \<and> I xs s'" if "xs = ys @ zs" "I ys t" for ys zs t
    using that
  proof (induction zs arbitrary: ys t)
    case Nil
    then show ?case by simp
  next
    case (Cons z zs)
    from assms(2) [OF Cons.prems] obtain t' where "f z t = Some t'" "I (ys @ [z]) t'" by blast
    with Cons.IH [of "ys @ [z]" t'] Cons.prems show ?case by simp
  qed
  from this [of "[]" xs s] assms(1) show ?thesis by simp
qed

lemma is_ok_Inr [simp]: "is_ok (Inr a)"
  by (simp add: is_ok_def)

lemma is_ok_Inl [simp]: "\<not> is_ok (Inl e)"
  by (simp add: is_ok_def)

lemma is_ok_check [simp]: "is_ok (check b e) \<longleftrightarrow> b"
  by (simp add: check_def)

text \<open>A projection of a returned value, computed, gives back the value.\<close>

lemma returned_projection:
  "map_option (map_sum id f) r = Some (Inr y) \<Longrightarrow> \<exists>x. r = Some (Inr x) \<and> f x = y"
  by (cases r) (auto simp: map_sum_def split: sum.splits)

lemma is_ok_iff: "is_ok r \<longleftrightarrow> (\<exists>a. r = Inr a)"
  by (cases r) auto

section \<open>Text\<close>

text \<open>
  A Rust \<open>str\<close> is a UTF-8 byte string; \<open>len()\<close> counts bytes and \<open>chars()\<close> yields the
  scalar values.  A \<open>string\<close> of the model is the byte string, \<open>chars_of\<close> its scalar
  values (for valid UTF-8; a stray continuation byte is passed through).
\<close>

abbreviation byte :: "char \<Rightarrow> nat" where
  "byte c \<equiv> of_char c"

fun chars_of :: "string \<Rightarrow> nat list" where
  "chars_of [] = []"
| "chars_of (a # s) =
     (if byte a < 192 then byte a # chars_of s
      else if byte a < 224 then
        (case s of b # s' \<Rightarrow> ((byte a - 192) * 64 + (byte b - 128)) # chars_of s'
         | _ \<Rightarrow> [byte a])
      else if byte a < 240 then
        (case s of b # c # s' \<Rightarrow>
           ((byte a - 224) * 4096 + (byte b - 128) * 64 + (byte c - 128)) # chars_of s'
         | _ \<Rightarrow> [byte a])
      else
        (case s of b # c # d # s' \<Rightarrow>
           ((byte a - 240) * 262144 + (byte b - 128) * 4096 + (byte c - 128) * 64
             + (byte d - 128)) # chars_of s'
         | _ \<Rightarrow> [byte a]))"

text \<open>\<open>char::is_control\<close> (general category Cc) and \<open>char::is_whitespace\<close> (White_Space).\<close>

definition is_control :: "nat \<Rightarrow> bool" where
  "is_control c \<longleftrightarrow> c < 32 \<or> (127 \<le> c \<and> c < 160)"

definition whitespace_ranges :: "(int \<times> int) list" where
  "whitespace_ranges =
     [(9, 13), (32, 32), (133, 133), (160, 160), (5760, 5760), (8192, 8202), (8232, 8233),
      (8239, 8239), (8287, 8287), (12288, 12288)]"

definition is_whitespace :: "nat \<Rightarrow> bool" where
  "is_whitespace c \<longleftrightarrow> list_ex (\<lambda>(a, b). a \<le> int c \<and> int c \<le> b) whitespace_ranges"

lemmas is_whitespace_defs = is_whitespace_def whitespace_ranges_def

definition is_ascii_lowercase :: "char \<Rightarrow> bool" where
  "is_ascii_lowercase c \<longleftrightarrow> 97 \<le> byte c \<and> byte c \<le> 122"

definition is_ascii_uppercase :: "char \<Rightarrow> bool" where
  "is_ascii_uppercase c \<longleftrightarrow> 65 \<le> byte c \<and> byte c \<le> 90"

definition is_ascii_digit :: "char \<Rightarrow> bool" where
  "is_ascii_digit c \<longleftrightarrow> 48 \<le> byte c \<and> byte c \<le> 57"

definition is_ascii :: "char \<Rightarrow> bool" where
  "is_ascii c \<longleftrightarrow> byte c < 128"

definition is_ascii_control :: "char \<Rightarrow> bool" where
  "is_ascii_control c \<longleftrightarrow> byte c < 32 \<or> byte c = 127"

definition is_lower_hex :: "char \<Rightarrow> bool" where
  "is_lower_hex c \<longleftrightarrow> is_ascii_digit c \<or> (97 \<le> byte c \<and> byte c \<le> 102)"

lemmas ascii_class_defs = is_ascii_lowercase_def is_ascii_uppercase_def is_ascii_digit_def
  is_ascii_def is_ascii_control_def is_lower_hex_def

definition ascii_lower :: "char \<Rightarrow> char" where
  "ascii_lower c = (if is_ascii_uppercase c then char_of (byte c + 32) else c)"

definition to_ascii_lowercase :: "string \<Rightarrow> string" where
  "to_ascii_lowercase = map ascii_lower"

text \<open>
  \<open>str::trim\<close>: the text is cut into the bytes of its scalar values, and the pieces that are white space are
  dropped at both ends.
\<close>

fun utf8_chunks :: "string \<Rightarrow> string list" where
  "utf8_chunks [] = []"
| "utf8_chunks (a # s) =
     (let n = (if byte a < 192 then 0 else if byte a < 224 then 1 else if byte a < 240 then 2 else 3)
      in (a # take n s) # utf8_chunks (drop n s))"

definition trim :: "string \<Rightarrow> string" where
  "trim s =
     (let blank = (\<lambda>chunk. list_all is_whitespace (chars_of chunk))
      in concat (rev (dropWhile blank (rev (dropWhile blank (utf8_chunks s))))))"

text \<open>\<open>value.trim().is_empty()\<close> and \<open>value.chars().any(char::is_control)\<close>.\<close>

definition is_blank :: "string \<Rightarrow> bool" where
  "is_blank s \<longleftrightarrow> list_all is_whitespace (chars_of s)"

definition has_control :: "string \<Rightarrow> bool" where
  "has_control s \<longleftrightarrow> list_ex is_control (chars_of s)"

text \<open>\<open>str::split(c)\<close>: the pieces between the separators, one piece when there is none.\<close>

fun split_on :: "char \<Rightarrow> string \<Rightarrow> string list" where
  "split_on c [] = [[]]"
| "split_on c (x # xs) =
     (if x = c then [] # split_on c xs
      else (case split_on c xs of [] \<Rightarrow> [[x]] | p # ps \<Rightarrow> (x # p) # ps))"

fun join_with :: "string \<Rightarrow> string list \<Rightarrow> string" where
  "join_with sep [] = []"
| "join_with sep [p] = p"
| "join_with sep (p # q # ps) = p @ sep @ join_with sep (q # ps)"

lemma split_on_neq_Nil [simp]: "split_on c s \<noteq> []"
  by (induction s) (auto split: list.splits)

lemma join_with_Cons_char: "join_with sep ((x # p) # ps) = x # join_with sep (p # ps)"
  by (cases ps) auto

text \<open>Splitting and joining are inverse, and no piece holds the separator.\<close>

lemma join_split_on: "join_with [c] (split_on c s) = s"
proof (induction s)
  case Nil
  show ?case by simp
next
  case (Cons x s)
  obtain p ps where ps: "split_on c s = p # ps"
    by (cases "split_on c s") auto
  with Cons.IH show ?case
    by (auto simp: join_with_Cons_char)
qed

lemma split_on_no_sep: "p \<in> set (split_on c s) \<Longrightarrow> c \<notin> set p"
proof (induction s arbitrary: p)
  case Nil
  then show ?case by simp
next
  case (Cons x s)
  obtain q qs where qs: "split_on c s = q # qs"
    by (cases "split_on c s") auto
  with Cons show ?case
    by (auto split: if_splits)
qed

lemma split_on_subset: "p \<in> set (split_on c s) \<Longrightarrow> set p \<subseteq> set s"
proof (induction s arbitrary: p)
  case Nil
  then show ?case by simp
next
  case (Cons x s)
  obtain q qs where qs: "split_on c s = q # qs"
    by (cases "split_on c s") auto
  with Cons show ?case
    by (fastforce split: if_splits)
qed

lemma split_on_no_sep_id: "c \<notin> set s \<Longrightarrow> split_on c s = [s]"
  by (induction s) auto

lemma split_on_append: "c \<notin> set p \<Longrightarrow> split_on c (p @ c # s) = p # split_on c s"
  by (induction p) auto

lemma length_piece_le: "p \<in> set (split_on c s) \<Longrightarrow> length p \<le> length s"
proof (induction s arbitrary: p)
  case Nil
  then show ?case by simp
next
  case (Cons x s)
  obtain q qs where qs: "split_on c s = q # qs"
    by (cases "split_on c s") auto
  with Cons show ?case
    by (fastforce split: if_splits)
qed

text \<open>Decimal rendering of an unsigned number (\<open>Display\<close>).\<close>

definition digit_char :: "nat \<Rightarrow> char" where
  "digit_char d = char_of (48 + d)"

fun show_nat :: "nat \<Rightarrow> string" where
  "show_nat n = (if n < 10 then [digit_char n] else show_nat (n div 10) @ [digit_char (n mod 10)])"

declare show_nat.simps [simp del]

definition show_int :: "int \<Rightarrow> string" where
  "show_int i = (if i < 0 then ''-'' @ show_nat (nat (- i)) else show_nat (nat i))"

text \<open>\<open>str::parse\<close> for unsigned and signed 64-bit numbers: digits, an optional sign, range checked.\<close>

definition digits_value :: "string \<Rightarrow> nat" where
  "digits_value s = foldl (\<lambda>n c. n * 10 + (byte c - 48)) 0 s"

definition parse_digits :: "string \<Rightarrow> nat option" where
  "parse_digits s = (if s = [] \<or> \<not> list_all is_ascii_digit s then None else Some (digits_value s))"

definition parse_i64 :: "string \<Rightarrow> int option" where
  "parse_i64 s =
     (let neg = prefix ''-'' s;
          digits = (if neg \<or> prefix ''+'' s then tl s else s)
      in case parse_digits digits of
           None \<Rightarrow> None
         | Some n \<Rightarrow>
             let v = (if neg then - int n else int n)
             in if - (2 ^ 63) \<le> v \<and> v < 2 ^ 63 then Some v else None)"

lemma byte_digit_char: "d < 10 \<Longrightarrow> byte (digit_char d) = 48 + d"
  by (simp add: digit_char_def)

lemma is_digit_digit_char [simp]: "d < 10 \<Longrightarrow> is_ascii_digit (digit_char d)"
  by (simp add: is_ascii_digit_def byte_digit_char)

lemma show_nat_digits: "list_all is_ascii_digit (show_nat n)"
  by (induction n rule: show_nat.induct) (subst show_nat.simps, auto)

lemma show_nat_neq_Nil [simp]: "show_nat n \<noteq> []"
  by (subst show_nat.simps) auto

lemma digits_value_show_nat [simp]: "digits_value (show_nat n) = n"
proof (induction n rule: show_nat.induct)
  case (1 n)
  show ?case
  proof (cases "n < 10")
    case True
    then show ?thesis
      by (subst show_nat.simps) (simp add: digits_value_def byte_digit_char)
  next
    case False
    with 1 have "digits_value (show_nat (n div 10)) = n div 10" by simp
    with False show ?thesis
      by (subst show_nat.simps) (simp add: digits_value_def byte_digit_char)
  qed
qed

lemma parse_digits_show_nat [simp]: "parse_digits (show_nat n) = Some n"
  by (simp add: parse_digits_def show_nat_digits)

lemma show_nat_not_in: "\<not> is_ascii_digit c \<Longrightarrow> c \<notin> set (show_nat n)"
  using show_nat_digits [of n] by (auto simp: list_all_iff)

lemma show_nat_no_sign [simp]: "\<not> prefix ''-'' (show_nat n)" "\<not> prefix ''+'' (show_nat n)"
  using show_nat_not_in [of "CHR ''-''" n] show_nat_not_in [of "CHR ''+''" n]
  by (auto simp: prefix_def is_ascii_digit_def)

lemma parse_i64_show_int: "- (2 ^ 63) \<le> v \<Longrightarrow> v < 2 ^ 63 \<Longrightarrow> parse_i64 (show_int v) = Some v"
  by (auto simp: parse_i64_def show_int_def)

text \<open>\<open>strip_suffix\<close>, \<open>strip_prefix\<close>, \<open>split_once\<close>, \<open>rsplit_once\<close> and \<open>splitn\<close> of \<open>str\<close>.\<close>

definition strip_suffix :: "string \<Rightarrow> string \<Rightarrow> string option" where
  "strip_suffix suf s = (if suffix suf s then Some (take (length s - length suf) s) else None)"

definition strip_prefix :: "string \<Rightarrow> string \<Rightarrow> string option" where
  "strip_prefix pre s = (if prefix pre s then Some (drop (length pre) s) else None)"

fun split_once :: "char \<Rightarrow> string \<Rightarrow> (string \<times> string) option" where
  "split_once c [] = None"
| "split_once c (x # xs) =
     (if x = c then Some ([], xs)
      else map_option (\<lambda>(a, b). (x # a, b)) (split_once c xs))"

definition rsplit_once :: "char \<Rightarrow> string \<Rightarrow> (string \<times> string) option" where
  "rsplit_once c s = map_option (\<lambda>(a, b). (rev b, rev a)) (split_once c (rev s))"

fun splitn :: "nat \<Rightarrow> char \<Rightarrow> string \<Rightarrow> string list" where
  "splitn 0 c s = []"
| "splitn (Suc 0) c s = [s]"
| "splitn (Suc (Suc n)) c s =
     (case split_once c s of None \<Rightarrow> [s] | Some (a, b) \<Rightarrow> a # splitn (Suc n) c b)"

lemma strip_suffix_eq_Some [text_simps]: "strip_suffix suf s = Some p \<longleftrightarrow> s = p @ suf"
  by (auto simp: strip_suffix_def suffix_def)

lemma strip_prefix_eq_Some [text_simps]: "strip_prefix pre s = Some p \<longleftrightarrow> s = pre @ p"
  by (auto simp: strip_prefix_def prefix_def)

lemma split_once_eq_Some [text_simps]:
  "split_once c s = Some (a, b) \<longleftrightarrow> s = a @ c # b \<and> c \<notin> set a"
  by (induction s arbitrary: a b) (auto simp: Cons_eq_append_conv)

lemma split_once_eq_None [text_simps]: "split_once c s = None \<longleftrightarrow> c \<notin> set s"
  by (induction s) auto

lemma rsplit_once_eq_Some [text_simps]:
  "rsplit_once c s = Some (a, b) \<longleftrightarrow> s = a @ c # b \<and> c \<notin> set b"
proof -
  have "rev s = rev b @ c # rev a \<longleftrightarrow> s = a @ c # b"
    by (metis append_Cons append_Nil append_assoc rev.simps(2) rev_append rev_rev_ident)
  then show ?thesis
    by (auto simp: rsplit_once_def text_simps) (metis rev_swap set_rev)+
qed

text \<open>Bytes of ASCII text are their own scalar values.\<close>

lemma chars_of_ascii: "list_all is_ascii s \<Longrightarrow> chars_of s = map of_char s"
  by (induction s) (auto simp: is_ascii_def)

section \<open>Ordered sets and maps\<close>

text \<open>
  \<open>BTreeSet\<close> is a strictly increasing list: iteration, \<open>first\<close> and \<open>pop_first\<close> follow the
  order, \<open>insert\<close> keeps it.  A Rust \<open>String\<close> is ordered by its bytes, which is the
  lexicographic order of \<open>List_Lexorder\<close> over \<open>Char_ord\<close>.
\<close>

abbreviation ascending :: "'a::linorder list \<Rightarrow> bool" where
  "ascending \<equiv> sorted_wrt (<)"

fun bt_insert :: "'a::linorder \<Rightarrow> 'a list \<Rightarrow> 'a list" where
  "bt_insert x [] = [x]"
| "bt_insert x (y # ys) =
     (if x < y then x # y # ys else if x = y then y # ys else y # bt_insert x ys)"

definition bt_remove :: "'a::linorder \<Rightarrow> 'a list \<Rightarrow> 'a list" where
  "bt_remove x xs = filter (\<lambda>y. y \<noteq> x) xs"

definition bt_of_list :: "'a::linorder list \<Rightarrow> 'a list" where
  "bt_of_list xs = fold bt_insert xs []"

definition bt_difference :: "'a::linorder list \<Rightarrow> 'a list \<Rightarrow> 'a list" where
  "bt_difference xs ys = filter (\<lambda>x. x \<notin> set ys) xs"

definition bt_subset :: "'a::linorder list \<Rightarrow> 'a list \<Rightarrow> bool" where
  "bt_subset xs ys \<longleftrightarrow> list_all (\<lambda>x. x \<in> set ys) xs"

lemma set_bt_insert [simp, ordered_simps]: "set (bt_insert x xs) = insert x (set xs)"
  by (induction xs) auto

lemma ascending_bt_insert [simp, intro]: "ascending xs \<Longrightarrow> ascending (bt_insert x xs)"
  by (induction xs) auto

lemma bt_insert_absorb: "ascending xs \<Longrightarrow> x \<in> set xs \<Longrightarrow> bt_insert x xs = xs"
  by (induction xs) auto

lemma length_bt_insert:
  "ascending xs \<Longrightarrow> length (bt_insert x xs) = (if x \<in> set xs then length xs else Suc (length xs))"
  by (induction xs) auto

lemma set_bt_remove [simp, ordered_simps]: "set (bt_remove x xs) = set xs - {x}"
  by (auto simp: bt_remove_def)

lemma ascending_bt_remove [simp, intro]: "ascending xs \<Longrightarrow> ascending (bt_remove x xs)"
  by (simp add: bt_remove_def sorted_wrt_filter)

lemma set_fold_bt_insert: "set (fold bt_insert xs acc) = set acc \<union> set xs"
  by (induction xs arbitrary: acc) auto

lemma ascending_fold_bt_insert: "ascending acc \<Longrightarrow> ascending (fold bt_insert xs acc)"
  by (induction xs arbitrary: acc) auto

lemma set_bt_of_list [simp, ordered_simps]: "set (bt_of_list xs) = set xs"
  by (simp add: bt_of_list_def set_fold_bt_insert)

lemma ascending_bt_of_list [simp, intro]: "ascending (bt_of_list xs)"
  by (simp add: bt_of_list_def ascending_fold_bt_insert)

lemma set_bt_difference [simp, ordered_simps]: "set (bt_difference xs ys) = set xs - set ys"
  by (auto simp: bt_difference_def)

lemma bt_difference_Nil_iff: "bt_difference xs ys = [] \<longleftrightarrow> set xs \<subseteq> set ys"
  by (auto simp: bt_difference_def filter_empty_conv)

lemma ascending_bt_difference [simp, intro]: "ascending xs \<Longrightarrow> ascending (bt_difference xs ys)"
  by (simp add: bt_difference_def sorted_wrt_filter)

lemma bt_subset_iff [simp, ordered_simps]: "bt_subset xs ys \<longleftrightarrow> set xs \<subseteq> set ys"
  by (auto simp: bt_subset_def list_all_iff)

lemma ascending_distinct [simp]: "ascending xs \<Longrightarrow> distinct xs"
  by (simp add: strict_sorted_iff)

lemma ascending_eqI: "ascending xs \<Longrightarrow> ascending ys \<Longrightarrow> set xs = set ys \<Longrightarrow> xs = ys"
  by (metis sorted_distinct_set_unique strict_sorted_iff)

text \<open>
  The contract of an ordered set, as the components use it; the lists above provide it.
  A client that only relies on these laws is insensitive to the representation.
\<close>

locale ordered_set =
  fixes empty :: 's
    and insert :: "'a::linorder \<Rightarrow> 's \<Rightarrow> 's"
    and remove :: "'a \<Rightarrow> 's \<Rightarrow> 's"
    and elems :: "'s \<Rightarrow> 'a list"
    and invar :: "'s \<Rightarrow> bool"
  assumes elems_empty: "elems empty = []"
    and invar_empty: "invar empty"
    and invar_insert: "invar s \<Longrightarrow> invar (insert x s)"
    and invar_remove: "invar s \<Longrightarrow> invar (remove x s)"
    and elems_insert: "invar s \<Longrightarrow> set (elems (insert x s)) = Set.insert x (set (elems s))"
    and elems_remove: "invar s \<Longrightarrow> set (elems (remove x s)) = set (elems s) - {x}"
    and elems_ascending: "invar s \<Longrightarrow> ascending (elems s)"
begin

lemma first_is_Min: "invar s \<Longrightarrow> elems s = x # xs \<Longrightarrow> x = Min (set (elems s))"
  using elems_ascending [of s] by (auto intro!: Min_eqI [symmetric])

lemma pop_first: "invar s \<Longrightarrow> elems s = x # xs \<Longrightarrow> elems (remove x s) = xs"
  using elems_ascending [of s] elems_ascending [of "remove x s"] invar_remove [of s x]
    elems_remove [of s x]
  by (intro ascending_eqI) auto

lemma insert_remove: "invar s \<Longrightarrow> x \<in> set (elems s) \<Longrightarrow> elems (insert x (remove x s)) = elems s"
  by (intro ascending_eqI)
     (auto simp: elems_insert elems_remove invar_insert invar_remove elems_ascending)

lemma remove_insert_fresh:
  "invar s \<Longrightarrow> x \<notin> set (elems s) \<Longrightarrow> elems (remove x (insert x s)) = elems s"
  by (intro ascending_eqI)
     (auto simp: elems_insert elems_remove invar_insert invar_remove elems_ascending)

end

interpretation btset: ordered_set "[]" bt_insert bt_remove "\<lambda>s. s" ascending
  by unfold_locales auto

section \<open>Hash maps and their visiting order\<close>

text \<open>
  A \<open>HashMap\<close> is a partial map.  Its iteration order is unspecified, so an operation that
  iterates takes the order as an argument \<open>ks\<close>, of which it may only rely on \<open>visits ks m\<close>:
  every key once.  A theorem that holds for every \<open>ks\<close> holds for every hasher.
\<close>

definition visits :: "'k list \<Rightarrow> ('k \<rightharpoonup> 'v) \<Rightarrow> bool" where
  "visits ks m \<longleftrightarrow> distinct ks \<and> set ks = dom m"

definition hm_values :: "'k list \<Rightarrow> ('k \<rightharpoonup> 'v) \<Rightarrow> 'v list" where
  "hm_values ks m = List.map_filter m ks"

lemma set_hm_values: "visits ks m \<Longrightarrow> set (hm_values ks m) = ran m"
  by (force simp: hm_values_def visits_def List.map_filter_def ran_def dom_def image_def)

lemma length_hm_values: "visits ks m \<Longrightarrow> length (hm_values ks m) = card (dom m)"
proof -
  assume v: "visits ks m"
  then have "\<forall>k \<in> set ks. m k \<noteq> None" by (auto simp: visits_def)
  then have "length (List.map_filter m ks) = length ks"
    by (induction ks) (auto simp: map_filter_simps)
  with v show ?thesis
    by (metis distinct_card hm_values_def visits_def)
qed

section \<open>Sorting with a comparator\<close>

text \<open>
  \<open>slice::sort_by\<close> and \<open>sort_by_key\<close> are stable; for a total preorder \<open>le\<close> the result is the
  one of this insertion sort.  \<open>le a b\<close> is \<open>cmp(a, b) != Greater\<close>.
\<close>

fun insert_by :: "('a \<Rightarrow> 'a \<Rightarrow> bool) \<Rightarrow> 'a \<Rightarrow> 'a list \<Rightarrow> 'a list" where
  "insert_by le x [] = [x]"
| "insert_by le x (y # ys) = (if le x y then x # y # ys else y # insert_by le x ys)"

definition sort_by :: "('a \<Rightarrow> 'a \<Rightarrow> bool) \<Rightarrow> 'a list \<Rightarrow> 'a list" where
  "sort_by le xs = foldr (insert_by le) xs []"

lemma sort_by_simps [simp]:
  "sort_by le [] = []"
  "sort_by le (x # xs) = insert_by le x (sort_by le xs)"
  by (simp_all add: sort_by_def)

lemma set_insert_by [simp]: "set (insert_by le x xs) = insert x (set xs)"
  by (induction xs) auto

lemma set_sort_by [simp]: "set (sort_by le xs) = set xs"
  by (induction xs) auto

lemma length_insert_by [simp]: "length (insert_by le x xs) = Suc (length xs)"
  by (induction xs) auto

lemma length_sort_by [simp]: "length (sort_by le xs) = length xs"
  by (induction xs) auto

lemma sort_by_eq_Nil_iff [simp]: "sort_by le xs = [] \<longleftrightarrow> xs = []"
  by (metis length_0_conv length_sort_by)

lemma distinct_insert_by [simp]: "distinct (insert_by le x xs) \<longleftrightarrow> x \<notin> set xs \<and> distinct xs"
  by (induction xs) auto

lemma distinct_sort_by [simp]: "distinct (sort_by le xs) \<longleftrightarrow> distinct xs"
  by (induction xs) auto

text \<open>The laws a Rust comparator must obey for its sort to be specified.\<close>

locale comparator =
  fixes le :: "'a \<Rightarrow> 'a \<Rightarrow> bool"
  assumes le_total: "le a b \<or> le b a"
    and le_trans: "le a b \<Longrightarrow> le b c \<Longrightarrow> le a c"
begin

lemma le_refl: "le a a"
  using le_total [of a a] by simp

lemma sorted_insert_by: "sorted_wrt le xs \<Longrightarrow> sorted_wrt le (insert_by le x xs)"
proof (induction xs)
  case Nil
  show ?case by simp
next
  case (Cons y ys)
  then show ?case
    using le_total [of x y] by (auto intro: le_trans)
qed

lemma sorted_sort_by: "sorted_wrt le (sort_by le xs)"
  by (induction xs) (simp_all add: sorted_insert_by)

lemma hd_sort_by_least: "sort_by le xs = y # ys \<Longrightarrow> x \<in> set xs \<Longrightarrow> le y x"
  using sorted_sort_by [of xs] set_sort_by [of le xs, symmetric] by (auto simp: le_refl)

lemma insert_by_hd: "\<forall>y \<in> set ys. le x y \<Longrightarrow> insert_by le x ys = x # ys"
  by (cases ys) auto

lemma sort_by_idem: "sorted_wrt le xs \<Longrightarrow> sort_by le xs = xs"
  by (induction xs) (auto simp: insert_by_hd)

end

lemma comparator_key: "comparator (\<lambda>a b. f a \<le> (f b :: 'k::linorder))"
  by unfold_locales auto

section \<open>Ordered maps\<close>

text \<open>\<open>BTreeMap\<close> is an association list with strictly increasing keys; \<open>get\<close> is \<open>map_of\<close>.\<close>

fun bm_insert :: "'k::linorder \<Rightarrow> 'v \<Rightarrow> ('k \<times> 'v) list \<Rightarrow> ('k \<times> 'v) list" where
  "bm_insert k v [] = [(k, v)]"
| "bm_insert k v ((k', v') # m) =
     (if k < k' then (k, v) # (k', v') # m
      else if k = k' then (k, v) # m
      else (k', v') # bm_insert k v m)"

definition bm_modify :: "'k \<Rightarrow> ('v \<Rightarrow> 'v) \<Rightarrow> ('k \<times> 'v) list \<Rightarrow> ('k \<times> 'v) list" where
  "bm_modify k f m = map (\<lambda>(k', v). (k', if k' = k then f v else v)) m"

text \<open>\<open>*map.entry(k).or_default()\<close> followed by an update.\<close>

definition bm_upsert :: "'k::linorder \<Rightarrow> 'v \<Rightarrow> ('v \<Rightarrow> 'v) \<Rightarrow> ('k \<times> 'v) list \<Rightarrow> ('k \<times> 'v) list" where
  "bm_upsert k d f m = bm_insert k (f (case map_of m k of None \<Rightarrow> d | Some v \<Rightarrow> v)) m"

lemma map_of_bm_insert [simp, ordered_simps]: "map_of (bm_insert k v m) = (map_of m)(k \<mapsto> v)"
  by (induction m) (auto simp: fun_eq_iff)

lemma keys_bm_insert [ordered_simps]: "map fst (bm_insert k v m) = bt_insert k (map fst m)"
  by (induction m) auto

lemma map_of_bm_modify [simp, ordered_simps]:
  "map_of (bm_modify k f m) = (map_of m)(k := map_option f (map_of m k))"
  by (induction m) (auto simp: bm_modify_def fun_eq_iff)

lemma keys_bm_modify [simp, ordered_simps]: "map fst (bm_modify k f m) = map fst m"
  by (induction m) (auto simp: bm_modify_def)

lemma map_of_bm_upsert [simp, ordered_simps]:
  "map_of (bm_upsert k d f m) =
     (map_of m)(k \<mapsto> f (case map_of m k of None \<Rightarrow> d | Some v \<Rightarrow> v))"
  by (simp add: bm_upsert_def)

lemma keys_bm_upsert [ordered_simps]: "map fst (bm_upsert k d f m) = bt_insert k (map fst m)"
  by (simp add: bm_upsert_def keys_bm_insert)

lemma set_bm_insert: "set (bm_insert k v m) \<subseteq> insert (k, v) (set m)"
  by (induction m) (auto split: if_splits)

end
