(* ===== verification/Bundle_Ids.thy ===== *)
theory Bundle_Ids
  imports Gadgetron_Prelude
begin

text \<open>
  Identifiers of the public Bundle contract: \<open>crates/gadgetron-bundle-sdk/src/id.rs\<close>.

  Each \<open>string_newtype!\<close> of the source is a string that its validator accepted; the
  validators return the source's reason strings in the source's order of checks.  The
  lemmas say which strings each validator accepts, that dotted names decompose into
  valid segments, and that an accepted relative path cannot leave its package.
\<close>

section \<open>Errors\<close>

text \<open>The payload of \<open>ManifestToml\<close> is the rendered error of the TOML parser.\<close>

datatype bundle_sdk_error =
    ManifestToml string
  | UnsupportedManifestVersion (found: u32) (ver_minimum: u32) (ver_maximum: u32)
  | InvalidIdentifier (id_kind: string) (id_value: string) (id_reason: string)
  | InvalidManifest (man_field: string) (man_reason: string)
  | IncompatibleCore (core_required: string) (core_current: string)
  | IncompatibleProtocol (proto_minimum: u32) (proto_maximum: u32) (proto_current: u32)
  | InvalidProtocol (proto_field: string) (proto_reason: string)

abbreviation MAX_ID_LEN :: nat where "MAX_ID_LEN \<equiv> 64"
abbreviation MAX_GADGET_NAME_LEN :: nat where "MAX_GADGET_NAME_LEN \<equiv> 128"
abbreviation MAX_CAPABILITY_ID_LEN :: nat where "MAX_CAPABILITY_ID_LEN \<equiv> 160"
abbreviation MAX_RELATIVE_PATH_LEN :: nat where "MAX_RELATIVE_PATH_LEN \<equiv> 256"

section \<open>Validators\<close>

definition is_kebab_char :: "char \<Rightarrow> bool" where
  "is_kebab_char c \<longleftrightarrow> is_ascii_lowercase c \<or> is_ascii_digit c \<or> c = CHR ''-''"

definition validate_kebab_id :: "string \<Rightarrow> (string, unit) result" where
  "validate_kebab_id s =
     (if s = [] \<or> length s > MAX_ID_LEN then Inl ''must contain 1-64 ASCII characters''
      else if \<not> list_all is_ascii s then Inl ''must be ASCII lowercase kebab-case''
      else if prefix ''-'' s \<or> suffix ''-'' s \<or> sublist ''--'' s
      then Inl (''must not start/end with '-' or contain consecutive '-'' @ [CHR 0x27])
      else if \<not> list_all is_kebab_char s then Inl ''allowed characters are [a-z0-9-]''
      else Inr ())"

definition validate_legacy_bundle_id :: "string \<Rightarrow> (string, unit) result" where
  "validate_legacy_bundle_id s =
     (if s = [] \<or> length s > MAX_ID_LEN then Inl ''must contain 1-64 ASCII characters''
      else if \<not> list_all (\<lambda>c. is_ascii_lowercase c \<or> is_ascii_uppercase c \<or> is_ascii_digit c
                  \<or> c = CHR ''-'' \<or> c = CHR ''_'') s
      then Inl ''allowed characters are [a-zA-Z0-9_-]''
      else Inr ())"

definition validate_gadget_name :: "string \<Rightarrow> (string, unit) result" where
  "validate_gadget_name s =
     (if s = [] \<or> length s > MAX_GADGET_NAME_LEN then Inl ''must contain 1-128 ASCII characters''
      else (case split_on CHR ''.'' s of
          [] \<Rightarrow> Inl (''must contain a namespace and action separated by '.'' @ [CHR 0x27])
        | [namespace] \<Rightarrow> Inl (''must contain a namespace and action separated by '.'' @ [CHR 0x27])
        | namespace # action # parts \<Rightarrow>
            if \<not> is_ok (validate_kebab_id namespace) \<or> \<not> is_ok (validate_kebab_id action)
            then Inl ''each dotted segment must be lowercase kebab-case''
            else try_each (\<lambda>part. check (is_ok (validate_kebab_id part))
                   ''each dotted segment must be lowercase kebab-case'') parts))"

definition validate_capability_id :: "string \<Rightarrow> (string, unit) result" where
  "validate_capability_id s =
     (if s = [] \<or> length s > MAX_CAPABILITY_ID_LEN
      then Inl ''must contain 1-160 ASCII characters''
      else let parts = split_on CHR ''.'' s in
        if length parts < 2 \<or> list_ex (\<lambda>part. \<not> is_ok (validate_kebab_id part)) parts
        then Inl (''must contain at least two lowercase kebab-case segments separated by '.'' @ [CHR 0x27])
        else Inr ())"

definition validate_relative_path :: "string \<Rightarrow> (string, unit) result" where
  "validate_relative_path s =
     (if s = [] \<or> length s > MAX_RELATIVE_PATH_LEN then Inl ''must contain 1-256 characters''
      else if \<not> list_all is_ascii s \<or> list_ex is_ascii_control s
      then Inl ''must be printable ASCII''
      else if prefix ''/'' s \<or> CHR 0x5C \<in> set s then Inl ''must be a portable relative path''
      else if list_ex (\<lambda>part. part = [] \<or> part = ''.'' \<or> part = ''..'') (split_on CHR ''/'' s)
      then Inl ''must not contain empty, '.' or '..' path components''
      else Inr ())"

section \<open>Constructors\<close>

definition string_newtype_new ::
  "string \<Rightarrow> (string \<Rightarrow> (string, unit) result) \<Rightarrow> string \<Rightarrow> (bundle_sdk_error, string) result" where
  "string_newtype_new kind validator s =
     (case validator s of Inl reason \<Rightarrow> Inl (InvalidIdentifier kind s reason) | Inr _ \<Rightarrow> Inr s)"

definition bundle_id_new :: "string \<Rightarrow> (bundle_sdk_error, string) result" where
  "bundle_id_new = string_newtype_new ''Bundle id'' validate_kebab_id"

definition local_id_new :: "string \<Rightarrow> (bundle_sdk_error, string) result" where
  "local_id_new = string_newtype_new ''local id'' validate_kebab_id"

definition gadget_name_new :: "string \<Rightarrow> (bundle_sdk_error, string) result" where
  "gadget_name_new = string_newtype_new ''Gadget name'' validate_gadget_name"

definition capability_id_new :: "string \<Rightarrow> (bundle_sdk_error, string) result" where
  "capability_id_new = string_newtype_new ''capability id'' validate_capability_id"

definition relative_path_new :: "string \<Rightarrow> (bundle_sdk_error, string) result" where
  "relative_path_new = string_newtype_new ''relative package path'' validate_relative_path"

definition parse_legacy :: "string \<Rightarrow> (bundle_sdk_error, string) result" where
  "parse_legacy = string_newtype_new ''legacy Bundle id'' validate_legacy_bundle_id"

definition gadget_namespace :: "string \<Rightarrow> string" where
  "gadget_namespace name = (case split_on CHR ''.'' name of [] \<Rightarrow> [] | p # _ \<Rightarrow> p)"

text \<open>Identifiers hold no character that \<open>{:?}\<close> would escape, so it only adds the quotes.\<close>

definition debug_id :: "string \<Rightarrow> string" where
  "debug_id s = CHR 0x22 # s @ [CHR 0x22]"

section \<open>What the validators accept\<close>

lemma string_newtype_new_eq_Inr [text_simps]:
  "string_newtype_new kind v s = Inr t \<longleftrightarrow> v s = Inr () \<and> t = s"
  by (auto simp: string_newtype_new_def split: sum.splits)

lemma kebab_char_is_ascii: "is_kebab_char c \<Longrightarrow> is_ascii c"
  by (auto simp: is_kebab_char_def ascii_class_defs)

lemma list_all_kebab_is_ascii: "list_all is_kebab_char s \<Longrightarrow> list_all is_ascii s"
  by (auto simp: list_all_iff kebab_char_is_ascii)

lemma validate_kebab_id_ok [text_simps]:
  "validate_kebab_id s = Inr u \<longleftrightarrow>
     s \<noteq> [] \<and> length s \<le> MAX_ID_LEN \<and> list_all is_kebab_char s
     \<and> \<not> prefix ''-'' s \<and> \<not> suffix ''-'' s \<and> \<not> sublist ''--'' s"
  using list_all_kebab_is_ascii [of s] by (auto simp: validate_kebab_id_def)

lemma is_ok_kebab: "is_ok (validate_kebab_id s) \<longleftrightarrow> validate_kebab_id s = Inr ()"
  by (auto simp: is_ok_iff)

lemma validate_gadget_name_ok:
  "validate_gadget_name s = Inr u \<longleftrightarrow>
     length s \<le> MAX_GADGET_NAME_LEN \<and> 2 \<le> length (split_on CHR ''.'' s)
     \<and> (\<forall>p \<in> set (split_on CHR ''.'' s). validate_kebab_id p = Inr ())"
  by (auto simp: validate_gadget_name_def result_simps is_ok_kebab check_def
      split: list.splits if_splits)

lemma validate_capability_id_ok:
  "validate_capability_id s = Inr u \<longleftrightarrow>
     length s \<le> MAX_CAPABILITY_ID_LEN \<and> 2 \<le> length (split_on CHR ''.'' s)
     \<and> (\<forall>p \<in> set (split_on CHR ''.'' s). validate_kebab_id p = Inr ())"
  by (auto simp: validate_capability_id_def is_ok_kebab Let_def list_ex_iff)

section \<open>Dotted names\<close>

text \<open>
  An accepted Gadget name has a namespace that is itself a valid kebab-case
  identifier, and the name is that namespace, a dot, and the remaining segments: the
  namespace read off a name is the one it was built from.
\<close>

lemma gadget_name_namespace:
  assumes "gadget_name_new s = Inr name"
  shows "validate_kebab_id (gadget_namespace name) = Inr ()
    \<and> (\<exists>rest. rest \<noteq> [] \<and> name = join_with ''.'' (gadget_namespace name # rest)
        \<and> (\<forall>p \<in> set rest. validate_kebab_id p = Inr ()))"
proof -
  from assms have s: "validate_gadget_name s = Inr ()" and name: "name = s"
    by (auto simp: gadget_name_new_def text_simps)
  then obtain p q ps where parts: "split_on CHR ''.'' s = p # q # ps"
    by (cases "split_on CHR ''.'' s"; cases "tl (split_on CHR ''.'' s)")
       (auto simp: validate_gadget_name_ok)
  with s name show ?thesis
    using join_split_on [of "CHR ''.''" s]
    by (auto simp: validate_gadget_name_ok gadget_namespace_def intro!: exI [of _ "q # ps"])
qed

section \<open>Package paths\<close>

text \<open>
  The meaning of a relative path: the directory reached from \<open>base\<close> by following the
  components, where \<open>..\<close> leaves a directory and \<open>.\<close> and the empty component stay.
\<close>

fun walk :: "string list \<Rightarrow> string list \<Rightarrow> string list" where
  "walk base [] = base"
| "walk base (c # cs) =
     walk (if c = ''..'' then butlast base else if c = ''.'' \<or> c = [] then base else base @ [c]) cs"

lemma walk_plain:
  "\<forall>c \<in> set cs. c \<noteq> [] \<and> c \<noteq> ''.'' \<and> c \<noteq> ''..'' \<Longrightarrow> walk base cs = base @ cs"
  by (induction cs arbitrary: base) auto

lemma validate_relative_path_components:
  "validate_relative_path s = Inr u \<Longrightarrow> c \<in> set (split_on CHR ''/'' s) \<Longrightarrow>
     c \<noteq> [] \<and> c \<noteq> ''.'' \<and> c \<noteq> ''..''"
  by (auto simp: validate_relative_path_def list_ex_iff split: if_splits)

lemma printable_ascii: "is_ascii c \<Longrightarrow> \<not> is_ascii_control c \<Longrightarrow> 32 \<le> byte c \<and> byte c < 127"
  unfolding is_ascii_def is_ascii_control_def by linarith

text \<open>
  A path accepted for a package names a place strictly below the package directory,
  wherever that is: every prefix of its components stays below the base, no component
  steps out, the path is printable ASCII of at most 256 bytes and holds no backslash.
\<close>

lemma relative_path_contained:
  assumes "relative_path_new s = Inr p"
  shows "walk base (take n (split_on CHR ''/'' p)) = base @ take n (split_on CHR ''/'' p)
    \<and> strict_prefix base (walk base (split_on CHR ''/'' p))
    \<and> join_with ''/'' (split_on CHR ''/'' p) = s
    \<and> CHR 0x5C \<notin> set p \<and> length p \<le> MAX_RELATIVE_PATH_LEN
    \<and> list_all (\<lambda>c. 32 \<le> byte c \<and> byte c < 127) p"
proof -
  from assms have v: "validate_relative_path s = Inr ()" and p: "p = s"
    by (auto simp: relative_path_new_def text_simps)
  have plain: "\<forall>c \<in> set (split_on CHR ''/'' s). c \<noteq> [] \<and> c \<noteq> ''.'' \<and> c \<noteq> ''..''"
    using validate_relative_path_components [OF v] by blast
  then have "walk base (take n (split_on CHR ''/'' s)) = base @ take n (split_on CHR ''/'' s)"
    by (intro walk_plain) (meson in_set_takeD)
  moreover from plain have "walk base (split_on CHR ''/'' s) = base @ split_on CHR ''/'' s"
    by (rule walk_plain)
  moreover from v have "CHR 0x5C \<notin> set s \<and> length s \<le> MAX_RELATIVE_PATH_LEN
      \<and> list_all (\<lambda>c. 32 \<le> byte c \<and> byte c < 127) s"
    by (simp add: validate_relative_path_def list_all_iff list_ex_iff printable_ascii
        split: if_splits)
  ultimately show ?thesis
    using p join_split_on [of "CHR ''/''" s] by (auto simp: strict_prefix_def)
qed

lemma relative_path_contained_example:
  "walk [''opt'', ''pkg''] (take 1 (split_on CHR ''/'' ''bin/run'')) = [''opt'', ''pkg''] @ take 1 (split_on CHR ''/'' ''bin/run'')
    \<and> strict_prefix [''opt'', ''pkg''] (walk [''opt'', ''pkg''] (split_on CHR ''/'' ''bin/run''))
    \<and> join_with ''/'' (split_on CHR ''/'' ''bin/run'') = ''bin/run''
    \<and> CHR 0x5C \<notin> set ''bin/run'' \<and> length ''bin/run'' \<le> MAX_RELATIVE_PATH_LEN
    \<and> list_all (\<lambda>c. 32 \<le> byte c \<and> byte c < 127) ''bin/run''"
proof -
  have h: "relative_path_new ''bin/run'' = Inr ''bin/run''"
    by code_simp
  show ?thesis by (rule relative_path_contained [OF h])
qed

end
