(* ===== verification/Bundle_Order.thy ===== *)
theory Bundle_Order
  imports Gadgetron_Prelude
begin

text \<open>
  The enable order of Bundles: \<open>topological_order\<close> and \<open>participates_in_cycle\<close> of
  \<open>crates/gadgetron-bundle-sdk/src/dependency.rs\<close>, over any ordered key.

  \<open>edges\<close> maps a provider to the set of its consumers.  The source asserts two facts with
  \<open>expect\<close> and an unchecked decrement; a violated assertion is the value \<open>None\<close> here, and
  \<open>topological_order_total\<close> shows it never happens.  The main lemmas: the order lists
  every desired Bundle once with providers first exactly when the edges are acyclic, and
  otherwise the reported set is exactly the Bundles on a cycle.
\<close>

section \<open>The routine\<close>

type_synonym 'a edge_map = "('a \<times> 'a list) list"

definition consumers_of :: "'a edge_map \<Rightarrow> 'a \<Rightarrow> 'a list" where
  "consumers_of edges p = (case map_of edges p of None \<Rightarrow> [] | Some cs \<Rightarrow> cs)"

definition indegrees :: "'a::linorder list \<Rightarrow> 'a edge_map \<Rightarrow> ('a \<times> nat) list" where
  "indegrees desired edges =
     fold (\<lambda>c m. bm_upsert c 0 Suc m) (concat (map snd edges)) (map (\<lambda>b. (b, 0)) desired)"

fun relax :: "'a::linorder list \<Rightarrow> ('a \<times> nat) list \<Rightarrow> 'a list
    \<Rightarrow> (('a \<times> nat) list \<times> 'a list) option" where
  "relax [] indegree ready = Some (indegree, ready)"
| "relax (c # cs) indegree ready =
     (case map_of indegree c of
        None \<Rightarrow> None
      | Some degree \<Rightarrow>
          if degree = 0 then None
          else relax cs (bm_modify c (\<lambda>d. d - 1) indegree)
                 (if degree - 1 = 0 then bt_insert c ready else ready))"

definition degree_sum :: "('a \<times> nat) list \<Rightarrow> nat" where
  "degree_sum m = sum_list (map snd m)"

lemma length_bt_insert_le: "length (bt_insert x xs) \<le> Suc (length xs)"
  by (induction xs) auto

lemma degree_sum_decrement_le: "degree_sum (bm_modify c (\<lambda>d. d - 1) m) \<le> degree_sum m"
  by (induction m) (auto simp: degree_sum_def bm_modify_def)

lemma degree_sum_decrement:
  "map_of m c = Some d \<Longrightarrow> 0 < d \<Longrightarrow> degree_sum (bm_modify c (\<lambda>d. d - 1) m) < degree_sum m"
proof (induction m)
  case Nil
  then show ?case by simp
next
  case (Cons kv m)
  then show ?case
    using degree_sum_decrement_le [of c m]
    by (cases kv) (auto simp: degree_sum_def bm_modify_def split: if_splits)
qed

lemma relax_measure:
  "relax cs ind ready = Some (ind', ready') \<Longrightarrow>
     degree_sum ind' + length ready' \<le> degree_sum ind + length ready"
proof (induction cs ind ready rule: relax.induct)
  case (1 ind ready)
  then show ?case by simp
next
  case (2 c cs ind ready)
  then obtain d where d: "map_of ind c = Some d" "0 < d"
    by (auto split: option.splits if_splits)
  with 2 have "degree_sum ind' + length ready' \<le>
      degree_sum (bm_modify c (\<lambda>d. d - 1) ind) + length (if d - 1 = 0 then bt_insert c ready else ready)"
    by simp
  then show ?case
    using degree_sum_decrement [OF d] length_bt_insert_le [of c ready]
    by (auto split: if_splits)
qed

text \<open>The main loop pops the least ready Bundle and relaxes its consumers.\<close>

function kahn :: "'a::linorder edge_map \<Rightarrow> ('a \<times> nat) list \<Rightarrow> 'a list \<Rightarrow> 'a list \<Rightarrow> 'a list option" where
  "kahn edges indegree [] order = Some order"
| "kahn edges indegree (b # ready) order =
     (case relax (consumers_of edges b) indegree ready of
        None \<Rightarrow> None
      | Some (indegree', ready') \<Rightarrow> kahn edges indegree' ready' (order @ [b]))"
  by pat_completeness auto
termination
  by (relation "measure (\<lambda>(edges, ind, ready, order). degree_sum ind + length ready)")
     (auto dest!: relax_measure)

definition successors_in :: "'a edge_map \<Rightarrow> 'a list \<Rightarrow> 'a \<Rightarrow> 'a list" where
  "successors_in edges unresolved b = filter (\<lambda>n. n \<in> set unresolved) (consumers_of edges b)"

text \<open>
  The depth-first search for a way back to \<open>start\<close>.  \<open>pending\<close> is the vector with its last
  element (the next to pop) first.
\<close>

definition edge_targets :: "'a edge_map \<Rightarrow> 'a set" where
  "edge_targets edges = set (concat (map snd edges))"

lemma consumers_ofE:
  assumes "c \<in> set (consumers_of edges p)"
  obtains cs where "(p, cs) \<in> set edges" and "c \<in> set cs"
  using assms by (cases "map_of edges p") (auto simp: consumers_of_def dest: map_of_SomeD)

lemma consumers_of_targets: "set (consumers_of edges b) \<subseteq> edge_targets edges"
  by (force simp: edge_targets_def elim: consumers_ofE)

lemma finite_edge_targets [simp]: "finite (edge_targets edges)"
  by (simp add: edge_targets_def)

function cycle_search :: "'a::linorder \<Rightarrow> 'a list \<Rightarrow> 'a edge_map \<Rightarrow> 'a list \<Rightarrow> 'a list \<Rightarrow> bool" where
  "cycle_search start unresolved edges visited [] = False"
| "cycle_search start unresolved edges visited (b # pending) =
     (if b = start then True
      else if b \<in> set visited then cycle_search start unresolved edges visited pending
      else cycle_search start unresolved edges (bt_insert b visited)
             (rev (successors_in edges unresolved b) @ pending))"
  by pat_completeness auto
termination
proof (relation "measures [\<lambda>(start, unresolved, edges, visited, pending).
      card ((edge_targets edges \<union> set pending) - set visited),
      \<lambda>(start, unresolved, edges, visited, pending). length pending]", goal_cases)
  case 1
  show ?case by simp
next
  case (2 start unresolved edges visited b pending)
  then have "(edge_targets edges \<union> set pending) - set visited
      = (edge_targets edges \<union> set (b # pending)) - set visited"
    by auto
  then show ?case by simp
next
  case (3 start unresolved edges visited b pending)
  then have "(edge_targets edges \<union> set (rev (successors_in edges unresolved b) @ pending)) - set (bt_insert b visited)
      \<subset> (edge_targets edges \<union> set (b # pending)) - set visited"
    using consumers_of_targets [of edges b] by (auto simp: successors_in_def)
  then show ?case by (simp add: psubset_card_mono)
qed

definition participates_in_cycle :: "'a::linorder \<Rightarrow> 'a list \<Rightarrow> 'a edge_map \<Rightarrow> bool" where
  "participates_in_cycle start unresolved edges =
     cycle_search start unresolved edges [] (rev (successors_in edges unresolved start))"

definition topological_order ::
  "'a::linorder list \<Rightarrow> 'a edge_map \<Rightarrow> ('a list \<times> 'a list option) option" where
  "topological_order desired edges =
     (let indegree = indegrees desired edges;
          ready = map fst (filter (\<lambda>(b, degree). degree = 0) indegree)
      in case kahn edges indegree ready [] of
           None \<Rightarrow> None
         | Some order \<Rightarrow>
             if length order = length desired then Some (order, None)
             else let unresolved = bt_difference desired (bt_of_list order)
                  in Some ([], Some (filter (\<lambda>b. participates_in_cycle b unresolved edges) unresolved)))"

section \<open>The graph behind the edge map\<close>

definition edge_rel :: "'a edge_map \<Rightarrow> 'a rel" where
  "edge_rel edges = {(p, c). c \<in> set (consumers_of edges p)}"

definition preds :: "'a edge_map \<Rightarrow> 'a \<Rightarrow> 'a set" where
  "preds edges c = {p. (p, c) \<in> edge_rel edges}"

definition wf_edges :: "'a::linorder list \<Rightarrow> 'a edge_map \<Rightarrow> bool" where
  "wf_edges desired edges \<longleftrightarrow>
     ascending desired \<and> distinct (map fst edges) \<and> set (map fst edges) \<subseteq> set desired
     \<and> list_all (\<lambda>(p, cs). distinct cs \<and> set cs \<subseteq> set desired) edges"

lemma preds_iff: "p \<in> preds edges c \<longleftrightarrow> c \<in> set (consumers_of edges p)"
  by (simp add: preds_def edge_rel_def)

lemma wf_edges_consumers:
  "wf_edges desired edges \<Longrightarrow> distinct (consumers_of edges p) \<and> set (consumers_of edges p) \<subseteq> set desired"
  by (fastforce simp: wf_edges_def consumers_of_def list_all_iff dest: map_of_SomeD split: option.splits)

lemma wf_edges_preds: "wf_edges desired edges \<Longrightarrow> preds edges c \<subseteq> set desired"
  by (force simp: wf_edges_def preds_iff elim: consumers_ofE)

lemma finite_preds: "wf_edges desired edges \<Longrightarrow> finite (preds edges c)"
  by (meson finite_set finite_subset wf_edges_preds)

lemma edge_rel_in_desired:
  "wf_edges desired edges \<Longrightarrow> (p, c) \<in> edge_rel edges \<Longrightarrow> p \<in> set desired \<and> c \<in> set desired"
  using wf_edges_preds [of desired edges c] wf_edges_consumers [of desired edges p]
  by (auto simp: preds_iff edge_rel_def)

lemma finite_edge_rel: "wf_edges desired edges \<Longrightarrow> finite (edge_rel edges)"
  by (rule finite_subset [of _ "set desired \<times> set desired"]) (auto dest: edge_rel_in_desired)

subsection \<open>Initial degrees\<close>

lemma count_distinct: "distinct xs \<Longrightarrow> count_list xs x = (if x \<in> set xs then 1 else 0)"
  by (induction xs) auto

lemma count_edges:
  "distinct (map fst edges) \<Longrightarrow> list_all (\<lambda>(p, cs). distinct cs) edges \<Longrightarrow>
     count_list (concat (map snd edges)) c = card (preds edges c)"
proof (induction edges)
  case Nil
  show ?case by (simp add: preds_def edge_rel_def consumers_of_def)
next
  case (Cons e edges)
  obtain p cs where e: "e = (p, cs)" by (cases e)
  have p: "p \<notin> preds edges c"
    using Cons.prems(1) e by (force simp: preds_iff elim: consumers_ofE)
  have "finite (preds edges c)"
    by (rule finite_subset [of _ "fst ` set edges"])
       (force simp: preds_iff elim: consumers_ofE)+
  moreover have "preds (e # edges) c = (if c \<in> set cs then insert p (preds edges c) else preds edges c)"
    using p e by (auto simp: preds_iff consumers_of_def split: if_splits)
  ultimately show ?case
    using Cons p e by (simp add: count_distinct)
qed

lemma map_of_count_fold:
  "set cs \<subseteq> dom (map_of m) \<Longrightarrow>
     map_of (fold (\<lambda>c m. bm_upsert c 0 Suc m) cs m) x = map_option (\<lambda>n. n + count_list cs x) (map_of m x)"
proof (induction cs arbitrary: m)
  case Nil
  show ?case by (simp add: option.map_ident)
next
  case (Cons c cs)
  then have "set cs \<subseteq> dom (map_of (bm_upsert c 0 Suc m))" by auto
  from Cons.IH [OF this] Cons.prems show ?case
    by (auto split: option.splits)
qed

lemma keys_count_fold:
  "ascending (map fst m) \<Longrightarrow> set cs \<subseteq> set (map fst m) \<Longrightarrow>
     map fst (fold (\<lambda>c m. bm_upsert c 0 Suc m) cs m) = map fst m"
proof (induction cs arbitrary: m)
  case Nil
  show ?case by simp
next
  case (Cons c cs)
  then have "c \<in> set (map fst m)" by simp
  with Cons.prems(1) have k: "map fst (bm_upsert c 0 Suc m) = map fst m"
    by (simp only: keys_bm_upsert bt_insert_absorb)
  then have "map fst (fold (\<lambda>c m. bm_upsert c 0 Suc m) cs (bm_upsert c 0 Suc m)) = map fst m"
    using Cons.IH [of "bm_upsert c 0 Suc m"] Cons.prems by (simp flip: set_map)
  then show ?case by simp
qed

lemma wf_edges_targets: "wf_edges desired edges \<Longrightarrow> set (concat (map snd edges)) \<subseteq> set desired"
  by (fastforce simp: wf_edges_def list_all_iff)

lemma map_of_indegrees:
  assumes "wf_edges desired edges"
  shows "map_of (indegrees desired edges) c =
    (if c \<in> set desired then Some (card (preds edges c)) else None)"
proof -
  have m: "map_of (map (\<lambda>b. (b, 0::nat)) desired) x = (if x \<in> set desired then Some 0 else None)" for x
    by (induction desired) auto
  have "count_list (concat (map snd edges)) c = card (preds edges c)"
    using assms by (intro count_edges) (auto simp: wf_edges_def list_all_iff)
  moreover have "set (concat (map snd edges)) \<subseteq> dom (map_of (map (\<lambda>b. (b, 0::nat)) desired))"
    using wf_edges_targets [OF assms] by (auto simp: dom_def m)
  ultimately show ?thesis
    by (simp add: indegrees_def map_of_count_fold m)
qed

lemma keys_indegrees:
  assumes "wf_edges desired edges"
  shows "map fst (indegrees desired edges) = desired"
proof -
  have "map fst (map (\<lambda>b. (b, 0::nat)) desired) = desired"
    by (simp add: comp_def)
  then show ?thesis
    using assms wf_edges_targets [OF assms] unfolding indegrees_def
    by (subst keys_count_fold) (auto simp: wf_edges_def)
qed

subsection \<open>One round of relaxation\<close>

lemma relax_spec:
  assumes "distinct cs" and "ascending ready"
    and "\<forall>c \<in> set cs. \<exists>d > 0. map_of ind c = Some d"
  shows "\<exists>ind' ready'. relax cs ind ready = Some (ind', ready') \<and> ascending ready'
    \<and> set ready' = set ready \<union> {c \<in> set cs. map_of ind c = Some 1}
    \<and> (\<forall>x. map_of ind' x = (if x \<in> set cs then map_option (\<lambda>d. d - 1) (map_of ind x) else map_of ind x))"
  using assms
proof (induction cs arbitrary: ind ready)
  case Nil
  then show ?case by simp
next
  case (Cons c cs)
  then obtain d where d: "map_of ind c = Some d" "0 < d" by auto
  let ?ind = "bm_modify c (\<lambda>d. d - 1) ind"
  let ?ready = "if d - 1 = 0 then bt_insert c ready else ready"
  have "distinct cs" "ascending ?ready" "\<forall>x \<in> set cs. \<exists>d > 0. map_of ?ind x = Some d"
    using Cons.prems by auto
  from Cons.IH [OF this] obtain ind' ready' where IH: "relax cs ?ind ?ready = Some (ind', ready')"
    "ascending ready'" "set ready' = set ?ready \<union> {x \<in> set cs. map_of ?ind x = Some 1}"
    "\<forall>x. map_of ind' x = (if x \<in> set cs then map_option (\<lambda>d. d - 1) (map_of ?ind x) else map_of ?ind x)"
    by blast
  have "set ready' = set ready \<union> {x \<in> set (c # cs). map_of ind x = Some 1}"
    using IH(3) d Cons.prems(1) by auto
  moreover have "\<forall>x. map_of ind' x =
      (if x \<in> set (c # cs) then map_option (\<lambda>d. d - 1) (map_of ind x) else map_of ind x)"
    using IH(4) Cons.prems(1) by auto
  ultimately show ?case
    using IH(1,2) d by simp
qed

section \<open>The invariant of the main loop\<close>

text \<open>\<open>before xs a c\<close>: \<open>a\<close> stands at an earlier position of \<open>xs\<close> than \<open>c\<close>.\<close>

definition before :: "'a list \<Rightarrow> 'a \<Rightarrow> 'a \<Rightarrow> bool" where
  "before xs a c \<longleftrightarrow> (\<exists>i j. i < j \<and> j < length xs \<and> xs ! i = a \<and> xs ! j = c)"

lemma before_irrefl: "distinct xs \<Longrightarrow> \<not> before xs a a"
  by (auto simp: before_def nth_eq_iff_index_eq)

lemma before_trans: "distinct xs \<Longrightarrow> before xs a b \<Longrightarrow> before xs b c \<Longrightarrow> before xs a c"
  unfolding before_def by (metis less_trans nth_eq_iff_index_eq order_less_trans)

lemma before_append: "before xs a c \<Longrightarrow> before (xs @ ys) a c"
  unfolding before_def by (metis length_append nth_append order_less_trans trans_less_add1)

lemma before_last: "a \<in> set xs \<Longrightarrow> before (xs @ [c]) a c"
  unfolding before_def in_set_conv_nth
  by (metis length_append_singleton lessI nth_append nth_append_length)

lemma before_in_set: "before xs a c \<Longrightarrow> a \<in> set xs \<and> c \<in> set xs"
  by (auto simp: before_def)

lemma before_iff_split: "before xs a c \<longleftrightarrow> (\<exists>us vs ws. xs = us @ a # vs @ c # ws)"
proof
  assume "before xs a c"
  then obtain i j where ij: "i < j" "j < length xs" "xs ! i = a" "xs ! j = c"
    by (auto simp: before_def)
  then have "xs = take i xs @ a # drop (Suc i) xs"
    by (metis id_take_nth_drop order_less_trans)
  moreover have "drop (Suc i) xs = take (j - Suc i) (drop (Suc i) xs) @ c # drop (Suc j) xs"
    using ij id_take_nth_drop [of "j - Suc i" "drop (Suc i) xs"] by auto
  ultimately show "\<exists>us vs ws. xs = us @ a # vs @ c # ws" by metis
next
  assume "\<exists>us vs ws. xs = us @ a # vs @ c # ws"
  then obtain us vs ws where xs: "xs = us @ a # vs @ c # ws" by blast
  then show "before xs a c"
    unfolding before_def
    by (intro exI [of _ "length us"] exI [of _ "length us + Suc (length vs)"]) (simp add: nth_append)
qed

lemma before_filter: "before xs a c \<Longrightarrow> P a \<Longrightarrow> P c \<Longrightarrow> before (filter P xs) a c"
  unfolding before_iff_split by (clarsimp, metis)

definition kahn_inv :: "'a::linorder list \<Rightarrow> 'a edge_map \<Rightarrow> ('a \<times> nat) list \<Rightarrow> 'a list \<Rightarrow> 'a list \<Rightarrow> bool" where
  "kahn_inv desired edges ind ready order \<longleftrightarrow>
     ascending ready \<and> distinct order \<and> set ready \<inter> set order = {}
     \<and> set order \<union> set ready \<subseteq> set desired
     \<and> (\<forall>c. map_of ind c = (if c \<in> set desired then Some (card (preds edges c - set order)) else None))
     \<and> (\<forall>c \<in> set desired. c \<in> set order \<union> set ready \<longleftrightarrow> preds edges c \<subseteq> set order)
     \<and> (\<forall>c \<in> set order. \<forall>p \<in> preds edges c. before order p c)"

lemma kahn_inv_init:
  assumes "wf_edges desired edges"
  shows "kahn_inv desired edges (indegrees desired edges)
    (map fst (filter (\<lambda>(b, d). d = 0) (indegrees desired edges))) []"
proof -
  let ?ind = "indegrees desired edges"
  have asc: "ascending (map fst ?ind)"
    using assms by (simp add: keys_indegrees wf_edges_def)
  then have d: "distinct (map fst ?ind)" by (rule ascending_distinct)
  have "ascending (map fst (filter (\<lambda>(b, d). d = 0) ?ind))"
    using asc by (simp add: sorted_wrt_map sorted_wrt_filter)
  moreover have "set (map fst (filter (\<lambda>(b, d). d = 0) ?ind)) = {c \<in> set desired. preds edges c = {}}"
  proof -
    have "c \<in> set (map fst (filter (\<lambda>(b, d). d = 0) ?ind)) \<longleftrightarrow> map_of ?ind c = Some 0" for c
      using d by (force simp: map_of_eq_Some_iff)
    also have "map_of ?ind c = Some 0 \<longleftrightarrow> c \<in> {c \<in> set desired. preds edges c = {}}" for c
      using finite_preds [OF assms, of c] by (simp add: map_of_indegrees [OF assms])
    finally show ?thesis by blast
  qed
  ultimately show ?thesis
    by (simp add: kahn_inv_def map_of_indegrees [OF assms] flip: set_map)
qed

lemma card_eq_1_iff_singleton: "b \<in> A \<Longrightarrow> card A = 1 \<longleftrightarrow> A = {b}"
  by (metis card_1_singletonE is_singletonI is_singleton_altdef singletonD)

lemma kahn_inv_step:
  assumes wf: "wf_edges desired edges" and inv: "kahn_inv desired edges ind (b # ready) order"
  shows "\<exists>ind' ready'. relax (consumers_of edges b) ind ready = Some (ind', ready')
    \<and> kahn_inv desired edges ind' ready' (order @ [b])"
proof -
  let ?cs = "consumers_of edges b"
  note inv' = inv [unfolded kahn_inv_def]
  have b: "b \<in> set desired" "b \<notin> set order" "b \<notin> set ready" "preds edges b \<subseteq> set order"
    using inv' by auto
  have ind: "map_of ind c = (if c \<in> set desired then Some (card (preds edges c - set order)) else None)" for c
    using inv' by blast
  have mem: "c \<in> set order \<union> set (b # ready) \<longleftrightarrow> preds edges c \<subseteq> set order"
    if "c \<in> set desired" for c
    using inv' that by simp
  have fin: "finite (preds edges c - set order)" for c
    using finite_preds [OF wf] by blast
  have cs: "c \<in> set desired" "b \<in> preds edges c - set order" if "c \<in> set ?cs" for c
    using that b wf_edges_consumers [OF wf, of b] by (auto simp: preds_iff)
  have "0 < card (preds edges c - set order)" if "c \<in> set ?cs" for c
    using cs(2) [OF that] fin [of c] by (auto simp only: card_gt_0_iff)
  then have "\<forall>c \<in> set ?cs. \<exists>d > 0. map_of ind c = Some d"
    using ind cs(1) by simp
  moreover have "distinct ?cs" "ascending ready"
    using wf_edges_consumers [OF wf] inv' by auto
  ultimately have "distinct ?cs" "ascending ready" "\<forall>c \<in> set ?cs. \<exists>d > 0. map_of ind c = Some d"
    by blast+
  from relax_spec [OF this] obtain ind' ready' where
    R: "relax ?cs ind ready = Some (ind', ready')" "ascending ready'"
      "set ready' = set ready \<union> {c \<in> set ?cs. map_of ind c = Some 1}"
    and I: "\<And>x. map_of ind' x = (if x \<in> set ?cs then map_option (\<lambda>d. d - 1) (map_of ind x) else map_of ind x)"
    by blast
  have diff: "preds edges c - set (order @ [b]) = (preds edges c - set order) - {b}" for c by auto
  have card1: "card (preds edges c - set order) = 1 \<longleftrightarrow> preds edges c \<subseteq> set (order @ [b])"
    if "c \<in> set ?cs" for c
    using cs(2) [OF that] by (subst card_eq_1_iff_singleton [OF cs(2) [OF that]]) auto
  have ind': "map_of ind' c = (if c \<in> set desired then Some (card (preds edges c - set (order @ [b]))) else None)" for c
    using I [of c] ind [of c] cs [of c] fin [of c] by (auto simp: diff preds_iff)
  have "map_of ind c = Some 1 \<longleftrightarrow> preds edges c \<subseteq> set (order @ [b])" if "c \<in> set ?cs" for c
    using card1 [OF that] ind [of c] cs(1) [OF that] by simp
  with R(3) have ready': "set ready' = set ready \<union> {c \<in> set ?cs. preds edges c \<subseteq> set (order @ [b])}"
    by blast
  have split: "c \<in> set (order @ [b]) \<union> set ready' \<longleftrightarrow> preds edges c \<subseteq> set (order @ [b])" if c: "c \<in> set desired" for c
  proof (cases "c \<in> set ?cs")
    case True
    then have "c \<notin> set order \<union> set (b # ready)"
      using mem [OF c] cs(2) by blast
    with True ready' show ?thesis by auto
  next
    case False
    then have "preds edges c \<subseteq> set (order @ [b]) \<longleftrightarrow> preds edges c \<subseteq> set order"
      by (auto simp: preds_iff)
    with False mem [OF c] ready' show ?thesis by auto
  qed
  have fresh: "c \<notin> set order \<and> c \<noteq> b" if "c \<in> set ?cs" for c
    using mem [OF cs(1) [OF that]] cs(2) [OF that] by auto
  have ord: "\<forall>c \<in> set (order @ [b]). \<forall>p \<in> preds edges c. before (order @ [b]) p c"
    using inv' b(4) by (auto intro: before_append before_last)
  have "kahn_inv desired edges ind' ready' (order @ [b])"
    unfolding kahn_inv_def
  proof (intro conjI)
    show "distinct (order @ [b])" using inv' b by simp
    show "set ready' \<inter> set (order @ [b]) = {}" using ready' fresh inv' b by auto
    show "set (order @ [b]) \<union> set ready' \<subseteq> set desired" using ready' cs inv' b by auto
  qed (use R(2) ind' split ord in \<open>simp_all\<close>)
  with R(1) show ?thesis by blast
qed

lemma kahn_total:
  assumes "wf_edges desired edges" and "kahn_inv desired edges ind ready order"
  shows "\<exists>order' ind'. kahn edges ind ready order = Some order' \<and> kahn_inv desired edges ind' [] order'"
  using assms
proof (induction edges ind ready order rule: kahn.induct)
  case (1 edges ind order)
  then show ?case by auto
next
  case (2 edges ind b ready order)
  from kahn_inv_step [OF "2.prems"] obtain ind' ready' where
    "relax (consumers_of edges b) ind ready = Some (ind', ready')"
    "kahn_inv desired edges ind' ready' (order @ [b])"
    by blast
  with "2.IH" "2.prems"(1) show ?case by simp
qed

section \<open>Acyclic edges have an order\<close>

lemma order_respects_path:
  assumes "distinct order" and "\<forall>c \<in> set order. \<forall>p \<in> preds edges c. before order p c"
    and "(a, c) \<in> (edge_rel edges)\<^sup>+" and "c \<in> set order"
  shows "before order a c"
  using assms(3,4)
proof (induction rule: converse_trancl_induct)
  case (base y)
  then show ?case using assms(2) by (auto simp: preds_def)
next
  case (step y z)
  then have "before order z c" by blast
  then have "before order y z"
    using assms(2) step.hyps(1) before_in_set [of order z c] by (auto simp: preds_def)
  with \<open>before order z c\<close> show ?case
    using before_trans [OF assms(1)] by blast
qed

lemma ordered_not_on_cycle:
  "kahn_inv desired edges ind [] order \<Longrightarrow> c \<in> set order \<Longrightarrow> (c, c) \<notin> (edge_rel edges)\<^sup>+"
  using order_respects_path [of order edges c c] before_irrefl [of order c]
  by (auto simp: kahn_inv_def)

lemma unordered_gives_cycle:
  assumes wf: "wf_edges desired edges" and inv: "kahn_inv desired edges ind [] order"
    and u: "set order \<noteq> set desired"
  shows "\<exists>b \<in> set desired. (b, b) \<in> (edge_rel edges)\<^sup>+"
proof (rule ccontr)
  assume no: "\<not> ?thesis"
  have "acyclic (edge_rel edges)"
    unfolding acyclic_def
  proof (intro allI notI)
    fix x assume x: "(x, x) \<in> (edge_rel edges)\<^sup>+"
    then obtain y where "(x, y) \<in> edge_rel edges" by (auto dest: tranclD)
    with x no edge_rel_in_desired [OF wf] show False by blast
  qed
  then have "wf (edge_rel edges)"
    by (rule finite_acyclic_wf [OF finite_edge_rel [OF wf]])
  moreover obtain q where "q \<in> set desired - set order"
    using u inv by (auto simp: kahn_inv_def)
  ultimately obtain z where z: "z \<in> set desired - set order"
    and least: "\<And>y. (y, z) \<in> edge_rel edges \<Longrightarrow> y \<notin> set desired - set order"
    by (rule wfE_min) blast
  then have "preds edges z \<subseteq> set order"
    using edge_rel_in_desired [OF wf] by (auto simp: preds_def)
  with z inv show False by (auto simp: kahn_inv_def)
qed

section \<open>The cycle search\<close>

definition unresolved_rel :: "'a edge_map \<Rightarrow> 'a list \<Rightarrow> 'a rel" where
  "unresolved_rel edges unresolved = {(a, b). (a, b) \<in> edge_rel edges \<and> b \<in> set unresolved}"

lemma successors_in_iff: "n \<in> set (successors_in edges unresolved b) \<longleftrightarrow> (b, n) \<in> unresolved_rel edges unresolved"
  by (auto simp: successors_in_def unresolved_rel_def edge_rel_def)

lemma leaves_visited:
  assumes "(b, start) \<in> R\<^sup>*" and "b \<in> V" and "start \<notin> V"
    and "\<forall>v \<in> V. \<forall>n. (v, n) \<in> R \<longrightarrow> n \<in> V \<union> P"
  shows "\<exists>p \<in> P. (p, start) \<in> R\<^sup>*"
  using assms(1,2)
proof (induction rule: converse_rtrancl_induct)
  case base
  with assms(3) show ?case by simp
next
  case (step y z)
  then show ?case using assms(4) by blast
qed

lemma cycle_search_spec:
  assumes "start \<notin> set visited"
    and "\<forall>v \<in> set visited. \<forall>n. (v, n) \<in> unresolved_rel edges unresolved \<longrightarrow> n \<in> set visited \<union> set pending"
  shows "cycle_search start unresolved edges visited pending \<longleftrightarrow>
    (\<exists>p \<in> set pending. (p, start) \<in> (unresolved_rel edges unresolved)\<^sup>*)"
  using assms
proof (induction start unresolved edges visited pending rule: cycle_search.induct)
  case (1 start unresolved edges visited)
  show ?case by simp
next
  case (2 start unresolved edges visited b pending)
  let ?R = "unresolved_rel edges unresolved"
  consider "b = start" | "b \<noteq> start" "b \<in> set visited" | "b \<noteq> start" "b \<notin> set visited" by blast
  then show ?case
  proof cases
    case 1
    then show ?thesis by auto
  next
    case 2
    have closed: "\<forall>v \<in> set visited. \<forall>n. (v, n) \<in> ?R \<longrightarrow> n \<in> set visited \<union> set pending"
      using "2.prems"(2) 2 by auto
    have "(b, start) \<in> ?R\<^sup>* \<Longrightarrow> \<exists>p \<in> set pending. (p, start) \<in> ?R\<^sup>*"
      by (rule leaves_visited [OF _ 2(2) "2.prems"(1) closed])
    with "2.IH"(1) [OF 2 "2.prems"(1) closed] 2 show ?thesis by auto
  next
    case 3
    have closed: "\<forall>v \<in> set (bt_insert b visited). \<forall>n. (v, n) \<in> ?R \<longrightarrow>
        n \<in> set (bt_insert b visited) \<union> set (rev (successors_in edges unresolved b) @ pending)"
      using "2.prems"(2) by (auto simp: successors_in_iff)
    have "(b, start) \<in> ?R\<^sup>* \<longleftrightarrow> (\<exists>n \<in> set (successors_in edges unresolved b). (n, start) \<in> ?R\<^sup>*)"
      using 3(1) unfolding successors_in_iff Bex_def
      by (metis converse_rtranclE converse_rtrancl_into_rtrancl)
    with "2.IH"(2) [OF 3 _ closed] "2.prems"(1) 3 show ?thesis by auto
  qed
qed

lemma participates_in_cycle_iff:
  "participates_in_cycle start unresolved edges \<longleftrightarrow> (start, start) \<in> (unresolved_rel edges unresolved)\<^sup>+"
proof -
  have "participates_in_cycle start unresolved edges \<longleftrightarrow>
      (\<exists>p. (start, p) \<in> unresolved_rel edges unresolved \<and> (p, start) \<in> (unresolved_rel edges unresolved)\<^sup>*)"
    unfolding participates_in_cycle_def by (subst cycle_search_spec) (auto simp: successors_in_iff)
  then show ?thesis by (meson rtrancl_into_trancl2 tranclD)
qed

lemma cycle_within_unresolved:
  assumes "(b, y) \<in> (edge_rel edges)\<^sup>+" and "(y, b) \<in> (edge_rel edges)\<^sup>*"
    and unres: "\<And>c. (c, c) \<in> (edge_rel edges)\<^sup>+ \<Longrightarrow> c \<in> set unresolved"
  shows "(b, y) \<in> (unresolved_rel edges unresolved)\<^sup>+"
  using assms(1,2)
proof (induction rule: trancl_induct)
  case (base y)
  then have "(y, y) \<in> (edge_rel edges)\<^sup>+" by (rule_tac rtrancl_into_trancl1)
  with base unres show ?case by (auto simp: unresolved_rel_def)
next
  case (step y z)
  then have "(y, b) \<in> (edge_rel edges)\<^sup>*" and "(z, z) \<in> (edge_rel edges)\<^sup>+"
    by (auto intro: converse_rtrancl_into_rtrancl rtrancl_trancl_trancl trancl_into_trancl)
  with step unres show ?case
    by (auto simp: unresolved_rel_def intro: trancl_into_trancl)
qed

section \<open>What \<open>topological_order\<close> returns\<close>

lemma topological_order_total:
  assumes wf: "wf_edges desired edges"
  shows "\<exists>order ind. kahn_inv desired edges ind [] order \<and> topological_order desired edges =
    Some (if set order = set desired then (order, None)
          else ([], Some (filter (\<lambda>b. (b, b) \<in> (edge_rel edges)\<^sup>+) desired)))"
proof -
  from kahn_total [OF wf kahn_inv_init [OF wf]] obtain order ind where
    k: "kahn edges (indegrees desired edges)
          (map fst (filter (\<lambda>(b, degree). degree = 0) (indegrees desired edges))) [] = Some order"
    and inv: "kahn_inv desired edges ind [] order" by blast
  let ?U = "bt_difference desired (bt_of_list order)"
  have dd: "distinct desired" "distinct order" "set order \<subseteq> set desired"
    using wf inv by (auto simp: wf_edges_def kahn_inv_def)
  have len: "length order = length desired \<longleftrightarrow> set order = set desired"
    using dd by (metis card_subset_eq distinct_card finite_set)
  have U: "set ?U = set desired - set order" by simp
  have cyc: "c \<in> set ?U" if "(c, c) \<in> (edge_rel edges)\<^sup>+" for c
  proof -
    from that obtain d where "(c, d) \<in> edge_rel edges" by (auto dest: tranclD)
    then show ?thesis
      using edge_rel_in_desired [OF wf] ordered_not_on_cycle [OF inv] that U by blast
  qed
  have "(b, b) \<in> (unresolved_rel edges ?U)\<^sup>+ \<longleftrightarrow> (b, b) \<in> (edge_rel edges)\<^sup>+" for b
  proof
    assume "(b, b) \<in> (unresolved_rel edges ?U)\<^sup>+"
    then show "(b, b) \<in> (edge_rel edges)\<^sup>+"
      by (rule trancl_mono) (auto simp: unresolved_rel_def)
  qed (auto intro: cycle_within_unresolved cyc)
  then have "filter (\<lambda>b. participates_in_cycle b ?U edges) ?U = filter (\<lambda>b. (b, b) \<in> (edge_rel edges)\<^sup>+) ?U"
    by (simp add: participates_in_cycle_iff)
  also have "\<dots> = filter (\<lambda>b. (b, b) \<in> (edge_rel edges)\<^sup>+) desired"
    using cyc unfolding bt_difference_def filter_filter by (intro filter_cong) auto
  finally show ?thesis
    using k inv len by (auto simp: topological_order_def Let_def)
qed

text \<open>
  The contract of the enable order, as its clients use it.  An edge map is well formed when
  its keys and targets are desired Bundles.
\<close>

locale order_service =
  fixes order_of :: "'a::linorder list \<Rightarrow> 'a edge_map \<Rightarrow> ('a list \<times> 'a list option) option"
  assumes order_acyclic: "wf_edges desired edges \<Longrightarrow> acyclic (edge_rel edges) \<Longrightarrow>
      \<exists>order. order_of desired edges = Some (order, None)"
    and order_sound: "wf_edges desired edges \<Longrightarrow> order_of desired edges = Some (order, None) \<Longrightarrow>
      distinct order \<and> set order = set desired
      \<and> (\<forall>p c. (p, c) \<in> edge_rel edges \<longrightarrow> before order p c)"
    and order_cyclic: "wf_edges desired edges \<Longrightarrow> \<not> acyclic (edge_rel edges) \<Longrightarrow>
      \<exists>cyc. order_of desired edges = Some ([], Some cyc) \<and> cyc \<noteq> []
        \<and> set cyc = {b \<in> set desired. (b, b) \<in> (edge_rel edges)\<^sup>+}"
begin

lemma order_total: "wf_edges desired edges \<Longrightarrow> order_of desired edges \<noteq> None"
  using order_acyclic [of desired edges] order_cyclic [of desired edges] by auto

lemma order_or_cycle:
  "wf_edges desired edges \<Longrightarrow> order_of desired edges = Some (order, cycle) \<Longrightarrow>
     (cycle = None \<longleftrightarrow> acyclic (edge_rel edges)) \<and> (cycle \<noteq> None \<longrightarrow> order = [])"
  using order_acyclic [of desired edges] order_cyclic [of desired edges] by fastforce

lemma order_subset:
  "wf_edges desired edges \<Longrightarrow> order_of desired edges = Some (order, cycle) \<Longrightarrow> set order \<subseteq> set desired"
  using order_or_cycle [of desired edges order cycle] order_sound [of desired edges order]
  by (cases cycle) auto

end

lemma acyclic_iff_complete:
  assumes "wf_edges desired edges" and "kahn_inv desired edges ind [] order"
  shows "acyclic (edge_rel edges) \<longleftrightarrow> set order = set desired"
proof
  assume "acyclic (edge_rel edges)"
  then show "set order = set desired"
    using unordered_gives_cycle [OF assms] by (auto simp: acyclic_def)
next
  assume "set order = set desired"
  then show "acyclic (edge_rel edges)"
    using ordered_not_on_cycle [OF assms(2)] edge_rel_in_desired [OF assms(1)]
    by (auto simp: acyclic_def dest!: tranclD) (metis rtrancl_into_trancl2)
qed

interpretation enable_order: order_service topological_order
proof
  fix desired :: "'a list" and edges :: "'a edge_map"
  assume wf: "wf_edges desired edges"
  from topological_order_total [OF wf] obtain order ind where
    inv: "kahn_inv desired edges ind [] order"
    and res: "topological_order desired edges =
      Some (if set order = set desired then (order, None)
            else ([], Some (filter (\<lambda>b. (b, b) \<in> (edge_rel edges)\<^sup>+) desired)))" by blast
  note complete = acyclic_iff_complete [OF wf inv]
  show "\<exists>order. topological_order desired edges = Some (order, None)" if "acyclic (edge_rel edges)"
    using that res complete by simp
  show "distinct order' \<and> set order' = set desired \<and> (\<forall>p c. (p, c) \<in> edge_rel edges \<longrightarrow> before order' p c)"
    if "topological_order desired edges = Some (order', None)" for order'
  proof -
    from that res have "order' = order" "set order = set desired" by (auto split: if_splits)
    with inv show ?thesis
      using edge_rel_in_desired [OF wf] by (auto simp: kahn_inv_def preds_def)
  qed
  show "\<exists>cyc. topological_order desired edges = Some ([], Some cyc) \<and> cyc \<noteq> []
        \<and> set cyc = {b \<in> set desired. (b, b) \<in> (edge_rel edges)\<^sup>+}" if "\<not> acyclic (edge_rel edges)"
    using that res complete unordered_gives_cycle [OF wf inv] by (auto simp: filter_empty_conv)
qed

end
