(* ===== verification/Bundle_Dependency.thy ===== *)
theory Bundle_Dependency
  imports Bundle_Ids Bundle_Order
begin

text \<open>
  Dependency planning for Bundles: \<open>crates/gadgetron-bundle-sdk/src/dependency.rs\<close> and the
  dependency declarations of \<open>manifest.rs\<close>.

  Versions and version requirements belong to the \<open>semver\<close> crate: a version is any
  linearly ordered type \<open>'v\<close>, a requirement any type \<open>'r\<close>, and \<open>VersionReq::matches\<close> is the
  argument \<open>vmatch\<close> of the definitions.  An \<open>expect\<close> of the source that would panic is the
  value \<open>None\<close>; \<open>resolve_total\<close> shows there is none.
\<close>

section \<open>Candidates and declarations\<close>

datatype bundle_candidate_state = Installed | EnabledHealthy | EnabledUnhealthy

definition is_enabled :: "bundle_candidate_state \<Rightarrow> bool" where
  "is_enabled st \<longleftrightarrow> st = EnabledHealthy \<or> st = EnabledUnhealthy"

definition is_available_for_plan :: "bundle_candidate_state \<Rightarrow> bool" where
  "is_available_for_plan st \<longleftrightarrow> st \<noteq> EnabledUnhealthy"

record 'v provided_capability =
  cap_id :: string
  cap_version :: 'v
  cap_description :: string

record 'r dependency_declaration =
  decl_capability :: string
  decl_version :: 'r
  decl_feature :: string
  decl_reason :: string
  decl_provider_bundle :: "string option"
  decl_provider_version :: "'r option"

record 'r bundle_dependencies =
  dep_requires :: "'r dependency_declaration list"
  dep_optional :: "'r dependency_declaration list"
  dep_conflicts :: "'r dependency_declaration list"

record ('v, 'r) dependency_candidate =
  cand_bundle_id :: string
  cand_bundle_version :: 'v
  cand_manifest_sha256 :: string
  cand_state :: bundle_candidate_state
  cand_provides :: "'v provided_capability list"
  cand_dependencies :: "'r bundle_dependencies"

datatype bundle_lifecycle_change = NoChange | Enable string | Disable string

datatype dependency_relation = Required | Optional | ConflictsWith

datatype dependency_binding_state =
  Satisfied | Clear | Missing | Incompatible | ProviderNotEnabled | Unhealthy | Conflict

record 'v resolved_provider =
  rp_bundle_id :: string
  rp_bundle_version :: 'v
  rp_capability_version :: 'v

record ('v, 'r) dependency_binding =
  bind_consumer :: string
  bind_relation :: dependency_relation
  bind_capability :: string
  bind_version :: 'r
  bind_feature :: string
  bind_reason :: string
  bind_state :: dependency_binding_state
  bind_blocking :: bool
  bind_provider :: "'v resolved_provider option"

datatype plan_issue_code = RequiredCycle

record plan_issue =
  issue_code :: plan_issue_code
  issue_bundle_ids :: "string list"
  issue_detail :: string

record ('v, 'r) dependency_plan =
  plan_desired_enabled :: "string list"
  plan_enable_order :: "string list"
  plan_bindings :: "('v, 'r) dependency_binding list"
  plan_issues :: "plan_issue list"

definition plan_is_blocked :: "('v, 'r) dependency_plan \<Rightarrow> bool" where
  "plan_is_blocked plan \<longleftrightarrow> plan_issues plan \<noteq> [] \<or> list_ex bind_blocking (plan_bindings plan)"

definition bindings_for :: "('v, 'r) dependency_plan \<Rightarrow> string \<Rightarrow> ('v, 'r) dependency_binding list" where
  "bindings_for plan b = filter (\<lambda>bd. bind_consumer bd = b) (plan_bindings plan)"

section \<open>Candidate validation\<close>

definition is_sha256_hex :: "string \<Rightarrow> bool" where
  "is_sha256_hex s \<longleftrightarrow> length s = 64 \<and> list_all is_lower_hex s"

definition validate_sha256 :: "string \<Rightarrow> (bundle_sdk_error, unit) result" where
  "validate_sha256 s = check (is_sha256_hex s)
     (InvalidManifest ''package_manifest_sha256''
        ''must be a 64-character lowercase hexadecimal SHA-256 digest'')"

fun validate_candidates_from ::
  "(string \<times> ('v, 'r) dependency_candidate) list \<Rightarrow> ('v, 'r) dependency_candidate list
    \<Rightarrow> (bundle_sdk_error, (string \<times> ('v, 'r) dependency_candidate) list) result" where
  "validate_candidates_from by_id [] = Inr by_id"
| "validate_candidates_from by_id (c # cs) =
     and_then (validate_sha256 (cand_manifest_sha256 c)) (\<lambda>_.
       if map_of by_id (cand_bundle_id c) \<noteq> None
       then Inl (InvalidManifest ''dependency_candidates''
              (''duplicate Bundle candidate '' @ debug_id (cand_bundle_id c)))
       else validate_candidates_from (bm_insert (cand_bundle_id c) c by_id) cs)"

definition validate_candidates ::
  "('v, 'r) dependency_candidate list
    \<Rightarrow> (bundle_sdk_error, (string \<times> ('v, 'r) dependency_candidate) list) result" where
  "validate_candidates cs = validate_candidates_from [] cs"

definition require_candidate ::
  "(string \<times> ('v, 'r) dependency_candidate) list \<Rightarrow> string \<Rightarrow> (bundle_sdk_error, unit) result" where
  "require_candidate by_id b = check (map_of by_id b \<noteq> None)
     (InvalidManifest ''desired_enabled'' (''references unknown Bundle '' @ debug_id b))"

section \<open>Resolving one declaration\<close>

type_synonym ('v, 'r) offer = "('v, 'r) dependency_candidate \<times> 'v provided_capability"

definition provider_projection :: "('v, 'r) offer \<Rightarrow> 'v resolved_provider" where
  "provider_projection p = \<lparr>rp_bundle_id = cand_bundle_id (fst p),
     rp_bundle_version = cand_bundle_version (fst p), rp_capability_version = cap_version (snd p)\<rparr>"

text \<open>\<open>provider_order(left, right) != Greater\<close>: higher capability versions first, then the id.\<close>

definition provider_order :: "('v::linorder, 'r) offer \<Rightarrow> ('v, 'r) offer \<Rightarrow> bool" where
  "provider_order l r \<longleftrightarrow> cap_version (snd r) < cap_version (snd l)
     \<or> (cap_version (snd r) = cap_version (snd l) \<and> cand_bundle_id (fst l) \<le> cand_bundle_id (fst r))"

definition targeted_offers ::
  "('v, 'r) dependency_candidate \<Rightarrow> 'r dependency_declaration
    \<Rightarrow> ('v, 'r) dependency_candidate list \<Rightarrow> ('v, 'r) offer list" where
  "targeted_offers consumer decl candidates =
     concat (map (\<lambda>c. map (\<lambda>p. (c, p)) (filter (\<lambda>p. cap_id p = decl_capability decl) (cand_provides c)))
       (filter (\<lambda>c. case decl_provider_bundle decl of None \<Rightarrow> True | Some b \<Rightarrow> cand_bundle_id c = b)
         (filter (\<lambda>c. cand_bundle_id c \<noteq> cand_bundle_id consumer) candidates)))"

definition compatible_offer :: "('r \<Rightarrow> 'v \<Rightarrow> bool) \<Rightarrow> 'r dependency_declaration \<Rightarrow> ('v, 'r) offer \<Rightarrow> bool" where
  "compatible_offer vmatch decl p \<longleftrightarrow> vmatch (decl_version decl) (cap_version (snd p))
     \<and> (case decl_provider_version decl of None \<Rightarrow> True
        | Some req \<Rightarrow> vmatch req (cand_bundle_version (fst p)))"

definition choose_binding ::
  "dependency_relation \<Rightarrow> ('v, 'r) offer list \<Rightarrow> ('v, 'r) offer list \<Rightarrow> ('v, 'r) offer list
    \<Rightarrow> ('v, 'r) offer list \<Rightarrow> dependency_binding_state \<times> 'v resolved_provider option \<times> bool" where
  "choose_binding relation targeted compatible active active_healthy =
     (case relation of
        ConflictsWith \<Rightarrow>
          (case active of p # _ \<Rightarrow> (Conflict, Some (provider_projection p), True)
           | [] \<Rightarrow> (Clear, None, False))
      | _ \<Rightarrow>
          let blocking_relation = (relation = Required) in
          (case active_healthy of p # _ \<Rightarrow> (Satisfied, Some (provider_projection p), False)
           | [] \<Rightarrow> (case active of p # _ \<Rightarrow> (Unhealthy, Some (provider_projection p), blocking_relation)
           | [] \<Rightarrow> (case compatible of
                 p # _ \<Rightarrow> (ProviderNotEnabled, Some (provider_projection p), blocking_relation)
           | [] \<Rightarrow> if targeted = [] then (Missing, None, blocking_relation)
                  else (Incompatible, None, blocking_relation)))))"

definition resolve_declaration ::
  "('r \<Rightarrow> 'v::linorder \<Rightarrow> bool) \<Rightarrow> ('v, 'r) dependency_candidate \<Rightarrow> dependency_relation
    \<Rightarrow> 'r dependency_declaration \<Rightarrow> ('v, 'r) dependency_candidate list \<Rightarrow> string list
    \<Rightarrow> ('v, 'r) dependency_binding" where
  "resolve_declaration vmatch consumer relation decl candidates desired =
     (let targeted = targeted_offers consumer decl candidates;
          compatible = sort_by provider_order (filter (compatible_offer vmatch decl) targeted);
          active = filter (\<lambda>p. cand_bundle_id (fst p) \<in> set desired) compatible;
          active_healthy = filter (\<lambda>p. is_available_for_plan (cand_state (fst p))) active;
          (state, provider, blocking) = choose_binding relation targeted compatible active active_healthy
      in \<lparr>bind_consumer = cand_bundle_id consumer, bind_relation = relation,
          bind_capability = decl_capability decl, bind_version = decl_version decl,
          bind_feature = decl_feature decl, bind_reason = decl_reason decl,
          bind_state = state, bind_blocking = blocking, bind_provider = provider\<rparr>)"

section \<open>Resolving a plan\<close>

definition relation_rank :: "dependency_relation \<Rightarrow> nat" where
  "relation_rank r = (case r of Required \<Rightarrow> 0 | Optional \<Rightarrow> 1 | ConflictsWith \<Rightarrow> 2)"

definition declarations_of ::
  "('v, 'r) dependency_candidate \<Rightarrow> (dependency_relation \<times> 'r dependency_declaration) list" where
  "declarations_of c =
     map (\<lambda>d. (Required, d)) (dep_requires (cand_dependencies c))
     @ map (\<lambda>d. (Optional, d)) (dep_optional (cand_dependencies c))
     @ map (\<lambda>d. (ConflictsWith, d)) (dep_conflicts (cand_dependencies c))"

type_synonym ('v, 'r) plan_state = "('v, 'r) dependency_binding list \<times> string edge_map"

definition bind_declaration ::
  "('r \<Rightarrow> 'v::linorder \<Rightarrow> bool) \<Rightarrow> ('v, 'r) dependency_candidate list \<Rightarrow> string list
    \<Rightarrow> ('v, 'r) dependency_candidate \<Rightarrow> dependency_relation \<times> 'r dependency_declaration
    \<Rightarrow> ('v, 'r) plan_state \<Rightarrow> ('v, 'r) plan_state option" where
  "bind_declaration vmatch candidates desired consumer rd s =
     (let binding = resolve_declaration vmatch consumer (fst rd) (snd rd) candidates desired;
          (bindings, required_edges) = s
      in if fst rd = Required \<and> bind_state binding = Satisfied
         then (case bind_provider binding of
             None \<Rightarrow> None
           | Some p \<Rightarrow> Some (bindings @ [binding],
               bm_upsert (rp_bundle_id p) [] (bt_insert (cand_bundle_id consumer)) required_edges))
         else Some (bindings @ [binding], required_edges))"

definition bind_consumer_declarations ::
  "('r \<Rightarrow> 'v::linorder \<Rightarrow> bool) \<Rightarrow> ('v, 'r) dependency_candidate list \<Rightarrow> string list
    \<Rightarrow> (string \<times> ('v, 'r) dependency_candidate) list \<Rightarrow> string
    \<Rightarrow> ('v, 'r) plan_state \<Rightarrow> ('v, 'r) plan_state option" where
  "bind_consumer_declarations vmatch candidates desired by_id consumer_id s =
     (case map_of by_id consumer_id of
        None \<Rightarrow> None
      | Some consumer \<Rightarrow>
          fold_opt (bind_declaration vmatch candidates desired consumer) (declarations_of consumer) s)"

definition binding_key :: "('v, 'r) dependency_binding \<Rightarrow> string \<times> nat \<times> string" where
  "binding_key b = (bind_consumer b, relation_rank (bind_relation b), bind_capability b)"

definition cycle_issue :: "string list \<Rightarrow> plan_issue" where
  "cycle_issue ids = \<lparr>issue_code = RequiredCycle, issue_bundle_ids = ids,
     issue_detail = ''required dependency cycle involves '' @ join_with '', '' ids\<rparr>"

definition resolve_bundle_dependencies ::
  "('r \<Rightarrow> 'v::linorder \<Rightarrow> bool) \<Rightarrow> ('v, 'r) dependency_candidate list \<Rightarrow> string list
    \<Rightarrow> (bundle_sdk_error, ('v, 'r) dependency_plan) result option" where
  "resolve_bundle_dependencies vmatch candidates desired =
     (case and_then (validate_candidates candidates)
             (\<lambda>by_id. and_then (try_each (require_candidate by_id) desired) (\<lambda>_. Inr by_id)) of
        Inl e \<Rightarrow> Some (Inl e)
      | Inr by_id \<Rightarrow>
          (case fold_opt (bind_consumer_declarations vmatch candidates desired by_id) desired
                  ([], map (\<lambda>b. (b, [])) desired) of
             None \<Rightarrow> None
           | Some (bindings, required_edges) \<Rightarrow>
               (case topological_order desired required_edges of
                  None \<Rightarrow> None
                | Some (enable_order, cycle) \<Rightarrow> Some (Inr
                    \<lparr>plan_desired_enabled = desired, plan_enable_order = enable_order,
                     plan_bindings = sort_by (\<lambda>a b. binding_key a \<le> binding_key b) bindings,
                     plan_issues = (case cycle of None \<Rightarrow> [] | Some ids \<Rightarrow> [cycle_issue ids])\<rparr>))))"

definition preview_bundle_dependencies ::
  "('r \<Rightarrow> 'v::linorder \<Rightarrow> bool) \<Rightarrow> ('v, 'r) dependency_candidate list \<Rightarrow> bundle_lifecycle_change
    \<Rightarrow> (bundle_sdk_error, ('v, 'r) dependency_plan) result option" where
  "preview_bundle_dependencies vmatch candidates change =
     (case validate_candidates candidates of
        Inl e \<Rightarrow> Some (Inl e)
      | Inr by_id \<Rightarrow>
          let enabled = bt_of_list (map cand_bundle_id (filter (\<lambda>c. is_enabled (cand_state c)) candidates))
          in case (case change of
                     NoChange \<Rightarrow> Inr enabled
                   | Enable b \<Rightarrow> and_then (require_candidate by_id b) (\<lambda>_. Inr (bt_insert b enabled))
                   | Disable b \<Rightarrow> and_then (require_candidate by_id b) (\<lambda>_. Inr (bt_remove b enabled))) of
               Inl e \<Rightarrow> Some (Inl e)
             | Inr desired \<Rightarrow> resolve_bundle_dependencies vmatch candidates desired)"

section \<open>Candidate validation, characterised\<close>

definition candidates_ok :: "('v, 'r) dependency_candidate list \<Rightarrow> bool" where
  "candidates_ok cs \<longleftrightarrow> distinct (map cand_bundle_id cs)
     \<and> list_all (\<lambda>c. is_sha256_hex (cand_manifest_sha256 c)) cs"

lemma validate_candidates_from_ok:
  "validate_candidates_from m cs = Inr by_id \<Longrightarrow>
     list_all (\<lambda>c. is_sha256_hex (cand_manifest_sha256 c)) cs \<and> distinct (map cand_bundle_id cs)
     \<and> (\<forall>c \<in> set cs. map_of m (cand_bundle_id c) = None)
     \<and> map_of by_id = map_of m ++ map_of (map (\<lambda>c. (cand_bundle_id c, c)) cs)"
proof (induction cs arbitrary: m)
  case Nil
  then show ?case by simp
next
  case (Cons c cs)
  then have sha: "is_sha256_hex (cand_manifest_sha256 c)" and new: "map_of m (cand_bundle_id c) = None"
    and rest: "validate_candidates_from (bm_insert (cand_bundle_id c) c m) cs = Inr by_id"
    by (auto simp: result_simps validate_sha256_def split: if_splits)
  note IH = Cons.IH [OF rest]
  from IH have fresh: "cand_bundle_id c \<notin> cand_bundle_id ` set cs"
    "\<forall>c' \<in> set cs. map_of m (cand_bundle_id c') = None"
    by (auto split: if_splits)
  from IH have "map_of by_id = map_of (bm_insert (cand_bundle_id c) c m) ++ map_of (map (\<lambda>c. (cand_bundle_id c, c)) cs)"
    by blast
  also have "\<dots> = (map_of m)(cand_bundle_id c \<mapsto> c) ++ map_of (map (\<lambda>c. (cand_bundle_id c, c)) cs)"
    by (simp only: map_of_bm_insert)
  also have "\<dots> = map_of m ++ map_of (map (\<lambda>c. (cand_bundle_id c, c)) (c # cs))"
    using fresh(1) by (subst map_add_upd_left) (auto simp: map_of_eq_None_iff dom_map_of_conv_image_fst image_image)
  finally have E: "map_of by_id = map_of m ++ map_of (map (\<lambda>c. (cand_bundle_id c, c)) (c # cs))" .
  have "distinct (map cand_bundle_id cs)"
    "list_all (\<lambda>c. is_sha256_hex (cand_manifest_sha256 c)) cs" using IH by blast+
  then show ?case
    using sha new fresh by (intro conjI E) simp_all
qed

lemma validate_candidates_from_complete:
  assumes "list_all (\<lambda>c. is_sha256_hex (cand_manifest_sha256 c)) cs"
    and "distinct (map cand_bundle_id cs)" and "\<forall>c \<in> set cs. map_of m (cand_bundle_id c) = None"
  shows "\<exists>by_id. validate_candidates_from m cs = Inr by_id"
  using assms
proof (induction cs arbitrary: m)
  case Nil
  then show ?case by simp
next
  case (Cons c cs)
  then have "\<forall>c' \<in> set cs. map_of (bm_insert (cand_bundle_id c) c m) (cand_bundle_id c') = None"
    by (force simp: image_iff)
  with Cons show ?case by (simp add: validate_sha256_def)
qed

lemma map_of_by_id:
  "distinct (map cand_bundle_id cs) \<Longrightarrow>
     map_of (map (\<lambda>c. (cand_bundle_id c, c)) cs) b = Some c \<longleftrightarrow> c \<in> set cs \<and> cand_bundle_id c = b"
  by (subst map_of_eq_Some_iff) (auto simp: comp_def)

lemma validate_candidates_Inr:
  "validate_candidates cs = Inr by_id \<Longrightarrow>
     candidates_ok cs \<and> (\<forall>b c. map_of by_id b = Some c \<longleftrightarrow> c \<in> set cs \<and> cand_bundle_id c = b)"
  unfolding validate_candidates_def candidates_ok_def
  by (drule validate_candidates_from_ok) (auto simp: map_of_by_id)

lemma validate_candidates_ok_iff: "is_ok (validate_candidates cs) \<longleftrightarrow> candidates_ok cs"
proof
  assume "is_ok (validate_candidates cs)"
  then show "candidates_ok cs" by (auto simp: is_ok_iff dest: validate_candidates_Inr)
next
  assume "candidates_ok cs"
  then show "is_ok (validate_candidates cs)"
    using validate_candidates_from_complete [of cs "[]"]
    by (auto simp: is_ok_iff validate_candidates_def candidates_ok_def)
qed

section \<open>What one binding says\<close>

interpretation provider_cmp: comparator provider_order
  by unfold_locales (auto simp: provider_order_def)

text \<open>
  The declarative reading of a declaration: an offer answers it when another candidate, of
  the named Bundle if one is named, provides the capability in a matching version.
\<close>

definition answers ::
  "('r \<Rightarrow> 'v \<Rightarrow> bool) \<Rightarrow> ('v, 'r) dependency_candidate list \<Rightarrow> ('v, 'r) dependency_candidate
    \<Rightarrow> 'r dependency_declaration \<Rightarrow> ('v, 'r) offer \<Rightarrow> bool" where
  "answers vmatch candidates consumer decl p \<longleftrightarrow>
     fst p \<in> set candidates \<and> cand_bundle_id (fst p) \<noteq> cand_bundle_id consumer
     \<and> (decl_provider_bundle decl = None \<or> decl_provider_bundle decl = Some (cand_bundle_id (fst p)))
     \<and> snd p \<in> set (cand_provides (fst p)) \<and> cap_id (snd p) = decl_capability decl
     \<and> compatible_offer vmatch decl p"

lemma set_targeted_offers:
  fixes candidates :: "('v, 'r) dependency_candidate list"
  shows "set (filter (compatible_offer vmatch decl) (targeted_offers consumer decl candidates))
     = {p. answers vmatch candidates consumer decl p}"
proof (intro set_eqI)
  fix p :: "('v, 'r) offer"
  show "p \<in> set (filter (compatible_offer vmatch decl) (targeted_offers consumer decl candidates))
      \<longleftrightarrow> p \<in> {p. answers vmatch candidates consumer decl p}"
    by (cases p; cases "decl_provider_bundle decl") (auto simp: targeted_offers_def answers_def)
qed

definition satisfying ::
  "('r \<Rightarrow> 'v \<Rightarrow> bool) \<Rightarrow> ('v, 'r) dependency_candidate list \<Rightarrow> string list
    \<Rightarrow> ('v, 'r) dependency_candidate \<Rightarrow> 'r dependency_declaration \<Rightarrow> ('v, 'r) offer \<Rightarrow> bool" where
  "satisfying vmatch candidates desired consumer decl p \<longleftrightarrow>
     answers vmatch candidates consumer decl p \<and> cand_bundle_id (fst p) \<in> set desired
     \<and> is_available_for_plan (cand_state (fst p))"

lemma sort_filter_hd:
  assumes "filter P (sort_by provider_order xs) = p # ps"
  shows "p \<in> set xs \<and> P p \<and> (\<forall>q \<in> set xs. P q \<longrightarrow> provider_order p q)"
proof -
  have "sorted_wrt provider_order (p # ps)"
    using sorted_wrt_filter [OF provider_cmp.sorted_sort_by, of P xs] assms by simp
  moreover have "set (p # ps) = {q \<in> set xs. P q}"
    using arg_cong [OF assms, of set] by auto
  ultimately show ?thesis
    using provider_cmp.le_refl [of p] by (metis (no_types, lifting) list.set_intros(1)
        mem_Collect_eq set_ConsD sorted_wrt.simps(2))
qed

lemma resolve_declaration_fields [simp]:
  "bind_consumer (resolve_declaration vmatch consumer r d cs desired) = cand_bundle_id consumer"
  "bind_relation (resolve_declaration vmatch consumer r d cs desired) = r"
  "bind_capability (resolve_declaration vmatch consumer r d cs desired) = decl_capability d"
  by (simp_all add: resolve_declaration_def Let_def split: prod.splits)

lemma resolve_declaration_state:
  fixes vmatch consumer d cs desired r
  defines "b \<equiv> resolve_declaration vmatch consumer r d cs desired"
  shows "r \<noteq> ConflictsWith \<Longrightarrow> bind_state b = Satisfied \<longleftrightarrow> (\<exists>p. satisfying vmatch cs desired consumer d p)"
    and "r \<noteq> ConflictsWith \<Longrightarrow> bind_blocking b \<longleftrightarrow> r = Required \<and> bind_state b \<noteq> Satisfied"
    and "r = ConflictsWith \<Longrightarrow> bind_blocking b \<longleftrightarrow>
      (\<exists>p. answers vmatch cs consumer d p \<and> cand_bundle_id (fst p) \<in> set desired)"
proof -
  let ?compatible = "sort_by provider_order (filter (compatible_offer vmatch d) (targeted_offers consumer d cs))"
  let ?active = "filter (\<lambda>p. cand_bundle_id (fst p) \<in> set desired) ?compatible"
  let ?healthy = "filter (\<lambda>p. is_available_for_plan (cand_state (fst p))) ?active"
  have C: "set ?compatible = {p. answers vmatch cs consumer d p}"
    by (simp only: set_sort_by set_targeted_offers)
  have A: "?active = [] \<longleftrightarrow> \<not> (\<exists>p. answers vmatch cs consumer d p \<and> cand_bundle_id (fst p) \<in> set desired)"
    using C unfolding filter_empty_conv by blast
  have H: "?healthy = [] \<longleftrightarrow> \<not> (\<exists>p. satisfying vmatch cs desired consumer d p)"
    using C unfolding filter_filter filter_empty_conv satisfying_def by blast
  have b: "bind_state b = fst (choose_binding r (targeted_offers consumer d cs) ?compatible ?active ?healthy)"
    "bind_blocking b = snd (snd (choose_binding r (targeted_offers consumer d cs) ?compatible ?active ?healthy))"
    by (simp_all add: b_def resolve_declaration_def Let_def split: prod.splits)
  show "bind_state b = Satisfied \<longleftrightarrow> (\<exists>p. satisfying vmatch cs desired consumer d p)" if "r \<noteq> ConflictsWith"
  proof -
    have "bind_state b = Satisfied \<longleftrightarrow> ?healthy \<noteq> []"
      unfolding b(1) using that by (cases r) (simp_all add: choose_binding_def Let_def split: list.split)
    then show ?thesis using H by blast
  qed
  show "bind_blocking b \<longleftrightarrow> r = Required \<and> bind_state b \<noteq> Satisfied" if "r \<noteq> ConflictsWith"
    unfolding b using that by (cases r) (simp_all add: choose_binding_def Let_def split: list.split)
  show "bind_blocking b \<longleftrightarrow> (\<exists>p. answers vmatch cs consumer d p \<and> cand_bundle_id (fst p) \<in> set desired)"
    if "r = ConflictsWith"
  proof -
    have "bind_blocking b \<longleftrightarrow> ?active \<noteq> []"
      unfolding b(2) using that by (simp add: choose_binding_def split: list.split)
    then show ?thesis using A by blast
  qed
qed

section \<open>The state of the planning loop\<close>

text \<open>The required edges that a list of bindings stands for.\<close>

definition required_pairs :: "('v, 'r) dependency_binding list \<Rightarrow> string rel" where
  "required_pairs bs = {(p, c). \<exists>b \<in> set bs. bind_relation b = Required \<and> bind_state b = Satisfied
     \<and> bind_consumer b = c \<and> map_option rp_bundle_id (bind_provider b) = Some p}"

definition plan_inv :: "string list \<Rightarrow> ('v, 'r) plan_state \<Rightarrow> bool" where
  "plan_inv desired s \<longleftrightarrow> map fst (snd s) = desired
     \<and> list_all (\<lambda>(p, cs). ascending cs \<and> set cs \<subseteq> set desired) (snd s)
     \<and> edge_rel (snd s) = required_pairs (fst s)"

lemma plan_inv_wf_edges: "ascending desired \<Longrightarrow> plan_inv desired s \<Longrightarrow> wf_edges desired (snd s)"
  by (auto simp: plan_inv_def wf_edges_def list_all_iff)

lemma plan_inv_init: "plan_inv desired ([], map (\<lambda>b. (b, [])) desired)"
proof -
  have "consumers_of (map (\<lambda>b. (b, [])) desired) p = []" for p :: string
    by (induction desired) (auto simp: consumers_of_def split: option.splits)
  then show ?thesis
    by (auto simp: plan_inv_def edge_rel_def required_pairs_def list_all_iff comp_def)
qed

lemma satisfied_has_provider:
  assumes "bind_state b = Satisfied" and "r \<noteq> ConflictsWith"
    and "b = resolve_declaration vmatch consumer r d cs desired"
  shows "\<exists>p. satisfying vmatch cs desired consumer d p \<and> bind_provider b = Some (provider_projection p)
    \<and> (\<forall>q. satisfying vmatch cs desired consumer d q \<longrightarrow> provider_order p q)"
proof -
  let ?compatible = "sort_by provider_order (filter (compatible_offer vmatch d) (targeted_offers consumer d cs))"
  let ?active = "filter (\<lambda>p. cand_bundle_id (fst p) \<in> set desired) ?compatible"
  let ?healthy = "filter (\<lambda>p. is_available_for_plan (cand_state (fst p))) ?active"
  have b: "bind_state b = fst (choose_binding r (targeted_offers consumer d cs) ?compatible ?active ?healthy)"
    "bind_provider b = fst (snd (choose_binding r (targeted_offers consumer d cs) ?compatible ?active ?healthy))"
    using assms(3) by (simp_all add: resolve_declaration_def Let_def split: prod.splits)
  then obtain p ps where h: "?healthy = p # ps" and prov: "bind_provider b = Some (provider_projection p)"
    using assms(1,2) by (cases r) (auto simp: choose_binding_def Let_def split: list.splits if_splits)
  have mem: "q \<in> set (filter (compatible_offer vmatch d) (targeted_offers consumer d cs)) \<longleftrightarrow>
      answers vmatch cs consumer d q" for q
    using set_targeted_offers [of vmatch d consumer cs] by blast
  from sort_filter_hd [OF h [unfolded filter_filter]]
  have "satisfying vmatch cs desired consumer d p"
    "\<forall>q. satisfying vmatch cs desired consumer d q \<longrightarrow> provider_order p q"
    by (simp_all add: mem [simplified] satisfying_def)
  with prov show ?thesis by blast
qed

lemma edge_rel_upsert:
  "edge_rel (bm_upsert p [] (bt_insert c) es) = insert (p, c) (edge_rel es)"
  by (auto simp: edge_rel_def consumers_of_def split: option.splits if_splits)

lemma required_pairs_append:
  "required_pairs (bs @ [b]) = (if bind_relation b = Required \<and> bind_state b = Satisfied
     then required_pairs bs \<union> {(p, bind_consumer b) | p. map_option rp_bundle_id (bind_provider b) = Some p}
     else required_pairs bs)"
  by (auto simp: required_pairs_def)

lemma required_pairs_satisfied:
  "bind_relation b = Required \<Longrightarrow> bind_state b = Satisfied \<Longrightarrow> bind_provider b = Some q \<Longrightarrow>
     required_pairs (bs @ [b]) = insert (rp_bundle_id q, bind_consumer b) (required_pairs bs)"
  by (auto simp: required_pairs_append)

lemma list_all_bm_upsert:
  assumes "list_all (\<lambda>(k, v). P v) m" and "P d" and "\<And>v. P v \<Longrightarrow> P (f v)"
  shows "list_all (\<lambda>(k, v). P v) (bm_upsert k d f m)"
proof -
  have "P (case map_of m k of None \<Rightarrow> d | Some v \<Rightarrow> v)"
    using assms(1,2) by (auto simp: list_all_iff dest!: map_of_SomeD split: option.split)
  with assms(3) have "P (f (case map_of m k of None \<Rightarrow> d | Some v \<Rightarrow> v))" by blast
  then have "list_all (\<lambda>(k, v). P v) (bm_insert k (f (case map_of m k of None \<Rightarrow> d | Some v \<Rightarrow> v)) m)"
    using assms(1) set_bm_insert unfolding list_all_iff by fast
  then show ?thesis by (simp add: bm_upsert_def)
qed

lemma bind_declaration_step:
  assumes asc: "ascending desired" and c: "cand_bundle_id consumer \<in> set desired"
    and inv: "plan_inv desired (bs, es)"
  shows "\<exists>es'. bind_declaration vmatch cs desired consumer rd (bs, es)
      = Some (bs @ [resolve_declaration vmatch consumer (fst rd) (snd rd) cs desired], es')
    \<and> plan_inv desired (bs @ [resolve_declaration vmatch consumer (fst rd) (snd rd) cs desired], es')"
proof (cases "fst rd = Required \<and> bind_state (resolve_declaration vmatch consumer (fst rd) (snd rd) cs desired) = Satisfied")
  case False
  then have "bind_declaration vmatch cs desired consumer rd (bs, es)
      = Some (bs @ [resolve_declaration vmatch consumer (fst rd) (snd rd) cs desired], es)"
    by (auto simp: bind_declaration_def Let_def)
  moreover have "required_pairs (bs @ [resolve_declaration vmatch consumer (fst rd) (snd rd) cs desired])
      = required_pairs bs"
    using False by (auto simp: required_pairs_append)
  ultimately show ?thesis
    using inv by (simp add: plan_inv_def)
next
  case True
  let ?b = "resolve_declaration vmatch consumer (fst rd) (snd rd) cs desired"
  from True have "bind_state ?b = Satisfied" "fst rd \<noteq> ConflictsWith" by auto
  from satisfied_has_provider [OF this refl] obtain p where
    p: "satisfying vmatch cs desired consumer (snd rd) p" "bind_provider ?b = Some (provider_projection p)"
    by blast
  let ?k = "cand_bundle_id (fst p)"
  let ?es = "bm_upsert ?k [] (bt_insert (cand_bundle_id consumer)) es"
  have k: "?k \<in> set desired" using p(1) by (simp add: satisfying_def)
  have keys: "map fst ?es = desired"
    using inv k asc by (simp add: plan_inv_def keys_bm_upsert bt_insert_absorb)
  have "list_all (\<lambda>(p, cs). ascending cs \<and> set cs \<subseteq> set desired) ?es"
  proof (rule list_all_bm_upsert [where P = "\<lambda>cs. ascending cs \<and> set cs \<subseteq> set desired"])
    show "list_all (\<lambda>(p, cs). ascending cs \<and> set cs \<subseteq> set desired) es"
      using inv by (simp only: plan_inv_def snd_conv)
  qed (use c in \<open>auto\<close>)
  moreover have "edge_rel ?es = required_pairs (bs @ [?b])"
  proof -
    have "edge_rel es = required_pairs bs" using inv by (simp add: plan_inv_def)
    moreover have "bind_relation ?b = Required" "bind_state ?b = Satisfied" using True by auto
    ultimately show ?thesis
      using required_pairs_satisfied [OF _ _ p(2), of bs]
      by (simp add: edge_rel_upsert provider_projection_def)
  qed
  ultimately have "plan_inv desired (bs @ [?b], ?es)"
    using keys by (simp only: plan_inv_def fst_conv snd_conv)
  moreover have "fst rd = Required" "bind_state ?b = Satisfied" using True by auto
  ultimately show ?thesis
    using p(2) by (simp add: bind_declaration_def provider_projection_def Let_def)
qed

definition consumer_bindings ::
  "('r \<Rightarrow> 'v::linorder \<Rightarrow> bool) \<Rightarrow> ('v, 'r) dependency_candidate list \<Rightarrow> string list
    \<Rightarrow> ('v, 'r) dependency_candidate \<Rightarrow> ('v, 'r) dependency_binding list" where
  "consumer_bindings vmatch cs desired consumer =
     map (\<lambda>rd. resolve_declaration vmatch consumer (fst rd) (snd rd) cs desired) (declarations_of consumer)"

lemma bind_consumer_step:
  assumes asc: "ascending desired" and c: "cand_bundle_id consumer \<in> set desired"
    and look: "map_of by_id (cand_bundle_id consumer) = Some consumer"
    and inv: "plan_inv desired s"
  shows "\<exists>s'. bind_consumer_declarations vmatch cs desired by_id (cand_bundle_id consumer) s = Some s'
    \<and> plan_inv desired s' \<and> fst s' = fst s @ consumer_bindings vmatch cs desired consumer"
proof -
  let ?res = "\<lambda>rd. resolve_declaration vmatch consumer (fst rd) (snd rd) cs desired"
  have "\<exists>s'. fold_opt (bind_declaration vmatch cs desired consumer) (declarations_of consumer) s = Some s'
      \<and> plan_inv desired s' \<and> fst s' = fst s @ map ?res (declarations_of consumer)"
  proof (rule fold_opt_inv [where I = "\<lambda>rds s'. plan_inv desired s' \<and> fst s' = fst s @ map ?res rds"])
    show "plan_inv desired s \<and> fst s = fst s @ map ?res []" using inv by simp
    fix rds rd and s' :: "('a, 'b) plan_state"
    assume "plan_inv desired s' \<and> fst s' = fst s @ map ?res rds"
    then show "\<exists>t. bind_declaration vmatch cs desired consumer rd s' = Some t
        \<and> plan_inv desired t \<and> fst t = fst s @ map ?res (rds @ [rd])"
      using bind_declaration_step [OF asc c, of "fst s'" "snd s'" vmatch cs rd] by (cases s') auto
  qed
  then show ?thesis
    by (simp add: bind_consumer_declarations_def look consumer_bindings_def)
qed

lemma bind_all_consumers:
  assumes asc: "ascending desired"
    and look: "\<And>b. b \<in> set desired \<Longrightarrow> \<exists>c. map_of by_id b = Some c \<and> cand_bundle_id c = b"
  shows "\<exists>s. fold_opt (bind_consumer_declarations vmatch cs desired by_id) desired ([], map (\<lambda>b. (b, [])) desired) = Some s
    \<and> plan_inv desired s
    \<and> fst s = concat (map (\<lambda>b. consumer_bindings vmatch cs desired (the (map_of by_id b))) desired)"
proof (rule fold_opt_inv [where I = "\<lambda>bs s. plan_inv desired s
    \<and> fst s = concat (map (\<lambda>b. consumer_bindings vmatch cs desired (the (map_of by_id b))) bs)"])
  show "plan_inv desired ([], map (\<lambda>b. (b, [])) desired)
    \<and> fst ([], map (\<lambda>b. (b, [])) desired)
      = concat (map (\<lambda>b. consumer_bindings vmatch cs desired (the (map_of by_id b))) [])"
    by (simp add: plan_inv_init)
next
  fix bs b bs' and s :: "('a, 'b) plan_state"
  assume split: "desired = bs @ b # bs'"
    and I: "plan_inv desired s
      \<and> fst s = concat (map (\<lambda>b. consumer_bindings vmatch cs desired (the (map_of by_id b))) bs)"
  then have b: "b \<in> set desired" by simp
  with look obtain c where "map_of by_id b = Some c" "cand_bundle_id c = b" by blast
  with bind_consumer_step [OF asc, of c by_id s vmatch cs] b I
  show "\<exists>s'. bind_consumer_declarations vmatch cs desired by_id b s = Some s' \<and> plan_inv desired s'
      \<and> fst s' = concat (map (\<lambda>b. consumer_bindings vmatch cs desired (the (map_of by_id b))) (bs @ [b]))"
    by auto
qed

section \<open>The plan\<close>

definition known :: "('v, 'r) dependency_candidate list \<Rightarrow> string list \<Rightarrow> bool" where
  "known cs desired \<longleftrightarrow> set desired \<subseteq> cand_bundle_id ` set cs"

text \<open>The bindings a plan has to hold: one per declaration of every desired Bundle.\<close>

definition expected_bindings ::
  "('r \<Rightarrow> 'v::linorder \<Rightarrow> bool) \<Rightarrow> ('v, 'r) dependency_candidate list \<Rightarrow> string list
    \<Rightarrow> ('v, 'r) dependency_binding set" where
  "expected_bindings vmatch cs desired =
     (\<Union>c \<in> {c \<in> set cs. cand_bundle_id c \<in> set desired}. set (consumer_bindings vmatch cs desired c))"

lemma required_pairs_cong: "set bs = set bs' \<Longrightarrow> required_pairs bs = required_pairs bs'"
  by (simp add: required_pairs_def)

lemma resolve_ok:
  assumes asc: "ascending desired" and ok: "candidates_ok cs" and k: "known cs desired"
  shows "\<exists>plan edges cycle. resolve_bundle_dependencies vmatch cs desired = Some (Inr plan)
    \<and> plan_desired_enabled plan = desired
    \<and> set (plan_bindings plan) = expected_bindings vmatch cs desired
    \<and> wf_edges desired edges \<and> edge_rel edges = required_pairs (plan_bindings plan)
    \<and> topological_order desired edges = Some (plan_enable_order plan, cycle)
    \<and> plan_issues plan = (case cycle of None \<Rightarrow> [] | Some ids \<Rightarrow> [cycle_issue ids])"
proof -
  from ok obtain by_id where v: "validate_candidates cs = Inr by_id"
    using validate_candidates_ok_iff [of cs] by (auto simp: is_ok_iff)
  then have look: "map_of by_id b = Some c \<longleftrightarrow> c \<in> set cs \<and> cand_bundle_id c = b" for b c
    by (blast dest: validate_candidates_Inr)
  have ex: "\<exists>c. map_of by_id b = Some c \<and> cand_bundle_id c = b" if "b \<in> set desired" for b
    using that k look by (auto simp: known_def)
  have req: "try_each (require_candidate by_id) desired = Inr ()"
    using ex by (auto simp: result_simps require_candidate_def)
  from bind_all_consumers [OF asc ex, where vmatch = vmatch and cs = cs] obtain bs es where
    fold: "fold_opt (bind_consumer_declarations vmatch cs desired by_id) desired ([], map (\<lambda>b. (b, [])) desired) = Some (bs, es)"
    and inv: "plan_inv desired (bs, es)"
    and bs: "bs = concat (map (\<lambda>b. consumer_bindings vmatch cs desired (the (map_of by_id b))) desired)"
    by (metis fst_conv surj_pair)
  have wf: "wf_edges desired es" using plan_inv_wf_edges [OF asc inv] by simp
  then obtain order cycle where topo: "topological_order desired es = Some (order, cycle)"
    using enable_order.order_total by fastforce
  have set_bs: "set bs = expected_bindings vmatch cs desired"
  proof -
    have "(\<lambda>b. the (map_of by_id b)) ` set desired = {c \<in> set cs. cand_bundle_id c \<in> set desired}"
    proof (intro set_eqI iffI)
      fix c assume "c \<in> (\<lambda>b. the (map_of by_id b)) ` set desired"
      then obtain b where "b \<in> set desired" "c = the (map_of by_id b)" by blast
      then show "c \<in> {c \<in> set cs. cand_bundle_id c \<in> set desired}"
        using ex [of b] look [of b c] by auto
    next
      fix c assume "c \<in> {c \<in> set cs. cand_bundle_id c \<in> set desired}"
      then show "c \<in> (\<lambda>b. the (map_of by_id b)) ` set desired"
        using look [of "cand_bundle_id c" c] by (intro image_eqI [of _ _ "cand_bundle_id c"]) auto
    qed
    note E = this
    show ?thesis
      unfolding bs expected_bindings_def E [symmetric] by simp
  qed
  let ?plan = "\<lparr>plan_desired_enabled = desired, plan_enable_order = order,
       plan_bindings = sort_by (\<lambda>a b. binding_key a \<le> binding_key b) bs,
       plan_issues = (case cycle of None \<Rightarrow> [] | Some ids \<Rightarrow> [cycle_issue ids])\<rparr>"
  have "resolve_bundle_dependencies vmatch cs desired = Some (Inr ?plan)"
    unfolding resolve_bundle_dependencies_def by (simp only: v req fold topo and_then_Inr sum.case option.case prod.case)
  moreover have "edge_rel es = required_pairs (plan_bindings ?plan)"
  proof -
    have "edge_rel es = required_pairs bs" using inv by (simp add: plan_inv_def)
    also have "\<dots> = required_pairs (plan_bindings ?plan)" by (rule required_pairs_cong) simp
    finally show ?thesis .
  qed
  moreover have "set (plan_bindings ?plan) = expected_bindings vmatch cs desired"
    using set_bs by simp
  ultimately show ?thesis
    using wf topo by (intro exI [of _ ?plan] exI [of _ es] exI [of _ cycle] conjI) simp_all
qed

lemma resolve_error:
  assumes "\<not> (candidates_ok cs \<and> known cs desired)"
  shows "\<exists>e. resolve_bundle_dependencies vmatch cs desired = Some (Inl e)"
proof (cases "validate_candidates cs")
  case (Inl e)
  then show ?thesis by (simp add: resolve_bundle_dependencies_def)
next
  case (Inr by_id)
  with assms have "\<not> known cs desired"
    using validate_candidates_Inr by blast
  then obtain b where "b \<in> set desired" "map_of by_id b = None"
    using validate_candidates_Inr [OF Inr] unfolding known_def
    by (metis image_eqI not_Some_eq subsetI)
  then have "try_each (require_candidate by_id) desired \<noteq> Inr ()"
    by (auto simp: result_simps require_candidate_def)
  then obtain e where "try_each (require_candidate by_id) desired = Inl e"
    by (cases "try_each (require_candidate by_id) desired") auto
  with Inr show ?thesis by (simp add: resolve_bundle_dependencies_def)
qed

lemma resolve_ok_cases:
  assumes "ascending desired" and "resolve_bundle_dependencies vmatch cs desired = Some (Inr plan)"
  obtains edges cycle where "plan_desired_enabled plan = desired"
    and "set (plan_bindings plan) = expected_bindings vmatch cs desired"
    and "wf_edges desired edges" and "edge_rel edges = required_pairs (plan_bindings plan)"
    and "topological_order desired edges = Some (plan_enable_order plan, cycle)"
    and "plan_issues plan = (case cycle of None \<Rightarrow> [] | Some ids \<Rightarrow> [cycle_issue ids])"
proof -
  have "candidates_ok cs" "known cs desired"
    using resolve_error [of cs desired vmatch] assms(2) by auto
  from resolve_ok [OF assms(1) this, of vmatch] assms(2) that show ?thesis by fastforce
qed

text \<open>
  Resolving never panics: for every set of desired Bundles the routine returns, with a
  plan exactly when the candidates are valid (unique ids, well-formed digests) and every
  desired Bundle is among them, and with an error otherwise.
\<close>

lemma resolve_total:
  assumes "ascending desired"
  shows "(candidates_ok cs \<and> known cs desired \<and> (\<exists>plan. resolve_bundle_dependencies vmatch cs desired = Some (Inr plan)))
    \<or> (\<not> (candidates_ok cs \<and> known cs desired) \<and> (\<exists>e. resolve_bundle_dependencies vmatch cs desired = Some (Inl e)))"
  using resolve_ok [OF assms, of cs vmatch] resolve_error [of cs desired vmatch] by blast

section \<open>What an unblocked plan guarantees\<close>

lemma blocking_iff:
  assumes "set (plan_bindings plan) = expected_bindings vmatch cs desired"
  shows "list_ex bind_blocking (plan_bindings plan) \<longleftrightarrow>
    (\<exists>c \<in> set cs. cand_bundle_id c \<in> set desired \<and>
      ((\<exists>d \<in> set (dep_requires (cand_dependencies c)). \<nexists>p. satisfying vmatch cs desired c d p)
       \<or> (\<exists>d \<in> set (dep_conflicts (cand_dependencies c)).
             \<exists>p. answers vmatch cs c d p \<and> cand_bundle_id (fst p) \<in> set desired)))"
proof -
  let ?blk = "\<lambda>c rd. bind_blocking (resolve_declaration vmatch c (fst rd) (snd rd) cs desired)"
  have A: "list_ex bind_blocking (plan_bindings plan) \<longleftrightarrow>
      (\<exists>c \<in> set cs. cand_bundle_id c \<in> set desired \<and> (\<exists>rd \<in> set (declarations_of c). ?blk c rd))"
    unfolding list_ex_iff assms expected_bindings_def consumer_bindings_def by auto
  have B: "(\<exists>rd \<in> set (declarations_of c). ?blk c rd) \<longleftrightarrow>
      ((\<exists>d \<in> set (dep_requires (cand_dependencies c)). \<nexists>p. satisfying vmatch cs desired c d p)
       \<or> (\<exists>d \<in> set (dep_conflicts (cand_dependencies c)).
             \<exists>p. answers vmatch cs c d p \<and> cand_bundle_id (fst p) \<in> set desired))" for c
    unfolding declarations_of_def set_append set_map bex_Un bex_simps
    by (simp add: resolve_declaration_state)
  show ?thesis unfolding A B by (rule refl)
qed

text \<open>
  (C23) A plan is blocked exactly for one of three reasons: a desired Bundle has a required
  declaration that no desired healthy Bundle answers, a desired Bundle declares a conflict
  that another desired Bundle answers, or the satisfied requirements form a cycle.
\<close>

theorem plan_blocked_iff:
  assumes "ascending desired" and "resolve_bundle_dependencies vmatch cs desired = Some (Inr plan)"
  shows "plan_is_blocked plan \<longleftrightarrow>
    (\<exists>c \<in> set cs. cand_bundle_id c \<in> set desired \<and>
      ((\<exists>d \<in> set (dep_requires (cand_dependencies c)). \<nexists>p. satisfying vmatch cs desired c d p)
       \<or> (\<exists>d \<in> set (dep_conflicts (cand_dependencies c)).
             \<exists>p. answers vmatch cs c d p \<and> cand_bundle_id (fst p) \<in> set desired)))
    \<or> (\<exists>b. (b, b) \<in> (required_pairs (plan_bindings plan))\<^sup>+)"
  using assms
proof (rule resolve_ok_cases)
  fix edges cycle
  assume h: "set (plan_bindings plan) = expected_bindings vmatch cs desired" "wf_edges desired edges"
    "edge_rel edges = required_pairs (plan_bindings plan)"
    "topological_order desired edges = Some (plan_enable_order plan, cycle)"
    "plan_issues plan = (case cycle of None \<Rightarrow> [] | Some ids \<Rightarrow> [cycle_issue ids])"
  have "plan_issues plan \<noteq> [] \<longleftrightarrow> \<not> acyclic (required_pairs (plan_bindings plan))"
    using enable_order.order_or_cycle [OF h(2,4)] h(3,5) by (auto split: option.splits)
  then show ?thesis
    unfolding plan_is_blocked_def blocking_iff [OF h(1)] by (auto simp: acyclic_def)
qed

lemma unblocked_plan_order:
  assumes "ascending desired" and "resolve_bundle_dependencies vmatch cs desired = Some (Inr plan)"
    and "\<not> plan_is_blocked plan"
  shows "distinct (plan_enable_order plan) \<and> set (plan_enable_order plan) = set desired"
  using assms(1,2)
proof (rule resolve_ok_cases)
  fix edges cycle
  assume h: "wf_edges desired edges" "topological_order desired edges = Some (plan_enable_order plan, cycle)"
    "plan_issues plan = (case cycle of None \<Rightarrow> [] | Some ids \<Rightarrow> [cycle_issue ids])"
  then have "cycle = None" using assms(3) by (auto simp: plan_is_blocked_def split: option.splits)
  with enable_order.order_sound [OF h(1)] h(2) show ?thesis by blast
qed

lemma unblocked_plan_provider:
  assumes asc: "ascending desired"
    and res: "resolve_bundle_dependencies vmatch cs desired = Some (Inr plan)"
    and free: "\<not> plan_is_blocked plan"
    and c: "c \<in> set cs" "cand_bundle_id c \<in> set desired"
    and d: "d \<in> set (dep_requires (cand_dependencies c))"
  shows "distinct (plan_enable_order plan) \<and> set (plan_enable_order plan) = set desired
    \<and> (\<exists>p. satisfying vmatch cs desired c d p
        \<and> before (plan_enable_order plan) (cand_bundle_id (fst p)) (cand_bundle_id c)
        \<and> (\<forall>q. satisfying vmatch cs desired c d q \<longrightarrow> cap_version (snd q) \<le> cap_version (snd p))
        \<and> (\<exists>b \<in> set (bindings_for plan (cand_bundle_id c)). bind_capability b = decl_capability d
             \<and> bind_state b = Satisfied \<and> bind_provider b = Some (provider_projection p)))"
  using asc res
proof (rule resolve_ok_cases)
  fix edges cycle
  assume h: "set (plan_bindings plan) = expected_bindings vmatch cs desired" "wf_edges desired edges"
    "edge_rel edges = required_pairs (plan_bindings plan)"
    "topological_order desired edges = Some (plan_enable_order plan, cycle)"
    "plan_issues plan = (case cycle of None \<Rightarrow> [] | Some ids \<Rightarrow> [cycle_issue ids])"
  have "cycle = None" using free h(5) by (auto simp: plan_is_blocked_def split: option.splits)
  with enable_order.order_sound [OF h(2)] h(4) have ord: "distinct (plan_enable_order plan)"
    "set (plan_enable_order plan) = set desired"
    "\<And>p c. (p, c) \<in> required_pairs (plan_bindings plan) \<Longrightarrow> before (plan_enable_order plan) p c"
    unfolding h(3) by auto
  let ?b = "resolve_declaration vmatch c Required d cs desired"
  have mem: "?b \<in> set (plan_bindings plan)"
    using c d h(1) by (force simp: expected_bindings_def consumer_bindings_def declarations_of_def)
  moreover have "\<not> bind_blocking ?b"
    using free mem by (auto simp: plan_is_blocked_def list_ex_iff)
  then have sat: "bind_state ?b = Satisfied"
    by (simp add: resolve_declaration_state)
  from satisfied_has_provider [OF sat _ refl] obtain p where
    p: "satisfying vmatch cs desired c d p" "bind_provider ?b = Some (provider_projection p)"
      "\<forall>q. satisfying vmatch cs desired c d q \<longrightarrow> provider_order p q"
    by blast
  have "(cand_bundle_id (fst p), cand_bundle_id c) \<in> required_pairs (plan_bindings plan)"
    using mem sat p(2) by (force simp: required_pairs_def provider_projection_def)
  moreover have "\<forall>q. satisfying vmatch cs desired c d q \<longrightarrow> cap_version (snd q) \<le> cap_version (snd p)"
    using p(3) unfolding provider_order_def by (metis less_imp_le order_refl)
  moreover have "?b \<in> set (bindings_for plan (cand_bundle_id c))"
    using mem by (simp add: bindings_for_def)
  ultimately show ?thesis
    using ord sat p(1,2) by (intro conjI exI [of _ p] bexI [of _ ?b]) auto
qed

text \<open>
  (C2) Enabling the Bundles of an unblocked plan in its order is safe.  The order lists
  every desired Bundle once.  Each required declaration of a desired Bundle is bound to
  another desired, healthy Bundle that provides the capability in a matching version; that
  provider comes earlier in the order, and no other eligible provider offers a higher
  version of the capability.
\<close>

theorem unblocked_plan_enables_providers_first:
  assumes asc: "ascending desired"
    and res: "resolve_bundle_dependencies vmatch cs desired = Some (Inr plan)"
    and free: "\<not> plan_is_blocked plan"
    and c: "c \<in> set cs" "cand_bundle_id c \<in> set desired"
    and d: "d \<in> set (dep_requires (cand_dependencies c))"
  shows "distinct (plan_enable_order plan) \<and> set (plan_enable_order plan) = set desired
    \<and> (\<exists>p. satisfying vmatch cs desired c d p
        \<and> before (plan_enable_order plan) (cand_bundle_id (fst p)) (cand_bundle_id c)
        \<and> (\<forall>q. satisfying vmatch cs desired c d q \<longrightarrow> cap_version (snd q) \<le> cap_version (snd p))
        \<and> (\<exists>b \<in> set (bindings_for plan (cand_bundle_id c)). bind_capability b = decl_capability d
             \<and> bind_state b = Satisfied \<and> bind_provider b = Some (provider_projection p)))"
  using assms by (rule unblocked_plan_provider)

section \<open>A concrete plan\<close>

text \<open>
  A site with two database Bundles and a wiki that requires a store of version 2 or later.
  Versions are numbers and a requirement is a lower bound.
\<close>

definition sample_digest :: string where
  "sample_digest = replicate 64 CHR ''a''"

definition sample_db :: "string \<Rightarrow> nat \<Rightarrow> bundle_candidate_state \<Rightarrow> (nat, nat) dependency_candidate" where
  "sample_db name v st = \<lparr>cand_bundle_id = name, cand_bundle_version = 1,
     cand_manifest_sha256 = sample_digest, cand_state = st,
     cand_provides = [\<lparr>cap_id = ''data.store'', cap_version = v, cap_description = ''store''\<rparr>],
     cand_dependencies = \<lparr>dep_requires = [], dep_optional = [], dep_conflicts = []\<rparr>\<rparr>"

definition sample_need :: "nat dependency_declaration" where
  "sample_need = \<lparr>decl_capability = ''data.store'', decl_version = 2, decl_feature = ''storage'',
     decl_reason = ''pages'', decl_provider_bundle = None, decl_provider_version = None\<rparr>"

definition sample_wiki :: "(nat, nat) dependency_candidate" where
  "sample_wiki = \<lparr>cand_bundle_id = ''wiki'', cand_bundle_version = 1,
     cand_manifest_sha256 = sample_digest, cand_state = Installed, cand_provides = [],
     cand_dependencies = \<lparr>dep_requires = [sample_need], dep_optional = [], dep_conflicts = []\<rparr>\<rparr>"

definition sample_site :: "(nat, nat) dependency_candidate list" where
  "sample_site = [sample_wiki, sample_db ''db-a'' 2 EnabledHealthy, sample_db ''zz-db'' 3 EnabledHealthy]"

abbreviation sample_desired :: "string list" where
  "sample_desired \<equiv> [''db-a'', ''wiki'', ''zz-db'']"

lemma sample_ascending: "ascending sample_desired"
  by code_simp

lemma sample_plan:
  "\<exists>plan. resolve_bundle_dependencies (\<le>) sample_site sample_desired = Some (Inr plan)
    \<and> (plan_enable_order plan, plan_is_blocked plan) = ([''db-a'', ''zz-db'', ''wiki''], False)"
  by (rule returned_projection) code_simp

lemma resolve_total_example:
  "candidates_ok sample_site \<and> known sample_site sample_desired
    \<and> (\<exists>plan. resolve_bundle_dependencies (\<le>) sample_site sample_desired = Some (Inr plan))"
  using resolve_total [OF sample_ascending, of sample_site "(\<le>)"] sample_plan by auto

theorem plan_blocked_iff_witness:
  "\<exists>plan. resolve_bundle_dependencies (\<le>) [sample_wiki, sample_db ''db-a'' 2 EnabledUnhealthy] [''db-a'', ''wiki''] = Some (Inr plan)
    \<and> plan_is_blocked plan
    \<and> ((\<exists>c \<in> {sample_wiki, sample_db ''db-a'' 2 EnabledUnhealthy}. cand_bundle_id c \<in> {''db-a'', ''wiki''} \<and>
      ((\<exists>d \<in> set (dep_requires (cand_dependencies c)).
          \<nexists>p. satisfying (\<le>) [sample_wiki, sample_db ''db-a'' 2 EnabledUnhealthy] [''db-a'', ''wiki''] c d p)
       \<or> (\<exists>d \<in> set (dep_conflicts (cand_dependencies c)).
          \<exists>p. answers (\<le>) [sample_wiki, sample_db ''db-a'' 2 EnabledUnhealthy] c d p \<and> cand_bundle_id (fst p) \<in> {''db-a'', ''wiki''})))
     \<or> (\<exists>b. (b, b) \<in> (required_pairs (plan_bindings plan))\<^sup>+))"
proof -
  let ?cs = "[sample_wiki, sample_db ''db-a'' 2 EnabledUnhealthy]"
  have asc: "ascending [''db-a'', ''wiki'']" by code_simp
  have "\<exists>plan. resolve_bundle_dependencies (\<le>) ?cs [''db-a'', ''wiki''] = Some (Inr plan)
      \<and> plan_is_blocked plan = True"
    by (rule returned_projection) code_simp
  then obtain plan where plan: "resolve_bundle_dependencies (\<le>) ?cs [''db-a'', ''wiki''] = Some (Inr plan)"
    "plan_is_blocked plan" by blast
  with plan_blocked_iff [OF asc plan(1)] show ?thesis
    by (intro exI [of _ plan]) (simp only: list.set simp_thms)
qed

theorem unblocked_plan_enables_providers_first_witness:
  "\<exists>plan p. resolve_bundle_dependencies (\<le>) sample_site sample_desired = Some (Inr plan)
    \<and> plan_enable_order plan = [''db-a'', ''zz-db'', ''wiki'']
    \<and> satisfying (\<le>) sample_site sample_desired sample_wiki sample_need p
    \<and> before (plan_enable_order plan) (cand_bundle_id (fst p)) ''wiki''"
proof -
  from sample_plan obtain plan where
    plan: "resolve_bundle_dependencies (\<le>) sample_site sample_desired = Some (Inr plan)"
      "plan_enable_order plan = [''db-a'', ''zz-db'', ''wiki'']" "\<not> plan_is_blocked plan" by auto
  have c: "sample_wiki \<in> set sample_site" "cand_bundle_id sample_wiki = ''wiki''"
    "sample_need \<in> set (dep_requires (cand_dependencies sample_wiki))"
    by (simp_all add: sample_site_def sample_wiki_def)
  then have "cand_bundle_id sample_wiki \<in> set sample_desired" by simp
  from unblocked_plan_enables_providers_first [OF sample_ascending plan(1,3) c(1) this c(3)] c(2) plan
  show ?thesis by auto
qed

end
