(* ===== verification/Bundle_Set.thy ===== *)
theory Bundle_Set
  imports Complex_Main Bundle_Dependency
begin

text \<open>
  Bundle Sets: \<open>crates/gadgetron-bundle-sdk/src/bundle_set.rs\<close>.  A Set pins packages by
  version and manifest digest; resolving it checks every pin against the inspected
  candidates and delegates to the dependency planner.

  The \<open>toml\<close> crate is not part of the repository: \<open>parse_toml\<close> takes the two uses it makes
  of it as arguments, \<open>toml_version\<close> (parse the source and read the integer field
  \<open>set_manifest_version\<close>) and \<open>toml_decode\<close> (deserialise the source into a manifest).
\<close>

section \<open>Data\<close>

datatype f64_value = Finite rat | Infinite bool | NotANumber

datatype set_setting_value =
  SettingString string | SettingInteger int | SettingFloat f64_value | SettingBoolean bool

record 'v set_package_ref =
  pkg_bundle_id :: string
  pkg_version :: 'v
  pkg_manifest_sha256 :: string
  pkg_enable :: bool
  pkg_settings :: "(string \<times> set_setting_value) list"

record 'v set_identity =
  set_id :: string
  set_version :: 'v
  set_publisher :: string

record 'v bundle_set_manifest =
  set_manifest_version :: u32
  set_set :: "'v set_identity"
  set_packages :: "'v set_package_ref list"

record ('v, 'r) bundle_set_plan =
  bsp_set_id :: string
  bsp_set_version :: 'v
  bsp_package_ids :: "string list"
  bsp_enable_order :: "string list"
  bsp_dependency_plan :: "('v, 'r) dependency_plan"

definition bundle_set_is_blocked :: "('v, 'r) bundle_set_plan \<Rightarrow> bool" where
  "bundle_set_is_blocked plan = plan_is_blocked (bsp_dependency_plan plan)"

abbreviation BUNDLE_SET_MANIFEST_VERSION :: u32 where "BUNDLE_SET_MANIFEST_VERSION \<equiv> 1"
abbreviation MAX_SET_PACKAGES :: nat where "MAX_SET_PACKAGES \<equiv> 64"
abbreviation MAX_SET_MANIFEST_BYTES :: nat where "MAX_SET_MANIFEST_BYTES \<equiv> 1048576"
abbreviation MAX_PUBLISHER :: nat where "MAX_PUBLISHER \<equiv> 256"
abbreviation MAX_SETTINGS_PER_PACKAGE :: nat where "MAX_SETTINGS_PER_PACKAGE \<equiv> 128"
abbreviation MAX_SETTING_TEXT :: nat where "MAX_SETTING_TEXT \<equiv> 2048"

section \<open>Validation\<close>

definition bounded_nonempty :: "string \<Rightarrow> string \<Rightarrow> nat \<Rightarrow> (bundle_sdk_error, unit) result" where
  "bounded_nonempty field s limit =
     (if is_blank s \<or> length s > limit \<or> has_control s
      then Inl (InvalidManifest field
             (''must contain 1-'' @ show_nat limit @ '' characters and no control characters''))
      else Inr ())"

definition validate_sha256_field :: "string \<Rightarrow> string \<Rightarrow> (bundle_sdk_error, unit) result" where
  "validate_sha256_field field s = check (is_sha256_hex s)
     (InvalidManifest field ''must be a 64-character lowercase hexadecimal SHA-256 digest'')"

definition is_secret_like_field :: "string \<Rightarrow> bool" where
  "is_secret_like_field name =
     (let normalized = map (\<lambda>c. if c = CHR ''-'' then CHR ''_'' else c) name
      in list_ex (\<lambda>sensitive. sublist sensitive normalized)
           [''password'', ''secret'', ''token'', ''private_key'', ''credential''])"

definition package_field :: "nat \<Rightarrow> string \<Rightarrow> string" where
  "package_field index f = ''packages['' @ show_nat index @ ''].'' @ f"

definition validate_setting :: "nat \<Rightarrow> string \<times> set_setting_value \<Rightarrow> (bundle_sdk_error, unit) result" where
  "validate_setting index sv =
     (let field = package_field index (''settings.'' @ fst sv) in
      if is_secret_like_field (fst sv)
      then Inl (InvalidManifest field
             ''secret-like values are forbidden; use Core-owned secret references after install'')
      else and_then (case snd sv of SettingString v \<Rightarrow> bounded_nonempty field v MAX_SETTING_TEXT | _ \<Rightarrow> Inr ())
        (\<lambda>_. case snd sv of
             SettingFloat (Finite _) \<Rightarrow> Inr ()
           | SettingFloat _ \<Rightarrow> Inl (InvalidManifest field ''floating-point settings must be finite'')
           | _ \<Rightarrow> Inr ()))"

fun validate_packages :: "nat \<Rightarrow> string list \<Rightarrow> 'v set_package_ref list \<Rightarrow> (bundle_sdk_error, unit) result" where
  "validate_packages index ids [] = Inr ()"
| "validate_packages index ids (p # ps) =
     (if pkg_bundle_id p \<in> set ids
      then Inl (InvalidManifest (package_field index ''bundle_id'')
             ''duplicates a Bundle already present in this Set'')
      else and_then (validate_sha256_field (package_field index ''package_manifest_sha256'') (pkg_manifest_sha256 p)) (\<lambda>_.
        if length (pkg_settings p) > MAX_SETTINGS_PER_PACKAGE
        then Inl (InvalidManifest (package_field index ''settings'')
               (''at most '' @ show_nat MAX_SETTINGS_PER_PACKAGE @ '' scalar settings may be declared''))
        else and_then (try_each (validate_setting index) (pkg_settings p)) (\<lambda>_.
          validate_packages (Suc index) (bt_insert (pkg_bundle_id p) ids) ps)))"

definition bundle_set_validate :: "'v bundle_set_manifest \<Rightarrow> (bundle_sdk_error, unit) result" where
  "bundle_set_validate m =
     (if set_manifest_version m \<noteq> BUNDLE_SET_MANIFEST_VERSION
      then Inl (InvalidManifest ''set_manifest_version''
             (''unsupported Bundle Set manifest version '' @ show_nat (unat (set_manifest_version m))
               @ ''; expected '' @ show_nat (unat BUNDLE_SET_MANIFEST_VERSION)))
      else and_then (bounded_nonempty ''set.publisher'' (set_publisher (set_set m)) MAX_PUBLISHER) (\<lambda>_.
        if set_packages m = [] \<or> length (set_packages m) > MAX_SET_PACKAGES
        then Inl (InvalidManifest ''packages''
               (''must contain 1-'' @ show_nat MAX_SET_PACKAGES @ '' independent package references''))
        else validate_packages 0 [] (set_packages m)))"

definition bundle_set_parse_toml ::
  "(string \<Rightarrow> (string, int option) result) \<Rightarrow> (string \<Rightarrow> (string, 'v bundle_set_manifest) result)
    \<Rightarrow> string \<Rightarrow> (bundle_sdk_error, 'v bundle_set_manifest) result" where
  "bundle_set_parse_toml toml_version toml_decode source =
     (if length source > MAX_SET_MANIFEST_BYTES
      then Inl (InvalidManifest ''bundle_set'' (''exceeds '' @ show_nat MAX_SET_MANIFEST_BYTES @ '' bytes''))
      else and_then (map_sum ManifestToml id (toml_version source)) (\<lambda>found.
        and_then (ok_or found (InvalidManifest ''set_manifest_version''
            ''a positive integer Bundle Set manifest version is required'')) (\<lambda>found.
        if found \<noteq> uint BUNDLE_SET_MANIFEST_VERSION
        then Inl (InvalidManifest ''set_manifest_version''
               (''unsupported Bundle Set manifest version '' @ show_int found
                 @ ''; expected '' @ show_nat (unat BUNDLE_SET_MANIFEST_VERSION)))
        else and_then (map_sum ManifestToml id (toml_decode source)) (\<lambda>m.
          and_then (bundle_set_validate m) (\<lambda>_. Inr m)))))"

section \<open>Resolution\<close>

text \<open>The \<open>Display\<close> of a version belongs to \<open>semver\<close>: \<open>vshow\<close> renders it in the error text.\<close>

fun pin_packages ::
  "('v \<Rightarrow> string) \<Rightarrow> (string \<times> ('v, 'r) dependency_candidate) list \<Rightarrow> nat \<Rightarrow> 'v set_package_ref list
    \<Rightarrow> string list \<times> string list \<Rightarrow> (bundle_sdk_error, string list \<times> string list) result" where
  "pin_packages vshow by_id index [] acc = Inr acc"
| "pin_packages vshow by_id index (p # ps) (desired, selected) =
     (case map_of by_id (pkg_bundle_id p) of
        None \<Rightarrow> Inl (InvalidManifest (package_field index ''bundle_id'')
          (''Bundle '' @ debug_id (pkg_bundle_id p) @ '' has no inspected package candidate''))
      | Some c \<Rightarrow>
          if cand_bundle_version c \<noteq> pkg_version p
          then Inl (InvalidManifest (package_field index ''version'')
                 (''expected '' @ vshow (pkg_version p) @ '', inspected '' @ vshow (cand_bundle_version c)))
          else if cand_manifest_sha256 c \<noteq> pkg_manifest_sha256 p
          then Inl (InvalidManifest (package_field index ''package_manifest_sha256'')
                 ''does not match the exact inspected package manifest bytes'')
          else pin_packages vshow by_id (Suc index) ps
                 (if pkg_enable p
                  then (bt_insert (pkg_bundle_id p) desired, bt_insert (pkg_bundle_id p) selected)
                  else (desired, selected)))"

definition resolve_bundle_set ::
  "('r \<Rightarrow> 'v::linorder \<Rightarrow> bool) \<Rightarrow> ('v \<Rightarrow> string) \<Rightarrow> 'v bundle_set_manifest
    \<Rightarrow> ('v, 'r) dependency_candidate list
    \<Rightarrow> (bundle_sdk_error, ('v, 'r) bundle_set_plan) result option" where
  "resolve_bundle_set vmatch vshow m candidates =
     (case and_then (bundle_set_validate m) (\<lambda>_.
             let by_id = fold (\<lambda>c. bm_insert (cand_bundle_id c) c) candidates [] in
             if length by_id \<noteq> length candidates
             then Inl (InvalidManifest ''bundle_set.candidates'' ''contains duplicate Bundle candidates'')
             else pin_packages vshow by_id 0 (set_packages m)
                    (bt_of_list (map cand_bundle_id (filter (\<lambda>c. is_enabled (cand_state c)) candidates)), [])) of
        Inl e \<Rightarrow> Some (Inl e)
      | Inr (desired, selected) \<Rightarrow>
          map_option (map_sum id (\<lambda>plan.
            \<lparr>bsp_set_id = set_id (set_set m), bsp_set_version = set_version (set_set m),
             bsp_package_ids = map pkg_bundle_id (set_packages m),
             bsp_enable_order = filter (\<lambda>b. b \<in> set selected) (plan_enable_order plan),
             bsp_dependency_plan = plan\<rparr>))
            (resolve_bundle_dependencies vmatch candidates desired))"

section \<open>What a resolved Set guarantees\<close>

lemma validate_packages_ok:
  "validate_packages index ids ps = Inr u \<Longrightarrow>
     distinct (map pkg_bundle_id ps) \<and> set ids \<inter> pkg_bundle_id ` set ps = {}
     \<and> (\<forall>p \<in> set ps. is_sha256_hex (pkg_manifest_sha256 p) \<and> length (pkg_settings p) \<le> MAX_SETTINGS_PER_PACKAGE
          \<and> (\<forall>sv \<in> set (pkg_settings p). \<not> is_secret_like_field (fst sv)))"
proof (induction index ids ps rule: validate_packages.induct)
  case (1 index ids)
  then show ?case by simp
next
  case (2 index ids p ps)
  then have p: "pkg_bundle_id p \<notin> set ids" "is_sha256_hex (pkg_manifest_sha256 p)"
    "length (pkg_settings p) \<le> MAX_SETTINGS_PER_PACKAGE"
    "\<forall>sv \<in> set (pkg_settings p). validate_setting index sv = Inr ()"
    "validate_packages (Suc index) (bt_insert (pkg_bundle_id p) ids) ps = Inr u"
    by (auto simp: result_simps validate_sha256_field_def split: if_splits)
  moreover have "\<forall>sv \<in> set (pkg_settings p). \<not> is_secret_like_field (fst sv)"
    using p(4) by (auto simp: validate_setting_def Let_def split: if_splits)
  moreover have IH: "distinct (map pkg_bundle_id ps)"
    "set (bt_insert (pkg_bundle_id p) ids) \<inter> pkg_bundle_id ` set ps = {}"
    "\<forall>p \<in> set ps. is_sha256_hex (pkg_manifest_sha256 p) \<and> length (pkg_settings p) \<le> MAX_SETTINGS_PER_PACKAGE
        \<and> (\<forall>sv \<in> set (pkg_settings p). \<not> is_secret_like_field (fst sv))"
    using 2 p by (auto simp: validate_sha256_field_def)
  ultimately show ?case by auto
qed

lemma bundle_set_validate_ok:
  "bundle_set_validate m = Inr u \<Longrightarrow>
     set_packages m \<noteq> [] \<and> length (set_packages m) \<le> MAX_SET_PACKAGES
     \<and> validate_packages 0 [] (set_packages m) = Inr ()"
  by (auto simp: bundle_set_validate_def result_simps split: if_splits)

definition pinned :: "('v, 'r) dependency_candidate list \<Rightarrow> 'v set_package_ref \<Rightarrow> ('v, 'r) dependency_candidate \<Rightarrow> bool" where
  "pinned candidates p c \<longleftrightarrow> c \<in> set candidates \<and> cand_bundle_id c = pkg_bundle_id p
     \<and> cand_bundle_version c = pkg_version p \<and> cand_manifest_sha256 c = pkg_manifest_sha256 p"

definition enabled_ids :: "'v set_package_ref list \<Rightarrow> string set" where
  "enabled_ids ps = pkg_bundle_id ` {p \<in> set ps. pkg_enable p}"

lemma pin_packages_ok:
  assumes "pin_packages vshow by_id index ps acc = Inr acc'"
    and "\<And>b c. map_of by_id b = Some c \<Longrightarrow> c \<in> set candidates \<and> cand_bundle_id c = b"
  shows "(\<forall>p \<in> set ps. \<exists>c. pinned candidates p c)
    \<and> set (fst acc') = set (fst acc) \<union> enabled_ids ps \<and> set (snd acc') = set (snd acc) \<union> enabled_ids ps
    \<and> (ascending (fst acc) \<longrightarrow> ascending (fst acc'))"
  using assms(1)
proof (induction ps arbitrary: index acc)
  case Nil
  then show ?case by (simp add: enabled_ids_def)
next
  case (Cons p ps)
  obtain desired selected where acc: "acc = (desired, selected)" by (cases acc)
  let ?acc = "if pkg_enable p
    then (bt_insert (pkg_bundle_id p) desired, bt_insert (pkg_bundle_id p) selected) else (desired, selected)"
  from Cons.prems acc obtain c where c: "map_of by_id (pkg_bundle_id p) = Some c"
    "cand_bundle_version c = pkg_version p" "cand_manifest_sha256 c = pkg_manifest_sha256 p"
    and rest: "pin_packages vshow by_id (Suc index) ps ?acc = Inr acc'"
    by (auto split: option.splits if_splits)
  have "pinned candidates p c" using c assms(2) by (auto simp: pinned_def)
  moreover have "enabled_ids (p # ps) = (if pkg_enable p then {pkg_bundle_id p} else {}) \<union> enabled_ids ps"
    by (auto simp: enabled_ids_def)
  ultimately show ?case
    using Cons.IH [OF rest] acc by (auto split: if_splits)
qed

lemma map_of_collect:
  "map_of (fold (\<lambda>c. bm_insert (f c) c) cs m) b = Some c \<Longrightarrow> c \<in> set cs \<and> f c = b \<or> map_of m b = Some c"
  by (induction cs arbitrary: m) (fastforce split: if_splits)+

definition initially_enabled :: "('v, 'r) dependency_candidate list \<Rightarrow> string set" where
  "initially_enabled cs = cand_bundle_id ` {c \<in> set cs. is_enabled (cand_state c)}"

lemma resolve_bundle_set_cases:
  assumes "resolve_bundle_set vmatch vshow m cs = Some (Inr plan)"
  obtains desired where "ascending desired"
    and "set desired = initially_enabled cs \<union> enabled_ids (set_packages m)"
    and "resolve_bundle_dependencies vmatch cs desired = Some (Inr (bsp_dependency_plan plan))"
    and "bsp_enable_order plan =
      filter (\<lambda>b. b \<in> enabled_ids (set_packages m)) (plan_enable_order (bsp_dependency_plan plan))"
    and "\<forall>p \<in> set (set_packages m). \<exists>c. pinned cs p c"
    and "validate_packages 0 [] (set_packages m) = Inr ()"
    and "bsp_package_ids plan = map pkg_bundle_id (set_packages m)"
proof -
  let ?by_id = "fold (\<lambda>c. bm_insert (cand_bundle_id c) c) cs []"
  let ?start = "bt_of_list (map cand_bundle_id (filter (\<lambda>c. is_enabled (cand_state c)) cs))"
  from assms obtain desired selected dplan where
    v: "bundle_set_validate m = Inr ()"
    and pin: "pin_packages vshow ?by_id 0 (set_packages m) (?start, []) = Inr (desired, selected)"
    and dep: "resolve_bundle_dependencies vmatch cs desired = Some (Inr dplan)"
    and plan: "plan = \<lparr>bsp_set_id = set_id (set_set m), bsp_set_version = set_version (set_set m),
             bsp_package_ids = map pkg_bundle_id (set_packages m),
             bsp_enable_order = filter (\<lambda>b. b \<in> set selected) (plan_enable_order dplan),
             bsp_dependency_plan = dplan\<rparr>"
    by (auto simp: resolve_bundle_set_def Let_def result_simps map_sum_def split: sum.splits if_splits)
  have look: "c \<in> set cs \<and> cand_bundle_id c = b" if "map_of ?by_id b = Some c" for b c
    using map_of_collect [OF that] by simp
  note ok = pin_packages_ok [OF pin look]
  have "set ?start = initially_enabled cs" by (auto simp: initially_enabled_def)
  with ok that [of desired] dep plan bundle_set_validate_ok [OF v] show ?thesis by auto
qed

text \<open>
  (C20) A resolved Set is exactly what was pinned: its packages are distinct, each matches an
  inspected candidate in id, version and manifest digest, and no setting has a secret-like
  name.  When its plan is not blocked, the enable order lists exactly the packages the Set
  enables, each once, and a requirement of such a package is met by a healthy Bundle that
  is enabled earlier in that order or was enabled before.
\<close>

theorem bundle_set_pins_and_orders:
  assumes res: "resolve_bundle_set vmatch vshow m cs = Some (Inr plan)"
  shows "(\<forall>p \<in> set (set_packages m). (\<exists>c. pinned cs p c)
        \<and> (\<forall>sv \<in> set (pkg_settings p). \<not> is_secret_like_field (fst sv)))
    \<and> distinct (map pkg_bundle_id (set_packages m))
    \<and> (\<not> bundle_set_is_blocked plan \<longrightarrow>
        distinct (bsp_enable_order plan) \<and> set (bsp_enable_order plan) = enabled_ids (set_packages m)
        \<and> (\<forall>c \<in> set cs. \<forall>d \<in> set (dep_requires (cand_dependencies c)).
             cand_bundle_id c \<in> enabled_ids (set_packages m) \<longrightarrow>
             (\<exists>p. answers vmatch cs c d p \<and> is_available_for_plan (cand_state (fst p))
               \<and> (before (bsp_enable_order plan) (cand_bundle_id (fst p)) (cand_bundle_id c)
                  \<or> cand_bundle_id (fst p) \<in> initially_enabled cs))))"
  using res
proof (rule resolve_bundle_set_cases)
  fix desired
  let ?E = "enabled_ids (set_packages m)"
  assume asc: "ascending desired" and D: "set desired = initially_enabled cs \<union> ?E"
    and dep: "resolve_bundle_dependencies vmatch cs desired = Some (Inr (bsp_dependency_plan plan))"
    and ord: "bsp_enable_order plan = filter (\<lambda>b. b \<in> ?E) (plan_enable_order (bsp_dependency_plan plan))"
    and pins: "\<forall>p \<in> set (set_packages m). \<exists>c. pinned cs p c"
    and v: "validate_packages 0 [] (set_packages m) = Inr ()"
  have order: "distinct (plan_enable_order (bsp_dependency_plan plan))
      \<and> set (plan_enable_order (bsp_dependency_plan plan)) = set desired"
    if "\<not> plan_is_blocked (bsp_dependency_plan plan)"
    using unblocked_plan_order [OF asc dep that] .
  have meets: "\<exists>p. answers vmatch cs c d p \<and> is_available_for_plan (cand_state (fst p))
      \<and> (before (bsp_enable_order plan) (cand_bundle_id (fst p)) (cand_bundle_id c)
         \<or> cand_bundle_id (fst p) \<in> initially_enabled cs)"
    if free: "\<not> plan_is_blocked (bsp_dependency_plan plan)"
      and c: "c \<in> set cs" "d \<in> set (dep_requires (cand_dependencies c))" "cand_bundle_id c \<in> ?E" for c d
  proof -
    have "cand_bundle_id c \<in> set desired" using c D by blast
    from unblocked_plan_provider [OF asc dep free c(1) this c(2)] obtain p where
      p: "satisfying vmatch cs desired c d p"
        "before (plan_enable_order (bsp_dependency_plan plan)) (cand_bundle_id (fst p)) (cand_bundle_id c)"
      by blast
    show ?thesis
    proof (cases "cand_bundle_id (fst p) \<in> ?E")
      case True
      with p(2) c(3) have "before (bsp_enable_order plan) (cand_bundle_id (fst p)) (cand_bundle_id c)"
        unfolding ord by (intro before_filter)
      with p(1) show ?thesis by (intro exI [of _ p]) (simp add: satisfying_def)
    next
      case False
      with p(1) D show ?thesis by (intro exI [of _ p]) (auto simp: satisfying_def)
    qed
  qed
  show ?thesis
    using pins validate_packages_ok [OF v] order meets D ord
    by (auto simp: bundle_set_is_blocked_def)
qed

definition sample_set :: "nat bundle_set_manifest" where
  "sample_set = \<lparr>set_manifest_version = 1,
     set_set = \<lparr>set_id = ''starter'', set_version = 1, set_publisher = ''Example''\<rparr>,
     set_packages =
       [\<lparr>pkg_bundle_id = ''wiki'', pkg_version = 1, pkg_manifest_sha256 = sample_digest,
         pkg_enable = True, pkg_settings = [(''theme'', SettingString ''plain'')]\<rparr>,
        \<lparr>pkg_bundle_id = ''zz-db'', pkg_version = 1, pkg_manifest_sha256 = sample_digest,
         pkg_enable = True, pkg_settings = []\<rparr>]\<rparr>"

definition sample_inspected :: "(nat, nat) dependency_candidate list" where
  "sample_inspected = [sample_wiki, sample_db ''db-a'' 2 EnabledHealthy, sample_db ''zz-db'' 3 Installed]"

theorem bundle_set_pins_and_orders_witness:
  "\<exists>plan. resolve_bundle_set (\<le>) show_nat sample_set sample_inspected = Some (Inr plan)
    \<and> bsp_enable_order plan = [''zz-db'', ''wiki'']
    \<and> (\<exists>c. pinned sample_inspected (hd (set_packages sample_set)) c)
    \<and> set [''zz-db'', ''wiki''] = enabled_ids (set_packages sample_set)"
proof -
  have "\<exists>plan. resolve_bundle_set (\<le>) show_nat sample_set sample_inspected = Some (Inr plan)
      \<and> (bsp_enable_order plan, bundle_set_is_blocked plan) = ([''zz-db'', ''wiki''], False)"
    by (rule returned_projection) code_simp
  then obtain plan where plan: "resolve_bundle_set (\<le>) show_nat sample_set sample_inspected = Some (Inr plan)"
    "bsp_enable_order plan = [''zz-db'', ''wiki'']" "\<not> bundle_set_is_blocked plan" by auto
  have "hd (set_packages sample_set) \<in> set (set_packages sample_set)"
    by (simp add: sample_set_def)
  with bundle_set_pins_and_orders [OF plan(1)] plan show ?thesis by auto
qed

end
