(* ===== verification/Gadget_Modes.thy ===== *)
theory Gadget_Modes
  imports Gadgetron_Prelude
begin

text \<open>
  The tier and mode matrix of Gadget execution: \<open>GadgetsConfig\<close> and its parts in
  \<open>crates/gadgetron-core/src/agent/config.rs\<close>, the Gadget tiers and the dispatch context in
  \<open>crates/gadgetron-core/src/agent/tools.rs\<close>.

  The token file of \<open>ExtraConfirmation::File\<close> lives in the file system of the host; the two
  calls the validator makes (\<open>Path::exists\<close> and \<open>fs::metadata\<close>) are the fields of
  \<open>host_files\<close>.  A configuration error carries its message as a value of
  \<open>config_violation\<close>, one constructor per message template with its arguments.
\<close>

section \<open>Tiers, modes and the dispatch context\<close>

datatype gadget_tier = TierRead | TierWrite | TierDestructive

datatype gadget_mode = ModeAuto | ModeAsk | ModeNever

record gadget_dispatch_context =
  gdc_tenant_id :: string
  gdc_actor_id :: string
  gdc_request_id :: string
  gdc_conversation_id :: "string option"
  gdc_scopes :: "string list"
  gdc_approval_granted :: bool
  gdc_policy_authorized :: bool

definition dispatch_context_new :: "string \<Rightarrow> string \<Rightarrow> string \<Rightarrow> gadget_dispatch_context" where
  "dispatch_context_new tenant_id actor_id request_id =
     \<lparr>gdc_tenant_id = tenant_id, gdc_actor_id = actor_id, gdc_request_id = request_id,
      gdc_conversation_id = None, gdc_scopes = [], gdc_approval_granted = False,
      gdc_policy_authorized = False\<rparr>"

definition with_conversation_id :: "string \<Rightarrow> gadget_dispatch_context \<Rightarrow> gadget_dispatch_context" where
  "with_conversation_id conversation c = c\<lparr>gdc_conversation_id := Some conversation\<rparr>"

definition with_scopes :: "string list \<Rightarrow> gadget_dispatch_context \<Rightarrow> gadget_dispatch_context" where
  "with_scopes scopes c = c\<lparr>gdc_scopes := scopes\<rparr>"

definition with_approval_granted :: "gadget_dispatch_context \<Rightarrow> gadget_dispatch_context" where
  "with_approval_granted c = c\<lparr>gdc_approval_granted := True\<rparr>"

definition with_policy_authorized :: "gadget_dispatch_context \<Rightarrow> gadget_dispatch_context" where
  "with_policy_authorized c = c\<lparr>gdc_policy_authorized := True\<rparr>"

section \<open>Configuration\<close>

datatype extra_confirmation = ConfirmNone | ConfirmEnv | ConfirmFile

record write_gadgets_config =
  wg_default_mode :: gadget_mode
  wg_wiki_write :: gadget_mode
  wg_infra_write :: gadget_mode
  wg_scheduler_write :: gadget_mode
  wg_provider_mutate :: gadget_mode
  wg_namespace_modes :: "(string \<times> gadget_mode) list"
  wg_legacy_namespace_modes :: "(string \<times> gadget_mode) list"

record destructive_gadgets_config =
  dg_enabled :: bool
  dg_max_per_hour :: u32
  dg_extra_confirmation :: extra_confirmation
  dg_extra_confirmation_token_file :: string

record gadgets_config =
  gc_read :: gadget_mode
  gc_approval_timeout_secs :: u64
  gc_write :: write_gadgets_config
  gc_destructive :: destructive_gadgets_config

definition default_write_gadgets_config :: write_gadgets_config where
  "default_write_gadgets_config =
     \<lparr>wg_default_mode = ModeAsk, wg_wiki_write = ModeAuto, wg_infra_write = ModeAsk,
      wg_scheduler_write = ModeAsk, wg_provider_mutate = ModeAsk,
      wg_namespace_modes = [], wg_legacy_namespace_modes = []\<rparr>"

definition default_destructive_gadgets_config :: destructive_gadgets_config where
  "default_destructive_gadgets_config =
     \<lparr>dg_enabled = False, dg_max_per_hour = 3, dg_extra_confirmation = ConfirmNone,
      dg_extra_confirmation_token_file = []\<rparr>"

definition default_gadgets_config :: gadgets_config where
  "default_gadgets_config =
     \<lparr>gc_read = ModeAuto, gc_approval_timeout_secs = 60, gc_write = default_write_gadgets_config,
      gc_destructive = default_destructive_gadgets_config\<rparr>"

datatype config_violation =
    ReadModeNotAuto gadget_mode
  | ApprovalTimeoutOutOfRange u64
  | NamespaceNotKebab string string
  | MaxPerHourZero
  | TokenFileMissing string
  | TokenFileStat string
  | TokenFileMode u32

record host_files =
  path_exists :: "string \<Rightarrow> bool"
  path_mode :: "string \<Rightarrow> (string, u32) result"

section \<open>Validation\<close>

text \<open>
  The kebab-case test that \<open>validate_gadget_namespace\<close> and the rule identifiers of a policy
  document spell out with their own length limit.
\<close>

definition kebab_byte :: "char \<Rightarrow> bool" where
  "kebab_byte c \<longleftrightarrow> is_ascii_lowercase c \<or> is_ascii_digit c \<or> c = CHR ''-''"

definition kebab_text :: "nat \<Rightarrow> string \<Rightarrow> bool" where
  "kebab_text limit s \<longleftrightarrow>
     s \<noteq> [] \<and> length s \<le> limit \<and> \<not> prefix ''-'' s \<and> \<not> suffix ''-'' s \<and> \<not> sublist ''--'' s
     \<and> list_all kebab_byte s"

definition validate_gadget_namespace :: "string \<Rightarrow> string \<Rightarrow> (config_violation, unit) result" where
  "validate_gadget_namespace namespace field =
     check (kebab_text 64 namespace) (NamespaceNotKebab field namespace)"

text \<open>The namespace a pre-1.0 key names: its \<open>_admin\<close> or else \<open>_write\<close> suffix is dropped.\<close>

definition legacy_key_namespace :: "string \<Rightarrow> string" where
  "legacy_key_namespace key =
     (case strip_suffix ''_admin'' key of
        Some namespace \<Rightarrow> namespace
      | None \<Rightarrow> (case strip_suffix ''_write'' key of Some namespace \<Rightarrow> namespace | None \<Rightarrow> key))"

definition write_validate :: "write_gadgets_config \<Rightarrow> (config_violation, unit) result" where
  "write_validate w =
     and_then (try_each (\<lambda>namespace. validate_gadget_namespace namespace
                 ''agent.gadgets.write.namespace_modes'') (map fst (wg_namespace_modes w)))
       (\<lambda>_. try_each (\<lambda>key. validate_gadget_namespace (legacy_key_namespace key)
                 ''agent.gadgets.write legacy override'') (map fst (wg_legacy_namespace_modes w)))"

definition namespace_mode :: "write_gadgets_config \<Rightarrow> string \<Rightarrow> gadget_mode option" where
  "namespace_mode w namespace =
     (case map_of (wg_namespace_modes w) namespace of
        Some mode \<Rightarrow> Some mode
      | None \<Rightarrow>
          (case List.map_filter (map_of (wg_legacy_namespace_modes w))
                  [namespace, namespace @ ''_admin'', namespace @ ''_write''] of
             [] \<Rightarrow> None
           | mode # _ \<Rightarrow> Some mode))"

definition destructive_validate ::
  "host_files \<Rightarrow> destructive_gadgets_config \<Rightarrow> (config_violation, unit) result" where
  "destructive_validate host d =
     (if dg_enabled d \<and> dg_max_per_hour d = 0 then Inl MaxPerHourZero
      else if dg_enabled d \<and> dg_extra_confirmation d = ConfirmFile then
        (let file = dg_extra_confirmation_token_file d in
         if file = [] \<or> \<not> path_exists host file then Inl (TokenFileMissing file)
         else
           (case path_mode host file of
              Inl e \<Rightarrow> Inl (TokenFileStat e)
            | Inr st_mode \<Rightarrow>
                (let mode = and st_mode 511 in
                 check (mode = 256 \<or> mode = 384) (TokenFileMode mode))))
      else Inr ())"

definition gadgets_validate :: "host_files \<Rightarrow> gadgets_config \<Rightarrow> (config_violation, unit) result" where
  "gadgets_validate host g =
     (if gc_read g \<noteq> ModeAuto then Inl (ReadModeNotAuto (gc_read g))
      else if gc_approval_timeout_secs g < 10 \<or> gc_approval_timeout_secs g > 600
      then Inl (ApprovalTimeoutOutOfRange (gc_approval_timeout_secs g))
      else and_then (write_validate (gc_write g))
             (\<lambda>_. destructive_validate host (gc_destructive g)))"

section \<open>What a valid configuration guarantees\<close>

lemma kebab_text_mono: "kebab_text m s \<Longrightarrow> m \<le> n \<Longrightarrow> kebab_text n s"
  by (auto simp: kebab_text_def)

lemma kebab_byte_ascii: "kebab_byte c \<Longrightarrow> is_ascii c"
  by (auto simp: kebab_byte_def ascii_class_defs)

lemma write_validate_ok [result_simps]:
  "write_validate w = Inr u \<longleftrightarrow>
     (\<forall>namespace \<in> fst ` set (wg_namespace_modes w). kebab_text 64 namespace) \<and>
     (\<forall>key \<in> fst ` set (wg_legacy_namespace_modes w). kebab_text 64 (legacy_key_namespace key))"
  by (auto simp: write_validate_def validate_gadget_namespace_def result_simps)

lemma namespace_mode_eq_None:
  "namespace_mode w namespace = None \<longleftrightarrow>
     map_of (wg_namespace_modes w) namespace = None
     \<and> map_of (wg_legacy_namespace_modes w) namespace = None
     \<and> map_of (wg_legacy_namespace_modes w) (namespace @ ''_admin'') = None
     \<and> map_of (wg_legacy_namespace_modes w) (namespace @ ''_write'') = None"
  by (auto simp: namespace_mode_def List.map_filter_def split: option.splits)

text \<open>A kebab-case namespace holds no underscore, so it names itself and so do its suffixed keys.\<close>

lemma kebab_no_underscore: "kebab_text n s \<Longrightarrow> CHR ''_'' \<notin> set s"
  by (auto simp: kebab_text_def list_all_iff kebab_byte_def ascii_class_defs)

lemma strip_suffix_None: "CHR ''_'' \<notin> set s \<Longrightarrow> CHR ''_'' \<in> set suf \<Longrightarrow> strip_suffix suf s = None"
  by (auto simp: strip_suffix_def suffix_def)

lemma legacy_key_namespace_cases:
  "key = legacy_key_namespace key \<or> key = legacy_key_namespace key @ ''_admin''
     \<or> key = legacy_key_namespace key @ ''_write''"
proof (cases "strip_suffix ''_admin'' key")
  case (Some p)
  moreover from Some have "key = p @ ''_admin''" by (simp only: strip_suffix_eq_Some)
  ultimately show ?thesis by (simp add: legacy_key_namespace_def)
next
  case None
  show ?thesis
  proof (cases "strip_suffix ''_write'' key")
    case (Some p)
    moreover from Some have "key = p @ ''_write''" by (simp only: strip_suffix_eq_Some)
    ultimately show ?thesis using None by (simp add: legacy_key_namespace_def)
  next
    case None': None
    with None show ?thesis by (simp add: legacy_key_namespace_def)
  qed
qed

text \<open>
  The namespaces a valid configuration overrides are exactly the ones \<open>namespace_mode\<close> knows.
\<close>

definition overridden_namespaces :: "write_gadgets_config \<Rightarrow> string set" where
  "overridden_namespaces w =
     fst ` set (wg_namespace_modes w) \<union> legacy_key_namespace ` fst ` set (wg_legacy_namespace_modes w)"

lemma namespace_mode_overridden:
  assumes "namespace \<in> overridden_namespaces w"
  shows "namespace_mode w namespace \<noteq> None"
proof (cases "namespace \<in> fst ` set (wg_namespace_modes w)")
  case True
  then have "map_of (wg_namespace_modes w) namespace \<noteq> None"
    by (simp add: map_of_eq_None_iff)
  then show ?thesis by (simp add: namespace_mode_eq_None)
next
  case False
  with assms obtain key where
    key: "key \<in> fst ` set (wg_legacy_namespace_modes w)" "namespace = legacy_key_namespace key"
    by (auto simp: overridden_namespaces_def)
  then have "map_of (wg_legacy_namespace_modes w) key \<noteq> None"
    by (simp add: map_of_eq_None_iff)
  with legacy_key_namespace_cases [of key] show ?thesis
    by (auto simp: namespace_mode_eq_None key(2) [symmetric])
qed

lemma overridden_namespace_kebab:
  "write_validate w = Inr () \<Longrightarrow> namespace \<in> overridden_namespaces w \<Longrightarrow> kebab_text 64 namespace"
  by (auto simp: write_validate_ok overridden_namespaces_def)

lemma legacy_key_namespace_plain [simp]:
  assumes "kebab_text n s"
  shows "legacy_key_namespace s = s"
    and "legacy_key_namespace (s @ ''_admin'') = s"
    and "legacy_key_namespace (s @ ''_write'') = s"
  using kebab_no_underscore [OF assms]
  by (auto simp: legacy_key_namespace_def strip_suffix_None strip_suffix_def suffix_def
      split: option.splits)

lemma namespace_mode_not_overridden:
  assumes "kebab_text n namespace" "namespace \<notin> overridden_namespaces w"
  shows "namespace_mode w namespace = None"
proof -
  have "key \<notin> fst ` set (wg_legacy_namespace_modes w)" if "legacy_key_namespace key = namespace" for key
    using that assms(2) by (auto simp: overridden_namespaces_def)
  with assms show ?thesis
    by (simp add: namespace_mode_eq_None map_of_eq_None_iff overridden_namespaces_def)
qed

text \<open>
  The destructive tier cannot be enabled without a rate limit, nor, in file mode, without a
  token file only its owner can read.
\<close>

lemma gadgets_validate_ok:
  assumes "gadgets_validate host g = Inr ()"
  shows "gc_read g = ModeAuto" "10 \<le> unat (gc_approval_timeout_secs g)"
    "unat (gc_approval_timeout_secs g) \<le> 600" "write_validate (gc_write g) = Inr ()"
    "destructive_validate host (gc_destructive g) = Inr ()"
  using assms by (auto simp: gadgets_validate_def result_simps not_less word_le_nat_alt split: if_splits)

end
