(* ===== verification/Json_Value.thy ===== *)
theory Json_Value
  imports Gadgetron_Prelude
begin

text \<open>
  JSON values as the code sees them through \<open>serde_json\<close>.

  A number is its canonical text, so an integer is a number whose text is one (a float is printed with
  a point or an exponent).  An object is the list of its members in the order of iteration; its keys
  are distinct.  The accessors are those of \<open>Value\<close> and \<open>Map\<close>: \<open>as_str\<close> and its relatives return
  \<open>None\<close> on a value of another kind, \<open>Value::get\<close> also on a missing member.
\<close>

datatype json =
    JNull
  | JBool bool
  | JNumber string
  | JString string
  | JArray "json list"
  | JObject "(string \<times> json) list"

type_synonym json_object = "(string \<times> json) list"

definition as_object :: "json \<Rightarrow> json_object option" where
  "as_object v = (case v of JObject ms \<Rightarrow> Some ms | _ \<Rightarrow> None)"

definition as_array :: "json \<Rightarrow> json list option" where
  "as_array v = (case v of JArray vs \<Rightarrow> Some vs | _ \<Rightarrow> None)"

definition as_str :: "json \<Rightarrow> string option" where
  "as_str v = (case v of JString s \<Rightarrow> Some s | _ \<Rightarrow> None)"

definition as_bool :: "json \<Rightarrow> bool option" where
  "as_bool v = (case v of JBool b \<Rightarrow> Some b | _ \<Rightarrow> None)"

definition as_i64 :: "json \<Rightarrow> int option" where
  "as_i64 v = (case v of JNumber s \<Rightarrow> parse_i64 s | _ \<Rightarrow> None)"

definition as_u64 :: "json \<Rightarrow> int option" where
  "as_u64 v =
     (case v of
        JNumber s \<Rightarrow>
          (case parse_digits s of Some n \<Rightarrow> if int n < 2 ^ 64 then Some (int n) else None | None \<Rightarrow> None)
      | _ \<Rightarrow> None)"

definition is_number :: "json \<Rightarrow> bool" where
  "is_number v = (case v of JNumber _ \<Rightarrow> True | _ \<Rightarrow> False)"

text \<open>\<open>map.get(k).and_then(Value::as_\<dots>)\<close>, and \<open>Value::get(k)\<close> on a value of any kind.\<close>

definition get_as :: "(json \<Rightarrow> 'a option) \<Rightarrow> string \<Rightarrow> json_object \<Rightarrow> 'a option" where
  "get_as f k ms = Option.bind (map_of ms k) f"

definition value_get :: "string \<Rightarrow> json \<Rightarrow> json option" where
  "value_get k v = Option.bind (as_object v) (\<lambda>ms. map_of ms k)"

definition has_member :: "string \<Rightarrow> json_object \<Rightarrow> bool" where
  "has_member k ms \<longleftrightarrow> k \<in> fst ` set ms"

lemmas json_access_defs = as_object_def as_array_def as_str_def as_bool_def

lemma as_object_eq_Some [simp]: "as_object v = Some ms \<longleftrightarrow> v = JObject ms"
  by (cases v) (auto simp: as_object_def)

lemma as_array_eq_Some [simp]: "as_array v = Some vs \<longleftrightarrow> v = JArray vs"
  by (cases v) (auto simp: as_array_def)

lemma as_str_eq_Some [simp]: "as_str v = Some s \<longleftrightarrow> v = JString s"
  by (cases v) (auto simp: as_str_def)

lemma as_bool_eq_Some [simp]: "as_bool v = Some b \<longleftrightarrow> v = JBool b"
  by (cases v) (auto simp: as_bool_def)

lemma get_as_eq_Some: "get_as f k ms = Some a \<longleftrightarrow> (\<exists>v. map_of ms k = Some v \<and> f v = Some a)"
  by (cases "map_of ms k") (auto simp: get_as_def)

lemma has_member_iff: "has_member k ms \<longleftrightarrow> map_of ms k \<noteq> None"
  by (simp add: has_member_def map_of_eq_None_iff)

end
