(* ===== verification/Policy_Core.thy ===== *)
theory Policy_Core
  imports Gadget_Modes Json_Value "HOL-Library.Multiset"
begin

text \<open>
  The autonomy policy of the Core: \<open>crates/gadgetron-core/src/policy.rs\<close>.

  A policy document is a list of rules over a normalised description of an action; evaluating
  it yields a decision (execute, review, deny) with a trace that explains it.  The section
  \<^emph>\<open>Specification\<close> states which rule governs an action without reference to the evaluation
  loop, and the loop is shown to implement it.

  A \<open>PolicyError::Invalid\<close> carries its message as a value of \<open>policy_violation\<close>, one
  constructor per message template with its arguments.  JSON encoding (\<open>serde_json\<close>), the
  hash (\<open>sha2\<close>, \<open>hex\<close>) and UUID text (\<open>uuid\<close>) are not part of the repository: they are the
  fields of \<open>policy_encoding\<close> and \<open>uuid_text\<close>.
\<close>

section \<open>Data\<close>

datatype policy_decision = Auto | Review | Deny

datatype policy_effect = EffectRead | EffectWrite | EffectDestructive

datatype policy_risk = Unrated | Low | Medium | High | Critical

datatype evidence_state = EvidenceMissing | EvidenceSufficient | EvidenceStale | EvidenceContradictory

datatype outcome_state = OutcomeMissing | OutcomeVerifiable

datatype rollback_state = RollbackUnknown | RollbackUnavailable | RollbackAvailable

definition decision_as_str :: "policy_decision \<Rightarrow> string" where
  "decision_as_str d = (case d of Auto \<Rightarrow> ''auto'' | Review \<Rightarrow> ''review'' | Deny \<Rightarrow> ''deny'')"

text \<open>\<open>PolicyDecision\<close> derives \<open>Ord\<close>: a later constructor is the stricter decision.\<close>

definition decision_rank :: "policy_decision \<Rightarrow> nat" where
  "decision_rank d = (case d of Auto \<Rightarrow> 0 | Review \<Rightarrow> 1 | Deny \<Rightarrow> 2)"

instantiation policy_decision :: linorder
begin

definition less_eq_policy_decision :: "policy_decision \<Rightarrow> policy_decision \<Rightarrow> bool" where
  "a \<le> b \<longleftrightarrow> decision_rank a \<le> decision_rank b"

definition less_policy_decision :: "policy_decision \<Rightarrow> policy_decision \<Rightarrow> bool" where
  "a < b \<longleftrightarrow> decision_rank a < decision_rank b"

instance
  by intro_classes
    (auto simp: less_eq_policy_decision_def less_policy_decision_def decision_rank_def
      split: policy_decision.splits)

end

record evidence_assessment =
  ev_state :: evidence_state
  ev_references :: "string list"

record outcome_assessment =
  oc_state :: outcome_state
  oc_predicate_ref :: "string option"

record rollback_assessment =
  rb_state :: rollback_state
  rb_compensating_action :: "string option"

record policy_input =
  pi_action_id :: string
  pi_gadget_name :: "string option"
  pi_parameters_hash :: "string option"
  pi_namespace :: string
  pi_effect :: policy_effect
  pi_risk :: policy_risk
  pi_requested_scopes :: "string list"
  pi_actor_scopes :: "string list"
  pi_evidence :: evidence_assessment
  pi_outcome :: outcome_assessment
  pi_rollback :: rollback_assessment

record gadget_policy_metadata =
  gm_effect :: policy_effect
  gm_risk :: policy_risk
  gm_requested_scopes :: "string list"
  gm_requires_evidence :: bool
  gm_outcome_verifiable :: bool
  gm_outcome_ref :: "string option"
  gm_rollback_available :: bool
  gm_rollback_ref :: "string option"

record policy_matcher =
  pm_action_ids :: "string list"
  pm_namespaces :: "string list"
  pm_effects :: "policy_effect list"
  pm_risks :: "policy_risk list"
  pm_scopes :: "string list"
  pm_evidence_states :: "evidence_state list"
  pm_outcome_states :: "outcome_state list"
  pm_rollback_states :: "rollback_state list"

record policy_rule =
  pr_id :: string
  pr_priority :: u32
  pr_enabled :: bool
  pr_matcher :: policy_matcher
  pr_decision :: policy_decision
  pr_reason :: string

record policy_document =
  pd_schema_version :: u32
  pd_default_decision :: policy_decision
  pd_default_reason :: string
  pd_rules :: "policy_rule list"

record policy_identity =
  id_policy_id :: uuid
  id_revision :: int
  id_document_hash :: string

datatype policy_trace_stage = StageScopeGuard | StageRule | StageDefault

record policy_trace_step =
  ts_stage :: policy_trace_stage
  ts_rule_id :: "string option"
  ts_matched :: bool
  ts_failed_predicates :: "string list"
  ts_decision :: "policy_decision option"
  ts_reason :: string

record policy_decision_trace =
  tr_schema_version :: u32
  tr_policy :: policy_identity
  tr_input_hash :: string
  tr_decision :: policy_decision
  tr_reason :: string
  tr_steps :: "policy_trace_step list"

datatype policy_violation =
    LabelInvalid string nat
  | Exceeds string nat
  | DigestInvalid string
  | UnsupportedSchema u32
  | RuleIdInvalid string
  | RuleIdDuplicate string
  | LegacyConfig config_violation
  | RefNoId
  | RefNoRevision
  | RefNoHash

datatype policy_error = PolicyInvalid policy_violation | IdentityHashMismatch | Serialization string

abbreviation POLICY_SCHEMA_VERSION :: u32 where "POLICY_SCHEMA_VERSION \<equiv> 1"
abbreviation MAX_RULES :: nat where "MAX_RULES \<equiv> 256"
abbreviation MAX_REFERENCES :: nat where "MAX_REFERENCES \<equiv> 128"
abbreviation MAX_MATCH_VALUES :: nat where "MAX_MATCH_VALUES \<equiv> 128"
abbreviation MAX_SCOPES :: nat where "MAX_SCOPES \<equiv> 64"

record policy_encoding =
  json_of_document :: "policy_document \<Rightarrow> (string, string) result"
  json_of_input :: "policy_input \<Rightarrow> (string, string) result"
  json_of_trace :: "policy_decision_trace \<Rightarrow> (string, string) result"
  json_of_value :: "json \<Rightarrow> (string, string) result"
  sha256_hex :: "string \<Rightarrow> string"

record uuid_text =
  parse_uuid :: "string \<Rightarrow> uuid option"
  show_uuid :: "uuid \<Rightarrow> string"

section \<open>Validators and digests\<close>

definition valid_rule_id :: "string \<Rightarrow> bool" where
  "valid_rule_id s = kebab_text 80 s"

definition validate_label :: "string \<Rightarrow> string \<Rightarrow> nat \<Rightarrow> (policy_error, unit) result" where
  "validate_label field s limit =
     (if is_blank s \<or> length s > limit \<or> has_control s
      then Inl (PolicyInvalid (LabelInvalid field limit)) else Inr ())"

definition validate_optional_label ::
  "string \<Rightarrow> string option \<Rightarrow> nat \<Rightarrow> (policy_error, unit) result" where
  "validate_optional_label field v limit =
     (case v of None \<Rightarrow> Inr () | Some s \<Rightarrow> validate_label field s limit)"

definition validate_set_size :: "string \<Rightarrow> nat \<Rightarrow> nat \<Rightarrow> (policy_error, unit) result" where
  "validate_set_size field len limit =
     (if len > limit then Inl (PolicyInvalid (Exceeds field limit)) else Inr ())"

definition validate_digest :: "string \<Rightarrow> string \<Rightarrow> (policy_error, unit) result" where
  "validate_digest field s =
     (if length s \<noteq> 71 \<or> \<not> prefix ''sha256:'' s \<or> \<not> list_all is_lower_hex (drop 7 s)
      then Inl (PolicyInvalid (DigestInvalid field)) else Inr ())"

definition digest ::
  "('a \<Rightarrow> (string, string) result) \<Rightarrow> (string \<Rightarrow> string) \<Rightarrow> 'a \<Rightarrow> (policy_error, string) result" where
  "digest to_vec sha v =
     (case to_vec v of Inl e \<Rightarrow> Inl (Serialization e) | Inr bytes \<Rightarrow> Inr (''sha256:'' @ sha bytes))"

section \<open>Policy input\<close>

definition input_validate :: "policy_input \<Rightarrow> (policy_error, unit) result" where
  "input_validate i =
     and_then (validate_label ''action_id'' (pi_action_id i) 160) (\<lambda>_.
     and_then (validate_label ''namespace'' (pi_namespace i) 64) (\<lambda>_.
     and_then (validate_optional_label ''gadget_name'' (pi_gadget_name i) 160) (\<lambda>_.
     and_then (case pi_parameters_hash i of
                 None \<Rightarrow> Inr () | Some hash \<Rightarrow> validate_digest ''parameters_hash'' hash) (\<lambda>_.
     and_then (validate_set_size ''evidence references'' (length (ev_references (pi_evidence i)))
                 MAX_REFERENCES) (\<lambda>_.
     and_then (validate_set_size ''requested scopes'' (length (pi_requested_scopes i)) MAX_SCOPES) (\<lambda>_.
     and_then (validate_set_size ''actor scopes'' (length (pi_actor_scopes i)) MAX_SCOPES) (\<lambda>_.
     and_then (try_each (\<lambda>v. validate_label ''policy input reference'' v 256)
                 (pi_requested_scopes i @ pi_actor_scopes i @ ev_references (pi_evidence i))) (\<lambda>_.
     and_then (validate_optional_label ''outcome predicate''
                 (oc_predicate_ref (pi_outcome i)) 256) (\<lambda>_.
     validate_optional_label ''compensating action''
       (rb_compensating_action (pi_rollback i)) 160)))))))))"

definition input_digest :: "policy_encoding \<Rightarrow> policy_input \<Rightarrow> (policy_error, string) result" where
  "input_digest P i = and_then (input_validate i) (\<lambda>_. digest (json_of_input P) (sha256_hex P) i)"

definition for_gadget ::
  "gadget_dispatch_context \<Rightarrow> string \<Rightarrow> gadget_policy_metadata \<Rightarrow> (policy_error, policy_input) result" where
  "for_gadget context name metadata =
     (let input =
        \<lparr>pi_action_id = name,
         pi_gadget_name = Some name,
         pi_parameters_hash = None,
         pi_namespace = hd (split_on CHR ''.'' name),
         pi_effect = gm_effect metadata,
         pi_risk = gm_risk metadata,
         pi_requested_scopes = gm_requested_scopes metadata,
         pi_actor_scopes = bt_of_list (gdc_scopes context),
         pi_evidence =
           \<lparr>ev_state = (if gm_requires_evidence metadata then EvidenceMissing else EvidenceSufficient),
            ev_references = []\<rparr>,
         pi_outcome =
           \<lparr>oc_state = (if gm_outcome_verifiable metadata then OutcomeVerifiable else OutcomeMissing),
            oc_predicate_ref = gm_outcome_ref metadata\<rparr>,
         pi_rollback =
           \<lparr>rb_state = (if gm_rollback_available metadata then RollbackAvailable
                        else if gm_effect metadata = EffectDestructive then RollbackUnavailable
                        else RollbackUnknown),
            rb_compensating_action = gm_rollback_ref metadata\<rparr>\<rparr>
      in and_then (input_validate input) (\<lambda>_. Inr input))"

primrec canonical_json :: "json \<Rightarrow> json" where
  "canonical_json JNull = JNull"
| "canonical_json (JBool b) = JBool b"
| "canonical_json (JNumber n) = JNumber n"
| "canonical_json (JString s) = JString s"
| "canonical_json (JArray vs) = JArray (map canonical_json vs)"
| "canonical_json (JObject ms) =
     JObject (sort_by (\<lambda>a b. fst a \<le> fst b) (map (map_prod id canonical_json) ms))"

definition with_parameters ::
  "policy_encoding \<Rightarrow> json \<Rightarrow> policy_input \<Rightarrow> (policy_error, policy_input) result" where
  "with_parameters P parameters input =
     and_then (digest (json_of_value P) (sha256_hex P) (canonical_json parameters)) (\<lambda>hash.
       let input' = input\<lparr>pi_parameters_hash := Some hash\<rparr>
       in and_then (input_validate input') (\<lambda>_. Inr input'))"

definition from_schema :: "gadget_tier \<Rightarrow> gadget_policy_metadata" where
  "from_schema tier =
     (case tier of
        TierRead \<Rightarrow>
          \<lparr>gm_effect = EffectRead, gm_risk = Low, gm_requested_scopes = [],
           gm_requires_evidence = False, gm_outcome_verifiable = True, gm_outcome_ref = None,
           gm_rollback_available = False, gm_rollback_ref = None\<rparr>
      | TierWrite \<Rightarrow>
          \<lparr>gm_effect = EffectWrite, gm_risk = Medium, gm_requested_scopes = [],
           gm_requires_evidence = True, gm_outcome_verifiable = False, gm_outcome_ref = None,
           gm_rollback_available = False, gm_rollback_ref = None\<rparr>
      | TierDestructive \<Rightarrow>
          \<lparr>gm_effect = EffectDestructive, gm_risk = Critical, gm_requested_scopes = [],
           gm_requires_evidence = True, gm_outcome_verifiable = False, gm_outcome_ref = None,
           gm_rollback_available = False, gm_rollback_ref = None\<rparr>)"

section \<open>Policy documents\<close>

definition validate_rule :: "policy_rule \<Rightarrow> (policy_error, unit) result" where
  "validate_rule rule =
     (let m = pr_matcher rule in
      and_then (validate_label ''rule reason'' (pr_reason rule) 240) (\<lambda>_.
      and_then (validate_set_size ''rule action ids'' (length (pm_action_ids m)) MAX_MATCH_VALUES) (\<lambda>_.
      and_then (validate_set_size ''rule namespaces'' (length (pm_namespaces m)) MAX_MATCH_VALUES) (\<lambda>_.
      and_then (validate_set_size ''rule scopes'' (length (pm_scopes m)) MAX_SCOPES) (\<lambda>_.
      try_each (\<lambda>v. validate_label ''policy matcher'' v 160)
        (pm_action_ids m @ pm_namespaces m @ pm_scopes m))))))"

fun validate_rules :: "string set \<Rightarrow> policy_rule list \<Rightarrow> (policy_error, unit) result" where
  "validate_rules ids [] = Inr ()"
| "validate_rules ids (rule # rules) =
     (if \<not> valid_rule_id (pr_id rule) then Inl (PolicyInvalid (RuleIdInvalid (pr_id rule)))
      else if pr_id rule \<in> ids then Inl (PolicyInvalid (RuleIdDuplicate (pr_id rule)))
      else and_then (validate_rule rule) (\<lambda>_. validate_rules (insert (pr_id rule) ids) rules))"

definition document_validate :: "policy_document \<Rightarrow> (policy_error, unit) result" where
  "document_validate d =
     (if pd_schema_version d \<noteq> POLICY_SCHEMA_VERSION
      then Inl (PolicyInvalid (UnsupportedSchema (pd_schema_version d)))
      else if length (pd_rules d) > MAX_RULES
      then Inl (PolicyInvalid (Exceeds ''policy rules'' MAX_RULES))
      else and_then (validate_label ''default_reason'' (pd_default_reason d) 240)
             (\<lambda>_. validate_rules {} (pd_rules d)))"

definition document_digest :: "policy_encoding \<Rightarrow> policy_document \<Rightarrow> (policy_error, string) result" where
  "document_digest P d =
     and_then (document_validate d) (\<lambda>_. digest (json_of_document P) (sha256_hex P) d)"

definition trace_digest :: "policy_encoding \<Rightarrow> policy_decision_trace \<Rightarrow> (policy_error, string) result" where
  "trace_digest P t = digest (json_of_trace P) (sha256_hex P) t"

definition failed_predicates :: "policy_matcher \<Rightarrow> policy_input \<Rightarrow> string list" where
  "failed_predicates m i =
     (if pm_action_ids m \<noteq> [] \<and> pi_action_id i \<notin> set (pm_action_ids m) then [''action_id''] else [])
     @ (if pm_namespaces m \<noteq> [] \<and> pi_namespace i \<notin> set (pm_namespaces m) then [''namespace''] else [])
     @ (if pm_effects m \<noteq> [] \<and> pi_effect i \<notin> set (pm_effects m) then [''effect''] else [])
     @ (if pm_risks m \<noteq> [] \<and> pi_risk i \<notin> set (pm_risks m) then [''risk''] else [])
     @ (if pm_scopes m \<noteq> [] \<and> \<not> bt_subset (pm_scopes m) (pi_requested_scopes i) then [''scope''] else [])
     @ (if pm_evidence_states m \<noteq> [] \<and> ev_state (pi_evidence i) \<notin> set (pm_evidence_states m)
        then [''evidence''] else [])
     @ (if pm_outcome_states m \<noteq> [] \<and> oc_state (pi_outcome i) \<notin> set (pm_outcome_states m)
        then [''outcome''] else [])
     @ (if pm_rollback_states m \<noteq> [] \<and> rb_state (pi_rollback i) \<notin> set (pm_rollback_states m)
        then [''rollback''] else [])"

text \<open>The order of evaluation: by priority, then by identifier.\<close>

definition rule_le :: "policy_rule \<Rightarrow> policy_rule \<Rightarrow> bool" where
  "rule_le a b \<longleftrightarrow> (pr_priority a, pr_id a) \<le> (pr_priority b, pr_id b)"

definition rule_step :: "policy_input \<Rightarrow> policy_rule \<Rightarrow> policy_trace_step" where
  "rule_step i rule =
     (let failed = failed_predicates (pr_matcher rule) i; matched = failed = []
      in \<lparr>ts_stage = StageRule, ts_rule_id = Some (pr_id rule), ts_matched = matched,
          ts_failed_predicates = failed,
          ts_decision = (if matched then Some (pr_decision rule) else None),
          ts_reason = pr_reason rule\<rparr>)"

text \<open>The loop over the sorted rules: the steps pushed, and the rule it returned at.\<close>

fun evaluate_rules ::
  "policy_input \<Rightarrow> policy_rule list \<Rightarrow> policy_trace_step list \<Rightarrow> policy_trace_step list \<times> policy_rule option" where
  "evaluate_rules i [] steps = (steps, None)"
| "evaluate_rules i (rule # rules) steps =
     (let steps' = steps @ [rule_step i rule]
      in if ts_matched (rule_step i rule) then (steps', Some rule)
         else evaluate_rules i rules steps')"

definition scope_guard_step :: "string list \<Rightarrow> string \<Rightarrow> policy_trace_step" where
  "scope_guard_step missing reason =
     (if missing \<noteq> [] then
        \<lparr>ts_stage = StageScopeGuard, ts_rule_id = None, ts_matched = False,
         ts_failed_predicates = map (\<lambda>scope. ''actor_scope:'' @ scope) missing,
         ts_decision = Some Deny, ts_reason = reason\<rparr>
      else
        \<lparr>ts_stage = StageScopeGuard, ts_rule_id = None, ts_matched = True,
         ts_failed_predicates = [], ts_decision = None,
         ts_reason = ''Actor scopes satisfy the request''\<rparr>)"

definition missing_scope_reason :: "string list \<Rightarrow> string" where
  "missing_scope_reason missing =
     ''Actor is missing required scope(s): '' @ join_with '', '' missing"

definition evaluate ::
  "policy_encoding \<Rightarrow> policy_document \<Rightarrow> policy_identity \<Rightarrow> policy_input
    \<Rightarrow> (policy_error, policy_decision_trace) result" where
  "evaluate P d identity input =
     and_then (document_digest P d) (\<lambda>document_hash.
       if id_document_hash identity \<noteq> document_hash then Inl IdentityHashMismatch
       else and_then (input_digest P input) (\<lambda>input_hash.
         let missing = bt_difference (pi_requested_scopes input) (pi_actor_scopes input);
             guard = scope_guard_step missing (missing_scope_reason missing);
             trace = (\<lambda>decision reason steps.
               \<lparr>tr_schema_version = POLICY_SCHEMA_VERSION, tr_policy = identity,
                tr_input_hash = input_hash, tr_decision = decision, tr_reason = reason,
                tr_steps = steps\<rparr>)
         in if missing \<noteq> [] then Inr (trace Deny (missing_scope_reason missing) [guard])
            else
              case evaluate_rules input (sort_by rule_le (filter pr_enabled (pd_rules d))) [guard] of
                (steps, Some rule) \<Rightarrow> Inr (trace (pr_decision rule) (pr_reason rule) steps)
              | (steps, None) \<Rightarrow>
                  Inr (trace (pd_default_decision d) (pd_default_reason d)
                    (steps @ [\<lparr>ts_stage = StageDefault, ts_rule_id = None, ts_matched = True,
                               ts_failed_predicates = [], ts_decision = Some (pd_default_decision d),
                               ts_reason = pd_default_reason d\<rparr>]))))"

section \<open>Migration of the legacy mode matrix\<close>

definition empty_matcher :: policy_matcher where
  "empty_matcher =
     \<lparr>pm_action_ids = [], pm_namespaces = [], pm_effects = [], pm_risks = [], pm_scopes = [],
      pm_evidence_states = [], pm_outcome_states = [], pm_rollback_states = []\<rparr>"

definition mode_decision :: "gadget_mode \<Rightarrow> policy_decision" where
  "mode_decision mode = (case mode of ModeAuto \<Rightarrow> Auto | ModeAsk \<Rightarrow> Review | ModeNever \<Rightarrow> Deny)"

definition mode_reason :: "gadget_mode \<Rightarrow> string" where
  "mode_reason mode =
     ''Legacy '' @ (case mode of ModeAuto \<Rightarrow> ''Auto'' | ModeAsk \<Rightarrow> ''Ask'' | ModeNever \<Rightarrow> ''Never'')
     @ '' mode maps to ''
     @ (case mode of ModeAuto \<Rightarrow> ''automatic execution'' | ModeAsk \<Rightarrow> ''Manager review''
        | ModeNever \<Rightarrow> ''denial'')"

definition legacy_rule ::
  "string \<Rightarrow> u32 \<Rightarrow> policy_effect \<Rightarrow> string option \<Rightarrow> gadget_mode \<Rightarrow> policy_rule" where
  "legacy_rule rid priority effect namespace mode =
     \<lparr>pr_id = rid, pr_priority = priority, pr_enabled = True,
      pr_matcher = empty_matcher\<lparr>pm_namespaces := (case namespace of None \<Rightarrow> [] | Some n \<Rightarrow> [n]),
                                 pm_effects := [effect]\<rparr>,
      pr_decision = mode_decision mode, pr_reason = mode_reason mode\<rparr>"

definition trim_matches :: "char \<Rightarrow> string \<Rightarrow> string" where
  "trim_matches c s = rev (dropWhile (\<lambda>x. x = c) (rev (dropWhile (\<lambda>x. x = c) s)))"

definition sanitize_rule_id :: "string \<Rightarrow> string" where
  "sanitize_rule_id s =
     trim_matches CHR ''-''
       (map (\<lambda>c. if c < 128 \<and> kebab_byte (char_of c) then char_of c else CHR ''-'') (chars_of s))"

abbreviation CORE_NAMESPACES :: "string list" where
  "CORE_NAMESPACES \<equiv> [''wiki'', ''infra'', ''scheduler'', ''provider'']"

definition core_write_rules :: "write_gadgets_config \<Rightarrow> policy_rule list" where
  "core_write_rules w =
     [legacy_rule ''legacy-write-wiki'' 20 EffectWrite (Some ''wiki'') (wg_wiki_write w),
      legacy_rule ''legacy-write-infra'' 21 EffectWrite (Some ''infra'') (wg_infra_write w),
      legacy_rule ''legacy-write-scheduler'' 22 EffectWrite (Some ''scheduler'') (wg_scheduler_write w),
      legacy_rule ''legacy-write-provider'' 23 EffectWrite (Some ''provider'') (wg_provider_mutate w)]"

definition legacy_namespaces :: "write_gadgets_config \<Rightarrow> string list" where
  "legacy_namespaces w =
     bt_of_list (map fst (wg_namespace_modes w)
       @ map (\<lambda>key. legacy_key_namespace (fst key)) (wg_legacy_namespace_modes w))"

text \<open>The loop over the namespaces; \<open>100 + rules.len()\<close> counts the rules pushed so far.\<close>

fun push_namespace_rules ::
  "write_gadgets_config \<Rightarrow> string list \<Rightarrow> policy_rule list \<Rightarrow> policy_rule list" where
  "push_namespace_rules w [] rules = rules"
| "push_namespace_rules w (namespace # namespaces) rules =
     push_namespace_rules w namespaces
       (if namespace \<in> set CORE_NAMESPACES then rules
        else (case namespace_mode w namespace of
                None \<Rightarrow> rules
              | Some mode \<Rightarrow>
                  rules @ [legacy_rule (''legacy-write-'' @ sanitize_rule_id namespace)
                             (100 + of_nat (length rules)) EffectWrite (Some namespace) mode]))"

definition destructive_rule :: "destructive_gadgets_config \<Rightarrow> policy_rule" where
  "destructive_rule c =
     \<lparr>pr_id = ''legacy-destructive'', pr_priority = 2000, pr_enabled = True,
      pr_matcher = empty_matcher\<lparr>pm_effects := [EffectDestructive]\<rparr>,
      pr_decision = (if dg_enabled c then Review else Deny),
      pr_reason = (if dg_enabled c then ''Legacy destructive tools require Review''
                   else ''Legacy destructive tools are disabled'')\<rparr>"

definition from_legacy_gadget_modes ::
  "host_files \<Rightarrow> gadgets_config \<Rightarrow> (policy_error, policy_document) result" where
  "from_legacy_gadget_modes host modes =
     (case gadgets_validate host modes of
        Inl e \<Rightarrow> Inl (PolicyInvalid (LegacyConfig e))
      | Inr _ \<Rightarrow>
          let w = gc_write modes;
              rules = push_namespace_rules w (legacy_namespaces w)
                        (legacy_rule ''legacy-read'' 10 EffectRead None ModeAuto # core_write_rules w);
              document =
                \<lparr>pd_schema_version = POLICY_SCHEMA_VERSION, pd_default_decision = Review,
                 pd_default_reason = ''No policy rule matched; Manager review is required'',
                 pd_rules = rules
                   @ [legacy_rule ''legacy-write-default'' 1000 EffectWrite None (wg_default_mode w),
                      destructive_rule (gc_destructive modes)]\<rparr>
          in and_then (document_validate document) (\<lambda>_. Inr document))"

section \<open>Revision references\<close>

definition to_revision_ref :: "uuid_text \<Rightarrow> policy_identity \<Rightarrow> string" where
  "to_revision_ref U i =
     show_uuid U (id_policy_id i) @ '':'' @ show_int (id_revision i) @ '':'' @ id_document_hash i"

definition is_ascii_hexdigit :: "char \<Rightarrow> bool" where
  "is_ascii_hexdigit c \<longleftrightarrow> is_lower_hex c \<or> (65 \<le> byte c \<and> byte c \<le> 70)"

definition valid_hash_ref :: "string \<Rightarrow> bool" where
  "valid_hash_ref s \<longleftrightarrow> length s = 71 \<and> prefix ''sha256:'' s \<and> list_all is_ascii_hexdigit (drop 7 s)"

definition from_revision_ref :: "uuid_text \<Rightarrow> string \<Rightarrow> (policy_error, policy_identity) result" where
  "from_revision_ref U s =
     (let parts = splitn 3 CHR '':'' s;
          part = (\<lambda>n. if n < length parts then Some (parts ! n) else None)
      in and_then (ok_or (Option.bind (part 0) (parse_uuid U)) (PolicyInvalid RefNoId)) (\<lambda>policy_id.
         and_then (ok_or (Option.bind (Option.bind (part 1) parse_i64)
                     (\<lambda>r. if r > 0 then Some r else None)) (PolicyInvalid RefNoRevision)) (\<lambda>revision.
         and_then (ok_or (Option.bind (part 2) (\<lambda>h. if valid_hash_ref h then Some h else None))
                     (PolicyInvalid RefNoHash)) (\<lambda>hash.
         Inr \<lparr>id_policy_id = policy_id, id_revision = revision, id_document_hash = hash\<rparr>))))"

section \<open>Authorization\<close>

datatype enforcement_path = PathTool | PathWorkbenchAction | PathReviewResume
  | PathBundleBackground | PathKnowledgeBackground

datatype policy_review_state = ReviewNone | ReviewPending | ReviewApproved

datatype policy_authorization = AuthAuto | AuthDenied | AuthPendingReview | AuthApprovedReview

record policy_evaluation_request =
  rq_tenant_id :: uuid
  rq_path :: enforcement_path
  rq_input :: policy_input
  rq_pinned_policy :: "policy_identity option"
  rq_approval_id :: "uuid option"
  rq_review_state :: policy_review_state

record policy_evaluation =
  pe_event_id :: uuid
  pe_trace :: policy_decision_trace
  pe_trace_hash :: string
  pe_authorization :: policy_authorization

definition path_as_str :: "enforcement_path \<Rightarrow> string" where
  "path_as_str p =
     (case p of PathTool \<Rightarrow> ''tool'' | PathWorkbenchAction \<Rightarrow> ''workbench_action''
      | PathReviewResume \<Rightarrow> ''review_resume'' | PathBundleBackground \<Rightarrow> ''bundle_background''
      | PathKnowledgeBackground \<Rightarrow> ''knowledge_background'')"

definition authorization_as_str :: "policy_authorization \<Rightarrow> string" where
  "authorization_as_str a =
     (case a of AuthAuto \<Rightarrow> ''auto'' | AuthDenied \<Rightarrow> ''denied'' | AuthPendingReview \<Rightarrow> ''pending_review''
      | AuthApprovedReview \<Rightarrow> ''approved_review'')"

definition allows_execution :: "policy_evaluation \<Rightarrow> bool" where
  "allows_execution e \<longleftrightarrow> pe_authorization e = AuthAuto \<or> pe_authorization e = AuthApprovedReview"

section \<open>Specification\<close>

text \<open>
  What a document decides, without its evaluation loop.  A rule applies when every predicate
  it admits admits the action; the governing rule is the applicable enabled rule that is
  least by priority and identifier.
\<close>

definition admits :: "'a list \<Rightarrow> 'a \<Rightarrow> bool" where
  "admits allowed v \<longleftrightarrow> allowed = [] \<or> v \<in> set allowed"

definition matcher_admits :: "policy_matcher \<Rightarrow> policy_input \<Rightarrow> bool" where
  "matcher_admits m i \<longleftrightarrow>
     admits (pm_action_ids m) (pi_action_id i) \<and> admits (pm_namespaces m) (pi_namespace i)
     \<and> admits (pm_effects m) (pi_effect i) \<and> admits (pm_risks m) (pi_risk i)
     \<and> set (pm_scopes m) \<subseteq> set (pi_requested_scopes i)
     \<and> admits (pm_evidence_states m) (ev_state (pi_evidence i))
     \<and> admits (pm_outcome_states m) (oc_state (pi_outcome i))
     \<and> admits (pm_rollback_states m) (rb_state (pi_rollback i))"

definition rule_applies :: "policy_document \<Rightarrow> policy_input \<Rightarrow> policy_rule \<Rightarrow> bool" where
  "rule_applies d i r \<longleftrightarrow> r \<in> set (pd_rules d) \<and> pr_enabled r \<and> matcher_admits (pr_matcher r) i"

definition governs :: "policy_document \<Rightarrow> policy_input \<Rightarrow> policy_rule \<Rightarrow> bool" where
  "governs d i r \<longleftrightarrow> rule_applies d i r
     \<and> (\<forall>r'. rule_applies d i r' \<longrightarrow> (pr_priority r, pr_id r) \<le> (pr_priority r', pr_id r'))"

inductive policy_decides :: "policy_document \<Rightarrow> policy_input \<Rightarrow> policy_decision \<Rightarrow> string \<Rightarrow> bool"
  for d i where
  missing_scope:
    "\<not> set (pi_requested_scopes i) \<subseteq> set (pi_actor_scopes i) \<Longrightarrow>
     policy_decides d i Deny
       (missing_scope_reason (bt_difference (pi_requested_scopes i) (pi_actor_scopes i)))"
| governed:
    "set (pi_requested_scopes i) \<subseteq> set (pi_actor_scopes i) \<Longrightarrow> governs d i r \<Longrightarrow>
     policy_decides d i (pr_decision r) (pr_reason r)"
| by_default:
    "set (pi_requested_scopes i) \<subseteq> set (pi_actor_scopes i) \<Longrightarrow> \<forall>r. \<not> rule_applies d i r \<Longrightarrow>
     policy_decides d i (pd_default_decision d) (pd_default_reason d)"

inductive_cases policy_decidesE: "policy_decides d i decision reason"

section \<open>Facts on validation\<close>

lemma validate_label_ok [result_simps]:
  "validate_label field s limit = Inr u \<longleftrightarrow> \<not> is_blank s \<and> length s \<le> limit \<and> \<not> has_control s"
  by (auto simp: validate_label_def)

lemma validate_set_size_ok [result_simps]: "validate_set_size field n limit = Inr u \<longleftrightarrow> n \<le> limit"
  by (auto simp: validate_set_size_def)

lemma validate_rules_ok:
  "validate_rules ids rules = Inr u \<longleftrightarrow>
     (\<forall>r \<in> set rules. valid_rule_id (pr_id r) \<and> validate_rule r = Inr ())
     \<and> distinct (map pr_id rules) \<and> ids \<inter> pr_id ` set rules = {}"
  by (induction rules arbitrary: ids) (auto simp: result_simps)

lemma document_validate_ok:
  "document_validate d = Inr u \<longleftrightarrow>
     pd_schema_version d = POLICY_SCHEMA_VERSION \<and> length (pd_rules d) \<le> MAX_RULES
     \<and> validate_label ''default_reason'' (pd_default_reason d) 240 = Inr ()
     \<and> (\<forall>r \<in> set (pd_rules d). valid_rule_id (pr_id r) \<and> validate_rule r = Inr ())
     \<and> distinct (map pr_id (pd_rules d))"
  by (auto simp: document_validate_def validate_rules_ok result_simps)

lemma digest_eq_Inr [result_simps]:
  "digest to_vec sha v = Inr h \<longleftrightarrow> (\<exists>bytes. to_vec v = Inr bytes \<and> h = ''sha256:'' @ sha bytes)"
  by (auto simp: digest_def split: sum.splits)

section \<open>The evaluation loop implements the specification\<close>

lemma failed_predicates_Nil_iff: "failed_predicates m i = [] \<longleftrightarrow> matcher_admits m i"
  by (auto simp: failed_predicates_def matcher_admits_def admits_def)

lemma rule_step_matched: "ts_matched (rule_step i r) \<longleftrightarrow> matcher_admits (pr_matcher r) i"
  by (simp add: rule_step_def Let_def failed_predicates_Nil_iff)

lemma rule_step_sel [simp]:
  "ts_stage (rule_step i r) = StageRule" "ts_rule_id (rule_step i r) = Some (pr_id r)"
  "ts_reason (rule_step i r) = pr_reason r"
  "ts_failed_predicates (rule_step i r) = failed_predicates (pr_matcher r) i"
  "ts_decision (rule_step i r) = (if matcher_admits (pr_matcher r) i then Some (pr_decision r) else None)"
  by (simp_all add: rule_step_def Let_def failed_predicates_Nil_iff)

interpretation rule_order: comparator rule_le
  unfolding rule_le_def by (rule comparator_key)

lemma evaluate_rules_Some:
  "evaluate_rules i rules steps = (steps', Some r) \<Longrightarrow>
     \<exists>before after. rules = before @ r # after \<and> matcher_admits (pr_matcher r) i
       \<and> (\<forall>b \<in> set before. \<not> matcher_admits (pr_matcher b) i)
       \<and> steps' = steps @ map (rule_step i) (before @ [r])"
proof (induction rules arbitrary: steps)
  case Nil
  then show ?case by simp
next
  case (Cons a rules)
  show ?case
  proof (cases "matcher_admits (pr_matcher a) i")
    case True
    with Cons.prems show ?thesis
      by (intro exI [of _ "[]"] exI [of _ rules]) (auto simp: Let_def rule_step_matched)
  next
    case False
    with Cons.prems have "evaluate_rules i rules (steps @ [rule_step i a]) = (steps', Some r)"
      by (simp add: Let_def rule_step_matched)
    from Cons.IH [OF this] obtain before after where
      "rules = before @ r # after" "matcher_admits (pr_matcher r) i"
      "\<forall>b \<in> set before. \<not> matcher_admits (pr_matcher b) i"
      "steps' = (steps @ [rule_step i a]) @ map (rule_step i) (before @ [r])" by blast
    with False show ?thesis
      by (intro exI [of _ "a # before"] exI [of _ after]) simp
  qed
qed

lemma evaluate_rules_None:
  "evaluate_rules i rules steps = (steps', None) \<longleftrightarrow>
     (\<forall>r \<in> set rules. \<not> matcher_admits (pr_matcher r) i) \<and> steps' = steps @ map (rule_step i) rules"
  by (induction rules arbitrary: steps) (auto simp: Let_def rule_step_matched)

lemma governs_unique:
  assumes "distinct (map pr_id (pd_rules d))" "governs d i r" "governs d i r'"
  shows "r = r'"
proof -
  from assms(2,3) have "(pr_priority r, pr_id r) \<le> (pr_priority r', pr_id r')"
    "(pr_priority r', pr_id r') \<le> (pr_priority r, pr_id r)"
    unfolding governs_def by blast+
  then have "pr_id r = pr_id r'" by (metis order_antisym prod.inject)
  with assms show ?thesis
    by (auto simp: governs_def rule_applies_def distinct_map inj_on_def)
qed

text \<open>The rules in evaluation order, and the form of every successful evaluation.\<close>

definition evaluation_order :: "policy_document \<Rightarrow> policy_rule list" where
  "evaluation_order d = sort_by rule_le (filter pr_enabled (pd_rules d))"

lemma set_evaluation_order: "set (evaluation_order d) = {r \<in> set (pd_rules d). pr_enabled r}"
  by (simp add: evaluation_order_def)

lemma first_admitting_governs:
  assumes "evaluation_order d = before @ r # after" "matcher_admits (pr_matcher r) i"
    and "\<forall>b \<in> set before. \<not> matcher_admits (pr_matcher b) i"
  shows "governs d i r"
proof -
  have sorted: "sorted_wrt rule_le (before @ r # after)"
    using rule_order.sorted_sort_by assms(1) by (metis evaluation_order_def)
  have "rule_le r r'" if "rule_applies d i r'" for r'
  proof -
    from that assms(1) set_evaluation_order [of d] have "r' \<in> set (before @ r # after)"
      by (auto simp: rule_applies_def)
    moreover from that assms(3) have "r' \<notin> set before" by (auto simp: rule_applies_def)
    ultimately show ?thesis
      using sorted by (auto simp: sorted_wrt_append rule_order.le_refl)
  qed
  moreover have "rule_applies d i r"
    using assms set_evaluation_order [of d] by (auto simp: rule_applies_def)
  ultimately show ?thesis unfolding governs_def rule_le_def by blast
qed

lemma scope_guard_step_Nil [simp]:
  "scope_guard_step [] (missing_scope_reason []) = scope_guard_step [] []"
  by (simp add: scope_guard_step_def)

text \<open>The three ways an evaluation ends.\<close>

lemma evaluate_cases [consumes 1, case_names missing governed default_rule]:
  assumes "evaluate P d identity i = Inr t"
  obtains
    (missing) missing where "missing = bt_difference (pi_requested_scopes i) (pi_actor_scopes i)"
      "missing \<noteq> []" "tr_decision t = Deny" "tr_reason t = missing_scope_reason missing"
      "tr_steps t = [scope_guard_step missing (missing_scope_reason missing)]"
  | (governed) before r after where
      "set (pi_requested_scopes i) \<subseteq> set (pi_actor_scopes i)"
      "evaluation_order d = before @ r # after" "matcher_admits (pr_matcher r) i"
      "\<forall>b \<in> set before. \<not> matcher_admits (pr_matcher b) i"
      "tr_decision t = pr_decision r" "tr_reason t = pr_reason r"
      "tr_steps t = scope_guard_step [] [] # map (rule_step i) (before @ [r])"
  | (default_rule) step where
      "set (pi_requested_scopes i) \<subseteq> set (pi_actor_scopes i)"
      "\<forall>r \<in> set (evaluation_order d). \<not> matcher_admits (pr_matcher r) i"
      "tr_decision t = pd_default_decision d" "tr_reason t = pd_default_reason d"
      "ts_stage step = StageDefault" "ts_decision step = Some (pd_default_decision d)"
      "ts_reason step = pd_default_reason d"
      "tr_steps t = scope_guard_step [] [] # map (rule_step i) (evaluation_order d) @ [step]"
proof -
  let ?missing = "bt_difference (pi_requested_scopes i) (pi_actor_scopes i)"
  let ?guard = "scope_guard_step ?missing (missing_scope_reason ?missing)"
  show thesis
  proof (cases "?missing = []")
    case False
    with assms show thesis
      by (intro missing [of ?missing]) (auto simp: evaluate_def Let_def result_simps split: if_splits)
  next
    case True
    then have guard: "?guard = scope_guard_step [] []" and
      sub: "set (pi_requested_scopes i) \<subseteq> set (pi_actor_scopes i)"
      by (simp_all add: scope_guard_step_def bt_difference_Nil_iff)
    obtain steps found where run: "evaluate_rules i (evaluation_order d) [?guard] = (steps, found)"
      by (cases "evaluate_rules i (evaluation_order d) [?guard]") auto
    show thesis
    proof (cases found)
      case (Some r)
      from evaluate_rules_Some [OF run [unfolded Some]] obtain before after where
        o: "evaluation_order d = before @ r # after" "matcher_admits (pr_matcher r) i"
        "\<forall>b \<in> set before. \<not> matcher_admits (pr_matcher b) i"
        "steps = [?guard] @ map (rule_step i) (before @ [r])" by blast
      from assms run Some True have "tr_decision t = pr_decision r" "tr_reason t = pr_reason r"
        "tr_steps t = steps"
        by (auto simp: evaluate_def Let_def result_simps evaluation_order_def split: if_splits)
      with governed [OF sub o(1-3)] o(4) guard show thesis by simp
    next
      case None
      from run [unfolded None evaluate_rules_None] have o:
        "\<forall>r \<in> set (evaluation_order d). \<not> matcher_admits (pr_matcher r) i"
        "steps = [?guard] @ map (rule_step i) (evaluation_order d)" by auto
      from assms run None True show thesis
        by (intro default_rule [OF sub o(1), of "last (tr_steps t)"])
          (auto simp: evaluate_def Let_def result_simps evaluation_order_def [symmetric] o(2) guard
            split: if_splits)
    qed
  qed
qed

lemma evaluate_okD:
  assumes "evaluate P d identity i = Inr t"
  shows "document_validate d = Inr ()" "input_validate i = Inr ()" "tr_policy t = identity"
    "document_digest P d = Inr (id_document_hash identity)" "input_digest P i = Inr (tr_input_hash t)"
proof -
  from assms show "document_validate d = Inr ()" "input_validate i = Inr ()"
    by (auto simp: evaluate_def document_digest_def input_digest_def result_simps split: if_splits)
  from assms show "document_digest P d = Inr (id_document_hash identity)"
    by (auto simp: evaluate_def result_simps split: if_splits)
  from assms show "tr_policy t = identity" "input_digest P i = Inr (tr_input_hash t)"
    by (auto simp: evaluate_def Let_def result_simps split: if_splits prod.splits option.splits)
qed

definition acceptable ::
  "policy_encoding \<Rightarrow> policy_document \<Rightarrow> policy_identity \<Rightarrow> policy_input \<Rightarrow> string \<Rightarrow> bool" where
  "acceptable P d identity i dbytes \<longleftrightarrow>
     document_validate d = Inr () \<and> input_validate i = Inr ()
     \<and> id_document_hash identity = ''sha256:'' @ sha256_hex P dbytes"

lemma evaluate_total:
  assumes "json_of_document P d = Inr dbytes" "json_of_input P i = Inr ibytes"
    and "acceptable P d identity i dbytes"
  shows "\<exists>t. evaluate P d identity i = Inr t"
  using assms
  by (auto simp: acceptable_def evaluate_def document_digest_def input_digest_def digest_def Let_def
      split: prod.splits option.splits)

lemma evaluate_decides:
  assumes t: "evaluate P d identity i = Inr t"
  shows "policy_decides d i decision reason \<longleftrightarrow> decision = tr_decision t \<and> reason = tr_reason t"
proof -
  from evaluate_okD(1) [OF t] have dist: "distinct (map pr_id (pd_rules d))"
    by (simp add: document_validate_ok)
  have unique: "decision = a \<and> reason = b"
    if "policy_decides d i decision reason" "policy_decides d i a b" for decision reason a b
    using that(1)
  proof cases
    case missing_scope
    with that(2) show ?thesis by (auto elim: policy_decidesE)
  next
    case (governed r)
    from that(2) show ?thesis
    proof cases
      case governed': (governed r')
      with governed governs_unique [OF dist] have "r = r'" by blast
      with governed governed' show ?thesis by simp
    qed (use governed in \<open>auto simp: governs_def\<close>)
  next
    case by_default
    with that(2) show ?thesis by (auto elim!: policy_decidesE simp: governs_def)
  qed
  from t have "policy_decides d i (tr_decision t) (tr_reason t)"
  proof (cases rule: evaluate_cases)
    case (missing missing)
    then have "\<not> set (pi_requested_scopes i) \<subseteq> set (pi_actor_scopes i)"
      by (simp add: bt_difference_Nil_iff)
    with missing show ?thesis by (simp add: policy_decides.missing_scope)
  next
    case (governed before r after)
    then show ?thesis by (simp add: policy_decides.governed first_admitting_governs)
  next
    case (default_rule step)
    then have "\<forall>r. \<not> rule_applies d i r"
      by (auto simp: rule_applies_def set_evaluation_order)
    with default_rule show ?thesis by (simp add: policy_decides.by_default)
  qed
  with unique show ?thesis by metis
qed


section \<open>Evaluation\<close>

text \<open>
  A concrete encoding, for the witnesses: every value encodes to its length-free tag and the
  digest is a constant hexadecimal text of the right length.
\<close>

definition sample_encoding :: policy_encoding where
  "sample_encoding =
     \<lparr>json_of_document = (\<lambda>d. Inr (concat (map pr_id (pd_rules d)))),
      json_of_input = (\<lambda>i. Inr (pi_action_id i)),
      json_of_trace = (\<lambda>t. Inr (tr_reason t)),
      json_of_value = (\<lambda>v. Inr (case v of JObject ms \<Rightarrow> concat (map fst ms) | _ \<Rightarrow> [])),
      sha256_hex = (\<lambda>s. take 64 (filter is_lower_hex s @ replicate 64 CHR ''0''))\<rparr>"

definition sample_rule :: policy_rule where
  "sample_rule =
     \<lparr>pr_id = ''deny-high'', pr_priority = 5, pr_enabled = True,
      pr_matcher = empty_matcher\<lparr>pm_risks := [High, Critical]\<rparr>,
      pr_decision = Deny, pr_reason = ''too risky''\<rparr>"

definition sample_document :: policy_document where
  "sample_document =
     \<lparr>pd_schema_version = 1, pd_default_decision = Review, pd_default_reason = ''ask'',
      pd_rules = [sample_rule\<lparr>pr_id := ''allow-all'', pr_priority := 9, pr_matcher := empty_matcher,
                               pr_decision := Auto, pr_reason := ''trusted''\<rparr>, sample_rule]\<rparr>"

definition sample_input :: policy_input where
  "sample_input =
     \<lparr>pi_action_id = ''wiki.write'', pi_gadget_name = Some ''wiki.write'', pi_parameters_hash = None,
      pi_namespace = ''wiki'', pi_effect = EffectWrite, pi_risk = High,
      pi_requested_scopes = [''openai_compat''], pi_actor_scopes = [''management'', ''openai_compat''],
      pi_evidence = \<lparr>ev_state = EvidenceSufficient, ev_references = []\<rparr>,
      pi_outcome = \<lparr>oc_state = OutcomeVerifiable, oc_predicate_ref = None\<rparr>,
      pi_rollback = \<lparr>rb_state = RollbackUnknown, rb_compensating_action = None\<rparr>\<rparr>"

definition sample_identity :: policy_identity where
  "sample_identity =
     \<lparr>id_policy_id = 7, id_revision = 1,
      id_document_hash = ''sha256:aade'' @ replicate 60 CHR ''0''\<rparr>"

definition run_policy ::
  "policy_document \<Rightarrow> policy_identity \<Rightarrow> policy_input \<Rightarrow> policy_decision_trace" where
  "run_policy d identity i = (case evaluate sample_encoding d identity i of Inr t \<Rightarrow> t)"

lemma sample_run:
  "evaluate sample_encoding sample_document sample_identity sample_input
     = Inr (run_policy sample_document sample_identity sample_input)"
  "tr_decision (run_policy sample_document sample_identity sample_input) = Deny"
  "tr_reason (run_policy sample_document sample_identity sample_input) = ''too risky''"
  by code_simp+

text \<open>
  (C3) The evaluator implements the specification: whenever it returns a trace, the decision
  and reason of the trace are the one pair the document decides for the action, that is, denial
  when the actor lacks a requested scope, otherwise the decision of the enabled matching rule
  that is least by priority and identifier, otherwise the default of the document.
\<close>

theorem evaluate_implements_policy:
  assumes "evaluate P d identity i = Inr t"
  shows "policy_decides d i decision reason \<longleftrightarrow> decision = tr_decision t \<and> reason = tr_reason t"
  using assms by (rule evaluate_decides)

theorem evaluate_implements_policy_witness:
  "policy_decides sample_document sample_input Deny ''too risky''"
  using evaluate_implements_policy [OF sample_run(1), of Deny "''too risky''"] sample_run(2,3) by simp

text \<open>
  Evaluation returns exactly on valid requests.  With an encoder that accepts the document
  and the input, the evaluator returns a trace if and only if the document and the input
  validate and the identity carries the digest of the document; the trace then names that
  identity and the digest of the input.
\<close>

lemma evaluate_returns_iff:
  assumes "json_of_document P d = Inr dbytes" "json_of_input P i = Inr ibytes"
  shows "case evaluate P d identity i of
           Inr t \<Rightarrow> acceptable P d identity i dbytes \<and> tr_policy t = identity
                    \<and> tr_input_hash t = ''sha256:'' @ sha256_hex P ibytes
         | Inl _ \<Rightarrow> \<not> acceptable P d identity i dbytes"
proof (cases "evaluate P d identity i")
  case (Inl e)
  with evaluate_total [OF assms, of identity] show ?thesis by auto
next
  case (Inr t)
  from evaluate_okD [OF Inr] assms Inr show ?thesis
    by (auto simp: acceptable_def document_digest_def input_digest_def digest_def)
qed

lemma evaluate_returns_iff_example:
  "tr_policy (run_policy sample_document sample_identity sample_input) = sample_identity"
proof -
  have "json_of_document sample_encoding sample_document = Inr ''allow-alldeny-high''"
    "json_of_input sample_encoding sample_input = Inr ''wiki.write''"
    by code_simp+
  from evaluate_returns_iff [OF this, of sample_identity] sample_run(1) show ?thesis by simp
qed

text \<open>
  The trace explains the decision.  The last step, and no other, carries a decision, and it
  is the decision and reason of the trace; every rule recorded before it was tried in the order
  of priority and identifier and names at least one predicate that failed.
\<close>

lemma trace_explains_decision:
  assumes "evaluate P d identity i = Inr t"
  shows "\<exists>earlier final rules.
           tr_steps t = earlier @ [final]
           \<and> ts_decision final = Some (tr_decision t) \<and> ts_reason final = tr_reason t
           \<and> (\<forall>s \<in> set earlier. ts_decision s = None)
           \<and> (\<forall>s \<in> set earlier. ts_stage s = StageRule \<longrightarrow> ts_failed_predicates s \<noteq> [])
           \<and> prefix rules (evaluation_order d)
           \<and> filter (\<lambda>s. ts_stage s = StageRule) (tr_steps t) = map (rule_step i) rules"
  using assms
proof (cases rule: evaluate_cases)
  case (missing missing)
  then show ?thesis
    by (intro exI [of _ "[]"] exI [of _ "hd (tr_steps t)"]) (simp add: scope_guard_step_def)
next
  case (governed before r after)
  then show ?thesis
    by (intro exI [of _ "scope_guard_step [] [] # map (rule_step i) before"] exI [of _ "rule_step i r"]
        exI [of _ "before @ [r]"])
      (auto simp: scope_guard_step_def failed_predicates_Nil_iff filter_map o_def)
next
  case (default_rule step)
  then show ?thesis
    by (intro exI [of _ "scope_guard_step [] [] # map (rule_step i) (evaluation_order d)"] exI [of _ step]
        exI [of _ "evaluation_order d"])
      (auto simp: scope_guard_step_def failed_predicates_Nil_iff filter_map o_def)
qed

lemma trace_explains_decision_example:
  "\<exists>earlier final. tr_steps (run_policy sample_document sample_identity sample_input) = earlier @ [final]
     \<and> ts_decision final = Some Deny"
  using trace_explains_decision [OF sample_run(1)] sample_run(2) by auto

section \<open>Revision references\<close>

text \<open>
  The documented behaviour of the UUID text form: parsing inverts printing, and the hyphenated
  hexadecimal form holds no colon.
\<close>

definition uuid_text_ok :: "uuid_text \<Rightarrow> bool" where
  "uuid_text_ok U \<longleftrightarrow>
     (\<forall>u. parse_uuid U (show_uuid U u) = Some u \<and> CHR '':'' \<notin> set (show_uuid U u))"

lemma show_int_no_colon: "CHR '':'' \<notin> set (show_int v)"
  using show_nat_not_in [of "CHR '':''"] by (auto simp: show_int_def is_ascii_digit_def)

lemma splitn_revision_ref:
  assumes "CHR '':'' \<notin> set a" "CHR '':'' \<notin> set b"
  shows "splitn 3 CHR '':'' (a @ '':'' @ b @ '':'' @ c) = [a, b, c]"
proof -
  have "split_once CHR '':'' (a @ CHR '':'' # b @ CHR '':'' # c) = Some (a, b @ CHR '':'' # c)"
    "split_once CHR '':'' (b @ CHR '':'' # c) = Some (b, c)"
    using assms by (auto simp: split_once_eq_Some)
  then show ?thesis by (simp add: numeral_3_eq_3)
qed

text \<open>
  A revision reference reads back as the identity it was printed from, for every stored
  identity: positive revisions and hashes in the form the digest produces.
\<close>

lemma revision_ref_roundtrip:
  assumes "uuid_text_ok U" "0 < id_revision i" "id_revision i < 2 ^ 63"
    and "valid_hash_ref (id_document_hash i)"
  shows "from_revision_ref U (to_revision_ref U i) = Inr i"
proof -
  from assms(1) have U: "parse_uuid U (show_uuid U (id_policy_id i)) = Some (id_policy_id i)"
    "CHR '':'' \<notin> set (show_uuid U (id_policy_id i))"
    by (auto simp: uuid_text_ok_def)
  have "splitn 3 CHR '':'' (to_revision_ref U i)
      = [show_uuid U (id_policy_id i), show_int (id_revision i), id_document_hash i]"
    unfolding to_revision_ref_def by (rule splitn_revision_ref [OF U(2) show_int_no_colon])
  moreover have "parse_i64 (show_int (id_revision i)) = Some (id_revision i)"
    using assms by (intro parse_i64_show_int) auto
  ultimately show ?thesis
    using assms(2,4) U(1) by (simp add: from_revision_ref_def Let_def ok_or_def)
qed

definition sample_uuid_text :: uuid_text where
  "sample_uuid_text =
     \<lparr>parse_uuid = (\<lambda>s. map_option of_nat (parse_digits s)), show_uuid = (\<lambda>u. show_nat (unat u))\<rparr>"

lemma sample_uuid_text_ok: "uuid_text_ok sample_uuid_text"
  using show_nat_not_in [of "CHR '':''"]
  by (auto simp: uuid_text_ok_def sample_uuid_text_def is_ascii_digit_def)

lemma revision_ref_roundtrip_example:
  "from_revision_ref sample_uuid_text (to_revision_ref sample_uuid_text sample_identity) = Inr sample_identity"
proof -
  have "valid_hash_ref (id_document_hash sample_identity)" by code_simp
  then show ?thesis
    by (intro revision_ref_roundtrip sample_uuid_text_ok) (simp_all add: sample_identity_def)
qed

section \<open>Canonical parameters\<close>

text \<open>Two JSON values that differ at most in the order of object members.\<close>

inductive json_equiv :: "json \<Rightarrow> json \<Rightarrow> bool" where
  "json_equiv JNull JNull"
| "json_equiv (JBool b) (JBool b)"
| "json_equiv (JNumber n) (JNumber n)"
| "json_equiv (JString s) (JString s)"
| "list_all2 json_equiv xs ys \<Longrightarrow> json_equiv (JArray xs) (JArray ys)"
| "list_all2 (rel_prod (=) json_equiv) ms ms' \<Longrightarrow> mset ms' = mset ns \<Longrightarrow> distinct (map fst ns) \<Longrightarrow>
   json_equiv (JObject ms) (JObject ns)"

lemma sort_by_key_unique:
  fixes xs ys :: "('k::linorder \<times> 'v) list"
  assumes "mset xs = mset ys" "distinct (map fst ys)"
  shows "sort_by (\<lambda>a b. fst a \<le> fst b) xs = sort_by (\<lambda>a b. fst a \<le> fst b) ys"
    (is "?s xs = ?s ys")
proof -
  have keys: "sorted (map fst (?s zs))" for zs :: "('k \<times> 'v) list"
    using comparator.sorted_sort_by [OF comparator_key [of fst], of zs]
    by (simp add: sorted_wrt_map)
  have mset_insert: "mset (insert_by le x zs) = add_mset x (mset zs)" for le and x :: "'k \<times> 'v" and zs
    by (induction zs) auto
  have mset_sort: "mset (?s zs) = mset zs" for zs :: "('k \<times> 'v) list"
    by (induction zs) (auto simp: mset_insert)
  then have "set (?s xs) = set (?s ys)" using assms(1) by (metis set_mset_mset)
  moreover have "distinct (map fst (?s ys))" "distinct (map fst (?s xs))"
    using assms mset_sort by (metis mset_eq_imp_distinct_iff mset_map)+
  moreover have "inj_on fst (set (?s xs) \<union> set (?s ys))"
    using calculation by (auto simp: distinct_map)
  ultimately show ?thesis
    using keys by (intro map_sorted_distinct_set_unique [of fst]) auto
qed

lemma canonical_json_equiv: "json_equiv a b \<Longrightarrow> canonical_json a = canonical_json b"
proof (induction rule: json_equiv.induct)
  case (5 xs ys)
  then have "map canonical_json xs = map canonical_json ys"
    by (auto simp: list_all2_conv_all_nth intro!: nth_equalityI)
  then show ?case by simp
next
  case (6 ms ms' ns)
  have "map (map_prod id canonical_json) ms = map (map_prod id canonical_json) ms'"
    using 6(1) by (auto simp: list_all2_conv_all_nth rel_prod_sel map_prod_def case_prod_unfold
        intro!: nth_equalityI)
  moreover have "mset (map (map_prod id canonical_json) ms') = mset (map (map_prod id canonical_json) ns)"
    using 6(2) by simp
  moreover have "distinct (map fst (map (map_prod id canonical_json) ns))"
    using 6(3) by (simp add: o_def map_prod_def case_prod_unfold)
  ultimately show ?case
    using sort_by_key_unique by (metis canonical_json.simps(6))
qed simp_all

text \<open>
  The parameter hash does not depend on the member order of the arguments: parameters that
  differ only in the order of object members, at any depth, give the same policy input.
\<close>

lemma parameters_hash_order_free:
  assumes "json_equiv a b"
  shows "with_parameters P a input = with_parameters P b input"
  using canonical_json_equiv [OF assms] by (simp add: with_parameters_def)

lemma parameters_hash_order_free_example:
  "with_parameters sample_encoding (JObject [(''b'', JNull), (''a'', JBool True)]) sample_input
     = with_parameters sample_encoding (JObject [(''a'', JBool True), (''b'', JNull)]) sample_input"
  by (rule parameters_hash_order_free)
    (rule json_equiv.intros(6) [of _ "[(''b'', JNull), (''a'', JBool True)]"],
      auto intro: json_equiv.intros)

end
