(* ===== verification/Policy_Legacy.thy ===== *)
theory Policy_Legacy
  imports Policy_Core
begin

text \<open>
  The migration of the pre-policy mode matrix, \<open>PolicyDocument::from_legacy_gadget_modes\<close> of
  \<open>crates/gadgetron-core/src/policy.rs\<close>: when it succeeds, and that the document it builds
  decides every action the way the mode matrix did.
\<close>

section \<open>The rules it pushes\<close>

definition namespace_rule :: "nat \<Rightarrow> string \<Rightarrow> gadget_mode \<Rightarrow> policy_rule" where
  "namespace_rule k namespace mode =
     legacy_rule (''legacy-write-'' @ sanitize_rule_id namespace) (100 + of_nat k) EffectWrite
       (Some namespace) mode"

definition base_rules :: "write_gadgets_config \<Rightarrow> policy_rule list" where
  "base_rules w = legacy_rule ''legacy-read'' 10 EffectRead None ModeAuto # core_write_rules w"

definition default_write_rule :: "write_gadgets_config \<Rightarrow> policy_rule" where
  "default_write_rule w = legacy_rule ''legacy-write-default'' 1000 EffectWrite None (wg_default_mode w)"

definition migrated_namespaces :: "write_gadgets_config \<Rightarrow> string list" where
  "migrated_namespaces w = filter (\<lambda>n. n \<notin> set CORE_NAMESPACES) (legacy_namespaces w)"

lemma set_legacy_namespaces: "set (legacy_namespaces w) = overridden_namespaces w"
  by (auto simp: legacy_namespaces_def overridden_namespaces_def)

lemma matcher_admits_legacy_rule [simp]:
  "matcher_admits (pr_matcher (legacy_rule rid p effect namespace mode)) i \<longleftrightarrow>
     pi_effect i = effect \<and> (case namespace of None \<Rightarrow> True | Some n \<Rightarrow> pi_namespace i = n)"
  by (auto simp: matcher_admits_def legacy_rule_def empty_matcher_def admits_def split: option.splits)

lemma matcher_admits_destructive_rule [simp]:
  "matcher_admits (pr_matcher (destructive_rule c)) i \<longleftrightarrow> pi_effect i = EffectDestructive"
  by (auto simp: matcher_admits_def destructive_rule_def empty_matcher_def admits_def)

lemma legacy_rule_sel [simp]:
  "pr_id (legacy_rule rid p effect namespace mode) = rid"
  "pr_priority (legacy_rule rid p effect namespace mode) = p"
  "pr_enabled (legacy_rule rid p effect namespace mode)"
  "pr_decision (legacy_rule rid p effect namespace mode) = mode_decision mode"
  by (simp_all add: legacy_rule_def)

lemma destructive_rule_sel [simp]:
  "pr_enabled (destructive_rule c)" "pr_priority (destructive_rule c) = 2000"
  "pr_id (destructive_rule c) = ''legacy-destructive''"
  "pr_decision (destructive_rule c) = (if dg_enabled c then Review else Deny)"
  by (simp_all add: destructive_rule_def)

lemma push_namespace_rules_append:
  assumes "\<forall>n \<in> set nss. namespace_mode w n \<noteq> None"
  shows "push_namespace_rules w nss rules =
    rules @ map (\<lambda>(k, n). namespace_rule k n (the (namespace_mode w n)))
      (enumerate (length rules) (filter (\<lambda>n. n \<notin> set CORE_NAMESPACES) nss))"
  using assms by (induction nss arbitrary: rules) (auto simp: namespace_rule_def)

lemma overridden_all_known: "\<forall>n \<in> set (legacy_namespaces w). namespace_mode w n \<noteq> None"
  by (simp add: set_legacy_namespaces namespace_mode_overridden)

definition migrated_rules :: "write_gadgets_config \<Rightarrow> policy_rule list" where
  "migrated_rules w =
     map (\<lambda>(k, n). namespace_rule k n (the (namespace_mode w n))) (enumerate 5 (migrated_namespaces w))"

definition legacy_document :: "gadgets_config \<Rightarrow> policy_document" where
  "legacy_document modes =
     (let w = gc_write modes in
      \<lparr>pd_schema_version = POLICY_SCHEMA_VERSION, pd_default_decision = Review,
       pd_default_reason = ''No policy rule matched; Manager review is required'',
       pd_rules = base_rules w @ migrated_rules w
         @ [default_write_rule w, destructive_rule (gc_destructive modes)]\<rparr>)"

lemma from_legacy_eq:
  "from_legacy_gadget_modes host modes =
     (case gadgets_validate host modes of
        Inl e \<Rightarrow> Inl (PolicyInvalid (LegacyConfig e))
      | Inr _ \<Rightarrow> and_then (document_validate (legacy_document modes)) (\<lambda>_. Inr (legacy_document modes)))"
proof -
  have "length (base_rules w) = 5" for w by (simp add: base_rules_def core_write_rules_def)
  then have "push_namespace_rules w (legacy_namespaces w) (base_rules w) = base_rules w @ migrated_rules w" for w
    using push_namespace_rules_append [OF overridden_all_known [of w], of "base_rules w"]
    by (simp only: migrated_rules_def migrated_namespaces_def)
  then show ?thesis
    by (simp add: from_legacy_gadget_modes_def legacy_document_def base_rules_def [symmetric] Let_def
        default_write_rule_def [symmetric] split: sum.splits)
qed

section \<open>The migration preserves the mode matrix\<close>

text \<open>
  The mode of a Tier 2 namespace: the dedicated field of a Core namespace, else the override of
  the namespace, else the default.
\<close>

definition write_mode :: "write_gadgets_config \<Rightarrow> string \<Rightarrow> gadget_mode" where
  "write_mode w namespace =
     (if namespace = ''wiki'' then wg_wiki_write w
      else if namespace = ''infra'' then wg_infra_write w
      else if namespace = ''scheduler'' then wg_scheduler_write w
      else if namespace = ''provider'' then wg_provider_mutate w
      else (case namespace_mode w namespace of Some mode \<Rightarrow> mode | None \<Rightarrow> wg_default_mode w))"

definition mode_matrix_decision :: "gadgets_config \<Rightarrow> policy_effect \<Rightarrow> string \<Rightarrow> policy_decision" where
  "mode_matrix_decision modes effect namespace =
     (case effect of
        EffectRead \<Rightarrow> mode_decision (gc_read modes)
      | EffectWrite \<Rightarrow> mode_decision (write_mode (gc_write modes) namespace)
      | EffectDestructive \<Rightarrow> if dg_enabled (gc_destructive modes) then Review else Deny)"

lemma migrated_rules_alt:
  "migrated_rules w =
     map (\<lambda>k. namespace_rule (5 + k) (migrated_namespaces w ! k)
            (the (namespace_mode w (migrated_namespaces w ! k)))) [0..<length (migrated_namespaces w)]"
  by (rule nth_equalityI) (simp_all add: migrated_rules_def nth_enumerate_eq)

lemma migrated_rule_mem:
  "r \<in> set (migrated_rules w) \<longleftrightarrow>
     (\<exists>k < length (migrated_namespaces w). r = namespace_rule (5 + k) (migrated_namespaces w ! k)
        (the (namespace_mode w (migrated_namespaces w ! k))))"
  by (auto simp: migrated_rules_alt)

lemma legacy_rules_mem:
  "r \<in> set (pd_rules (legacy_document modes)) \<longleftrightarrow>
     r = legacy_rule ''legacy-read'' 10 EffectRead None ModeAuto
     \<or> r \<in> set (core_write_rules (gc_write modes)) \<or> r \<in> set (migrated_rules (gc_write modes))
     \<or> r = default_write_rule (gc_write modes) \<or> r = destructive_rule (gc_destructive modes)"
  by (auto simp: legacy_document_def Let_def base_rules_def)

lemma set_migrated_namespaces:
  "set (migrated_namespaces w) = overridden_namespaces w - set CORE_NAMESPACES"
  by (auto simp: migrated_namespaces_def set_legacy_namespaces)

lemma distinct_migrated: "distinct (migrated_namespaces w)"
  by (simp add: migrated_namespaces_def legacy_namespaces_def)

text \<open>
  Every rule of the document that applies to a write is the one of its namespace or the
  default, and the default comes last.
\<close>

lemma namespace_priority: "k < 256 \<Longrightarrow> (100 + of_nat k :: u32) < 1000"
proof -
  assume "k < 256"
  then have "unat (of_nat k :: u32) = k" by (simp add: unat_of_nat take_bit_nat_eq_self)
  with \<open>k < 256\<close> show ?thesis by (simp add: word_less_nat_alt unat_word_ariths)
qed

lemma sole_candidate_governs:
  assumes "rule_applies d i r"
    and "\<And>r'. rule_applies d i r' \<Longrightarrow> r' = r \<or> pr_priority r < pr_priority r'"
  shows "governs d i r"
  using assms by (fastforce simp: governs_def rule_le_def less_eq_prod_def)

lemma governs_read:
  "pi_effect i = EffectRead \<Longrightarrow>
     governs (legacy_document modes) i (legacy_rule ''legacy-read'' 10 EffectRead None ModeAuto)"
  by (rule sole_candidate_governs)
    (auto simp: rule_applies_def legacy_rules_mem migrated_rule_mem namespace_rule_def
      core_write_rules_def default_write_rule_def)

lemma governs_destructive:
  "pi_effect i = EffectDestructive \<Longrightarrow>
     governs (legacy_document modes) i (destructive_rule (gc_destructive modes))"
  by (rule sole_candidate_governs)
    (auto simp: rule_applies_def legacy_rules_mem migrated_rule_mem namespace_rule_def
      core_write_rules_def default_write_rule_def)

lemma migrated_not_core:
  assumes "pi_namespace i \<in> set CORE_NAMESPACES" "r \<in> set (migrated_rules w)"
  shows "\<not> matcher_admits (pr_matcher r) i"
proof -
  from assms(2) obtain k where k: "k < length (migrated_namespaces w)"
    "r = namespace_rule (5 + k) (migrated_namespaces w ! k)
       (the (namespace_mode w (migrated_namespaces w ! k)))"
    by (auto simp: migrated_rule_mem)
  from k(1) have "migrated_namespaces w ! k \<notin> set CORE_NAMESPACES"
    using nth_mem set_migrated_namespaces by blast
  then have "pi_namespace i \<noteq> migrated_namespaces w ! k" using assms(1) by metis
  with k(2) show ?thesis by (simp add: namespace_rule_def)
qed

lemma core_rule_governs:
  assumes "pi_effect i = EffectWrite" "pi_namespace i \<in> set CORE_NAMESPACES"
    and r: "r \<in> set (core_write_rules (gc_write modes))" "matcher_admits (pr_matcher r) i"
  shows "governs (legacy_document modes) i r"
proof (rule sole_candidate_governs)
  have core: "pr_enabled r \<and> pr_priority r \<le> 23" if "r \<in> set (core_write_rules w)" for r w
    using that by (auto simp: core_write_rules_def)
  have same: "r' = r" if "r' \<in> set (core_write_rules (gc_write modes))" "matcher_admits (pr_matcher r') i" for r'
    using that r by (auto simp: core_write_rules_def)
  show "rule_applies (legacy_document modes) i r"
    using r core by (simp add: rule_applies_def legacy_rules_mem)
  fix r' assume "rule_applies (legacy_document modes) i r'"
  then have "r' = r \<or> r' = default_write_rule (gc_write modes)"
    using same migrated_not_core [OF assms(2)] assms(1)
    by (auto simp: rule_applies_def legacy_rules_mem)
  moreover have "pr_priority r < 1000"
    using core [OF r(1)] by (auto elim: order.strict_trans1)
  ultimately show "r' = r \<or> pr_priority r < pr_priority r'"
    by (auto simp: default_write_rule_def)
qed

lemma governs_core_write:
  assumes "pi_effect i = EffectWrite" "pi_namespace i \<in> set CORE_NAMESPACES"
  shows "\<exists>r. governs (legacy_document modes) i r
           \<and> pr_decision r = mode_decision (write_mode (gc_write modes) (pi_namespace i))"
proof -
  let ?w = "gc_write modes"
  have "\<exists>r \<in> set (core_write_rules ?w). matcher_admits (pr_matcher r) i
      \<and> pr_decision r = mode_decision (write_mode ?w (pi_namespace i))"
    using assms by (auto simp: core_write_rules_def write_mode_def)
  with core_rule_governs [OF assms] show ?thesis by blast
qed

lemma governs_other_write:
  assumes "pi_effect i = EffectWrite" "pi_namespace i \<notin> set CORE_NAMESPACES"
    and "kebab_text n (pi_namespace i)" "length (pd_rules (legacy_document modes)) \<le> MAX_RULES"
  shows "\<exists>r. governs (legacy_document modes) i r
           \<and> pr_decision r = mode_decision (write_mode (gc_write modes) (pi_namespace i))"
proof -
  let ?w = "gc_write modes"
  have core: "\<not> matcher_admits (pr_matcher r) i" if "r \<in> set (core_write_rules ?w)" for r
    using that assms(2) by (auto simp: core_write_rules_def)
  show ?thesis
  proof (cases "pi_namespace i \<in> overridden_namespaces ?w")
    case True
    with assms(2) have "pi_namespace i \<in> set (migrated_namespaces ?w)"
      by (simp add: set_migrated_namespaces)
    then obtain k where k: "k < length (migrated_namespaces ?w)" "migrated_namespaces ?w ! k = pi_namespace i"
      by (auto simp: in_set_conv_nth)
    let ?r = "namespace_rule (5 + k) (pi_namespace i) (the (namespace_mode ?w (pi_namespace i)))"
    from k assms(4) have "5 + k < 256"
      by (simp add: legacy_document_def Let_def base_rules_def core_write_rules_def migrated_rules_def)
    from namespace_priority [OF this] have prio: "pr_priority ?r < 1000"
      by (simp add: namespace_rule_def)
    have "governs (legacy_document modes) i ?r"
    proof (rule sole_candidate_governs)
      show "rule_applies (legacy_document modes) i ?r"
        using assms(1) k
        by (auto simp: rule_applies_def legacy_rules_mem migrated_rule_mem)
          (simp_all add: namespace_rule_def)
      fix r' assume "rule_applies (legacy_document modes) i r'"
      then consider "r' \<in> set (migrated_rules ?w)" "matcher_admits (pr_matcher r') i"
        | "r' = default_write_rule ?w"
        using core assms(1) by (auto simp: rule_applies_def legacy_rules_mem)
      then show "r' = ?r \<or> pr_priority ?r < pr_priority r'"
      proof cases
        case 1
        then obtain k' where k': "k' < length (migrated_namespaces ?w)"
          "migrated_namespaces ?w ! k' = pi_namespace i"
          "r' = namespace_rule (5 + k') (pi_namespace i) (the (namespace_mode ?w (pi_namespace i)))"
          by (auto simp: migrated_rule_mem namespace_rule_def)
        with k distinct_migrated [of ?w] have "k' = k" by (metis nth_eq_iff_index_eq)
        with k'(3) show ?thesis by simp
      next
        case 2
        with prio show ?thesis by (simp add: default_write_rule_def)
      qed
    qed
    moreover have "pr_decision ?r = mode_decision (write_mode ?w (pi_namespace i))"
      using namespace_mode_overridden [OF True] assms(2)
      by (auto simp: write_mode_def namespace_rule_def)
    ultimately show ?thesis by blast
  next
    case False
    have none: "\<not> matcher_admits (pr_matcher r) i" if "r \<in> set (migrated_rules ?w)" for r
    proof -
      from that obtain k where k: "k < length (migrated_namespaces ?w)"
        "r = namespace_rule (5 + k) (migrated_namespaces ?w ! k)
           (the (namespace_mode ?w (migrated_namespaces ?w ! k)))"
        by (auto simp: migrated_rule_mem)
      from k(1) have "migrated_namespaces ?w ! k \<in> overridden_namespaces ?w"
        using nth_mem set_migrated_namespaces by blast
      with k(2) False show ?thesis by (auto simp: namespace_rule_def)
    qed
    have "governs (legacy_document modes) i (default_write_rule ?w)"
      by (rule sole_candidate_governs)
        (use assms(1) core none in \<open>auto simp: rule_applies_def legacy_rules_mem default_write_rule_def\<close>)
    moreover have "pr_decision (default_write_rule ?w) = mode_decision (write_mode ?w (pi_namespace i))"
      using namespace_mode_not_overridden [OF assms(3) False] assms(2)
      by (auto simp: write_mode_def default_write_rule_def)
    ultimately show ?thesis by blast
  qed
qed

lemma migration_decides:
  assumes "from_legacy_gadget_modes host modes = Inr d"
    and "evaluate P d identity i = Inr t"
    and "set (pi_requested_scopes i) \<subseteq> set (pi_actor_scopes i)"
    and "kebab_text n (pi_namespace i)"
  shows "tr_decision t = mode_matrix_decision modes (pi_effect i) (pi_namespace i)
         \<and> (pi_effect i = EffectDestructive \<longrightarrow> tr_decision t \<noteq> Auto)"
proof -
  from assms(1) have d: "d = legacy_document modes" "gc_read modes = ModeAuto"
    and valid: "document_validate (legacy_document modes) = Inr ()"
    using gadgets_validate_ok(1) [of host modes]
    by (auto simp: from_legacy_eq result_simps split: sum.splits)
  have "\<exists>r. governs d i r \<and> pr_decision r = mode_matrix_decision modes (pi_effect i) (pi_namespace i)"
  proof (cases "pi_effect i")
    case EffectRead
    with governs_read [of i modes] d show ?thesis
      by (force simp: mode_matrix_decision_def)
  next
    case EffectWrite
    with governs_core_write [of i modes] governs_other_write [of i n modes] assms(4) valid d
    show ?thesis
      by (auto simp: mode_matrix_decision_def document_validate_ok)
  next
    case EffectDestructive
    with governs_destructive [of i modes] d show ?thesis
      by (auto simp: mode_matrix_decision_def destructive_rule_def)
  qed
  then obtain r where "governs d i r" and
    dec: "pr_decision r = mode_matrix_decision modes (pi_effect i) (pi_namespace i)" by blast
  from policy_decides.governed [OF assms(3) this(1)] evaluate_decides [OF assms(2)]
  have "tr_decision t = mode_matrix_decision modes (pi_effect i) (pi_namespace i)"
    using dec by simp
  then show ?thesis by (simp add: mode_matrix_decision_def)
qed


section \<open>When the migration succeeds\<close>

lemma map_char_of_kebab:
  assumes "list_all kebab_byte s"
  shows "map (\<lambda>c. if c < 128 \<and> kebab_byte (char_of c) then char_of c else CHR ''-'') (chars_of s) = s"
proof -
  have "list_all is_ascii s" using assms kebab_byte_ascii by (auto simp: list_all_iff)
  with assms show ?thesis
    by (auto simp: chars_of_ascii list_all_iff is_ascii_def intro!: map_idI)
qed

lemma dropWhile_hd_neq: "\<not> prefix [c] s \<Longrightarrow> dropWhile (\<lambda>x. x = c) s = s"
  by (cases s) auto

lemma trim_matches_id: "\<not> prefix [c] s \<Longrightarrow> \<not> suffix [c] s \<Longrightarrow> trim_matches c s = s"
  by (simp add: trim_matches_def dropWhile_hd_neq suffix_to_prefix)

lemma sanitize_kebab: "kebab_text n s \<Longrightarrow> sanitize_rule_id s = s"
  by (simp add: sanitize_rule_id_def kebab_text_def map_char_of_kebab trim_matches_id)

lemma kebab_prefixed: "kebab_text 64 s \<Longrightarrow> kebab_text 80 (''legacy-write-'' @ s)"
proof -
  assume s: "kebab_text 64 s"
  let ?p = "''legacy-write-''"
  have "\<not> sublist ''--'' (?p @ s)"
  proof
    assume "sublist ''--'' (?p @ s)"
    moreover have "\<not> sublist ''--'' ?p" by code_simp
    moreover have "\<not> sublist ''--'' s" using s by (simp add: kebab_text_def)
    ultimately obtain a b where ab: "''--'' = a @ b" "suffix a ?p" "prefix b s"
      using sublist_append [of "''--''" ?p s] by blast
    then have "a = [] \<or> b = [] \<or> a = ''-'' \<and> b = ''-''"
      by (auto simp: Cons_eq_append_conv)
    moreover have "\<not> prefix ''-'' s" "\<not> prefix ''--'' s" "\<not> suffix ''--'' ?p"
      using s by (auto simp: kebab_text_def prefix_def suffix_def Cons_eq_append_conv)
    ultimately show False using ab by auto
  qed
  with s show ?thesis
    by (auto simp: kebab_text_def suffix_append prefix_def suffix_def list_all_iff kebab_byte_def
        ascii_class_defs Cons_eq_append_conv)
qed

lemma kebab_label:
  assumes "kebab_text 64 s"
  shows "validate_label field s 160 = Inr ()"
proof -
  have all: "list_all kebab_byte s" "s \<noteq> []" "length s \<le> 64"
    using assms by (auto simp: kebab_text_def)
  then have chars: "chars_of s = map of_char s"
    by (intro chars_of_ascii) (auto simp: list_all_iff kebab_byte_ascii)
  have "\<not> is_whitespace (of_char c) \<and> \<not> is_control (of_char c)" if "kebab_byte c" for c
  proof -
    from that have "45 \<le> byte c" "byte c \<le> 122"
      by (auto simp: kebab_byte_def ascii_class_defs)
    then show ?thesis by (auto simp: is_whitespace_defs is_control_def)
  qed
  then have "\<forall>x \<in> set (chars_of s). \<not> is_whitespace x \<and> \<not> is_control x" "chars_of s \<noteq> []"
    using all by (auto simp: chars list_all_iff)
  then have "\<not> is_blank s" "\<not> has_control s"
    by (auto simp: is_blank_def has_control_def list_all_iff list_ex_iff neq_Nil_conv)
  with all(3) show ?thesis by (simp add: validate_label_ok)
qed

lemma mode_reason_label: "validate_label ''rule reason'' (mode_reason mode) 240 = Inr ()"
proof -
  have "validate_label ''rule reason'' (mode_reason ModeAuto) 240 = Inr ()"
    "validate_label ''rule reason'' (mode_reason ModeAsk) 240 = Inr ()"
    "validate_label ''rule reason'' (mode_reason ModeNever) 240 = Inr ()"
    by code_simp+
  then show ?thesis by (cases mode) simp_all
qed

lemma validate_legacy_rule:
  "(case namespace of None \<Rightarrow> True | Some n \<Rightarrow> kebab_text 64 n) \<Longrightarrow>
     validate_rule (legacy_rule rid p effect namespace mode) = Inr ()"
  by (cases namespace)
    (simp_all add: validate_rule_def legacy_rule_def empty_matcher_def Let_def validate_set_size_def
      mode_reason_label kebab_label)

lemma core_rules_valid:
  "r \<in> set (base_rules w) \<union> {default_write_rule w} \<Longrightarrow> valid_rule_id (pr_id r) \<and> validate_rule r = Inr ()"
proof -
  have "valid_rule_id ''legacy-read''" "valid_rule_id ''legacy-write-wiki''"
    "valid_rule_id ''legacy-write-infra''" "valid_rule_id ''legacy-write-scheduler''"
    "valid_rule_id ''legacy-write-provider''" "valid_rule_id ''legacy-write-default''"
    "kebab_text 64 ''wiki''" "kebab_text 64 ''infra''" "kebab_text 64 ''scheduler''"
    "kebab_text 64 ''provider''"
    by code_simp+
  then show "r \<in> set (base_rules w) \<union> {default_write_rule w} \<Longrightarrow> ?thesis"
    by (auto simp: base_rules_def core_write_rules_def default_write_rule_def validate_legacy_rule)
qed

lemma destructive_rule_valid:
  "valid_rule_id (pr_id (destructive_rule c)) \<and> validate_rule (destructive_rule c) = Inr ()"
proof -
  have "valid_rule_id ''legacy-destructive''"
    "validate_label ''rule reason'' ''Legacy destructive tools require Review'' 240 = Inr ()"
    "validate_label ''rule reason'' ''Legacy destructive tools are disabled'' 240 = Inr ()"
    by code_simp+
  then show ?thesis
    by (auto simp: validate_rule_def destructive_rule_def empty_matcher_def Let_def result_simps)
qed

lemma migrated_rules_valid:
  assumes "write_validate w = Inr ()" "r \<in> set (migrated_rules w)"
  shows "valid_rule_id (pr_id r) \<and> validate_rule r = Inr ()"
proof -
  from assms(2) obtain k n mode where "r = namespace_rule k n mode" "n \<in> set (migrated_namespaces w)"
    by (auto simp: migrated_rule_mem)
  moreover from this(2) assms(1) have "kebab_text 64 n"
    using overridden_namespace_kebab by (auto simp: set_migrated_namespaces)
  moreover from this have "kebab_text 80 (''legacy-write-'' @ n)" by (intro kebab_prefixed)
  ultimately show ?thesis
    by (simp add: namespace_rule_def valid_rule_id_def sanitize_kebab validate_legacy_rule)
qed

lemma migrated_ids:
  assumes "write_validate w = Inr ()"
  shows "map pr_id (migrated_rules w) = map (\<lambda>n. ''legacy-write-'' @ n) (migrated_namespaces w)"
proof (rule nth_equalityI)
  fix k assume "k < length (map pr_id (migrated_rules w))"
  then have k: "k < length (migrated_namespaces w)" by (simp add: migrated_rules_alt)
  then have "kebab_text 64 (migrated_namespaces w ! k)"
    using overridden_namespace_kebab [OF assms] nth_mem set_migrated_namespaces by blast
  with k show "map pr_id (migrated_rules w) ! k = map (\<lambda>n. ''legacy-write-'' @ n) (migrated_namespaces w) ! k"
    by (simp add: migrated_rules_alt namespace_rule_def sanitize_kebab)
qed (simp add: migrated_rules_alt)

lemma legacy_ids_distinct:
  assumes "write_validate w = Inr ()" "w = gc_write modes"
  shows "distinct (map pr_id (pd_rules (legacy_document modes))) \<longleftrightarrow> ''default'' \<notin> overridden_namespaces w"
proof -
  let ?base = "map pr_id (base_rules w)"
  let ?mid = "map (\<lambda>n. ''legacy-write-'' @ n) (migrated_namespaces w)"
  have "distinct ?base" by (simp add: base_rules_def core_write_rules_def)
  moreover have "distinct ?mid"
    using distinct_migrated by (simp add: distinct_map inj_on_def)
  moreover have "set ?base \<inter> set ?mid = {}"
    by (auto simp: base_rules_def core_write_rules_def set_migrated_namespaces)
  moreover have "set ?base \<inter> {''legacy-write-default'', ''legacy-destructive''} = {}"
    by (simp add: base_rules_def core_write_rules_def)
  moreover have "set ?mid \<inter> {''legacy-write-default'', ''legacy-destructive''} = {} \<longleftrightarrow>
      ''default'' \<notin> overridden_namespaces w"
    by (auto simp: set_migrated_namespaces)
  moreover have "map pr_id (pd_rules (legacy_document modes))
      = ?base @ ?mid @ [''legacy-write-default'', ''legacy-destructive'']"
    using migrated_ids [OF assms(1)] assms(2)
    by (simp add: legacy_document_def Let_def default_write_rule_def)
  ultimately show ?thesis by (simp only: distinct_append) auto
qed

lemma migration_ok_iff:
  assumes "gadgets_validate host modes = Inr ()"
  shows "is_ok (from_legacy_gadget_modes host modes) \<longleftrightarrow>
           ''default'' \<notin> overridden_namespaces (gc_write modes)
           \<and> card (overridden_namespaces (gc_write modes) - set CORE_NAMESPACES) \<le> 249"
proof -
  let ?w = "gc_write modes"
  have w: "write_validate ?w = Inr ()" using gadgets_validate_ok(4) [OF assms] .
  have "card (overridden_namespaces ?w - set CORE_NAMESPACES) = length (migrated_namespaces ?w)"
    using distinct_card [OF distinct_migrated] set_migrated_namespaces by metis
  then have len: "length (pd_rules (legacy_document modes)) \<le> MAX_RULES \<longleftrightarrow>
      card (overridden_namespaces ?w - set CORE_NAMESPACES) \<le> 249"
    by (simp add: legacy_document_def Let_def base_rules_def core_write_rules_def migrated_rules_alt)
  have rules: "\<forall>r \<in> set (pd_rules (legacy_document modes)). valid_rule_id (pr_id r) \<and> validate_rule r = Inr ()"
    using core_rules_valid [of _ ?w] migrated_rules_valid [OF w] destructive_rule_valid
    by (auto simp: legacy_document_def Let_def)
  have label: "validate_label ''default_reason''
      ''No policy rule matched; Manager review is required'' 240 = Inr ()" by code_simp
  have "is_ok (from_legacy_gadget_modes host modes) \<longleftrightarrow> document_validate (legacy_document modes) = Inr ()"
    using assms by (auto simp: from_legacy_eq is_ok_iff result_simps)
  also have "\<dots> \<longleftrightarrow> length (pd_rules (legacy_document modes)) \<le> MAX_RULES
      \<and> distinct (map pr_id (pd_rules (legacy_document modes)))"
    using rules label by (simp add: document_validate_ok legacy_document_def Let_def)
  finally show ?thesis using len legacy_ids_distinct [OF w refl] by blast
qed

section \<open>Witnesses\<close>

definition sample_host :: host_files where
  "sample_host = \<lparr>path_exists = (\<lambda>_. False), path_mode = (\<lambda>_. Inl ''no such file'')\<rparr>"

definition sample_modes :: "string \<Rightarrow> gadgets_config" where
  "sample_modes namespace = default_gadgets_config
     \<lparr>gc_write := default_write_gadgets_config
        \<lparr>wg_namespace_modes := [(namespace, ModeNever)],
         wg_legacy_namespace_modes := [(''crm_admin'', ModeAuto)]\<rparr>\<rparr>"

definition sample_crm_write :: policy_input where
  "sample_crm_write = sample_input\<lparr>pi_namespace := ''crm'', pi_action_id := ''crm.update''\<rparr>"

definition sample_legacy_bytes :: string where
  "sample_legacy_bytes = concat (map pr_id (pd_rules (legacy_document (sample_modes ''acme''))))"

definition sample_legacy_identity :: policy_identity where
  "sample_legacy_identity = sample_identity
     \<lparr>id_document_hash := ''sha256:'' @ sha256_hex sample_encoding sample_legacy_bytes\<rparr>"

lemma sample_overrides: "overridden_namespaces (gc_write (sample_modes ''acme'')) = {''acme'', ''crm''}"
proof -
  have "legacy_key_namespace ''crm_admin'' = ''crm''" by code_simp
  then show ?thesis
    by (simp add: overridden_namespaces_def sample_modes_def insert_commute)
qed

lemma sample_migrated:
  "from_legacy_gadget_modes sample_host (sample_modes ''acme'') = Inr (legacy_document (sample_modes ''acme''))"
  "document_validate (legacy_document (sample_modes ''acme'')) = Inr ()"
proof -
  have "gadgets_validate sample_host (sample_modes ''acme'') = Inr ()" by code_simp
  from migration_ok_iff [OF this] have "is_ok (from_legacy_gadget_modes sample_host (sample_modes ''acme''))"
    by (simp add: sample_overrides card_insert_if card_Diff_singleton_if)
  then show "from_legacy_gadget_modes sample_host (sample_modes ''acme'')
      = Inr (legacy_document (sample_modes ''acme''))"
    "document_validate (legacy_document (sample_modes ''acme'')) = Inr ()"
    by (auto simp: from_legacy_eq is_ok_iff result_simps split: sum.splits)
qed

lemma sample_crm_evaluates:
  "\<exists>t. evaluate sample_encoding (legacy_document (sample_modes ''acme'')) sample_legacy_identity
         sample_crm_write = Inr t"
proof (rule evaluate_total)
  let ?d = "legacy_document (sample_modes ''acme'')"
  have "input_validate sample_crm_write = Inr ()" by code_simp
  with sample_migrated(2) show
    "acceptable sample_encoding ?d sample_legacy_identity sample_crm_write sample_legacy_bytes"
    by (simp add: acceptable_def sample_legacy_identity_def)
  show "json_of_document sample_encoding ?d = Inr sample_legacy_bytes"
    "json_of_input sample_encoding sample_crm_write = Inr (pi_action_id sample_crm_write)"
    by (simp_all add: sample_encoding_def sample_legacy_bytes_def)
qed

lemma sample_crm_facts:
  "set (pi_requested_scopes sample_crm_write) \<subseteq> set (pi_actor_scopes sample_crm_write)"
  "kebab_text 64 (pi_namespace sample_crm_write)"
  "mode_matrix_decision (sample_modes ''acme'') (pi_effect sample_crm_write)
     (pi_namespace sample_crm_write) = Auto"
  by code_simp+


text \<open>
  When the migration of a valid configuration succeeds: exactly when no override names the
  namespace \<open>default\<close>, whose rule identifier collides with that of the default rule, and there are
  at most 249 overrides beside the Core namespaces.  The configuration validator accepts both.
\<close>

lemma migration_succeeds_iff:
  assumes "gadgets_validate host modes = Inr ()"
  shows "is_ok (from_legacy_gadget_modes host modes) \<longleftrightarrow>
           ''default'' \<notin> overridden_namespaces (gc_write modes)
           \<and> card (overridden_namespaces (gc_write modes) - set CORE_NAMESPACES) \<le> 249"
  using assms by (rule migration_ok_iff)

lemma migration_succeeds_iff_example:
  "\<not> is_ok (from_legacy_gadget_modes sample_host (sample_modes ''default''))"
proof -
  have "gadgets_validate sample_host (sample_modes ''default'') = Inr ()" by code_simp
  from migration_succeeds_iff [OF this] show ?thesis
    by (simp add: overridden_namespaces_def sample_modes_def)
qed

end
