(* ===== verification/Policy_Store.thy ===== *)
theory Policy_Store
  imports Policy_Legacy
begin

text \<open>
  The tenant policy store, \<open>crates/gadgetron-xaas/src/policy.rs\<close>: immutable policy revisions,
  the active revision of a tenant, and the log of policy decisions.

  The two PostgreSQL tables are lists of rows in the state \<open>policy_db\<close>; a query is the list
  operation its SQL text denotes, and an \<open>INSERT\<close> fails with the constraint it violates
  (\<open>migrations/20260712000002_policy_revisions.sql\<close>).  A transaction that returns early leaves
  the state as it was.  \<open>Uuid::new_v4()\<close> and \<open>NOW()\<close> are arguments.  Conversion to and from JSON
  columns is the argument \<open>value_codec\<close>.  The database itself is assumed to answer: the
  \<open>Database\<close> error stands for violated constraints only.
\<close>

section \<open>Data\<close>

datatype policy_revision_source = SourceLegacyMigration | SourceManager | SourceRollback | SourceSystem

record policy_revision =
  rv_tenant_id :: uuid
  rv_identity :: policy_identity
  rv_source :: policy_revision_source
  rv_document :: policy_document
  rv_legacy_modes :: "gadgets_config option"
  rv_created_by :: "uuid option"
  rv_created_at :: int
  rv_superseded_at :: "int option"

record revision_row =
  rr_tenant_id :: uuid
  rr_policy_id :: uuid
  rr_revision :: int
  rr_schema_version :: u32
  rr_source :: string
  rr_document :: json
  rr_document_hash :: string
  rr_legacy_modes :: "json option"
  rr_created_by :: "uuid option"
  rr_created_at :: int
  rr_superseded_at :: "int option"

record decision_event =
  de_event_id :: uuid
  de_tenant_id :: uuid
  de_policy :: policy_identity
  de_input :: policy_input
  de_input_hash :: string
  de_trace :: policy_decision_trace
  de_trace_hash :: string
  de_decision :: policy_decision
  de_enforcement_path :: string
  de_authorization :: string
  de_approval_id :: "uuid option"
  de_created_at :: int

record decision_row =
  dr_event_id :: uuid
  dr_tenant_id :: uuid
  dr_policy_id :: uuid
  dr_policy_revision :: int
  dr_policy_hash :: string
  dr_input :: json
  dr_input_hash :: string
  dr_trace :: json
  dr_trace_hash :: string
  dr_decision :: string
  dr_enforcement_path :: string
  dr_authorization_state :: string
  dr_approval_id :: "uuid option"
  dr_created_at :: int

record decision_record =
  rc_tenant_id :: uuid
  rc_event_id :: uuid
  rc_enforcement_path :: enforcement_path
  rc_authorization :: policy_authorization
  rc_approval_id :: "uuid option"
  rc_input :: policy_input
  rc_trace :: policy_decision_trace

datatype persisted_violation =
    UnknownSource string
  | LegacySourceReserved
  | LegacySnapshotMismatch
  | DecodeFailed string
  | ConfigInvalid config_violation
  | MetadataDrift
  | PersistedSnapshotMismatch
  | UnknownDecision string
  | DecisionDrift

datatype db_fault = PrimaryKeyTaken | SecondActiveRevision | CheckFailed | ForeignKeyMissing

datatype policy_store_error =
    StoreNotFound
  | RevisionConflict int
  | InvalidPersisted persisted_violation
  | TraceMismatch
  | StorePolicy policy_error
  | Database db_fault

record policy_db =
  db_tenants :: "uuid list"
  db_revisions :: "revision_row list"
  db_events :: "decision_row list"

record value_codec =
  document_to_value :: "policy_document \<Rightarrow> (string, json) result"
  document_from_value :: "json \<Rightarrow> (string, policy_document) result"
  modes_to_value :: "gadgets_config \<Rightarrow> (string, json) result"
  modes_from_value :: "json \<Rightarrow> (string, gadgets_config) result"
  input_to_value :: "policy_input \<Rightarrow> (string, json) result"
  input_from_value :: "json \<Rightarrow> (string, policy_input) result"
  trace_to_value :: "policy_decision_trace \<Rightarrow> (string, json) result"
  trace_from_value :: "json \<Rightarrow> (string, policy_decision_trace) result"

text \<open>What the store is deployed with: the hash and JSON encoders, the column codec, the host.\<close>

record store_env =
  env_encoding :: policy_encoding
  env_codec :: value_codec
  env_host :: host_files

definition map_err :: "('e \<Rightarrow> 'f) \<Rightarrow> ('e, 'a) result \<Rightarrow> ('f, 'a) result" where
  "map_err f r = (case r of Inl e \<Rightarrow> Inl (f e) | Inr a \<Rightarrow> Inr a)"

lemma map_err_eq_Inr [result_simps]: "map_err f r = Inr a \<longleftrightarrow> r = Inr a"
  by (auto simp: map_err_def split: sum.splits)

lemma map_err_Inr [simp]: "map_err f (Inr a) = Inr a"
  by (simp add: map_err_def)

section \<open>Rows\<close>

definition source_as_str :: "policy_revision_source \<Rightarrow> string" where
  "source_as_str s =
     (case s of SourceLegacyMigration \<Rightarrow> ''legacy_migration'' | SourceManager \<Rightarrow> ''manager''
      | SourceRollback \<Rightarrow> ''rollback'' | SourceSystem \<Rightarrow> ''system'')"

definition source_parse :: "string \<Rightarrow> (policy_store_error, policy_revision_source) result" where
  "source_parse s =
     (if s = ''legacy_migration'' then Inr SourceLegacyMigration
      else if s = ''manager'' then Inr SourceManager
      else if s = ''rollback'' then Inr SourceRollback
      else if s = ''system'' then Inr SourceSystem
      else Inl (InvalidPersisted (UnknownSource s)))"

definition check_snapshot ::
  "store_env \<Rightarrow> persisted_violation \<Rightarrow> gadgets_config option \<Rightarrow> policy_document
    \<Rightarrow> (policy_store_error, unit) result" where
  "check_snapshot E violation modes d =
     (case modes of
        None \<Rightarrow> Inr ()
      | Some m \<Rightarrow>
          and_then (map_err (\<lambda>e. InvalidPersisted (ConfigInvalid e)) (gadgets_validate (env_host E) m)) (\<lambda>_.
          and_then (map_err StorePolicy (from_legacy_gadget_modes (env_host E) m)) (\<lambda>expected.
          check (expected = d) (InvalidPersisted violation))))"

definition row_to_revision :: "store_env \<Rightarrow> revision_row \<Rightarrow> (policy_store_error, policy_revision) result" where
  "row_to_revision E row =
     and_then (map_err (\<lambda>e. InvalidPersisted (DecodeFailed e))
                 (document_from_value (env_codec E) (rr_document row))) (\<lambda>d.
     and_then (map_err StorePolicy (document_validate d)) (\<lambda>_.
     and_then (if rr_schema_version row \<noteq> pd_schema_version d
               then Inl (InvalidPersisted MetadataDrift)
               else and_then (map_err StorePolicy (document_digest (env_encoding E) d)) (\<lambda>hash.
                      check (rr_document_hash row = hash) (InvalidPersisted MetadataDrift))) (\<lambda>_.
     and_then (case rr_legacy_modes row of
                 None \<Rightarrow> Inr None
               | Some v \<Rightarrow> map_err (\<lambda>e. InvalidPersisted (DecodeFailed e))
                            (map_sum id Some (modes_from_value (env_codec E) v))) (\<lambda>legacy_modes.
     and_then (check_snapshot E PersistedSnapshotMismatch legacy_modes d) (\<lambda>_.
     and_then (source_parse (rr_source row)) (\<lambda>source.
     Inr \<lparr>rv_tenant_id = rr_tenant_id row,
          rv_identity = \<lparr>id_policy_id = rr_policy_id row, id_revision = rr_revision row,
                         id_document_hash = rr_document_hash row\<rparr>,
          rv_source = source, rv_document = d, rv_legacy_modes = legacy_modes,
          rv_created_by = rr_created_by row, rv_created_at = rr_created_at row,
          rv_superseded_at = rr_superseded_at row\<rparr>))))))"

definition decision_parse :: "string \<Rightarrow> (policy_store_error, policy_decision) result" where
  "decision_parse s =
     (if s = ''auto'' then Inr Auto else if s = ''review'' then Inr Review
      else if s = ''deny'' then Inr Deny else Inl (InvalidPersisted (UnknownDecision s)))"

definition row_to_decision :: "store_env \<Rightarrow> decision_row \<Rightarrow> (policy_store_error, decision_event) result" where
  "row_to_decision E row =
     and_then (map_err (\<lambda>e. InvalidPersisted (DecodeFailed e))
                 (input_from_value (env_codec E) (dr_input row))) (\<lambda>input.
     and_then (map_err (\<lambda>e. InvalidPersisted (DecodeFailed e))
                 (trace_from_value (env_codec E) (dr_trace row))) (\<lambda>trace.
     and_then (decision_parse (dr_decision row)) (\<lambda>decision.
     and_then
       (if dr_policy_id row \<noteq> id_policy_id (tr_policy trace)
           \<or> dr_policy_revision row \<noteq> id_revision (tr_policy trace)
           \<or> dr_policy_hash row \<noteq> id_document_hash (tr_policy trace)
        then Inl (InvalidPersisted DecisionDrift)
        else and_then (map_err StorePolicy (input_digest (env_encoding E) input)) (\<lambda>input_hash.
          if dr_input_hash row \<noteq> input_hash \<or> dr_input_hash row \<noteq> tr_input_hash trace
          then Inl (InvalidPersisted DecisionDrift)
          else and_then (map_err StorePolicy (trace_digest (env_encoding E) trace)) (\<lambda>trace_hash.
            check (dr_trace_hash row = trace_hash \<and> decision = tr_decision trace)
              (InvalidPersisted DecisionDrift)))) (\<lambda>_.
     Inr \<lparr>de_event_id = dr_event_id row, de_tenant_id = dr_tenant_id row,
          de_policy = \<lparr>id_policy_id = dr_policy_id row, id_revision = dr_policy_revision row,
                       id_document_hash = dr_policy_hash row\<rparr>,
          de_input = input, de_input_hash = dr_input_hash row, de_trace = trace,
          de_trace_hash = dr_trace_hash row, de_decision = decision,
          de_enforcement_path = dr_enforcement_path row, de_authorization = dr_authorization_state row,
          de_approval_id = dr_approval_id row, de_created_at = dr_created_at row\<rparr>))))"

section \<open>Queries\<close>

definition is_active_row :: "uuid \<Rightarrow> revision_row \<Rightarrow> bool" where
  "is_active_row tenant row \<longleftrightarrow> rr_tenant_id row = tenant \<and> rr_superseded_at row = None"

definition active_policy_tx :: "policy_db \<Rightarrow> uuid \<Rightarrow> revision_row option" where
  "active_policy_tx db tenant = find (is_active_row tenant) (db_revisions db)"

definition active_policy ::
  "store_env \<Rightarrow> policy_db \<Rightarrow> uuid \<Rightarrow> (policy_store_error, policy_revision option) result" where
  "active_policy E db tenant =
     (case active_policy_tx db tenant of
        None \<Rightarrow> Inr None | Some row \<Rightarrow> map_sum id Some (row_to_revision E row))"

definition has_key :: "uuid \<Rightarrow> uuid \<Rightarrow> int \<Rightarrow> revision_row \<Rightarrow> bool" where
  "has_key tenant policy revision row \<longleftrightarrow>
     rr_tenant_id row = tenant \<and> rr_policy_id row = policy \<and> rr_revision row = revision"

definition policy_revision_of ::
  "store_env \<Rightarrow> policy_db \<Rightarrow> uuid \<Rightarrow> uuid \<Rightarrow> int \<Rightarrow> (policy_store_error, policy_revision) result" where
  "policy_revision_of E db tenant policy revision =
     and_then (ok_or (find (has_key tenant policy revision) (db_revisions db)) StoreNotFound)
       (row_to_revision E)"

definition lock_tenant :: "policy_db \<Rightarrow> uuid \<Rightarrow> (policy_store_error, unit) result" where
  "lock_tenant db tenant = check (tenant \<in> set (db_tenants db)) StoreNotFound"

text \<open>The constraints of the table \<open>policy_revisions\<close>, in the order they are declared.\<close>

definition insert_row :: "revision_row \<Rightarrow> policy_db \<Rightarrow> (policy_store_error, policy_db) result" where
  "insert_row row db =
     (if rr_revision row \<le> 0 \<or> \<not> is_ok (validate_digest [] (rr_document_hash row))
      then Inl (Database CheckFailed)
      else if list_ex (has_key (rr_tenant_id row) (rr_policy_id row) (rr_revision row)) (db_revisions db)
      then Inl (Database PrimaryKeyTaken)
      else if rr_superseded_at row = None \<and> list_ex (is_active_row (rr_tenant_id row)) (db_revisions db)
      then Inl (Database SecondActiveRevision)
      else Inr (db\<lparr>db_revisions := db_revisions db @ [row]\<rparr>))"

definition insert_revision ::
  "store_env \<Rightarrow> int \<Rightarrow> uuid \<Rightarrow> uuid \<Rightarrow> int \<Rightarrow> policy_revision_source \<Rightarrow> policy_document \<Rightarrow> string
    \<Rightarrow> gadgets_config option \<Rightarrow> uuid option \<Rightarrow> policy_db
    \<Rightarrow> (policy_store_error, revision_row \<times> policy_db) result" where
  "insert_revision E now tenant policy revision source d hash modes created_by db =
     and_then (map_err (\<lambda>e. StorePolicy (Serialization e)) (document_to_value (env_codec E) d)) (\<lambda>dv.
     and_then (case modes of
                 None \<Rightarrow> Inr None
               | Some m \<Rightarrow> map_err (\<lambda>e. StorePolicy (Serialization e))
                            (map_sum id Some (modes_to_value (env_codec E) m))) (\<lambda>mv.
     let row = \<lparr>rr_tenant_id = tenant, rr_policy_id = policy, rr_revision = revision,
                rr_schema_version = pd_schema_version d, rr_source = source_as_str source,
                rr_document = dv, rr_document_hash = hash, rr_legacy_modes = mv,
                rr_created_by = created_by, rr_created_at = now, rr_superseded_at = None\<rparr>
     in and_then (insert_row row db) (\<lambda>db'. Inr (row, db'))))"

section \<open>Revisions\<close>

text \<open>
  A transaction: its error leaves the state as it was, its success commits, and only then is the
  committed row decoded for the caller.
\<close>

definition commit_row ::
  "store_env \<Rightarrow> policy_db \<Rightarrow> (policy_store_error, revision_row \<times> policy_db) result
    \<Rightarrow> (policy_store_error, policy_revision) result \<times> policy_db" where
  "commit_row E db tx =
     (case tx of Inl e \<Rightarrow> (Inl e, db) | Inr (row, db') \<Rightarrow> (row_to_revision E row, db'))"

definition ensure_legacy_policy ::
  "store_env \<Rightarrow> int \<Rightarrow> uuid \<Rightarrow> policy_db \<Rightarrow> uuid \<Rightarrow> uuid option \<Rightarrow> gadgets_config
    \<Rightarrow> (policy_store_error, policy_revision) result \<times> policy_db" where
  "ensure_legacy_policy E now fresh db tenant created_by modes =
     commit_row E db
       (and_then (lock_tenant db tenant) (\<lambda>_.
        case active_policy_tx db tenant of
          Some row \<Rightarrow> Inr (row, db)
        | None \<Rightarrow>
            and_then (map_err StorePolicy (from_legacy_gadget_modes (env_host E) modes)) (\<lambda>d.
            and_then (map_err StorePolicy (document_digest (env_encoding E) d)) (\<lambda>hash.
            insert_revision E now tenant fresh 1 SourceLegacyMigration d hash (Some modes) created_by db))))"

definition supersede :: "int \<Rightarrow> uuid \<Rightarrow> uuid \<Rightarrow> int \<Rightarrow> policy_db \<Rightarrow> policy_db" where
  "supersede now tenant policy revision db =
     db\<lparr>db_revisions := map (\<lambda>row. if has_key tenant policy revision row \<and> rr_superseded_at row = None
                                   then row\<lparr>rr_superseded_at := Some now\<rparr> else row) (db_revisions db)\<rparr>"

definition create_revision ::
  "store_env \<Rightarrow> int \<Rightarrow> policy_db \<Rightarrow> uuid \<Rightarrow> uuid option \<Rightarrow> int \<Rightarrow> policy_revision_source
    \<Rightarrow> policy_document \<Rightarrow> gadgets_config option
    \<Rightarrow> (policy_store_error, policy_revision) result \<times> policy_db" where
  "create_revision E now db tenant created_by expected source d modes =
     commit_row E db
       (and_then (map_err StorePolicy (document_validate d)) (\<lambda>_.
        if source = SourceLegacyMigration then Inl (InvalidPersisted LegacySourceReserved)
        else
        and_then (check_snapshot E LegacySnapshotMismatch modes d) (\<lambda>_.
        and_then (lock_tenant db tenant) (\<lambda>_.
        and_then (ok_or (active_policy_tx db tenant) StoreNotFound) (\<lambda>current.
        if rr_revision current \<noteq> expected then Inl (RevisionConflict (rr_revision current))
        else
          let db' = supersede now tenant (rr_policy_id current) (rr_revision current) db
          in and_then (map_err StorePolicy (document_digest (env_encoding E) d)) (\<lambda>hash.
             insert_revision E now tenant (rr_policy_id current) (rr_revision current + 1) source d hash
               modes created_by db'))))))"

section \<open>Decisions\<close>

definition authorization_matches :: "policy_decision \<Rightarrow> policy_authorization \<Rightarrow> bool" where
  "authorization_matches decision authorization =
     (case (decision, authorization) of
        (Auto, AuthAuto) \<Rightarrow> True
      | (Deny, AuthDenied) \<Rightarrow> True
      | (Review, AuthPendingReview) \<Rightarrow> True
      | (Review, AuthApprovedReview) \<Rightarrow> True
      | _ \<Rightarrow> False)"

text \<open>The constraints of the table \<open>policy_decision_events\<close>.\<close>

definition insert_event :: "decision_row \<Rightarrow> policy_db \<Rightarrow> (policy_store_error, policy_db) result" where
  "insert_event row db =
     (if \<not> is_ok (validate_digest [] (dr_policy_hash row)) \<or> \<not> is_ok (validate_digest [] (dr_input_hash row))
         \<or> \<not> is_ok (validate_digest [] (dr_trace_hash row))
      then Inl (Database CheckFailed)
      else if list_ex (\<lambda>r. dr_event_id r = dr_event_id row) (db_events db)
      then Inl (Database PrimaryKeyTaken)
      else if \<not> list_ex (has_key (dr_tenant_id row) (dr_policy_id row) (dr_policy_revision row)) (db_revisions db)
      then Inl (Database ForeignKeyMissing)
      else Inr (db\<lparr>db_events := db_events db @ [row]\<rparr>))"

definition verify_decision ::
  "store_env \<Rightarrow> policy_db \<Rightarrow> decision_record \<Rightarrow> (policy_store_error, unit) result" where
  "verify_decision E db r =
     and_then (policy_revision_of E db (rc_tenant_id r) (id_policy_id (tr_policy (rc_trace r)))
                 (id_revision (tr_policy (rc_trace r)))) (\<lambda>revision.
     and_then (map_err StorePolicy
                 (evaluate (env_encoding E) (rv_document revision) (rv_identity revision) (rc_input r)))
       (\<lambda>expected.
     if expected \<noteq> rc_trace r then Inl TraceMismatch
     else and_then (map_err StorePolicy (input_digest (env_encoding E) (rc_input r))) (\<lambda>input_hash.
       check (tr_input_hash (rc_trace r) = input_hash
              \<and> authorization_matches (tr_decision (rc_trace r)) (rc_authorization r)
              \<and> \<not> (rc_authorization r = AuthApprovedReview \<and> rc_approval_id r = None))
         TraceMismatch)))"

definition decision_row_of ::
  "store_env \<Rightarrow> int \<Rightarrow> decision_record \<Rightarrow> (policy_store_error, decision_row) result" where
  "decision_row_of E now r =
     (let trace = rc_trace r in
     and_then (map_err StorePolicy (trace_digest (env_encoding E) trace)) (\<lambda>trace_hash.
     and_then (map_err (\<lambda>e. StorePolicy (Serialization e)) (input_to_value (env_codec E) (rc_input r))) (\<lambda>iv.
     and_then (map_err (\<lambda>e. StorePolicy (Serialization e)) (trace_to_value (env_codec E) trace)) (\<lambda>tv.
     Inr \<lparr>dr_event_id = rc_event_id r, dr_tenant_id = rc_tenant_id r,
          dr_policy_id = id_policy_id (tr_policy trace),
          dr_policy_revision = id_revision (tr_policy trace),
          dr_policy_hash = id_document_hash (tr_policy trace),
          dr_input = iv, dr_input_hash = tr_input_hash trace, dr_trace = tv,
          dr_trace_hash = trace_hash, dr_decision = decision_as_str (tr_decision trace),
          dr_enforcement_path = path_as_str (rc_enforcement_path r),
          dr_authorization_state = authorization_as_str (rc_authorization r),
          dr_approval_id = rc_approval_id r, dr_created_at = now\<rparr>))))"

definition record_decision ::
  "store_env \<Rightarrow> int \<Rightarrow> policy_db \<Rightarrow> decision_record
    \<Rightarrow> (policy_store_error, decision_event) result \<times> policy_db" where
  "record_decision E now db r =
     (case and_then (verify_decision E db r) (\<lambda>_.
             and_then (decision_row_of E now r) (\<lambda>row.
             and_then (insert_event row db) (\<lambda>db'. Inr (row, db')))) of
        Inl e \<Rightarrow> (Inl e, db)
      | Inr (row, db') \<Rightarrow> (row_to_decision E row, db'))"

fun collect_results :: "('e, 'a) result list \<Rightarrow> ('e, 'a list) result" where
  "collect_results [] = Inr []"
| "collect_results (r # rs) = and_then r (\<lambda>a. and_then (collect_results rs) (\<lambda>as. Inr (a # as)))"

definition recent_decisions ::
  "store_env \<Rightarrow> policy_db \<Rightarrow> uuid \<Rightarrow> int \<Rightarrow> (policy_store_error, decision_event list) result" where
  "recent_decisions E db tenant limit =
     collect_results (map (row_to_decision E)
       (take (nat (max 1 (min 200 limit)))
         (sort_by (\<lambda>a b. (dr_created_at b, dr_event_id b) \<le> (dr_created_at a, dr_event_id a))
           (filter (\<lambda>r. dr_tenant_id r = tenant) (db_events db)))))"

section \<open>The evaluator\<close>

definition authorization_for :: "policy_decision \<Rightarrow> policy_review_state \<Rightarrow> policy_authorization" where
  "authorization_for decision review_state =
     (case decision of
        Auto \<Rightarrow> AuthAuto
      | Deny \<Rightarrow> AuthDenied
      | Review \<Rightarrow> if review_state = ReviewApproved then AuthApprovedReview else AuthPendingReview)"

datatype evaluation_detail =
    DetailStore policy_store_error
  | DetailPolicy policy_error
  | DetailUnknownGadget string
  | DetailText string

record policy_evaluation_error =
  ee_code :: string
  ee_detail :: evaluation_detail

definition evaluation_error :: "policy_store_error \<Rightarrow> policy_evaluation_error" where
  "evaluation_error e =
     \<lparr>ee_code = (case e of
         StoreNotFound \<Rightarrow> ''policy_not_found''
       | RevisionConflict _ \<Rightarrow> ''policy_revision_conflict''
       | TraceMismatch \<Rightarrow> ''policy_trace_mismatch''
       | InvalidPersisted _ \<Rightarrow> ''policy_storage_invalid''
       | StorePolicy _ \<Rightarrow> ''policy_input_invalid''
       | Database _ \<Rightarrow> ''policy_store_unavailable''),
      ee_detail = DetailStore e\<rparr>"

text \<open>
  \<open>PgPolicyEvaluator::active_identity\<close> and \<open>PgPolicyEvaluator::evaluate\<close>.  \<open>fresh_policy\<close> and
  \<open>event_id\<close> are the two UUIDs the calls draw.
\<close>

definition active_identity ::
  "store_env \<Rightarrow> gadgets_config \<Rightarrow> int \<Rightarrow> uuid \<Rightarrow> policy_db \<Rightarrow> uuid
    \<Rightarrow> (policy_evaluation_error, policy_identity) result \<times> policy_db" where
  "active_identity E modes now fresh_policy db tenant =
     (case ensure_legacy_policy E now fresh_policy db tenant None modes of
        (r, db') \<Rightarrow> (map_err evaluation_error (map_sum id rv_identity r), db'))"

definition select_revision ::
  "store_env \<Rightarrow> gadgets_config \<Rightarrow> int \<Rightarrow> uuid \<Rightarrow> policy_db \<Rightarrow> policy_evaluation_request
    \<Rightarrow> (policy_evaluation_error, policy_revision) result \<times> policy_db" where
  "select_revision E modes now fresh_policy db request =
     (case rq_pinned_policy request of
        Some identity \<Rightarrow>
          (and_then (map_err evaluation_error
                       (policy_revision_of E db (rq_tenant_id request) (id_policy_id identity)
                         (id_revision identity))) (\<lambda>revision.
             if rv_identity revision \<noteq> identity then
               Inl \<lparr>ee_code = ''policy_revision_mismatch'',
                    ee_detail = DetailText ''Pinned policy identity no longer matches immutable storage''\<rparr>
             else Inr revision), db)
      | None \<Rightarrow>
          (case ensure_legacy_policy E now fresh_policy db (rq_tenant_id request) None modes of
             (r, db') \<Rightarrow> (map_err evaluation_error r, db')))"

definition pg_evaluate ::
  "store_env \<Rightarrow> gadgets_config \<Rightarrow> int \<Rightarrow> uuid \<Rightarrow> uuid \<Rightarrow> policy_db \<Rightarrow> policy_evaluation_request
    \<Rightarrow> (policy_evaluation_error, policy_evaluation) result \<times> policy_db" where
  "pg_evaluate E modes now fresh_policy event_id db request =
     (case select_revision E modes now fresh_policy db request of
        (Inl e, db') \<Rightarrow> (Inl e, db')
      | (Inr revision, db') \<Rightarrow>
          (case evaluate (env_encoding E) (rv_document revision) (rv_identity revision) (rq_input request) of
             Inl e \<Rightarrow> (Inl \<lparr>ee_code = ''policy_input_invalid'', ee_detail = DetailPolicy e\<rparr>, db')
           | Inr trace \<Rightarrow>
               let authorization = authorization_for (tr_decision trace) (rq_review_state request)
               in (case record_decision E now db'
                          \<lparr>rc_tenant_id = rq_tenant_id request, rc_event_id = event_id,
                           rc_enforcement_path = rq_path request, rc_authorization = authorization,
                           rc_approval_id = rq_approval_id request, rc_input = rq_input request,
                           rc_trace = trace\<rparr> of
                     (Inl e, db'') \<Rightarrow> (Inl (evaluation_error e), db'')
                   | (Inr event, db'') \<Rightarrow>
                       (Inr \<lparr>pe_event_id = event_id, pe_trace = de_trace event,
                             pe_trace_hash = de_trace_hash event, pe_authorization = authorization\<rparr>, db''))))"

section \<open>Steps of the store\<close>

text \<open>
  The three transactions that write: every other operation of the file only reads, or is a
  composition of these (\<open>pg_evaluate\<close>, \<open>active_identity\<close>).
\<close>

inductive store_step :: "store_env \<Rightarrow> policy_db \<Rightarrow> policy_db \<Rightarrow> bool" for E where
  ensure: "store_step E db (snd (ensure_legacy_policy E now fresh db tenant created_by modes))"
| create: "store_step E db (snd (create_revision E now db tenant created_by expected source d modes))"
| record_event: "store_step E db (snd (record_decision E now db r))"

abbreviation store_steps :: "store_env \<Rightarrow> policy_db \<Rightarrow> policy_db \<Rightarrow> bool" where
  "store_steps E \<equiv> (store_step E)\<^sup>*\<^sup>*"

inductive_cases store_stepE: "store_step E db db'"

text \<open>The documented law of \<open>serde_json\<close> for the column types: decoding inverts encoding.\<close>

definition codec_ok :: "value_codec \<Rightarrow> bool" where
  "codec_ok C \<longleftrightarrow>
     (\<forall>d v. document_to_value C d = Inr v \<longrightarrow> document_from_value C v = Inr d)
     \<and> (\<forall>m v. modes_to_value C m = Inr v \<longrightarrow> modes_from_value C v = Inr m)
     \<and> (\<forall>i v. input_to_value C i = Inr v \<longrightarrow> input_from_value C v = Inr i)
     \<and> (\<forall>t v. trace_to_value C t = Inr v \<longrightarrow> trace_from_value C v = Inr t)"

subsection \<open>What a transaction does to the tables\<close>

definition touched :: "revision_row \<Rightarrow> revision_row \<Rightarrow> bool" where
  "touched row row' \<longleftrightarrow>
     row' = row \<or> rr_superseded_at row = None \<and> (\<exists>now. row' = row\<lparr>rr_superseded_at := Some now\<rparr>)"

definition extends :: "policy_db \<Rightarrow> policy_db \<Rightarrow> bool" where
  "extends db db' \<longleftrightarrow>
     db_tenants db' = db_tenants db
     \<and> (\<exists>old new. db_revisions db' = old @ new \<and> list_all2 touched (db_revisions db) old)
     \<and> prefix (db_events db) (db_events db')"

lemma insert_row_eq_Inr:
  "insert_row row db = Inr db' \<longleftrightarrow>
     0 < rr_revision row \<and> is_ok (validate_digest [] (rr_document_hash row))
     \<and> (\<forall>r \<in> set (db_revisions db). \<not> has_key (rr_tenant_id row) (rr_policy_id row) (rr_revision row) r)
     \<and> (rr_superseded_at row = None \<longrightarrow> (\<forall>r \<in> set (db_revisions db). \<not> is_active_row (rr_tenant_id row) r))
     \<and> db' = db\<lparr>db_revisions := db_revisions db @ [row]\<rparr>"
  by (auto simp: insert_row_def list_ex_iff)

lemma insert_revision_eq_InrD:
  assumes "insert_revision E now tenant policy revision source d hash modes created_by db = Inr (row, db')"
  shows "insert_row row db = Inr db'" "rr_tenant_id row = tenant" "rr_policy_id row = policy"
    "rr_revision row = revision" "rr_superseded_at row = None" "rr_document_hash row = hash"
    "rr_source row = source_as_str source" "rr_schema_version row = pd_schema_version d"
    "document_to_value (env_codec E) d = Inr (rr_document row)"
    "case modes of None \<Rightarrow> rr_legacy_modes row = None
       | Some m \<Rightarrow> \<exists>v. modes_to_value (env_codec E) m = Inr v \<and> rr_legacy_modes row = Some v"
  using assms by (auto simp: insert_revision_def Let_def result_simps map_sum_def split: option.splits sum.splits)

lemma touched_refl: "list_all2 touched rows rows"
  by (simp add: list_all2_same touched_def)

lemma extendsI:
  "db_tenants db' = db_tenants db \<Longrightarrow> db_revisions db' = old @ new \<Longrightarrow>
     list_all2 touched (db_revisions db) old \<Longrightarrow> prefix (db_events db) (db_events db') \<Longrightarrow> extends db db'"
  by (auto simp: extends_def)

lemma extends_insert: "insert_row row db = Inr db' \<Longrightarrow> extends db db'"
  by (auto simp: insert_row_eq_Inr extends_def intro: touched_refl)

lemma extends_refl: "extends db db"
  by (auto simp: extends_def intro: touched_refl)

lemma touched_trans: "touched a b \<Longrightarrow> touched b c \<Longrightarrow> touched a c"
  by (auto simp: touched_def)

lemma list_all2_touched_trans:
  "list_all2 touched xs ys \<Longrightarrow> list_all2 touched ys zs \<Longrightarrow> list_all2 touched xs zs"
  by (rule list_all2_trans [OF touched_trans])

lemma extends_trans: "extends a b \<Longrightarrow> extends b c \<Longrightarrow> extends a c"
proof -
  assume ab: "extends a b" and bc: "extends b c"
  from ab obtain old new where 1: "db_revisions b = old @ new" "list_all2 touched (db_revisions a) old"
    by (auto simp: extends_def)
  from bc obtain old' new' where 2: "db_revisions c = old' @ new'" "list_all2 touched (db_revisions b) old'"
    by (auto simp: extends_def)
  from 1(1) 2(2) obtain p q where pq: "old' = p @ q" "list_all2 touched old p"
    by (auto simp: list_all2_append1)
  from list_all2_touched_trans [OF 1(2) pq(2)] pq(1) 2(1) ab bc show ?thesis
    by (auto simp: extends_def)
qed

lemma extends_supersede: "extends db (supersede now tenant policy revision db)"
  by (rule extendsI [where new = "[]"])
    (auto simp: supersede_def list_all2_map2 touched_def intro!: list.rel_refl_strong)

lemma supersede_sel [simp]:
  "db_tenants (supersede now t p r db) = db_tenants db" "db_events (supersede now t p r db) = db_events db"
  by (simp_all add: supersede_def)

lemma ensure_legacy_cases:
  obtains (unchanged) "snd (ensure_legacy_policy E now fresh db tenant created_by modes) = db"
  | (inserted) d hash row where "tenant \<in> set (db_tenants db)" "active_policy_tx db tenant = None"
      "from_legacy_gadget_modes (env_host E) modes = Inr d" "document_digest (env_encoding E) d = Inr hash"
      "insert_revision E now tenant fresh 1 SourceLegacyMigration d hash (Some modes) created_by db
         = Inr (row, snd (ensure_legacy_policy E now fresh db tenant created_by modes))"
      "fst (ensure_legacy_policy E now fresh db tenant created_by modes) = row_to_revision E row"
proof -
  let ?tx = "and_then (lock_tenant db tenant) (\<lambda>_.
        case active_policy_tx db tenant of
          Some row \<Rightarrow> Inr (row, db)
        | None \<Rightarrow>
            and_then (map_err StorePolicy (from_legacy_gadget_modes (env_host E) modes)) (\<lambda>d.
            and_then (map_err StorePolicy (document_digest (env_encoding E) d)) (\<lambda>hash.
            insert_revision E now tenant fresh 1 SourceLegacyMigration d hash (Some modes) created_by db)))"
  have e: "ensure_legacy_policy E now fresh db tenant created_by modes = commit_row E db ?tx"
    by (simp add: ensure_legacy_policy_def)
  show thesis
  proof (cases ?tx)
    case (Inl err)
    with unchanged e show thesis by (simp add: commit_row_def)
  next
    case (Inr pair)
    obtain row db' where p: "pair = (row, db')" by (cases pair)
    with Inr e have out: "ensure_legacy_policy E now fresh db tenant created_by modes
        = (row_to_revision E row, db')" by (simp add: commit_row_def)
    show thesis
    proof (cases "active_policy_tx db tenant")
      case None
      with Inr p out show thesis
        by (auto simp: result_simps lock_tenant_def intro!: inserted)
    next
      case (Some r)
      with Inr p out show thesis by (intro unchanged) (auto simp: result_simps)
    qed
  qed
qed

lemma create_revision_cases:
  obtains (unchanged) e where
      "create_revision E now db tenant created_by expected source d modes = (Inl e, db)"
  | (inserted) current hash row db' where
      "document_validate d = Inr ()" "source \<noteq> SourceLegacyMigration"
      "check_snapshot E LegacySnapshotMismatch modes d = Inr ()" "tenant \<in> set (db_tenants db)"
      "active_policy_tx db tenant = Some current" "rr_revision current = expected"
      "document_digest (env_encoding E) d = Inr hash"
      "insert_revision E now tenant (rr_policy_id current) (expected + 1) source d hash modes created_by
         (supersede now tenant (rr_policy_id current) expected db) = Inr (row, db')"
      "create_revision E now db tenant created_by expected source d modes = (row_to_revision E row, db')"
proof -
  define tx where "tx = (and_then (map_err StorePolicy (document_validate d)) (\<lambda>_.
        if source = SourceLegacyMigration then Inl (InvalidPersisted LegacySourceReserved)
        else
        and_then (check_snapshot E LegacySnapshotMismatch modes d) (\<lambda>_.
        and_then (lock_tenant db tenant) (\<lambda>_.
        and_then (ok_or (active_policy_tx db tenant) StoreNotFound) (\<lambda>current.
        if rr_revision current \<noteq> expected then Inl (RevisionConflict (rr_revision current))
        else
          let db' = supersede now tenant (rr_policy_id current) (rr_revision current) db
          in and_then (map_err StorePolicy (document_digest (env_encoding E) d)) (\<lambda>hash.
             insert_revision E now tenant (rr_policy_id current) (rr_revision current + 1) source d hash
               modes created_by db'))))))"
  have e: "create_revision E now db tenant created_by expected source d modes = commit_row E db tx"
    by (simp add: create_revision_def tx_def)
  show thesis
  proof (cases tx)
    case (Inl err)
    with unchanged e show thesis by (simp add: commit_row_def)
  next
    case (Inr pair)
    obtain row db' where p: "pair = (row, db')" by (cases pair)
    with Inr e have "create_revision E now db tenant created_by expected source d modes
        = (row_to_revision E row, db')" by (simp add: commit_row_def)
    with Inr p show thesis
      by (auto simp: tx_def result_simps lock_tenant_def Let_def split: if_splits intro!: inserted)
  qed
qed

lemma record_decision_cases:
  obtains (unchanged) e where "record_decision E now db r = (Inl e, db)"
  | (inserted) row where "verify_decision E db r = Inr ()" "decision_row_of E now r = Inr row"
      "insert_event row db = Inr (snd (record_decision E now db r))"
      "fst (record_decision E now db r) = row_to_decision E row"
proof (cases "and_then (verify_decision E db r) (\<lambda>_.
             and_then (decision_row_of E now r) (\<lambda>row.
             and_then (insert_event row db) (\<lambda>db'. Inr (row, db'))))")
  case (Inl e)
  with unchanged show thesis by (simp add: record_decision_def)
next
  case (Inr pair)
  obtain row db' where "pair = (row, db')" by (cases pair)
  with Inr inserted show thesis by (auto simp: record_decision_def result_simps)
qed

lemma insert_event_eq_Inr:
  "insert_event row db = Inr db' \<Longrightarrow>
     db' = db\<lparr>db_events := db_events db @ [row]\<rparr>
     \<and> (\<exists>r \<in> set (db_revisions db). has_key (dr_tenant_id row) (dr_policy_id row) (dr_policy_revision row) r)"
  by (auto simp: insert_event_def list_ex_iff split: if_splits)

lemma extends_event: "insert_event row db = Inr db' \<Longrightarrow> extends db db'"
  by (rule extendsI [where new = "[]", OF _ _ touched_refl]) (auto dest: insert_event_eq_Inr)

lemma store_step_extends: "store_step E db db' \<Longrightarrow> extends db db'"
proof (induction rule: store_step.induct)
  case (ensure db now fresh tenant created_by modes)
  show ?case
    by (cases rule: ensure_legacy_cases [of E now fresh db tenant created_by modes])
      (auto intro: extends_refl extends_insert dest: insert_revision_eq_InrD(1))
next
  case (create db now tenant created_by expected source d modes)
  show ?case
    by (cases rule: create_revision_cases [of E now db tenant created_by expected source d modes])
      (auto intro: extends_refl extends_trans [OF extends_supersede extends_insert]
        dest: insert_revision_eq_InrD(1))
next
  case (record_event db now r)
  show ?case
    by (cases rule: record_decision_cases [of E now db r])
      (auto intro: extends_refl extends_event)
qed

lemma store_steps_extends: "store_steps E db db' \<Longrightarrow> extends db db'"
  by (induction rule: rtranclp_induct) (auto intro: extends_refl extends_trans store_step_extends)

subsection \<open>Revisions are immutable\<close>

lemma touched_key: "touched row row' \<Longrightarrow> has_key t p r row' = has_key t p r row"
  by (auto simp: touched_def has_key_def)

lemma find_touched:
  "list_all2 touched rows old \<Longrightarrow> find (has_key t p r) rows = Some row \<Longrightarrow>
     \<exists>row'. find (has_key t p r) (old @ new) = Some row' \<and> touched row row'"
  by (induction rows old rule: list_all2_induct) (auto simp: touched_key split: if_splits)

lemma row_to_revision_superseded:
  "row_to_revision E (row\<lparr>rr_superseded_at := s\<rparr>) =
     map_sum id (\<lambda>v. v\<lparr>rv_superseded_at := s\<rparr>) (row_to_revision E row)"
  by (simp add: row_to_revision_def and_then_def map_sum_def split: sum.splits)

lemma row_to_revision_touched:
  assumes "touched row row'" "row_to_revision E row = Inr v"
  shows "\<exists>v'. row_to_revision E row' = Inr v' \<and> rv_document v' = rv_document v
           \<and> rv_identity v' = rv_identity v"
  using assms by (auto simp: touched_def row_to_revision_superseded)

lemma revision_kept:
  assumes "extends db db'" "policy_revision_of E db t p r = Inr v"
  shows "\<exists>v'. policy_revision_of E db' t p r = Inr v' \<and> rv_document v' = rv_document v
           \<and> rv_identity v' = rv_identity v"
proof -
  from assms(1) obtain old new where db': "db_revisions db' = old @ new"
    and "list_all2 touched (db_revisions db) old" by (auto simp: extends_def)
  moreover from assms(2) obtain row where "find (has_key t p r) (db_revisions db) = Some row"
    and row: "row_to_revision E row = Inr v" by (auto simp: policy_revision_of_def result_simps)
  ultimately obtain row' where "find (has_key t p r) (old @ new) = Some row'" "touched row row'"
    using find_touched by blast
  with row_to_revision_touched [OF _ row, of row'] db' show ?thesis
    by (auto simp: policy_revision_of_def ok_or_def)
qed

lemma find_has_key: "find (has_key t p r) rows = Some row \<Longrightarrow> has_key t p r row \<and> row \<in> set rows"
  by (auto simp: find_Some_iff in_set_conv_nth)

lemma row_to_revision_identity:
  "row_to_revision E row = Inr v \<Longrightarrow>
     rv_identity v = \<lparr>id_policy_id = rr_policy_id row, id_revision = rr_revision row,
                      id_document_hash = rr_document_hash row\<rparr> \<and> rv_tenant_id v = rr_tenant_id row
     \<and> document_validate (rv_document v) = Inr ()
     \<and> document_digest (env_encoding E) (rv_document v) = Inr (rr_document_hash row)"
  by (auto simp: row_to_revision_def result_simps check_def split: if_splits)

subsection \<open>The invariant of the tables\<close>

definition row_key :: "revision_row \<Rightarrow> uuid \<times> uuid \<times> int" where
  "row_key row = (rr_tenant_id row, rr_policy_id row, rr_revision row)"

definition store_ok :: "store_env \<Rightarrow> policy_db \<Rightarrow> bool" where
  "store_ok E db \<longleftrightarrow>
     distinct (map row_key (db_revisions db))
     \<and> (\<forall>t. \<forall>a \<in> set (db_revisions db). \<forall>b \<in> set (db_revisions db).
          is_active_row t a \<and> is_active_row t b \<longrightarrow> a = b)
     \<and> (\<forall>row \<in> set (db_revisions db). is_ok (row_to_revision E row))"

lemma check_snapshot_any:
  "check_snapshot E v modes d = Inr () \<Longrightarrow> check_snapshot E v' modes d = Inr ()"
  by (auto simp: check_snapshot_def result_simps split: option.splits)

lemma source_roundtrip [simp]: "source_parse (source_as_str s) = Inr s"
  by (cases s) (simp_all add: source_as_str_def source_parse_def)

lemma inserted_row_decodes:
  assumes "codec_ok (env_codec E)" "document_digest (env_encoding E) d = Inr hash"
    and "check_snapshot E v modes d = Inr ()"
    and ins: "insert_revision E now tenant policy revision source d hash modes created_by db = Inr (row, db')"
  shows "\<exists>v. row_to_revision E row = Inr v \<and> rv_document v = d \<and> rv_source v = source
           \<and> rv_identity v = \<lparr>id_policy_id = policy, id_revision = revision, id_document_hash = hash\<rparr>"
proof -
  note row = insert_revision_eq_InrD [OF ins]
  have "document_from_value (env_codec E) (rr_document row) = Inr d"
    using row(9) assms(1) by (simp add: codec_ok_def)
  moreover have "document_validate d = Inr ()"
    using assms(2) by (auto simp: document_digest_def result_simps)
  moreover have "(case rr_legacy_modes row of None \<Rightarrow> Inr None
      | Some v \<Rightarrow> map_err (\<lambda>e. InvalidPersisted (DecodeFailed e))
                   (map_sum id Some (modes_from_value (env_codec E) v))) = Inr modes"
    using row(10) assms(1) by (auto simp: codec_ok_def split: option.splits)
  moreover have "check_snapshot E PersistedSnapshotMismatch modes d = Inr ()"
    using assms(3) by (rule check_snapshot_any)
  ultimately show ?thesis
    using row assms(2) by (simp add: row_to_revision_def)
qed

lemma store_ok_insert:
  assumes "store_ok E db" "insert_row row db = Inr db'" "is_ok (row_to_revision E row)"
  shows "store_ok E db'"
proof -
  from assms(2) have new: "row_key row \<notin> row_key ` set (db_revisions db)"
    and act: "rr_superseded_at row = None \<longrightarrow> (\<forall>r \<in> set (db_revisions db). \<not> is_active_row (rr_tenant_id row) r)"
    and db': "db_revisions db' = db_revisions db @ [row]"
    by (auto simp: insert_row_eq_Inr row_key_def has_key_def)
  from act have "\<not> (is_active_row t row \<and> is_active_row t r)" if "r \<in> set (db_revisions db)" for r t
    using that by (auto simp: is_active_row_def)
  with assms(1,3) new db' show ?thesis
    unfolding store_ok_def by (auto simp: image_iff)
qed

lemma row_key_touched: "touched a b \<Longrightarrow> row_key b = row_key a"
  by (auto simp: touched_def row_key_def)

lemma is_active_touched: "touched a b \<Longrightarrow> is_active_row t b \<Longrightarrow> b = a"
  by (auto simp: touched_def is_active_row_def)

lemma store_ok_supersede:
  assumes "store_ok E db"
  shows "store_ok E (supersede now tenant policy revision db)"
proof -
  define f where "f = (\<lambda>row. if has_key tenant policy revision row \<and> rr_superseded_at row = None
                  then row\<lparr>rr_superseded_at := Some now\<rparr> else row)"
  have f: "touched row (f row)" for row by (auto simp: touched_def f_def)
  have rows: "db_revisions (supersede now tenant policy revision db) = map f (db_revisions db)"
    by (simp add: supersede_def f_def)
  have keys: "map row_key (map f (db_revisions db)) = map row_key (db_revisions db)"
    using row_key_touched [OF f] by simp
  have single: "a = b" if "a \<in> set (map f (db_revisions db))" "b \<in> set (map f (db_revisions db))"
    "is_active_row t a" "is_active_row t b" for a b t
  proof -
    from that obtain a' b' where
      ab: "a' \<in> set (db_revisions db)" "a = f a'" "b' \<in> set (db_revisions db)" "b = f b'"
      by auto
    with that is_active_touched [OF f] have "a = a'" "b = b'" by auto
    with ab that assms show ?thesis by (auto simp: store_ok_def)
  qed
  have decodes: "is_ok (row_to_revision E (f row))" if "row \<in> set (db_revisions db)" for row
  proof -
    from that assms obtain v where "row_to_revision E row = Inr v"
      by (auto simp: store_ok_def is_ok_iff)
    from row_to_revision_touched [OF f this] show ?thesis by (auto simp: is_ok_iff)
  qed
  show ?thesis
    unfolding store_ok_def rows
  proof (intro conjI allI ballI impI)
    show "distinct (map row_key (map f (db_revisions db)))"
      using assms by (simp only: keys store_ok_def)
  next
    fix t a b
    assume "a \<in> set (map f (db_revisions db))" "b \<in> set (map f (db_revisions db))"
      "is_active_row t a \<and> is_active_row t b"
    then show "a = b" using single by blast
  next
    fix row assume "row \<in> set (map f (db_revisions db))"
    then show "is_ok (row_to_revision E row)" using decodes by auto
  qed
qed

lemma legacy_snapshot:
  "from_legacy_gadget_modes (env_host E) modes = Inr d \<Longrightarrow> check_snapshot E v (Some modes) d = Inr ()"
  by (auto simp: check_snapshot_def from_legacy_gadget_modes_def split: sum.splits)

lemma store_step_ok:
  assumes "codec_ok (env_codec E)" "store_step E db db'" "store_ok E db"
  shows "store_ok E db'"
  using assms(2)
proof cases
  case (ensure now fresh tenant created_by modes)
  show ?thesis
  proof (cases rule: ensure_legacy_cases [of E now fresh db tenant created_by modes])
    case unchanged
    with ensure assms(3) show ?thesis by simp
  next
    case (inserted d hash row)
    from inserted_row_decodes [OF assms(1) inserted(4) legacy_snapshot [OF inserted(3)] inserted(5)]
    show ?thesis
      using store_ok_insert [OF assms(3) insert_revision_eq_InrD(1) [OF inserted(5)]] ensure
      by (auto simp: is_ok_iff)
  qed
next
  case (create now tenant created_by expected source d modes)
  show ?thesis
  proof (cases rule: create_revision_cases [of E now db tenant created_by expected source d modes])
    case (unchanged e)
    with create assms(3) show ?thesis by simp
  next
    case (inserted current hash row db2)
    from inserted_row_decodes [OF assms(1) inserted(7) inserted(3) inserted(8)]
    show ?thesis
      using store_ok_insert [OF store_ok_supersede [OF assms(3)] insert_revision_eq_InrD(1) [OF inserted(8)]]
        inserted(9) create
      by (auto simp: is_ok_iff)
  qed
next
  case (record_event now r)
  show ?thesis
    by (cases rule: record_decision_cases [of E now db r])
      (use record_event assms(3) in \<open>auto simp: store_ok_def dest!: insert_event_eq_Inr\<close>)
qed

lemma store_steps_ok:
  "store_steps E db db' \<Longrightarrow> codec_ok (env_codec E) \<Longrightarrow> store_ok E db \<Longrightarrow> store_ok E db'"
  by (induction rule: rtranclp_induct) (auto intro: store_step_ok)

section \<open>A deployment for the witnesses\<close>

text \<open>
  A tenant, the migrated sample modes, and a codec that knows the values the run stores (the
  trace is an argument); every other value fails to encode.
\<close>

definition sample_codec :: "policy_input \<Rightarrow> policy_decision_trace \<Rightarrow> value_codec" where
  "sample_codec i t =
     \<lparr>document_to_value = (\<lambda>d. if d = legacy_document (sample_modes ''acme'') then Inr JNull else Inl []),
      document_from_value = (\<lambda>_. Inr (legacy_document (sample_modes ''acme''))),
      modes_to_value = (\<lambda>m. if m = sample_modes ''acme'' then Inr JNull else Inl []),
      modes_from_value = (\<lambda>_. Inr (sample_modes ''acme'')),
      input_to_value = (\<lambda>j. if j = i then Inr JNull else Inl []),
      input_from_value = (\<lambda>_. Inr i),
      trace_to_value = (\<lambda>u. if u = t then Inr JNull else Inl []),
      trace_from_value = (\<lambda>_. Inr t)\<rparr>"

definition sample_env :: "policy_input \<Rightarrow> policy_decision_trace \<Rightarrow> store_env" where
  "sample_env i t = \<lparr>env_encoding = sample_encoding, env_codec = sample_codec i t, env_host = sample_host\<rparr>"

definition sample_db :: policy_db where
  "sample_db = \<lparr>db_tenants = [1], db_revisions = [], db_events = []\<rparr>"

definition sample_request :: "policy_input \<Rightarrow> policy_evaluation_request" where
  "sample_request i =
     \<lparr>rq_tenant_id = 1, rq_path = PathTool, rq_input = i, rq_pinned_policy = None,
      rq_approval_id = None, rq_review_state = ReviewNone\<rparr>"

lemma sample_codec_ok: "codec_ok (env_codec (sample_env i t))"
  by (simp add: codec_ok_def sample_env_def sample_codec_def)

lemma sample_store_ok: "store_ok E sample_db"
  by (simp add: store_ok_def sample_db_def)

lemma sample_digest_valid: "validate_digest field (''sha256:'' @ sha256_hex sample_encoding s) = Inr ()"
proof -
  have "list_all is_lower_hex (sha256_hex sample_encoding s)"
    by (auto simp: sample_encoding_def list_all_iff is_lower_hex_def is_ascii_digit_def dest!: in_set_takeD)
  moreover have "length (sha256_hex sample_encoding s) = 64" by (simp add: sample_encoding_def)
  ultimately show ?thesis by (simp add: validate_digest_def)
qed

definition sample_hash :: string where
  "sample_hash = ''sha256:'' @ sha256_hex sample_encoding sample_legacy_bytes"

lemma sample_document_digest:
  "document_digest sample_encoding (legacy_document (sample_modes ''acme'')) = Inr sample_hash"
  using sample_migrated(2)
  by (simp add: document_digest_def digest_def sample_encoding_def sample_legacy_bytes_def sample_hash_def)

lemma sample_ensure:
  "\<exists>row db'. ensure_legacy_policy (sample_env i t) 5 7 sample_db 1 None (sample_modes ''acme'')
      = (row_to_revision (sample_env i t) row, db') \<and> db_events db' = [] \<and> db_revisions db' = [row]
      \<and> has_key 1 7 1 row \<and> is_active_row 1 row
      \<and> (\<exists>v. row_to_revision (sample_env i t) row = Inr v \<and> rv_identity v = sample_legacy_identity
           \<and> rv_document v = legacy_document (sample_modes ''acme''))"
proof -
  let ?E = "sample_env i t" and ?m = "sample_modes ''acme''"
  have h: "document_digest (env_encoding ?E) (legacy_document ?m) = Inr sample_hash"
    "from_legacy_gadget_modes (env_host ?E) ?m = Inr (legacy_document ?m)"
    using sample_document_digest sample_migrated(1) by (simp_all add: sample_env_def)
  have hash: "is_ok (validate_digest [] sample_hash)"
    using sample_digest_valid by (simp add: sample_hash_def)
  then have "\<exists>row db'. insert_revision ?E 5 1 7 1 SourceLegacyMigration (legacy_document ?m) sample_hash
      (Some ?m) None sample_db = Inr (row, db')"
    by (simp add: insert_revision_def sample_env_def sample_codec_def insert_row_def sample_db_def Let_def
        map_err_def)
  then obtain row db' where ins: "insert_revision ?E 5 1 7 1 SourceLegacyMigration (legacy_document ?m)
      sample_hash (Some ?m) None sample_db = Inr (row, db')" by blast
  have run: "ensure_legacy_policy ?E 5 7 sample_db 1 None ?m = (row_to_revision ?E row, db')"
    using ins h
    by (simp add: ensure_legacy_policy_def lock_tenant_def active_policy_tx_def commit_row_def sample_db_def)
  note row = insert_revision_eq_InrD [OF ins]
  have "db' = sample_db\<lparr>db_revisions := db_revisions sample_db @ [row]\<rparr>"
    using row(1) by (simp add: insert_row_eq_Inr)
  moreover obtain v where "row_to_revision ?E row = Inr v" "rv_document v = legacy_document ?m"
    "rv_identity v = \<lparr>id_policy_id = 7, id_revision = 1, id_document_hash = sample_hash\<rparr>"
    using inserted_row_decodes [OF sample_codec_ok h(1) legacy_snapshot [OF h(2)] ins] by blast
  moreover have "sample_legacy_identity = \<lparr>id_policy_id = 7, id_revision = 1, id_document_hash = sample_hash\<rparr>"
    by (simp add: sample_legacy_identity_def sample_identity_def sample_hash_def)
  ultimately show ?thesis
    using run row(2-5) by (auto simp: sample_db_def has_key_def is_active_row_def)
qed

lemma sample_reaches:
  "\<exists>db' v. store_steps (sample_env i t) sample_db db'
     \<and> policy_revision_of (sample_env i t) db' 1 7 1 = Inr v
     \<and> rv_document v = legacy_document (sample_modes ''acme'')"
proof -
  from sample_ensure [of i t] obtain row db' v where
    e: "ensure_legacy_policy (sample_env i t) 5 7 sample_db 1 None (sample_modes ''acme'')
      = (row_to_revision (sample_env i t) row, db')" and
    r: "db_revisions db' = [row]" "has_key 1 7 1 row" "row_to_revision (sample_env i t) row = Inr v"
       "rv_document v = legacy_document (sample_modes ''acme'')"
    by blast
  have "store_step (sample_env i t) sample_db db'"
    using store_step.ensure [of "sample_env i t" sample_db 5 7 1 None "sample_modes ''acme''"] e by simp
  with r show ?thesis
    by (intro exI [of _ db'] exI [of _ v]) (auto simp: policy_revision_of_def ok_or_def)
qed

section \<open>Properties of the store\<close>

text \<open>
  The tables stay consistent.  Whatever transactions run on a fresh database, in whatever
  order, the revision keys stay unique, a tenant has at most one active revision, and every row
  decodes to a valid document whose digest is the stored hash.
\<close>

lemma store_stays_consistent:
  assumes "codec_ok (env_codec E)"
    and "store_steps E \<lparr>db_tenants = tenants, db_revisions = [], db_events = []\<rparr> db"
  shows "store_ok E db"
  by (rule store_steps_ok [OF assms(2,1)]) (simp add: store_ok_def)

definition sample_trace :: policy_decision_trace where
  "sample_trace = run_policy sample_document sample_identity sample_input"

lemma store_stays_consistent_example:
  "\<exists>db v. store_ok (sample_env sample_crm_write sample_trace) db
     \<and> policy_revision_of (sample_env sample_crm_write sample_trace) db 1 7 1 = Inr v"
proof -
  obtain db v where "store_steps (sample_env sample_crm_write sample_trace) sample_db db"
    and v: "policy_revision_of (sample_env sample_crm_write sample_trace) db 1 7 1 = Inr v"
    using sample_reaches by blast
  from store_stays_consistent [OF sample_codec_ok this(1) [unfolded sample_db_def]] v show ?thesis by blast
qed

text \<open>
  Revisions are immutable.  Once a tenant's revision can be read, every later state of the
  store still returns it under the same key with the same document and the same identity, so a
  policy pinned by identity evaluates forever as it did when it was pinned.
\<close>

lemma revisions_are_immutable:
  assumes "store_steps E db db'" "policy_revision_of E db tenant policy revision = Inr v"
  shows "\<exists>v'. policy_revision_of E db' tenant policy revision = Inr v'
           \<and> rv_document v' = rv_document v \<and> rv_identity v' = rv_identity v"
  by (rule revision_kept [OF store_steps_extends [OF assms(1)] assms(2)])

lemma revisions_are_immutable_example:
  "\<exists>db v'. policy_revision_of (sample_env sample_crm_write sample_trace)
       (snd (create_revision (sample_env sample_crm_write sample_trace) 9 db 1 None 1 SourceManager sample_document None)) 1 7 1 = Inr v'
     \<and> rv_document v' = legacy_document (sample_modes ''acme'')"
proof -
  obtain db v where v: "policy_revision_of (sample_env sample_crm_write sample_trace) db 1 7 1 = Inr v"
    "rv_document v = legacy_document (sample_modes ''acme'')"
    using sample_reaches by blast
  have "store_steps (sample_env sample_crm_write sample_trace) db
      (snd (create_revision (sample_env sample_crm_write sample_trace) 9 db 1 None 1 SourceManager sample_document None))"
    by (rule r_into_rtranclp [of "store_step (sample_env sample_crm_write sample_trace)"]) (rule store_step.create)
  from revisions_are_immutable [OF this v(1)] v(2) show ?thesis by auto
qed

lemma active_after_create:
  assumes "insert_row row (supersede now t p r db) = Inr db'" "rr_tenant_id row = tenant"
    "rr_superseded_at row = None"
  shows "active_policy_tx db' tenant = Some row"
proof -
  have "find (is_active_row tenant) (rows @ [row]) = Some row" if "\<forall>r \<in> set rows. \<not> is_active_row tenant r" for rows
    using that assms(2,3) by (induction rows) (auto simp: is_active_row_def)
  with assms show ?thesis by (auto simp: insert_row_eq_Inr active_policy_tx_def)
qed

text \<open>
  No lost updates.  A revision created against the expected revision becomes the active
  revision of the tenant with the next number, and any further attempt against the same expected
  revision is refused as a conflict with the new number and changes nothing.
\<close>

lemma create_revision_no_lost_update:
  assumes "codec_ok (env_codec E)"
    and "create_revision E now db tenant created_by expected source d modes = (Inr v, db')"
    and "document_validate d' = Inr ()" "source' \<noteq> SourceLegacyMigration"
  shows "rv_document v = d \<and> id_revision (rv_identity v) = expected + 1
         \<and> active_policy E db' tenant = Inr (Some v)
         \<and> create_revision E now' db' tenant created_by' expected source' d' None
             = (Inl (RevisionConflict (expected + 1)), db')"
proof (cases rule: create_revision_cases [of E now db tenant created_by expected source d modes])
  case (unchanged e)
  with assms(2) show ?thesis by simp
next
  case (inserted current hash row db2)
  with assms(2) have db': "db2 = db'" and v: "row_to_revision E row = Inr v" by simp_all
  note ins = inserted(8) [unfolded db'] and row = insert_revision_eq_InrD [OF inserted(8)]
  from inserted_row_decodes [OF assms(1) inserted(7) inserted(3) inserted(8)] v
  have "rv_document v = d" "id_revision (rv_identity v) = expected + 1" by auto
  moreover have active: "active_policy_tx db' tenant = Some row"
    using active_after_create [OF row(1) row(2,5)] db' by simp
  moreover have "tenant \<in> set (db_tenants db')"
    using inserted(4) row(1) db' by (auto simp: insert_row_eq_Inr)
  then have "create_revision E now' db' tenant created_by' expected source' d' None
      = (Inl (RevisionConflict (expected + 1)), db')"
    using active row(4) assms(3,4)
    by (simp add: create_revision_def check_snapshot_def lock_tenant_def ok_or_def commit_row_def)
  ultimately show ?thesis
    using v by (simp add: active_policy_def)
qed

lemma sample_create:
  "\<exists>db v db'. create_revision (sample_env i t) 9 db 1 None 1 SourceManager
     (legacy_document (sample_modes ''acme'')) None = (Inr v, db')"
proof -
  let ?E = "sample_env i t" and ?d = "legacy_document (sample_modes ''acme'')"
  from sample_ensure [of i t] obtain row db where
    e: "ensure_legacy_policy ?E 5 7 sample_db 1 None (sample_modes ''acme'') = (row_to_revision ?E row, db)"
    and r: "db_revisions db = [row]" "has_key 1 7 1 row" "is_active_row 1 row"
    by blast
  have "extends sample_db db"
    using store_step_extends [OF store_step.ensure [of ?E sample_db 5 7 1 None "sample_modes ''acme''"]] e
    by simp
  then have tenants: "db_tenants db = [1]" by (simp add: extends_def sample_db_def)
  have digest: "document_digest (env_encoding ?E) ?d = Inr sample_hash"
    using sample_document_digest by (simp add: sample_env_def)
  have hash: "is_ok (validate_digest [] sample_hash)"
    using sample_digest_valid by (simp add: sample_hash_def)
  let ?db = "supersede 9 1 7 1 db"
  have old: "db_revisions ?db = [row\<lparr>rr_superseded_at := Some 9\<rparr>]"
    using r by (simp add: supersede_def is_active_row_def)
  then obtain row' db' where ins: "insert_revision ?E 9 1 7 2 SourceManager ?d sample_hash None None ?db
      = Inr (row', db')"
    using hash r(2)
    by (auto simp: insert_revision_def sample_env_def sample_codec_def insert_row_def map_err_def
        has_key_def is_active_row_def Let_def)
  have "create_revision ?E 9 db 1 None 1 SourceManager ?d None = (row_to_revision ?E row', db')"
    using ins digest sample_migrated(2) tenants r
    by (simp add: create_revision_def check_snapshot_def lock_tenant_def active_policy_tx_def ok_or_def
        commit_row_def has_key_def)
  moreover from inserted_row_decodes [OF sample_codec_ok digest _ ins, of LegacySnapshotMismatch]
  have "\<exists>v. row_to_revision ?E row' = Inr v" by (auto simp: check_snapshot_def)
  ultimately show ?thesis by metis
qed

lemma create_revision_no_lost_update_example:
  "\<exists>db db'. snd (create_revision (sample_env sample_crm_write sample_trace) 9 db 1 None 1 SourceManager
       (legacy_document (sample_modes ''acme'')) None) = db'
     \<and> create_revision (sample_env sample_crm_write sample_trace) 10 db' 1 None 1 SourceRollback
         (legacy_document (sample_modes ''acme'')) None = (Inl (RevisionConflict 2), db')"
proof -
  obtain db v db' where c: "create_revision (sample_env sample_crm_write sample_trace) 9 db 1 None 1 SourceManager
      (legacy_document (sample_modes ''acme'')) None = (Inr v, db')"
    using sample_create by blast
  from create_revision_no_lost_update [OF sample_codec_ok c sample_migrated(2), of SourceRollback 10 None]
  have "create_revision (sample_env sample_crm_write sample_trace) 10 db' 1 None 1 SourceRollback
      (legacy_document (sample_modes ''acme'')) None = (Inl (RevisionConflict 2), db')" by simp
  with c show ?thesis by (metis snd_conv)
qed

lemma pg_evaluate_ok:
  assumes "pg_evaluate E modes now fresh_policy event_id db request = (Inr evaluation, db')"
  obtains v db1 trace event where
    "select_revision E modes now fresh_policy db request = (Inr v, db1)"
    "evaluate (env_encoding E) (rv_document v) (rv_identity v) (rq_input request) = Inr trace"
    "record_decision E now db1
       \<lparr>rc_tenant_id = rq_tenant_id request, rc_event_id = event_id, rc_enforcement_path = rq_path request,
        rc_authorization = authorization_for (tr_decision trace) (rq_review_state request),
        rc_approval_id = rq_approval_id request, rc_input = rq_input request, rc_trace = trace\<rparr>
       = (Inr event, db')"
    "pe_authorization evaluation = authorization_for (tr_decision trace) (rq_review_state request)"
proof -
  from assms obtain v db1 where sel: "select_revision E modes now fresh_policy db request = (Inr v, db1)"
    by (auto simp: pg_evaluate_def split: prod.splits sum.splits)
  with assms obtain trace where
    ev: "evaluate (env_encoding E) (rv_document v) (rv_identity v) (rq_input request) = Inr trace"
    by (auto simp: pg_evaluate_def split: sum.splits)
  define rec where "rec = \<lparr>rc_tenant_id = rq_tenant_id request, rc_event_id = event_id,
      rc_enforcement_path = rq_path request,
      rc_authorization = authorization_for (tr_decision trace) (rq_review_state request),
      rc_approval_id = rq_approval_id request, rc_input = rq_input request, rc_trace = trace\<rparr>"
  from assms sel ev obtain event where "record_decision E now db1 rec = (Inr event, db')"
    and "pe_authorization evaluation = authorization_for (tr_decision trace) (rq_review_state request)"
    by (auto simp: pg_evaluate_def Let_def rec_def split: prod.splits sum.splits)
  with sel ev show thesis by (intro that) (simp_all add: rec_def)
qed

text \<open>
  (C1) Nothing executes without the policy.  When the evaluator returns an evaluation that allows
  execution, the selected revision (the pinned one, if the request pins one) decides the action
  either as automatic, or as subject to review with the request carrying an approved review and
  the identifier of its approval; and the decision is in the log.
\<close>

theorem execution_requires_policy:
  assumes "pg_evaluate E modes now fresh_policy event_id db request = (Inr evaluation, db')"
    and "allows_execution evaluation"
  shows "\<exists>v db1 decision reason.
           select_revision E modes now fresh_policy db request = (Inr v, db1)
           \<and> policy_decides (rv_document v) (rq_input request) decision reason
           \<and> (decision = Auto \<or> decision = Review \<and> rq_review_state request = ReviewApproved
                                 \<and> rq_approval_id request \<noteq> None)
           \<and> (\<forall>identity. rq_pinned_policy request = Some identity \<longrightarrow> rv_identity v = identity)
           \<and> (\<exists>row \<in> set (db_events db'). dr_event_id row = event_id
                \<and> dr_tenant_id row = rq_tenant_id request \<and> dr_decision row = decision_as_str decision)"
proof -
  obtain v db1 trace event where sel: "select_revision E modes now fresh_policy db request = (Inr v, db1)"
    and ev: "evaluate (env_encoding E) (rv_document v) (rv_identity v) (rq_input request) = Inr trace"
    and recorded: "record_decision E now db1
       \<lparr>rc_tenant_id = rq_tenant_id request, rc_event_id = event_id, rc_enforcement_path = rq_path request,
        rc_authorization = authorization_for (tr_decision trace) (rq_review_state request),
        rc_approval_id = rq_approval_id request, rc_input = rq_input request, rc_trace = trace\<rparr>
       = (Inr event, db')"
    and auth: "pe_authorization evaluation = authorization_for (tr_decision trace) (rq_review_state request)"
    using pg_evaluate_ok [OF assms(1)] .
  define rec where "rec = \<lparr>rc_tenant_id = rq_tenant_id request, rc_event_id = event_id,
      rc_enforcement_path = rq_path request,
      rc_authorization = authorization_for (tr_decision trace) (rq_review_state request),
      rc_approval_id = rq_approval_id request, rc_input = rq_input request, rc_trace = trace\<rparr>"
  note r = recorded [folded rec_def]
  obtain row where ok: "verify_decision E db1 rec = Inr ()" "decision_row_of E now rec = Inr row"
    "insert_event row db1 = Inr db'"
    using r by (cases rule: record_decision_cases [of E now db1 rec]) auto
  have "row \<in> set (db_events db')" using insert_event_eq_Inr [OF ok(3)] by simp
  moreover have "dr_event_id row = event_id \<and> dr_tenant_id row = rq_tenant_id request
      \<and> dr_decision row = decision_as_str (tr_decision trace)"
    using ok(2) by (auto simp: decision_row_of_def Let_def result_simps rec_def)
  moreover have "tr_decision trace = Auto \<or> tr_decision trace = Review
      \<and> rq_review_state request = ReviewApproved \<and> rq_approval_id request \<noteq> None"
  proof (cases "tr_decision trace")
    case Review
    then have "rq_review_state request = ReviewApproved"
      using assms(2) auth by (auto simp: allows_execution_def authorization_for_def split: if_splits)
    with ok(1) Review show ?thesis
      by (auto simp: verify_decision_def result_simps rec_def authorization_for_def split: if_splits)
  qed (use assms(2) auth in \<open>auto simp: allows_execution_def authorization_for_def\<close>)
  moreover have "rq_pinned_policy request = Some identity \<Longrightarrow> rv_identity v = identity" for identity
    using sel by (auto simp: select_revision_def result_simps split: if_splits)
  ultimately show ?thesis
    using sel evaluate_decides [OF ev, of "tr_decision trace" "tr_reason trace"] by blast
qed


lemma sample_trace_facts:
  assumes "evaluate sample_encoding (legacy_document (sample_modes ''acme'')) sample_legacy_identity i = Inr t"
  shows "tr_policy t = sample_legacy_identity"
    "validate_digest field (tr_input_hash t) = Inr ()"
    "input_digest sample_encoding i = Inr (tr_input_hash t)"
proof -
  show d: "input_digest sample_encoding i = Inr (tr_input_hash t)" "tr_policy t = sample_legacy_identity"
    using evaluate_okD [OF assms] by simp_all
  from d(1) obtain bytes where "tr_input_hash t = ''sha256:'' @ sha256_hex sample_encoding bytes"
    by (auto simp: input_digest_def result_simps)
  then show "validate_digest field (tr_input_hash t) = Inr ()" using sample_digest_valid by simp
qed

text \<open>The run of the witness: the first request of a tenant migrates its modes, decides and logs.\<close>

lemma sample_evaluation:
  assumes t: "evaluate sample_encoding (legacy_document (sample_modes ''acme'')) sample_legacy_identity i = Inr t"
    and auto: "tr_decision t \<noteq> Review"
  shows "\<exists>evaluation db'. pg_evaluate (sample_env i t) (sample_modes ''acme'') 5 7 8 sample_db (sample_request i)
      = (Inr evaluation, db') \<and> pe_authorization evaluation = authorization_for (tr_decision t) ReviewNone
      \<and> length (db_events db') = 1 \<and> store_steps (sample_env i t) sample_db db'"
proof -
  let ?E = "sample_env i t" and ?auth = "authorization_for (tr_decision t) ReviewNone"
  from sample_ensure [of i t] obtain row db1 v where
    e: "ensure_legacy_policy ?E 5 7 sample_db 1 None (sample_modes ''acme'') = (Inr v, db1)"
    and r: "db_revisions db1 = [row]" "db_events db1 = []" "has_key 1 7 1 row" "row_to_revision ?E row = Inr v"
       "rv_identity v = sample_legacy_identity" "rv_document v = legacy_document (sample_modes ''acme'')"
    by (metis (no_types, lifting))
  define rec where "rec = \<lparr>rc_tenant_id = 1, rc_event_id = 8, rc_enforcement_path = PathTool,
      rc_authorization = ?auth, rc_approval_id = None, rc_input = i, rc_trace = t\<rparr>"
  have pid: "id_policy_id sample_legacy_identity = 7" "id_revision sample_legacy_identity = 1"
    "id_document_hash sample_legacy_identity = sample_hash"
    by (simp_all add: sample_legacy_identity_def sample_identity_def sample_hash_def)
  note tf = sample_trace_facts [OF t]
  have "policy_revision_of ?E db1 1 7 1 = Inr v"
    using r by (simp add: policy_revision_of_def ok_or_def)
  moreover have "authorization_matches (tr_decision t) ?auth" "?auth \<noteq> AuthApprovedReview"
    using auto by (cases "tr_decision t"; simp add: authorization_matches_def authorization_for_def)+
  ultimately have ver: "verify_decision ?E db1 rec = Inr ()"
    using t tf pid r by (simp add: verify_decision_def rec_def sample_env_def)
  obtain drow where drow: "decision_row_of ?E 5 rec = Inr drow"
    by (auto simp: decision_row_of_def rec_def sample_env_def sample_codec_def Let_def trace_digest_def
        digest_def map_err_def sample_encoding_def)
  then have cols: "dr_policy_hash drow = sample_hash" "dr_input_hash drow = tr_input_hash t"
    "dr_tenant_id drow = 1" "dr_policy_id drow = 7" "dr_policy_revision drow = 1"
    "trace_digest sample_encoding t = Inr (dr_trace_hash drow)"
    "dr_decision drow = decision_as_str (tr_decision t)"
    using tf pid by (auto simp: decision_row_of_def rec_def sample_env_def Let_def result_simps)
  have "is_ok (validate_digest [] (dr_trace_hash drow))"
    using cols(6) sample_digest_valid by (auto simp: trace_digest_def digest_eq_Inr)
  then have ins: "insert_event drow db1 = Inr (db1\<lparr>db_events := [drow]\<rparr>)"
    using cols r tf(2) sample_digest_valid by (simp add: insert_event_def sample_hash_def)
  have "decision_parse (decision_as_str (tr_decision t)) = Inr (tr_decision t)"
    by (cases "tr_decision t") (simp_all add: decision_as_str_def decision_parse_def)
  then have "\<exists>event. row_to_decision ?E drow = Inr event"
    using cols tf pid by (simp add: row_to_decision_def sample_env_def sample_codec_def)
  then obtain event where rec: "record_decision ?E 5 db1 rec = (Inr event, db1\<lparr>db_events := [drow]\<rparr>)"
    using ver drow ins by (auto simp: record_decision_def)
  have steps: "store_steps ?E sample_db (db1\<lparr>db_events := [drow]\<rparr>)"
    using store_step.ensure [of ?E sample_db 5 7 1 None "sample_modes ''acme''"]
      store_step.record_event [of ?E db1 5 rec] e rec
    by (metis (no_types, lifting) rtranclp.rtrancl_into_rtrancl rtranclp.rtrancl_refl snd_conv)
  have sel: "select_revision ?E (sample_modes ''acme'') 5 7 sample_db (sample_request i) = (Inr v, db1)"
    using e by (simp add: select_revision_def sample_request_def)
  have "evaluate (env_encoding ?E) (rv_document v) (rv_identity v) i = Inr t"
    using t r by (simp add: sample_env_def)
  then have "pg_evaluate ?E (sample_modes ''acme'') 5 7 8 sample_db (sample_request i)
    = (Inr \<lparr>pe_event_id = 8, pe_trace = de_trace event, pe_trace_hash = de_trace_hash event,
            pe_authorization = ?auth\<rparr>, db1\<lparr>db_events := [drow]\<rparr>)"
    using sel rec by (simp add: pg_evaluate_def Let_def sample_request_def rec_def)
  with steps show ?thesis by auto
qed

lemma sample_crm_auto:
  "evaluate sample_encoding (legacy_document (sample_modes ''acme'')) sample_legacy_identity sample_crm_write = Inr t
     \<Longrightarrow> tr_decision t = Auto"
  using migration_decides [OF sample_migrated(1) _ sample_crm_facts(1,2)] sample_crm_facts(3) by metis

theorem execution_requires_policy_witness:
  "\<exists>t evaluation db' row. pg_evaluate (sample_env sample_crm_write t) (sample_modes ''acme'') 5 7 8 sample_db
       (sample_request sample_crm_write) = (Inr evaluation, db')
     \<and> allows_execution evaluation \<and> row \<in> set (db_events db') \<and> dr_event_id row = 8"
proof -
  obtain t where t: "evaluate sample_encoding (legacy_document (sample_modes ''acme'')) sample_legacy_identity
    sample_crm_write = Inr t" using sample_crm_evaluates ..
  from sample_evaluation [OF t] sample_crm_auto [OF t] obtain evaluation db' where
    run: "pg_evaluate (sample_env sample_crm_write t) (sample_modes ''acme'') 5 7 8 sample_db
       (sample_request sample_crm_write) = (Inr evaluation, db')"
    "pe_authorization evaluation = AuthAuto" by (auto simp: authorization_for_def)
  then have "allows_execution evaluation" by (simp add: allows_execution_def)
  from execution_requires_policy [OF run(1) this] run(1) \<open>allows_execution evaluation\<close> show ?thesis by blast
qed

section \<open>The decision log\<close>

text \<open>An event replays when its stored revision decides its stored input the way it was logged.\<close>

definition event_replays :: "store_env \<Rightarrow> policy_db \<Rightarrow> decision_row \<Rightarrow> bool" where
  "event_replays E db row \<longleftrightarrow>
     (\<exists>v input trace.
        policy_revision_of E db (dr_tenant_id row) (dr_policy_id row) (dr_policy_revision row) = Inr v
        \<and> input_from_value (env_codec E) (dr_input row) = Inr input
        \<and> trace_from_value (env_codec E) (dr_trace row) = Inr trace
        \<and> evaluate (env_encoding E) (rv_document v) (rv_identity v) input = Inr trace
        \<and> dr_decision row = decision_as_str (tr_decision trace)
        \<and> (dr_authorization_state row = ''auto'' \<longrightarrow> tr_decision trace = Auto)
        \<and> (dr_authorization_state row = ''approved_review'' \<longrightarrow>
             tr_decision trace = Review \<and> dr_approval_id row \<noteq> None))"

lemma event_replays_extends:
  assumes "extends db db'" "event_replays E db row"
  shows "event_replays E db' row"
proof -
  from assms(2) obtain v where
    v: "policy_revision_of E db (dr_tenant_id row) (dr_policy_id row) (dr_policy_revision row) = Inr v"
    by (auto simp: event_replays_def)
  from revision_kept [OF assms(1) v] obtain v' where
    "policy_revision_of E db' (dr_tenant_id row) (dr_policy_id row) (dr_policy_revision row) = Inr v'"
    "rv_document v' = rv_document v" "rv_identity v' = rv_identity v" by blast
  with assms(2) v show ?thesis by (simp add: event_replays_def)
qed

lemma recorded_event_replays:
  assumes "codec_ok (env_codec E)" "verify_decision E db r = Inr ()" "decision_row_of E now r = Inr row"
  shows "event_replays E db row"
proof -
  from assms(2) obtain v where
    v: "policy_revision_of E db (rc_tenant_id r) (id_policy_id (tr_policy (rc_trace r)))
          (id_revision (tr_policy (rc_trace r))) = Inr v"
    and ev: "evaluate (env_encoding E) (rv_document v) (rv_identity v) (rc_input r) = Inr (rc_trace r)"
    and auth: "authorization_matches (tr_decision (rc_trace r)) (rc_authorization r)"
    "rc_authorization r = AuthApprovedReview \<Longrightarrow> rc_approval_id r \<noteq> None"
    by (auto simp: verify_decision_def result_simps split: if_splits)
  have "input_from_value (env_codec E) (dr_input row) = Inr (rc_input r)"
    "trace_from_value (env_codec E) (dr_trace row) = Inr (rc_trace r)"
    using assms(1,3) by (auto simp: decision_row_of_def Let_def result_simps codec_ok_def)
  moreover have "dr_tenant_id row = rc_tenant_id r" "dr_policy_id row = id_policy_id (tr_policy (rc_trace r))"
    "dr_policy_revision row = id_revision (tr_policy (rc_trace r))"
    "dr_decision row = decision_as_str (tr_decision (rc_trace r))"
    "dr_authorization_state row = authorization_as_str (rc_authorization r)"
    "dr_approval_id row = rc_approval_id r"
    using assms(3) by (auto simp: decision_row_of_def Let_def result_simps)
  ultimately show ?thesis
    unfolding event_replays_def using v ev auth
    by (intro exI [of _ v] exI [of _ "rc_input r"] exI [of _ "rc_trace r"])
      (auto simp: authorization_as_str_def authorization_matches_def
        split: policy_authorization.splits policy_decision.splits)
qed

lemma store_step_replays:
  assumes "codec_ok (env_codec E)" "store_step E db db'" "\<forall>row \<in> set (db_events db). event_replays E db row"
  shows "\<forall>row \<in> set (db_events db'). event_replays E db' row"
proof
  fix row assume row: "row \<in> set (db_events db')"
  have ext: "extends db db'" using assms(2) by (rule store_step_extends)
  have "row \<in> set (db_events db) \<or> event_replays E db row"
    using assms(2)
  proof cases
    case (ensure now fresh tenant created_by modes)
    with row show ?thesis
      by (cases rule: ensure_legacy_cases [of E now fresh db tenant created_by modes])
        (auto dest!: insert_revision_eq_InrD(1) simp: insert_row_eq_Inr)
  next
    case (create now tenant created_by expected source d modes)
    with row show ?thesis
      by (cases rule: create_revision_cases [of E now db tenant created_by expected source d modes])
        (auto dest!: insert_revision_eq_InrD(1) simp: insert_row_eq_Inr)
  next
    case (record_event now r)
    with row show ?thesis
      by (cases rule: record_decision_cases [of E now db r])
        (auto dest!: insert_event_eq_Inr intro: recorded_event_replays [OF assms(1)])
  qed
  with assms(3) ext event_replays_extends show "event_replays E db' row" by blast
qed

lemma store_steps_replay:
  "store_steps E db db' \<Longrightarrow> codec_ok (env_codec E) \<Longrightarrow> \<forall>row \<in> set (db_events db). event_replays E db row \<Longrightarrow>
     \<forall>row \<in> set (db_events db'). event_replays E db' row"
  by (induction rule: rtranclp_induct) (auto dest: store_step_replays)



end
