(* ===== verification/Approval.thy ===== *)
theory Approval
  imports Policy_Core
begin

text \<open>
  Review requests: the record and the store contract of
  \<open>crates/gadgetron-core/src/workbench/approval.rs\<close>, the in-memory store of
  \<open>crates/gadgetron-gateway/src/web/approval_store.rs\<close>, and the waiting caller of
  \<open>crates/gadgetron-gateway/src/policy_enforcement.rs\<close>.

  The contract of the trait \<open>ApprovalStore\<close> is the locale \<open>approval_store\<close>; its consequences are
  proved there and hold for the in-memory store by interpretation.  A poisoned mutex is the flag
  \<open>ap_poisoned\<close>; times are arguments.  The waiting caller polls while other callers use the store:
  what they do between two of its steps is an argument, constrained only to consist of operations
  of the store.
\<close>

section \<open>Records\<close>

record authenticated_context =
  ac_api_key_id :: uuid
  ac_tenant_id :: uuid
  ac_real_user_id :: "uuid option"

definition system_context :: authenticated_context where
  "system_context = \<lparr>ac_api_key_id = 0, ac_tenant_id = 0, ac_real_user_id = None\<rparr>"

definition acting_user :: "authenticated_context \<Rightarrow> uuid" where
  "acting_user a = (case ac_real_user_id a of Some u \<Rightarrow> u | None \<Rightarrow> ac_api_key_id a)"

datatype approval_resume_strategy = ResumeWorkbenchAction | ResumeWaitingCaller

record approval_policy_binding =
  pb_policy :: policy_identity
  pb_input_hash :: string
  pb_decision_event_id :: uuid

datatype approval_state = Pending | Approved | Denied

definition approval_state_as_str :: "approval_state \<Rightarrow> string" where
  "approval_state_as_str s =
     (case s of Pending \<Rightarrow> ''pending'' | Approved \<Rightarrow> ''approved'' | Denied \<Rightarrow> ''denied'')"

record approval_request =
  ar_id :: uuid
  ar_action_id :: string
  ar_gadget_name :: "string option"
  ar_args :: json
  ar_requested_by_user_id :: uuid
  ar_tenant_id :: uuid
  ar_state :: approval_state
  ar_created_at :: int
  ar_resolved_at :: "int option"
  ar_resolved_by_user_id :: "uuid option"
  ar_deny_reason :: "string option"
  ar_policy_binding :: "approval_policy_binding option"
  ar_resume_strategy :: approval_resume_strategy

definition new_pending ::
  "int \<Rightarrow> uuid \<Rightarrow> authenticated_context \<Rightarrow> string \<Rightarrow> string option \<Rightarrow> json \<Rightarrow> approval_request" where
  "new_pending now rid actor action_id gadget_name args =
     \<lparr>ar_id = rid, ar_action_id = action_id, ar_gadget_name = gadget_name, ar_args = args,
      ar_requested_by_user_id = acting_user actor, ar_tenant_id = ac_tenant_id actor,
      ar_state = Pending, ar_created_at = now, ar_resolved_at = None, ar_resolved_by_user_id = None,
      ar_deny_reason = None, ar_policy_binding = None, ar_resume_strategy = ResumeWorkbenchAction\<rparr>"

definition with_policy_binding :: "approval_policy_binding \<Rightarrow> approval_request \<Rightarrow> approval_request" where
  "with_policy_binding binding r = r\<lparr>ar_policy_binding := Some binding\<rparr>"

definition with_resume_strategy :: "approval_resume_strategy \<Rightarrow> approval_request \<Rightarrow> approval_request" where
  "with_resume_strategy strategy r = r\<lparr>ar_resume_strategy := strategy\<rparr>"

datatype approval_error =
    ApprovalNotFound
  | AlreadyResolved approval_state
  | CrossTenant
  | Backend string

definition approval_error_display :: "approval_error \<Rightarrow> string" where
  "approval_error_display e =
     (case e of
        ApprovalNotFound \<Rightarrow> ''approval not found''
      | AlreadyResolved s \<Rightarrow> ''approval already resolved (state='' @ approval_state_as_str s @ '')''
      | CrossTenant \<Rightarrow> ''approval belongs to a different tenant''
      | Backend m \<Rightarrow> ''approval store backend error: '' @ m)"

section \<open>The in-memory store\<close>

record approval_memory =
  ap_inner :: "uuid \<rightharpoonup> approval_request"
  ap_poisoned :: bool

definition approval_memory_new :: approval_memory where
  "approval_memory_new = \<lparr>ap_inner = Map.empty, ap_poisoned = False\<rparr>"

definition approval_lock :: "approval_memory \<Rightarrow> (approval_error, uuid \<rightharpoonup> approval_request) result" where
  "approval_lock s = (if ap_poisoned s then Inl (Backend ''mutex poisoned'') else Inr (ap_inner s))"

text \<open>An operation that writes: an error leaves the map, success replaces it.\<close>

definition write_back ::
  "approval_memory \<Rightarrow> (approval_error, approval_request) result
    \<Rightarrow> (approval_error, approval_request) result \<times> approval_memory" where
  "write_back s r =
     (r, case r of Inl _ \<Rightarrow> s | Inr e \<Rightarrow> s\<lparr>ap_inner := (ap_inner s)(ar_id e \<mapsto> e)\<rparr>)"

definition approval_create ::
  "(uuid \<Rightarrow> string) \<Rightarrow> approval_request \<Rightarrow> approval_memory
    \<Rightarrow> (approval_error, approval_request) result \<times> approval_memory" where
  "approval_create show_id request s =
     write_back s
       (and_then (approval_lock s) (\<lambda>m.
          if m (ar_id request) \<noteq> None
          then Inl (Backend (''duplicate approval id '' @ show_id (ar_id request)))
          else Inr request))"

definition approval_get :: "uuid \<Rightarrow> approval_memory \<Rightarrow> (approval_error, approval_request) result" where
  "approval_get rid s = and_then (approval_lock s) (\<lambda>m. ok_or (m rid) ApprovalNotFound)"

text \<open>The entry stays under its key \<open>rid\<close>; \<open>mark\<close> is the update of the entry in place.\<close>

definition resolve_entry ::
  "uuid \<Rightarrow> authenticated_context \<Rightarrow> (approval_request \<Rightarrow> approval_request) \<Rightarrow> approval_memory
    \<Rightarrow> (approval_error, approval_request) result \<times> approval_memory" where
  "resolve_entry rid approver mark s =
     (case and_then (approval_lock s) (\<lambda>m. and_then (ok_or (m rid) ApprovalNotFound) (\<lambda>entry.
             if ar_tenant_id entry \<noteq> ac_tenant_id approver then Inl CrossTenant
             else if ar_state entry \<noteq> Pending then Inl (AlreadyResolved (ar_state entry))
             else Inr (mark entry))) of
        Inl e \<Rightarrow> (Inl e, s)
      | Inr entry \<Rightarrow> (Inr entry, s\<lparr>ap_inner := (ap_inner s)(rid \<mapsto> entry)\<rparr>))"

definition mark_approved ::
  "int \<Rightarrow> uuid \<Rightarrow> authenticated_context \<Rightarrow> approval_memory
    \<Rightarrow> (approval_error, approval_request) result \<times> approval_memory" where
  "mark_approved now rid approver =
     resolve_entry rid approver
       (\<lambda>entry. entry\<lparr>ar_state := Approved, ar_resolved_at := Some now,
                      ar_resolved_by_user_id := Some (acting_user approver)\<rparr>)"

definition mark_denied ::
  "int \<Rightarrow> uuid \<Rightarrow> authenticated_context \<Rightarrow> string option \<Rightarrow> approval_memory
    \<Rightarrow> (approval_error, approval_request) result \<times> approval_memory" where
  "mark_denied now rid approver reason =
     resolve_entry rid approver
       (\<lambda>entry. entry\<lparr>ar_state := Denied, ar_resolved_at := Some now,
                      ar_resolved_by_user_id := Some (acting_user approver), ar_deny_reason := reason\<rparr>)"

definition list_pending ::
  "uuid list \<Rightarrow> uuid \<Rightarrow> approval_memory \<Rightarrow> (approval_error, approval_request list) result" where
  "list_pending order tenant s =
     and_then (approval_lock s) (\<lambda>m.
       Inr (sort_by (\<lambda>a b. ar_created_at b \<le> ar_created_at a)
              (filter (\<lambda>r. ar_tenant_id r = tenant \<and> ar_state r = Pending) (hm_values order m))))"

section \<open>The contract of a store\<close>

text \<open>
  The lifecycle laws of the trait: a created record is stored as given; resolving succeeds only on a
  pending record of the approver's tenant and resolves it; an error changes no record.
\<close>

locale approval_store =
  fixes create :: "approval_request \<Rightarrow> 's \<Rightarrow> (approval_error, approval_request) result \<times> 's"
    and approve :: "int \<Rightarrow> uuid \<Rightarrow> authenticated_context \<Rightarrow> 's \<Rightarrow> (approval_error, approval_request) result \<times> 's"
    and deny :: "int \<Rightarrow> uuid \<Rightarrow> authenticated_context \<Rightarrow> string option \<Rightarrow> 's
                  \<Rightarrow> (approval_error, approval_request) result \<times> 's"
    and lookup :: "'s \<Rightarrow> uuid \<rightharpoonup> approval_request"
  assumes create_ok: "create r s = (Inr r', s') \<Longrightarrow>
        r' = r \<and> lookup s (ar_id r) = None \<and> lookup s' = (lookup s)(ar_id r \<mapsto> r)"
    and approve_ok: "approve now i a s = (Inr r', s') \<Longrightarrow>
        \<exists>r. lookup s i = Some r \<and> ar_state r = Pending \<and> ar_tenant_id r = ac_tenant_id a
          \<and> r' = r\<lparr>ar_state := Approved, ar_resolved_at := Some now,
                   ar_resolved_by_user_id := Some (acting_user a)\<rparr>
          \<and> lookup s' = (lookup s)(i \<mapsto> r')"
    and deny_ok: "deny now i a reason s = (Inr r', s') \<Longrightarrow>
        \<exists>r. lookup s i = Some r \<and> ar_state r = Pending \<and> ar_tenant_id r = ac_tenant_id a
          \<and> r' = r\<lparr>ar_state := Denied, ar_resolved_at := Some now,
                   ar_resolved_by_user_id := Some (acting_user a), ar_deny_reason := reason\<rparr>
          \<and> lookup s' = (lookup s)(i \<mapsto> r')"
    and create_err: "create r s = (Inl e, s') \<Longrightarrow> lookup s' = lookup s"
    and approve_err: "approve now i a s = (Inl e, s') \<Longrightarrow> lookup s' = lookup s"
    and deny_err: "deny now i a reason s = (Inl e, s') \<Longrightarrow> lookup s' = lookup s"
begin

text \<open>How a record may change in one operation.\<close>

definition evolves :: "approval_request \<Rightarrow> approval_request \<Rightarrow> bool" where
  "evolves r r' \<longleftrightarrow> r' = r \<or> ar_state r = Pending \<and> ar_state r' \<noteq> Pending
     \<and> ar_tenant_id r' = ar_tenant_id r \<and> ar_args r' = ar_args r \<and> ar_action_id r' = ar_action_id r
     \<and> ar_gadget_name r' = ar_gadget_name r \<and> ar_policy_binding r' = ar_policy_binding r
     \<and> ar_requested_by_user_id r' = ar_requested_by_user_id r"

lemma create_evolves: "lookup s i = Some r \<Longrightarrow> \<exists>r'. lookup (snd (create q s)) i = Some r' \<and> evolves r r'"
  by (cases "create q s"; cases "fst (create q s)") (auto simp: evolves_def dest!: create_ok create_err)

lemma approve_evolves:
  "lookup s i = Some r \<Longrightarrow> \<exists>r'. lookup (snd (approve now k a s)) i = Some r' \<and> evolves r r'"
  by (cases "approve now k a s"; cases "fst (approve now k a s)")
    (auto simp: evolves_def dest!: approve_ok approve_err)

lemma deny_evolves:
  "lookup s i = Some r \<Longrightarrow> \<exists>r'. lookup (snd (deny now k a reason s)) i = Some r' \<and> evolves r r'"
  by (cases "deny now k a reason s"; cases "fst (deny now k a reason s)")
    (auto simp: evolves_def dest!: deny_ok deny_err)

lemma evolves_trans: "evolves a b \<Longrightarrow> evolves b c \<Longrightarrow> evolves a c"
  by (auto simp: evolves_def)

lemma evolves_resolved: "evolves r r' \<Longrightarrow> ar_state r \<noteq> Pending \<Longrightarrow> r' = r"
  by (auto simp: evolves_def)

end

lemma resolve_entry_eq:
  "resolve_entry i a mark s = (Inr r', s') \<longleftrightarrow>
     \<not> ap_poisoned s \<and> (\<exists>r. ap_inner s i = Some r \<and> ar_state r = Pending \<and> ar_tenant_id r = ac_tenant_id a
       \<and> r' = mark r \<and> s' = s\<lparr>ap_inner := (ap_inner s)(i \<mapsto> r')\<rparr>)"
  "resolve_entry i a mark s = (Inl e, s') \<Longrightarrow> s' = s"
  by (auto simp: resolve_entry_def approval_lock_def ok_or_def split: option.splits sum.splits if_splits)

interpretation mem: approval_store "approval_create show_id" mark_approved mark_denied ap_inner
proof
  show "approval_create show_id r s = (Inr r', s') \<Longrightarrow>
      r' = r \<and> ap_inner s (ar_id r) = None \<and> ap_inner s' = (ap_inner s)(ar_id r \<mapsto> r)" for r s r' s'
    by (auto simp: approval_create_def write_back_def approval_lock_def split: if_splits)
  show "approval_create show_id r s = (Inl e, s') \<Longrightarrow> ap_inner s' = ap_inner s" for r s e s'
    by (auto simp: approval_create_def write_back_def)
qed (auto simp: mark_approved_def mark_denied_def resolve_entry_eq(1) dest: resolve_entry_eq(2))

section \<open>Sequences of operations\<close>

inductive approval_step :: "approval_memory \<Rightarrow> approval_memory \<Rightarrow> bool" where
  "approval_step s (snd (approval_create show_id r s))"
| "approval_step s (snd (mark_approved now i a s))"
| "approval_step s (snd (mark_denied now i a reason s))"

abbreviation approval_steps :: "approval_memory \<Rightarrow> approval_memory \<Rightarrow> bool" where
  "approval_steps \<equiv> approval_step\<^sup>*\<^sup>*"

lemma approval_step_evolves:
  "approval_step s s' \<Longrightarrow> ap_inner s i = Some r \<Longrightarrow> \<exists>r'. ap_inner s' i = Some r' \<and> mem.evolves r r'"
  by (induction rule: approval_step.induct)
    (auto intro: mem.create_evolves mem.approve_evolves mem.deny_evolves)

lemma approval_steps_evolve:
  "approval_steps s s' \<Longrightarrow> ap_inner s i = Some r \<Longrightarrow> \<exists>r'. ap_inner s' i = Some r' \<and> mem.evolves r r'"
proof (induction rule: rtranclp_induct)
  case base
  then show ?case by (auto simp: mem.evolves_def)
next
  case (step b c)
  then obtain r' where "ap_inner b i = Some r'" "mem.evolves r r'" by blast
  with approval_step_evolves [OF step.hyps(2), of i r'] show ?case by (auto intro: mem.evolves_trans)
qed

lemma resolved_stays:
  "approval_steps s s' \<Longrightarrow> ap_inner s i = Some r \<Longrightarrow> ar_state r \<noteq> Pending \<Longrightarrow> ap_inner s' i = Some r"
  using approval_steps_evolve mem.evolves_resolved by blast

lemma approval_step_poisoned: "approval_step s s' \<Longrightarrow> ap_poisoned s' = ap_poisoned s"
  by (induction rule: approval_step.induct)
    (auto simp: approval_create_def write_back_def mark_approved_def mark_denied_def resolve_entry_def
      split: sum.splits)

lemma approval_steps_poisoned: "approval_steps s s' \<Longrightarrow> ap_poisoned s' = ap_poisoned s"
  by (induction rule: rtranclp_induct) (auto simp: approval_step_poisoned)

text \<open>
  A resolved request never flips and its content never changes.  Whatever operations run on the
  store, in whatever order and by whichever tenants, an approved or denied request stays exactly as
  it was resolved, and a pending one keeps its tenant, requester, arguments and policy binding.
\<close>

lemma resolution_is_final:
  assumes "approval_steps s s'" "ap_inner s i = Some r"
  shows "\<exists>r'. ap_inner s' i = Some r'
           \<and> (if ar_state r = Pending
              then ar_tenant_id r' = ar_tenant_id r \<and> ar_args r' = ar_args r
                   \<and> ar_policy_binding r' = ar_policy_binding r
                   \<and> ar_requested_by_user_id r' = ar_requested_by_user_id r
              else r' = r)"
  using approval_steps_evolve [OF assms] by (auto simp: mem.evolves_def)

text \<open>Resolutions attempted by callers of one tenant.\<close>

inductive tenant_resolves :: "uuid \<Rightarrow> approval_memory \<Rightarrow> approval_memory \<Rightarrow> bool" for tenant where
  "ac_tenant_id a = tenant \<Longrightarrow> tenant_resolves tenant s (snd (mark_approved now i a s))"
| "ac_tenant_id a = tenant \<Longrightarrow> tenant_resolves tenant s (snd (mark_denied now i a reason s))"

lemma resolve_entry_isolated:
  assumes "ap_inner s i = Some r" "ar_tenant_id r \<noteq> ac_tenant_id a"
  shows "ap_inner (snd (resolve_entry k a mark s)) i = Some r"
  using assms by (auto simp: resolve_entry_def result_simps approval_lock_def split: sum.splits if_splits)

lemma tenant_resolves_isolated:
  "tenant_resolves tenant s s' \<Longrightarrow> ap_inner s i = Some r \<Longrightarrow> ar_tenant_id r \<noteq> tenant \<Longrightarrow> ap_inner s' i = Some r"
  by (induction rule: tenant_resolves.induct)
    (auto simp: mark_approved_def mark_denied_def resolve_entry_isolated)


section \<open>The waiting caller\<close>

datatype approval_wait_error = WaitDenied | WaitTimedOut | WaitStore approval_error

definition map_store_err ::
  "(approval_error, approval_request) result \<Rightarrow> (approval_wait_error, approval_request) result" where
  "map_store_err r = (case r of Inl e \<Rightarrow> Inl (WaitStore e) | Inr a \<Rightarrow> Inr a)"

text \<open>
  \<open>we_clock i\<close> is the time the loop reads in its round \<open>i\<close>, \<open>we_others k\<close> what other callers do to
  the store while the caller is suspended for the \<open>k\<close>-th time.
\<close>

record wait_env =
  we_clock :: "nat \<Rightarrow> int"
  we_others :: "nat \<Rightarrow> approval_memory \<Rightarrow> approval_memory"

definition expire_pending_approval ::
  "wait_env \<Rightarrow> nat \<Rightarrow> uuid \<Rightarrow> authenticated_context \<Rightarrow> approval_memory
    \<Rightarrow> (approval_wait_error, approval_request) result \<times> approval_memory" where
  "expire_pending_approval W i rid actor s =
     (case approval_get rid s of
        Inl e \<Rightarrow> (Inl (WaitStore e), s)
      | Inr r \<Rightarrow>
          (let s1 = we_others W (2 * i) s in
           case ar_state r of
             Approved \<Rightarrow> (map_store_err (approval_get rid s1), s1)
           | Denied \<Rightarrow> (Inl WaitDenied, s)
           | Pending \<Rightarrow>
               (case mark_denied (we_clock W i) rid actor (Some ''Review window expired'') s1 of
                  (Inr _, s2) \<Rightarrow> (Inl WaitTimedOut, s2)
                | (Inl (AlreadyResolved Approved), s2) \<Rightarrow>
                    (let s3 = we_others W (2 * i + 1) s2 in (map_store_err (approval_get rid s3), s3))
                | (Inl (AlreadyResolved Denied), s2) \<Rightarrow> (Inl WaitDenied, s2)
                | (Inl e, s2) \<Rightarrow> (Inl (WaitStore e), s2))))"

fun wait_loop ::
  "nat \<Rightarrow> wait_env \<Rightarrow> int \<Rightarrow> nat \<Rightarrow> uuid \<Rightarrow> authenticated_context \<Rightarrow> approval_memory
    \<Rightarrow> ((approval_wait_error, approval_request) result \<times> approval_memory) option" where
  "wait_loop 0 W deadline i rid actor s = None"
| "wait_loop (Suc fuel) W deadline i rid actor s =
     (if deadline \<le> we_clock W i then Some (expire_pending_approval W i rid actor s)
      else
        let s1 = we_others W (2 * i) s in
        case approval_get rid s1 of
          Inl e \<Rightarrow> Some (Inl (WaitStore e), s1)
        | Inr r \<Rightarrow>
            (case ar_state r of
               Pending \<Rightarrow> wait_loop fuel W deadline (Suc i) rid actor s1
             | Approved \<Rightarrow>
                 (let s2 = we_others W (2 * i + 1) s1 in Some (map_store_err (approval_get rid s2), s2))
             | Denied \<Rightarrow> Some (Inl WaitDenied, s1)))"

definition wait_for_approval ::
  "nat \<Rightarrow> (uuid \<Rightarrow> string) \<Rightarrow> wait_env \<Rightarrow> int \<Rightarrow> int \<Rightarrow> approval_request \<Rightarrow> approval_memory
    \<Rightarrow> ((approval_wait_error, approval_request) result \<times> approval_memory) option" where
  "wait_for_approval fuel show_id W now timeout request s =
     (let timeout_actor = \<lparr>ac_api_key_id = 0, ac_tenant_id = ar_tenant_id request,
                           ac_real_user_id = Some (ar_requested_by_user_id request)\<rparr>
      in case approval_create show_id request s of
           (Inl e, s') \<Rightarrow> Some (Inl (WaitStore e), s')
         | (Inr _, s') \<Rightarrow> wait_loop fuel W (now + timeout) 0 (ar_id request) timeout_actor s')"

definition interference_ok :: "wait_env \<Rightarrow> bool" where
  "interference_ok W \<longleftrightarrow> (\<forall>k s. approval_steps s (we_others W k s))"

text \<open>What the caller knows while it waits: its request is stored, in its tenant.\<close>

definition waiting_for :: "uuid \<Rightarrow> authenticated_context \<Rightarrow> approval_memory \<Rightarrow> bool" where
  "waiting_for rid actor s \<longleftrightarrow>
     \<not> ap_poisoned s \<and> (\<exists>r. ap_inner s rid = Some r \<and> ar_tenant_id r = ac_tenant_id actor)"

definition wait_outcome_ok ::
  "uuid \<Rightarrow> (approval_wait_error, approval_request) result \<times> approval_memory \<Rightarrow> bool" where
  "wait_outcome_ok rid out =
     (case fst out of
        Inr r \<Rightarrow> ar_state r = Approved \<and> ap_inner (snd out) rid = Some r
      | Inl WaitTimedOut \<Rightarrow> (\<exists>r. ap_inner (snd out) rid = Some r \<and> ar_state r = Denied
                               \<and> ar_deny_reason r = Some ''Review window expired'')
      | Inl WaitDenied \<Rightarrow> (\<exists>r. ap_inner (snd out) rid = Some r \<and> ar_state r = Denied)
      | Inl (WaitStore _) \<Rightarrow> False)"

lemma waiting_for_steps: "approval_steps s s' \<Longrightarrow> waiting_for rid actor s \<Longrightarrow> waiting_for rid actor s'"
  using approval_steps_evolve approval_steps_poisoned
  by (fastforce simp: waiting_for_def mem.evolves_def)

lemma approval_get_waiting:
  "waiting_for rid actor s \<Longrightarrow> \<exists>r. approval_get rid s = Inr r \<and> ap_inner s rid = Some r"
  by (auto simp: waiting_for_def approval_get_def approval_lock_def ok_or_def)

lemma read_after_approved:
  assumes "interference_ok W" "waiting_for rid actor s" "ap_inner s rid = Some r" "ar_state r = Approved"
  shows "wait_outcome_ok rid (map_store_err (approval_get rid (we_others W k s)), we_others W k s)"
proof -
  have steps: "approval_steps s (we_others W k s)" using assms(1) by (simp add: interference_ok_def)
  have "ap_inner (we_others W k s) rid = Some r"
    using resolved_stays [OF steps assms(3)] assms(4) by simp
  moreover have "\<not> ap_poisoned (we_others W k s)"
    using waiting_for_steps [OF steps assms(2)] by (simp add: waiting_for_def)
  ultimately show ?thesis
    using assms(4)
    by (simp add: wait_outcome_ok_def map_store_err_def approval_get_def approval_lock_def ok_or_def)
qed

lemma expire_outcome:
  assumes W: "interference_ok W" and s: "waiting_for rid actor s"
  shows "wait_outcome_ok rid (expire_pending_approval W i rid actor s)"
proof -
  from approval_get_waiting [OF s] obtain r where r: "approval_get rid s = Inr r" "ap_inner s rid = Some r"
    by blast
  let ?s1 = "we_others W (2 * i) s"
  have steps: "approval_steps s ?s1" using W by (simp add: interference_ok_def)
  have s1: "waiting_for rid actor ?s1" using waiting_for_steps [OF steps s] .
  then obtain r1 where r1: "ap_inner ?s1 rid = Some r1" "ar_tenant_id r1 = ac_tenant_id actor" "\<not> ap_poisoned ?s1"
    by (auto simp: waiting_for_def)
  show ?thesis
  proof (cases "ar_state r")
    case Approved
    with r read_after_approved [OF W s r(2) Approved] show ?thesis
      by (simp add: expire_pending_approval_def Let_def)
  next
    case Denied
    with r show ?thesis by (simp add: expire_pending_approval_def wait_outcome_ok_def Let_def)
  next
    case Pending
    show ?thesis
    proof (cases "ar_state r1")
      case Approved
      with Pending r r1 read_after_approved [OF W s1 r1(1) Approved] show ?thesis
        by (simp add: expire_pending_approval_def Let_def mark_denied_def resolve_entry_def approval_lock_def ok_or_def)
    qed (use Pending r r1 in \<open>simp_all add: expire_pending_approval_def Let_def mark_denied_def resolve_entry_def
        approval_lock_def ok_or_def wait_outcome_ok_def\<close>)
  qed
qed

lemma wait_loop_outcome:
  assumes "interference_ok W" "waiting_for rid actor s" "wait_loop fuel W deadline i rid actor s = Some out"
  shows "wait_outcome_ok rid out"
  using assms(2,3)
proof (induction fuel arbitrary: i s)
  case 0
  then show ?case by simp
next
  case (Suc fuel)
  let ?s1 = "we_others W (2 * i) s"
  have s1: "waiting_for rid actor ?s1"
    using waiting_for_steps [OF _ Suc.prems(1)] assms(1) by (simp add: interference_ok_def)
  from approval_get_waiting [OF s1] obtain r where r: "approval_get rid ?s1 = Inr r" "ap_inner ?s1 rid = Some r"
    by blast
  show ?case
  proof (cases "deadline \<le> we_clock W i")
    case True
    with Suc.prems expire_outcome [OF assms(1) Suc.prems(1)] show ?thesis by auto
  next
    case False
    show ?thesis
    proof (cases "ar_state r")
      case Pending
      with False r Suc.prems(2) Suc.IH [OF s1] show ?thesis by (simp add: Let_def)
    next
      case Approved
      with False r Suc.prems(2) read_after_approved [OF assms(1) s1 r(2) Approved] show ?thesis
        by (auto simp: Let_def)
    next
      case Denied
      with False r Suc.prems(2) show ?thesis by (auto simp: Let_def wait_outcome_ok_def)
    qed
  qed
qed

lemma wait_loop_returns:
  "deadline \<le> we_clock W (i + n) \<Longrightarrow> \<exists>out. wait_loop (Suc n) W deadline i rid actor s = Some out"
proof (induction n arbitrary: i s)
  case 0
  then show ?case by simp
next
  case (Suc n)
  show ?case
  proof (cases "deadline \<le> we_clock W i")
    case True
    then show ?thesis by simp
  next
    case False
    from Suc.prems have "deadline \<le> we_clock W (Suc i + n)" by simp
    from Suc.IH [OF this] False show ?thesis
      by (auto simp: Let_def simp del: wait_loop.simps(2) simp: wait_loop.simps(2) [of "Suc n"]
          split: sum.splits approval_state.splits)
  qed
qed

text \<open>
  (C11) Waiting for a review ends, and ends consistently.  If the clock passes the deadline in some
  round, the caller returns within that many rounds, whatever other callers do to the store
  meanwhile.  It returns a request only if that request is stored as approved; if it reports a
  timeout, the request is stored as denied with the reason that the window expired; if it reports a
  denial, the request is stored as denied.  By finality, no later approval can revive it.
\<close>

theorem waiting_caller_is_sound:
  assumes "interference_ok W" "\<not> ap_poisoned s" "ap_inner s (ar_id request) = None"
    and "now + timeout \<le> we_clock W rounds"
  shows "\<exists>out. wait_for_approval (Suc rounds) show_id W now timeout request s = Some out
           \<and> wait_outcome_ok (ar_id request) out"
proof -
  let ?actor = "\<lparr>ac_api_key_id = 0, ac_tenant_id = ar_tenant_id request,
                 ac_real_user_id = Some (ar_requested_by_user_id request)\<rparr>"
  let ?s = "s\<lparr>ap_inner := (ap_inner s)(ar_id request \<mapsto> request)\<rparr>"
  have "approval_create show_id request s = (Inr request, ?s)"
    using assms(2,3) by (simp add: approval_create_def write_back_def approval_lock_def)
  then have run: "wait_for_approval (Suc rounds) show_id W now timeout request s
      = wait_loop (Suc rounds) W (now + timeout) 0 (ar_id request) ?actor ?s"
    by (simp only: wait_for_approval_def Let_def prod.case sum.case)
  have "waiting_for (ar_id request) ?actor ?s" using assms(2) by (simp add: waiting_for_def)
  moreover have "now + timeout \<le> we_clock W (0 + rounds)" using assms(4) by simp
  from wait_loop_returns [OF this] obtain out where
    "wait_loop (Suc rounds) W (now + timeout) 0 (ar_id request) ?actor ?s = Some out" by blast
  ultimately show ?thesis
    using wait_loop_outcome [OF assms(1)] run by metis
qed

section \<open>Witnesses\<close>

definition sample_review :: approval_request where
  "sample_review = new_pending 0 3 \<lparr>ac_api_key_id = 1, ac_tenant_id = 2, ac_real_user_id = None\<rparr>
     ''wiki-write'' None JNull"

definition sample_manager :: "uuid \<Rightarrow> authenticated_context" where
  "sample_manager tenant = \<lparr>ac_api_key_id = 9, ac_tenant_id = tenant, ac_real_user_id = Some 8\<rparr>"

definition sample_reviews :: approval_memory where
  "sample_reviews = \<lparr>ap_inner = [3 \<mapsto> sample_review], ap_poisoned = False\<rparr>"

lemma resolution_is_final_example:
  "ap_inner (snd (mark_denied 5 3 (sample_manager 2) None (snd (mark_approved 4 3 (sample_manager 2) sample_reviews)))) 3
     = ap_inner (snd (mark_approved 4 3 (sample_manager 2) sample_reviews)) 3"
proof -
  let ?s = "snd (mark_approved 4 3 (sample_manager 2) sample_reviews)"
  obtain r where r: "ap_inner ?s 3 = Some r" "ar_state r = Approved"
    by (simp add: mark_approved_def resolve_entry_def approval_lock_def ok_or_def sample_reviews_def
        sample_review_def new_pending_def sample_manager_def)
  from resolution_is_final [OF r_into_rtranclp [of approval_step, OF approval_step.intros(3)] r(1),
      of 5 3 "sample_manager 2" None] r show ?thesis by auto
qed


theorem waiting_caller_is_sound_witness:
  "\<exists>out. wait_for_approval 5 (\<lambda>_. [])
       \<lparr>we_clock = (\<lambda>i. int i * 250), we_others = (\<lambda>k s. snd (mark_approved 1 3 (sample_manager 2) s))\<rparr>
       0 1000 sample_review approval_memory_new = Some out \<and> wait_outcome_ok (ar_id sample_review) out"
proof -
  let ?W = "\<lparr>we_clock = (\<lambda>i. int i * 250), we_others = (\<lambda>k s. snd (mark_approved 1 3 (sample_manager 2) s))\<rparr>"
  have "interference_ok ?W"
    by (auto simp: interference_ok_def intro!: r_into_rtranclp approval_step.intros)
  from waiting_caller_is_sound [OF this, of approval_memory_new sample_review 0 1000 4 "\<lambda>_. []"]
  show ?thesis by (simp add: approval_memory_new_def)
qed

end
