(* ===== verification/Tenant_Context.thy ===== *)
theory Tenant_Context
  imports Gadgetron_Prelude
begin

text \<open>
  The identity of a request: \<open>Scope\<close>, \<open>QuotaSnapshot\<close> and \<open>TenantContext\<close> of
  \<open>crates/gadgetron-core/src/context.rs\<close>, the \<open>ValidatedKey\<close> of
  \<open>crates/gadgetron-xaas/src/auth/validator.rs\<close>, and the middleware
  \<open>crates/gadgetron-gateway/src/middleware/tenant_context.rs\<close> that builds the one from the other.
  An \<open>i64\<close> is an integer; its subtraction wraps.
\<close>

datatype scope = OpenAiCompat | Management | XaasAdmin

definition scope_as_str :: "scope \<Rightarrow> string" where
  "scope_as_str s =
     (case s of OpenAiCompat \<Rightarrow> ''openai_compat'' | Management \<Rightarrow> ''management'' | XaasAdmin \<Rightarrow> ''xaas_admin'')"

definition wrap_i64 :: "int \<Rightarrow> int" where
  "wrap_i64 v = (v + 2 ^ 63) mod 2 ^ 64 - 2 ^ 63"

definition i64_max :: int where
  "i64_max = 2 ^ 63 - 1"

record quota_snapshot =
  qs_daily_limit_cents :: int
  qs_daily_used_cents :: int
  qs_monthly_limit_cents :: int
  qs_monthly_used_cents :: int

definition remaining_daily_cents :: "quota_snapshot \<Rightarrow> int" where
  "remaining_daily_cents q = wrap_i64 (qs_daily_limit_cents q - qs_daily_used_cents q)"

record validated_key =
  vk_api_key_id :: uuid
  vk_tenant_id :: uuid
  vk_scopes :: "scope list"
  vk_user_id :: "uuid option"

record tenant_context =
  tc_tenant_id :: uuid
  tc_api_key_id :: uuid
  tc_scopes :: "scope list"
  tc_quota_snapshot :: quota_snapshot
  tc_request_id :: uuid
  tc_started_at :: int
  tc_actor_user_id :: "uuid option"
  tc_actor_api_key_id :: "uuid option"

definition has_scope :: "tenant_context \<Rightarrow> scope \<Rightarrow> bool" where
  "has_scope ctx required \<longleftrightarrow> required \<in> set (tc_scopes ctx)"

datatype quota_error = TenantNotFound | QuotaExceeded uuid

definition placeholder_snapshot :: quota_snapshot where
  "placeholder_snapshot =
     \<lparr>qs_daily_limit_cents = i64_max, qs_daily_used_cents = 0,
      qs_monthly_limit_cents = i64_max, qs_monthly_used_cents = 0\<rparr>"

definition tenant_context_middleware ::
  "validated_key option \<Rightarrow> uuid option \<Rightarrow> uuid \<Rightarrow> int \<Rightarrow> (quota_error, tenant_context) result" where
  "tenant_context_middleware key request_id fresh_id now =
     (case key of
        None \<Rightarrow> Inl TenantNotFound
      | Some k \<Rightarrow> Inr
          \<lparr>tc_tenant_id = vk_tenant_id k, tc_api_key_id = vk_api_key_id k, tc_scopes = vk_scopes k,
           tc_quota_snapshot = placeholder_snapshot,
           tc_request_id = (case request_id of Some i \<Rightarrow> i | None \<Rightarrow> fresh_id),
           tc_started_at = now, tc_actor_user_id = vk_user_id k,
           tc_actor_api_key_id = (if vk_api_key_id k = 0 then None else Some (vk_api_key_id k))\<rparr>)"

lemma wrap_i64_id: "- (2 ^ 63) \<le> v \<Longrightarrow> v < 2 ^ 63 \<Longrightarrow> wrap_i64 v = v"
  by (simp add: wrap_i64_def)

lemma remaining_placeholder: "remaining_daily_cents placeholder_snapshot = i64_max"
  by (simp add: remaining_daily_cents_def placeholder_snapshot_def i64_max_def wrap_i64_def)

end
