(* ===== verification/Policy_Enforcement.thy ===== *)
theory Policy_Enforcement
  imports Policy_Store Approval Tenant_Context
begin

text \<open>
  The gateway side of the policy: \<open>crates/gadgetron-gateway/src/policy_enforcement.rs\<close> turns a Gadget
  call, a Workbench action or a background task into a policy input and asks the evaluator; the scopes
  are those of \<open>Tenant_Context\<close>.

  The trait objects \<open>PolicyEvaluator\<close> and \<open>GadgetCatalog\<close> are arguments: an evaluator maps a request
  and a state to a result and a state, a catalog maps a Gadget name to the metadata it publishes.
  The property instantiates the evaluator with the policy store.
\<close>

section \<open>Scopes and contexts\<close>

definition dispatch_context ::
  "uuid_text \<Rightarrow> authenticated_context \<Rightarrow> scope list \<Rightarrow> uuid \<Rightarrow> gadget_dispatch_context" where
  "dispatch_context U actor scopes request_id =
     with_scopes (map scope_as_str scopes)
       (dispatch_context_new (show_uuid U (ac_tenant_id actor)) (show_uuid U (acting_user actor))
         (show_uuid U request_id))"

type_synonym 's evaluator =
  "policy_evaluation_request \<Rightarrow> 's \<Rightarrow> (policy_evaluation_error, policy_evaluation) result \<times> 's"

type_synonym catalog = "string \<Rightarrow> gadget_policy_metadata option"

definition input_invalid :: "policy_error \<Rightarrow> policy_evaluation_error" where
  "input_invalid e = \<lparr>ee_code = ''policy_input_invalid'', ee_detail = DetailPolicy e\<rparr>"

section \<open>Gadget calls\<close>

record gadget_policy_invocation =
  gi_context :: gadget_dispatch_context
  gi_tenant_id :: uuid
  gi_name :: string
  gi_args :: json
  gi_path :: enforcement_path
  gi_pinned_policy :: "policy_identity option"
  gi_approval_id :: "uuid option"
  gi_review_state :: policy_review_state

definition evaluate_gadget ::
  "policy_encoding \<Rightarrow> 's evaluator \<Rightarrow> catalog \<Rightarrow> gadget_policy_invocation \<Rightarrow> 's
    \<Rightarrow> (policy_evaluation_error, policy_evaluation) result \<times> 's" where
  "evaluate_gadget P evaluator catalog call s =
     (case catalog (gi_name call) of
        None \<Rightarrow> (Inl \<lparr>ee_code = ''policy_gadget_unknown'', ee_detail = DetailUnknownGadget (gi_name call)\<rparr>, s)
      | Some metadata \<Rightarrow>
          (case and_then (for_gadget (gi_context call) (gi_name call) metadata)
                  (with_parameters P (gi_args call)) of
             Inl e \<Rightarrow> (Inl (input_invalid e), s)
           | Inr input \<Rightarrow>
               evaluator
                 \<lparr>rq_tenant_id = gi_tenant_id call, rq_path = gi_path call, rq_input = input,
                  rq_pinned_policy = gi_pinned_policy call, rq_approval_id = gi_approval_id call,
                  rq_review_state = gi_review_state call\<rparr> s))"

section \<open>Workbench actions\<close>

text \<open>The fields of \<open>WorkbenchActionDescriptor\<close> the policy reads.\<close>

record workbench_action_descriptor =
  wd_id :: string
  wd_owner_bundle :: string
  wd_gadget_name :: "string option"
  wd_destructive :: bool
  wd_required_scope :: "scope option"

record workbench_policy_invocation =
  wi_context :: gadget_dispatch_context
  wi_descriptor :: workbench_action_descriptor
  wi_args :: json
  wi_path :: enforcement_path
  wi_approval_id :: "uuid option"
  wi_review_state :: policy_review_state

definition fallback_metadata :: "bool \<Rightarrow> gadget_policy_metadata" where
  "fallback_metadata destructive =
     \<lparr>gm_effect = (if destructive then EffectDestructive else EffectWrite),
      gm_risk = (if destructive then Critical else Medium), gm_requested_scopes = [],
      gm_requires_evidence = True, gm_outcome_verifiable = False, gm_outcome_ref = None,
      gm_rollback_available = False, gm_rollback_ref = None\<rparr>"

definition workbench_metadata ::
  "catalog option \<Rightarrow> workbench_action_descriptor \<Rightarrow> gadget_policy_metadata" where
  "workbench_metadata catalog d =
     (let metadata =
            (case Option.bind (wd_gadget_name d) (\<lambda>name. Option.bind catalog (\<lambda>c. c name)) of
               Some m \<Rightarrow> m | None \<Rightarrow> fallback_metadata (wd_destructive d))
      in case wd_required_scope d of
           None \<Rightarrow> metadata
         | Some sc \<Rightarrow> metadata\<lparr>gm_requested_scopes := bt_insert (scope_as_str sc) (gm_requested_scopes metadata)\<rparr>)"

definition workbench_input ::
  "policy_encoding \<Rightarrow> catalog option \<Rightarrow> workbench_policy_invocation
    \<Rightarrow> (policy_error, policy_input) result" where
  "workbench_input P catalog call =
     (let d = wi_descriptor call;
          name = (case wd_gadget_name d of Some n \<Rightarrow> n | None \<Rightarrow> wd_id d)
      in and_then (for_gadget (wi_context call) name (workbench_metadata catalog d)) (\<lambda>input.
         and_then (with_parameters P (wi_args call) input) (\<lambda>input.
         let input' = input\<lparr>pi_action_id := wd_id d\<rparr>;
             input'' = (if wd_gadget_name d = None then input'\<lparr>pi_namespace := wd_owner_bundle d\<rparr> else input')
         in and_then (input_validate input'') (\<lambda>_. Inr input''))))"

definition evaluate_workbench_action ::
  "uuid_text \<Rightarrow> policy_encoding \<Rightarrow> 's evaluator \<Rightarrow> catalog option \<Rightarrow> workbench_policy_invocation \<Rightarrow> 's
    \<Rightarrow> (policy_evaluation_error, policy_evaluation) result \<times> 's" where
  "evaluate_workbench_action U P evaluator catalog call s =
     (case workbench_input P catalog call of
        Inl e \<Rightarrow> (Inl (input_invalid e), s)
      | Inr input \<Rightarrow>
          (case parse_uuid U (gdc_tenant_id (wi_context call)) of
             None \<Rightarrow> (Inl \<lparr>ee_code = ''policy_context_invalid'',
                         ee_detail = DetailText ''Dispatch tenant is not a UUID''\<rparr>, s)
           | Some tenant \<Rightarrow>
               evaluator
                 \<lparr>rq_tenant_id = tenant, rq_path = wi_path call, rq_input = input, rq_pinned_policy = None,
                  rq_approval_id = wi_approval_id call, rq_review_state = wi_review_state call\<rparr> s))"

section \<open>Background tasks and approvals\<close>

definition background_input ::
  "string \<Rightarrow> string \<Rightarrow> gadget_policy_metadata \<Rightarrow> string list \<Rightarrow> (policy_evaluation_error, policy_input) result" where
  "background_input action_id namespace metadata actor_scopes =
     (let input =
        \<lparr>pi_action_id = action_id, pi_gadget_name = None, pi_parameters_hash = None,
         pi_namespace = namespace, pi_effect = gm_effect metadata, pi_risk = gm_risk metadata,
         pi_requested_scopes = gm_requested_scopes metadata, pi_actor_scopes = bt_of_list actor_scopes,
         pi_evidence =
           \<lparr>ev_state = (if gm_requires_evidence metadata then EvidenceMissing else EvidenceSufficient),
            ev_references = []\<rparr>,
         pi_outcome =
           \<lparr>oc_state = (if gm_outcome_verifiable metadata then OutcomeVerifiable else OutcomeMissing),
            oc_predicate_ref = gm_outcome_ref metadata\<rparr>,
         pi_rollback =
           \<lparr>rb_state = (if gm_rollback_available metadata then RollbackAvailable
                        else if gm_effect metadata = EffectDestructive then RollbackUnavailable
                        else RollbackUnknown),
            rb_compensating_action = gm_rollback_ref metadata\<rparr>\<rparr>
      in and_then (map_err input_invalid (input_validate input)) (\<lambda>_. Inr input))"

definition approval_binding :: "policy_evaluation \<Rightarrow> approval_policy_binding" where
  "approval_binding e =
     \<lparr>pb_policy = tr_policy (pe_trace e), pb_input_hash = tr_input_hash (pe_trace e),
      pb_decision_event_id = pe_event_id e\<rparr>"

section \<open>Inputs carry the request faithfully\<close>

lemma for_gadget_ok:
  "for_gadget context name metadata = Inr input \<Longrightarrow>
     pi_requested_scopes input = gm_requested_scopes metadata
     \<and> set (pi_actor_scopes input) = set (gdc_scopes context)
     \<and> pi_effect input = gm_effect metadata \<and> pi_risk input = gm_risk metadata"
  by (auto simp: for_gadget_def Let_def result_simps)

lemma with_parameters_ok:
  "with_parameters P args input = Inr input' \<Longrightarrow>
     (\<exists>h. input' = input\<lparr>pi_parameters_hash := Some h\<rparr>) \<and> input_validate input' = Inr ()"
  by (auto simp: with_parameters_def Let_def result_simps)

lemma workbench_input_ok:
  assumes "workbench_input P catalog call = Inr input"
  shows "pi_action_id input = wd_id (wi_descriptor call)"
    "pi_requested_scopes input = gm_requested_scopes (workbench_metadata catalog (wi_descriptor call))"
    "set (pi_actor_scopes input) = set (gdc_scopes (wi_context call))"
    "pi_effect input = gm_effect (workbench_metadata catalog (wi_descriptor call))"
    "input_validate input = Inr ()"
proof -
  define d where "d = wi_descriptor call"
  obtain a b where a: "for_gadget (wi_context call) (case wd_gadget_name d of Some n \<Rightarrow> n | None \<Rightarrow> wd_id d)
      (workbench_metadata catalog d) = Inr a"
    and b: "with_parameters P (wi_args call) a = Inr b"
    and input: "input = (if wd_gadget_name d = None then b\<lparr>pi_action_id := wd_id d, pi_namespace := wd_owner_bundle d\<rparr>
                   else b\<lparr>pi_action_id := wd_id d\<rparr>)"
    and valid: "input_validate input = Inr ()"
    using assms unfolding workbench_input_def Let_def d_def [symmetric] and_then_eq_Inr by auto
  note fa = for_gadget_ok [OF a] and fb = with_parameters_ok [OF b, THEN conjunct1]
  from fb obtain h where "b = a\<lparr>pi_parameters_hash := Some h\<rparr>" ..
  with fa input show "pi_action_id input = wd_id (wi_descriptor call)"
    "pi_requested_scopes input = gm_requested_scopes (workbench_metadata catalog (wi_descriptor call))"
    "set (pi_actor_scopes input) = set (gdc_scopes (wi_context call))"
    "pi_effect input = gm_effect (workbench_metadata catalog (wi_descriptor call))"
    by (simp_all add: d_def)
  show "input_validate input = Inr ()" by (rule valid)
qed

lemma required_scope_requested:
  "wd_required_scope d = Some sc \<Longrightarrow> scope_as_str sc \<in> set (gm_requested_scopes (workbench_metadata catalog d))"
  by (simp add: workbench_metadata_def Let_def)

lemma denied_without_scope:
  assumes "\<not> set (pi_requested_scopes (rq_input request)) \<subseteq> set (pi_actor_scopes (rq_input request))"
    and "pg_evaluate E modes now fresh event db request = (Inr evaluation, db')"
  shows "pe_authorization evaluation = AuthDenied"
proof -
  obtain v :: policy_revision and trace where
    ev: "evaluate (env_encoding E) (rv_document v) (rv_identity v) (rq_input request) = Inr trace"
    and auth: "pe_authorization evaluation = authorization_for (tr_decision trace) (rq_review_state request)"
    by (rule pg_evaluate_ok [OF assms(2)])
  have "tr_decision trace = Deny"
    using policy_decides.missing_scope [OF assms(1), of "rv_document v"] by (simp add: evaluate_decides [OF ev])
  with auth show ?thesis by (simp add: authorization_for_def)
qed

text \<open>
  (C10) A Workbench action never runs for an actor without its required scope.  Whatever the catalog
  publishes, whatever the policy documents say and whatever the review state claims, evaluating the
  action against the policy store does not allow execution when the dispatch context lacks the scope
  the action requires.
\<close>

theorem workbench_action_needs_scope:
  assumes "wd_required_scope (wi_descriptor call) = Some sc"
    and "scope_as_str sc \<notin> set (gdc_scopes (wi_context call))"
    and "evaluate_workbench_action U P (\<lambda>request db. pg_evaluate E modes now fresh event db request)
           catalog call db = (Inr evaluation, db')"
  shows "\<not> allows_execution evaluation"
proof -
  from assms(3) obtain input tenant where input: "workbench_input P catalog call = Inr input"
    and "parse_uuid U (gdc_tenant_id (wi_context call)) = Some tenant"
    and run: "pg_evaluate E modes now fresh event db
      \<lparr>rq_tenant_id = tenant, rq_path = wi_path call, rq_input = input, rq_pinned_policy = None,
       rq_approval_id = wi_approval_id call, rq_review_state = wi_review_state call\<rparr> = (Inr evaluation, db')"
    by (auto simp: evaluate_workbench_action_def split: sum.splits option.splits)
  have "\<not> set (pi_requested_scopes input) \<subseteq> set (pi_actor_scopes input)"
    using required_scope_requested [OF assms(1), of catalog] assms(2) workbench_input_ok(2,3) [OF input] by auto
  with denied_without_scope [OF _ run] show ?thesis by (simp add: allows_execution_def)
qed

definition sample_action :: workbench_policy_invocation where
  "sample_action =
     \<lparr>wi_context = dispatch_context_new ''1'' ''2'' ''3'',
      wi_descriptor = \<lparr>wd_id = ''a'', wd_owner_bundle = ''crm'', wd_gadget_name = None,
                       wd_destructive = False, wd_required_scope = Some XaasAdmin\<rparr>,
      wi_args = JNull, wi_path = PathTool, wi_approval_id = None, wi_review_state = ReviewNone\<rparr>"

theorem workbench_action_needs_scope_witness:
  "\<exists>input t evaluation db'. evaluate_workbench_action sample_uuid_text sample_encoding
       (\<lambda>request db. pg_evaluate (sample_env input t) (sample_modes ''acme'') 5 7 8 db request)
       None sample_action sample_db = (Inr evaluation, db') \<and> \<not> allows_execution evaluation"
proof -
  let ?d = "legacy_document (sample_modes ''acme'')"
  have "is_ok (workbench_input sample_encoding None sample_action)" by code_simp
  then obtain input where input: "workbench_input sample_encoding None sample_action = Inr input"
    by (auto simp: is_ok_iff)
  have "input_validate input = Inr ()" using workbench_input_ok(5) [OF input] .
  with sample_migrated(2) have
    "acceptable sample_encoding ?d sample_legacy_identity input sample_legacy_bytes"
    by (simp add: acceptable_def sample_legacy_identity_def)
  moreover have "json_of_document sample_encoding ?d = Inr sample_legacy_bytes"
    "json_of_input sample_encoding input = Inr (pi_action_id input)"
    by (simp_all add: sample_encoding_def sample_legacy_bytes_def)
  ultimately obtain t where t: "evaluate sample_encoding ?d sample_legacy_identity input = Inr t"
    using evaluate_total by blast
  have scope: "wd_required_scope (wi_descriptor sample_action) = Some XaasAdmin"
    "scope_as_str XaasAdmin \<notin> set (gdc_scopes (wi_context sample_action))"
    by (simp_all add: sample_action_def dispatch_context_new_def)
  have "\<not> set (pi_requested_scopes input) \<subseteq> set (pi_actor_scopes input)"
    using required_scope_requested [OF scope(1), of None] scope(2) workbench_input_ok(2,3) [OF input] by auto
  then have "tr_decision t \<noteq> Review"
    using policy_decides.missing_scope [of input "legacy_document (sample_modes ''acme'')"]
    by (simp add: evaluate_decides [OF t])
  from sample_evaluation [OF t this] obtain evaluation db' where
    run: "pg_evaluate (sample_env input t) (sample_modes ''acme'') 5 7 8 sample_db (sample_request input)
      = (Inr evaluation, db')" by blast
  have "parse_uuid sample_uuid_text ''1'' = Some 1" by code_simp
  then have eval: "evaluate_workbench_action sample_uuid_text sample_encoding
       (\<lambda>request db. pg_evaluate (sample_env input t) (sample_modes ''acme'') 5 7 8 db request)
       None sample_action sample_db = (Inr evaluation, db')"
    using input run
    by (simp add: evaluate_workbench_action_def sample_request_def sample_action_def dispatch_context_new_def)
  from workbench_action_needs_scope [OF scope eval] eval show ?thesis by blast
qed

end
