(* ===== verification/Model_Node.thy ===== *)
theory Model_Node
  imports Gadgetron_Prelude
begin

text \<open>
  Models and nodes: \<open>crates/gadgetron-core/src/model.rs\<close> (the lifecycle machine of an inference
  process, deployments) and \<open>crates/gadgetron-core/src/node.rs\<close> (resources of a node).

  \<open>Instant::now()\<close> and \<open>Utc::now()\<close> are arguments.  An \<open>f32\<close> reading is kept as its bit pattern:
  no modelled operation computes with it.
\<close>

section \<open>The lifecycle of an inference process\<close>

datatype stop_reason = UserRequested | NodeShutdown | Evicted | StopHealthCheckFailed | RollingUpgrade

datatype failure_reason =
    CrashExit int
  | LoadTimeout
  | HealthCheckStale
  | FailVramAllocation
  | FailPortAllocation
  | KillTimeout
  | ExecutableNotFound
  | GpuDeviceUnavailable

definition failure_reason_display :: "failure_reason \<Rightarrow> string" where
  "failure_reason_display r =
     (case r of
        CrashExit code \<Rightarrow> ''crash_exit('' @ show_int code @ '')''
      | LoadTimeout \<Rightarrow> ''load_timeout''
      | HealthCheckStale \<Rightarrow> ''health_check_stale''
      | FailVramAllocation \<Rightarrow> ''vram_allocation_failed''
      | FailPortAllocation \<Rightarrow> ''port_allocation_failed''
      | KillTimeout \<Rightarrow> ''kill_timeout''
      | ExecutableNotFound \<Rightarrow> ''executable_not_found''
      | GpuDeviceUnavailable \<Rightarrow> ''gpu_device_unavailable'')"

datatype process_state =
    NotLoaded
  | PLoading (started_at: int) (loading_model: uuid)
  | PRunning (run_pid: u32) (run_port: u16) (loaded_at: int) (run_model: uuid)
  | PStopping (since: int) (stopping_reason: stop_reason)
  | PStopped (stopped_reason: stop_reason) (stopped_at: int)
  | PFailed (failed_reason: failure_reason) (failed_at: int)

datatype process_event =
    LoadRequest
  | LoadComplete u32 u16
  | LoadFailed
  | StopRequest stop_reason
  | StopComplete
  | CrashDetected int
  | HealthCheckFailed

datatype invalid_transition = InvalidTransition process_state process_event

definition process_is_available :: "process_state \<Rightarrow> bool" where
  "process_is_available s = (case s of PRunning _ _ _ _ \<Rightarrow> True | _ \<Rightarrow> False)"

definition can_load :: "process_state \<Rightarrow> bool" where
  "can_load s = (case s of NotLoaded \<Rightarrow> True | PStopped _ _ \<Rightarrow> True | PFailed _ _ \<Rightarrow> True | _ \<Rightarrow> False)"

definition transition ::
  "int \<Rightarrow> process_state \<Rightarrow> process_event \<Rightarrow> uuid \<Rightarrow> (invalid_transition, process_state) result" where
  "transition now s event model_id =
     (case (s, event) of
        (NotLoaded, LoadRequest) \<Rightarrow> Inr (PLoading now model_id)
      | (PStopped _ _, LoadRequest) \<Rightarrow> Inr (PLoading now model_id)
      | (PFailed _ _, LoadRequest) \<Rightarrow> Inr (PLoading now model_id)
      | (PLoading _ _, LoadComplete pid port) \<Rightarrow> Inr (PRunning pid port now model_id)
      | (PLoading _ _, LoadFailed) \<Rightarrow> Inr (PFailed LoadTimeout now)
      | (PRunning _ _ _ _, StopRequest reason) \<Rightarrow> Inr (PStopping now reason)
      | (PRunning _ _ _ _, CrashDetected exit_code) \<Rightarrow> Inr (PFailed (CrashExit exit_code) now)
      | (PRunning _ _ _ _, HealthCheckFailed) \<Rightarrow> Inr (PFailed HealthCheckStale now)
      | (PStopping _ reason, StopComplete) \<Rightarrow> Inr (PStopped reason now)
      | _ \<Rightarrow> Inl (InvalidTransition s event))"

text \<open>A history of a process: timed events applied one after the other, all of them accepted.\<close>

fun run_events ::
  "process_state \<Rightarrow> (int \<times> process_event \<times> uuid) list \<Rightarrow> (invalid_transition, process_state) result" where
  "run_events s [] = Inr s"
| "run_events s ((now, event, model_id) # events) =
     and_then (transition now s event model_id) (\<lambda>s'. run_events s' events)"

section \<open>Deployments\<close>

datatype model_state = ModelLoading | ModelRunning | ModelStopping | ModelStopped | ModelFailed

datatype inference_engine = Ollama | Vllm | Sglang | LlamaCpp | Tgi

record model_deployment =
  md_id :: string
  md_engine :: inference_engine
  md_status :: model_state
  md_assigned_node :: string
  md_port :: u16
  md_vram_requirement_mb :: u64
  md_priority :: int
  md_args :: "string list option"
  md_last_used :: int
  md_request_count :: u64

definition deployment_is_available :: "model_deployment \<Rightarrow> bool" where
  "deployment_is_available d \<longleftrightarrow> md_status d = ModelRunning"

section \<open>Nodes\<close>

record gpu_info =
  gpu_index :: u32
  gpu_name :: string
  gpu_vram_total_mb :: u64
  gpu_vram_used_mb :: u64
  gpu_utilization_pct :: u32
  gpu_temperature_c :: u32
  gpu_power_draw_w :: u32
  gpu_power_limit_w :: u32

record node_resources =
  nr_gpus :: "gpu_info list"
  nr_cpu_usage_pct :: u32
  nr_memory_total_bytes :: u64
  nr_memory_used_bytes :: u64

record node_config =
  nc_id :: string
  nc_endpoint :: string
  nc_gpu_count :: "u32 option"
  nc_labels :: "string list option"

record node_status =
  ns_id :: string
  ns_endpoint :: string
  ns_healthy :: bool
  ns_resources :: node_resources
  ns_running_models :: "string list"
  ns_last_heartbeat :: int

definition gpu_free_mb :: "gpu_info \<Rightarrow> u64" where
  "gpu_free_mb g = saturating_sub (gpu_vram_total_mb g) (gpu_vram_used_mb g)"

definition available_vram_mb :: "node_resources \<Rightarrow> u64" where
  "available_vram_mb r = sum_list (map gpu_free_mb (nr_gpus r))"

definition memory_available_bytes :: "node_resources \<Rightarrow> u64" where
  "memory_available_bytes r = saturating_sub (nr_memory_total_bytes r) (nr_memory_used_bytes r)"

lemma unat_sum_list:
  "sum_list (map unat ws) < 2 ^ LENGTH('w) \<Longrightarrow> unat (sum_list ws) = sum_list (map unat ws)"
  for ws :: "'w::len word list"
proof (induction ws)
  case Nil
  then show ?case by simp
next
  case (Cons w ws)
  then have "unat w + unat (sum_list ws) < 2 ^ LENGTH('w)" by simp
  with Cons show ?case by (simp add: unat_word_ariths)
qed

section \<open>Facts on the lifecycle\<close>

lemma transition_eq_Inr:
  "transition now s event m = Inr s' \<longleftrightarrow>
     (can_load s \<and> event = LoadRequest \<and> s' = PLoading now m)
     \<or> (\<exists>at k. s = PLoading at k \<and>
          ((\<exists>pid port. event = LoadComplete pid port \<and> s' = PRunning pid port now m)
           \<or> event = LoadFailed \<and> s' = PFailed LoadTimeout now))
     \<or> (process_is_available s \<and>
          ((\<exists>reason. event = StopRequest reason \<and> s' = PStopping now reason)
           \<or> (\<exists>code. event = CrashDetected code \<and> s' = PFailed (CrashExit code) now)
           \<or> event = HealthCheckFailed \<and> s' = PFailed HealthCheckStale now))
     \<or> (\<exists>at reason. s = PStopping at reason \<and> event = StopComplete \<and> s' = PStopped reason now)"
  by (auto simp: transition_def can_load_def process_is_available_def
      split: process_state.splits process_event.splits)

lemma run_events_append:
  "run_events s (xs @ ys) = and_then (run_events s xs) (\<lambda>s'. run_events s' ys)"
  by (induction xs arbitrary: s) (auto simp: and_then_def split: sum.splits)

lemma entered_running:
  assumes "transition now s event m = Inr (PRunning pid port at k)"
  shows "event = LoadComplete pid port \<and> at = now \<and> k = m \<and> (\<exists>t l. s = PLoading t l)"
  using assms by (auto simp: transition_eq_Inr)

lemma entered_loading:
  assumes "transition now s event m = Inr (PLoading at k)"
  shows "event = LoadRequest \<and> at = now \<and> k = m \<and> can_load s"
  using assms by (auto simp: transition_eq_Inr)

text \<open>
  A process is available only right after it was loaded.  If a history of accepted events
  from the initial state ends in an available state, its last two events are the request to load
  and the completion that reported exactly the process identifier and port the state carries.
\<close>

lemma available_only_after_load:
  assumes "run_events NotLoaded events = Inr (PRunning pid port at m)"
  shows "\<exists>earlier t k. events = earlier @ [(t, LoadRequest, k), (at, LoadComplete pid port, m)]"
proof (cases events rule: rev_cases)
  case Nil
  with assms show ?thesis by simp
next
  case (snoc front last)
  obtain now event k where l: "last = (now, event, k)" by (cases last)
  with assms snoc obtain s where s: "run_events NotLoaded front = Inr s"
    and t: "transition now s event k = Inr (PRunning pid port at m)"
    by (auto simp: run_events_append result_simps)
  from entered_running [OF t] obtain t' l' where e: "event = LoadComplete pid port" "at = now" "k = m"
    "s = PLoading t' l'" by blast
  show ?thesis
  proof (cases front rule: rev_cases)
    case Nil
    with s e(4) show ?thesis by simp
  next
    case (snoc front' last')
    obtain now' event' k' where l': "last' = (now', event', k')" by (cases last')
    with s snoc e(4) obtain s0 where "transition now' s0 event' k' = Inr (PLoading t' l')"
      by (auto simp: run_events_append result_simps)
    from entered_loading [OF this] have "event' = LoadRequest" by simp
    with \<open>events = front @ [last]\<close> snoc l l' e show ?thesis by auto
  qed
qed

lemma available_only_after_load_example:
  "\<exists>earlier t k.
     [(0 :: int, LoadRequest, 5 :: uuid), (1, LoadFailed, 5), (2, LoadRequest, 5), (3, LoadComplete 77 30000, 5)]
       = earlier @ [(t, LoadRequest, k), (3, LoadComplete 77 30000, 5)]"
  by (rule available_only_after_load) (simp add: transition_def)

text \<open>
  No state of a process is a dead end: from every state at most three further events lead to
  an available process.
\<close>

lemma process_can_recover:
  "\<exists>events s'. length events \<le> 3 \<and> run_events s events = Inr s' \<and> process_is_available s'"
proof -
  have load: "run_events s [(0, LoadRequest, 0), (0, LoadComplete 1 1, 0)] = Inr (PRunning 1 1 0 0)"
    if "can_load s" for s
    using that by (cases s) (simp_all add: can_load_def transition_def)
  consider "can_load s" | t k where "s = PLoading t k" | "process_is_available s" | t r where "s = PStopping t r"
    by (cases s) (auto simp: can_load_def process_is_available_def)
  then show ?thesis
  proof cases
    case 1
    from load [OF this] show ?thesis
      by (intro exI [of _ "[(0, LoadRequest, 0), (0, LoadComplete 1 1, 0)]"]) (auto simp: process_is_available_def)
  next
    case 2
    then show ?thesis
      by (intro exI [of _ "[(0, LoadComplete 1 1, 0)]"]) (auto simp: transition_def process_is_available_def)
  next
    case 3
    then show ?thesis by (intro exI [of _ "[]"]) auto
  next
    case 4
    then show ?thesis
      by (intro exI [of _ "[(0, StopComplete, 0), (0, LoadRequest, 0), (0, LoadComplete 1 1, 0)]"])
        (auto simp: transition_def process_is_available_def)
  qed
qed

end
