(* ===== verification/Node_Agent.thy ===== *)
theory Node_Agent
  imports Model_Node
begin

text \<open>
  The agent of a node: \<open>port_pool.rs\<close>, \<open>process.rs\<close> and \<open>agent.rs\<close> of
  \<open>crates/gadgetron-node/src\<close>.

  A spawned child (\<open>tokio::process::Child\<close>) is known by the process identifier it reports.  What
  the operating system and the Ollama daemon answer is the argument \<open>engine_host\<close>; how a child
  reacts to \<open>stop\<close> is the argument \<open>stop_outcome\<close>.  \<open>start_model\<close> awaits the spawn between taking
  a port and recording the process, so it is two atomic sections, \<open>start_begin\<close> and
  \<open>start_finish\<close>; called without interleaving it is their composition.
\<close>

section \<open>Errors\<close>

datatype node_error_kind =
    InvalidMigProfile
  | NvmlInitFailed
  | ProcessSpawnFailed
  | VramAllocationFailed
  | PortAllocationFailed
  | ProcessKillFailed

definition node_error_kind_display :: "node_error_kind \<Rightarrow> string" where
  "node_error_kind_display k =
     (case k of
        InvalidMigProfile \<Rightarrow> ''invalid_mig_profile''
      | NvmlInitFailed \<Rightarrow> ''nvml_init_failed''
      | ProcessSpawnFailed \<Rightarrow> ''process_spawn_failed''
      | VramAllocationFailed \<Rightarrow> ''vram_allocation_failed''
      | PortAllocationFailed \<Rightarrow> ''port_allocation_failed''
      | ProcessKillFailed \<Rightarrow> ''process_kill_failed'')"

text \<open>\<open>GadgetronError::Node\<close> and \<open>GadgetronError::Routing\<close>, the variants these crates raise.\<close>

datatype cluster_error = NodeError node_error_kind string | RoutingError string

section \<open>Port pool\<close>

type_synonym port_pool = "u16 list"

definition port_pool_new :: "u16 \<Rightarrow> u16 \<Rightarrow> port_pool option" where
  "port_pool_new base capacity =
     (if unat base + unat capacity \<le> 65535
      then Some (bt_of_list (map of_nat [unat base ..< unat base + unat capacity]))
      else None)"

definition port_pool_allocate :: "port_pool \<Rightarrow> (cluster_error, u16) result \<times> port_pool" where
  "port_pool_allocate available =
     (case available of
        [] \<Rightarrow> (Inl (NodeError PortAllocationFailed ''port pool exhausted''), [])
      | port # rest \<Rightarrow> (Inr port, rest))"

definition port_pool_release :: "u16 \<Rightarrow> port_pool \<Rightarrow> port_pool" where
  "port_pool_release port available = bt_insert port available"

definition available_count :: "port_pool \<Rightarrow> nat" where
  "available_count available = length available"

definition port_pool_default :: "port_pool option" where
  "port_pool_default = port_pool_new 30000 10000"

section \<open>Managed processes\<close>

type_synonym child = "u32 option"

record managed_process =
  mp_pid :: u32
  mp_port :: u16
  mp_model_id :: string
  mp_child :: "child option"

definition managed_process_new :: "string \<Rightarrow> u16 \<Rightarrow> child \<Rightarrow> managed_process" where
  "managed_process_new model_id port c =
     \<lparr>mp_pid = (case c of Some pid \<Rightarrow> pid | None \<Rightarrow> 0), mp_port = port, mp_model_id = model_id,
      mp_child = Some c\<rparr>"

datatype stop_outcome = ExitedInTime | WaitFailed string | KilledAfterTimeout | KillFailed string

definition process_stop ::
  "stop_outcome \<Rightarrow> managed_process \<Rightarrow> (cluster_error, unit) result \<times> managed_process" where
  "process_stop outcome p =
     (case mp_child p of
        None \<Rightarrow> (Inr (), p)
      | Some _ \<Rightarrow>
          (case outcome of
             KillFailed e \<Rightarrow>
               (Inl (NodeError ProcessKillFailed
                  (''SIGKILL failed for pid '' @ show_nat (unat (mp_pid p)) @ '': '' @ e)), p)
           | _ \<Rightarrow> (Inr (), p\<lparr>mp_child := None\<rparr>)))"

section \<open>The agent\<close>

record node_agent =
  na_config :: node_config
  na_processes :: "string \<rightharpoonup> managed_process"
  na_port_pool :: port_pool

datatype http_outcome = Unreachable string | HttpStatus bool string

record engine_host =
  host_post_generate :: "string \<Rightarrow> string \<Rightarrow> http_outcome"
  host_spawn :: "string \<Rightarrow> string list \<Rightarrow> (string, child) result"

definition node_agent_new :: "node_config \<Rightarrow> node_agent option" where
  "node_agent_new config =
     map_option (\<lambda>pool. \<lparr>na_config = config, na_processes = Map.empty, na_port_pool = pool\<rparr>)
       port_pool_default"

text \<open>
  \<open>NodeAgent::status\<close>; the collected resources, the order in which the process map is walked and
  the time are arguments.
\<close>

definition agent_status :: "node_resources \<Rightarrow> string list \<Rightarrow> int \<Rightarrow> node_agent \<Rightarrow> node_status" where
  "agent_status resources order now a =
     \<lparr>ns_id = nc_id (na_config a), ns_endpoint = nc_endpoint (na_config a), ns_healthy = True,
      ns_resources = resources, ns_running_models = order, ns_last_heartbeat = now\<rparr>"

definition extra_args :: "model_deployment \<Rightarrow> string list" where
  "extra_args d = (case md_args d of None \<Rightarrow> [] | Some args \<Rightarrow> args)"

definition spawn_command ::
  "engine_host \<Rightarrow> string \<Rightarrow> string \<Rightarrow> string list \<Rightarrow> (cluster_error, child) result" where
  "spawn_command host label program args =
     (case host_spawn host program args of
        Inl e \<Rightarrow> Inl (NodeError ProcessSpawnFailed (''Failed to spawn '' @ label @ '': '' @ e))
      | Inr c \<Rightarrow> Inr c)"

definition spawn_ollama :: "engine_host \<Rightarrow> node_config \<Rightarrow> model_deployment \<Rightarrow> (cluster_error, child) result" where
  "spawn_ollama host config d =
     (case host_post_generate host (nc_endpoint config @ ''/api/generate'') (md_id d) of
        Unreachable e \<Rightarrow> Inl (NodeError ProcessSpawnFailed (''Failed to reach Ollama: '' @ e))
      | HttpStatus success body \<Rightarrow>
          if \<not> success then Inl (NodeError ProcessSpawnFailed (''Ollama model start failed: '' @ body))
          else spawn_command host ''dummy child for Ollama'' ''true'' [])"

definition spawn_vllm :: "engine_host \<Rightarrow> model_deployment \<Rightarrow> u16 \<Rightarrow> (cluster_error, child) result" where
  "spawn_vllm host d port =
     spawn_command host ''vLLM'' ''vllm''
       ([''serve'', md_id d, ''--port'', show_nat (unat port)] @ extra_args d)"

definition spawn_llamacpp :: "engine_host \<Rightarrow> model_deployment \<Rightarrow> u16 \<Rightarrow> (cluster_error, child) result" where
  "spawn_llamacpp host d port =
     spawn_command host ''llama-server'' ''llama-server''
       ([''-m'', md_id d, ''--port'', show_nat (unat port)] @ extra_args d)"

definition spawn_tgi :: "engine_host \<Rightarrow> model_deployment \<Rightarrow> u16 \<Rightarrow> (cluster_error, child) result" where
  "spawn_tgi host d port =
     spawn_command host ''TGI'' ''text-generation-launcher''
       ([''--model-id'', md_id d, ''--port'', show_nat (unat port)] @ extra_args d)"

definition spawn_sglang :: "engine_host \<Rightarrow> model_deployment \<Rightarrow> u16 \<Rightarrow> (cluster_error, child) result" where
  "spawn_sglang host d port =
     spawn_command host ''SGLang'' ''python3''
       ([''-m'', ''sglang.launch_server'', ''--model-path'', md_id d, ''--port'', show_nat (unat port)]
        @ extra_args d)"

definition spawn_engine ::
  "engine_host \<Rightarrow> node_config \<Rightarrow> model_deployment \<Rightarrow> u16 \<Rightarrow> (cluster_error, child) result" where
  "spawn_engine host config d port =
     (case md_engine d of
        Ollama \<Rightarrow> spawn_ollama host config d
      | Vllm \<Rightarrow> spawn_vllm host d port
      | Sglang \<Rightarrow> spawn_sglang host d port
      | LlamaCpp \<Rightarrow> spawn_llamacpp host d port
      | Tgi \<Rightarrow> spawn_tgi host d port)"

text \<open>
  The section before the spawn is awaited: \<open>Inl\<close> returns at once with this result, \<open>Inr\<close> holds
  the port that was taken.
\<close>

definition start_begin ::
  "model_deployment \<Rightarrow> node_agent \<Rightarrow> ((cluster_error, u16) result + u16) \<times> node_agent" where
  "start_begin d a =
     (case na_processes a (md_id d) of
        Some p \<Rightarrow> (Inl (Inr (mp_port p)), a)
      | None \<Rightarrow>
          (case port_pool_allocate (na_port_pool a) of
             (Inl e, pool) \<Rightarrow> (Inl (Inl e), a\<lparr>na_port_pool := pool\<rparr>)
           | (Inr port, pool) \<Rightarrow> (Inr port, a\<lparr>na_port_pool := pool\<rparr>)))"

definition start_finish ::
  "model_deployment \<Rightarrow> u16 \<Rightarrow> (cluster_error, child) result \<Rightarrow> node_agent
    \<Rightarrow> (cluster_error, u16) result \<times> node_agent" where
  "start_finish d port spawned a =
     (case spawned of
        Inr c \<Rightarrow>
          (Inr port,
           a\<lparr>na_processes := (na_processes a)(md_id d \<mapsto> managed_process_new (md_id d) port c)\<rparr>)
      | Inl e \<Rightarrow> (Inl e, a\<lparr>na_port_pool := port_pool_release port (na_port_pool a)\<rparr>))"

definition start_model ::
  "engine_host \<Rightarrow> model_deployment \<Rightarrow> node_agent \<Rightarrow> (cluster_error, u16) result \<times> node_agent" where
  "start_model host d a =
     (case start_begin d a of
        (Inl r, a') \<Rightarrow> (r, a')
      | (Inr port, a') \<Rightarrow> start_finish d port (spawn_engine host (na_config a') d port) a')"

definition stop_model ::
  "stop_outcome \<Rightarrow> string \<Rightarrow> node_agent \<Rightarrow> (cluster_error, unit) result \<times> node_agent" where
  "stop_model outcome model_id a =
     (case na_processes a model_id of
        None \<Rightarrow> (Inr (), a)
      | Some p \<Rightarrow>
          (case process_stop outcome p of
             (Inl e, p') \<Rightarrow> (Inl e, a\<lparr>na_processes := (na_processes a)(model_id \<mapsto> p')\<rparr>)
           | (Inr _, p') \<Rightarrow>
               (Inr (), a\<lparr>na_processes := (na_processes a)(model_id := None),
                          na_port_pool := port_pool_release (mp_port p) (na_port_pool a)\<rparr>)))"

section \<open>Ports are conserved\<close>

text \<open>
  The invariant of an agent over the ports \<open>R\<close> of its pool: the free ports and the ports of the
  recorded processes partition \<open>R\<close>, and no two processes share a port.
\<close>

definition port_map :: "node_agent \<Rightarrow> string \<rightharpoonup> u16" where
  "port_map a = (\<lambda>m. map_option mp_port (na_processes a m))"

definition one_to_one :: "('k \<rightharpoonup> 'v) \<Rightarrow> bool" where
  "one_to_one f \<longleftrightarrow> (\<forall>m n v. f m = Some v \<and> f n = Some v \<longrightarrow> m = n)"

definition ports_partition :: "u16 set \<Rightarrow> node_agent \<Rightarrow> bool" where
  "ports_partition R a \<longleftrightarrow>
     ascending (na_port_pool a) \<and> set (na_port_pool a) \<inter> ran (port_map a) = {}
     \<and> set (na_port_pool a) \<union> ran (port_map a) = R \<and> one_to_one (port_map a)"

lemma mp_port_new [simp]: "mp_port (managed_process_new m port c) = port"
  by (simp add: managed_process_new_def)

lemma one_to_one_upd: "one_to_one f \<Longrightarrow> v \<notin> ran f \<Longrightarrow> one_to_one (f(m \<mapsto> v))"
  by (auto simp: one_to_one_def ran_def split: if_splits)

lemma one_to_one_remove: "one_to_one f \<Longrightarrow> one_to_one (f(m := None))"
  by (auto simp: one_to_one_def split: if_splits)

lemma ran_remove: "one_to_one f \<Longrightarrow> f m = Some v \<Longrightarrow> ran (f(m := None)) = ran f - {v}"
  by (force simp: one_to_one_def ran_def)

lemma port_map_sel [simp]:
  "port_map (a\<lparr>na_port_pool := pool\<rparr>) = port_map a"
  "port_map (a\<lparr>na_processes := (na_processes a)(m \<mapsto> p)\<rparr>) = (port_map a)(m \<mapsto> mp_port p)"
  "port_map (a\<lparr>na_processes := (na_processes a)(m := None)\<rparr>) = (port_map a)(m := None)"
  by (auto simp: port_map_def fun_eq_iff)

lemma port_map_eq: "na_processes a m = Some p \<Longrightarrow> port_map a m = Some (mp_port p)"
  "na_processes a m = None \<Longrightarrow> port_map a m = None"
  by (simp_all add: port_map_def)

lemma start_begin_cases [consumes 0, case_names running exhausted taken]:
  obtains (running) p where "na_processes a (md_id d) = Some p" "start_begin d a = (Inl (Inr (mp_port p)), a)"
  | (exhausted) e where "na_processes a (md_id d) = None" "na_port_pool a = []"
      "start_begin d a = (Inl (Inl e), a)"
  | (taken) port rest where "na_processes a (md_id d) = None" "na_port_pool a = port # rest"
      "start_begin d a = (Inr port, a\<lparr>na_port_pool := rest\<rparr>)"
proof (cases "na_processes a (md_id d)")
  case None
  then show thesis
    using exhausted taken
    by (cases "na_port_pool a") (auto simp: start_begin_def port_pool_allocate_def)
next
  case (Some p)
  then show thesis using running by (auto simp: start_begin_def)
qed

lemma ports_partition_started:
  assumes "ports_partition R a" "na_processes a m = None" "na_port_pool a = port # rest" "mp_port p = port"
  shows "ports_partition R (a\<lparr>na_port_pool := rest, na_processes := (na_processes a)(m \<mapsto> p)\<rparr>)"
    (is "ports_partition R ?a")
proof -
  have "port_map ?a = (port_map a)(m \<mapsto> port)" "port_map a m = None"
    using assms(2,4) by (auto simp: port_map_def fun_eq_iff)
  with assms(1,3) show ?thesis
    unfolding ports_partition_def by (auto intro: one_to_one_upd)
qed

lemma ports_partition_stopped:
  assumes "ports_partition R a" "na_processes a m = Some p"
  shows "ports_partition R (a\<lparr>na_processes := (na_processes a)(m := None),
           na_port_pool := bt_insert (mp_port p) (na_port_pool a)\<rparr>)"
    (is "ports_partition R ?a")
proof -
  have p: "port_map ?a = (port_map a)(m := None)" "port_map a m = Some (mp_port p)"
    using assms(2) by (auto simp: port_map_def fun_eq_iff)
  moreover have "mp_port p \<in> ran (port_map a)" using p(2) by (rule ranI)
  ultimately show ?thesis
    using assms(1) unfolding ports_partition_def by (auto simp: ran_remove intro: one_to_one_remove)
qed

lemma process_stop_port: "process_stop outcome p = (r, p') \<Longrightarrow> mp_port p' = mp_port p"
  by (auto simp: process_stop_def split: option.splits stop_outcome.splits)

lemma ports_partition_same:
  assumes "ports_partition R a" "na_processes a m = Some p" "mp_port p' = mp_port p"
  shows "ports_partition R (a\<lparr>na_processes := (na_processes a)(m \<mapsto> p')\<rparr>)"
    (is "ports_partition R ?a")
proof -
  have "port_map ?a = port_map a"
    using assms(2,3) by (auto simp: port_map_def fun_eq_iff)
  with assms(1) show ?thesis by (simp add: ports_partition_def)
qed

lemma start_model_partition:
  assumes "ports_partition R a"
  shows "ports_partition R (snd (start_model host d a))"
proof (cases rule: start_begin_cases [of a d])
  case (taken port rest)
  let ?a = "a\<lparr>na_port_pool := rest\<rparr>"
  show ?thesis
  proof (cases "spawn_engine host (na_config a) d port")
    case (Inl e)
    have "bt_insert port rest = port # rest"
      using assms taken(2) by (cases rest) (auto simp: ports_partition_def)
    with taken(2) have "a\<lparr>na_port_pool := bt_insert port rest\<rparr> = a" by simp
    with Inl taken assms show ?thesis
      by (simp add: start_model_def start_finish_def port_pool_release_def)
  next
    case (Inr c)
    with taken ports_partition_started [OF assms taken(1,2), of "managed_process_new (md_id d) port c"]
    show ?thesis
      by (simp add: start_model_def start_finish_def managed_process_new_def)
  qed
qed (use assms in \<open>simp_all add: start_model_def\<close>)

lemma stop_model_partition:
  assumes "ports_partition R a"
  shows "ports_partition R (snd (stop_model outcome m a))"
proof (cases "na_processes a m")
  case None
  with assms show ?thesis by (simp add: stop_model_def)
next
  case (Some p)
  obtain r p' where s: "process_stop outcome p = (r, p')" by (cases "process_stop outcome p")
  from ports_partition_same [OF assms Some process_stop_port [OF s]] ports_partition_stopped [OF assms Some]
    Some s show ?thesis
    by (auto simp: stop_model_def port_pool_release_def split: sum.splits)
qed

text \<open>The sequential behaviours of an agent: whole calls, one after the other.\<close>

inductive agent_step :: "node_agent \<Rightarrow> node_agent \<Rightarrow> bool" where
  start: "agent_step a (snd (start_model host d a))"
| stop: "agent_step a (snd (stop_model outcome m a))"

lemma agent_step_partition: "agent_step a b \<Longrightarrow> ports_partition R a \<Longrightarrow> ports_partition R b"
  by (induction rule: agent_step.induct) (auto intro: start_model_partition stop_model_partition)

lemma agent_steps_partition: "agent_step\<^sup>*\<^sup>* a b \<Longrightarrow> ports_partition R a \<Longrightarrow> ports_partition R b"
  by (induction rule: rtranclp_induct) (auto intro: agent_step_partition)

definition default_ports :: "u16 set" where
  "default_ports = {port. 30000 \<le> unat port \<and> unat port < 40000}"

lemma of_nat_image_ports:
  "hi \<le> 65536 \<Longrightarrow> port \<in> of_nat ` {lo ..< hi} \<longleftrightarrow> lo \<le> unat port \<and> unat port < hi" for port :: u16
  by (auto simp: image_iff unat_of_nat take_bit_nat_eq_self intro!: bexI [of _ "unat port"])

lemma set_port_pool_new:
  "port_pool_new base capacity = Some pool \<Longrightarrow>
     ascending pool \<and> set pool = {port. unat base \<le> unat port \<and> unat port < unat base + unat capacity}"
  using of_nat_image_ports [of "unat base + unat capacity" _ "unat base"]
  by (auto simp: port_pool_new_def split: if_splits)

lemma port_pool_new_Some:
  "unat base + unat capacity \<le> 65535 \<Longrightarrow> \<exists>pool. port_pool_new base capacity = Some pool"
  by (simp add: port_pool_new_def)

lemma node_agent_new_Some: "\<exists>a. node_agent_new config = Some a"
  using port_pool_new_Some [of 30000 10000] by (auto simp: node_agent_new_def port_pool_default_def)

lemma node_agent_new_ok:
  assumes "node_agent_new config = Some a"
  shows "ports_partition default_ports a" "na_processes a = Map.empty"
proof -
  from assms obtain pool where pool: "port_pool_new 30000 10000 = Some pool"
    and a: "a = \<lparr>na_config = config, na_processes = Map.empty, na_port_pool = pool\<rparr>"
    by (auto simp: node_agent_new_def port_pool_default_def)
  show "na_processes a = Map.empty" using a by simp
  show "ports_partition default_ports a"
    using set_port_pool_new [OF pool] a
    by (simp add: ports_partition_def port_map_def default_ports_def one_to_one_def)
qed

lemma card_default_ports: "finite default_ports" "card default_ports = 10000"
proof -
  have bij: "default_ports = of_nat ` {30000 ..< 40000}"
    using of_nat_image_ports [of 40000 _ 30000] by (auto simp: default_ports_def)
  have inj: "inj_on (of_nat :: nat \<Rightarrow> u16) {30000 ..< 40000}"
  proof (rule inj_onI)
    fix x y :: nat assume x: "x \<in> {30000 ..< 40000}" and y: "y \<in> {30000 ..< 40000}"
      and eq: "(of_nat x :: u16) = of_nat y"
    from x have "unat (of_nat x :: u16) = x" by (simp add: unat_of_nat take_bit_nat_eq_self)
    moreover from y have "unat (of_nat y :: u16) = y" by (simp add: unat_of_nat take_bit_nat_eq_self)
    ultimately show "x = y" using eq by metis
  qed
  show "finite default_ports" unfolding bij by simp
  show "card default_ports = 10000" unfolding bij by (simp only: card_image [OF inj] card_atLeastLessThan)
qed

lemma one_to_one_card: "one_to_one f \<Longrightarrow> finite (ran f) \<Longrightarrow> card (dom f) = card (ran f)"
proof -
  assume f: "one_to_one f" "finite (ran f)"
  have "ran f = (\<lambda>m. the (f m)) ` dom f" by (force simp: ran_def dom_def image_iff)
  moreover have "inj_on (\<lambda>m. the (f m)) (dom f)"
    using f(1) by (auto simp: one_to_one_def inj_on_def dom_def)
  ultimately show ?thesis using card_image by metis
qed


definition sample_node :: node_config where
  "sample_node = \<lparr>nc_id = ''n1'', nc_endpoint = ''http://n1'', nc_gpu_count = None, nc_labels = None\<rparr>"

definition sample_engine_host :: engine_host where
  "sample_engine_host =
     \<lparr>host_post_generate = (\<lambda>_ _. HttpStatus True []), host_spawn = (\<lambda>_ _. Inr (Some 42))\<rparr>"

definition sample_deployment :: model_deployment where
  "sample_deployment =
     \<lparr>md_id = ''m1'', md_engine = Vllm, md_status = ModelLoading, md_assigned_node = ''n1'', md_port = 0,
      md_vram_requirement_mb = 1000, md_priority = 0, md_args = None, md_last_used = 0, md_request_count = 0\<rparr>"


text \<open>
  Stopping undoes starting.  Starting a model that was not recorded and then stopping it, with
  any outcome except a failed kill, gives back the very agent: the same pool and the same
  processes.  A failed start leaves the agent as it was, and a second start returns the port of the
  first and changes nothing.
\<close>

lemma start_stop_roundtrip:
  assumes "ports_partition R a" "na_processes a (md_id d) = None"
    and "start_model host d a = (result, a')"
  shows "(case result of
            Inl _ \<Rightarrow> a' = a
          | Inr port \<Rightarrow>
              port = hd (na_port_pool a) \<and> start_model host' d a' = (Inr port, a')
              \<and> (\<forall>outcome. (\<forall>e. outcome \<noteq> KillFailed e) \<longrightarrow> stop_model outcome (md_id d) a' = (Inr (), a)))"
proof (cases rule: start_begin_cases [of a d])
  case (running p)
  with assms(2) show ?thesis by simp
next
  case (exhausted e)
  with assms(3) show ?thesis by (auto simp: start_model_def)
next
  case (taken port rest)
  have ins: "bt_insert port rest = port # rest"
    using assms(1) taken(2) by (cases rest) (auto simp: ports_partition_def)
  show ?thesis
  proof (cases "spawn_engine host (na_config a) d port")
    case (Inl e)
    with taken assms(3) ins show ?thesis
      by (auto simp: start_model_def start_finish_def port_pool_release_def)
  next
    case (Inr c)
    let ?p = "managed_process_new (md_id d) port c"
    from Inr taken assms(3) have r: "result = Inr port"
      and a': "a' = a\<lparr>na_port_pool := rest, na_processes := (na_processes a)(md_id d \<mapsto> ?p)\<rparr>"
      by (auto simp: start_model_def start_finish_def)
    have "start_model host' d a' = (Inr port, a')"
      by (simp add: start_model_def start_begin_def a' managed_process_new_def)
    moreover have "stop_model outcome (md_id d) a' = (Inr (), a)" if "\<forall>e. outcome \<noteq> KillFailed e" for outcome
    proof -
      have stop: "process_stop outcome ?p = (Inr (), ?p\<lparr>mp_child := None\<rparr>)"
        using that by (cases outcome) (auto simp: process_stop_def managed_process_new_def)
      have "(na_processes a)(md_id d := None) = na_processes a"
        using assms(2) by (simp add: fun_upd_idem)
      then show ?thesis
        using ins taken(2) by (simp add: stop_model_def a' stop port_pool_release_def)
    qed
    ultimately show ?thesis using r taken(2) by simp
  qed
qed

definition small_agent :: node_agent where
  "small_agent = \<lparr>na_config = sample_node, na_processes = Map.empty, na_port_pool = [80, 81]\<rparr>"

lemma small_agent_ok: "ports_partition {80, 81} small_agent"
  by (auto simp: ports_partition_def small_agent_def port_map_def one_to_one_def)

lemma start_stop_roundtrip_example:
  "stop_model KilledAfterTimeout ''m1'' (snd (start_model sample_engine_host sample_deployment small_agent))
     = (Inr (), small_agent)"
proof -
  have run: "start_model sample_engine_host sample_deployment small_agent
      = (Inr 80, snd (start_model sample_engine_host sample_deployment small_agent))"
    by (simp add: start_model_def start_begin_def small_agent_def sample_deployment_def port_pool_allocate_def
        spawn_engine_def spawn_vllm_def spawn_command_def sample_engine_host_def start_finish_def)
  have "na_processes small_agent (md_id sample_deployment) = None" by (simp add: small_agent_def)
  from start_stop_roundtrip [OF small_agent_ok this run] show ?thesis
    by (simp add: sample_deployment_def)
qed

section \<open>The contract the scheduler relies on\<close>

text \<open>
  What a host of model processes promises to its client: a successful start leaves the model
  served at the returned port, a successful stop leaves it unserved, and neither touches any other
  model.  A failed operation changes nothing that is served.
\<close>

locale model_host =
  fixes start :: "'d \<Rightarrow> 'a \<Rightarrow> ('e, 'p) result \<times> 'a"
    and stop :: "'m \<Rightarrow> 'a \<Rightarrow> ('e, unit) result \<times> 'a"
    and name :: "'d \<Rightarrow> 'm"
    and served :: "'a \<Rightarrow> 'm \<Rightarrow> 'p option"
  assumes start_ok: "start d a = (Inr port, a') \<Longrightarrow> served a' = (served a)(name d \<mapsto> port)"
    and start_err: "start d a = (Inl e, a') \<Longrightarrow> served a' = served a"
    and start_again: "served a (name d) = Some port \<Longrightarrow> start d a = (Inr port, a)"
    and stop_ok: "stop m a = (Inr (), a') \<Longrightarrow> served a' = (served a)(m := None)"
    and stop_err: "stop m a = (Inl e, a') \<Longrightarrow> served a' = served a"
begin

lemma served_after_start: "start d a = (Inr port, a') \<Longrightarrow> served a' (name d) = Some port"
  by (simp add: start_ok)

lemma start_other: "m \<noteq> name d \<Longrightarrow> served (snd (start d a)) m = served a m"
  by (cases "start d a"; cases "fst (start d a)") (auto simp: start_ok start_err)

lemma stop_other: "n \<noteq> m \<Longrightarrow> served (snd (stop m a)) n = served a n"
  by (cases "stop m a"; cases "fst (stop m a)") (auto simp: stop_ok stop_err)

lemma restart:
  "stop (name d) a = (Inr (), b) \<Longrightarrow> start d b = (Inr port, c) \<Longrightarrow>
     served c = (served a)(name d \<mapsto> port) \<and> start d c = (Inr port, c)"
  by (simp add: stop_ok start_ok start_again)

end

lemma start_model_served:
  "start_model host d a = (Inr port, a') \<Longrightarrow> port_map a' = (port_map a)(md_id d \<mapsto> port)"
  "start_model host d a = (Inl e, a') \<Longrightarrow> port_map a' = port_map a"
proof -
  have upd: "port_map (a\<lparr>na_port_pool := rest, na_processes := (na_processes a)(m \<mapsto> p)\<rparr>)
      = (port_map a)(m \<mapsto> mp_port p)" for rest m p
    by (auto simp: port_map_def fun_eq_iff)
  show "start_model host d a = (Inr port, a') \<Longrightarrow> port_map a' = (port_map a)(md_id d \<mapsto> port)"
    by (cases rule: start_begin_cases [of a d])
      (auto simp: start_model_def start_finish_def upd port_map_def fun_eq_iff split: sum.splits)
  show "start_model host d a = (Inl e, a') \<Longrightarrow> port_map a' = port_map a"
    by (cases rule: start_begin_cases [of a d])
      (auto simp: start_model_def start_finish_def split: sum.splits)
qed

lemma stop_model_served:
  "stop_model outcome m a = (Inr (), a') \<Longrightarrow> port_map a' = (port_map a)(m := None)"
  "stop_model outcome m a = (Inl e, a') \<Longrightarrow> port_map a' = port_map a"
proof -
  show "stop_model outcome m a = (Inr (), a') \<Longrightarrow> port_map a' = (port_map a)(m := None)"
    by (auto simp: stop_model_def port_map_def fun_eq_iff split: option.splits prod.splits sum.splits)
  show "stop_model outcome m a = (Inl e, a') \<Longrightarrow> port_map a' = port_map a"
    by (auto simp: stop_model_def port_map_def fun_eq_iff dest: process_stop_port
        split: option.splits prod.splits sum.splits)
qed

interpretation agent: model_host "start_model host" "stop_model outcome" md_id port_map
proof
  show "port_map a (md_id d) = Some port \<Longrightarrow> start_model host d a = (Inr port, a)" for a d port
    by (auto simp: start_model_def start_begin_def port_map_def)
qed (auto simp: start_model_served stop_model_served)

section \<open>Two starts of the same model\<close>

text \<open>
  Overlapping starts of one model leak a port.  The record of a process is written only after
  its spawn was awaited.  When two calls for the same unrecorded model both pass the check before
  either has finished, both spawn and the second record replaces the first: after the model is
  stopped, the first port is neither free nor held by a process, so the pool has lost it.
\<close>

lemma overlapping_starts_leak_port:
  assumes "ports_partition R a" "na_processes a (md_id d) = None" "na_port_pool a = p1 # p2 # rest"
    and "start_begin d a = (Inr q1, a1)" "start_begin d a1 = (Inr q2, a2)"
    and "start_finish d q1 (Inr c) a2 = (r1, a3)" "start_finish d q2 (Inr c') a3 = (r2, a4)"
    and "stop_model ExitedInTime (md_id d) a4 = (r3, a5)"
  shows "q1 = p1 \<and> q2 = p2 \<and> r3 = Inr () \<and> p1 \<in> R \<and> p1 \<notin> set (na_port_pool a5) \<union> ran (port_map a5)
         \<and> \<not> ports_partition R a5"
proof -
  have 1: "q1 = p1" "a1 = a\<lparr>na_port_pool := p2 # rest\<rparr>"
    using assms(2-4) by (auto simp: start_begin_def port_pool_allocate_def)
  then have 2: "q2 = p2" "a2 = a\<lparr>na_port_pool := rest\<rparr>"
    using assms(2,5) by (auto simp: start_begin_def port_pool_allocate_def)
  have 4: "a4 = a\<lparr>na_port_pool := rest,
      na_processes := (na_processes a)(md_id d \<mapsto> managed_process_new (md_id d) p2 c')\<rparr>"
    using assms(6,7) 1 2 by (auto simp: start_finish_def)
  have 5: "r3 = Inr ()" "a5 = a\<lparr>na_port_pool := bt_insert p2 rest\<rparr>"
    using assms(2,8) by (auto simp: stop_model_def process_stop_def managed_process_new_def 4
        port_pool_release_def fun_upd_idem)
  have inv: "p1 \<notin> set rest" "p1 \<noteq> p2" "p1 \<notin> ran (port_map a)" "p1 \<in> R"
    using assms(1,3) by (auto simp: ports_partition_def)
  then have lost: "p1 \<notin> set (na_port_pool a5) \<union> ran (port_map a5)"
    by (simp add: 5)
  then have "\<not> ports_partition R a5"
    using inv(4) by (auto simp: ports_partition_def)
  with 1 2 5 inv lost show ?thesis by blast
qed

lemma overlapping_starts_leak_port_example:
  "\<not> ports_partition {80, 81} (snd (stop_model ExitedInTime (md_id sample_deployment)
       (snd (start_finish sample_deployment 81 (Inr (Some 2))
         (snd (start_finish sample_deployment 80 (Inr (Some 1))
           (snd (start_begin sample_deployment (snd (start_begin sample_deployment small_agent))))))))))"
proof -
  have n: "na_processes small_agent (md_id sample_deployment) = None"
    "na_port_pool small_agent = 80 # 81 # []"
    by (simp_all add: small_agent_def sample_deployment_def)
  have b: "start_begin sample_deployment small_agent
      = (Inr 80, snd (start_begin sample_deployment small_agent))"
    "start_begin sample_deployment (snd (start_begin sample_deployment small_agent))
      = (Inr 81, snd (start_begin sample_deployment (snd (start_begin sample_deployment small_agent))))"
    by (simp_all add: start_begin_def small_agent_def port_pool_allocate_def)
  from overlapping_starts_leak_port [OF small_agent_ok n b surjective_pairing surjective_pairing
      surjective_pairing, where c = "Some 1" and c' = "Some 2"]
  show ?thesis by blast
qed

end
