(* ===== verification/Scheduler.thy ===== *)
theory Scheduler
  imports Node_Agent
begin

text \<open>
  The scheduler: \<open>crates/gadgetron-scheduler/src/scheduler.rs\<close>.  Its three maps are the fields of
  \<open>scheduler\<close>.  The order in which a \<open>HashMap\<close> is walked, the time and what the hosts answer are
  collected in \<open>call_env\<close>, the environment of one call.  Sums of megabytes are taken in \<open>u64\<close> with
  wrap-around, as in a release build; the theorems state where no sum overflows.
\<close>

record scheduler =
  sc_deployments :: "string \<rightharpoonup> model_deployment"
  sc_nodes :: "string \<rightharpoonup> node_status"
  sc_agents :: "string \<rightharpoonup> node_agent"

record call_env =
  ce_node_order :: "string list"
  ce_deployment_order :: "string list"
  ce_now :: int
  ce_host :: "string \<Rightarrow> engine_host"
  ce_stop :: "string \<Rightarrow> stop_outcome"

definition scheduler_new :: scheduler where
  "scheduler_new = \<lparr>sc_deployments = Map.empty, sc_nodes = Map.empty, sc_agents = Map.empty\<rparr>"

section \<open>Registration and queries\<close>

definition register_agent :: "node_agent \<Rightarrow> scheduler \<Rightarrow> scheduler" where
  "register_agent a s = s\<lparr>sc_agents := (sc_agents s)(nc_id (na_config a) \<mapsto> a)\<rparr>"

definition register_node :: "node_status \<Rightarrow> scheduler \<Rightarrow> scheduler" where
  "register_node status s = s\<lparr>sc_nodes := (sc_nodes s)(ns_id status \<mapsto> status)\<rparr>"

definition update_node :: "string \<Rightarrow> node_status \<Rightarrow> scheduler \<Rightarrow> scheduler" where
  "update_node node_id status s = s\<lparr>sc_nodes := (sc_nodes s)(node_id \<mapsto> status)\<rparr>"

definition get_status :: "scheduler \<Rightarrow> string \<Rightarrow> model_state option" where
  "get_status s model_id = map_option md_status (sc_deployments s model_id)"

definition list_deployments :: "call_env \<Rightarrow> scheduler \<Rightarrow> model_deployment list" where
  "list_deployments env s = hm_values (ce_deployment_order env) (sc_deployments s)"

definition list_nodes :: "call_env \<Rightarrow> scheduler \<Rightarrow> node_status list" where
  "list_nodes env s = hm_values (ce_node_order env) (sc_nodes s)"

definition undeploy :: "string \<Rightarrow> scheduler \<Rightarrow> (cluster_error, unit) result \<times> scheduler" where
  "undeploy model_id s =
     (case sc_deployments s model_id of
        None \<Rightarrow> (Inl (RoutingError (''model not found: '' @ model_id)), s)
      | Some _ \<Rightarrow> (Inr (), s\<lparr>sc_deployments := (sc_deployments s)(model_id := None)\<rparr>))"

section \<open>Eviction\<close>

definition lru_candidates :: "call_env \<Rightarrow> scheduler \<Rightarrow> string \<Rightarrow> model_deployment list" where
  "lru_candidates env s node_id =
     sort_by (\<lambda>a b. md_last_used a \<le> md_last_used b)
       (filter (\<lambda>d. md_assigned_node d = node_id \<and> deployment_is_available d) (list_deployments env s))"

fun eviction_candidate :: "u64 \<Rightarrow> u64 \<Rightarrow> model_deployment list \<Rightarrow> string option" where
  "eviction_candidate required freed [] = None"
| "eviction_candidate required freed (c # cs) =
     (let freed' = freed + md_vram_requirement_mb c
      in if required \<le> freed' then Some (md_id c) else eviction_candidate required freed' cs)"

definition find_eviction_candidate :: "call_env \<Rightarrow> scheduler \<Rightarrow> string \<Rightarrow> u64 \<Rightarrow> string option" where
  "find_eviction_candidate env s node_id required = eviction_candidate required 0 (lru_candidates env s node_id)"

definition find_node_with_vram :: "node_status list \<Rightarrow> u64 \<Rightarrow> string option" where
  "find_node_with_vram nodes required =
     map_option ns_id
       (find (\<lambda>n. required \<le> available_vram_mb (ns_resources n)) (filter ns_healthy nodes))"

text \<open>The inner loop over the candidates of one node: the megabytes freed and the models pushed.\<close>

fun pick_victims :: "u64 \<Rightarrow> u64 \<Rightarrow> u64 \<Rightarrow> model_deployment list \<Rightarrow> model_deployment list \<Rightarrow> u64 \<times> model_deployment list" where
  "pick_victims available required freed picked [] = (freed, picked)"
| "pick_victims available required freed picked (c # cs) =
     (let freed' = freed + md_vram_requirement_mb c; picked' = picked @ [c]
      in if required \<le> available + freed' then (freed', picked')
         else pick_victims available required freed' picked' cs)"

text \<open>The outer loop over the healthy nodes: the first node where enough is free after eviction.\<close>

fun plan_eviction ::
  "call_env \<Rightarrow> scheduler \<Rightarrow> u64 \<Rightarrow> node_status list \<Rightarrow> (string \<times> model_deployment list) option" where
  "plan_eviction env s required [] = None"
| "plan_eviction env s required (n # ns) =
     (let available = available_vram_mb (ns_resources n) in
      case pick_victims available required 0 [] (lru_candidates env s (ns_id n)) of
        (freed, picked) \<Rightarrow>
          if required \<le> available + freed then Some (ns_id n, picked)
          else plan_eviction env s required ns)"

definition stop_victim :: "call_env \<Rightarrow> string \<Rightarrow> string \<Rightarrow> scheduler \<Rightarrow> scheduler" where
  "stop_victim env node_id model_id s =
     (case sc_agents s node_id of
        None \<Rightarrow> s
      | Some a \<Rightarrow>
          s\<lparr>sc_agents := (sc_agents s)(node_id \<mapsto> snd (stop_model (ce_stop env model_id) model_id a))\<rparr>)"

definition mark_stopped :: "string \<Rightarrow> scheduler \<Rightarrow> scheduler" where
  "mark_stopped model_id s =
     s\<lparr>sc_deployments := (sc_deployments s)
         (model_id := map_option (\<lambda>rec. rec\<lparr>md_status := ModelStopped\<rparr>) (sc_deployments s model_id))\<rparr>"

definition evict_and_free ::
  "call_env \<Rightarrow> u64 \<Rightarrow> scheduler \<Rightarrow> (cluster_error, string) result \<times> scheduler" where
  "evict_and_free env required s =
     (case plan_eviction env s required (filter ns_healthy (list_nodes env s)) of
        None \<Rightarrow>
          (Inl (RoutingError (''no node can free '' @ show_nat (unat required)
             @ '' MB VRAM even after LRU eviction'')), s)
      | Some (node_id, victims) \<Rightarrow>
          (Inr node_id,
           fold (\<lambda>d. mark_stopped (md_id d)) victims
             (fold (\<lambda>d. stop_victim env node_id (md_id d)) victims s)))"

section \<open>Deployment\<close>

definition loading_record :: "call_env \<Rightarrow> string \<Rightarrow> inference_engine \<Rightarrow> u64 \<Rightarrow> string \<Rightarrow> model_deployment" where
  "loading_record env model_id engine vram_mb node_id =
     \<lparr>md_id = model_id, md_engine = engine, md_status = ModelLoading, md_assigned_node = node_id,
      md_port = 0, md_vram_requirement_mb = vram_mb, md_priority = 0, md_args = None,
      md_last_used = ce_now env, md_request_count = 0\<rparr>"

definition place_record ::
  "call_env \<Rightarrow> string \<Rightarrow> inference_engine \<Rightarrow> u64 \<Rightarrow> string \<Rightarrow> scheduler \<Rightarrow> model_deployment \<times> scheduler" where
  "place_record env model_id engine vram_mb node_id s =
     (let rec = (case sc_deployments s model_id of
                   Some rec \<Rightarrow> rec | None \<Rightarrow> loading_record env model_id engine vram_mb node_id);
          rec' = rec\<lparr>md_assigned_node := node_id, md_status := ModelLoading\<rparr>
      in (rec', s\<lparr>sc_deployments := (sc_deployments s)(model_id \<mapsto> rec')\<rparr>))"

definition start_on_node ::
  "call_env \<Rightarrow> string \<Rightarrow> string \<Rightarrow> model_deployment \<Rightarrow> scheduler \<Rightarrow> (cluster_error, unit) result \<times> scheduler" where
  "start_on_node env model_id node_id snapshot s =
     (case sc_agents s node_id of
        None \<Rightarrow> (Inl (RoutingError (''no agent registered for node '' @ node_id)), s)
      | Some a \<Rightarrow>
          (case start_model (ce_host env node_id) snapshot a of
             (Inl e, a') \<Rightarrow> (Inl e, s\<lparr>sc_agents := (sc_agents s)(node_id \<mapsto> a')\<rparr>)
           | (Inr port, a') \<Rightarrow>
               (Inr (), s\<lparr>sc_agents := (sc_agents s)(node_id \<mapsto> a'),
                          sc_deployments := (sc_deployments s)
                            (model_id := map_option (\<lambda>rec. rec\<lparr>md_status := ModelRunning, md_port := port\<rparr>)
                                           (sc_deployments s model_id))\<rparr>)))"

definition deploy ::
  "call_env \<Rightarrow> string \<Rightarrow> inference_engine \<Rightarrow> u64 \<Rightarrow> scheduler \<Rightarrow> (cluster_error, unit) result \<times> scheduler" where
  "deploy env model_id engine vram_mb s =
     (if (case sc_deployments s model_id of Some d \<Rightarrow> deployment_is_available d | None \<Rightarrow> False)
      then (Inr (), s)
      else
        case (case find_node_with_vram (list_nodes env s) vram_mb of
                Some node_id \<Rightarrow> (Inr node_id, s)
              | None \<Rightarrow> evict_and_free env vram_mb s) of
          (Inl e, s') \<Rightarrow> (Inl e, s')
        | (Inr node_id, s') \<Rightarrow>
            (case place_record env model_id engine vram_mb node_id s' of
               (snapshot, s'') \<Rightarrow> start_on_node env model_id node_id snapshot s''))"

section \<open>Eviction frees enough and no more than needed\<close>

definition vram_sum :: "model_deployment list \<Rightarrow> nat" where
  "vram_sum ds = sum_list (map (\<lambda>d. unat (md_vram_requirement_mb d)) ds)"

lemma vram_sum_simps [simp]:
  "vram_sum [] = 0" "vram_sum (d # ds) = unat (md_vram_requirement_mb d) + vram_sum ds"
  "vram_sum (ds @ es) = vram_sum ds + vram_sum es"
  by (simp_all add: vram_sum_def)

lemma word_le_plus:
  "unat a + unat b < 2 ^ LENGTH('w) \<Longrightarrow> c \<le> a + b \<longleftrightarrow> unat c \<le> unat a + unat b" for a b c :: "'w::len word"
  by (simp add: word_le_nat_alt unat_word_ariths)

text \<open>
  The inner loop, when no sum overflows: it stops at the first prefix of the candidates that is
  large enough, or takes them all.
\<close>

lemma pick_victims_prefix:
  assumes "pick_victims available required freed picked cs = (freed', picked')"
    and "unat available + unat freed + vram_sum cs < 2 ^ 64"
    and "unat available + unat freed < unat required"
  shows "\<exists>taken rest. cs = taken @ rest \<and> picked' = picked @ taken
           \<and> unat freed' = unat freed + vram_sum taken
           \<and> (unat required \<le> unat available + unat freed' \<or> rest = [])
           \<and> unat available + unat freed + vram_sum (butlast taken) < unat required"
  using assms
proof (induction cs arbitrary: freed picked)
  case Nil
  then show ?case by auto
next
  case (Cons c cs)
  let ?f = "freed + md_vram_requirement_mb c"
  have f: "unat ?f = unat freed + unat (md_vram_requirement_mb c)"
    using Cons.prems(2) by (simp add: unat_word_ariths)
  have enough: "required \<le> available + ?f \<longleftrightarrow> unat required \<le> unat available + unat ?f"
    using Cons.prems(2) f by (intro word_le_plus) simp
  show ?case
  proof (cases "unat required \<le> unat available + unat ?f")
    case True
    with Cons.prems(1) enough have "freed' = ?f" "picked' = picked @ [c]" by (simp_all add: Let_def)
    with True f Cons.prems(3) show ?thesis
      by (intro exI [of _ "[c]"] exI [of _ cs]) simp
  next
    case False
    with Cons.prems(1) enough have run: "pick_victims available required ?f (picked @ [c]) cs = (freed', picked')"
      by (simp add: Let_def)
    from Cons.IH [OF run] Cons.prems(2) f False obtain taken rest where
      t: "cs = taken @ rest" "picked' = (picked @ [c]) @ taken" "unat freed' = unat ?f + vram_sum taken"
      "unat required \<le> unat available + unat freed' \<or> rest = []"
      "unat available + unat ?f + vram_sum (butlast taken) < unat required"
      by auto
    have "unat available + unat freed + vram_sum (butlast (c # taken)) < unat required"
      using t(5) Cons.prems(3) f by (cases taken) auto
    with t f show ?thesis by (intro exI [of _ "c # taken"] exI [of _ rest]) simp
  qed
qed

text \<open>No sum of the eviction planner overflows on a node.\<close>

definition sums_fit :: "call_env \<Rightarrow> scheduler \<Rightarrow> node_status \<Rightarrow> bool" where
  "sums_fit env s n \<longleftrightarrow>
     unat (available_vram_mb (ns_resources n)) + vram_sum (lru_candidates env s (ns_id n)) < 2 ^ 64"

definition short_of :: "u64 \<Rightarrow> node_status \<Rightarrow> bool" where
  "short_of required n \<longleftrightarrow> unat (available_vram_mb (ns_resources n)) < unat required"

lemma plan_eviction_step:
  assumes "sums_fit env s n" "short_of required n"
    and "pick_victims (available_vram_mb (ns_resources n)) required 0 [] (lru_candidates env s (ns_id n))
           = (freed, picked)"
  shows "prefix picked (lru_candidates env s (ns_id n))"
    and "required \<le> available_vram_mb (ns_resources n) + freed \<longleftrightarrow>
           unat required \<le> unat (available_vram_mb (ns_resources n)) + vram_sum picked"
    and "unat required \<le> unat (available_vram_mb (ns_resources n)) + vram_sum picked
           \<or> picked = lru_candidates env s (ns_id n)"
    and "unat (available_vram_mb (ns_resources n)) + vram_sum (butlast picked) < unat required"
proof -
  from pick_victims_prefix [OF assms(3)] assms(1,2) obtain rest where
    p: "lru_candidates env s (ns_id n) = picked @ rest" "unat freed = vram_sum picked"
    "unat required \<le> unat (available_vram_mb (ns_resources n)) + unat freed \<or> rest = []"
    "unat (available_vram_mb (ns_resources n)) + vram_sum (butlast picked) < unat required"
    by (auto simp: sums_fit_def short_of_def)
  then show "prefix picked (lru_candidates env s (ns_id n))"
    "unat required \<le> unat (available_vram_mb (ns_resources n)) + vram_sum picked
       \<or> picked = lru_candidates env s (ns_id n)"
    "unat (available_vram_mb (ns_resources n)) + vram_sum (butlast picked) < unat required"
    by (auto simp: prefix_def)
  show "required \<le> available_vram_mb (ns_resources n) + freed \<longleftrightarrow>
      unat required \<le> unat (available_vram_mb (ns_resources n)) + vram_sum picked"
    using assms(1) p(1,2) by (subst word_le_plus) (auto simp: sums_fit_def)
qed

lemma plan_eviction_Some:
  assumes "plan_eviction env s required ns = Some (node_id, victims)"
    and "\<forall>n \<in> set ns. sums_fit env s n \<and> short_of required n"
  shows "\<exists>n \<in> set ns. ns_id n = node_id \<and> prefix victims (lru_candidates env s node_id)
           \<and> unat required \<le> unat (available_vram_mb (ns_resources n)) + vram_sum victims
           \<and> unat (available_vram_mb (ns_resources n)) + vram_sum (butlast victims) < unat required"
  using assms
proof (induction ns)
  case Nil
  then show ?case by simp
next
  case (Cons n ns)
  obtain freed picked where pick: "pick_victims (available_vram_mb (ns_resources n)) required 0 []
      (lru_candidates env s (ns_id n)) = (freed, picked)"
    by (cases "pick_victims (available_vram_mb (ns_resources n)) required 0 []
      (lru_candidates env s (ns_id n))")
  have ok: "sums_fit env s n" "short_of required n" using Cons.prems(2) by simp_all
  note step = plan_eviction_step [OF ok pick]
  show ?case
  proof (cases "required \<le> available_vram_mb (ns_resources n) + freed")
    case True
    with Cons.prems(1) pick have "node_id = ns_id n" "victims = picked" by (simp_all add: Let_def)
    with True step show ?thesis by auto
  next
    case False
    with Cons.prems pick have "\<exists>m \<in> set ns. ns_id m = node_id \<and> prefix victims (lru_candidates env s node_id)
        \<and> unat required \<le> unat (available_vram_mb (ns_resources m)) + vram_sum victims
        \<and> unat (available_vram_mb (ns_resources m)) + vram_sum (butlast victims) < unat required"
      by (intro Cons.IH) (simp_all add: Let_def)
    then show ?thesis by auto
  qed
qed

lemma plan_eviction_None:
  assumes "plan_eviction env s required ns = None"
    and "\<forall>n \<in> set ns. sums_fit env s n \<and> short_of required n" "n \<in> set ns"
  shows "unat (available_vram_mb (ns_resources n)) + vram_sum (lru_candidates env s (ns_id n)) < unat required"
  using assms
proof (induction ns)
  case Nil
  then show ?case by simp
next
  case (Cons m ns)
  obtain freed picked where pick: "pick_victims (available_vram_mb (ns_resources m)) required 0 []
      (lru_candidates env s (ns_id m)) = (freed, picked)"
    by (cases "pick_victims (available_vram_mb (ns_resources m)) required 0 []
      (lru_candidates env s (ns_id m))")
  have ok: "sums_fit env s m" "short_of required m" using Cons.prems(2) by simp_all
  note step = plan_eviction_step [OF ok pick]
  from Cons.prems(1) pick have "\<not> required \<le> available_vram_mb (ns_resources m) + freed"
    and rest: "plan_eviction env s required ns = None"
    by (auto simp: Let_def split: if_splits)
  with step have "unat (available_vram_mb (ns_resources m)) + vram_sum (lru_candidates env s (ns_id m))
      < unat required" by auto
  with Cons.IH [OF rest] Cons.prems(2,3) show ?case by auto
qed

lemma lru_candidates_sorted: "sorted_wrt (\<lambda>a b. md_last_used a \<le> md_last_used b) (lru_candidates env s node_id)"
  unfolding lru_candidates_def by (rule comparator.sorted_sort_by [OF comparator_key])

lemma set_lru_candidates:
  "visits (ce_deployment_order env) (sc_deployments s) \<Longrightarrow>
     d \<in> set (lru_candidates env s node_id) \<longleftrightarrow>
       d \<in> ran (sc_deployments s) \<and> md_assigned_node d = node_id \<and> deployment_is_available d"
  by (auto simp: lru_candidates_def list_deployments_def set_hm_values)

lemma find_node_None:
  "find_node_with_vram nodes required = None \<Longrightarrow> n \<in> set nodes \<Longrightarrow> ns_healthy n \<Longrightarrow> short_of required n"
  by (auto simp: find_node_with_vram_def find_None_iff short_of_def word_le_nat_alt not_le)

section \<open>What a call leaves behind\<close>

definition keyed :: "scheduler \<Rightarrow> bool" where
  "keyed s \<longleftrightarrow> (\<forall>m d. sc_deployments s m = Some d \<longrightarrow> md_id d = m)"

definition all_ports_ok :: "scheduler \<Rightarrow> bool" where
  "all_ports_ok s \<longleftrightarrow> (\<forall>a \<in> ran (sc_agents s). ports_partition default_ports a)"

lemma all_ports_ok_upd: "all_ports_ok s \<Longrightarrow> ports_partition default_ports a \<Longrightarrow>
    all_ports_ok (s\<lparr>sc_agents := (sc_agents s)(n \<mapsto> a)\<rparr>)"
  by (auto simp: all_ports_ok_def ran_def split: if_splits)

lemma stop_victim_sel [simp]:
  "sc_deployments (stop_victim env n m s) = sc_deployments s" "sc_nodes (stop_victim env n m s) = sc_nodes s"
  by (simp_all add: stop_victim_def split: option.splits)

lemma mark_stopped_sel [simp]:
  "sc_agents (mark_stopped m s) = sc_agents s" "sc_nodes (mark_stopped m s) = sc_nodes s"
  by (simp_all add: mark_stopped_def)

lemma all_ports_ok_stop_victim: "all_ports_ok s \<Longrightarrow> all_ports_ok (stop_victim env n m s)"
  by (auto simp: stop_victim_def intro!: all_ports_ok_upd stop_model_partition split: option.splits)
    (auto simp: all_ports_ok_def ran_def)

lemma fold_stop_victims:
  "sc_deployments (fold (\<lambda>d. stop_victim env n (md_id d)) vs s) = sc_deployments s"
  "all_ports_ok s \<Longrightarrow> all_ports_ok (fold (\<lambda>d. stop_victim env n (md_id d)) vs s)"
  by (induction vs arbitrary: s) (auto intro: all_ports_ok_stop_victim)

lemma fold_mark_stopped:
  "sc_agents (fold (\<lambda>d. mark_stopped (md_id d)) vs s) = sc_agents s"
  "sc_deployments (fold (\<lambda>d. mark_stopped (md_id d)) vs s) m =
     (if m \<in> md_id ` set vs then map_option (\<lambda>rec. rec\<lparr>md_status := ModelStopped\<rparr>) (sc_deployments s m)
      else sc_deployments s m)"
  by (induction vs arbitrary: s) (auto simp: mark_stopped_def option.map_comp o_def)

lemma evict_and_free_cases:
  obtains (failed) e where "evict_and_free env required s = (Inl e, s)"
      "plan_eviction env s required (filter ns_healthy (list_nodes env s)) = None"
  | (evicted) node victims s' where "evict_and_free env required s = (Inr node, s')"
      "plan_eviction env s required (filter ns_healthy (list_nodes env s)) = Some (node, victims)"
      "sc_deployments s' = (\<lambda>m. if m \<in> md_id ` set victims
         then map_option (\<lambda>rec. rec\<lparr>md_status := ModelStopped\<rparr>) (sc_deployments s m) else sc_deployments s m)"
      "all_ports_ok s \<Longrightarrow> all_ports_ok s'"
proof (cases "plan_eviction env s required (filter ns_healthy (list_nodes env s))")
  case None
  with failed show thesis by (simp add: evict_and_free_def)
next
  case (Some plan)
  obtain node victims where plan: "plan = (node, victims)" by (cases plan)
  let ?s = "fold (\<lambda>d. mark_stopped (md_id d)) victims (fold (\<lambda>d. stop_victim env node (md_id d)) victims s)"
  show thesis
  proof (rule evicted)
    show "evict_and_free env required s = (Inr node, ?s)"
      using Some plan by (simp add: evict_and_free_def)
    show "plan_eviction env s required (filter ns_healthy (list_nodes env s)) = Some (node, victims)"
      using Some plan by simp
    show "sc_deployments ?s = (\<lambda>m. if m \<in> md_id ` set victims
         then map_option (\<lambda>rec. rec\<lparr>md_status := ModelStopped\<rparr>) (sc_deployments s m) else sc_deployments s m)"
      by (simp add: fold_mark_stopped fold_stop_victims fun_eq_iff)
    show "all_ports_ok s \<Longrightarrow> all_ports_ok ?s"
      using fold_stop_victims(2) [of s env node victims] by (simp add: all_ports_ok_def fold_mark_stopped)
  qed
qed

lemma list_nodes_healthy:
  "visits (ce_node_order env) (sc_nodes s) \<Longrightarrow>
     n \<in> set (filter ns_healthy (list_nodes env s)) \<longleftrightarrow> n \<in> ran (sc_nodes s) \<and> ns_healthy n"
  by (simp add: list_nodes_def set_hm_values)

definition orders_ok :: "call_env \<Rightarrow> scheduler \<Rightarrow> bool" where
  "orders_ok env s \<longleftrightarrow>
     visits (ce_node_order env) (sc_nodes s) \<and> visits (ce_deployment_order env) (sc_deployments s)"

lemma eviction_preconditions:
  assumes "orders_ok env s" "\<forall>n \<in> ran (sc_nodes s). sums_fit env s n"
    and "find_node_with_vram (list_nodes env s) required = None"
  shows "\<forall>n \<in> set (filter ns_healthy (list_nodes env s)). sums_fit env s n \<and> short_of required n"
proof
  fix n assume n: "n \<in> set (filter ns_healthy (list_nodes env s))"
  then have "short_of required n" using find_node_None [OF assms(3)] by simp
  with n assms(1,2) list_nodes_healthy [of env s n] show "sums_fit env s n \<and> short_of required n"
    by (simp add: orders_ok_def)
qed


text \<open>
  An eviction is refused only when it could not help: on every healthy node, the free memory
  and the memory of all its running models together are less than what is required.  Nothing
  changes then.
\<close>

lemma eviction_refused_only_if_hopeless:
  assumes "orders_ok env s" "\<forall>n \<in> ran (sc_nodes s). sums_fit env s n"
    and "find_node_with_vram (list_nodes env s) required = None"
    and "evict_and_free env required s = (Inl e, s')"
    and "n \<in> ran (sc_nodes s)" "ns_healthy n"
  shows "s' = s \<and> unat (available_vram_mb (ns_resources n)) + vram_sum (lru_candidates env s (ns_id n)) < unat required"
proof (cases rule: evict_and_free_cases [of env required s])
  case (failed e')
  note fit = eviction_preconditions [OF assms(1-3)]
  from plan_eviction_None [OF failed(2) fit] assms(1,5,6) list_nodes_healthy [of env s n] failed(1) assms(4)
  show ?thesis by (auto simp: orders_ok_def)
next
  case (evicted node victims s'')
  with assms(4) show ?thesis by simp
qed

section \<open>Deployment and undeployment\<close>

lemma place_record_eq:
  assumes "place_record env m engine vram node s = (snapshot, s')" "keyed s"
  shows "md_id snapshot = m" "md_assigned_node snapshot = node" "sc_agents s' = sc_agents s"
    "sc_deployments s' = (sc_deployments s)(m \<mapsto> snapshot)"
  using assms by (auto simp: place_record_def Let_def keyed_def loading_record_def split: option.splits)

lemma keyed_evicted:
  assumes "keyed s" "sc_deployments s' = (\<lambda>m. if m \<in> V
         then map_option (\<lambda>rec. rec\<lparr>md_status := ModelStopped\<rparr>) (sc_deployments s m) else sc_deployments s m)"
  shows "keyed s'"
  using assms by (auto simp: keyed_def split: if_splits)

text \<open>The state and the node at which a deployment that was not running starts its process.\<close>

lemma deploy_cases:
  assumes "keyed s" "deploy env m engine vram s = (r, s')"
  obtains (running) d where "sc_deployments s m = Some d" "deployment_is_available d" "r = Inr ()" "s' = s"
  | (refused) e where "r = Inl e" "s' = s"
  | (started) node s1 snapshot s2 where "keyed s1" "all_ports_ok s \<Longrightarrow> all_ports_ok s1"
      "find_node_with_vram (list_nodes env s) vram = Some node \<Longrightarrow> s1 = s"
      "place_record env m engine vram node s1 = (snapshot, s2)"
      "start_on_node env m node snapshot s2 = (r, s')"
      "find_node_with_vram (list_nodes env s) vram = Some node \<or> find_node_with_vram (list_nodes env s) vram = None"
proof (cases "case sc_deployments s m of Some d \<Rightarrow> deployment_is_available d | None \<Rightarrow> False")
  case True
  then obtain d where "sc_deployments s m = Some d" "deployment_is_available d"
    by (auto split: option.splits)
  with running assms(2) show thesis by (auto simp: deploy_def)
next
  case False
  show thesis
  proof (cases "find_node_with_vram (list_nodes env s) vram")
    case (Some node)
    obtain snapshot s2 where "place_record env m engine vram node s = (snapshot, s2)"
      by (cases "place_record env m engine vram node s")
    with started [of s node snapshot s2] Some False assms show thesis by (simp add: deploy_def)
  next
    case None
    show thesis
    proof (cases rule: evict_and_free_cases [of env vram s])
      case (failed e)
      with refused False None assms(2) show thesis by (auto simp: deploy_def)
    next
      case (evicted node victims s1)
      obtain snapshot s2 where "place_record env m engine vram node s1 = (snapshot, s2)"
        by (cases "place_record env m engine vram node s1")
      with started [of s1 node snapshot s2] evicted keyed_evicted [OF assms(1) evicted(3)] None False assms(2)
      show thesis by (simp add: deploy_def)
    qed
  qed
qed

lemma start_on_node_ok:
  assumes "start_on_node env m node snapshot s = (Inr (), s')" "sc_deployments s m = Some snapshot" "md_id snapshot = m"
  shows "\<exists>a port. sc_agents s' node = Some a \<and> port_map a m = Some port
           \<and> sc_deployments s' = (sc_deployments s)(m \<mapsto> snapshot\<lparr>md_status := ModelRunning, md_port := port\<rparr>)
           \<and> (\<forall>k. k \<noteq> node \<longrightarrow> sc_agents s' k = sc_agents s k)
           \<and> (\<forall>k b. k \<noteq> m \<longrightarrow> sc_agents s node = Some b \<longrightarrow> port_map a k = port_map b k)"
proof (cases "sc_agents s node")
  case None
  with assms(1) show ?thesis by (simp add: start_on_node_def)
next
  case (Some b)
  with assms(1) obtain port a where run: "start_model (ce_host env node) snapshot b = (Inr port, a)"
    by (auto simp: start_on_node_def split: prod.splits sum.splits)
  from Some run assms(1,2) have s': "s' = s\<lparr>sc_agents := (sc_agents s)(node \<mapsto> a),
      sc_deployments := (sc_deployments s)(m \<mapsto> snapshot\<lparr>md_status := ModelRunning, md_port := port\<rparr>)\<rparr>"
    by (auto simp: start_on_node_def)
  have "port_map a m = Some port"
    using agent.served_after_start [OF run] assms(3) by simp
  moreover have "port_map a k = port_map b k" if "k \<noteq> m" for k
    using agent.start_other [of k snapshot "ce_host env node" b] run assms(3) that by simp
  ultimately show ?thesis using s' Some by auto
qed

lemma deploy_ok:
  assumes "keyed s" "deploy env m engine vram s = (Inr (), s')"
    and "\<not> (\<exists>d. sc_deployments s m = Some d \<and> deployment_is_available d)"
  shows "\<exists>rec a. sc_deployments s' m = Some rec \<and> md_status rec = ModelRunning
           \<and> sc_agents s' (md_assigned_node rec) = Some a \<and> port_map a m = Some (md_port rec)"
  using assms(1,2)
proof (cases rule: deploy_cases)
  case (started node s1 snapshot s2)
  note p = place_record_eq [OF started(4,1)]
  from p have "sc_deployments s2 m = Some snapshot" "md_id snapshot = m" by simp_all
  from start_on_node_ok [OF started(5) this] p(2) show ?thesis by auto
qed (use assms(3) in auto)

text \<open>
  A successful deployment is really served.  When a deployment of a model that was not running
  returns success, the model is recorded as running on a node whose agent has a process for it, at
  exactly the port of the record; for a model that was already running nothing changes.
\<close>

lemma deploy_serves_model:
  assumes "keyed s" "deploy env m engine vram s = (Inr (), s')"
  shows "if \<exists>d. sc_deployments s m = Some d \<and> deployment_is_available d then s' = s
         else \<exists>rec a. sc_deployments s' m = Some rec \<and> md_status rec = ModelRunning
                \<and> sc_agents s' (md_assigned_node rec) = Some a \<and> port_map a m = Some (md_port rec)"
proof (cases "\<exists>d. sc_deployments s m = Some d \<and> deployment_is_available d")
  case True
  then have "deploy env m engine vram s = (Inr (), s)" by (auto simp: deploy_def)
  with assms(2) True show ?thesis by simp
next
  case False
  with deploy_ok [OF assms False] show ?thesis by auto
qed

text \<open>
  A deployment that finds room disturbs nobody: no other record changes, no other agent
  changes, and on the chosen node every other model keeps its process and port.
\<close>

lemma deploy_with_room_disturbs_nobody:
  assumes "keyed s" "deploy env m engine vram s = (Inr (), s')"
    and "find_node_with_vram (list_nodes env s) vram = Some node"
  shows "(\<forall>k. k \<noteq> m \<longrightarrow> sc_deployments s' k = sc_deployments s k)
         \<and> (\<forall>k. k \<noteq> node \<longrightarrow> sc_agents s' k = sc_agents s k)
         \<and> (\<forall>k a b. k \<noteq> m \<longrightarrow> sc_agents s node = Some b \<longrightarrow> sc_agents s' node = Some a \<longrightarrow> port_map a k = port_map b k)"
  using assms(1,2)
proof (cases rule: deploy_cases)
  case (started node' s1 snapshot s2)
  from started(3,6) assms(3) have eqs: "node' = node" "s1 = s" by auto
  note p = place_record_eq [OF started(4,1)]
  from p have "sc_deployments s2 m = Some snapshot" "md_id snapshot = m" by simp_all
  from start_on_node_ok [OF started(5) this] p eqs show ?thesis by auto
qed auto

text \<open>
  Undeploying forgets the record but not the process.  After a model was deployed and then
  undeployed, both with success, the scheduler no longer knows it, yet the agent of its node still
  has its process and its port.
\<close>

lemma undeploy_leaves_process:
  assumes "keyed s" "\<not> (\<exists>d. sc_deployments s m = Some d \<and> deployment_is_available d)"
    and "deploy env m engine vram s = (Inr (), s')" "undeploy m s' = (Inr (), s'')"
  shows "get_status s'' m = None \<and> (\<exists>node a port. sc_agents s'' node = Some a \<and> port_map a m = Some port)"
proof -
  from deploy_ok [OF assms(1,3,2)] obtain node a port where
    "sc_agents s' node = Some a" "port_map a m = Some port" by blast
  moreover from assms(4) have "sc_agents s'' = sc_agents s'" "sc_deployments s'' m = None"
    by (auto simp: undeploy_def split: option.splits)
  ultimately show ?thesis by (auto simp: get_status_def)
qed

section \<open>The invariant of the cluster\<close>

inductive scheduler_step :: "scheduler \<Rightarrow> scheduler \<Rightarrow> bool" where
  "node_agent_new config = Some a \<Longrightarrow> scheduler_step s (register_agent a s)"
| "scheduler_step s (register_node status s)"
| "scheduler_step s (update_node node status s)"
| "scheduler_step s (snd (deploy env m engine vram s))"
| "scheduler_step s (snd (undeploy m s))"

lemma start_on_node_ports:
  "all_ports_ok s \<Longrightarrow> all_ports_ok (snd (start_on_node env m node snapshot s))"
proof (cases "sc_agents s node")
  case None
  then show "all_ports_ok s \<Longrightarrow> ?thesis" by (simp add: start_on_node_def)
next
  case (Some a)
  assume ok: "all_ports_ok s"
  with Some have "ports_partition default_ports (snd (start_model (ce_host env node) snapshot a))"
    by (auto simp: all_ports_ok_def ran_def intro: start_model_partition)
  from all_ports_ok_upd [OF ok this, of node] Some show ?thesis
    by (auto simp: start_on_node_def all_ports_ok_def split: prod.splits sum.splits)
qed

lemma keyed_start_on_node: "keyed s \<Longrightarrow> keyed (snd (start_on_node env m node snapshot s))"
  by (auto simp: start_on_node_def keyed_def split: option.splits prod.splits sum.splits)

lemma deploy_invariant:
  assumes "keyed s" "all_ports_ok s"
  shows "keyed (snd (deploy env m engine vram s)) \<and> all_ports_ok (snd (deploy env m engine vram s))"
proof -
  obtain r s' where d: "deploy env m engine vram s = (r, s')" by (cases "deploy env m engine vram s")
  from assms(1) d have "keyed s' \<and> all_ports_ok s'"
  proof (cases rule: deploy_cases)
    case (started node s1 snapshot s2)
    note p = place_record_eq [OF started(4,1)]
    have "keyed s2" "all_ports_ok s2"
      using started(1,2) assms(2) p by (auto simp: keyed_def all_ports_ok_def)
    from keyed_start_on_node [OF this(1)] start_on_node_ports [OF this(2)] started(5) show ?thesis
      by (metis snd_conv)
  qed (use assms in auto)
  with d show ?thesis by simp
qed

lemma scheduler_step_invariant:
  "scheduler_step s s' \<Longrightarrow> keyed s \<and> all_ports_ok s \<Longrightarrow> keyed s' \<and> all_ports_ok s'"
proof (induction rule: scheduler_step.induct)
  case (1 config a s)
  then have "all_ports_ok (register_agent a s)"
    unfolding register_agent_def by (intro all_ports_ok_upd node_agent_new_ok) auto
  with 1 show ?case by (simp add: keyed_def register_agent_def)
next
  case (4 s env m engine vram)
  then show ?case by (simp add: deploy_invariant)
next
  case (5 s m)
  then show ?case by (auto simp: undeploy_def keyed_def all_ports_ok_def split: option.splits)
qed (auto simp: register_node_def update_node_def keyed_def all_ports_ok_def)



section \<open>A small cluster for the witnesses\<close>

definition small_gpu :: gpu_info where
  "small_gpu = \<lparr>gpu_index = 0, gpu_name = ''g'', gpu_vram_total_mb = 100, gpu_vram_used_mb = 90,
     gpu_utilization_pct = 0, gpu_temperature_c = 40, gpu_power_draw_w = 0, gpu_power_limit_w = 0\<rparr>"

definition small_node :: node_status where
  "small_node = \<lparr>ns_id = ''n1'', ns_endpoint = ''http://n1'', ns_healthy = True,
     ns_resources = \<lparr>nr_gpus = [small_gpu], nr_cpu_usage_pct = 0, nr_memory_total_bytes = 0,
                     nr_memory_used_bytes = 0\<rparr>,
     ns_running_models = [], ns_last_heartbeat = 0\<rparr>"

definition running_model :: "string \<Rightarrow> u64 \<Rightarrow> int \<Rightarrow> model_deployment" where
  "running_model m vram used = sample_deployment\<lparr>md_id := m, md_status := ModelRunning,
     md_vram_requirement_mb := vram, md_last_used := used\<rparr>"

definition busy :: scheduler where
  "busy = \<lparr>sc_deployments = [''a'' \<mapsto> running_model ''a'' 30 5, ''b'' \<mapsto> running_model ''b'' 40 2],
     sc_nodes = [''n1'' \<mapsto> small_node], sc_agents = [''n1'' \<mapsto> small_agent]\<rparr>"

definition busy_env :: call_env where
  "busy_env = \<lparr>ce_node_order = [''n1''], ce_deployment_order = [''a'', ''b''], ce_now = 100,
     ce_host = (\<lambda>_. sample_engine_host), ce_stop = (\<lambda>_. ExitedInTime)\<rparr>"

lemma busy_orders: "orders_ok busy_env busy"
  by (auto simp: orders_ok_def visits_def busy_env_def busy_def)

lemma busy_keyed: "keyed busy"
  by (auto simp: keyed_def busy_def running_model_def split: if_splits)

lemma busy_candidates:
  "lru_candidates busy_env busy ''n1'' = [running_model ''b'' 40 2, running_model ''a'' 30 5]"
  by (simp add: lru_candidates_def list_deployments_def hm_values_def busy_env_def busy_def running_model_def
      sample_deployment_def deployment_is_available_def List.map_filter_def)

lemma small_node_free: "available_vram_mb (ns_resources small_node) = 10" "ns_id small_node = ''n1''"
  by (simp_all add: available_vram_mb_def small_node_def small_gpu_def gpu_free_mb_def saturating_sub_def)

lemma busy_fits: "\<forall>n \<in> ran (sc_nodes busy). sums_fit busy_env busy n"
proof -
  have "ran (sc_nodes busy) = {small_node}" by (simp add: busy_def)
  then show ?thesis
    using busy_candidates by (simp add: sums_fit_def small_node_free running_model_def)
qed

lemma busy_no_room:
  "find_node_with_vram (list_nodes busy_env busy) 45 = None"
  "find_node_with_vram (list_nodes busy_env busy) 90 = None"
  "find_node_with_vram (list_nodes busy_env busy) 8 = Some ''n1''"
  by code_simp+


lemma eviction_refused_only_if_hopeless_example:
  "evict_and_free busy_env 90 busy
     = (Inl (RoutingError ''no node can free 90 MB VRAM even after LRU eviction''), busy)
   \<and> unat (available_vram_mb (ns_resources small_node)) + vram_sum (lru_candidates busy_env busy ''n1'') < 90"
proof -
  have e: "fst (evict_and_free busy_env 90 busy)
      = Inl (RoutingError ''no node can free 90 MB VRAM even after LRU eviction'')" by code_simp
  then have run: "evict_and_free busy_env 90 busy
      = (Inl (RoutingError ''no node can free 90 MB VRAM even after LRU eviction''),
         snd (evict_and_free busy_env 90 busy))"
    by (metis prod.collapse)
  have "small_node \<in> ran (sc_nodes busy)" "ns_healthy small_node"
    by (simp_all add: busy_def small_node_def)
  from eviction_refused_only_if_hopeless [OF busy_orders busy_fits busy_no_room(2) run this] run
  show ?thesis by (simp add: small_node_free)
qed

lemma busy_deploys: "fst (deploy busy_env ''c'' Vllm 8 busy) = Inr ()"
  by code_simp

lemma busy_deploy_run:
  "deploy busy_env ''c'' Vllm 8 busy = (Inr (), snd (deploy busy_env ''c'' Vllm 8 busy))"
  using busy_deploys by (metis prod.collapse)

lemma deploy_serves_model_example:
  "\<exists>rec a. sc_deployments (snd (deploy busy_env ''c'' Vllm 8 busy)) ''c'' = Some rec
     \<and> sc_agents (snd (deploy busy_env ''c'' Vllm 8 busy)) (md_assigned_node rec) = Some a
     \<and> port_map a ''c'' = Some (md_port rec)"
  using deploy_serves_model [OF busy_keyed busy_deploy_run] by (auto simp: busy_def split: if_splits)

lemma undeploy_leaves_process_example:
  "\<exists>node a port. sc_agents (snd (undeploy ''c'' (snd (deploy busy_env ''c'' Vllm 8 busy)))) node = Some a
     \<and> port_map a ''c'' = Some port"
proof -
  have "fst (undeploy ''c'' (snd (deploy busy_env ''c'' Vllm 8 busy))) = Inr ()" by code_simp
  then have "undeploy ''c'' (snd (deploy busy_env ''c'' Vllm 8 busy))
      = (Inr (), snd (undeploy ''c'' (snd (deploy busy_env ''c'' Vllm 8 busy))))" by (metis prod.collapse)
  moreover have "\<not> (\<exists>d. sc_deployments busy ''c'' = Some d \<and> deployment_is_available d)"
    by (simp add: busy_def)
  ultimately show ?thesis
    using undeploy_leaves_process [OF busy_keyed _ busy_deploy_run] by blast
qed

end
