(* ===== verification/Machine_Float.thy ===== *)
theory Machine_Float
  imports Gadgetron_Prelude "HOL-Library.Log_Nat" Complex_Main
begin

text \<open>
  IEEE 754 arithmetic as the sources use it.  A finite value is the rational it denotes; every
  operation is the exact rational operation followed by rounding to nearest, ties to even, in the
  given precision (\<open>53\<close> bits for \<open>f64\<close>, \<open>24\<close> for \<open>f32\<close>).  Infinities and NaN are separate
  constructors of \<open>float_value\<close>; the sign of a zero is not represented, since no modelled code
  divides by zero.  The lemmas bound the rounding error and give the exact cases.
\<close>

section \<open>Rounding\<close>

definition ilog2 :: "rat \<Rightarrow> int" where
  "ilog2 x = (case quotient_of x of (p, q) \<Rightarrow>
     let k = bitlen p - bitlen q in if 2 powi k \<le> x then k else k - 1)"

definition round_half_even :: "rat \<Rightarrow> int" where
  "round_half_even x =
     (let f = \<lfloor>x\<rfloor>; d = x - of_int f
      in if d < 1 / 2 \<or> d = 1 / 2 \<and> even f then f else f + 1)"

definition quantum :: "nat \<Rightarrow> int \<Rightarrow> rat \<Rightarrow> rat" where
  "quantum p emin x = 2 powi (max (ilog2 \<bar>x\<bar> - int p + 1) emin)"

definition float_round :: "nat \<Rightarrow> int \<Rightarrow> rat \<Rightarrow> rat" where
  "float_round p emin x =
     (if x = 0 then 0
      else of_int (round_half_even (x / quantum p emin x)) * quantum p emin x)"

definition f64_round :: "rat \<Rightarrow> rat" where
  "f64_round = float_round 53 (- 1074)"

definition f32_round :: "rat \<Rightarrow> rat" where
  "f32_round = float_round 24 (- 149)"

section \<open>The error of rounding\<close>

lemma round_half_even_error: "\<bar>of_int (round_half_even x) - x\<bar> \<le> 1 / 2"
proof -
  have "of_int \<lfloor>x\<rfloor> \<le> x" "x < of_int \<lfloor>x\<rfloor> + 1" by linarith+
  then show ?thesis by (simp add: round_half_even_def Let_def abs_le_iff)
qed

lemma round_half_even_int [simp]: "round_half_even (of_int n) = n"
  by (simp add: round_half_even_def)

lemma round_half_even_nonneg: "0 \<le> x \<Longrightarrow> 0 \<le> round_half_even x"
  by (simp add: round_half_even_def Let_def)

lemma bitlen_powi:
  assumes "0 < (p :: int)"
  shows "(2 :: rat) powi (bitlen p - 1) \<le> of_int p" "(of_int p :: rat) < 2 powi (bitlen p)"
proof -
  have pos: "1 \<le> bitlen p" using assms by (simp add: bitlen_alt_def)
  have eq: "(2 :: rat) powi k = of_int (2 ^ nat k)" if "0 \<le> k" for k
    using that by (simp add: power_int_def)
  show "(2 :: rat) powi (bitlen p - 1) \<le> of_int p" "(of_int p :: rat) < 2 powi (bitlen p)"
    using bitlen_bounds [OF assms] pos by (simp_all add: eq)
qed

lemma ilog2_bounds:
  assumes "0 < x"
  shows "2 powi (ilog2 x) \<le> x" "x < 2 powi (ilog2 x + 1)"
proof -
  obtain p q where pq: "quotient_of x = (p, q)" by fastforce
  have q: "0 < q" and x: "x = of_int p / of_int q"
    using quotient_of_denom_pos [OF pq] quotient_of_div [OF pq] by simp_all
  with assms have p: "0 < p" by (simp add: zero_less_divide_iff)
  define k where "k = bitlen p - bitlen q"
  have split: "(2 :: rat) powi (k - 1) = 2 powi (bitlen p - 1) / 2 powi (bitlen q)"
    "(2 :: rat) powi (k + 1) = 2 powi (bitlen p) / 2 powi (bitlen q - 1)"
    by (simp_all add: k_def power_int_diff algebra_simps power_int_add)
  have "2 powi (k - 1) \<le> x"
    unfolding split x using bitlen_powi [OF p] bitlen_powi [OF q] p q
    by (intro frac_le) auto
  moreover have "x < 2 powi (k + 1)"
    unfolding split x using bitlen_powi [OF p] bitlen_powi [OF q] p q
    by (intro frac_less) auto
  ultimately show "2 powi (ilog2 x) \<le> x" "x < 2 powi (ilog2 x + 1)"
    by (auto simp: ilog2_def pq k_def [symmetric] Let_def)
qed

lemma quantum_pos: "0 < quantum p emin x"
  by (simp add: quantum_def)

lemma quantum_le: "x \<noteq> 0 \<Longrightarrow> quantum p emin x \<le> 2 powi (1 - int p) * \<bar>x\<bar> + 2 powi emin"
proof -
  assume "x \<noteq> 0"
  then have "(2 :: rat) powi (ilog2 \<bar>x\<bar>) \<le> \<bar>x\<bar>" by (simp add: ilog2_bounds)
  then have "(2 :: rat) powi (1 - int p) * 2 powi (ilog2 \<bar>x\<bar>) \<le> 2 powi (1 - int p) * \<bar>x\<bar>"
    by (simp add: mult_left_mono)
  moreover have "(2 :: rat) powi (1 - int p) * 2 powi (ilog2 \<bar>x\<bar>) = 2 powi (ilog2 \<bar>x\<bar> - int p + 1)"
    by (simp add: power_int_add [symmetric] algebra_simps)
  moreover have "quantum p emin x \<le> 2 powi (ilog2 \<bar>x\<bar> - int p + 1) + 2 powi emin"
    by (simp add: quantum_def max_def)
  ultimately show ?thesis by linarith
qed

lemma float_round_error:
  "\<bar>float_round p emin x - x\<bar> \<le> (2 powi (1 - int p) * \<bar>x\<bar> + 2 powi emin) / 2"
proof (cases "x = 0")
  case False
  define u where "u = quantum p emin x"
  have u: "0 < u" "u \<le> 2 powi (1 - int p) * \<bar>x\<bar> + 2 powi emin"
    using quantum_pos quantum_le [OF False] by (simp_all add: u_def)
  have "float_round p emin x - x = (of_int (round_half_even (x / u)) - x / u) * u"
    using False u by (simp add: float_round_def u_def [symmetric] algebra_simps)
  then have "\<bar>float_round p emin x - x\<bar> = \<bar>of_int (round_half_even (x / u)) - x / u\<bar> * u"
    using u by (simp add: abs_mult)
  also have "\<dots> \<le> 1 / 2 * u" using round_half_even_error u by (intro mult_right_mono) auto
  finally show ?thesis using u by simp
qed (simp add: float_round_def)

lemma float_round_nonneg: "0 \<le> x \<Longrightarrow> 0 \<le> float_round p emin x"
  by (simp add: float_round_def round_half_even_nonneg quantum_pos less_imp_le)

lemma float_round_exact: "x / quantum p emin x = of_int n \<Longrightarrow> float_round p emin x = x"
  using quantum_pos [of p emin x] by (auto simp: float_round_def) (metis divide_eq_eq less_irrefl)

lemma float_round_0 [simp]: "float_round p emin 0 = 0"
  by (simp add: float_round_def)

lemma float_round_int:
  assumes "\<bar>n\<bar> < 2 ^ p" and "emin \<le> 0"
  shows "float_round p emin (of_int n) = of_int n"
proof (cases "n = 0")
  case False
  define x :: rat where "x = of_int n"
  have "(2 :: rat) powi (ilog2 \<bar>x\<bar>) \<le> \<bar>x\<bar>" using False by (simp add: ilog2_bounds x_def)
  also have "\<bar>x\<bar> < of_int (2 ^ p)" using assms(1) unfolding x_def of_int_abs [symmetric] of_int_less_iff .
  finally have "(2 :: rat) powi (ilog2 \<bar>x\<bar>) < 2 powi (int p)" by simp
  then have "ilog2 \<bar>x\<bar> < int p"
    by (metis linorder_not_less one_le_numeral power_int_increasing)
  then have "max (ilog2 \<bar>x\<bar> - int p + 1) emin \<le> 0" using assms(2) by simp
  then obtain k :: nat where k: "max (ilog2 \<bar>x\<bar> - int p + 1) emin = - int k"
    by (rule nonpos_int_cases)
  have "x / quantum p emin x = of_int (n * 2 ^ k)"
    by (simp add: quantum_def k power_int_minus divide_inverse) (simp add: x_def)
  then show ?thesis unfolding x_def [symmetric] by (rule float_round_exact)
qed simp

lemma f64_round_0 [simp]: "f64_round 0 = 0"
  by (simp add: f64_round_def)

lemma f64_round_nonneg: "0 \<le> x \<Longrightarrow> 0 \<le> f64_round x"
  by (simp add: f64_round_def float_round_nonneg)

lemma f64_round_int: "\<bar>n\<bar> < 2 ^ 53 \<Longrightarrow> f64_round (of_int n) = of_int n"
  by (simp add: f64_round_def float_round_int)

definition f64_eps :: rat where
  "f64_eps = 1 / 2 ^ 53"

definition f64_tiny :: rat where
  "f64_tiny = 1 / 2 ^ 200"

lemma f64_round_error: "\<bar>f64_round x - x\<bar> \<le> f64_eps * \<bar>x\<bar> + f64_tiny"
proof -
  have "(2 :: rat) powi (- 1074) \<le> 2 powi (- 199)" by (rule power_int_increasing) simp_all
  also have "\<dots> = 2 * f64_tiny" by (simp add: power_int_def f64_tiny_def power_one_over)
  finally have tiny: "(2 :: rat) powi (- 1074) \<le> 2 * f64_tiny" .
  have eps: "(2 :: rat) powi (1 - int 53) * \<bar>x\<bar> = 2 * (f64_eps * \<bar>x\<bar>)"
    by (simp add: power_int_def f64_eps_def power_one_over)
  have "\<bar>f64_round x - x\<bar> \<le> (2 powi (1 - int 53) * \<bar>x\<bar> + 2 powi (- 1074)) / 2"
    unfolding f64_round_def by (rule float_round_error)
  also have "\<dots> \<le> (2 * (f64_eps * \<bar>x\<bar>) + 2 * f64_tiny) / 2"
    unfolding eps by (intro divide_right_mono add_left_mono tiny) simp
  also have "\<dots> = f64_eps * \<bar>x\<bar> + f64_tiny" by simp
  finally show ?thesis .
qed

lemma f64_round_le: "0 \<le> x \<Longrightarrow> f64_round x \<le> (1 + f64_eps) * x + f64_tiny"
  using f64_round_error [of x] by (simp add: algebra_simps)

section \<open>Values and operations\<close>

datatype float_value = FFin rat | FInf bool | FNaN

datatype float_format = F32 | F64

definition round_in :: "float_format \<Rightarrow> rat \<Rightarrow> rat" where
  "round_in fmt = (case fmt of F32 \<Rightarrow> f32_round | F64 \<Rightarrow> f64_round)"

definition float_limit :: "float_format \<Rightarrow> rat" where
  "float_limit fmt = (case fmt of F32 \<Rightarrow> 2 ^ 128 | F64 \<Rightarrow> 2 ^ 1024)"

definition float_result :: "float_format \<Rightarrow> rat \<Rightarrow> float_value" where
  "float_result fmt x =
     (let r = round_in fmt x in if float_limit fmt \<le> \<bar>r\<bar> then FInf (r < 0) else FFin r)"

fun float_neg :: "float_value \<Rightarrow> float_value" where
  "float_neg (FFin x) = FFin (- x)"
| "float_neg (FInf s) = FInf (\<not> s)"
| "float_neg FNaN = FNaN"

fun float_add :: "float_format \<Rightarrow> float_value \<Rightarrow> float_value \<Rightarrow> float_value" where
  "float_add fmt (FFin x) (FFin y) = float_result fmt (x + y)"
| "float_add fmt (FInf s) (FInf t) = (if s = t then FInf s else FNaN)"
| "float_add fmt (FInf s) (FFin _) = FInf s"
| "float_add fmt (FFin _) (FInf t) = FInf t"
| "float_add fmt _ _ = FNaN"

definition float_sub :: "float_format \<Rightarrow> float_value \<Rightarrow> float_value \<Rightarrow> float_value" where
  "float_sub fmt a b = float_add fmt a (float_neg b)"

text \<open>Division by a finite non-zero number, the only divisors of the modelled code.\<close>

fun float_div :: "float_format \<Rightarrow> float_value \<Rightarrow> rat \<Rightarrow> float_value" where
  "float_div fmt (FFin x) y = float_result fmt (x / y)"
| "float_div fmt (FInf s) y = FInf (s \<noteq> (y < 0))"
| "float_div fmt FNaN y = FNaN"

fun float_le :: "float_value \<Rightarrow> float_value \<Rightarrow> bool" where
  "float_le (FFin x) (FFin y) = (x \<le> y)"
| "float_le (FInf s) (FInf t) = (s \<or> \<not> t)"
| "float_le (FInf s) (FFin _) = s"
| "float_le (FFin _) (FInf t) = (\<not> t)"
| "float_le _ _ = False"

text \<open>The saturating cast to an unsigned integer of \<open>w\<close> bits; NaN becomes zero.\<close>

fun float_to_uint :: "nat \<Rightarrow> float_value \<Rightarrow> int" where
  "float_to_uint w (FFin x) = max 0 (min (2 ^ w - 1) \<lfloor>x\<rfloor>)"
| "float_to_uint w (FInf s) = (if s then 0 else 2 ^ w - 1)"
| "float_to_uint w FNaN = 0"

lemma float_le_refl: "float_le a a \<longleftrightarrow> a \<noteq> FNaN"
  by (cases a) auto

end
