(* ===== verification/Rate_Limit.thy ===== *)
theory Rate_Limit
  imports Machine_Float
begin

text \<open>
  The per-tenant token bucket of \<open>crates/gadgetron-xaas/src/quota/rate_limit.rs\<close> and its
  configuration (\<open>RateLimitConfig\<close> of \<open>crates/gadgetron-core/src/config.rs\<close>).

  An \<open>Instant\<close> is a number of nanoseconds on the monotonic clock; \<open>duration_since\<close> saturates at
  zero.  The \<open>f64\<close> operations round
  (\<open>Machine_Float\<close>); all values stay far below the largest finite \<open>f64\<close>
  (\<open>token_values_in_range\<close>), so no operation yields an infinity.
\<close>

section \<open>Configuration\<close>

record rate_limit_config =
  rlc_requests_per_minute :: u32
  rlc_burst :: u32

definition effective_burst :: "rate_limit_config \<Rightarrow> u32" where
  "effective_burst c = (if rlc_burst c = 0 then rlc_requests_per_minute c else rlc_burst c)"

definition rate_limit_is_enabled :: "rate_limit_config \<Rightarrow> bool" where
  "rate_limit_is_enabled c \<longleftrightarrow> rlc_requests_per_minute c > 0"

section \<open>The limiter\<close>

type_synonym instant = int

record bucket =
  bk_tokens :: rat
  bk_last_refill :: instant

record rate_limiter =
  rl_burst :: u32
  rl_refill_per_sec :: rat
  rl_buckets :: "uuid \<rightharpoonup> bucket"

datatype rate_limited_error = RateLimitedError u32

definition f64_of_u32 :: "u32 \<Rightarrow> rat" where
  "f64_of_u32 n = of_int (uint n)"

definition duration_since :: "instant \<Rightarrow> instant \<Rightarrow> int" where
  "duration_since now earlier = max 0 (now - earlier)"

definition as_secs_f64 :: "int \<Rightarrow> rat" where
  "as_secs_f64 nanos =
     f64_round (f64_round (of_int (nanos div 10 ^ 9)) + f64_round (of_int (nanos mod 10 ^ 9) / 10 ^ 9))"

definition f64_to_u32 :: "rat \<Rightarrow> u32" where
  "f64_to_u32 x = word_of_int (max 0 (min (2 ^ 32 - 1) \<lfloor>x\<rfloor>))"

definition rate_limiter_new :: "u32 \<Rightarrow> u32 \<Rightarrow> rate_limiter" where
  "rate_limiter_new requests_per_minute burst =
     \<lparr>rl_burst = burst, rl_refill_per_sec = f64_round (f64_of_u32 requests_per_minute / 60),
      rl_buckets = Map.empty\<rparr>"

definition limiter_is_disabled :: "rate_limiter \<Rightarrow> bool" where
  "limiter_is_disabled rl \<longleftrightarrow> rl_refill_per_sec rl = 0"

definition refilled :: "rate_limiter \<Rightarrow> instant \<Rightarrow> bucket \<Rightarrow> rat" where
  "refilled rl now entry =
     (let elapsed_secs = as_secs_f64 (duration_since now (bk_last_refill entry));
          refill = f64_round (elapsed_secs * rl_refill_per_sec rl)
      in min (f64_round (bk_tokens entry + refill)) (f64_of_u32 (rl_burst rl)))"

definition consume ::
  "instant \<Rightarrow> uuid \<Rightarrow> rate_limiter \<Rightarrow> (rate_limited_error, unit) result \<times> rate_limiter" where
  "consume now tenant rl =
     (if limiter_is_disabled rl then (Inr (), rl)
      else
        let entry = (case rl_buckets rl tenant of
                       Some b \<Rightarrow> b
                     | None \<Rightarrow> \<lparr>bk_tokens = f64_of_u32 (rl_burst rl), bk_last_refill = now\<rparr>);
            tokens = refilled rl now entry;
            store = (\<lambda>t. rl\<lparr>rl_buckets := (rl_buckets rl)(tenant \<mapsto> \<lparr>bk_tokens = t, bk_last_refill = now\<rparr>)\<rparr>)
        in if 1 \<le> tokens then (Inr (), store (f64_round (tokens - 1)))
           else
             let wait_secs = of_int \<lceil>f64_round (f64_round (1 - tokens) / rl_refill_per_sec rl)\<rceil>
             in (Inl (RateLimitedError (f64_to_u32 wait_secs)), store tokens))"

fun consume_all ::
  "(instant \<times> uuid) list \<Rightarrow> rate_limiter \<Rightarrow> (uuid \<times> bool) list" where
  "consume_all [] rl = []"
| "consume_all ((now, tenant) # rest) rl =
     (case consume now tenant rl of (r, rl') \<Rightarrow> (tenant, is_ok r) # consume_all rest rl')"

fun limiter_after :: "(instant \<times> uuid) list \<Rightarrow> rate_limiter \<Rightarrow> rate_limiter" where
  "limiter_after [] rl = rl"
| "limiter_after ((now, tenant) # rest) rl = limiter_after rest (snd (consume now tenant rl))"

definition admitted :: "uuid \<Rightarrow> (uuid \<times> bool) list \<Rightarrow> nat" where
  "admitted tenant outcomes = length (filter (\<lambda>o'. o' = (tenant, True)) outcomes)"

section \<open>Rounding in one step\<close>

lemmas f64_consts = f64_eps_def f64_tiny_def

lemma as_secs_nonneg: "0 \<le> n \<Longrightarrow> 0 \<le> as_secs_f64 n"
  by (simp add: as_secs_f64_def f64_round_nonneg)

lemma as_secs_le:
  assumes "0 \<le> n"
  shows "as_secs_f64 n \<le> (1 + f64_eps) ^ 2 * (of_int n / 10 ^ 9) + 8 * f64_tiny"
proof -
  define a b :: rat where "a = of_int (n div 10 ^ 9)" and "b = of_int (n mod 10 ^ 9) / 10 ^ 9"
  have nn: "0 \<le> a" "0 \<le> b" using assms by (simp_all add: a_def b_def pos_imp_zdiv_nonneg_iff)
  have "(of_int n :: rat) = of_int (n div 10 ^ 9) * of_int (10 ^ 9) + of_int (n mod 10 ^ 9)"
    by (metis div_mult_mod_eq of_int_add of_int_mult)
  then have sum: "of_int n / 10 ^ 9 = a + b" by (simp add: a_def b_def add_divide_distrib)
  have "f64_round a + f64_round b \<le> (1 + f64_eps) * (a + b) + 2 * f64_tiny"
    using f64_round_le [OF nn(1)] f64_round_le [OF nn(2)] by (simp add: algebra_simps)
  moreover have "as_secs_f64 n \<le> (1 + f64_eps) * (f64_round a + f64_round b) + f64_tiny"
    unfolding as_secs_f64_def a_def [symmetric] b_def [symmetric]
    by (intro f64_round_le add_nonneg_nonneg f64_round_nonneg nn)
  moreover have "0 < 1 + f64_eps" by (simp add: f64_eps_def)
  ultimately have "as_secs_f64 n \<le> (1 + f64_eps) * ((1 + f64_eps) * (a + b) + 2 * f64_tiny) + f64_tiny"
    by (meson add_right_mono mult_left_mono less_imp_le order_trans)
  also have "\<dots> = (1 + f64_eps) ^ 2 * (a + b) + (3 + 2 * f64_eps) * f64_tiny"
    by (simp add: power2_eq_square algebra_simps)
  also have "(3 + 2 * f64_eps) * f64_tiny \<le> 8 * f64_tiny" by (simp add: f64_consts)
  finally show ?thesis unfolding sum by simp
qed

lemma f64_of_u32_bounds: "0 \<le> f64_of_u32 n" "f64_of_u32 n \<le> 2 ^ 32"
proof -
  have "of_int (uint n) \<le> (of_int (2 ^ 32) :: rat)"
    unfolding of_int_le_iff using uint_lt2p [of n] by simp
  then show "0 \<le> f64_of_u32 n" "f64_of_u32 n \<le> 2 ^ 32" by (simp_all add: f64_of_u32_def del: of_int_uint)
qed

lemma f64_of_u32_ge_1: "0 < n \<Longrightarrow> 1 \<le> f64_of_u32 n"
proof -
  assume "0 < n"
  then have "(of_int 1 :: rat) \<le> of_int (uint n)"
    unfolding of_int_le_iff by (simp add: word_less_def)
  then show ?thesis by (simp add: f64_of_u32_def)
qed

lemma refill_rate_le:
  assumes "0 < n"
  shows "0 \<le> f64_round (f64_of_u32 n / 60)"
    "f64_round (f64_of_u32 n / 60) \<le> (1 + 2 * f64_eps) * (f64_of_u32 n / 60)"
proof -
  have one: "1 \<le> f64_of_u32 n"
    using assms by (rule f64_of_u32_ge_1)
  then show "0 \<le> f64_round (f64_of_u32 n / 60)" by (simp add: f64_round_nonneg)
  define x where "x = f64_of_u32 n / 60"
  have x: "1 / 60 \<le> x" using one by (simp add: x_def)
  have "f64_tiny \<le> f64_eps * (1 / 60)" by (simp add: f64_consts)
  also have "\<dots> \<le> f64_eps * x"
    using x by (intro mult_left_mono) (simp_all add: f64_eps_def)
  finally have "f64_tiny \<le> f64_eps * x" .
  moreover have "0 \<le> x" using x by (rule order_trans [rotated]) simp
  ultimately have "f64_round x \<le> (1 + 2 * f64_eps) * x"
    using f64_round_le [of x] by (simp add: algebra_simps)
  then show "f64_round (f64_of_u32 n / 60) \<le> (1 + 2 * f64_eps) * (f64_of_u32 n / 60)"
    unfolding x_def .
qed

definition exact_rate :: "u32 \<Rightarrow> rat" where
  "exact_rate n = f64_of_u32 n / 60"

definition seconds :: "int \<Rightarrow> rat" where
  "seconds nanos = of_int nanos / 10 ^ 9"

lemma refill_le:
  assumes "0 < n" and "0 \<le> d"
  shows "f64_round (as_secs_f64 d * f64_round (exact_rate n))
           \<le> (1 + 6 * f64_eps) * (exact_rate n * seconds d) + 1 / 2 ^ 40"
proof -
  define r s where "r = exact_rate n" and "s = seconds d"
  have r: "0 \<le> r" "r \<le> 2 ^ 32" using f64_of_u32_bounds [of n] by (simp_all add: r_def exact_rate_def)
  have s: "0 \<le> s" using assms(2) by (simp add: s_def seconds_def)
  have rate: "0 \<le> f64_round r" "f64_round r \<le> (1 + 2 * f64_eps) * r"
    using refill_rate_le [OF assms(1)] by (simp_all add: r_def exact_rate_def)
  have "as_secs_f64 d * f64_round r \<le> ((1 + f64_eps) ^ 2 * s + 8 * f64_tiny) * ((1 + 2 * f64_eps) * r)"
    using as_secs_le [OF assms(2)] rate s r
    by (intro mult_mono) (simp_all add: s_def seconds_def f64_consts)
  then have "(1 + f64_eps) * (as_secs_f64 d * f64_round r) + f64_tiny
      \<le> (1 + f64_eps) * (((1 + f64_eps) ^ 2 * s + 8 * f64_tiny) * ((1 + 2 * f64_eps) * r)) + f64_tiny"
    by (intro add_right_mono mult_left_mono) (simp_all add: f64_eps_def)
  with f64_round_le [of "as_secs_f64 d * f64_round r"] rate
  have "f64_round (as_secs_f64 d * f64_round r)
      \<le> (1 + f64_eps) * (((1 + f64_eps) ^ 2 * s + 8 * f64_tiny) * ((1 + 2 * f64_eps) * r)) + f64_tiny"
    using assms(2) by (meson as_secs_nonneg mult_nonneg_nonneg order_trans)
  also have "\<dots> = ((1 + f64_eps) ^ 3 * (1 + 2 * f64_eps)) * (r * s)
      + (1 + f64_eps) * (1 + 2 * f64_eps) * 8 * f64_tiny * r + f64_tiny"
    by (simp add: power3_eq_cube power2_eq_square algebra_simps)
  also have "\<dots> \<le> (1 + 6 * f64_eps) * (r * s) + (1 + f64_eps) * (1 + 2 * f64_eps) * 8 * f64_tiny * 2 ^ 32 + f64_tiny"
    using r s by (intro add_mono mult_right_mono mult_left_mono) (simp_all add: f64_consts power3_eq_cube)
  also have "\<dots> \<le> (1 + 6 * f64_eps) * (r * s) + 1 / 2 ^ 40" by (simp add: f64_consts)
  finally show ?thesis by (simp add: r_def s_def)
qed

section \<open>One request\<close>

definition bucket_ok :: "rate_limiter \<Rightarrow> bucket \<Rightarrow> bool" where
  "bucket_ok rl b \<longleftrightarrow> 0 \<le> bk_tokens b \<and> bk_tokens b \<le> f64_of_u32 (rl_burst rl)"

definition limiter_ok :: "rate_limiter \<Rightarrow> bool" where
  "limiter_ok rl \<longleftrightarrow> (\<forall>b \<in> ran (rl_buckets rl). bucket_ok rl b)"

definition step_slack :: rat where
  "step_slack = 1 / 2 ^ 19"

lemma rounded_decrement:
  assumes "1 \<le> t" and "t \<le> 2 ^ 32"
  shows "0 \<le> f64_round (t - 1)" "f64_round (t - 1) \<le> t" "f64_round (t - 1) + 1 \<le> t + 1 / 2 ^ 20"
proof -
  show "0 \<le> f64_round (t - 1)" using assms by (simp add: f64_round_nonneg)
  have "f64_eps * (t - 1) \<le> f64_eps * 2 ^ 32" using assms by (intro mult_left_mono) (simp_all add: f64_eps_def)
  moreover have "f64_round (t - 1) \<le> (t - 1) + f64_eps * (t - 1) + f64_tiny"
    using f64_round_le [of "t - 1"] assms by (simp add: algebra_simps)
  moreover have "f64_eps * 2 ^ 32 + f64_tiny \<le> 1 / 2 ^ 20" by (simp add: f64_consts)
  ultimately show "f64_round (t - 1) + 1 \<le> t + 1 / 2 ^ 20" by linarith
  then show "f64_round (t - 1) \<le> t" by simp
qed

lemma refilled_bounds:
  assumes "rl_refill_per_sec rl = f64_round (exact_rate n)" and "0 < n" and "bucket_ok rl b"
  shows "0 \<le> refilled rl now b" "refilled rl now b \<le> f64_of_u32 (rl_burst rl)"
    "refilled rl now b
       \<le> bk_tokens b + (1 + 8 * f64_eps) * (exact_rate n * seconds (duration_since now (bk_last_refill b))) + 1 / 2 ^ 20"
proof -
  define x where "x = exact_rate n * seconds (duration_since now (bk_last_refill b))"
  define refill where "refill = f64_round (as_secs_f64 (duration_since now (bk_last_refill b)) * f64_round (exact_rate n))"
  define t where "t = bk_tokens b"
  have x: "0 \<le> x" using f64_of_u32_bounds [of n] by (simp add: x_def exact_rate_def seconds_def duration_since_def)
  have t: "0 \<le> t" "t \<le> 2 ^ 32"
    using assms(3) f64_of_u32_bounds [of "rl_burst rl"] by (auto simp: bucket_ok_def t_def)
  have refill: "0 \<le> refill" "refill \<le> (1 + 6 * f64_eps) * x + 1 / 2 ^ 40"
    using refill_le [OF assms(2), of "duration_since now (bk_last_refill b)"] refill_rate_le(1) [OF assms(2)]
    by (simp_all add: refill_def x_def exact_rate_def f64_round_nonneg as_secs_nonneg duration_since_def)
  have eq: "refilled rl now b = min (f64_round (t + refill)) (f64_of_u32 (rl_burst rl))"
    by (simp add: refilled_def Let_def refill_def t_def assms(1))
  show "0 \<le> refilled rl now b" "refilled rl now b \<le> f64_of_u32 (rl_burst rl)"
    using f64_of_u32_bounds t refill by (simp_all add: eq f64_round_nonneg)
  have "f64_round (t + refill) \<le> t + f64_eps * t + (1 + f64_eps) * refill + f64_tiny"
    using f64_round_le [of "t + refill"] t refill by (simp add: algebra_simps)
  moreover have "f64_eps * t \<le> f64_eps * 2 ^ 32" using t by (intro mult_left_mono) (simp_all add: f64_eps_def)
  moreover have "(1 + f64_eps) * refill \<le> (1 + f64_eps) * ((1 + 6 * f64_eps) * x + 1 / 2 ^ 40)"
    using refill by (intro mult_left_mono) (simp_all add: f64_eps_def)
  moreover have "(1 + f64_eps) * ((1 + 6 * f64_eps) * x + 1 / 2 ^ 40)
      = ((1 + f64_eps) * (1 + 6 * f64_eps)) * x + (1 + f64_eps) / 2 ^ 40" by (simp add: algebra_simps)
  moreover have "((1 + f64_eps) * (1 + 6 * f64_eps)) * x \<le> (1 + 8 * f64_eps) * x"
    using x by (intro mult_right_mono) (simp_all add: f64_eps_def)
  moreover have "f64_eps * 2 ^ 32 + (1 + f64_eps) / 2 ^ 40 + f64_tiny \<le> 1 / 2 ^ 20" by (simp add: f64_consts)
  ultimately have "f64_round (t + refill) \<le> t + (1 + 8 * f64_eps) * x + 1 / 2 ^ 20" by linarith
  then show "refilled rl now b \<le> bk_tokens b + (1 + 8 * f64_eps)
      * (exact_rate n * seconds (duration_since now (bk_last_refill b))) + 1 / 2 ^ 20"
    by (simp add: eq t_def x_def)
qed

definition entry_of :: "instant \<Rightarrow> uuid \<Rightarrow> rate_limiter \<Rightarrow> bucket" where
  "entry_of now tenant rl = (case rl_buckets rl tenant of
     Some b \<Rightarrow> b | None \<Rightarrow> \<lparr>bk_tokens = f64_of_u32 (rl_burst rl), bk_last_refill = now\<rparr>)"

definition limits :: "u32 \<Rightarrow> rate_limiter \<Rightarrow> bool" where
  "limits n rl \<longleftrightarrow> 0 < n \<and> rl_refill_per_sec rl = f64_round (exact_rate n) \<and> limiter_ok rl"

definition spent :: "('e, 'a) result \<Rightarrow> rat" where
  "spent r = (if is_ok r then 1 else 0)"

lemma rate_positive: "0 < n \<Longrightarrow> 0 < f64_round (exact_rate n)"
proof -
  assume "0 < n"
  then have "1 \<le> f64_of_u32 n"
    by (rule f64_of_u32_ge_1)
  then have "1 / 60 \<le> exact_rate n" by (simp add: exact_rate_def)
  moreover have "exact_rate n - f64_round (exact_rate n) \<le> f64_eps * exact_rate n + f64_tiny"
    using f64_round_error [of "exact_rate n"] f64_of_u32_bounds [of n] by (simp add: exact_rate_def)
  moreover have "f64_tiny \<le> 1 / 240" "f64_eps * exact_rate n \<le> 1 / 2 * exact_rate n"
    using f64_of_u32_bounds [of n] by (simp_all add: f64_consts exact_rate_def)
  ultimately show ?thesis by linarith
qed

lemma limits_enabled: "limits n rl \<Longrightarrow> \<not> limiter_is_disabled rl"
  using rate_positive [of n] by (auto simp: limits_def limiter_is_disabled_def)

lemma entry_ok: "limits n rl \<Longrightarrow> bucket_ok rl (entry_of now tenant rl)"
  using f64_of_u32_bounds
  by (auto simp: limits_def limiter_ok_def entry_of_def bucket_ok_def ran_def split: option.splits)

lemma consume_eq:
  assumes "limits n rl"
  obtains t where "snd (consume now tenant rl)
      = rl\<lparr>rl_buckets := (rl_buckets rl)(tenant \<mapsto> \<lparr>bk_tokens = t, bk_last_refill = now\<rparr>)\<rparr>"
    "0 \<le> t" "t \<le> f64_of_u32 (rl_burst rl)"
    "t + spent (fst (consume now tenant rl)) \<le> refilled rl now (entry_of now tenant rl) + 1 / 2 ^ 20"
proof -
  define u where "u = refilled rl now (entry_of now tenant rl)"
  have u: "0 \<le> u" "u \<le> f64_of_u32 (rl_burst rl)"
    using refilled_bounds(1,2) [OF _ _ entry_ok [OF assms], of n now now tenant] assms
    by (simp_all add: limits_def u_def)
  have u32: "u \<le> 2 ^ 32" using u(2) f64_of_u32_bounds(2) by (rule order_trans)
  note run = consume_def [of now tenant rl] Let_def entry_of_def [symmetric] u_def [symmetric]
  show thesis
  proof (cases "1 \<le> u")
    case True
    with rounded_decrement [OF True u32] u limits_enabled [OF assms] show ?thesis
      by (intro that [of "f64_round (u - 1)"]) (simp_all add: run spent_def u_def [symmetric])
  next
    case False
    with u limits_enabled [OF assms] show ?thesis
      by (intro that [of u]) (simp_all add: run spent_def)
  qed
qed

lemma limits_consume: "limits n rl \<Longrightarrow> limits n (snd (consume now tenant rl))"
  by (rule consume_eq [of n rl now tenant])
     (auto simp: limits_def limiter_ok_def bucket_ok_def ran_def split: if_splits)

lemma limits_new: "0 < n \<Longrightarrow> limits n (rate_limiter_new n burst)"
  by (simp add: limits_def rate_limiter_new_def exact_rate_def limiter_ok_def)

lemma limits_after: "limits n rl \<Longrightarrow> limits n (limiter_after reqs rl)"
  by (induction reqs rl rule: limiter_after.induct) (simp_all add: limits_consume)

lemma burst_consume: "limits n rl \<Longrightarrow> rl_burst (snd (consume now tenant rl)) = rl_burst rl"
  by (rule consume_eq [of n rl now tenant]) auto

lemma burst_after: "limits n rl \<Longrightarrow> rl_burst (limiter_after reqs rl) = rl_burst rl"
  by (induction reqs rl rule: limiter_after.induct) (simp_all add: limits_consume burst_consume)

lemma buckets_consume_other:
  "limits n rl \<Longrightarrow> x \<noteq> tenant \<Longrightarrow> rl_buckets (snd (consume now tenant rl)) x = rl_buckets rl x"
  by (rule consume_eq [of n rl now tenant]) auto

section \<open>Any window of requests\<close>

definition requests_of :: "uuid \<Rightarrow> (instant \<times> uuid) list \<Rightarrow> nat" where
  "requests_of x reqs = length (filter (\<lambda>r. snd r = x) reqs)"

definition allowance :: "u32 \<Rightarrow> int \<Rightarrow> rat" where
  "allowance n nanos = (1 + 1 / 2 ^ 50) * (exact_rate n * seconds nanos)"

lemma allowance_add: "allowance n (a + b) = allowance n a + allowance n b"
  by (simp add: allowance_def seconds_def add_divide_distrib distrib_left)

lemma allowance_nonneg: "0 \<le> d \<Longrightarrow> 0 \<le> allowance n d"
  using f64_of_u32_bounds [of n] by (simp add: allowance_def exact_rate_def seconds_def)

lemma consume_credit:
  assumes "limits n rl"
  obtains t where "rl_buckets (snd (consume now x rl)) x = Some \<lparr>bk_tokens = t, bk_last_refill = now\<rparr>"
    "t + spent (fst (consume now x rl)) \<le> f64_of_u32 (rl_burst rl) + step_slack"
    "\<And>b. rl_buckets rl x = Some b \<Longrightarrow>
      t + spent (fst (consume now x rl)) \<le> bk_tokens b + allowance n (duration_since now (bk_last_refill b)) + step_slack"
proof -
  define e where "e = entry_of now x rl"
  note bounds = refilled_bounds [OF _ _ entry_ok [OF assms], of n now now x, folded e_def]
  have "refilled rl now e \<le> f64_of_u32 (rl_burst rl)"
    "refilled rl now e \<le> bk_tokens e + allowance n (duration_since now (bk_last_refill e)) + 1 / 2 ^ 20"
    using bounds assms by (simp_all add: limits_def allowance_def f64_eps_def)
  moreover obtain t where "rl_buckets (snd (consume now x rl)) x = Some \<lparr>bk_tokens = t, bk_last_refill = now\<rparr>"
    "t + spent (fst (consume now x rl)) \<le> refilled rl now e + 1 / 2 ^ 20"
    by (rule consume_eq [OF assms, of now x]) (auto simp: e_def)
  moreover have "(1 :: rat) / 2 ^ 20 + 1 / 2 ^ 20 = step_slack" by (simp add: step_slack_def)
  ultimately show thesis
    by (intro that [of t]) (auto simp: e_def entry_of_def)
qed

lemma admitted_Cons:
  "of_nat (admitted x ((y, is_ok r) # outcomes)) = (if y = x then spent r else 0) + (of_nat (admitted x outcomes) :: rat)"
  by (simp add: admitted_def spent_def)

lemma requests_of_Cons: "requests_of x ((now, y) # reqs) = (if y = x then 1 else 0) + requests_of x reqs"
  by (simp add: requests_of_def)

lemma admitted_from_bucket:
  assumes "limits n rl" and "sorted (map fst reqs)" and "\<forall>r \<in> set reqs. bk_last_refill b \<le> fst r \<and> fst r \<le> finish"
    and "rl_buckets rl x = Some b" and "bk_last_refill b \<le> finish"
  shows "of_nat (admitted x (consume_all reqs rl))
           \<le> bk_tokens b + allowance n (finish - bk_last_refill b) + step_slack * of_nat (requests_of x reqs)"
  using assms
proof (induction reqs arbitrary: rl b)
  case Nil
  then have "0 \<le> bk_tokens b" by (auto simp: limits_def limiter_ok_def bucket_ok_def ran_def)
  with Nil show ?case by (simp add: admitted_def requests_of_def allowance_nonneg)
next
  case (Cons req reqs)
  obtain now y where req: "req = (now, y)" by force
  define rl' where "rl' = snd (consume now y rl)"
  have run: "consume_all (req # reqs) rl = (y, is_ok (fst (consume now y rl))) # consume_all reqs rl'"
    by (simp add: req rl'_def split: prod.split)
  have lim: "limits n rl'" using Cons.prems(1) by (simp add: rl'_def limits_consume)
  have times: "sorted (map fst reqs)" "\<forall>r \<in> set reqs. now \<le> fst r \<and> fst r \<le> finish"
    "bk_last_refill b \<le> now" "now \<le> finish"
    using Cons.prems(2,3) by (auto simp: req)
  show ?case
  proof (cases "y = x")
    case True
    obtain t where b': "rl_buckets rl' x = Some \<lparr>bk_tokens = t, bk_last_refill = now\<rparr>"
      and t: "t + spent (fst (consume now x rl)) \<le> bk_tokens b + allowance n (now - bk_last_refill b) + step_slack"
      using consume_credit [OF Cons.prems(1), of now x] Cons.prems(4) True times(3)
      unfolding rl'_def duration_since_def by (metis diff_ge_0_iff_ge max_absorb2)
    have "of_nat (admitted x (consume_all reqs rl')) \<le> t + allowance n (finish - now)
        + step_slack * of_nat (requests_of x reqs)"
      using Cons.IH [OF lim times(1) _ b'] times by simp
    moreover have "allowance n (now - bk_last_refill b) + allowance n (finish - now)
        = allowance n (finish - bk_last_refill b)"
      using times by (simp add: allowance_add [symmetric])
    ultimately show ?thesis
      using t unfolding run by (simp add: admitted_Cons req requests_of_Cons True distrib_left)
  next
    case False
    then have "rl_buckets rl' x = Some b"
      using buckets_consume_other [OF Cons.prems(1)] Cons.prems(4) by (simp add: rl'_def)
    from Cons.IH [OF lim times(1) _ this Cons.prems(5)] Cons.prems(3) show ?thesis
      using False unfolding run by (simp add: admitted_Cons req requests_of_Cons)
  qed
qed

lemma admitted_window:
  assumes "limits n rl" and "sorted (map fst reqs)" and "\<forall>r \<in> set reqs. start \<le> fst r \<and> fst r \<le> finish"
    and "start \<le> finish"
  shows "of_nat (admitted x (consume_all reqs rl))
           \<le> f64_of_u32 (rl_burst rl) + allowance n (finish - start) + step_slack * of_nat (requests_of x reqs)"
  using assms
proof (induction reqs arbitrary: rl)
  case Nil
  then show ?case using f64_of_u32_bounds by (simp add: admitted_def requests_of_def allowance_nonneg add_nonneg_nonneg)
next
  case (Cons req reqs)
  obtain now y where req: "req = (now, y)" by force
  define rl' where "rl' = snd (consume now y rl)"
  have run: "consume_all (req # reqs) rl = (y, is_ok (fst (consume now y rl))) # consume_all reqs rl'"
    by (simp add: req rl'_def split: prod.split)
  have lim: "limits n rl'" using Cons.prems(1) by (simp add: rl'_def limits_consume)
  have times: "sorted (map fst reqs)" "\<forall>r \<in> set reqs. now \<le> fst r \<and> fst r \<le> finish"
    "\<forall>r \<in> set reqs. start \<le> fst r \<and> fst r \<le> finish" "start \<le> now" "now \<le> finish"
    using Cons.prems(2,3) by (auto simp: req)
  show ?case
  proof (cases "y = x")
    case True
    obtain t where b': "rl_buckets rl' x = Some \<lparr>bk_tokens = t, bk_last_refill = now\<rparr>"
      and t: "t + spent (fst (consume now x rl)) \<le> f64_of_u32 (rl_burst rl) + step_slack"
      using consume_credit [OF Cons.prems(1), of now x] True unfolding rl'_def by metis
    have "of_nat (admitted x (consume_all reqs rl')) \<le> t + allowance n (finish - now)
        + step_slack * of_nat (requests_of x reqs)"
      using admitted_from_bucket [OF lim times(1) _ b'] times by simp
    moreover have "allowance n (now - start) + allowance n (finish - now) = allowance n (finish - start)"
      using times by (simp add: allowance_add [symmetric])
    hence "allowance n (finish - now) \<le> allowance n (finish - start)"
      using allowance_nonneg [of "now - start" n] times by linarith
    ultimately show ?thesis
      using t unfolding run by (simp add: admitted_Cons req requests_of_Cons True distrib_left)
  next
    case False
    then show ?thesis
      using Cons.IH [OF lim times(1,3) Cons.prems(4)] burst_consume [OF Cons.prems(1)] unfolding run
      by (simp add: admitted_Cons req requests_of_Cons rl'_def)
  qed
qed



section \<open>The initial burst\<close>

lemma refilled_same_instant:
  "bk_tokens b = of_int k \<Longrightarrow> 0 \<le> k \<Longrightarrow> k \<le> uint (rl_burst rl) \<Longrightarrow> bk_last_refill b = now \<Longrightarrow>
   refilled rl now b = of_int k"
proof -
  assume b: "bk_tokens b = of_int k" "0 \<le> k" "k \<le> uint (rl_burst rl)" "bk_last_refill b = now"
  have "\<bar>k\<bar> < 2 ^ 53" using b uint_lt2p [of "rl_burst rl"] by simp
  then have "f64_round (of_int k) = of_int k" by (rule f64_round_int)
  moreover have "(of_int k :: rat) \<le> of_int (uint (rl_burst rl))" unfolding of_int_le_iff by (rule b(3))
  ultimately show ?thesis
    using b by (simp add: refilled_def as_secs_f64_def f64_of_u32_def duration_since_def)
qed

lemma consume_whole_token:
  assumes "limits n rl" and "entry_of now x rl = \<lparr>bk_tokens = of_int k, bk_last_refill = now\<rparr>"
    and "0 < k" and "k \<le> uint (rl_burst rl)"
  shows "consume now x rl
    = (Inr (), rl\<lparr>rl_buckets := (rl_buckets rl)(x \<mapsto> \<lparr>bk_tokens = of_int (k - 1), bk_last_refill = now\<rparr>)\<rparr>)"
proof -
  have "refilled rl now (entry_of now x rl) = of_int k"
    using assms by (intro refilled_same_instant) simp_all
  moreover have "f64_round (of_int k - 1) = of_int (k - 1)"
    using f64_round_int [of "k - 1"] assms(3,4) uint_lt2p [of "rl_burst rl"] by simp
  ultimately show ?thesis
    using limits_enabled [OF assms(1)] assms(3)
    by (simp add: consume_def entry_of_def [symmetric] Let_def)
qed

lemma burst_granted_from:
  assumes "limits n rl" and "entry_of now x rl = \<lparr>bk_tokens = of_int k, bk_last_refill = now\<rparr>"
    and "int m \<le> k" and "k \<le> uint (rl_burst rl)"
  shows "consume_all (replicate m (now, x)) rl = replicate m (x, True)"
  using assms
proof (induction m arbitrary: k rl)
  case (Suc m)
  note step = consume_whole_token [OF Suc.prems(1,2) _ Suc.prems(4)]
  have "limits n (snd (consume now x rl))" using Suc.prems(1) by (rule limits_consume)
  from Suc.IH [OF this, of "k - 1"] step Suc.prems(3,4) show ?case by (simp add: entry_of_def)
qed simp

text \<open>
  (C24) The burst is granted.  A tenant that has not been seen yet, whatever the other tenants did,
  has as many requests admitted at one instant as the burst size.
\<close>

theorem burst_is_granted:
  assumes "0 < n" and "x \<notin> snd ` set prior" and "int m \<le> uint burst"
  shows "consume_all (replicate m (now, x)) (limiter_after prior (rate_limiter_new n burst)) = replicate m (x, True)"
proof -
  define rl where "rl = limiter_after prior (rate_limiter_new n burst)"
  have lim: "limits n rl" using assms(1) by (simp add: rl_def limits_after limits_new)
  have "rl_buckets (limiter_after prior l) x = rl_buckets l x" if "limits n l" for l
    using assms(2) that
    by (induction prior l rule: limiter_after.induct) (auto simp: limits_consume buckets_consume_other)
  then have "rl_buckets rl x = None"
    using limits_new [OF assms(1)] by (simp add: rl_def) (simp add: rate_limiter_new_def)
  moreover have "rl_burst rl = burst"
    using burst_after [OF limits_new [OF assms(1)]] by (simp add: rl_def) (simp add: rate_limiter_new_def)
  ultimately show ?thesis
    using burst_granted_from [OF lim, of now x "uint burst" m] assms(3)
    by (simp add: entry_of_def f64_of_u32_def rl_def [symmetric])
qed

theorem burst_is_granted_witness:
  "consume_all (replicate 3 (5, 7)) (limiter_after [(0, 8)] (rate_limiter_new 60 3)) = replicate 3 (7, True)"
  by (rule burst_is_granted) simp_all

section \<open>Limits of the implementation\<close>

text \<open>
  No operation overflows: within the range of a \<open>Duration\<close> (at most \<open>2\<^sup>6\<^sup>4\<close> seconds) the sum that
  \<open>consume\<close> rounds stays far below the largest finite \<open>f64\<close>.  And the clock is read before the
  bucket is locked: when a request that read it earlier takes the bucket later, the elapsed time is
  refilled twice, and two requests at one instant pass a limiter of burst one.
\<close>

lemma token_values_in_range:
  assumes "limits n rl" and "bucket_ok rl b" and "0 \<le> d" and "d \<le> 2 ^ 94"
  shows "bk_tokens b + f64_round (as_secs_f64 d * rl_refill_per_sec rl) \<le> 2 ^ 200"
proof -
  have r: "0 \<le> exact_rate n" "exact_rate n \<le> 2 ^ 32"
    using f64_of_u32_bounds [of n] by (simp_all add: exact_rate_def)
  have "of_int d \<le> (of_int (2 ^ 94) :: rat)" using assms(4) by (simp only: of_int_le_iff)
  then have s: "0 \<le> seconds d" "seconds d \<le> 2 ^ 94" using assms(3) by (simp_all add: seconds_def)
  have "exact_rate n * seconds d \<le> 2 ^ 32 * 2 ^ 94" using r s by (intro mult_mono) simp_all
  then have "(1 + 6 * f64_eps) * (exact_rate n * seconds d) \<le> 2 * (2 ^ 32 * 2 ^ 94)"
    using r s by (intro mult_mono) (simp_all add: f64_eps_def)
  moreover have "bk_tokens b \<le> 2 ^ 32"
    using assms(2) f64_of_u32_bounds(2) [of "rl_burst rl"] by (simp add: bucket_ok_def)
  moreover have "f64_round (as_secs_f64 d * rl_refill_per_sec rl)
      \<le> (1 + 6 * f64_eps) * (exact_rate n * seconds d) + 1 / 2 ^ 40"
    using refill_le [OF _ assms(3), of n] assms(1) by (simp add: limits_def)
  ultimately show ?thesis by simp
qed

lemma stale_clock_refills_twice:
  "consume_all [(10 ^ 10, 7), (0, 7), (10 ^ 10, 7)] (rate_limiter_new 60 1) = [(7, True), (7, False), (7, True)]"
  by code_simp

end
