(* ===== verification/Pricing.thy ===== *)
theory Pricing
  imports Gadgetron_Prelude
begin

text \<open>
  Model pricing, \<open>crates/gadgetron-core/src/pricing.rs\<close>: the built-in table of rates in cents per
  million tokens, the lookup that strips a dated suffix, and the cost of one completion in whole cents.
  Products saturate at the largest \<open>u64\<close>, the sum wraps as in a release build.
\<close>

record model_rate =
  mr_input_cents_per_million :: u64
  mr_output_cents_per_million :: u64

type_synonym pricing_table = "string \<rightharpoonup> model_rate"

definition unknown_model_rate :: model_rate where
  "unknown_model_rate = \<lparr>mr_input_cents_per_million = 0, mr_output_cents_per_million = 0\<rparr>"

definition rate :: "u64 \<Rightarrow> u64 \<Rightarrow> model_rate" where
  "rate i out = \<lparr>mr_input_cents_per_million = i, mr_output_cents_per_million = out\<rparr>"

definition default_pricing_table :: pricing_table where
  "default_pricing_table = map_of
     [(''gpt-4o'', rate 250 1000),
      (''gpt-4o-mini'', rate 15 60),
      (''claude-sonnet-4-6'', rate 300 1500),
      (''claude-opus-4-7'', rate 1500 7500),
      (''claude-haiku-4-5'', rate 80 400),
      (''penny'', rate 0 0),
      (''mock'', rate 0 0),
      (''mock-model'', rate 0 0)]"

definition strip_dated_suffix :: "string \<Rightarrow> string" where
  "strip_dated_suffix model =
     (case rsplit_once (CHR ''-'') model of
        Some (pre, last_part) \<Rightarrow>
          if list_all (\<lambda>c. is_ascii_digit c \<or> c = CHR ''-'') last_part \<and> 4 \<le> length last_part then pre else model
      | None \<Rightarrow> model)"

definition rate_for_model :: "pricing_table \<Rightarrow> string \<Rightarrow> model_rate" where
  "rate_for_model table model =
     (case table model of
        Some r \<Rightarrow> r
      | None \<Rightarrow> (case table (strip_dated_suffix model) of Some r \<Rightarrow> r | None \<Rightarrow> unknown_model_rate))"

definition compute_cost_cents :: "string \<Rightarrow> u64 \<Rightarrow> u64 \<Rightarrow> pricing_table \<Rightarrow> int" where
  "compute_cost_cents model input_tokens output_tokens table =
     (let r = rate_for_model table model;
          i = saturating_mul input_tokens (mr_input_cents_per_million r);
          out = saturating_mul output_tokens (mr_output_cents_per_million r)
      in sint ((i + out) div 1000000))"

section \<open>Properties\<close>

lemma word_sum_unat:
  "unat a + unat b < 2 ^ LENGTH('w) \<Longrightarrow> unat (a + b) = unat a + unat (b :: 'w::len word)"
  by (simp add: unat_word_ariths)

lemma sint_small: "unat (w :: u64) < 2 ^ 63 \<Longrightarrow> sint w = int (unat w)"
proof -
  assume "unat w < 2 ^ 63"
  then have "int (unat w) < int (2 ^ 63)" by (simp only: of_nat_less_iff)
  then have "uint w < 2 ^ 63" by simp
  moreover have "- (2 ^ 63) \<le> uint w" using uint_ge_0 [of w] by (rule order_trans [rotated]) simp
  ultimately have "signed_take_bit 63 (uint w) = uint w" by (intro signed_take_bit_int_eq_self)
  then show ?thesis by (simp add: sint_uint)
qed

lemma cost_word:
  "sint ((w :: u64) div 1000000) = int (unat w div 1000000)" "unat (w :: u64) div 1000000 \<le> 18446744073709"
proof -
  have "unat w < 2 ^ 64" using unsigned_less [of w, where ?'a = nat] by simp
  then show le: "unat w div 1000000 \<le> 18446744073709" by simp
  have "unat (w div 1000000) = unat w div 1000000" by (simp add: unat_div_distrib)
  with le show "sint (w div 1000000) = int (unat w div 1000000)" by (simp add: sint_small)
qed

text \<open>
  The price is exact and bounded.  For all token counts and every table the cost in cents is
  between zero and eighteen trillion; and as long as the charge in millionths of a cent fits
  \<open>64\<close> bits, it is the exact charge rounded down, with the rate of the model or, failing that, of
  the model without its dated suffix.
\<close>

lemma cost_exact_and_bounded:
  "0 \<le> compute_cost_cents model i out table \<and> compute_cost_cents model i out table \<le> 18446744073709
   \<and> (let r = rate_for_model table model;
          charge = unat i * unat (mr_input_cents_per_million r) + unat out * unat (mr_output_cents_per_million r)
      in charge < 2 ^ 64 \<longrightarrow> compute_cost_cents model i out table = int (charge div 1000000))"
proof -
  define r where "r = rate_for_model table model"
  define a b where "a = saturating_mul i (mr_input_cents_per_million r)"
    and "b = saturating_mul out (mr_output_cents_per_million r)"
  have cost: "compute_cost_cents model i out table = int (unat (a + b) div 1000000)"
    by (simp add: compute_cost_cents_def Let_def a_def b_def r_def cost_word(1))
  moreover have "unat (a + b) = unat i * unat (mr_input_cents_per_million r) + unat out * unat (mr_output_cents_per_million r)"
    if "unat i * unat (mr_input_cents_per_million r) + unat out * unat (mr_output_cents_per_million r) < 2 ^ 64"
  proof -
    have "unat a = unat i * unat (mr_input_cents_per_million r)"
      "unat b = unat out * unat (mr_output_cents_per_million r)"
      using that by (simp_all add: a_def b_def unat_saturating_mul)
    with that show ?thesis by (simp add: word_sum_unat)
  qed
  moreover have "int (unat (a + b) div 1000000) \<le> 18446744073709"
    using cost_word(2) [of "a + b"] by linarith
  ultimately show ?thesis by (simp add: r_def Let_def)
qed

lemma cost_exact_and_bounded_example:
  "compute_cost_cents ''gpt-4o'' 500000 250000 default_pricing_table = 375"
proof -
  have r: "rate_for_model default_pricing_table ''gpt-4o'' = rate 250 1000"
    by (simp add: rate_for_model_def default_pricing_table_def)
  show ?thesis
    using cost_exact_and_bounded [of "''gpt-4o''" 500000 250000 default_pricing_table]
    by (simp add: r rate_def Let_def)
qed

text \<open>
  A vendor's date is not one segment: \<open>gpt-4o-2024-07-18\<close> loses nothing, because its last segment
  is too short, and is priced as an unknown model.
\<close>

lemma dated_model_is_free: "compute_cost_cents ''gpt-4o-2024-07-18'' i out default_pricing_table = 0"
proof -
  have "rate_for_model default_pricing_table ''gpt-4o-2024-07-18'' = unknown_model_rate" by code_simp
  then show ?thesis by (simp add: compute_cost_cents_def unknown_model_rate_def saturating_mul_def)
qed

text \<open>A charge that saturates wraps when another is added to it.\<close>

lemma saturated_charge_wraps: "compute_cost_cents ''gpt-4o'' (- 1) 1 default_pricing_table = 0"
proof -
  have "rate_for_model default_pricing_table ''gpt-4o'' = rate 250 1000" by code_simp
  then show ?thesis
    by (simp add: compute_cost_cents_def rate_def saturating_mul_def)
qed

end
