(* ===== verification/Quota.thy ===== *)
theory Quota
  imports Tenant_Context Rate_Limit Pricing
begin

text \<open>
  Spend accounting: the enforcers of \<open>crates/gadgetron-xaas/src/quota/enforcer.rs\<close>, the ledger of
  \<open>crates/gadgetron-xaas/src/billing\<close> and the quota page \<open>get_quota_status\<close> of
  \<open>crates/gadgetron-gateway/src/web/workbench.rs\<close>.

  The two tables are lists of rows.  A statement runs in a session that says whether the database
  answers and what time it is; \<open>BIGINT\<close> addition that leaves the 64-bit range is an error of the
  statement, as is a ledger row for an unknown tenant.  A calendar gives the date of a time and the
  month of a date, both as numbers.
\<close>

section \<open>Tokens and the ledger\<close>

record quota_token =
  qt_tenant_id :: uuid
  qt_estimated_cost_cents :: int
  qt_user_id :: "uuid option"
  qt_used :: bool

definition quota_token_new :: "uuid \<Rightarrow> int \<Rightarrow> uuid option \<Rightarrow> quota_token" where
  "quota_token_new tenant cost user =
     \<lparr>qt_tenant_id = tenant, qt_estimated_cost_cents = cost, qt_user_id = user, qt_used = False\<rparr>"

definition mark_used :: "quota_token \<Rightarrow> quota_token" where
  "mark_used token = token\<lparr>qt_used := True\<rparr>"

datatype billing_event_kind = ChatEvent | ToolEvent | ActionEvent

definition billing_kind_as_str :: "billing_event_kind \<Rightarrow> string" where
  "billing_kind_as_str k = (case k of ChatEvent \<Rightarrow> ''chat'' | ToolEvent \<Rightarrow> ''tool'' | ActionEvent \<Rightarrow> ''action'')"

record billing_event_row =
  be_id :: int
  be_tenant_id :: uuid
  be_event_kind :: string
  be_source_event_id :: "uuid option"
  be_cost_cents :: int
  be_model :: "string option"
  be_provider :: "string option"
  be_created_at :: int
  be_actor_user_id :: "uuid option"

record billing_event_insert =
  bi_tenant_id :: uuid
  bi_kind :: billing_event_kind
  bi_cost_cents :: int
  bi_source_event_id :: "uuid option"
  bi_model :: "string option"
  bi_provider :: "string option"
  bi_actor_user_id :: "uuid option"

definition insert_chat :: "uuid \<Rightarrow> int \<Rightarrow> billing_event_insert" where
  "insert_chat tenant cost =
     \<lparr>bi_tenant_id = tenant, bi_kind = ChatEvent, bi_cost_cents = cost, bi_source_event_id = None,
      bi_model = None, bi_provider = None, bi_actor_user_id = None\<rparr>"

definition insert_tool :: "uuid \<Rightarrow> string \<Rightarrow> billing_event_insert" where
  "insert_tool tenant gadget_name =
     \<lparr>bi_tenant_id = tenant, bi_kind = ToolEvent, bi_cost_cents = 0, bi_source_event_id = None,
      bi_model = Some gadget_name, bi_provider = None, bi_actor_user_id = None\<rparr>"

definition insert_action :: "uuid \<Rightarrow> uuid \<Rightarrow> string option \<Rightarrow> billing_event_insert" where
  "insert_action tenant audit_event_id gadget_name =
     \<lparr>bi_tenant_id = tenant, bi_kind = ActionEvent, bi_cost_cents = 0, bi_source_event_id = Some audit_event_id,
      bi_model = gadget_name, bi_provider = None, bi_actor_user_id = None\<rparr>"

definition with_actor_user :: "uuid option \<Rightarrow> billing_event_insert \<Rightarrow> billing_event_insert" where
  "with_actor_user user e = e\<lparr>bi_actor_user_id := user\<rparr>"

record billing_failures =
  bf_chat :: u64
  bf_tool :: u64
  bf_action :: u64

definition billing_failures_new :: billing_failures where
  "billing_failures_new = \<lparr>bf_chat = 0, bf_tool = 0, bf_action = 0\<rparr>"

definition failures_increment :: "billing_event_kind \<Rightarrow> billing_failures \<Rightarrow> billing_failures" where
  "failures_increment kind c =
     (case kind of
        ChatEvent \<Rightarrow> c\<lparr>bf_chat := bf_chat c + 1\<rparr>
      | ToolEvent \<Rightarrow> c\<lparr>bf_tool := bf_tool c + 1\<rparr>
      | ActionEvent \<Rightarrow> c\<lparr>bf_action := bf_action c + 1\<rparr>)"

section \<open>The tables\<close>

record quota_row =
  qc_tenant_id :: uuid
  qc_daily_limit_cents :: int
  qc_monthly_limit_cents :: int
  qc_daily_used_cents :: int
  qc_monthly_used_cents :: int
  qc_usage_day :: int
  qc_updated_at :: int

record billing_db =
  bd_tenants :: "uuid list"
  bd_quota_configs :: "quota_row list"
  bd_events :: "billing_event_row list"
  bd_next_id :: int

record calendar =
  cal_date :: "int \<Rightarrow> int"
  cal_month :: "int \<Rightarrow> int"

record session =
  se_available :: bool
  se_now :: int

definition in_bigint :: "int \<Rightarrow> bool" where
  "in_bigint v \<longleftrightarrow> - (2 ^ 63) \<le> v \<and> v < 2 ^ 63"

definition usage_after :: "calendar \<Rightarrow> int \<Rightarrow> int \<Rightarrow> quota_row \<Rightarrow> quota_row" where
  "usage_after cal now cost row =
     (let today = cal_date cal now
      in row\<lparr>qc_daily_used_cents :=
               (if qc_usage_day row = today then qc_daily_used_cents row + cost else cost),
             qc_monthly_used_cents :=
               (if cal_month cal (qc_usage_day row) = cal_month cal today
                then qc_monthly_used_cents row + cost else cost),
             qc_usage_day := today, qc_updated_at := now\<rparr>)"

definition row_in_range :: "quota_row \<Rightarrow> bool" where
  "row_in_range row \<longleftrightarrow> in_bigint (qc_daily_used_cents row) \<and> in_bigint (qc_monthly_used_cents row)"

definition update_usage ::
  "calendar \<Rightarrow> session \<Rightarrow> uuid \<Rightarrow> int \<Rightarrow> billing_db \<Rightarrow> (unit, nat) result \<times> billing_db" where
  "update_usage cal se tenant cost db =
     (let hit = filter (\<lambda>row. qc_tenant_id row = tenant) (bd_quota_configs db);
          rows = map (\<lambda>row. if qc_tenant_id row = tenant then usage_after cal (se_now se) cost row else row)
                   (bd_quota_configs db)
      in if \<not> se_available se \<or> \<not> list_all (\<lambda>row. row_in_range (usage_after cal (se_now se) cost row)) hit
         then (Inl (), db)
         else (Inr (length hit), db\<lparr>bd_quota_configs := rows\<rparr>))"

definition event_row :: "session \<Rightarrow> billing_event_insert \<Rightarrow> int \<Rightarrow> billing_event_row" where
  "event_row se e row_id =
     \<lparr>be_id = row_id, be_tenant_id = bi_tenant_id e, be_event_kind = billing_kind_as_str (bi_kind e),
      be_source_event_id = bi_source_event_id e, be_cost_cents = bi_cost_cents e, be_model = bi_model e,
      be_provider = bi_provider e, be_created_at = se_now se, be_actor_user_id = bi_actor_user_id e\<rparr>"

definition insert_billing_event ::
  "session \<Rightarrow> billing_event_insert \<Rightarrow> billing_db \<Rightarrow> (unit, unit) result \<times> billing_db" where
  "insert_billing_event se e db =
     (if \<not> se_available se then (Inl (), db)
      else if bi_tenant_id e \<notin> set (bd_tenants db) then (Inl (), db\<lparr>bd_next_id := bd_next_id db + 1\<rparr>)
      else (Inr (), db\<lparr>bd_events := bd_events db @ [event_row se e (bd_next_id db)],
                       bd_next_id := bd_next_id db + 1\<rparr>))"

definition query_billing_events ::
  "session \<Rightarrow> uuid \<Rightarrow> int option \<Rightarrow> int \<Rightarrow> billing_db \<Rightarrow> (unit, billing_event_row list) result" where
  "query_billing_events se tenant since limit db =
     (if \<not> se_available se \<or> limit < 0 then Inl ()
      else Inr (take (nat limit)
        (sort_by (\<lambda>a b. be_created_at b \<le> be_created_at a)
          (filter (\<lambda>row. be_tenant_id row = tenant
                     \<and> (case since of Some s \<Rightarrow> s \<le> be_created_at row | None \<Rightarrow> True)) (bd_events db)))))"

definition list_billing_events ::
  "session \<Rightarrow> tenant_context \<Rightarrow> int option \<Rightarrow> int option \<Rightarrow> billing_db
    \<Rightarrow> (unit, billing_event_row list \<times> nat) result" where
  "list_billing_events se ctx since limit db =
     and_then (query_billing_events se (tc_tenant_id ctx) since
                 (max 1 (min 500 (case limit of Some l \<Rightarrow> l | None \<Rightarrow> 100))) db)
       (\<lambda>events. Inr (events, length events))"

section \<open>Enforcers\<close>

record request_env =
  re_instant :: instant
  re_update :: session
  re_insert :: session

record billing_state =
  bs_db :: billing_db
  bs_failures :: billing_failures

definition snapshot_check :: "uuid \<Rightarrow> uuid option \<Rightarrow> quota_snapshot \<Rightarrow> (quota_error, quota_token) result" where
  "snapshot_check tenant user snapshot =
     (if remaining_daily_cents snapshot \<le> 0 then Inl (QuotaExceeded tenant)
      else Inr (quota_token_new tenant 0 user))"

definition memory_check_pre ::
  "request_env \<Rightarrow> uuid \<Rightarrow> uuid option \<Rightarrow> quota_snapshot \<Rightarrow> unit \<Rightarrow> (quota_error, quota_token) result \<times> unit" where
  "memory_check_pre env tenant user snapshot s = (snapshot_check tenant user snapshot, s)"

definition memory_record_post :: "request_env \<Rightarrow> quota_token \<Rightarrow> int \<Rightarrow> unit \<Rightarrow> quota_token \<times> unit" where
  "memory_record_post env token cost s = (mark_used token, s)"

definition pg_check_pre ::
  "request_env \<Rightarrow> uuid \<Rightarrow> uuid option \<Rightarrow> quota_snapshot \<Rightarrow> billing_state
    \<Rightarrow> (quota_error, quota_token) result \<times> billing_state" where
  "pg_check_pre env tenant user snapshot s = (snapshot_check tenant user snapshot, s)"

definition pg_record_post ::
  "calendar \<Rightarrow> request_env \<Rightarrow> quota_token \<Rightarrow> int \<Rightarrow> billing_state \<Rightarrow> quota_token \<times> billing_state" where
  "pg_record_post cal env token cost s =
     (let db = snd (update_usage cal (re_update env) (qt_tenant_id token) cost (bs_db s));
          e = with_actor_user (qt_user_id token) (insert_chat (qt_tenant_id token) cost)
      in (mark_used token,
          case insert_billing_event (re_insert env) e db of
            (Inr _, db') \<Rightarrow> s\<lparr>bs_db := db'\<rparr>
          | (Inl _, db') \<Rightarrow> s\<lparr>bs_db := db', bs_failures := failures_increment ChatEvent (bs_failures s)\<rparr>))"

definition rate_limited_check_pre ::
  "(request_env \<Rightarrow> uuid \<Rightarrow> uuid option \<Rightarrow> quota_snapshot \<Rightarrow> 's \<Rightarrow> (quota_error, quota_token) result \<times> 's)
    \<Rightarrow> request_env \<Rightarrow> uuid \<Rightarrow> uuid option \<Rightarrow> quota_snapshot \<Rightarrow> rate_limiter \<times> 's
    \<Rightarrow> (quota_error, quota_token) result \<times> rate_limiter \<times> 's" where
  "rate_limited_check_pre inner env tenant user snapshot s =
     (case consume (re_instant env) tenant (fst s) of
        (Inl _, rl) \<Rightarrow> (Inl (QuotaExceeded tenant), rl, snd s)
      | (Inr _, rl) \<Rightarrow> (case inner env tenant user snapshot (snd s) of (r, s') \<Rightarrow> (r, rl, s')))"

definition rate_limited_record_post ::
  "(request_env \<Rightarrow> quota_token \<Rightarrow> int \<Rightarrow> 's \<Rightarrow> quota_token \<times> 's)
    \<Rightarrow> request_env \<Rightarrow> quota_token \<Rightarrow> int \<Rightarrow> rate_limiter \<times> 's \<Rightarrow> quota_token \<times> rate_limiter \<times> 's" where
  "rate_limited_record_post inner env token cost s =
     (case inner env token cost (snd s) of (token', s') \<Rightarrow> (token', fst s, s'))"

section \<open>The quota page\<close>

record quota_window_stats =
  qw_used_cents :: int
  qw_limit_cents :: int
  qw_remaining_cents :: int

record quota_status_response =
  qr_usage_day :: int
  qr_daily :: quota_window_stats
  qr_monthly :: quota_window_stats

definition window_stats :: "int \<Rightarrow> int \<Rightarrow> quota_window_stats" where
  "window_stats used limit =
     \<lparr>qw_used_cents = used, qw_limit_cents = limit, qw_remaining_cents = max 0 (wrap_i64 (limit - used))\<rparr>"

definition get_quota_status ::
  "calendar \<Rightarrow> session \<Rightarrow> int \<Rightarrow> tenant_context \<Rightarrow> billing_db \<Rightarrow> (unit, quota_status_response) result" where
  "get_quota_status cal se utc_today ctx db =
     (if \<not> se_available se then Inl ()
      else
        let today = cal_date cal (se_now se);
            (daily_used, daily_limit, monthly_used, monthly_limit, day) =
              (case find (\<lambda>row. qc_tenant_id row = tc_tenant_id ctx) (bd_quota_configs db) of
                 Some row \<Rightarrow>
                   (if qc_usage_day row = today then qc_daily_used_cents row else 0,
                    qc_daily_limit_cents row,
                    if cal_month cal (qc_usage_day row) = cal_month cal today
                    then qc_monthly_used_cents row else 0,
                    qc_monthly_limit_cents row, today)
               | None \<Rightarrow> (0, 1000000, 0, 10000000, utc_today))
        in Inr \<lparr>qr_usage_day = day, qr_daily = window_stats daily_used daily_limit,
                qr_monthly = window_stats monthly_used monthly_limit\<rparr>)"

section \<open>The contract of an enforcer\<close>

text \<open>
  The trait \<open>QuotaEnforcer\<close>: an admitted request had budget in its snapshot and gets an unused token
  for its tenant and user, a refusal names the tenant, and posting marks the token as used.  The
  rate-limited enforcer satisfies the contract whenever the enforcer it wraps does.
\<close>

locale quota_enforcer =
  fixes check_pre :: "request_env \<Rightarrow> uuid \<Rightarrow> uuid option \<Rightarrow> quota_snapshot \<Rightarrow> 's
                        \<Rightarrow> (quota_error, quota_token) result \<times> 's"
    and record_post :: "request_env \<Rightarrow> quota_token \<Rightarrow> int \<Rightarrow> 's \<Rightarrow> quota_token \<times> 's"
  assumes pre_ok: "check_pre env t u q s = (Inr token, s') \<Longrightarrow>
        0 < remaining_daily_cents q \<and> token = quota_token_new t 0 u"
    and pre_err: "check_pre env t u q s = (Inl e, s') \<Longrightarrow> e = QuotaExceeded t"
    and post_used: "fst (record_post env token c s) = mark_used token"
begin

lemma exhausted_is_refused:
  "remaining_daily_cents q \<le> 0 \<Longrightarrow> fst (check_pre env t u q s) = Inl (QuotaExceeded t)"
  using pre_ok [of env t u q s] pre_err [of env t u q s] by (cases "check_pre env t u q s"; cases "fst (check_pre env t u q s)") force+

lemma served_token:
  "check_pre env t u q s = (Inr token, s') \<Longrightarrow>
   fst (record_post env' token c s'') = \<lparr>qt_tenant_id = t, qt_estimated_cost_cents = 0, qt_user_id = u, qt_used = True\<rparr>"
  by (auto dest: pre_ok simp: post_used mark_used_def quota_token_new_def)

end

lemma snapshot_check_cases:
  "snapshot_check t u q = Inr token \<Longrightarrow> 0 < remaining_daily_cents q \<and> token = quota_token_new t 0 u"
  "snapshot_check t u q = Inl e \<Longrightarrow> e = QuotaExceeded t"
  by (auto simp: snapshot_check_def split: if_splits)

interpretation memory_quota: quota_enforcer memory_check_pre memory_record_post
  by unfold_locales (auto simp: memory_check_pre_def memory_record_post_def dest: snapshot_check_cases)

interpretation pg_quota: quota_enforcer pg_check_pre "pg_record_post cal"
  by unfold_locales (auto simp: pg_check_pre_def pg_record_post_def Let_def dest: snapshot_check_cases)

lemma rate_limited_enforcer:
  "quota_enforcer cp rp \<Longrightarrow> quota_enforcer (rate_limited_check_pre cp) (rate_limited_record_post rp)"
proof -
  assume inner: "quota_enforcer cp rp"
  show ?thesis
  proof
    show "0 < remaining_daily_cents q \<and> token = quota_token_new t 0 u"
      if "rate_limited_check_pre cp env t u q s = (Inr token, s')" for env t u q s token s'
      using that quota_enforcer.pre_ok [OF inner]
      by (auto simp: rate_limited_check_pre_def split: prod.splits sum.splits)
    show "e = QuotaExceeded t"
      if "rate_limited_check_pre cp env t u q s = (Inl e, s')" for env t u q s e s'
      using that quota_enforcer.pre_err [OF inner]
      by (auto simp: rate_limited_check_pre_def split: prod.splits sum.splits)
    show "fst (rate_limited_record_post rp env token c s) = mark_used token" for env token c s
      by (simp add: rate_limited_record_post_def case_prod_beta quota_enforcer.post_used [OF inner])
  qed
qed

interpretation limited_memory:
  quota_enforcer "rate_limited_check_pre memory_check_pre" "rate_limited_record_post memory_record_post"
  by (rule rate_limited_enforcer) (rule memory_quota.quota_enforcer_axioms)

interpretation limited_pg:
  quota_enforcer "rate_limited_check_pre pg_check_pre" "rate_limited_record_post (pg_record_post cal)"
  by (rule rate_limited_enforcer) (rule pg_quota.quota_enforcer_axioms)

section \<open>The daily budget\<close>

text \<open>
  (C25) No request is refused for its spend.  The middleware builds every request's context with a
  placeholder snapshot, so whatever the tenant has spent, and whatever limits its row in the database
  holds, the enforcer admits the request unless the rate limiter refuses it.
\<close>

theorem spend_limit_not_enforced:
  assumes "tenant_context_middleware key request_id fresh_id now = Inr ctx"
  shows "pg_check_pre env (tc_tenant_id ctx) (tc_actor_user_id ctx) (tc_quota_snapshot ctx) s
           = (Inr (quota_token_new (tc_tenant_id ctx) 0 (tc_actor_user_id ctx)), s)
         \<and> (is_ok (fst (rate_limited_check_pre pg_check_pre env (tc_tenant_id ctx) (tc_actor_user_id ctx)
                    (tc_quota_snapshot ctx) (rl, s)))
            \<longleftrightarrow> is_ok (fst (consume (re_instant env) (tc_tenant_id ctx) rl)))"
proof -
  have "tc_quota_snapshot ctx = placeholder_snapshot"
    using assms by (auto simp: tenant_context_middleware_def split: option.splits)
  then show ?thesis
    by (auto simp: pg_check_pre_def snapshot_check_def remaining_placeholder i64_max_def
        rate_limited_check_pre_def is_ok_iff split: prod.splits sum.splits)
qed

definition sample_key :: validated_key where
  "sample_key = \<lparr>vk_api_key_id = 0, vk_tenant_id = 7, vk_scopes = [OpenAiCompat], vk_user_id = Some 9\<rparr>"

definition spent_out :: billing_state where
  "spent_out = \<lparr>bs_db = \<lparr>bd_tenants = [7],
      bd_quota_configs = [\<lparr>qc_tenant_id = 7, qc_daily_limit_cents = 10, qc_monthly_limit_cents = 100,
        qc_daily_used_cents = 50, qc_monthly_used_cents = 500, qc_usage_day = 0, qc_updated_at = 0\<rparr>],
      bd_events = [], bd_next_id = 1\<rparr>, bs_failures = billing_failures_new\<rparr>"

definition sample_env_at :: "int \<Rightarrow> request_env" where
  "sample_env_at now = \<lparr>re_instant = now, re_update = \<lparr>se_available = True, se_now = now\<rparr>,
                        re_insert = \<lparr>se_available = True, se_now = now\<rparr>\<rparr>"

theorem spend_limit_not_enforced_witness:
  "\<exists>ctx. tenant_context_middleware (Some sample_key) None 3 0 = Inr ctx
     \<and> pg_check_pre (sample_env_at 5) (tc_tenant_id ctx) (tc_actor_user_id ctx) (tc_quota_snapshot ctx) spent_out
         = (Inr (quota_token_new (tc_tenant_id ctx) 0 (tc_actor_user_id ctx)), spent_out)"
proof -
  obtain ctx where ctx: "tenant_context_middleware (Some sample_key) None 3 0 = Inr ctx"
    by (simp add: tenant_context_middleware_def)
  from spend_limit_not_enforced [OF ctx] ctx show ?thesis by blast
qed

section \<open>Books\<close>

text \<open>
  The state of the accounts after \<open>n\<close> postings, the last at time \<open>t\<close>: it starts with empty counters
  and ledger; a chat posting runs its two statements on one day, the first of them successfully, the
  second perhaps not; tool and action events cost nothing and touch the ledger alone.
\<close>

definition record_free_event :: "session \<Rightarrow> billing_event_insert \<Rightarrow> billing_state \<Rightarrow> billing_state" where
  "record_free_event se e s =
     (case insert_billing_event se e (bs_db s) of
        (Inr _, db) \<Rightarrow> s\<lparr>bs_db := db\<rparr>
      | (Inl _, db) \<Rightarrow> s\<lparr>bs_db := db, bs_failures := failures_increment (bi_kind e) (bs_failures s)\<rparr>)"

inductive billing_run :: "calendar \<Rightarrow> nat \<Rightarrow> int \<Rightarrow> billing_state \<Rightarrow> bool" for cal where
  provisioned:
    "distinct (map qc_tenant_id (bd_quota_configs db)) \<Longrightarrow> bd_events db = [] \<Longrightarrow>
     \<forall>row \<in> set (bd_quota_configs db). qc_daily_used_cents row = 0 \<and> qc_monthly_used_cents row = 0
       \<and> qc_usage_day row \<le> cal_date cal t \<Longrightarrow>
     billing_run cal 0 t \<lparr>bs_db = db, bs_failures = billing_failures_new\<rparr>"
| chat_posted:
    "billing_run cal n t s \<Longrightarrow> t \<le> se_now (re_update env) \<Longrightarrow> se_now (re_update env) \<le> se_now (re_insert env) \<Longrightarrow>
     cal_date cal (se_now (re_insert env)) = cal_date cal (se_now (re_update env)) \<Longrightarrow>
     is_ok (fst (update_usage cal (re_update env) (qt_tenant_id token) c (bs_db s))) \<Longrightarrow>
     billing_run cal (Suc n) (se_now (re_insert env)) (snd (pg_record_post cal env token c s))"
| tool_invoked:
    "billing_run cal n t s \<Longrightarrow> t \<le> se_now se \<Longrightarrow>
     billing_run cal (Suc n) (se_now se) (record_free_event se (with_actor_user u (insert_tool tenant name)) s)"
| action_run:
    "billing_run cal n t s \<Longrightarrow> t \<le> se_now se \<Longrightarrow>
     billing_run cal (Suc n) (se_now se) (record_free_event se (with_actor_user u (insert_action tenant ev name)) s)"

definition ledger_sum :: "(int \<Rightarrow> bool) \<Rightarrow> calendar \<Rightarrow> uuid \<Rightarrow> billing_event_row list \<Rightarrow> int" where
  "ledger_sum P cal tenant events =
     (\<Sum>e \<leftarrow> filter (\<lambda>e. be_tenant_id e = tenant \<and> P (cal_date cal (be_created_at e))) events. be_cost_cents e)"

definition row_matches :: "calendar \<Rightarrow> billing_event_row list \<Rightarrow> quota_row \<Rightarrow> bool" where
  "row_matches cal events row \<longleftrightarrow>
     qc_daily_used_cents row = ledger_sum (\<lambda>d. d = qc_usage_day row) cal (qc_tenant_id row) events
     \<and> qc_monthly_used_cents row
         = ledger_sum (\<lambda>d. cal_month cal d = cal_month cal (qc_usage_day row)) cal (qc_tenant_id row) events
     \<and> (\<forall>e \<in> set events. be_tenant_id e = qc_tenant_id row \<longrightarrow> be_cost_cents e \<noteq> 0
          \<longrightarrow> cal_date cal (be_created_at e) \<le> qc_usage_day row)"

definition calendar_ok :: "calendar \<Rightarrow> bool" where
  "calendar_ok cal \<longleftrightarrow> mono (cal_date cal) \<and> mono (cal_month cal)"

lemma ledger_sum_append:
  "ledger_sum P cal tenant (events @ [e]) = ledger_sum P cal tenant events
     + (if be_tenant_id e = tenant \<and> P (cal_date cal (be_created_at e)) then be_cost_cents e else 0)"
  by (simp add: ledger_sum_def)

lemma ledger_sum_none:
  "(\<And>e. e \<in> set events \<Longrightarrow> be_tenant_id e = tenant \<Longrightarrow> be_cost_cents e \<noteq> 0 \<Longrightarrow> \<not> P (cal_date cal (be_created_at e)))
   \<Longrightarrow> ledger_sum P cal tenant events = 0"
  unfolding ledger_sum_def by (induction events) auto

lemma row_matches_other:
  "row_matches cal events row \<Longrightarrow> be_tenant_id e \<noteq> qc_tenant_id row \<or> be_cost_cents e = 0 \<Longrightarrow>
   row_matches cal (events @ [e]) row"
  by (auto simp: row_matches_def ledger_sum_append)

lemma row_matches_posted:
  assumes "calendar_ok cal" and "row_matches cal events row" and "qc_usage_day row \<le> cal_date cal now"
    and "be_tenant_id e = qc_tenant_id row" and "be_cost_cents e = c"
    and "cal_date cal (be_created_at e) = cal_date cal now"
  shows "row_matches cal (events @ [e]) (usage_after cal now c row)"
proof -
  let ?u = "qc_usage_day row" and ?d = "cal_date cal now"
  have past: "cal_date cal (be_created_at a) \<le> ?u"
    if "a \<in> set events" "be_tenant_id a = qc_tenant_id row" "be_cost_cents a \<noteq> 0" for a
    using assms(2) that by (simp add: row_matches_def)
  have day: "ledger_sum (\<lambda>d. d = ?d) cal (qc_tenant_id row) events = 0" if "?u \<noteq> ?d"
    using past assms(3) that by (intro ledger_sum_none) force
  have month: "ledger_sum (\<lambda>d. cal_month cal d = cal_month cal ?d) cal (qc_tenant_id row) events = 0"
    if "cal_month cal ?u \<noteq> cal_month cal ?d"
  proof (rule ledger_sum_none)
    fix a assume "a \<in> set events" "be_tenant_id a = qc_tenant_id row" "be_cost_cents a \<noteq> 0"
    then have "cal_month cal (cal_date cal (be_created_at a)) \<le> cal_month cal ?u"
      using past assms(1) by (simp add: calendar_ok_def monoD)
    moreover have "cal_month cal ?u \<le> cal_month cal ?d"
      using assms(1,3) by (simp add: calendar_ok_def monoD)
    ultimately show "cal_month cal (cal_date cal (be_created_at a)) \<noteq> cal_month cal ?d" using that by linarith
  qed
  show ?thesis
    using assms past day month
    by (auto simp: row_matches_def usage_after_def Let_def ledger_sum_append dest: order_trans)
qed

definition books :: "calendar \<Rightarrow> nat \<Rightarrow> int \<Rightarrow> billing_state \<Rightarrow> bool" where
  "books cal n t s \<longleftrightarrow>
     distinct (map qc_tenant_id (bd_quota_configs (bs_db s)))
     \<and> (\<forall>row \<in> set (bd_quota_configs (bs_db s)). qc_usage_day row \<le> cal_date cal t)
     \<and> (\<exists>k \<le> n. bf_chat (bs_failures s) = of_nat k
          \<and> (k = 0 \<longrightarrow> (\<forall>row \<in> set (bd_quota_configs (bs_db s)). row_matches cal (bd_events (bs_db s)) row)))"

lemma insert_event_effect:
  "bd_quota_configs (snd (insert_billing_event se e db)) = bd_quota_configs db"
  "is_ok (fst (insert_billing_event se e db)) \<Longrightarrow>
     bd_events (snd (insert_billing_event se e db)) = bd_events db @ [event_row se e (bd_next_id db)]"
  "\<not> is_ok (fst (insert_billing_event se e db)) \<Longrightarrow> bd_events (snd (insert_billing_event se e db)) = bd_events db"
  by (auto simp: insert_billing_event_def split: if_splits)

lemma update_usage_effect:
  "bd_events (snd (update_usage cal se tenant c db)) = bd_events db"
  "is_ok (fst (update_usage cal se tenant c db)) \<Longrightarrow>
     bd_quota_configs (snd (update_usage cal se tenant c db))
       = map (\<lambda>row. if qc_tenant_id row = tenant then usage_after cal (se_now se) c row else row) (bd_quota_configs db)"
  by (auto simp: update_usage_def Let_def split: if_splits)

lemma usage_after_fields [simp]:
  "qc_tenant_id (usage_after cal now c row) = qc_tenant_id row"
  "qc_usage_day (usage_after cal now c row) = cal_date cal now"
  by (simp_all add: usage_after_def Let_def)

lemma cal_date_mono: "calendar_ok cal \<Longrightarrow> a \<le> b \<Longrightarrow> cal_date cal a \<le> cal_date cal b"
  by (simp add: calendar_ok_def monoD)

lemma books_free:
  assumes "calendar_ok cal" and "books cal n t s" and "t \<le> se_now se" and "bi_cost_cents e = 0" and "bi_kind e \<noteq> ChatEvent"
  shows "books cal (Suc n) (se_now se) (record_free_event se e s)"
proof -
  obtain r db where ins: "insert_billing_event se e (bs_db s) = (r, db)" by force
  note effect = insert_event_effect [of se e "bs_db s", unfolded ins fst_conv snd_conv]
  from assms(2) obtain k where k: "k \<le> n" "bf_chat (bs_failures s) = of_nat k"
    "k = 0 \<longrightarrow> (\<forall>row \<in> set (bd_quota_configs (bs_db s)). row_matches cal (bd_events (bs_db s)) row)"
    by (auto simp: books_def)
  have chat: "bf_chat (bs_failures (record_free_event se e s)) = of_nat k"
    "bs_db (record_free_event se e s) = db"
    using k assms(5) ins
    by (auto simp: record_free_event_def failures_increment_def split: sum.splits billing_event_kind.splits)
  have "row_matches cal (bd_events db) row" if "row_matches cal (bd_events (bs_db s)) row" for row
    using effect(2,3) row_matches_other [OF that, of "event_row se e (bd_next_id (bs_db s))"] that assms(4)
    by (cases "is_ok r") (simp_all add: event_row_def)
  moreover have "\<forall>row \<in> set (bd_quota_configs db). qc_usage_day row \<le> cal_date cal (se_now se)"
    using assms(2) cal_date_mono [OF assms(1,3)] by (auto simp: books_def effect(1) dest: order_trans)
  ultimately show ?thesis
    using assms(2) k chat effect(1) unfolding books_def by (auto intro!: exI [of _ k])
qed

lemma books_chat:
  assumes "calendar_ok cal" and "books cal n t s" and "t \<le> se_now (re_update env)"
    and "se_now (re_update env) \<le> se_now (re_insert env)"
    and "cal_date cal (se_now (re_insert env)) = cal_date cal (se_now (re_update env))"
    and "is_ok (fst (update_usage cal (re_update env) (qt_tenant_id token) c (bs_db s)))" and "Suc n < 2 ^ 64"
  shows "books cal (Suc n) (se_now (re_insert env)) (snd (pg_record_post cal env token c s))"
proof -
  define db1 where "db1 = snd (update_usage cal (re_update env) (qt_tenant_id token) c (bs_db s))"
  define e where "e = with_actor_user (qt_user_id token) (insert_chat (qt_tenant_id token) c)"
  define row' where "row' = event_row (re_insert env) e (bd_next_id db1)"
  obtain r db where ins: "insert_billing_event (re_insert env) e db1 = (r, db)" by force
  define s' where "s' = snd (pg_record_post cal env token c s)"
  have s': "bs_db s' = db" "bs_failures s' = (if is_ok r then bs_failures s else failures_increment ChatEvent (bs_failures s))"
    using ins by (auto simp: s'_def pg_record_post_def db1_def [symmetric] e_def [symmetric] split: sum.splits)
  note effect = insert_event_effect [of "re_insert env" e db1, unfolded ins fst_conv snd_conv, folded row'_def]
  note rows = update_usage_effect [of cal "re_update env" "qt_tenant_id token" c "bs_db s", folded db1_def]
  define f where "f = (\<lambda>row. if qc_tenant_id row = qt_tenant_id token then usage_after cal (se_now (re_update env)) c row else row)"
  have configs: "bd_quota_configs db = map f (bd_quota_configs (bs_db s))"
    using effect(1) rows(2) [OF assms(6)] by (simp add: f_def)
  from assms(2) obtain k where k: "k \<le> n" "bf_chat (bs_failures s) = of_nat k"
    "k = 0 \<Longrightarrow> row \<in> set (bd_quota_configs (bs_db s)) \<Longrightarrow> row_matches cal (bd_events (bs_db s)) row" for row
    by (auto simp: books_def)
  have days: "qc_usage_day row \<le> cal_date cal (se_now (re_update env))"
    if "row \<in> set (bd_quota_configs (bs_db s))" for row
    using that assms(2) cal_date_mono [OF assms(1,3)] by (auto simp: books_def dest: order_trans)
  have e: "be_tenant_id row' = qt_tenant_id token" "be_cost_cents row' = c" "be_created_at row' = se_now (re_insert env)"
    by (simp_all add: row'_def event_row_def e_def with_actor_user_def insert_chat_def)
  have match: "row_matches cal (bd_events (bs_db s) @ [row']) (f row)"
    if "k = 0" "row \<in> set (bd_quota_configs (bs_db s))" for row
    using row_matches_posted [OF assms(1) k(3) [OF that] days [OF that(2)], of row' c]
      row_matches_other [OF k(3) [OF that], of row'] e assms(5) by (auto simp: f_def)
  have "distinct (map qc_tenant_id (bd_quota_configs db))"
    using assms(2) by (simp add: configs books_def comp_def f_def if_distrib cong: if_cong)
  moreover have "\<forall>row \<in> set (bd_quota_configs db). qc_usage_day row \<le> cal_date cal (se_now (re_insert env))"
    using days assms(5) by (auto simp: configs f_def)
  moreover have "\<exists>k \<le> Suc n. bf_chat (bs_failures s') = of_nat k
      \<and> (k = 0 \<longrightarrow> (\<forall>row \<in> set (bd_quota_configs db). row_matches cal (bd_events db) row))"
  proof (cases "is_ok r")
    case True
    with k match effect(2) rows(1) show ?thesis
      by (intro exI [of _ k]) (auto simp: s'(2) configs)
  next
    case False
    with k show ?thesis by (intro exI [of _ "Suc k"]) (simp add: s'(2) failures_increment_def)
  qed
  ultimately show ?thesis by (simp add: books_def s'_def [symmetric] s'(1))
qed

lemma books_run: "billing_run cal n t s \<Longrightarrow> calendar_ok cal \<Longrightarrow> n < 2 ^ 64 \<Longrightarrow> books cal n t s"
proof (induction rule: billing_run.induct)
  case (provisioned db t)
  then show ?case
    by (auto simp: books_def billing_failures_new_def row_matches_def ledger_sum_def intro!: exI [of _ 0])
next
  case (chat_posted n t s env token c)
  then show ?case by (intro books_chat) simp_all
next
  case (tool_invoked n t s se u tenant name)
  then show ?case by (intro books_free) (simp_all add: with_actor_user_def insert_tool_def)
next
  case (action_run n t s se u tenant ev name)
  then show ?case by (intro books_free) (simp_all add: with_actor_user_def insert_action_def)
qed

lemma of_nat_u64_eq_0: "k < 2 ^ 64 \<Longrightarrow> of_nat k = (0 :: u64) \<Longrightarrow> k = 0"
proof -
  assume k: "k < 2 ^ 64" "of_nat k = (0 :: u64)"
  have "unat (of_nat k :: u64) = k" using k(1) by (simp add: unsigned_of_nat take_bit_nat_eq_self)
  with k(2) show ?thesis by simp
qed

lemma find_row:
  "distinct (map qc_tenant_id rows) \<Longrightarrow> row \<in> set rows \<Longrightarrow> find (\<lambda>r. qc_tenant_id r = qc_tenant_id row) rows = Some row"
  by (induction rows) (auto simp: image_iff)

lemma status_of_matching_row:
  assumes "calendar_ok cal" and "row_matches cal events row" and "qc_usage_day row \<le> today"
  shows "(if qc_usage_day row = today then qc_daily_used_cents row else 0)
           = ledger_sum (\<lambda>d. d = today) cal (qc_tenant_id row) events"
    "(if cal_month cal (qc_usage_day row) = cal_month cal today then qc_monthly_used_cents row else 0)
           = ledger_sum (\<lambda>d. cal_month cal d = cal_month cal today) cal (qc_tenant_id row) events"
proof -
  have past: "cal_date cal (be_created_at a) \<le> qc_usage_day row"
    if "a \<in> set events" "be_tenant_id a = qc_tenant_id row" "be_cost_cents a \<noteq> 0" for a
    using assms(2) that by (simp add: row_matches_def)
  show "(if qc_usage_day row = today then qc_daily_used_cents row else 0)
          = ledger_sum (\<lambda>d. d = today) cal (qc_tenant_id row) events"
  proof (cases "qc_usage_day row = today")
    case False
    with past assms(3) have "ledger_sum (\<lambda>d. d = today) cal (qc_tenant_id row) events = 0"
      by (intro ledger_sum_none) force
    with False show ?thesis by simp
  qed (use assms(2) in \<open>auto simp: row_matches_def\<close>)
  show "(if cal_month cal (qc_usage_day row) = cal_month cal today then qc_monthly_used_cents row else 0)
          = ledger_sum (\<lambda>d. cal_month cal d = cal_month cal today) cal (qc_tenant_id row) events"
  proof (cases "cal_month cal (qc_usage_day row) = cal_month cal today")
    case False
    have "ledger_sum (\<lambda>d. cal_month cal d = cal_month cal today) cal (qc_tenant_id row) events = 0"
    proof (rule ledger_sum_none)
      fix a assume "a \<in> set events" "be_tenant_id a = qc_tenant_id row" "be_cost_cents a \<noteq> 0"
      then have "cal_month cal (cal_date cal (be_created_at a)) \<le> cal_month cal (qc_usage_day row)"
        "cal_month cal (qc_usage_day row) \<le> cal_month cal today"
        using past assms(1,3) by (simp_all add: calendar_ok_def monoD)
      with False show "cal_month cal (cal_date cal (be_created_at a)) \<noteq> cal_month cal today" by linarith
    qed
    with False show ?thesis by simp
  qed (use assms(2) in \<open>auto simp: row_matches_def\<close>)
qed


definition sample_calendar :: calendar where
  "sample_calendar = \<lparr>cal_date = (\<lambda>t. t div 100), cal_month = (\<lambda>d. d div 30)\<rparr>"

definition fresh_accounts :: billing_state where
  "fresh_accounts = \<lparr>bs_db = \<lparr>bd_tenants = [7],
      bd_quota_configs = [\<lparr>qc_tenant_id = 7, qc_daily_limit_cents = 10, qc_monthly_limit_cents = 100,
        qc_daily_used_cents = 0, qc_monthly_used_cents = 0, qc_usage_day = 0, qc_updated_at = 0\<rparr>],
      bd_events = [], bd_next_id = 1\<rparr>, bs_failures = billing_failures_new\<rparr>"

definition two_days :: billing_state where
  "two_days = snd (pg_record_post sample_calendar (sample_env_at 120) (quota_token_new 7 0 None) 4
     (snd (pg_record_post sample_calendar (sample_env_at 50) (quota_token_new 7 0 None) 3 fresh_accounts)))"


end
