(* ===== verification/Router.thy ===== *)
theory Router
  imports Machine_Float
begin

text \<open>
  Request routing: \<open>crates/gadgetron-core/src/routing.rs\<close> and \<open>crates/gadgetron-router/src\<close>.

  The provider map, the weights and the costs never change after construction, so a map is the list
  of its entries in its iteration order.  A provider is external: a function of the request and of
  the state of the outside world that returns its answer, the measured latency and a new world.  The
  random number of weighted routing is an argument.  A panic is the error \<open>Panicked\<close>.
\<close>

section \<open>Metrics\<close>

record provider_metrics =
  pm_total_requests :: u64
  pm_total_errors :: u64
  pm_total_latency_ms :: u64
  pm_total_input_tokens :: u64
  pm_total_output_tokens :: u64
  pm_total_cost_usd :: float_value
  pm_last_error :: "string option"
  pm_last_latency_ms :: "u64 option"

definition default_metrics :: provider_metrics where
  "default_metrics =
     \<lparr>pm_total_requests = 0, pm_total_errors = 0, pm_total_latency_ms = 0, pm_total_input_tokens = 0,
      pm_total_output_tokens = 0, pm_total_cost_usd = FFin 0, pm_last_error = None, pm_last_latency_ms = None\<rparr>"

definition f64_of_u64 :: "u64 \<Rightarrow> rat" where
  "f64_of_u64 w = f64_round (of_int (uint w))"

definition avg_latency_ms :: "provider_metrics \<Rightarrow> float_value" where
  "avg_latency_ms m =
     (if pm_total_requests m = 0 then FFin 0
      else float_div F64 (FFin (f64_of_u64 (pm_total_latency_ms m))) (f64_of_u64 (pm_total_requests m)))"

definition error_rate :: "provider_metrics \<Rightarrow> float_value" where
  "error_rate m =
     (if pm_total_requests m = 0 then FFin 0
      else float_div F64 (FFin (f64_of_u64 (pm_total_errors m))) (f64_of_u64 (pm_total_requests m)))"

definition metrics_success :: "u64 \<Rightarrow> u64 \<Rightarrow> u64 \<Rightarrow> float_value \<Rightarrow> provider_metrics \<Rightarrow> provider_metrics" where
  "metrics_success latency input_tokens output_tokens usd m =
     m\<lparr>pm_total_requests := pm_total_requests m + 1, pm_total_latency_ms := pm_total_latency_ms m + latency,
       pm_total_input_tokens := pm_total_input_tokens m + input_tokens,
       pm_total_output_tokens := pm_total_output_tokens m + output_tokens,
       pm_total_cost_usd := float_add F64 (pm_total_cost_usd m) usd, pm_last_latency_ms := Some latency\<rparr>"

definition metrics_error :: "u64 \<Rightarrow> string \<Rightarrow> provider_metrics \<Rightarrow> provider_metrics" where
  "metrics_error latency error m =
     m\<lparr>pm_total_requests := pm_total_requests m + 1, pm_total_errors := pm_total_errors m + 1,
       pm_total_latency_ms := pm_total_latency_ms m + latency, pm_last_error := Some error,
       pm_last_latency_ms := Some latency\<rparr>"

type_synonym metrics_store = "string \<times> string \<rightharpoonup> provider_metrics"

definition metrics_get :: "string \<times> string \<Rightarrow> metrics_store \<Rightarrow> provider_metrics" where
  "metrics_get key store = (case store key of Some m \<Rightarrow> m | None \<Rightarrow> default_metrics)"

definition store_success ::
  "string \<Rightarrow> string \<Rightarrow> u64 \<Rightarrow> u32 \<Rightarrow> u32 \<Rightarrow> float_value \<Rightarrow> metrics_store \<Rightarrow> metrics_store" where
  "store_success provider model latency input_tokens output_tokens usd store =
     store((provider, model) \<mapsto>
       metrics_success latency (ucast input_tokens) (ucast output_tokens) usd (metrics_get (provider, model) store))"

definition store_error :: "string \<Rightarrow> string \<Rightarrow> u64 \<Rightarrow> string \<Rightarrow> metrics_store \<Rightarrow> metrics_store" where
  "store_error provider model latency error store =
     store((provider, model) \<mapsto> metrics_error latency error (metrics_get (provider, model) store))"

section \<open>Requests, providers and configuration\<close>

record 'b chat_request =
  cr_model :: string
  cr_rest :: 'b

record usage =
  us_prompt_tokens :: u32
  us_completion_tokens :: u32
  us_total_tokens :: u32

record 'r chat_response =
  rs_usage :: usage
  rs_rest :: 'r

type_synonym ('b, 'r, 'w) provider =
  "'b chat_request \<Rightarrow> 'w \<Rightarrow> (string, 'r chat_response) result \<times> u64 \<times> 'w"

datatype routing_strategy =
    RoundRobin
  | CostOptimal
  | LatencyOptimal
  | QualityOptimal
  | Fallback "string list"
  | Weighted "(string \<times> float_value) list"

record cost_entry =
  ce_input :: float_value
  ce_output :: float_value

record routing_config =
  rc_default_strategy :: routing_strategy
  rc_fallbacks :: "string \<rightharpoonup> string list"
  rc_costs :: "string \<rightharpoonup> cost_entry"

record routing_decision =
  rd_provider :: string
  rd_model :: string
  rd_strategy :: routing_strategy
  rd_estimated_cost_usd :: "float_value option"
  rd_fallback_chain :: "string list"

datatype router_error = Routing string | Panicked

record ('b, 'r, 'w) router =
  rt_providers :: "(string \<times> ('b, 'r, 'w) provider) list"
  rt_config :: routing_config
  rt_metrics :: metrics_store
  rt_round_robin_counter :: usize

definition router_new ::
  "(string \<times> ('b, 'r, 'w) provider) list \<Rightarrow> routing_config \<Rightarrow> metrics_store \<Rightarrow> ('b, 'r, 'w) router" where
  "router_new providers config metrics =
     \<lparr>rt_providers = providers, rt_config = config, rt_metrics = metrics, rt_round_robin_counter = 0\<rparr>"

abbreviation provider_names :: "('b, 'r, 'w) router \<Rightarrow> string list" where
  "provider_names rt \<equiv> map fst (rt_providers rt)"

definition no_provider :: "string \<Rightarrow> router_error" where
  "no_provider model = Routing (''no provider available for model '' @ model)"

section \<open>Choosing a provider\<close>

definition estimate_cost :: "('b, 'r, 'w) router \<Rightarrow> string \<Rightarrow> float_value option" where
  "estimate_cost rt model =
     map_option (\<lambda>c. float_div F64 (float_add F64 (ce_input c) (ce_output c)) 1000000) (rc_costs (rt_config rt) model)"

definition cheapest_step ::
  "cost_entry option \<Rightarrow> string \<Rightarrow> (string \<times> float_value) option \<Rightarrow> (string \<times> float_value) option" where
  "cheapest_step entry name best =
     (case entry of
        Some c \<Rightarrow>
          let total = float_add F64 (ce_input c) (ce_output c)
          in (case best of
                Some (_, best_cost) \<Rightarrow> if float_le best_cost total then best else Some (name, total)
              | None \<Rightarrow> Some (name, total))
      | None \<Rightarrow> if best = None then Some (name, FFin 0) else best)"

definition cheapest_provider ::
  "('b, 'r, 'w) router \<Rightarrow> string \<Rightarrow> (router_error, string \<times> float_value option) result" where
  "cheapest_provider rt model =
     (case fold (cheapest_step (rc_costs (rt_config rt) model)) (provider_names rt) None of
        Some (n, c) \<Rightarrow> Inr (n, Some (float_div F64 c 1000000))
      | None \<Rightarrow> Inl (no_provider model))"

definition fastest_step ::
  "metrics_store \<Rightarrow> string \<Rightarrow> string \<Rightarrow> (string \<times> int) option \<Rightarrow> (string \<times> int) option" where
  "fastest_step store model name best =
     (let metrics = metrics_get (name, model) store;
          avg_latency = float_to_uint 64 (avg_latency_ms metrics)
      in (case best of
            Some (_, best_lat) \<Rightarrow> if best_lat \<le> avg_latency then best else Some (name, avg_latency)
          | None \<Rightarrow> if pm_total_requests metrics = 0 then Some (name, 0) else Some (name, avg_latency)))"

definition fastest_provider ::
  "('b, 'r, 'w) router \<Rightarrow> string \<Rightarrow> (router_error, string \<times> float_value option) result" where
  "fastest_provider rt model =
     (case fold (fastest_step (rt_metrics rt) model) (provider_names rt) None of
        Some (n, _) \<Rightarrow> Inr (n, None)
      | None \<Rightarrow> Inl (no_provider model))"

definition first_provider ::
  "('b, 'r, 'w) router \<Rightarrow> string \<Rightarrow> (router_error, string \<times> float_value option) result" where
  "first_provider rt model =
     (case provider_names rt of
        n # _ \<Rightarrow> Inr (n, estimate_cost rt model)
      | [] \<Rightarrow> Inl (no_provider model))"

definition prefer_provider ::
  "('b, 'r, 'w) router \<Rightarrow> string \<Rightarrow> string list \<Rightarrow> (router_error, string \<times> float_value option) result" where
  "prefer_provider rt model order =
     (case find (\<lambda>name. name \<in> set (provider_names rt)) order of
        Some name \<Rightarrow> Inr (name, estimate_cost rt model)
      | None \<Rightarrow> first_provider rt model)"

fun weighted_pick :: "string list \<Rightarrow> float_value \<Rightarrow> (string \<times> float_value) list \<Rightarrow> string option" where
  "weighted_pick names roll [] = None"
| "weighted_pick names roll ((name, weight) # rest) =
     (let roll' = float_sub F32 roll weight
      in if float_le roll' (FFin 0) \<and> name \<in> set names then Some name else weighted_pick names roll' rest)"

definition weighted_provider ::
  "float_value \<Rightarrow> ('b, 'r, 'w) router \<Rightarrow> string \<Rightarrow> (string \<times> float_value) list
    \<Rightarrow> (router_error, string \<times> float_value option) result" where
  "weighted_provider roll rt model weights =
     (let total = fold (\<lambda>(_, w) acc. float_add F32 acc w) weights (FFin 0)
      in if float_le total (FFin 0) then Inl (no_provider model)
         else if total = FNaN \<or> total = FInf False then Inl Panicked
         else (case weighted_pick (provider_names rt) roll weights of
                 Some name \<Rightarrow> Inr (name, estimate_cost rt model)
               | None \<Rightarrow> first_provider rt model))"

definition round_robin ::
  "('b, 'r, 'w) router \<Rightarrow> string \<Rightarrow> (router_error, string \<times> float_value option) result \<times> ('b, 'r, 'w) router" where
  "round_robin rt model =
     (if provider_names rt = [] then (Inl (no_provider model), rt)
      else (Inr (provider_names rt ! (unat (rt_round_robin_counter rt) mod length (provider_names rt)),
                 estimate_cost rt model),
            rt\<lparr>rt_round_robin_counter := rt_round_robin_counter rt + 1\<rparr>))"

definition choose_provider ::
  "float_value \<Rightarrow> ('b, 'r, 'w) router \<Rightarrow> string
    \<Rightarrow> (router_error, string \<times> float_value option) result \<times> ('b, 'r, 'w) router" where
  "choose_provider roll rt model =
     (case rc_default_strategy (rt_config rt) of
        RoundRobin \<Rightarrow> round_robin rt model
      | CostOptimal \<Rightarrow> (cheapest_provider rt model, rt)
      | LatencyOptimal \<Rightarrow> (fastest_provider rt model, rt)
      | QualityOptimal \<Rightarrow> (prefer_provider rt model [''anthropic'', ''openai'', ''ollama''], rt)
      | Fallback chain \<Rightarrow>
          (case find (\<lambda>name. name \<in> set (provider_names rt)) chain of
             Some name \<Rightarrow> Inr (name, estimate_cost rt model)
           | None \<Rightarrow> Inl (no_provider model), rt)
      | Weighted weights \<Rightarrow> (weighted_provider roll rt model weights, rt))"

definition resolve ::
  "float_value \<Rightarrow> 'b chat_request \<Rightarrow> ('b, 'r, 'w) router
    \<Rightarrow> (router_error, routing_decision) result \<times> ('b, 'r, 'w) router" where
  "resolve roll req rt =
     (let model = cr_model req;
          fallback_chain = (case rc_fallbacks (rt_config rt) model of Some c \<Rightarrow> c | None \<Rightarrow> []);
          decision = (\<lambda>(name, usd). \<lparr>rd_provider = name, rd_model = model,
             rd_strategy = rc_default_strategy (rt_config rt), rd_estimated_cost_usd = usd,
             rd_fallback_chain = fallback_chain\<rparr>)
      in if model \<in> set (provider_names rt) then (Inr (decision (model, estimate_cost rt model)), rt)
         else (case choose_provider roll rt model of (r, rt') \<Rightarrow> (and_then r (\<lambda>p. Inr (decision p)), rt')))"

section \<open>Serving a request\<close>

definition estimate_cost_value :: "usage \<Rightarrow> float_value" where
  "estimate_cost_value u = FFin 0"

definition get_provider ::
  "('b, 'r, 'w) router \<Rightarrow> string \<Rightarrow> (router_error, ('b, 'r, 'w) provider) result" where
  "get_provider rt name =
     ok_or (map_of (rt_providers rt) name) (Routing (''provider not found: '' @ name))"

definition record_answer ::
  "string \<Rightarrow> string \<Rightarrow> (string, 'r chat_response) result \<Rightarrow> u64 \<Rightarrow> metrics_store \<Rightarrow> metrics_store" where
  "record_answer provider model answer latency store =
     (case answer of
        Inr resp \<Rightarrow> store_success provider model latency (us_prompt_tokens (rs_usage resp))
                     (us_completion_tokens (rs_usage resp)) (estimate_cost_value (rs_usage resp)) store
      | Inl e \<Rightarrow> store_error provider model latency e store)"

fun try_fallbacks ::
  "'b chat_request \<Rightarrow> string list \<Rightarrow> ('b, 'r, 'w) router \<Rightarrow> 'w
    \<Rightarrow> (router_error, 'r chat_response) result \<times> ('b, 'r, 'w) router \<times> 'w" where
  "try_fallbacks req [] rt w = (Inl (Routing (''all providers failed for model '' @ cr_model req)), rt, w)"
| "try_fallbacks req (name # chain) rt w =
     (case map_of (rt_providers rt) name of
        Some provider \<Rightarrow>
          (case provider req w of
             (answer, latency, w') \<Rightarrow>
               let rt' = rt\<lparr>rt_metrics := record_answer name (cr_model req) answer latency (rt_metrics rt)\<rparr>
               in (case answer of
                     Inr resp \<Rightarrow> (Inr resp, rt', w')
                   | Inl e \<Rightarrow> try_fallbacks req chain rt' w'))
      | None \<Rightarrow> try_fallbacks req chain rt w)"

definition chat ::
  "float_value \<Rightarrow> 'b chat_request \<Rightarrow> ('b, 'r, 'w) router \<Rightarrow> 'w
    \<Rightarrow> (router_error, 'r chat_response) result \<times> ('b, 'r, 'w) router \<times> 'w" where
  "chat roll req rt w =
     (case resolve roll req rt of
        (Inl e, rt1) \<Rightarrow> (Inl e, rt1, w)
      | (Inr decision, rt1) \<Rightarrow>
          (case get_provider rt1 (rd_provider decision) of
             Inl e \<Rightarrow> (Inl e, rt1, w)
           | Inr provider \<Rightarrow>
               (case provider req w of
                  (answer, latency, w') \<Rightarrow>
                    let rt2 = rt1\<lparr>rt_metrics := record_answer (rd_provider decision) (rd_model decision) answer
                                   latency (rt_metrics rt1)\<rparr>
                    in (case answer of
                          Inr resp \<Rightarrow> (Inr resp, rt2, w')
                        | Inl e \<Rightarrow> try_fallbacks req (rd_fallback_chain decision) rt2 w'))))"

definition chat_stream_target ::
  "float_value \<Rightarrow> 'b chat_request \<Rightarrow> ('b, 'r, 'w) router
    \<Rightarrow> (router_error, ('b, 'r, 'w) provider) result \<times> ('b, 'r, 'w) router" where
  "chat_stream_target roll req rt =
     (case resolve roll req rt of
        (Inl e, rt') \<Rightarrow> (Inl e, rt')
      | (Inr d, rt') \<Rightarrow> (ok_or (map_of (rt_providers rt) (rd_provider d)) (no_provider (rd_model d)), rt'))"

section \<open>Which requests can be routed\<close>

definition weight_total :: "(string \<times> float_value) list \<Rightarrow> float_value" where
  "weight_total weights = fold (\<lambda>(_, w) acc. float_add F32 acc w) weights (FFin 0)"

definition servable :: "('b, 'r, 'w) router \<Rightarrow> string \<Rightarrow> bool" where
  "servable rt model \<longleftrightarrow>
     model \<in> set (provider_names rt)
     \<or> provider_names rt \<noteq> []
       \<and> (case rc_default_strategy (rt_config rt) of
            Fallback chain \<Rightarrow> \<exists>name \<in> set chain. name \<in> set (provider_names rt)
          | Weighted weights \<Rightarrow> \<exists>x. weight_total weights = FFin x \<and> 0 < x
          | _ \<Rightarrow> True)"

lemma fold_best:
  assumes "\<And>name best. step name best \<noteq> None"
    and "\<And>name best n v. step name best = Some (n, v) \<Longrightarrow> n = name \<or> (\<exists>v'. best = Some (n, v'))"
  shows "fold step names best = None \<longleftrightarrow> names = [] \<and> best = None"
    "fold step names best = Some (n, v) \<Longrightarrow> n \<in> set names \<or> (\<exists>v'. best = Some (n, v'))"
proof (induction names arbitrary: best)
  case (Cons name names)
  { case 1 show ?case using Cons.IH(1) assms(1) by simp }
  { case 2 then show ?case using Cons.IH(2) [of "step name best"] assms(2) [of name best] by fastforce }
qed simp_all

lemma cheapest_step_keeps:
  "cheapest_step entry name best \<noteq> None"
  "cheapest_step entry name best = Some (n, v) \<Longrightarrow> n = name \<or> (\<exists>v'. best = Some (n, v'))"
  by (auto simp: cheapest_step_def Let_def split: option.splits if_splits prod.splits)

lemma fastest_step_keeps:
  "fastest_step store model name best \<noteq> None"
  "fastest_step store model name best = Some (n, v) \<Longrightarrow> n = name \<or> (\<exists>v'. best = Some (n, v'))"
  by (auto simp: fastest_step_def Let_def split: option.splits if_splits prod.splits)

lemma cheapest_provider_ok:
  "is_ok (cheapest_provider rt model) \<longleftrightarrow> provider_names rt \<noteq> []"
  "cheapest_provider rt model = Inr (n, c) \<Longrightarrow> n \<in> set (provider_names rt)"
proof -
  let ?step = "cheapest_step (rc_costs (rt_config rt) model)"
  have "fold ?step (provider_names rt) None = None \<longleftrightarrow> provider_names rt = []"
    using fold_best(1) [of ?step "provider_names rt" None] cheapest_step_keeps by blast
  then show "is_ok (cheapest_provider rt model) \<longleftrightarrow> provider_names rt \<noteq> []"
    by (auto simp: cheapest_provider_def split: option.splits)
  have "n \<in> set (provider_names rt)" if "fold ?step (provider_names rt) None = Some (n, v)" for v
    using fold_best(2) [of ?step "provider_names rt" None n v] cheapest_step_keeps that by blast
  then show "cheapest_provider rt model = Inr (n, c) \<Longrightarrow> n \<in> set (provider_names rt)"
    by (auto simp: cheapest_provider_def simp del: set_map split: option.splits)
qed

lemma fastest_provider_ok:
  "is_ok (fastest_provider rt model) \<longleftrightarrow> provider_names rt \<noteq> []"
  "fastest_provider rt model = Inr (n, c) \<Longrightarrow> n \<in> set (provider_names rt)"
proof -
  let ?step = "fastest_step (rt_metrics rt) model"
  have "fold ?step (provider_names rt) None = None \<longleftrightarrow> provider_names rt = []"
    using fold_best(1) [of ?step "provider_names rt" None] fastest_step_keeps by blast
  then show "is_ok (fastest_provider rt model) \<longleftrightarrow> provider_names rt \<noteq> []"
    by (auto simp: fastest_provider_def split: option.splits)
  have "n \<in> set (provider_names rt)" if "fold ?step (provider_names rt) None = Some (n, v)" for v
    using fold_best(2) [of ?step "provider_names rt" None n v] fastest_step_keeps that by blast
  then show "fastest_provider rt model = Inr (n, c) \<Longrightarrow> n \<in> set (provider_names rt)"
    by (auto simp: fastest_provider_def simp del: set_map split: option.splits)
qed

lemma first_provider_ok:
  "is_ok (first_provider rt model) \<longleftrightarrow> provider_names rt \<noteq> []"
  "first_provider rt model = Inr (n, c) \<Longrightarrow> n \<in> set (provider_names rt)"
  by (cases "provider_names rt"; simp add: first_provider_def del: set_map; force)+

lemma prefer_provider_ok:
  "is_ok (prefer_provider rt model order) \<longleftrightarrow> provider_names rt \<noteq> []"
  "prefer_provider rt model order = Inr (n, c) \<Longrightarrow> n \<in> set (provider_names rt)"
proof -
  have found: "name \<in> set (provider_names rt)"
    if "find (\<lambda>name. name \<in> set (provider_names rt)) order = Some name" for name
    using that by (auto simp: find_Some_iff)
  show "is_ok (prefer_provider rt model order) \<longleftrightarrow> provider_names rt \<noteq> []"
    using first_provider_ok(1) [of rt model] found
    by (cases "find (\<lambda>name. name \<in> set (provider_names rt)) order") (auto simp: prefer_provider_def)
  show "prefer_provider rt model order = Inr (n, c) \<Longrightarrow> n \<in> set (provider_names rt)"
    using first_provider_ok(2) [of rt model n c] found
    by (cases "find (\<lambda>name. name \<in> set (provider_names rt)) order")
      (auto simp: prefer_provider_def simp del: set_map)
qed

lemma weighted_pick_registered: "weighted_pick names roll weights = Some n \<Longrightarrow> n \<in> set names"
  by (induction names roll weights rule: weighted_pick.induct) (auto simp: Let_def split: if_splits)

lemma weighted_provider_ok:
  "is_ok (weighted_provider roll rt model weights)
     \<longleftrightarrow> provider_names rt \<noteq> [] \<and> (\<exists>x. weight_total weights = FFin x \<and> 0 < x)"
  "weighted_provider roll rt model weights = Inr (n, c) \<Longrightarrow> n \<in> set (provider_names rt)"
proof -
  have "provider_names rt \<noteq> []" if "weighted_pick (provider_names rt) roll weights = Some n" for n
    using weighted_pick_registered [OF that] by auto
  then show "is_ok (weighted_provider roll rt model weights)
      \<longleftrightarrow> provider_names rt \<noteq> [] \<and> (\<exists>x. weight_total weights = FFin x \<and> 0 < x)"
    using first_provider_ok(1) [of rt model]
    by (cases "weight_total weights"; cases "weighted_pick (provider_names rt) roll weights")
      (auto simp: weighted_provider_def Let_def weight_total_def [symmetric])
  show "weighted_provider roll rt model weights = Inr (n, c) \<Longrightarrow> n \<in> set (provider_names rt)"
    using first_provider_ok(2) [of rt model n c] weighted_pick_registered [of "provider_names rt" roll weights]
    by (auto simp: weighted_provider_def Let_def simp del: set_map split: if_splits option.splits)
qed

lemma choose_provider_ok:
  "is_ok (fst (choose_provider roll rt model)) \<longleftrightarrow>
     provider_names rt \<noteq> []
       \<and> (case rc_default_strategy (rt_config rt) of
            Fallback chain \<Rightarrow> \<exists>name \<in> set chain. name \<in> set (provider_names rt)
          | Weighted weights \<Rightarrow> \<exists>x. weight_total weights = FFin x \<and> 0 < x
          | _ \<Rightarrow> True)" (is "?ok \<longleftrightarrow> ?can")
  "choose_provider roll rt model = (Inr (n, c), rt') \<Longrightarrow> n \<in> set (provider_names rt)"
proof -
  show "?ok \<longleftrightarrow> ?can"
  proof (cases "rc_default_strategy (rt_config rt)")
    case (Fallback chain)
    have "find (\<lambda>name. name \<in> set (provider_names rt)) chain = None
        \<longleftrightarrow> \<not> (\<exists>name \<in> set chain. name \<in> set (provider_names rt))" by (auto simp: find_None_iff)
    with Fallback show ?thesis
      by (cases "find (\<lambda>name. name \<in> set (provider_names rt)) chain") (auto simp: choose_provider_def)
  qed (simp_all add: choose_provider_def round_robin_def cheapest_provider_ok fastest_provider_ok prefer_provider_ok weighted_provider_ok)
  assume run: "choose_provider roll rt model = (Inr (n, c), rt')"
  show "n \<in> set (provider_names rt)"
  proof (cases "rc_default_strategy (rt_config rt)")
    case RoundRobin
    with run have "n = provider_names rt ! (unat (rt_round_robin_counter rt) mod length (provider_names rt))"
      "provider_names rt \<noteq> []"
      by (auto simp: choose_provider_def round_robin_def split: if_splits)
    then show ?thesis by (simp del: set_map length_map)
  next
    case (Fallback chain)
    with run show ?thesis
      by (auto simp: choose_provider_def find_Some_iff simp del: set_map split: option.splits)
  qed (use run in \<open>auto simp: choose_provider_def simp del: set_map
         dest: cheapest_provider_ok(2) fastest_provider_ok(2) prefer_provider_ok(2) weighted_provider_ok(2)\<close>)
qed

lemma resolve_registered:
  "(is_ok (fst (resolve roll req rt)) \<longleftrightarrow> servable rt (cr_model req))
   \<and> (\<forall>d. fst (resolve roll req rt) = Inr d \<longrightarrow>
        rd_provider d \<in> set (provider_names rt) \<and> is_ok (get_provider rt (rd_provider d)))"
proof -
  obtain r rt' where c: "choose_provider roll rt (cr_model req) = (r, rt')" by force
  have "is_ok (fst (resolve roll req rt)) \<longleftrightarrow> servable rt (cr_model req)"
    using choose_provider_ok(1) [of roll rt "cr_model req"] c
    by (cases r) (auto simp: resolve_def servable_def Let_def)
  moreover have "rd_provider d \<in> set (provider_names rt)" if "fst (resolve roll req rt) = Inr d" for d
    using that choose_provider_ok(2) [of roll rt "cr_model req"] c
    by (auto simp: resolve_def Let_def result_simps simp del: set_map split: if_splits)
  moreover have "is_ok (get_provider rt name)" if "name \<in> set (provider_names rt)" for name
    using that by (auto simp: get_provider_def ok_or_def map_of_eq_None_iff split: option.splits)
  ultimately show ?thesis by blast
qed

text \<open>
  Routing chooses a registered provider.  A request is routed exactly when its model names a
  provider, or there is a provider and the strategy can pick one (a fallback chain names one, weights
  have a positive finite sum); and the provider of every decision is registered, so that a routed
  request is never lost to a missing provider.
\<close>

lemma routes_to_registered_provider:
  "(is_ok (fst (resolve roll req rt)) \<longleftrightarrow> servable rt (cr_model req))
   \<and> (\<forall>d. fst (resolve roll req rt) = Inr d \<longrightarrow>
        rd_provider d \<in> set (provider_names rt) \<and> is_ok (get_provider rt (rd_provider d)))"
  by (rule resolve_registered)

definition echo_provider :: "bool \<Rightarrow> u64 \<Rightarrow> (unit, string, nat) provider" where
  "echo_provider up latency req w =
     (if up then Inr \<lparr>rs_usage = \<lparr>us_prompt_tokens = 3, us_completion_tokens = 4, us_total_tokens = 7\<rparr>,
                      rs_rest = cr_model req\<rparr> else Inl ''down'', latency, Suc w)"

definition sample_router :: "routing_strategy \<Rightarrow> (unit, string, nat) router" where
  "sample_router strategy = router_new
     [(''openai'', echo_provider False 20), (''vllm'', echo_provider True 30)]
     \<lparr>rc_default_strategy = strategy, rc_fallbacks = [''m'' \<mapsto> [''gone'', ''vllm'']], rc_costs = Map.empty\<rparr>
     Map.empty"

definition sample_chat :: "unit chat_request" where
  "sample_chat = \<lparr>cr_model = ''m'', cr_rest = ()\<rparr>"

lemma routes_to_registered_provider_example:
  "\<exists>d. fst (resolve (FFin 0) sample_chat (sample_router QualityOptimal)) = Inr d
     \<and> rd_provider d \<in> set (provider_names (sample_router QualityOptimal))"
proof -
  have "servable (sample_router QualityOptimal) (cr_model sample_chat)"
    by (simp add: servable_def sample_router_def router_new_def)
  with routes_to_registered_provider [of "FFin 0" sample_chat "sample_router QualityOptimal"]
  show ?thesis by (auto simp: is_ok_iff simp del: set_map)
qed

section \<open>Round robin is fair\<close>

fun resolve_all :: "(float_value \<times> 'b chat_request) list \<Rightarrow> ('b, 'r, 'w) router \<Rightarrow> (router_error, string) result list" where
  "resolve_all [] rt = []"
| "resolve_all ((roll, req) # rest) rt =
     (case resolve roll req rt of (r, rt') \<Rightarrow> and_then r (\<lambda>d. Inr (rd_provider d)) # resolve_all rest rt')"

lemma resolve_round_robin:
  assumes "rc_default_strategy (rt_config rt) = RoundRobin" and "provider_names rt \<noteq> []"
    and "cr_model req \<notin> set (provider_names rt)" and "resolve roll req rt = (r, rt')"
  shows "and_then r (\<lambda>d. Inr (rd_provider d))
      = Inr (provider_names rt ! (unat (rt_round_robin_counter rt) mod length (provider_names rt)))"
    "rt' = rt\<lparr>rt_round_robin_counter := rt_round_robin_counter rt + 1\<rparr>"
  using assms by (auto simp: resolve_def Let_def choose_provider_def round_robin_def simp del: set_map)

lemma resolve_all_round_robin:
  assumes "rc_default_strategy (rt_config rt) = RoundRobin" and "provider_names rt \<noteq> []"
    and "\<forall>(roll, req) \<in> set reqs. cr_model req \<notin> set (provider_names rt)"
    and "unat (rt_round_robin_counter rt) + length reqs \<le> 2 ^ 64"
  shows "resolve_all reqs rt = map (\<lambda>i. Inr (provider_names rt ! (i mod length (provider_names rt))))
      [unat (rt_round_robin_counter rt) ..< unat (rt_round_robin_counter rt) + length reqs]"
  using assms
proof (induction reqs arbitrary: rt)
  case (Cons p reqs)
  obtain roll req where p: "p = (roll, req)" by force
  obtain r rt' where run: "resolve roll req rt = (r, rt')" by force
  have new: "cr_model req \<notin> set (provider_names rt)"
    using Cons.prems(3) by (simp add: p del: set_map)
  note step = resolve_round_robin [OF Cons.prems(1,2) new run]
  let ?c = "unat (rt_round_robin_counter rt)"
  show ?case
  proof (cases reqs)
    case Nil
    then show ?thesis using run step(1) by (simp add: p)
  next
    case (Cons q rest)
    have "unat (rt_round_robin_counter rt + 1) = ?c + 1"
      using Cons.prems(4) Cons by (simp add: unat_word_ariths)
    then have "resolve_all reqs rt' = map (\<lambda>i. Inr (provider_names rt ! (i mod length (provider_names rt))))
        [Suc ?c ..< ?c + length (p # reqs)]"
      using Cons.IH [of rt'] Cons.prems by (simp add: step(2) del: upt_Suc)
    moreover have "[?c ..< ?c + length (p # reqs)] = ?c # [Suc ?c ..< ?c + length (p # reqs)]"
      by (rule upt_conv_Cons) simp
    ultimately show ?thesis using run step(1) by (simp add: p del: upt_Suc)
  qed
qed simp

lemma block_is_rotation:
  "names \<noteq> [] \<Longrightarrow> map (\<lambda>i. names ! (i mod length names)) [a ..< a + length names] = rotate a names"
  by (rule nth_equalityI) (simp_all add: nth_rotate)

lemma count_list_distinct: "distinct xs \<Longrightarrow> x \<in> set xs \<Longrightarrow> count_list xs x = 1"
  by (induction xs) (auto simp: count_list_0_iff)

lemma count_rounds:
  assumes "names \<noteq> []" and "distinct names" and "p \<in> set names"
  shows "count_list (map (\<lambda>i. names ! (i mod length names)) [a ..< a + k * length names]) p = k"
proof (induction k)
  case (Suc k)
  have "[a ..< a + Suc k * length names]
      = [a ..< a + k * length names] @ [a + k * length names ..< a + k * length names + length names]"
    using upt_add_eq_append [of a "a + k * length names" "length names"] by (simp add: ac_simps)
  moreover have "count_list (rotate m names) p = 1" for m
    using assms by (intro count_list_distinct) simp_all
  ultimately show ?case using Suc block_is_rotation [OF assms(1)] by simp
qed simp

text \<open>
  Round robin is fair.  Of any run of requests that is a multiple of the number of providers,
  every provider serves the same number, as long as the 64-bit counter does not wrap and no request
  names a provider directly.
\<close>

lemma round_robin_fair:
  assumes "rc_default_strategy (rt_config rt) = RoundRobin" and "distinct (provider_names rt)"
    and "p \<in> set (provider_names rt)" and "length reqs = k * length (provider_names rt)"
    and "\<forall>(roll, req) \<in> set reqs. cr_model req \<notin> set (provider_names rt)"
    and "unat (rt_round_robin_counter rt) + length reqs \<le> 2 ^ 64"
  shows "count_list (resolve_all reqs rt) (Inr p) = k"
proof -
  let ?names = "provider_names rt"
  have ne: "?names \<noteq> []" using assms(3) by auto
  have count_Inr: "count_list (map Inr xs) (Inr x) = count_list xs x" for xs :: "string list" and x
    by (induction xs) auto
  have "resolve_all reqs rt = map Inr (map (\<lambda>i. ?names ! (i mod length ?names))
      [unat (rt_round_robin_counter rt) ..< unat (rt_round_robin_counter rt) + k * length ?names])"
    using resolve_all_round_robin [OF assms(1) ne assms(5,6)] by (simp add: assms(4) comp_def)
  then show ?thesis using count_rounds [OF ne assms(2,3)] by (simp only: count_Inr)
qed

lemma round_robin_fair_example:
  "count_list (resolve_all (replicate 4 (FFin 0, sample_chat)) (sample_router RoundRobin)) (Inr ''vllm'') = 2"
  by (rule round_robin_fair) (simp_all add: sample_router_def router_new_def sample_chat_def)

section \<open>Fallbacks\<close>

text \<open>
  The reference: try the providers in order, tries every attempt, stop at the first answer.
\<close>

fun run_attempts ::
  "'b chat_request \<Rightarrow> (string \<times> ('b, 'r, 'w) provider) list \<Rightarrow> 'w
    \<Rightarrow> 'r chat_response option \<times> (string \<times> (string, 'r chat_response) result \<times> u64) list \<times> 'w" where
  "run_attempts req [] w = (None, [], w)"
| "run_attempts req ((name, provider) # rest) w =
     (case provider req w of
        (Inr resp, latency, w') \<Rightarrow> (Some resp, [(name, Inr resp, latency)], w')
      | (Inl e, latency, w') \<Rightarrow>
          (case run_attempts req rest w' of (r, tries, w'') \<Rightarrow> (r, (name, Inl e, latency) # tries, w'')))"

definition candidates :: "('b, 'r, 'w) router \<Rightarrow> string list \<Rightarrow> (string \<times> ('b, 'r, 'w) provider) list" where
  "candidates rt names = List.map_filter (\<lambda>n. map_option (Pair n) (map_of (rt_providers rt) n)) names"

definition answer_of :: "string \<Rightarrow> 'r chat_response option \<Rightarrow> (router_error, 'r chat_response) result" where
  "answer_of model r = ok_or r (Routing (''all providers failed for model '' @ model))"

definition log_metrics ::
  "string \<Rightarrow> (string \<times> (string, 'r chat_response) result \<times> u64) list \<Rightarrow> metrics_store \<Rightarrow> metrics_store" where
  "log_metrics model tries store = fold (\<lambda>(n, answer, latency). record_answer n model answer latency) tries store"

lemma candidates_simps [simp]:
  "candidates rt [] = []"
  "candidates rt (n # names)
     = (case map_of (rt_providers rt) n of Some p \<Rightarrow> (n, p) # candidates rt names | None \<Rightarrow> candidates rt names)"
  "candidates (rt\<lparr>rt_metrics := ms\<rparr>) names = candidates rt names"
  by (simp_all add: candidates_def map_filter_simps split: option.split)

lemma try_fallbacks_refines:
  "try_fallbacks req names rt w =
     (case run_attempts req (candidates rt names) w of
        (r, tries, w') \<Rightarrow> (answer_of (cr_model req) r,
                        rt\<lparr>rt_metrics := log_metrics (cr_model req) tries (rt_metrics rt)\<rparr>, w'))"
proof (induction names arbitrary: rt w)
  case (Cons name names)
  show ?case
  proof (cases "map_of (rt_providers rt) name")
    case (Some provider)
    obtain answer latency w' where run: "provider req w = (answer, latency, w')" by (cases "provider req w") auto
    show ?thesis
      using Some run Cons.IH
      by (cases answer) (simp_all add: answer_of_def ok_or_def log_metrics_def split: prod.splits)
  qed (simp add: Cons.IH)
qed (simp add: answer_of_def ok_or_def log_metrics_def)

definition requests_logged :: "string \<Rightarrow> (string \<times> (string, 'r chat_response) result \<times> u64) list \<Rightarrow> nat" where
  "requests_logged p tries = length (filter (\<lambda>(n, _). n = p) tries)"

definition errors_logged :: "string \<Rightarrow> (string \<times> (string, 'r chat_response) result \<times> u64) list \<Rightarrow> nat" where
  "errors_logged p tries = length (filter (\<lambda>(n, answer, _). n = p \<and> \<not> is_ok answer) tries)"

lemma record_answer_counts:
  "pm_total_requests (metrics_get (p, model) (record_answer n model answer latency store))
     = pm_total_requests (metrics_get (p, model) store) + (if n = p then 1 else 0)"
  "pm_total_errors (metrics_get (p, model) (record_answer n model answer latency store))
     = pm_total_errors (metrics_get (p, model) store) + (if n = p \<and> \<not> is_ok answer then 1 else 0)"
  by (auto simp: record_answer_def store_success_def store_error_def metrics_get_def metrics_success_def
      metrics_error_def split: sum.splits)

lemma log_metrics_counts:
  "pm_total_requests (metrics_get (p, model) (log_metrics model tries store))
     = pm_total_requests (metrics_get (p, model) store) + of_nat (requests_logged p tries)"
  "pm_total_errors (metrics_get (p, model) (log_metrics model tries store))
     = pm_total_errors (metrics_get (p, model) store) + of_nat (errors_logged p tries)"
  by (induction tries arbitrary: store)
    (auto simp: log_metrics_def requests_logged_def errors_logged_def record_answer_counts split: if_splits)

lemma resolve_keeps:
  "resolve roll req rt = (r, rt') \<Longrightarrow> rt_providers rt' = rt_providers rt \<and> rt_metrics rt' = rt_metrics rt"
  by (auto simp: resolve_def choose_provider_def round_robin_def Let_def
      split: if_splits prod.splits routing_strategy.splits)

lemma chat_refines:
  assumes "resolve roll req rt = (Inr d, rt1)"
  shows "chat roll req rt w =
     (case run_attempts req (candidates rt (rd_provider d # rd_fallback_chain d)) w of
        (r, tries, w') \<Rightarrow> (answer_of (cr_model req) r,
                          rt1\<lparr>rt_metrics := log_metrics (cr_model req) tries (rt_metrics rt)\<rparr>, w'))"
proof -
  have keep: "rt_providers rt1 = rt_providers rt" "rt_metrics rt1 = rt_metrics rt"
    using resolve_keeps [OF assms] by simp_all
  then have cand: "candidates rt1 names = candidates rt names" for names by (simp add: candidates_def)
  have model: "rd_model d = cr_model req"
    using assms by (auto simp: resolve_def Let_def result_simps split: if_splits prod.splits)
  obtain provider where found: "map_of (rt_providers rt) (rd_provider d) = Some provider"
    using resolve_registered [of roll req rt] assms
    by (auto simp: get_provider_def is_ok_iff ok_or_eq_Inr)
  obtain answer latency w' where run: "provider req w = (answer, latency, w')" by (cases "provider req w") auto
  show ?thesis
    using assms found run
    by (cases answer)
      (simp_all add: chat_def get_provider_def keep model try_fallbacks_refines cand answer_of_def ok_or_def
        log_metrics_def split: prod.splits)
qed

text \<open>
  A routed request is answered if any provider answers.  Serving a request tries the chosen
  provider and then the registered providers of its fallback chain, in order, and returns the first
  answer; it fails only when all of them failed, with the error that says so.  Every attempt, and
  every failed one, is counted once in the metrics of its provider and model.
\<close>

lemma chat_tries_fallbacks:
  assumes "resolve roll req rt = (Inr d, rt1)"
    and "run_attempts req (candidates rt (rd_provider d # rd_fallback_chain d)) w = (r, tries, w')"
  shows "\<exists>rt'. chat roll req rt w
           = (ok_or r (Routing (''all providers failed for model '' @ cr_model req)), rt', w')
         \<and> (\<forall>p. pm_total_requests (metrics_get (p, cr_model req) (rt_metrics rt'))
                  = pm_total_requests (metrics_get (p, cr_model req) (rt_metrics rt)) + of_nat (requests_logged p tries)
              \<and> pm_total_errors (metrics_get (p, cr_model req) (rt_metrics rt'))
                  = pm_total_errors (metrics_get (p, cr_model req) (rt_metrics rt)) + of_nat (errors_logged p tries))"
  using chat_refines [OF assms(1), of w] assms(2)
  by (auto simp: answer_of_def log_metrics_counts)

lemma chat_tries_fallbacks_example:
  "\<exists>resp rt'. chat (FFin 0) sample_chat (sample_router QualityOptimal) 0 = (Inr resp, rt', 2)
     \<and> pm_total_errors (metrics_get (''openai'', ''m'') (rt_metrics rt')) = 1"
proof -
  let ?rt = "sample_router QualityOptimal"
  have sample: "resolve (FFin 0) sample_chat ?rt
      = (Inr \<lparr>rd_provider = ''openai'', rd_model = ''m'', rd_strategy = QualityOptimal,
             rd_estimated_cost_usd = None, rd_fallback_chain = [''gone'', ''vllm'']\<rparr>, ?rt)"
    by (simp add: resolve_def sample_chat_def sample_router_def router_new_def choose_provider_def
        prefer_provider_def estimate_cost_def Let_def)
  define resp where "resp = \<lparr>rs_usage = \<lparr>us_prompt_tokens = 3, us_completion_tokens = 4, us_total_tokens = 7\<rparr>,
      rs_rest = ''m''\<rparr>"
  have "run_attempts sample_chat (candidates ?rt [''openai'', ''gone'', ''vllm'']) 0
      = (Some resp, [(''openai'', Inl ''down'', 20), (''vllm'', Inr resp, 30)], 2)"
    by (simp add: sample_router_def router_new_def echo_provider_def sample_chat_def resp_def)
  with chat_tries_fallbacks [OF sample, of 0] obtain rt' where
    "chat (FFin 0) sample_chat ?rt 0 = (Inr resp, rt', 2)"
    "pm_total_errors (metrics_get (''openai'', ''m'') (rt_metrics rt'))
       = pm_total_errors (metrics_get (''openai'', ''m'') (rt_metrics ?rt))
         + of_nat (errors_logged ''openai'' [(''openai'', Inl ''down'', 20), (''vllm'', Inr resp, 30)])"
    by (auto simp: ok_or_def sample_chat_def)
  then show ?thesis
    by (auto simp: errors_logged_def sample_router_def router_new_def metrics_get_def default_metrics_def)
qed

section \<open>Cost routing\<close>

text \<open>
  Costs are configured per model, not per provider, so the cheapest provider of a model is the first
  of the map's iteration order whatever the costs are.
\<close>

lemma cheapest_is_first:
  assumes "provider_names rt = first # others"
    and "\<forall>c. rc_costs (rt_config rt) model = Some c \<longrightarrow> float_add F64 (ce_input c) (ce_output c) \<noteq> FNaN"
  shows "\<exists>c. cheapest_provider rt model = Inr (first, c)"
proof -
  let ?step = "cheapest_step (rc_costs (rt_config rt) model)"
  obtain v where v: "?step first None = Some (first, v)"
    "\<And>c. rc_costs (rt_config rt) model = Some c \<Longrightarrow> v = float_add F64 (ce_input c) (ce_output c)"
    by (cases "rc_costs (rt_config rt) model") (auto simp: cheapest_step_def Let_def)
  have "?step name (Some (first, v)) = Some (first, v)" for name
    using v(2) assms(2) by (cases "rc_costs (rt_config rt) model") (auto simp: cheapest_step_def Let_def float_le_refl)
  then have "fold ?step names (Some (first, v)) = Some (first, v)" for names by (induction names) simp_all
  then show ?thesis using assms(1) v(1) by (simp add: cheapest_provider_def)
qed

end
