(* ===== verification/Safe_Fetch.thy ===== *)
theory Safe_Fetch
  imports Gadgetron_Prelude
begin

text \<open>
  The bounded fetcher that guards against server-side request forgery,
  \<open>crates/gadgetron-gateway/src/web/safe_fetch.rs\<close>.

  The crates \<open>url\<close> and \<open>reqwest\<close> and the resolver are arguments (\<open>fetch_world\<close>): parsing and joining
  URLs, the addresses of a host, and the response of a server contacted at given addresses, each
  depending on the number of redirects followed so far.  A header value is present when it is
  printable ASCII, as \<open>to_str\<close> requires.  The fetch also returns the requests it sent, in order, so
  that the theorems can speak of what it contacted.
\<close>

section \<open>Addresses\<close>

datatype ip_addr =
    V4 u8 u8 u8 u8
  | V6 u16 u16 u16 u16 u16 u16 u16 u16

definition ip4_is_private :: "u8 \<Rightarrow> u8 \<Rightarrow> bool" where
  "ip4_is_private a b \<longleftrightarrow> a = 10 \<or> a = 172 \<and> 16 \<le> b \<and> b \<le> 31 \<or> a = 192 \<and> b = 168"

definition ip4_is_documentation :: "u8 \<Rightarrow> u8 \<Rightarrow> u8 \<Rightarrow> bool" where
  "ip4_is_documentation a b c \<longleftrightarrow>
     a = 192 \<and> b = 0 \<and> c = 2 \<or> a = 198 \<and> b = 51 \<and> c = 100 \<or> a = 203 \<and> b = 0 \<and> c = 113"

definition ip4_is_public :: "u8 \<Rightarrow> u8 \<Rightarrow> u8 \<Rightarrow> u8 \<Rightarrow> bool" where
  "ip4_is_public a b c d \<longleftrightarrow>
     \<not> ip4_is_private a b \<and> a \<noteq> 127 \<and> \<not> (a = 169 \<and> b = 254) \<and> \<not> (224 \<le> a \<and> a \<le> 239)
     \<and> \<not> (a = 0 \<and> b = 0 \<and> c = 0 \<and> d = 0) \<and> \<not> (a = 255 \<and> b = 255 \<and> c = 255 \<and> d = 255)
     \<and> \<not> ip4_is_documentation a b c
     \<and> a \<noteq> 0 \<and> a < 224
     \<and> \<not> (a = 100 \<and> 64 \<le> b \<and> b \<le> 127)
     \<and> \<not> (a = 192 \<and> b = 0 \<and> c = 0)
     \<and> \<not> (a = 192 \<and> b = 88 \<and> c = 99)
     \<and> \<not> (a = 198 \<and> (b = 18 \<or> b = 19))"

definition high_octet :: "u16 \<Rightarrow> u8" where
  "high_octet w = ucast (drop_bit 8 w)"

definition low_octet :: "u16 \<Rightarrow> u8" where
  "low_octet w = ucast w"

fun is_public_unicast :: "ip_addr \<Rightarrow> bool" where
  "is_public_unicast (V4 a b c d) = ip4_is_public a b c d"
| "is_public_unicast (V6 s0 s1 s2 s3 s4 s5 s6 s7) =
     (if s0 = 0 \<and> s1 = 0 \<and> s2 = 0 \<and> s3 = 0 \<and> s4 = 0 \<and> s5 = 0xFFFF
      then ip4_is_public (high_octet s6) (low_octet s6) (high_octet s7) (low_octet s7)
      else and s0 0xE000 = 0x2000 \<and> \<not> (s0 = 0x2001 \<and> s1 = 0x0DB8))"

section \<open>Policy and errors\<close>

record fetch_policy =
  fp_max_bytes :: nat
  fp_max_redirects :: nat
  fp_allowed_content_types :: "string list"
  fp_allowed_domains :: "string list option"
  fp_timeout :: nat

record fetch_response =
  fr_final_url :: string
  fr_status :: nat
  fr_content_type :: string
  fr_bytes :: string
  fr_redirects :: nat

datatype fetch_error =
    InvalidUrl string
  | UrlPolicy
  | DomainBlocked
  | Dns string
  | PrivateAddress
  | InvalidRedirect
  | RedirectLimit
  | HttpStatusError nat
  | ContentType string
  | TooLarge nat
  | EmptyBody
  | Transport string

definition fetch_error_code :: "fetch_error \<Rightarrow> string" where
  "fetch_error_code e =
     (case e of
        InvalidUrl _ \<Rightarrow> ''fetch_url_invalid'' | UrlPolicy \<Rightarrow> ''fetch_url_invalid''
      | DomainBlocked \<Rightarrow> ''fetch_domain_blocked'' | Dns _ \<Rightarrow> ''fetch_dns_failed''
      | PrivateAddress \<Rightarrow> ''fetch_ssrf_blocked''
      | InvalidRedirect \<Rightarrow> ''fetch_redirect_blocked'' | RedirectLimit \<Rightarrow> ''fetch_redirect_blocked''
      | HttpStatusError _ \<Rightarrow> ''fetch_http_status'' | ContentType _ \<Rightarrow> ''fetch_content_type_blocked''
      | TooLarge _ \<Rightarrow> ''fetch_too_large'' | EmptyBody \<Rightarrow> ''fetch_empty_body''
      | Transport _ \<Rightarrow> ''fetch_transport_failed'')"

definition fetch_http_status :: "fetch_error \<Rightarrow> nat option" where
  "fetch_http_status e = (case e of HttpStatusError s \<Rightarrow> Some s | _ \<Rightarrow> None)"

section \<open>The outside world\<close>

record url =
  ur_text :: string
  ur_scheme :: string
  ur_host :: "string option"
  ur_port_or_known_default :: "nat option"
  ur_username :: string
  ur_password :: "string option"
  ur_fragment :: "string option"

record http_response =
  hr_status :: nat
  hr_location :: "string option"
  hr_content_type :: "string option"
  hr_content_length :: "nat option"
  hr_chunks :: "(string, string) result list"

record fetch_world =
  fw_parse :: "string \<Rightarrow> (string, url) result"
  fw_join :: "url \<Rightarrow> string \<Rightarrow> url option"
  fw_lookup :: "nat \<Rightarrow> string \<Rightarrow> (string, ip_addr list) result"
  fw_send :: "nat \<Rightarrow> url \<Rightarrow> ip_addr list \<Rightarrow> (string, http_response) result"
  fw_deadline_hit :: bool

section \<open>Checks\<close>

definition trim_text :: "string \<Rightarrow> string" where
  "trim_text s = (let ws = (\<lambda>c. is_whitespace (byte c)) in rev (dropWhile ws (rev (dropWhile ws s))))"

definition validate_url :: "string list option \<Rightarrow> url \<Rightarrow> (fetch_error, unit) result" where
  "validate_url allowed_domains u =
     (if ur_scheme u \<noteq> ''https'' \<or> ur_port_or_known_default u \<noteq> Some 443 \<or> ur_username u \<noteq> []
         \<or> ur_password u \<noteq> None \<or> ur_fragment u \<noteq> None
      then Inl UrlPolicy
      else if (case allowed_domains of
                 None \<Rightarrow> False
               | Some domains \<Rightarrow>
                   (case ur_host u of
                      None \<Rightarrow> True
                    | Some host \<Rightarrow> \<not> list_ex (\<lambda>d. to_ascii_lowercase host = to_ascii_lowercase d) domains))
      then Inl DomainBlocked
      else Inr ())"

definition checked_redirect ::
  "fetch_world \<Rightarrow> url \<Rightarrow> string \<Rightarrow> nat \<Rightarrow> nat \<Rightarrow> (fetch_error, url) result" where
  "checked_redirect W current location redirects max_redirects =
     (if max_redirects \<le> redirects then Inl RedirectLimit
      else ok_or (fw_join W current location) InvalidRedirect)"

definition checked_http_status :: "nat \<Rightarrow> (fetch_error, nat) result" where
  "checked_http_status status =
     (if \<not> (200 \<le> status \<and> status < 300) then Inl (HttpStatusError status) else Inr status)"

definition checked_content_length :: "nat option \<Rightarrow> nat \<Rightarrow> (fetch_error, unit) result" where
  "checked_content_length content_length max_bytes =
     check (\<not> (case content_length of Some l \<Rightarrow> max_bytes < l | None \<Rightarrow> False)) (TooLarge max_bytes)"

definition checked_stream_size :: "nat \<Rightarrow> nat \<Rightarrow> nat \<Rightarrow> (fetch_error, unit) result" where
  "checked_stream_size accumulated chunk max_bytes =
     check (\<not> max_bytes < min (accumulated + chunk) (2 ^ 64 - 1)) (TooLarge max_bytes)"

definition normalized_content_type :: "http_response \<Rightarrow> string" where
  "normalized_content_type r =
     to_ascii_lowercase (trim_text (hd (split_on CHR '';'' (case hr_content_type r of Some v \<Rightarrow> v | None \<Rightarrow> []))))"

fun read_body :: "nat \<Rightarrow> string \<Rightarrow> (string, string) result list \<Rightarrow> (fetch_error, string) result" where
  "read_body max_bytes bytes [] = Inr bytes"
| "read_body max_bytes bytes (chunk # rest) =
     (case chunk of
        Inl e \<Rightarrow> Inl (Transport e)
      | Inr c \<Rightarrow>
          and_then (checked_stream_size (length bytes) (length c) max_bytes) (\<lambda>_.
            read_body max_bytes (bytes @ c) rest))"

section \<open>Fetching\<close>

definition addresses_of :: "fetch_world \<Rightarrow> fetch_policy \<Rightarrow> nat \<Rightarrow> url \<Rightarrow> (fetch_error, ip_addr list) result" where
  "addresses_of W p redirects u =
     and_then (validate_url (fp_allowed_domains p) u) (\<lambda>_.
     and_then (ok_or (ur_host u) (InvalidUrl ''host is missing'')) (\<lambda>host.
     (case fw_lookup W redirects host of
        Inl e \<Rightarrow> Inl (Dns e)
      | Inr addresses \<Rightarrow>
          if addresses = [] \<or> list_ex (\<lambda>a. \<not> is_public_unicast a) addresses then Inl PrivateAddress
          else Inr addresses)))"

definition accept_response ::
  "fetch_policy \<Rightarrow> nat \<Rightarrow> url \<Rightarrow> http_response \<Rightarrow> (fetch_error, fetch_response) result" where
  "accept_response p redirects u r =
     and_then (checked_http_status (hr_status r)) (\<lambda>status.
     let content_type = normalized_content_type r in
     if content_type \<notin> set (fp_allowed_content_types p) then Inl (ContentType content_type)
     else and_then (checked_content_length (hr_content_length r) (fp_max_bytes p)) (\<lambda>_.
       and_then (read_body (fp_max_bytes p) [] (hr_chunks r)) (\<lambda>bytes.
         if bytes = [] then Inl EmptyBody
         else Inr \<lparr>fr_final_url = ur_text u, fr_status = status, fr_content_type = content_type,
                   fr_bytes = bytes, fr_redirects = redirects\<rparr>)))"

function fetch_loop ::
  "fetch_world \<Rightarrow> fetch_policy \<Rightarrow> url \<Rightarrow> nat \<Rightarrow> (fetch_error, fetch_response) result \<times> (url \<times> ip_addr list) list" where
  "fetch_loop W p u redirects =
     (case addresses_of W p redirects u of
        Inl e \<Rightarrow> (Inl e, [])
      | Inr addresses \<Rightarrow>
          (case fw_send W redirects u addresses of
             Inl e \<Rightarrow> (Inl (Transport e), [(u, addresses)])
           | Inr r \<Rightarrow>
               if 300 \<le> hr_status r \<and> hr_status r < 400
               then (case and_then (ok_or (hr_location r) InvalidRedirect) (\<lambda>location.
                            checked_redirect W u location redirects (fp_max_redirects p)) of
                       Inl e \<Rightarrow> (Inl e, [(u, addresses)])
                     | Inr u' \<Rightarrow> (case fetch_loop W p u' (redirects + 1) of
                                   (result, sent) \<Rightarrow> (result, (u, addresses) # sent)))
               else (accept_response p redirects u r, [(u, addresses)])))"
  by pat_completeness auto

termination
  by (relation "measure (\<lambda>(W, p, u, redirects). fp_max_redirects p - redirects)")
    (auto simp: checked_redirect_def result_simps split: if_splits)

declare fetch_loop.simps [simp del]

definition fetch_public_https ::
  "fetch_world \<Rightarrow> string \<Rightarrow> fetch_policy \<Rightarrow> (fetch_error, fetch_response) result \<times> (url \<times> ip_addr list) list" where
  "fetch_public_https W raw_url p =
     (if fp_timeout p = 0 then (Inl (Transport ''source deadline is exhausted''), [])
      else
        let (result, sent) =
              (case fw_parse W raw_url of Inl e \<Rightarrow> (Inl (InvalidUrl e), []) | Inr u \<Rightarrow> fetch_loop W p u 0)
        in if fw_deadline_hit W then (Inl (Transport ''source deadline exceeded''), sent) else (result, sent))"

section \<open>Which addresses are public\<close>

text \<open>
  The registry the filter implements: an address as a number, and the special-purpose blocks as
  network and prefix length.
\<close>

definition in_block :: "nat \<Rightarrow> int \<Rightarrow> int \<times> nat \<Rightarrow> bool" where
  "in_block width v block = (fst block \<le> v \<and> v < fst block + 2 ^ (width - snd block))"

definition ip4_value :: "u8 \<Rightarrow> u8 \<Rightarrow> u8 \<Rightarrow> u8 \<Rightarrow> int" where
  "ip4_value a b c d = uint a * 2 ^ 24 + uint b * 2 ^ 16 + uint c * 2 ^ 8 + uint d"

definition special_ip4 :: "(int \<times> nat) list" where
  "special_ip4 =
     [(0, 8), (10 * 2 ^ 24, 8), (100 * 2 ^ 24 + 64 * 2 ^ 16, 10), (127 * 2 ^ 24, 8),
      (169 * 2 ^ 24 + 254 * 2 ^ 16, 16), (172 * 2 ^ 24 + 16 * 2 ^ 16, 12), (192 * 2 ^ 24, 24),
      (192 * 2 ^ 24 + 2 * 2 ^ 8, 24), (192 * 2 ^ 24 + 88 * 2 ^ 16 + 99 * 2 ^ 8, 24),
      (192 * 2 ^ 24 + 168 * 2 ^ 16, 16), (198 * 2 ^ 24 + 18 * 2 ^ 16, 15),
      (198 * 2 ^ 24 + 51 * 2 ^ 16 + 100 * 2 ^ 8, 24), (203 * 2 ^ 24 + 113 * 2 ^ 8, 24), (224 * 2 ^ 24, 3)]"

definition routable4 :: "int \<Rightarrow> bool" where
  "routable4 v \<longleftrightarrow> \<not> list_ex (in_block 32 v) special_ip4"

definition ip6_value :: "u16 \<Rightarrow> u16 \<Rightarrow> u16 \<Rightarrow> u16 \<Rightarrow> u16 \<Rightarrow> u16 \<Rightarrow> u16 \<Rightarrow> u16 \<Rightarrow> int" where
  "ip6_value s0 s1 s2 s3 s4 s5 s6 s7 =
     uint s0 * 2 ^ 112 + uint s1 * 2 ^ 96 + uint s2 * 2 ^ 80 + uint s3 * 2 ^ 64
     + uint s4 * 2 ^ 48 + uint s5 * 2 ^ 32 + uint s6 * 2 ^ 16 + uint s7"

fun globally_routable :: "ip_addr \<Rightarrow> bool" where
  "globally_routable (V4 a b c d) = routable4 (ip4_value a b c d)"
| "globally_routable (V6 s0 s1 s2 s3 s4 s5 s6 s7) =
     (let v = ip6_value s0 s1 s2 s3 s4 s5 s6 s7
      in if in_block 128 v (0xFFFF * 2 ^ 32, 96) then routable4 (v - 0xFFFF * 2 ^ 32)
         else in_block 128 v (0x2000 * 2 ^ 112, 3) \<and> \<not> in_block 128 v (0x2001 * 2 ^ 112 + 0x0DB8 * 2 ^ 96, 32))"

lemma octet_bounds: "0 \<le> uint (a :: u8)" "uint a < 256"
  using uint_lt2p [of a] by simp_all

lemma segment_bounds: "0 \<le> uint (s :: u16)" "uint s < 65536"
  using uint_lt2p [of s] by simp_all

lemma aligned_block:
  fixes x A k R m :: int
  assumes "0 \<le> R" and "R < m"
  shows "x * m \<le> A * m + R \<and> A * m + R < x * m + k * m \<longleftrightarrow> x \<le> A \<and> A < x + k"
proof
  assume v: "x * m \<le> A * m + R \<and> A * m + R < x * m + k * m"
  have "x \<le> A"
  proof (rule ccontr)
    assume "\<not> x \<le> A"
    then have "(A + 1) * m \<le> x * m" using assms by (intro mult_right_mono) linarith+
    with v assms show False by (simp add: distrib_right)
  qed
  moreover have "A < x + k"
  proof (rule ccontr)
    assume "\<not> A < x + k"
    then have "(x + k) * m \<le> A * m" using assms by (intro mult_right_mono) linarith+
    with v assms show False by (simp add: distrib_right)
  qed
  ultimately show "x \<le> A \<and> A < x + k" ..
next
  assume v: "x \<le> A \<and> A < x + k"
  then have "x * m \<le> A * m" "(A + 1) * m \<le> (x + k) * m"
    using assms by (auto intro: mult_right_mono)
  with assms show "x * m \<le> A * m + R \<and> A * m + R < x * m + k * m"
    unfolding distrib_right mult_1 by linarith
qed

lemma two_digits:
  fixes A B x y k :: int
  assumes "0 \<le> B" and "B < 256" and "0 \<le> y" and "y + k \<le> 256" and "0 < k"
  shows "x * 256 + y \<le> A * 256 + B \<and> A * 256 + B < x * 256 + y + k \<longleftrightarrow> A = x \<and> y \<le> B \<and> B < y + k"
proof
  assume v: "x * 256 + y \<le> A * 256 + B \<and> A * 256 + B < x * 256 + y + k"
  have "A = x" using v assms by linarith
  with v show "A = x \<and> y \<le> B \<and> B < y + k" by simp
qed auto

lemma ip4_block_a: "in_block 32 (ip4_value a b c d) (x * 2 ^ 24, 8) \<longleftrightarrow> uint a = x"
  using aligned_block [of "uint b * 65536 + uint c * 256 + uint d" 16777216 x "uint a" 1]
    octet_bounds [of b] octet_bounds [of c] octet_bounds [of d]
  by (simp add: in_block_def ip4_value_def add.assoc) linarith

lemma ip4_block_b:
  assumes "0 \<le> y" and "y + k \<le> 256" and "(2 :: int) ^ (32 - n) = k * 2 ^ 16" and "0 < k"
  shows "in_block 32 (ip4_value a b c d) (x * 2 ^ 24 + y * 2 ^ 16, n) \<longleftrightarrow> uint a = x \<and> y \<le> uint b \<and> uint b < y + k"
proof -
  have "in_block 32 (ip4_value a b c d) (x * 2 ^ 24 + y * 2 ^ 16, n)
      \<longleftrightarrow> (x * 256 + y) * 65536 \<le> (uint a * 256 + uint b) * 65536 + (uint c * 256 + uint d)
        \<and> (uint a * 256 + uint b) * 65536 + (uint c * 256 + uint d) < (x * 256 + y) * 65536 + k * 65536"
    unfolding in_block_def ip4_value_def fst_conv snd_conv assms(3) by (simp add: algebra_simps)
  also have "\<dots> \<longleftrightarrow> x * 256 + y \<le> uint a * 256 + uint b \<and> uint a * 256 + uint b < x * 256 + y + k"
    using octet_bounds [of c] octet_bounds [of d] by (intro aligned_block) linarith+
  also have "\<dots> \<longleftrightarrow> uint a = x \<and> y \<le> uint b \<and> uint b < y + k"
    using octet_bounds [of b] assms by (intro two_digits) simp_all
  finally show ?thesis .
qed

lemma ip4_block_c:
  assumes "0 \<le> y" and "y < 256" and "0 \<le> z" and "z < 256"
  shows "in_block 32 (ip4_value a b c d) (x * 2 ^ 24 + y * 2 ^ 16 + z * 2 ^ 8, 24)
           \<longleftrightarrow> uint a = x \<and> uint b = y \<and> uint c = z"
proof -
  have "in_block 32 (ip4_value a b c d) (x * 2 ^ 24 + y * 2 ^ 16 + z * 2 ^ 8, 24)
      \<longleftrightarrow> ((x * 256 + y) * 256 + z) * 256 \<le> ((uint a * 256 + uint b) * 256 + uint c) * 256 + uint d
        \<and> ((uint a * 256 + uint b) * 256 + uint c) * 256 + uint d < ((x * 256 + y) * 256 + z) * 256 + 1 * 256"
    unfolding in_block_def ip4_value_def fst_conv snd_conv by (simp add: algebra_simps)
  also have "\<dots> \<longleftrightarrow> (x * 256 + y) * 256 + z \<le> (uint a * 256 + uint b) * 256 + uint c
      \<and> (uint a * 256 + uint b) * 256 + uint c < (x * 256 + y) * 256 + z + 1"
    using octet_bounds [of d] by (intro aligned_block) simp_all
  also have "\<dots> \<longleftrightarrow> uint a * 256 + uint b = x * 256 + y \<and> z \<le> uint c \<and> uint c < z + 1"
    using octet_bounds [of c] assms by (intro two_digits) simp_all
  also have "\<dots> \<longleftrightarrow> uint a = x \<and> uint b = y \<and> uint c = z"
    using two_digits [of "uint b" y 1 x "uint a"] octet_bounds [of b] assms by (simp add: order_eq_iff) linarith
  finally show ?thesis .
qed

lemma ip4_public_iff: "ip4_is_public a b c d \<longleftrightarrow> routable4 (ip4_value a b c d)"
proof -
  let ?v = "ip4_value a b c d"
  have blocks:
    "in_block 32 ?v (0, 8) \<longleftrightarrow> uint a = 0" "in_block 32 ?v (10 * 2 ^ 24, 8) \<longleftrightarrow> uint a = 10"
    "in_block 32 ?v (127 * 2 ^ 24, 8) \<longleftrightarrow> uint a = 127"
    using ip4_block_a [of a b c d 0] ip4_block_a [of a b c d 10] ip4_block_a [of a b c d 127] by simp_all
  have ranges:
    "in_block 32 ?v (100 * 2 ^ 24 + 64 * 2 ^ 16, 10) \<longleftrightarrow> uint a = 100 \<and> 64 \<le> uint b \<and> uint b < 128"
    "in_block 32 ?v (169 * 2 ^ 24 + 254 * 2 ^ 16, 16) \<longleftrightarrow> uint a = 169 \<and> 254 \<le> uint b \<and> uint b < 255"
    "in_block 32 ?v (172 * 2 ^ 24 + 16 * 2 ^ 16, 12) \<longleftrightarrow> uint a = 172 \<and> 16 \<le> uint b \<and> uint b < 32"
    "in_block 32 ?v (192 * 2 ^ 24 + 168 * 2 ^ 16, 16) \<longleftrightarrow> uint a = 192 \<and> 168 \<le> uint b \<and> uint b < 169"
    "in_block 32 ?v (198 * 2 ^ 24 + 18 * 2 ^ 16, 15) \<longleftrightarrow> uint a = 198 \<and> 18 \<le> uint b \<and> uint b < 20"
    using ip4_block_b [of 64 64 10 a b c d 100] ip4_block_b [of 254 1 16 a b c d 169]
      ip4_block_b [of 16 16 12 a b c d 172] ip4_block_b [of 168 1 16 a b c d 192]
      ip4_block_b [of 18 2 15 a b c d 198] by simp_all
  have nets:
    "in_block 32 ?v (192 * 2 ^ 24, 24) \<longleftrightarrow> uint a = 192 \<and> uint b = 0 \<and> uint c = 0"
    "in_block 32 ?v (192 * 2 ^ 24 + 2 * 2 ^ 8, 24) \<longleftrightarrow> uint a = 192 \<and> uint b = 0 \<and> uint c = 2"
    "in_block 32 ?v (192 * 2 ^ 24 + 88 * 2 ^ 16 + 99 * 2 ^ 8, 24) \<longleftrightarrow> uint a = 192 \<and> uint b = 88 \<and> uint c = 99"
    "in_block 32 ?v (198 * 2 ^ 24 + 51 * 2 ^ 16 + 100 * 2 ^ 8, 24) \<longleftrightarrow> uint a = 198 \<and> uint b = 51 \<and> uint c = 100"
    "in_block 32 ?v (203 * 2 ^ 24 + 113 * 2 ^ 8, 24) \<longleftrightarrow> uint a = 203 \<and> uint b = 0 \<and> uint c = 113"
    using ip4_block_c [of 0 0 a b c d 192] ip4_block_c [of 0 2 a b c d 192] ip4_block_c [of 88 99 a b c d 192]
      ip4_block_c [of 51 100 a b c d 198] ip4_block_c [of 0 113 a b c d 203] by simp_all
  have high: "in_block 32 ?v (224 * 2 ^ 24, 3) \<longleftrightarrow> 224 \<le> uint a"
    using aligned_block [of "uint b * 65536 + uint c * 256 + uint d" 16777216 224 "uint a" 32]
      octet_bounds [of a] octet_bounds [of b] octet_bounds [of c] octet_bounds [of d]
    by (simp add: in_block_def ip4_value_def add.assoc)
  have eq: "a = b \<longleftrightarrow> uint a = uint b" for a b :: u8 by (simp add: word_uint_eq_iff)
  have spec: "routable4 ?v \<longleftrightarrow> \<not> (uint a = 0 \<or> uint a = 10 \<or> uint a = 100 \<and> 64 \<le> uint b \<and> uint b < 128
      \<or> uint a = 127 \<or> uint a = 169 \<and> 254 \<le> uint b \<and> uint b < 255
      \<or> uint a = 172 \<and> 16 \<le> uint b \<and> uint b < 32 \<or> uint a = 192 \<and> uint b = 0 \<and> uint c = 0
      \<or> uint a = 192 \<and> uint b = 0 \<and> uint c = 2 \<or> uint a = 192 \<and> uint b = 88 \<and> uint c = 99
      \<or> uint a = 192 \<and> 168 \<le> uint b \<and> uint b < 169 \<or> uint a = 198 \<and> 18 \<le> uint b \<and> uint b < 20
      \<or> uint a = 198 \<and> uint b = 51 \<and> uint c = 100 \<or> uint a = 203 \<and> uint b = 0 \<and> uint c = 113
      \<or> 224 \<le> uint a)"
    by (simp only: routable4_def special_ip4_def list_ex_Cons_iff list_ex_Nil_iff blocks ranges nets high disj_assoc
        simp_thms)
  have code: "ip4_is_public a b c d \<longleftrightarrow> \<not> (uint a = 10 \<or> uint a = 172 \<and> 16 \<le> uint b \<and> uint b < 32
      \<or> uint a = 192 \<and> uint b = 168 \<or> uint a = 127 \<or> uint a = 169 \<and> uint b = 254
      \<or> uint a = 192 \<and> uint b = 0 \<and> uint c = 2 \<or> uint a = 198 \<and> uint b = 51 \<and> uint c = 100
      \<or> uint a = 203 \<and> uint b = 0 \<and> uint c = 113 \<or> uint a = 0 \<or> 224 \<le> uint a
      \<or> uint a = 100 \<and> 64 \<le> uint b \<and> uint b < 128 \<or> uint a = 192 \<and> uint b = 0 \<and> uint c = 0
      \<or> uint a = 192 \<and> uint b = 88 \<and> uint c = 99 \<or> uint a = 198 \<and> (uint b = 18 \<or> uint b = 19))"
  proof -
    have as: "a = 10 \<longleftrightarrow> uint a = 10" "a = 172 \<longleftrightarrow> uint a = 172" "a = 192 \<longleftrightarrow> uint a = 192"
      "a = 127 \<longleftrightarrow> uint a = 127" "a = 169 \<longleftrightarrow> uint a = 169" "a = 198 \<longleftrightarrow> uint a = 198"
      "a = 203 \<longleftrightarrow> uint a = 203" "a = 0 \<longleftrightarrow> uint a = 0" "a = 100 \<longleftrightarrow> uint a = 100" "a = 255 \<longleftrightarrow> uint a = 255"
      by (simp_all add: eq)
    have bs: "b = 168 \<longleftrightarrow> uint b = 168" "b = 254 \<longleftrightarrow> uint b = 254" "b = 0 \<longleftrightarrow> uint b = 0" "b = 51 \<longleftrightarrow> uint b = 51"
      "b = 88 \<longleftrightarrow> uint b = 88" "b = 18 \<longleftrightarrow> uint b = 18" "b = 19 \<longleftrightarrow> uint b = 19"
      by (simp_all add: eq)
    have cs: "c = 2 \<longleftrightarrow> uint c = 2" "c = 100 \<longleftrightarrow> uint c = 100" "c = 113 \<longleftrightarrow> uint c = 113" "c = 0 \<longleftrightarrow> uint c = 0"
      "c = 99 \<longleftrightarrow> uint c = 99"
      by (simp_all add: eq)
    have les: "16 \<le> b \<longleftrightarrow> 16 \<le> uint b" "b \<le> 31 \<longleftrightarrow> uint b < 32" "64 \<le> b \<longleftrightarrow> 64 \<le> uint b" "b \<le> 127 \<longleftrightarrow> uint b < 128"
      "a < 224 \<longleftrightarrow> \<not> 224 \<le> uint a" "224 \<le> a \<longleftrightarrow> 224 \<le> uint a"
      by (simp_all add: word_le_def word_less_def, linarith+)
    have high_ends: "\<not> 224 \<le> uint a \<Longrightarrow> \<not> (224 \<le> uint a \<and> a \<le> 239)"
      "\<not> 224 \<le> uint a \<Longrightarrow> \<not> (uint a = 255 \<and> b = 255 \<and> c = 255 \<and> d = 255)"
      "uint a \<noteq> 0 \<Longrightarrow> \<not> (uint a = 0 \<and> uint b = 0 \<and> uint c = 0 \<and> d = 0)" by auto
    show ?thesis
      unfolding ip4_is_public_def ip4_is_private_def ip4_is_documentation_def as bs cs les de_Morgan_disj
      by (intro iffI conjI; elim conjE; (assumption | (rule high_ends, assumption)))
  qed
  have one: "168 \<le> uint b \<and> uint b < 169 \<longleftrightarrow> uint b = 168" "254 \<le> uint b \<and> uint b < 255 \<longleftrightarrow> uint b = 254"
    "18 \<le> uint b \<and> uint b < 20 \<longleftrightarrow> uint b = 18 \<or> uint b = 19" by linarith+
  show ?thesis unfolding spec code one by blast
qed

lemma segment_full: "take_bit 16 (uint (w :: u16)) = uint w"
  by (rule take_bit_int_eq_self) (use segment_bounds [of w] in simp_all)

lemma octets_of_segment: "uint (high_octet w) = uint w div 256" "uint (low_octet w) = uint w mod 256"
proof -
  have "0 \<le> uint w div 256" "uint w div 256 < 256"
    using segment_bounds [of w] by (simp_all add: pos_imp_zdiv_nonneg_iff div_less_iff_less_mult)
  then have "take_bit 8 (uint w div 256) = uint w div 256" by (intro take_bit_int_eq_self) simp_all
  then show "uint (high_octet w) = uint w div 256"
    unfolding high_octet_def unsigned_ucast_eq unsigned_drop_bit_eq by (simp add: drop_bit_eq_div segment_full)
  show "uint (low_octet w) = uint w mod 256"
    by (simp add: low_octet_def unsigned_ucast_eq take_bit_eq_mod)
qed

lemma mapped_value:
  "ip4_value (high_octet s) (low_octet s) (high_octet t) (low_octet t) = uint s * 65536 + uint t"
proof -
  have split: "uint w = uint w div 256 * 256 + uint w mod 256" for w :: u16 by simp
  obtain q r q' r' where "uint s div 256 = q" "uint s mod 256 = r" "uint t div 256 = q'" "uint t mod 256 = r'"
    by blast
  with split [of s] split [of t] show ?thesis
    unfolding ip4_value_def octets_of_segment by simp
qed

lemma top_three_bits: "and (s :: u16) 0xE000 = 0x2000 \<longleftrightarrow> 0x2000 \<le> uint s \<and> uint s < 0x4000"
proof -
  have mask: "(0xE000 :: u16) = not (mask 13)" by (simp add: mask_eq_exp_minus_1)
  have "and s 0xE000 = push_bit 13 (drop_bit 13 s)"
    unfolding mask by (rule bit_word_eqI) (auto simp: bit_simps)
  moreover have "uint (push_bit 13 (drop_bit 13 s)) = uint s div 8192 * 8192"
  proof -
    have "0 \<le> uint s div 8192 * 8192" "uint s div 8192 * 8192 < 65536"
      using segment_bounds [of s] by (simp_all add: pos_imp_zdiv_nonneg_iff, linarith?)
    then show ?thesis
      unfolding unsigned_push_bit_eq unsigned_drop_bit_eq
      by (simp add: push_bit_eq_mult drop_bit_eq_div take_bit_int_eq_self segment_full)
  qed
  moreover have "and s 0xE000 = 0x2000 \<longleftrightarrow> uint (and s 0xE000) = 0x2000"
    by (simp add: word_uint_eq_iff)
  ultimately have "and s 0xE000 = 0x2000 \<longleftrightarrow> uint s div 8192 * 8192 = 8192" by simp
  moreover have "0x2000 \<le> uint s \<and> uint s < 0x4000 \<longleftrightarrow> uint s div 8192 = 1"
  proof -
    define q r where "q = uint s div 8192" and "r = uint s mod 8192"
    then have qr: "uint s = q * 8192 + r" "0 \<le> r" "r < 8192" by simp_all
    have "1 * 8192 \<le> q * 8192 + r \<and> q * 8192 + r < 1 * 8192 + 1 * 8192 \<longleftrightarrow> 1 \<le> q \<and> q < 1 + 1"
      by (rule aligned_block [OF qr(2,3)])
    also have "\<dots> \<longleftrightarrow> q = 1" by linarith
    finally show ?thesis unfolding qr(1) [symmetric] q_def [symmetric] by simp
  qed
  ultimately show ?thesis by simp
qed

lemma ip6_blocks:
  fixes s0 s1 s2 s3 s4 s5 s6 s7 :: u16
  defines "v \<equiv> ip6_value s0 s1 s2 s3 s4 s5 s6 s7"
  shows "in_block 128 v (0xFFFF * 2 ^ 32, 96)
      \<longleftrightarrow> uint s0 = 0 \<and> uint s1 = 0 \<and> uint s2 = 0 \<and> uint s3 = 0 \<and> uint s4 = 0 \<and> uint s5 = 0xFFFF"
    "in_block 128 v (0x2000 * 2 ^ 112, 3) \<longleftrightarrow> 0x2000 \<le> uint s0 \<and> uint s0 < 0x4000"
    "in_block 128 v (0x2001 * 2 ^ 112 + 0x0DB8 * 2 ^ 96, 32) \<longleftrightarrow> uint s0 = 0x2001 \<and> uint s1 = 0x0DB8"
proof -
  have pw: "(2 :: int) ^ 16 = 65536" "(2 :: int) ^ 32 = 4294967296" "(2 :: int) ^ 48 = 281474976710656"
    "(2 :: int) ^ 64 = 18446744073709551616" "(2 :: int) ^ 80 = 1208925819614629174706176"
    "(2 :: int) ^ 96 = 79228162514264337593543950336" "(2 :: int) ^ 112 = 5192296858534827628530496329220096"
    by simp_all
  note b = segment_bounds [of s0] segment_bounds [of s1] segment_bounds [of s2] segment_bounds [of s3]
    segment_bounds [of s4] segment_bounds [of s5] segment_bounds [of s6] segment_bounds [of s7]
  define hi where "hi = uint s0 * 2 ^ 80 + uint s1 * 2 ^ 64 + uint s2 * 2 ^ 48 + uint s3 * 2 ^ 32 + uint s4 * 2 ^ 16 + uint s5"
  have "in_block 128 v (0xFFFF * 2 ^ 32, 96)
      \<longleftrightarrow> 0xFFFF * 2 ^ 32 \<le> hi * 2 ^ 32 + (uint s6 * 2 ^ 16 + uint s7)
        \<and> hi * 2 ^ 32 + (uint s6 * 2 ^ 16 + uint s7) < 0xFFFF * 2 ^ 32 + 1 * 2 ^ 32"
    by (simp add: in_block_def v_def ip6_value_def hi_def algebra_simps)
  also have "\<dots> \<longleftrightarrow> 0xFFFF \<le> hi \<and> hi < 0xFFFF + 1" using b by (intro aligned_block) (unfold pw, linarith+)
  also have "\<dots> \<longleftrightarrow> hi = 0xFFFF" by linarith
  also have "\<dots> \<longleftrightarrow> uint s0 = 0 \<and> uint s1 = 0 \<and> uint s2 = 0 \<and> uint s3 = 0 \<and> uint s4 = 0 \<and> uint s5 = 0xFFFF"
  proof
    assume "hi = 0xFFFF"
    then have h: "uint s0 * 2 ^ 80 + uint s1 * 2 ^ 64 + uint s2 * 2 ^ 48 + uint s3 * 2 ^ 32 + uint s4 * 2 ^ 16 + uint s5 = 0xFFFF"
      by (simp add: hi_def)
    note h = h [unfolded pw]
    have "uint s0 = 0" using h b by linarith
    moreover from this have "uint s1 = 0" using h b by linarith
    moreover from calculation have "uint s2 = 0" using h b by linarith
    moreover from calculation have "uint s3 = 0" using h b by linarith
    moreover from calculation have "uint s4 = 0" using h b by linarith
    ultimately show "uint s0 = 0 \<and> uint s1 = 0 \<and> uint s2 = 0 \<and> uint s3 = 0 \<and> uint s4 = 0 \<and> uint s5 = 0xFFFF"
      using h by simp
  qed (simp add: hi_def)
  finally show "in_block 128 v (0xFFFF * 2 ^ 32, 96)
      \<longleftrightarrow> uint s0 = 0 \<and> uint s1 = 0 \<and> uint s2 = 0 \<and> uint s3 = 0 \<and> uint s4 = 0 \<and> uint s5 = 0xFFFF" .
  define lo where "lo = uint s2 * 2 ^ 80 + uint s3 * 2 ^ 64 + uint s4 * 2 ^ 48 + uint s5 * 2 ^ 32 + uint s6 * 2 ^ 16 + uint s7"
  have lo: "0 \<le> lo" "lo < 2 ^ 96" unfolding lo_def pw using b by linarith+
  have "in_block 128 v (0x2000 * 2 ^ 112, 3)
      \<longleftrightarrow> 0x2000 * 2 ^ 112 \<le> uint s0 * 2 ^ 112 + (uint s1 * 2 ^ 96 + lo)
        \<and> uint s0 * 2 ^ 112 + (uint s1 * 2 ^ 96 + lo) < 0x2000 * 2 ^ 112 + 0x2000 * 2 ^ 112"
    by (simp add: in_block_def v_def ip6_value_def lo_def add.assoc)
  also have "\<dots> \<longleftrightarrow> 0x2000 \<le> uint s0 \<and> uint s0 < 0x2000 + 0x2000" using b lo by (intro aligned_block) (unfold pw, linarith+)
  finally show "in_block 128 v (0x2000 * 2 ^ 112, 3) \<longleftrightarrow> 0x2000 \<le> uint s0 \<and> uint s0 < 0x4000" by simp
  have "in_block 128 v (0x2001 * 2 ^ 112 + 0x0DB8 * 2 ^ 96, 32)
      \<longleftrightarrow> (0x2001 * 2 ^ 16 + 0x0DB8) * 2 ^ 96 \<le> (uint s0 * 2 ^ 16 + uint s1) * 2 ^ 96 + lo
        \<and> (uint s0 * 2 ^ 16 + uint s1) * 2 ^ 96 + lo < (0x2001 * 2 ^ 16 + 0x0DB8) * 2 ^ 96 + 1 * 2 ^ 96"
    by (simp add: in_block_def v_def ip6_value_def lo_def algebra_simps)
  also have "\<dots> \<longleftrightarrow> 0x2001 * 2 ^ 16 + 0x0DB8 \<le> uint s0 * 2 ^ 16 + uint s1
      \<and> uint s0 * 2 ^ 16 + uint s1 < 0x2001 * 2 ^ 16 + 0x0DB8 + 1" using lo by (intro aligned_block)
  also have "\<dots> \<longleftrightarrow> uint s0 = 0x2001 \<and> uint s1 = 0x0DB8"
  proof
    assume h: "0x2001 * 2 ^ 16 + 0x0DB8 \<le> uint s0 * 2 ^ 16 + uint s1
      \<and> uint s0 * 2 ^ 16 + uint s1 < 0x2001 * 2 ^ 16 + 0x0DB8 + 1"
    then have "uint s0 = 0x2001" using b unfolding pw by linarith
    with h show "uint s0 = 0x2001 \<and> uint s1 = 0x0DB8" by simp
  qed simp
  finally show "in_block 128 v (0x2001 * 2 ^ 112 + 0x0DB8 * 2 ^ 96, 32) \<longleftrightarrow> uint s0 = 0x2001 \<and> uint s1 = 0x0DB8" .
qed

lemma public_iff_routable: "is_public_unicast ip \<longleftrightarrow> globally_routable ip"
proof (cases ip)
  case (V6 s0 s1 s2 s3 s4 s5 s6 s7)
  have eq: "s = t \<longleftrightarrow> uint s = uint t" for s t :: u16 by (simp add: word_uint_eq_iff)
  define v where "v = ip6_value s0 s1 s2 s3 s4 s5 s6 s7"
  note blocks = ip6_blocks [of s0 s1 s2 s3 s4 s5 s6 s7, folded v_def]
  have mapped: "in_block 128 v (0xFFFF * 2 ^ 32, 96)
      \<longleftrightarrow> s0 = 0 \<and> s1 = 0 \<and> s2 = 0 \<and> s3 = 0 \<and> s4 = 0 \<and> s5 = 0xFFFF"
    unfolding blocks by (simp add: eq)
  have public: "and s0 0xE000 = 0x2000 \<and> \<not> (s0 = 0x2001 \<and> s1 = 0x0DB8)
      \<longleftrightarrow> in_block 128 v (0x2000 * 2 ^ 112, 3) \<and> \<not> in_block 128 v (0x2001 * 2 ^ 112 + 0x0DB8 * 2 ^ 96, 32)"
    unfolding blocks top_three_bits by (simp add: eq)
  have "v - 0xFFFF * 2 ^ 32 = ip4_value (high_octet s6) (low_octet s6) (high_octet s7) (low_octet s7)"
    if "s0 = 0 \<and> s1 = 0 \<and> s2 = 0 \<and> s3 = 0 \<and> s4 = 0 \<and> s5 = 0xFFFF"
    using that by (simp add: v_def ip6_value_def mapped_value)
  note low_value = this
  show ?thesis
  proof (cases "s0 = 0 \<and> s1 = 0 \<and> s2 = 0 \<and> s3 = 0 \<and> s4 = 0 \<and> s5 = 0xFFFF")
    case True
    then have "in_block 128 v (0xFFFF * 2 ^ 32, 96)" using mapped by blast
    then have "globally_routable ip \<longleftrightarrow> routable4 (v - 0xFFFF * 2 ^ 32)"
      unfolding V6 globally_routable.simps Let_def v_def [symmetric] by (rule if_P)
    with True low_value [OF True] show ?thesis by (simp add: V6 ip4_public_iff)
  next
    case False
    then show ?thesis
      by (simp only: V6 is_public_unicast.simps globally_routable.simps Let_def v_def [symmetric] mapped public if_False)
  qed
qed (simp add: ip4_public_iff)

text \<open>
  (C32) The address filter implements the registry.  An IPv4 address is accepted exactly when it lies
  in none of the special-purpose blocks; an IPv6 address exactly when it is an IPv4-mapped address
  whose IPv4 address is accepted, or a global unicast address (\<open>2000::/3\<close>) outside the documentation
  block.
\<close>

theorem address_filter_exact: "is_public_unicast ip \<longleftrightarrow> globally_routable ip"
  by (rule public_iff_routable)

section \<open>What a fetch does\<close>

definition request_contained :: "fetch_policy \<Rightarrow> url \<times> ip_addr list \<Rightarrow> bool" where
  "request_contained p req \<longleftrightarrow>
     ur_scheme (fst req) = ''https'' \<and> ur_port_or_known_default (fst req) = Some 443
     \<and> ur_username (fst req) = [] \<and> ur_password (fst req) = None \<and> ur_fragment (fst req) = None
     \<and> (\<forall>domains. fp_allowed_domains p = Some domains \<longrightarrow>
          (\<exists>host d. ur_host (fst req) = Some host \<and> d \<in> set domains
             \<and> to_ascii_lowercase host = to_ascii_lowercase d))
     \<and> snd req \<noteq> [] \<and> (\<forall>a \<in> set (snd req). globally_routable a)"

definition response_acceptable :: "fetch_policy \<Rightarrow> fetch_response \<Rightarrow> bool" where
  "response_acceptable p resp \<longleftrightarrow>
     200 \<le> fr_status resp \<and> fr_status resp < 300 \<and> fr_content_type resp \<in> set (fp_allowed_content_types p)
     \<and> fr_bytes resp \<noteq> [] \<and> length (fr_bytes resp) \<le> fp_max_bytes p \<and> fr_redirects resp \<le> fp_max_redirects p"

lemma validate_url_ok:
  assumes "validate_url domains u = Inr x"
  shows "ur_scheme u = ''https''" "ur_port_or_known_default u = Some 443" "ur_username u = []"
    "ur_password u = None" "ur_fragment u = None"
    "\<And>ds. domains = Some ds \<Longrightarrow> \<exists>host d. ur_host u = Some host \<and> d \<in> set ds
       \<and> to_ascii_lowercase host = to_ascii_lowercase d"
  using assms by (auto simp: validate_url_def list_ex_iff split: if_splits option.splits)

lemma addresses_ok:
  assumes "addresses_of W p redirects u = Inr addresses"
  shows "request_contained p (u, addresses)"
proof -
  obtain host where v: "validate_url (fp_allowed_domains p) u = Inr ()"
    and found: "(case fw_lookup W redirects host of Inl e \<Rightarrow> Inl (Dns e) | Inr addresses \<Rightarrow>
        if addresses = [] \<or> list_ex (\<lambda>a. \<not> is_public_unicast a) addresses then Inl PrivateAddress
        else Inr addresses) = Inr addresses"
    using assms unfolding addresses_of_def and_then_eq_Inr by auto
  from found have a: "addresses \<noteq> []" "\<forall>x \<in> set addresses. is_public_unicast x"
    by (cases "fw_lookup W redirects host"; simp add: list_ex_iff split: if_splits; blast)+
  show ?thesis
    using validate_url_ok [OF v] a by (auto simp: request_contained_def public_iff_routable)
qed

lemma read_body_bounded:
  "read_body m bytes chunks = Inr body \<Longrightarrow> m < 2 ^ 64 - 1 \<Longrightarrow> length bytes \<le> m \<Longrightarrow> length body \<le> m"
proof (induction m bytes chunks rule: read_body.induct)
  case (2 m bytes chunk rest)
  from 2(2) obtain c where c: "chunk = Inr c" "checked_stream_size (length bytes) (length c) m = Inr ()"
    "read_body m (bytes @ c) rest = Inr body"
    by (auto simp: result_simps split: sum.splits)
  from c(2) 2(3) have "length (bytes @ c) \<le> m"
    by (auto simp: checked_stream_size_def result_simps min_def split: if_splits)
  with 2(1) [OF c(1)] c(2,3) 2(3) show ?case by blast
qed simp

lemma accept_response_ok:
  "accept_response p redirects u r = Inr resp \<Longrightarrow> fp_max_bytes p < 2 ^ 64 - 1 \<Longrightarrow> redirects \<le> fp_max_redirects p \<Longrightarrow>
   response_acceptable p resp \<and> fr_redirects resp = redirects"
  by (auto simp: accept_response_def response_acceptable_def Let_def result_simps checked_http_status_def
      dest: read_body_bounded split: if_splits)

lemma fetch_loop_contained:
  assumes "fetch_loop W p u redirects = (result, sent)" and "redirects \<le> fp_max_redirects p"
    and "fp_max_bytes p < 2 ^ 64 - 1"
  shows "(\<forall>req \<in> set sent. request_contained p req) \<and> length sent + redirects \<le> fp_max_redirects p + 1
    \<and> (\<forall>resp. result = Inr resp \<longrightarrow> response_acceptable p resp \<and> length sent + redirects = fr_redirects resp + 1)"
  using assms
proof (induction W p u redirects arbitrary: result sent rule: fetch_loop.induct)
  case (1 W p u redirects)
  show ?case
  proof (cases "addresses_of W p redirects u")
    case (Inl e)
    with 1(2,3) show ?thesis by (auto simp: fetch_loop.simps)
  next
    case (Inr addresses)
    note ok = addresses_ok [OF Inr]
    show ?thesis
    proof (cases "fw_send W redirects u addresses")
      case (Inl e)
      with Inr ok 1(2,3) show ?thesis by (auto simp: fetch_loop.simps)
    next
      case r: (Inr r)
      show ?thesis
      proof (cases "300 \<le> hr_status r \<and> hr_status r < 400")
        case False
        with Inr r ok 1(2,3,4) accept_response_ok [of p redirects u r] show ?thesis
          by (auto simp: fetch_loop.simps)
      next
        case True
        define next_url where "next_url = and_then (ok_or (hr_location r) InvalidRedirect) (\<lambda>location.
            checked_redirect W u location redirects (fp_max_redirects p))"
        show ?thesis
        proof (cases next_url)
          case (Inl e)
          with Inr r True ok 1(2,3) show ?thesis by (auto simp: fetch_loop.simps next_url_def)
        next
          case u': (Inr u')
          then have more: "redirects + 1 \<le> fp_max_redirects p"
            by (auto simp: next_url_def checked_redirect_def result_simps split: if_splits)
          obtain result' sent' where rest: "fetch_loop W p u' (redirects + 1) = (result', sent')" by force
          have "result = result'" "sent = (u, addresses) # sent'"
            using 1(2) Inr r True u' rest by (simp_all add: fetch_loop.simps [of W p u redirects] next_url_def)
          with 1(1) [OF Inr r True u' [unfolded next_url_def] rest more 1(4)] ok show ?thesis by auto
        qed
      qed
    qed
  qed
qed

text \<open>
  (C31) A fetch is contained.  Whatever URLs parse to, whatever the resolver and the servers answer and
  wherever they redirect, every request goes to an \<open>https\<close> URL on port 443 without credentials, to a
  host of the allowlist if there is one, and to publicly routable addresses only; at most one request
  more than the allowed redirects is sent; and a response is returned only with a success status, an
  allowed content type and a non-empty body within the limit.
\<close>

theorem fetch_is_contained:
  assumes "fetch_public_https W raw_url p = (result, sent)" and "fp_max_bytes p < 2 ^ 64 - 1"
  shows "(\<forall>req \<in> set sent. request_contained p req) \<and> length sent \<le> fp_max_redirects p + 1
    \<and> (\<forall>resp. result = Inr resp \<longrightarrow> response_acceptable p resp \<and> length sent = fr_redirects resp + 1)"
proof (cases "fp_timeout p = 0")
  case False
  show ?thesis
  proof (cases "fw_parse W raw_url")
    case (Inr u)
    obtain result' sent' where loop: "fetch_loop W p u 0 = (result', sent')" by force
    with False Inr assms(1) have "sent = sent'" "\<And>resp. result = Inr resp \<Longrightarrow> result' = Inr resp"
      by (auto simp: fetch_public_https_def split: if_splits)
    with fetch_loop_contained [OF loop _ assms(2)] show ?thesis by auto
  qed (use False assms(1) in \<open>auto simp: fetch_public_https_def split: if_splits\<close>)
qed (use assms(1) in \<open>auto simp: fetch_public_https_def\<close>)

definition sample_url :: "string \<Rightarrow> url" where
  "sample_url host = \<lparr>ur_text = ''https://'' @ host, ur_scheme = ''https'', ur_host = Some host,
     ur_port_or_known_default = Some 443, ur_username = [], ur_password = None, ur_fragment = None\<rparr>"

definition sample_reply :: "nat \<Rightarrow> http_response" where
  "sample_reply status = \<lparr>hr_status = status, hr_location = Some ''b'',
     hr_content_type = Some ''text/html; charset=utf-8'', hr_content_length = Some 2,
     hr_chunks = [Inr ''o'', Inr ''k'']\<rparr>"

definition sample_world :: fetch_world where
  "sample_world =
     \<lparr>fw_parse = (\<lambda>s. Inr (sample_url s)), fw_join = (\<lambda>u s. Some (sample_url s)),
      fw_lookup = (\<lambda>n h. Inr [V4 8 8 8 8, V6 0x2606 0x4700 0 0 0 0 0 1]),
      fw_send = (\<lambda>n u as. Inr (sample_reply (if n = 0 then 301 else 200))),
      fw_deadline_hit = False\<rparr>"

definition sample_policy :: fetch_policy where
  "sample_policy = \<lparr>fp_max_bytes = 10, fp_max_redirects = 1, fp_allowed_content_types = [''text/html''],
     fp_allowed_domains = None, fp_timeout = 5\<rparr>"

lemma sample_fw_simps:
  "fw_parse sample_world raw = Inr (sample_url raw)" "fw_join sample_world u raw = Some (sample_url raw)"
  "fw_send sample_world n u addresses = Inr (sample_reply (if n = 0 then 301 else 200))"
  "\<not> fw_deadline_hit sample_world" "fp_timeout sample_policy = 5" "fp_max_redirects sample_policy = 1"
  by (simp_all add: sample_world_def sample_policy_def)

lemma sample_status: "hr_status (sample_reply n) = n" "hr_location (sample_reply n) = Some ''b''"
  by (simp_all add: sample_reply_def)

theorem fetch_is_contained_witness:
  "\<exists>resp sent. fetch_public_https sample_world ''a'' sample_policy = (Inr resp, sent)
     \<and> response_acceptable sample_policy resp \<and> length sent = 2"
proof -
  have public: "is_public_unicast (V4 8 8 8 8)" "is_public_unicast (V6 0x2606 0x4700 0 0 0 0 0 1)"
    by code_simp+
  have type: "to_ascii_lowercase (trim_text (hd (split_on CHR '';'' ''text/html; charset=utf-8''))) = ''text/html''"
    by code_simp
  have addresses: "addresses_of sample_world sample_policy n (sample_url h)
      = Inr [V4 8 8 8 8, V6 0x2606 0x4700 0 0 0 0 0 1]" for n h
    using public by (simp add: addresses_of_def validate_url_def ok_or_def sample_world_def sample_policy_def
        sample_url_def del: is_public_unicast.simps)
  have accepted: "is_ok (accept_response sample_policy 1 (sample_url ''b'') (sample_reply 200))"
    using type by (simp add: accept_response_def sample_policy_def sample_reply_def normalized_content_type_def
        checked_http_status_def checked_content_length_def checked_stream_size_def Let_def is_ok_def)
  have "\<exists>resp sent. fetch_public_https sample_world ''a'' sample_policy = (Inr resp, sent) \<and> length sent = 2"
    using accepted addresses [of 0 "''a''"] addresses [of 1 "''b''"]
    by (simp add: fetch_public_https_def fetch_loop.simps [of _ _ _ 0] fetch_loop.simps [of _ _ _ "Suc 0"] sample_fw_simps
        checked_redirect_def ok_or_def is_ok_iff sample_status)
  then obtain resp sent where run: "fetch_public_https sample_world ''a'' sample_policy = (Inr resp, sent)"
    and "length sent = 2" by blast
  moreover have "fp_max_bytes sample_policy < 2 ^ 64 - 1" by (simp add: sample_policy_def)
  ultimately show ?thesis using fetch_is_contained [OF run] by blast
qed

end
