(* ===== verification/Manifest_Types.thy ===== *)
theory Manifest_Types
  imports Bundle_Dependency Json_Value
begin

text \<open>
  The signed package manifest as data: the records and enums of
  \<open>crates/gadgetron-bundle-sdk/src/manifest.rs\<close> in the order of the source.  Identifiers are the
  strings their constructors accepted (\<open>Bundle_Ids\<close>, \<open>Broker_Resource\<close>); versions \<open>'v\<close> and version
  requirements \<open>'r\<close> belong to \<open>semver\<close>.
\<close>

section \<open>Identity, runtime and permissions\<close>

datatype bundle_class = Operational | Intelligence

record 'v bundle_identity =
  bi_id :: string
  bi_version :: 'v
  bi_class :: "bundle_class option"
  bi_publisher :: string
  bi_license :: string
  bi_homepage :: "string option"

record 'r bundle_compatibility =
  bc_gadgetron :: 'r
  bc_host_protocol_min :: u32
  bc_host_protocol_max :: u32

datatype runtime_kind = Subprocess | Http | Container | Wasm

datatype runtime_transport = JsonRpcStdio | JsonRpcHttp | McpStdio | McpHttp

record runtime_limits =
  rl_memory_mb :: u64
  rl_open_files :: u32
  rl_cpu_seconds :: u32

record external_runtime_spec =
  rt_kind :: runtime_kind
  rt_transport :: runtime_transport
  rt_entry :: string
  rt_entry_sha256 :: "string option"
  rt_args :: "string list"
  rt_limits :: runtime_limits
  rt_egress_allow :: "string list"

datatype permission_kind =
    Database | Network | FilesystemRead | FilesystemWrite | SecretUse | Compute
  | KnowledgeRead | KnowledgeFeedback | KnowledgeCollection

record secret_reference_declaration =
  sr_id :: string
  sr_purpose :: string
  sr_required :: bool

record permission_declaration =
  pm_id :: string
  pm_kind :: permission_kind
  pm_description :: string
  pm_resources :: "string list"
  pm_secret_references :: "secret_reference_declaration list"

datatype broker_operation_kind = SshExecute

record broker_operation_declaration =
  bo_id :: string
  bo_kind :: broker_operation_kind
  bo_network_permission_id :: string
  bo_network_resource :: string
  bo_secret_permission_id :: string
  bo_secret_resource :: string
  bo_command :: string
  bo_timeout_seconds :: u32
  bo_max_stdout_bytes :: u32
  bo_max_stderr_bytes :: u32

section \<open>Capabilities\<close>

record domain_schema_descriptor =
  ds_id :: string
  ds_version :: u32
  ds_schema_path :: string
  ds_sha256 :: string

datatype sdk_gadget_tier = TierRead | TierWrite | TierDestructive

datatype risk_level = RiskLow | RiskMedium | RiskHigh | RiskCritical

record gadget_effect_declaration =
  ge_risk :: risk_level
  ge_idempotent :: bool
  ge_reversible :: bool
  ge_requires_evidence :: bool
  ge_outcome_gadget :: "string option"
  ge_rollback_gadget :: "string option"

record gadget_descriptor =
  gd_name :: string
  gd_description :: string
  gd_tier :: sdk_gadget_tier
  gd_input_schema :: json
  gd_output_schema :: json
  gd_effect :: gadget_effect_declaration

record source_connector_descriptor =
  sc_id :: string
  sc_description :: string
  sc_gadget :: string
  sc_output_schema :: json

record collection_query_provider =
  qp_id :: string
  qp_label :: string
  qp_description :: string
  qp_source_class :: string
  qp_query_label :: "string option"
  qp_query_placeholder :: "string option"
  qp_scope_label :: string
  qp_scope_placeholder :: string
  qp_default_scope :: string
  qp_supports_tags :: bool
  qp_supports_language :: bool
  qp_requires_configuration :: bool
  qp_max_window_days :: u32

record collection_budget =
  cb_max_sources :: u32
  cb_max_bytes :: u64
  cb_max_wall_seconds :: u32

record collection_profile_descriptor =
  cp_id :: string
  cp_label :: string
  cp_description :: string
  cp_connector :: string
  cp_source_classes :: "string list"
  cp_query_providers :: "collection_query_provider list"
  cp_allowlisted_domains :: "string list"
  cp_extractor_hints :: "string list"
  cp_freshness_seconds :: u64
  cp_schedule :: "string option"
  cp_budget :: collection_budget
  cp_recipe_asset :: string

datatype agent_role = SourceScout | Researcher | Gardener | InsightSynthesizer | Operator

definition agent_role_as_str :: "agent_role \<Rightarrow> string" where
  "agent_role_as_str r =
     (case r of SourceScout \<Rightarrow> ''source_scout'' | Researcher \<Rightarrow> ''researcher'' | Gardener \<Rightarrow> ''gardener''
      | InsightSynthesizer \<Rightarrow> ''insight_synthesizer'' | Operator \<Rightarrow> ''operator'')"

record knowledge_agent_role =
  kr_id :: string
  kr_label :: string
  kr_description :: string
  kr_core_role :: agent_role
  kr_job :: string
  kr_recipe_asset :: string
  kr_collection_profile :: "string option"
  kr_followup_role :: "string option"
  kr_prompt_contract_revision :: string

datatype target_registry_kind = SshRegistry

datatype target_ssh_route = SshParent (activation_parameter: string) (activation_value: string)
  (parent_target_parameter: string)

datatype target_setup_feature = SystemObservation | NvidiaDcgm | RedisClient

definition setup_feature_as_str :: "target_setup_feature \<Rightarrow> string" where
  "setup_feature_as_str f =
     (case f of SystemObservation \<Rightarrow> ''system_observation'' | NvidiaDcgm \<Rightarrow> ''nvidia_dcgm''
      | RedisClient \<Rightarrow> ''redis_client'')"

record target_profile_descriptor =
  tp_id :: string
  tp_label :: string
  tp_registry :: target_registry_kind
  tp_default :: bool
  tp_target_id_prefix :: string
  tp_target_argument :: string
  tp_allowed_operations :: "string list"
  tp_setup_features :: "target_setup_feature list"
  tp_bootstrap_input_schema :: json
  tp_ssh_route :: "target_ssh_route option"
  tp_verification_gadget :: "string option"
  tp_verification_job :: "string option"
  tp_setup_reapply_gadget :: "string option"
  tp_setup_reapply_input_schema :: "json option"

datatype job_trigger = OnDemand | Schedule | Event

definition trigger_wire_name :: "job_trigger \<Rightarrow> string" where
  "trigger_wire_name t = (case t of OnDemand \<Rightarrow> ''on_demand'' | Schedule \<Rightarrow> ''schedule'' | Event \<Rightarrow> ''event'')"

record job_knowledge_context =
  jk_subject_gadget :: string
  jk_context_gadget :: string
  jk_question :: string

record job_budget =
  jb_max_gadget_calls :: u32
  jb_max_wall_seconds :: u32

record job_recipe_descriptor =
  jr_id :: string
  jr_role :: agent_role
  jr_triggers :: "job_trigger list"
  jr_goal :: "string option"
  jr_schedule :: "string option"
  jr_target_registry :: "target_registry_kind option"
  jr_target_profile :: "string option"
  jr_knowledge_context :: "job_knowledge_context option"
  jr_event_kinds :: "string list"
  jr_gadget_allowlist :: "string list"
  jr_budget :: "job_budget option"

record event_job_descriptor =
  ej_id :: string
  ej_event_kind :: string
  ej_subject_owner_bundle :: string
  ej_subject_kind :: string
  ej_agent_role :: string
  ej_input_schema :: json
  ej_result_gadget :: string

record row_enrichment_descriptor =
  re_id :: string
  re_target_bundle :: string
  re_target_workspace :: string
  re_target_data_capability :: string
  re_subject_kind :: string
  re_row_join_key_field :: string
  re_row_revision_field :: string
  re_read_gadget :: string
  re_event_job :: string

record knowledge_event_descriptor =
  ke_id :: string
  ke_event_kind :: string
  ke_subject_kind :: string
  ke_snapshot_permission_id :: string
  ke_snapshot_resource :: string
  ke_snapshot_fields :: "string list"
  ke_acting_space_id_field :: "string option"
  ke_subject_id_field :: string
  ke_subject_revision_field :: string
  ke_title_field :: string
  ke_researcher_bundle :: string
  ke_researcher_role :: string
  ke_output_vault_bundle :: string
  ke_knowledge_schema_id :: string
  ke_source_path_prefix :: string

record policy_hint_descriptor =
  ph_id :: string
  ph_description :: string
  ph_applies_to :: "string list"
  ph_hint :: json

datatype workspace_renderer =
    RenderTable | RenderList | RenderDetail | RenderGraph | RenderForm | RenderTimeline | RenderDashboard
  | RenderCards | RenderCalendar | RenderMap | RenderTelemetry | RenderTimeseries | RenderOperation
  | RenderMarkdownDoc

record workspace_descriptor =
  wd_id :: string
  wd_label :: string
  wd_renderer :: workspace_renderer
  wd_data_capability :: string
  wd_collection_profile :: "string option"
  wd_action_gadgets :: "string list"
  wd_required_scopes :: "string list"

datatype ui_refresh_policy = RefreshRequired | RefreshOptional | RefreshForbidden

datatype ui_contribution_kind =
    UiWorkspace | UiNavigation | UiDashboardWidget | UiCommand | UiSearchResult | UiSubjectContext
  | UiToolResult | UiReviewPresentation | UiJobPresentation | UiKnowledgeContribution

datatype ui_contribution_placement =
    PlaceMain | PlacePrimaryNavigation | PlaceSecondaryNavigation | PlaceDashboard | PlaceCommandPalette
  | PlaceContextMenu | PlaceSearch | PlacePennyContext | PlaceToolResult | PlaceReview | PlaceJobs
  | PlaceKnowledge

datatype navigation_section =
    SectionWorkspace | SectionKnowledge | SectionOperations | SectionDiagnostics | SectionPlanning
  | SectionOversight | SectionManagement

datatype ui_icon_token =
    IconActivity | IconCalendar | IconDashboard | IconDocument | IconFleet | IconGraph | IconJobs
  | IconKnowledge | IconList | IconLogs | IconMap | IconReview | IconSearch | IconSettings | IconTable
  | IconTerminal | IconTimeline

record ui_contribution_descriptor =
  ui_id :: string
  ui_kind :: ui_contribution_kind
  ui_label :: string
  ui_placement :: ui_contribution_placement
  ui_order_hint :: int
  ui_icon :: ui_icon_token
  ui_navigation_section :: "navigation_section option"
  ui_target_registry :: "target_registry_kind option"
  ui_target_profile :: "string option"
  ui_target_retire_gadget :: "string option"
  ui_required_scopes :: "string list"
  ui_empty_state :: string
  ui_error_state :: string
  ui_workspace :: "string option"
  ui_gadget :: "string option"
  ui_job :: "string option"
  ui_domain_schema :: "string option"
  ui_renderer :: "workspace_renderer option"
  ui_refresh_seconds :: "u32 option"

record seed_asset_descriptor =
  sa_id :: string
  sa_path :: string
  sa_media_type :: string
  sa_sha256 :: string

datatype migration_kind = MigrateSchema | MigrateIndex | MigrateData

record migration_descriptor =
  mi_id :: string
  mi_revision :: u64
  mi_kind :: migration_kind
  mi_path :: string
  mi_sha256 :: string
  mi_legacy_sqlx_version :: "int option"

record 'v bundle_capabilities =
  ca_provides :: "'v provided_capability list"
  ca_gadget_namespaces :: "string list"
  ca_domain_schemas :: "domain_schema_descriptor list"
  ca_gadgets :: "gadget_descriptor list"
  ca_source_connectors :: "source_connector_descriptor list"
  ca_collection_profiles :: "collection_profile_descriptor list"
  ca_agent_roles :: "knowledge_agent_role list"
  ca_target_profiles :: "target_profile_descriptor list"
  ca_jobs :: "job_recipe_descriptor list"
  ca_event_jobs :: "event_job_descriptor list"
  ca_knowledge_events :: "knowledge_event_descriptor list"
  ca_row_enrichments :: "row_enrichment_descriptor list"
  ca_policy_hints :: "policy_hint_descriptor list"
  ca_workspaces :: "workspace_descriptor list"
  ca_ui_contributions :: "ui_contribution_descriptor list"
  ca_settings_schema :: "json option"
  ca_seed_assets :: "seed_asset_descriptor list"
  ca_migrations :: "migration_descriptor list"

section \<open>The manifest\<close>

record ('v, 'r) bundle_package_manifest =
  pk_manifest_version :: u32
  pk_bundle :: "'v bundle_identity"
  pk_compatibility :: "'r bundle_compatibility"
  pk_runtime :: external_runtime_spec
  pk_permissions :: "permission_declaration list"
  pk_broker_operations :: "broker_operation_declaration list"
  pk_capabilities :: "'v bundle_capabilities"
  pk_dependencies :: "'r bundle_dependencies"
  pk_extensions :: "(string \<times> json) list"

end
