(* ===== verification/Sdk_Checks.thy ===== *)
theory Sdk_Checks
  imports Bundle_Ids
begin

text \<open>
  The checks that the validators of \<open>crates/gadgetron-bundle-sdk/src\<close> have in common: the error of a
  protocol message, bounded text, digests, and the loop that rejects a repeated key.
\<close>

definition len :: "'a list \<Rightarrow> int" where
  "len xs = int (length xs)"

definition idx :: "string \<Rightarrow> nat \<Rightarrow> string" where
  "idx path i = path @ ''['' @ show_nat i @ '']''"

type_synonym protocol_check = "(bundle_sdk_error, unit) result"

definition protocol_nonempty :: "string \<Rightarrow> string \<Rightarrow> int \<Rightarrow> protocol_check" where
  "protocol_nonempty field s limit =
     check (\<not> (is_blank s \<or> len s > limit \<or> has_control s))
       (InvalidProtocol field
         (''must contain 1-'' @ show_int limit @ '' characters and no control characters''))"

definition bounded_multiline :: "string \<Rightarrow> string \<Rightarrow> int \<Rightarrow> protocol_check" where
  "bounded_multiline field s limit =
     check (\<not> (is_blank s \<or> len s > limit
         \<or> list_ex (\<lambda>c. is_control c \<and> c \<noteq> 10 \<and> c \<noteq> 13 \<and> c \<noteq> 9) (chars_of s)))
       (InvalidProtocol field
         (''must contain 1-'' @ show_int limit @ '' characters and only text layout controls''))"

definition is_sha256_text :: "string \<Rightarrow> bool" where
  "is_sha256_text s \<longleftrightarrow> len s = 64 \<and> list_all is_lower_hex s"

definition protocol_sha256 :: "string \<Rightarrow> string \<Rightarrow> protocol_check" where
  "protocol_sha256 field s =
     check (is_sha256_text s)
       (InvalidProtocol field ''must be a 64-character lowercase hexadecimal SHA-256 digest'')"

definition validate_size ::
  "int \<Rightarrow> string \<Rightarrow> (int \<Rightarrow> string) \<Rightarrow> (string, int) result \<Rightarrow> (string \<Rightarrow> string) \<Rightarrow> protocol_check" where
  "validate_size limit field exceeds encoded unserializable =
     (case encoded of
        Inl e \<Rightarrow> Inl (InvalidProtocol field (unserializable e))
      | Inr n \<Rightarrow> check (n \<le> limit) (InvalidProtocol field (exceeds limit)))"

text \<open>
  \<open>for (i, x) in xs.iter().enumerate()\<close> with a set of the keys seen: the checks before the insertion, the
  rejection of a key that was there, the checks after it.
\<close>

fun try_unique_from ::
  "(nat \<Rightarrow> 'a \<Rightarrow> ('e, unit) result) \<Rightarrow> ('a \<Rightarrow> 'k::linorder) \<Rightarrow> (nat \<Rightarrow> 'a \<Rightarrow> 'e) \<Rightarrow> (nat \<Rightarrow> 'a \<Rightarrow> ('e, unit) result)
   \<Rightarrow> 'k list \<Rightarrow> nat \<Rightarrow> 'a list \<Rightarrow> ('e, unit) result" where
  "try_unique_from before key repeated after seen i [] = Inr ()"
| "try_unique_from before key repeated after seen i (x # xs) =
     and_then (before i x) (\<lambda>_.
       if key x \<in> set seen then Inl (repeated i x)
       else and_then (after i x) (\<lambda>_.
         try_unique_from before key repeated after (bt_insert (key x) seen) (Suc i) xs))"

definition try_unique ::
  "(nat \<Rightarrow> 'a \<Rightarrow> ('e, unit) result) \<Rightarrow> ('a \<Rightarrow> 'k::linorder) \<Rightarrow> (nat \<Rightarrow> 'a \<Rightarrow> 'e) \<Rightarrow> (nat \<Rightarrow> 'a \<Rightarrow> ('e, unit) result)
   \<Rightarrow> 'a list \<Rightarrow> ('e, unit) result" where
  "try_unique before key repeated after xs = try_unique_from before key repeated after [] 0 xs"

section \<open>What the checks accept\<close>

lemma try_unique_from_eq_Inr:
  "try_unique_from before key repeated after seen i xs = Inr u \<longleftrightarrow>
     distinct (map key xs) \<and> set seen \<inter> key ` set xs = {}
     \<and> (\<forall>j < length xs. before (i + j) (xs ! j) = Inr () \<and> after (i + j) (xs ! j) = Inr ())"
  (is "?l \<longleftrightarrow> ?r")
proof (induction xs arbitrary: seen i)
  case Nil
  then show ?case by simp
next
  case (Cons x xs)
  have "(\<forall>j < length (x # xs). before (i + j) ((x # xs) ! j) = Inr () \<and> after (i + j) ((x # xs) ! j) = Inr ())
    \<longleftrightarrow> before i x = Inr () \<and> after i x = Inr ()
      \<and> (\<forall>j < length xs. before (Suc i + j) (xs ! j) = Inr () \<and> after (Suc i + j) (xs ! j) = Inr ())"
    by (auto simp: less_Suc_eq_0_disj)
  with Cons.IH [of "bt_insert (key x) seen" "Suc i"] show ?case
    by (auto simp: result_simps)
qed

lemma try_unique_eq_Inr [result_simps]:
  "try_unique before key repeated after xs = Inr u \<longleftrightarrow>
     distinct (map key xs)
     \<and> (\<forall>j < length xs. before j (xs ! j) = Inr () \<and> after j (xs ! j) = Inr ())"
  by (simp add: try_unique_def try_unique_from_eq_Inr)

lemma try_unique_member:
  "try_unique before key repeated after xs = Inr u \<Longrightarrow> x \<in> set xs \<Longrightarrow>
     \<exists>i. before i x = Inr () \<and> after i x = Inr ()"
  by (auto simp: result_simps in_set_conv_nth)

lemma bounded_nonempty_ok [result_simps]:
  "protocol_nonempty field s limit = Inr u \<longleftrightarrow> \<not> is_blank s \<and> len s \<le> limit \<and> \<not> has_control s"
  by (auto simp: protocol_nonempty_def result_simps)

lemma validate_size_ok [result_simps]:
  "validate_size limit field exceeds encoded unserializable = Inr u \<longleftrightarrow> (\<exists>n. encoded = Inr n \<and> n \<le> limit)"
  by (auto simp: validate_size_def result_simps split: sum.splits)

end
