(* ===== verification/Broker_Resource.thy ===== *)
theory Broker_Resource
  imports Sdk_Checks
begin

text \<open>
  Broker resources and database fields: the identifiers of
  \<open>crates/gadgetron-bundle-sdk/src/broker.rs\<close> that package manifests, operator grants and broker calls
  share.  A \<open>BrokerResource\<close> is a string its validator accepted.
\<close>

abbreviation MAX_RESOURCE_ID :: nat where "MAX_RESOURCE_ID \<equiv> 256"
abbreviation MAX_FIELD_NAME :: nat where "MAX_FIELD_NAME \<equiv> 63"

definition starts_lowercase :: "string \<Rightarrow> bool" where
  "starts_lowercase s = (case s of [] \<Rightarrow> False | c # _ \<Rightarrow> is_ascii_lowercase c)"

definition is_database_identifier :: "string \<Rightarrow> bool" where
  "is_database_identifier s \<longleftrightarrow>
     s \<noteq> [] \<and> length s \<le> MAX_FIELD_NAME \<and> list_all is_ascii s \<and> starts_lowercase s
     \<and> list_all (\<lambda>c. is_ascii_lowercase c \<or> is_ascii_digit c \<or> c = CHR ''_'') s"

definition is_local_resource_segment :: "string \<Rightarrow> bool" where
  "is_local_resource_segment s \<longleftrightarrow>
     s \<noteq> [] \<and> length s \<le> 64 \<and> list_all is_ascii s
     \<and> \<not> prefix ''-'' s \<and> \<not> suffix ''-'' s \<and> \<not> sublist ''--'' s \<and> list_all is_kebab_char s"

definition is_resource_char :: "char \<Rightarrow> bool" where
  "is_resource_char c \<longleftrightarrow> is_ascii_lowercase c \<or> is_ascii_digit c \<or> c \<in> set ''._:-''"

definition validate_broker_resource :: "string \<Rightarrow> (bundle_sdk_error, unit) result" where
  "validate_broker_resource s =
     check (\<not> (s = [] \<or> length s > MAX_RESOURCE_ID \<or> \<not> list_all is_ascii s \<or> \<not> starts_lowercase s
         \<or> \<not> list_all is_resource_char s))
       (InvalidProtocol ''broker.resource''
         ''must contain 1-256 lowercase characters from [a-z0-9._:-] and begin with a letter'')"

definition broker_resource_new :: "string \<Rightarrow> (bundle_sdk_error, string) result" where
  "broker_resource_new s = and_then (validate_broker_resource s) (\<lambda>_. Inr s)"

definition named_resource ::
  "string \<Rightarrow> (string \<Rightarrow> bool) \<Rightarrow> string \<Rightarrow> string option" where
  "named_resource pre valid resource =
     Option.bind (strip_prefix pre resource) (\<lambda>name. if valid name then Some name else None)"

definition database_table :: "string \<Rightarrow> (bundle_sdk_error, string) result" where
  "database_table table =
     (if \<not> is_database_identifier table
      then Inl (InvalidProtocol ''broker.resource''
             ''database table must be a 1-63 character lowercase identifier'')
      else broker_resource_new (''postgres:table:'' @ table))"

definition database_table_name :: "string \<Rightarrow> string option" where
  "database_table_name = named_resource ''postgres:table:'' is_database_identifier"

definition ssh_operation :: "string \<Rightarrow> (bundle_sdk_error, string) result" where
  "ssh_operation operation =
     (if \<not> is_local_resource_segment operation
      then Inl (InvalidProtocol ''broker.resource''
             ''SSH operation must be a 1-64 character lowercase kebab-case identifier'')
      else broker_resource_new (''ssh:operation:'' @ operation))"

definition ssh_operation_name :: "string \<Rightarrow> string option" where
  "ssh_operation_name = named_resource ''ssh:operation:'' is_local_resource_segment"

definition secret_use :: "string \<Rightarrow> (bundle_sdk_error, string) result" where
  "secret_use purpose =
     (if \<not> is_local_resource_segment purpose
      then Inl (InvalidProtocol ''broker.resource''
             ''secret purpose must be a 1-64 character lowercase kebab-case identifier'')
      else broker_resource_new (''secret:use:'' @ purpose))"

definition secret_use_name :: "string \<Rightarrow> string option" where
  "secret_use_name = named_resource ''secret:use:'' is_local_resource_segment"

definition is_knowledge_context :: "string \<Rightarrow> bool" where
  "is_knowledge_context resource \<longleftrightarrow> resource = ''knowledge:context''"

definition is_knowledge_feedback :: "string \<Rightarrow> bool" where
  "is_knowledge_feedback resource \<longleftrightarrow> resource = ''knowledge:feedback''"

definition is_knowledge_collection :: "string \<Rightarrow> bool" where
  "is_knowledge_collection resource \<longleftrightarrow> resource = ''knowledge:collection''"

definition validate_database_field :: "string \<Rightarrow> string \<Rightarrow> (bundle_sdk_error, unit) result" where
  "validate_database_field path field =
     (if \<not> is_database_identifier field
      then Inl (InvalidProtocol path ''must be a 1-63 character lowercase database field identifier'')
      else if field = ''tenant_id''
      then Inl (InvalidProtocol path
             ''tenant_id is Core-owned and cannot be supplied or returned by a Bundle'')
      else Inr ())"

section \<open>Resource names\<close>

lemma named_resource_eq_Some:
  "named_resource pre valid resource = Some name \<longleftrightarrow> resource = pre @ name \<and> valid name"
  by (auto simp: named_resource_def text_simps Option.bind_eq_Some_conv)

lemma resource_char_is_ascii: "is_resource_char c \<Longrightarrow> is_ascii c"
  by (auto simp: is_resource_char_def ascii_class_defs)

lemma validate_broker_resource_ok:
  "validate_broker_resource s = Inr u \<longleftrightarrow>
     s \<noteq> [] \<and> length s \<le> MAX_RESOURCE_ID \<and> starts_lowercase s \<and> list_all is_resource_char s"
  using resource_char_is_ascii by (auto simp: validate_broker_resource_def result_simps list_all_iff)

text \<open>A resource of one of the families: a fixed beginning, then a name of resource characters.\<close>

lemma prefixed_resource_ok:
  assumes "pre \<in> {''postgres:table:'', ''ssh:operation:'', ''secret:use:''}"
    and "list_all is_resource_char name" and "length name \<le> 64"
  shows "validate_broker_resource (pre @ name) = Inr ()"
proof -
  have "starts_lowercase pre \<and> list_all is_resource_char pre \<and> length pre \<le> 15 \<and> pre \<noteq> []"
    if "pre \<in> {''postgres:table:'', ''ssh:operation:'', ''secret:use:''}" for pre
    using that by (elim insertE) (simp_all add: starts_lowercase_def is_resource_char_def ascii_class_defs)
  from this [OF assms(1)] assms(2,3) show ?thesis
    by (cases pre) (simp_all add: validate_broker_resource_ok starts_lowercase_def)
qed

lemma database_identifier_resource:
  "is_database_identifier t \<Longrightarrow> list_all is_resource_char t \<and> length t \<le> 64"
  by (auto simp: is_database_identifier_def is_resource_char_def list_all_iff)

lemma segment_resource: "is_local_resource_segment t \<Longrightarrow> list_all is_resource_char t \<and> length t \<le> 64"
  by (auto simp: is_local_resource_segment_def is_resource_char_def is_kebab_char_def list_all_iff)

text \<open>Reading the name of a resource inverts building it, for each of the three families.\<close>

lemma database_table_name_roundtrip: "database_table t = Inr r \<longleftrightarrow> database_table_name r = Some t"
  using prefixed_resource_ok [of "''postgres:table:''" t] database_identifier_resource [of t]
  by (auto simp: database_table_def database_table_name_def broker_resource_new_def result_simps
      named_resource_eq_Some simp del: append.simps)

lemma ssh_operation_name_roundtrip: "ssh_operation n = Inr r \<longleftrightarrow> ssh_operation_name r = Some n"
  using prefixed_resource_ok [of "''ssh:operation:''" n] segment_resource [of n]
  by (auto simp: ssh_operation_def ssh_operation_name_def broker_resource_new_def result_simps
      named_resource_eq_Some simp del: append.simps)

lemma secret_use_name_roundtrip: "secret_use n = Inr r \<longleftrightarrow> secret_use_name r = Some n"
  using prefixed_resource_ok [of "''secret:use:''" n] segment_resource [of n]
  by (auto simp: secret_use_def secret_use_name_def broker_resource_new_def result_simps
      named_resource_eq_Some simp del: append.simps)

end
