(* ===== verification/Manifest_Checks.thy ===== *)
theory Manifest_Checks
  imports Manifest_Types Broker_Resource
begin

text \<open>
  The checks on single values that the manifest validator is built from: the free functions of
  \<open>crates/gadgetron-bundle-sdk/src/manifest.rs\<close>.

  A validator returns \<open>Inr ()\<close>, rejects with an error of the SDK, or panics: an \<open>expect\<close> that does not
  hold, or an index that is missing, is the fault \<open>Panicked\<close>.  The serialiser (\<open>serde_json::to_vec\<close>) and
  the \<open>Debug\<close> text of an arbitrary string, which depends on Unicode tables, are the fields of
  \<open>manifest_env\<close>; the \<open>Debug\<close> text of an identifier only adds quotes.
\<close>

section \<open>Outcomes\<close>

datatype manifest_fault = Rejected bundle_sdk_error | Panicked string

type_synonym outcome = "(manifest_fault, unit) result"

record manifest_env =
  to_vec :: "json \<Rightarrow> (string, string) result"
  debug_str :: "string \<Rightarrow> string"

definition invalid :: "string \<Rightarrow> string \<Rightarrow> manifest_fault" where
  "invalid field reason = Rejected (InvalidManifest field reason)"

definition expect :: "'a option \<Rightarrow> string \<Rightarrow> (manifest_fault, 'a) result" where
  "expect v message = ok_or v (Panicked message)"

definition debug_newtype :: "string \<Rightarrow> string \<Rightarrow> string" where
  "debug_newtype type_name s = type_name @ ''('' @ debug_id s @ '')''"

definition error_display :: "manifest_env \<Rightarrow> bundle_sdk_error \<Rightarrow> string" where
  "error_display env e =
     (case e of
        InvalidIdentifier kind v reason \<Rightarrow> ''invalid '' @ kind @ '' '' @ debug_str env v @ '': '' @ reason
      | InvalidManifest field reason \<Rightarrow> ''invalid package manifest at '' @ field @ '': '' @ reason
      | InvalidProtocol field reason \<Rightarrow> ''invalid host protocol message at '' @ field @ '': '' @ reason
      | ManifestToml t \<Rightarrow> ''package.toml could not be parsed: '' @ t
      | UnsupportedManifestVersion f lo hi \<Rightarrow>
          ''unsupported package manifest version '' @ show_int (uint f) @ ''; this SDK supports ''
            @ show_int (uint lo) @ ''..='' @ show_int (uint hi)
      | IncompatibleCore required current \<Rightarrow>
          ''Bundle requires Gadgetron '' @ required @ '', but Core is '' @ current
      | IncompatibleProtocol lo hi current \<Rightarrow>
          ''Bundle supports host protocol '' @ show_int (uint lo) @ ''..='' @ show_int (uint hi)
            @ '', but Core provides '' @ show_int (uint current))"

abbreviation MAX_SHORT_TEXT :: int where "MAX_SHORT_TEXT \<equiv> 256"
abbreviation MAX_DESCRIPTION :: int where "MAX_DESCRIPTION \<equiv> 2048"
abbreviation MAX_ENTRY :: int where "MAX_ENTRY \<equiv> 1024"
abbreviation MAX_SETTINGS_SCHEMA_BYTES :: int where "MAX_SETTINGS_SCHEMA_BYTES \<equiv> 65536"
abbreviation MAX_SETTINGS_PROPERTIES :: int where "MAX_SETTINGS_PROPERTIES \<equiv> 128"
abbreviation MAX_ROW_ENRICHMENT_SUBJECTS :: int where "MAX_ROW_ENRICHMENT_SUBJECTS \<equiv> 200"
abbreviation MAX_SSH_COMMAND_BYTES :: int where "MAX_SSH_COMMAND_BYTES \<equiv> 16384"

section \<open>Text\<close>

definition bounded_text :: "string \<Rightarrow> string \<Rightarrow> int \<Rightarrow> outcome" where
  "bounded_text field s limit =
     check (\<not> (len s > limit \<or> has_control s))
       (invalid field (''must contain at most '' @ show_int limit @ '' characters and no control characters''))"

definition bounded_nonempty_text :: "string \<Rightarrow> string \<Rightarrow> int \<Rightarrow> outcome" where
  "bounded_nonempty_text field s limit =
     all_ok [bounded_text field s limit, check (\<not> is_blank s) (invalid field ''must not be empty'')]"

definition is_snake_char :: "char \<Rightarrow> bool" where
  "is_snake_char c \<longleftrightarrow> is_ascii_lowercase c \<or> is_ascii_digit c \<or> c = CHR ''_''"

definition validate_target_argument :: "string \<Rightarrow> string \<Rightarrow> outcome" where
  "validate_target_argument field s =
     check (\<not> (s = [] \<or> len s > 64 \<or> \<not> starts_lowercase s \<or> \<not> list_all is_snake_char s))
       (invalid field ''must be a lowercase snake_case JSON field name'')"

definition secret_like_name :: "string \<Rightarrow> bool" where
  "secret_like_name name =
     (let normalized = map (\<lambda>c. if c = CHR ''-'' then CHR ''_'' else c) name
      in list_ex (\<lambda>sensitive. sublist sensitive normalized)
           [''password'', ''secret'', ''token'', ''private_key'', ''credential''])"

fun ensure_unique_from :: "manifest_env \<Rightarrow> string \<Rightarrow> string list \<Rightarrow> string list \<Rightarrow> outcome" where
  "ensure_unique_from env field seen [] = Inr ()"
| "ensure_unique_from env field seen (v # vs) =
     (if v \<in> set seen then Inl (invalid field (''duplicate value '' @ debug_str env v))
      else ensure_unique_from env field (bt_insert v seen) vs)"

definition ensure_unique :: "manifest_env \<Rightarrow> string \<Rightarrow> string list \<Rightarrow> outcome" where
  "ensure_unique env field values = ensure_unique_from env field [] values"

definition validate_scope_names :: "manifest_env \<Rightarrow> string \<Rightarrow> string list \<Rightarrow> outcome" where
  "validate_scope_names env field scopes =
     all_ok
      [ensure_unique env field scopes,
       try_indexed (\<lambda>i scope. all_ok
        [bounded_nonempty_text (idx field i) scope MAX_SHORT_TEXT,
         check (list_all (\<lambda>c. is_ascii_lowercase c \<or> is_ascii_digit c \<or> c \<in> set ''_:-'') scope)
          (invalid (idx field i) ''scope names must use their canonical lowercase wire form'')]) scopes]"

definition validate_signed_ssh_command :: "string \<Rightarrow> string \<Rightarrow> outcome" where
  "validate_signed_ssh_command field command =
     all_ok
      [check (\<not> (is_blank command \<or> len command > MAX_SSH_COMMAND_BYTES))
        (invalid field (''must contain 1-'' @ show_int MAX_SSH_COMMAND_BYTES @ '' UTF-8 bytes'')),
       check (\<not> list_ex (\<lambda>c. is_control c \<and> c \<noteq> 10 \<and> c \<noteq> 9) (chars_of command))
        (invalid field ''may contain newlines and tabs but no other control characters'')]"

definition domain_label_ok :: "string \<Rightarrow> bool" where
  "domain_label_ok label \<longleftrightarrow>
     label \<noteq> [] \<and> \<not> prefix ''-'' label \<and> \<not> suffix ''-'' label \<and> list_all is_kebab_char label"

definition validate_source_domain :: "string \<Rightarrow> string \<Rightarrow> outcome" where
  "validate_source_domain field s =
     all_ok
      [bounded_nonempty_text field s MAX_SHORT_TEXT,
       check (\<not> (\<not> list_all domain_label_ok (split_on CHR ''.'' s)
           \<or> prefix ''.'' s \<or> suffix ''.'' s \<or> sublist ''//'' s \<or> CHR ''/'' \<in> set s \<or> CHR '':'' \<in> set s
           \<or> list_ex is_whitespace (chars_of s)
           \<or> \<not> list_all (\<lambda>c. is_ascii_lowercase c \<or> is_ascii_digit c \<or> c \<in> set ''.-'') s))
        (invalid field ''must be a lowercase host name without scheme, port, path or wildcard'')]"

text \<open>\<open>split_whitespace\<close> and \<open>str::parse::<u32>\<close>, on the scalar values of a string.\<close>

function split_whitespace :: "nat list \<Rightarrow> nat list list" where
  "split_whitespace [] = []"
| "split_whitespace (c # cs) =
     (if is_whitespace c then split_whitespace cs
      else (c # takeWhile (\<lambda>d. \<not> is_whitespace d) cs) # split_whitespace (dropWhile (\<lambda>d. \<not> is_whitespace d) cs))"
  by pat_completeness auto

termination
  by (relation "measure length") (auto simp: length_dropWhile_le le_imp_less_Suc)

definition parse_u32_chars :: "nat list \<Rightarrow> int option" where
  "parse_u32_chars cs =
     (let ds = (case cs of c # rest \<Rightarrow> if c = 43 then rest else cs | [] \<Rightarrow> [])
      in if ds = [] \<or> \<not> list_all (\<lambda>d. 48 \<le> d \<and> d \<le> 57) ds then None
         else let v = foldl (\<lambda>n d. n * 10 + (int d - 48)) 0 ds in if v < 2 ^ 32 then Some v else None)"

definition below :: "int \<Rightarrow> int \<Rightarrow> int option \<Rightarrow> bool" where
  "below lo hi v = (case v of None \<Rightarrow> False | Some n \<Rightarrow> lo \<le> n \<and> n < hi)"

definition collection_schedule_valid :: "nat list list \<Rightarrow> bool" where
  "collection_schedule_valid parts =
     (case parts of
        [minute, hour, day, month, weekday] \<Rightarrow>
          day = [42] \<and> month = [42] \<and> weekday = [42]
          \<and> (if hour = [42]
             then (case minute of
                     a # b # minutes \<Rightarrow> a = 42 \<and> b = 47 \<and> below 1 61 (parse_u32_chars minutes)
                   | _ \<Rightarrow> False)
             else below 0 60 (parse_u32_chars minute) \<and> below 0 24 (parse_u32_chars hour))
      | _ \<Rightarrow> False)"

definition validate_collection_schedule :: "string \<Rightarrow> string \<Rightarrow> outcome" where
  "validate_collection_schedule field s =
     check (collection_schedule_valid (split_whitespace (chars_of s)))
       (invalid field
         ''v1 supports only */N * * * * minute intervals or M H * * * daily UTC schedules'')"

definition validate_manifest_sha256 :: "string \<Rightarrow> string \<Rightarrow> outcome" where
  "validate_manifest_sha256 field s =
     check (is_sha256_hex s) (invalid field ''must be a 64-character lowercase hexadecimal SHA-256 digest'')"

section \<open>References\<close>

definition require_json_object :: "string \<Rightarrow> json \<Rightarrow> outcome" where
  "require_json_object field v = check (as_object v \<noteq> None) (invalid field ''must be a JSON object'')"

definition require_known_gadget :: "string \<Rightarrow> string \<Rightarrow> string list \<Rightarrow> outcome" where
  "require_known_gadget field reference declared =
     check (reference \<in> set declared)
       (invalid field (''references undeclared Gadget '' @ debug_newtype ''GadgetName'' reference))"

text \<open>\<open>items.map(|item| (key(item), item)).collect::<BTreeMap<_, _>>()\<close>\<close>

definition index_by :: "('a \<Rightarrow> string) \<Rightarrow> 'a list \<Rightarrow> (string \<times> 'a) list" where
  "index_by key xs = fold (\<lambda>x. bm_insert (key x) x) xs []"

definition require_json_seed_asset ::
  "string \<Rightarrow> string \<Rightarrow> (string \<times> seed_asset_descriptor) list \<Rightarrow> outcome" where
  "require_json_seed_asset field reference declared =
     and_then (ok_or (map_of declared reference)
        (invalid field (''references undeclared seed asset '' @ debug_id reference))) (\<lambda>asset.
     check (sa_media_type asset = ''application/json'')
       (invalid field ''recipe assets must use application/json''))"

definition validate_target_verifier_gadget :: "string \<Rightarrow> gadget_descriptor \<Rightarrow> bool \<Rightarrow> outcome" where
  "validate_target_verifier_gadget field g scheduled_recipe =
     check (\<not> (gd_tier g = TierDestructive
         \<or> ge_risk (gd_effect g) \<in> {RiskHigh, RiskCritical}
         \<or> \<not> scheduled_recipe
           \<and> (\<not> ge_idempotent (gd_effect g)
              \<or> gd_tier g = TierWrite \<and> \<not> ge_reversible (gd_effect g))))
       (invalid field (''bootstrap verification must be idempotent, directly reversible when mutating, ''
          @ ''and no higher than medium risk''))"

section \<open>Facts\<close>

lemma len_le_iff: "len xs > n \<longleftrightarrow> n < int (length xs)"
  by (simp add: len_def)

lemma ensure_unique_from_ok:
  "ensure_unique_from env field seen vs = Inr u \<longleftrightarrow> distinct vs \<and> set seen \<inter> set vs = {}"
  by (induction env field seen vs rule: ensure_unique_from.induct) auto

lemma ensure_unique_ok [result_simps]: "ensure_unique env field vs = Inr u \<longleftrightarrow> distinct vs"
  by (simp add: ensure_unique_def ensure_unique_from_ok)

lemma require_known_gadget_ok [result_simps]:
  "require_known_gadget field g gadgets = Inr u \<longleftrightarrow> g \<in> set gadgets"
  by (simp add: require_known_gadget_def result_simps)

lemma validate_manifest_sha256_ok [result_simps]:
  "validate_manifest_sha256 field s = Inr u \<longleftrightarrow> is_sha256_hex s"
  by (simp add: validate_manifest_sha256_def result_simps)

lemma index_by_lookup: "map_of (index_by key xs) k = Some x \<Longrightarrow> x \<in> set xs \<and> key x = k"
proof -
  have "map_of (fold (\<lambda>x. bm_insert (key x) x) xs m) k = Some x \<Longrightarrow>
      x \<in> set xs \<and> key x = k \<or> map_of m k = Some x" for m
    by (induction xs arbitrary: m) (fastforce split: if_splits)+
  from this [of "[]"] show "map_of (index_by key xs) k = Some x \<Longrightarrow> x \<in> set xs \<and> key x = k"
    by (simp add: index_by_def)
qed

lemma index_by_dom: "map_of (index_by key xs) k \<noteq> None \<longleftrightarrow> k \<in> key ` set xs"
proof -
  have "map_of (fold (\<lambda>x. bm_insert (key x) x) xs m) k \<noteq> None \<longleftrightarrow> k \<in> key ` set xs \<or> map_of m k \<noteq> None" for m
    by (induction xs arbitrary: m) auto
  then show ?thesis by (simp add: index_by_def)
qed

lemma find_some: "List.find P xs = Some x \<Longrightarrow> x \<in> set xs \<and> P x"
  by (induction xs) (auto split: if_splits)

section \<open>Rejection without panic\<close>

text \<open>\<open>panic_free r\<close>: the result is acceptance or an error of the SDK.\<close>

definition panic_free :: "(manifest_fault, 'a) result \<Rightarrow> bool" where
  "panic_free r \<longleftrightarrow> (\<forall>m. r \<noteq> Inl (Panicked m))"

named_theorems panic_free_rules \<open>results that are not panics\<close>

lemma panic_free_Inr [panic_free_rules]: "panic_free (Inr a)"
  by (simp add: panic_free_def)

lemma panic_free_invalid [panic_free_rules]: "panic_free (Inl (invalid f r))"
  by (simp add: panic_free_def invalid_def)

lemma panic_free_Rejected [panic_free_rules]: "panic_free (Inl (Rejected e))"
  by (simp add: panic_free_def)

lemma panic_free_check [panic_free_rules]: "panic_free (check b (invalid f r))"
  by (simp add: check_def panic_free_def invalid_def)

lemma panic_free_ok_or [panic_free_rules]: "panic_free (ok_or v (invalid f r))"
  by (simp add: ok_or_def panic_free_def invalid_def split: option.splits)

lemma panic_free_expect [panic_free_rules]: "v \<noteq> None \<Longrightarrow> panic_free (expect v m)"
  by (auto simp: expect_def ok_or_def panic_free_def)

lemma panic_free_and_then [panic_free_rules]:
  "panic_free r \<Longrightarrow> (\<And>a. r = Inr a \<Longrightarrow> panic_free (k a)) \<Longrightarrow> panic_free (and_then r k)"
  by (cases r) (auto simp: panic_free_def)

lemma panic_free_all_ok_Nil [panic_free_rules]: "panic_free (all_ok [])"
  by (simp add: panic_free_def)

lemma panic_free_all_ok_Cons [panic_free_rules]:
  "panic_free r \<Longrightarrow> (r = Inr () \<Longrightarrow> panic_free (all_ok rs)) \<Longrightarrow> panic_free (all_ok (r # rs))"
  by (cases r) (auto simp: panic_free_def all_ok_Cons)

lemma panic_free_try_each [panic_free_rules]:
  "(\<And>x. x \<in> set xs \<Longrightarrow> panic_free (f x)) \<Longrightarrow> panic_free (try_each f xs)"
  by (induction xs) (auto intro!: panic_free_rules)

lemma panic_free_try_indexed [panic_free_rules]:
  "(\<And>i x. x \<in> set xs \<Longrightarrow> panic_free (f i x)) \<Longrightarrow> panic_free (try_indexed f xs)"
  unfolding try_indexed_def
  by (rule panic_free_try_each) (auto simp: in_set_enumerate_eq)

lemma panic_free_when_some [panic_free_rules]:
  "(\<And>a. v = Some a \<Longrightarrow> panic_free (f a)) \<Longrightarrow> panic_free (when_some v f)"
  by (cases v) (auto intro: panic_free_rules)

lemma panic_free_if [panic_free_rules]:
  "(b \<Longrightarrow> panic_free r) \<Longrightarrow> (\<not> b \<Longrightarrow> panic_free r') \<Longrightarrow> panic_free (if b then r else r')"
  by simp

lemma panic_free_ensure_unique [panic_free_rules]: "panic_free (ensure_unique env field vs)"
proof -
  have "panic_free (ensure_unique_from env field seen vs)" for seen
    by (induction env field seen vs rule: ensure_unique_from.induct) (auto intro: panic_free_rules)
  then show ?thesis by (simp add: ensure_unique_def)
qed

lemmas simple_check_defs = bounded_text_def bounded_nonempty_text_def validate_target_argument_def
  validate_scope_names_def validate_signed_ssh_command_def validate_source_domain_def
  validate_collection_schedule_def validate_manifest_sha256_def require_json_object_def
  require_known_gadget_def require_json_seed_asset_def validate_target_verifier_gadget_def

lemma simple_checks_panic_free [panic_free_rules]:
  "panic_free (bounded_text f s n)"
  "panic_free (bounded_nonempty_text f s n)"
  "panic_free (validate_target_argument f s)"
  "panic_free (validate_scope_names env f scopes)"
  "panic_free (validate_signed_ssh_command f s)"
  "panic_free (validate_source_domain f s)"
  "panic_free (validate_collection_schedule f s)"
  "panic_free (validate_manifest_sha256 f s)"
  "panic_free (require_json_object f v)"
  "panic_free (require_known_gadget f g gadgets)"
  "panic_free (require_json_seed_asset f a assets)"
  "panic_free (validate_target_verifier_gadget f gadget b)"
  unfolding simple_check_defs by (intro panic_free_rules)+

end
