(* ===== verification/Manifest_Schemas.thy ===== *)
theory Manifest_Schemas
  imports Manifest_Checks
begin

text \<open>
  The restricted JSON Schemas a manifest may carry: the settings form, the bootstrap parameters of a
  target and the batch contract of a row enrichment (\<open>manifest.rs\<close>, \<open>validate_settings_schema\<close> to
  \<open>validate_target_ssh_route\<close>).
\<close>

section \<open>Settings\<close>

definition encode :: "manifest_env \<Rightarrow> string \<Rightarrow> string \<Rightarrow> json \<Rightarrow> (manifest_fault, string) result" where
  "encode env field what v = map_sum (\<lambda>e. invalid field (what @ e)) id (to_vec env v)"

definition setting_value_matches_type :: "json \<Rightarrow> string \<Rightarrow> bool" where
  "setting_value_matches_type v kind =
     (if kind = ''string'' then as_str v \<noteq> None
      else if kind = ''integer'' then as_i64 v \<noteq> None \<or> as_u64 v \<noteq> None
      else if kind = ''number'' then is_number v
      else if kind = ''boolean'' then as_bool v \<noteq> None
      else False)"

abbreviation settings_field :: string where "settings_field \<equiv> ''capabilities.settings_schema''"

fun settings_required :: "json_object \<Rightarrow> nat \<Rightarrow> string list \<Rightarrow> json list \<Rightarrow> outcome" where
  "settings_required properties i seen [] = Inr ()"
| "settings_required properties i seen (v # vs) =
     and_then (ok_or (as_str v) (invalid (idx (settings_field @ ''.required'') i) ''must be a property name''))
       (\<lambda>name.
          if \<not> has_member name properties \<or> name \<in> set seen
          then Inl (invalid (idx (settings_field @ ''.required'') i) ''must name a unique declared property'')
          else settings_required properties (Suc i) (bt_insert name seen) vs)"

definition settings_enum :: "string \<Rightarrow> string \<Rightarrow> json \<Rightarrow> outcome" where
  "settings_enum field kind v =
     and_then (ok_or (case as_array v of Some (x # xs) \<Rightarrow> Some (x # xs) | _ \<Rightarrow> None)
        (invalid (field @ ''.enum'') ''must be a non-empty array'')) (\<lambda>values.
     try_each (\<lambda>x. check (setting_value_matches_type x kind)
        (invalid (field @ ''.enum'') ''enum values must match the declared scalar type'')) values)"

definition settings_property :: "manifest_env \<Rightarrow> string \<times> json \<Rightarrow> outcome" where
  "settings_property env np =
     (let name = fst np; field = settings_field @ ''.properties.'' @ name in
      and_then (case local_id_new name of
                  Inl e \<Rightarrow> Inl (invalid field (''invalid setting id: '' @ error_display env e))
                | Inr _ \<Rightarrow> Inr ()) (\<lambda>_.
      and_then (check (\<not> secret_like_name name)
         (invalid field ''secret-like settings are forbidden; declare an opaque secret reference'')) (\<lambda>_.
      and_then (ok_or (as_object (snd np)) (invalid field ''must be a leaf JSON Schema object'')) (\<lambda>property.
      and_then (try_each (\<lambda>unsupported. check (\<not> has_member unsupported property)
            (invalid (field @ ''.'' @ unsupported) ''nested/composed/write-only settings are not supported''))
          [''$ref'', ''oneOf'', ''anyOf'', ''allOf'', ''properties'', ''items'', ''writeOnly'']) (\<lambda>_.
      and_then (check (map_of property ''format'' = None)
         (invalid (field @ ''.format'')
           ''settings formats are not accepted; secret material uses secret references'')) (\<lambda>_.
      and_then (ok_or (get_as as_str ''type'' property)
         (invalid (field @ ''.type'') ''a scalar type is required'')) (\<lambda>kind.
      all_ok
       [check (kind \<in> {''string'', ''integer'', ''number'', ''boolean''})
         (invalid (field @ ''.type'') ''only string, integer, number and boolean settings are supported''),
        when_some (map_of property ''enum'') (settings_enum field kind),
        when_some (map_of property ''default'') (\<lambda>d. check (setting_value_matches_type d kind)
          (invalid (field @ ''.default'') ''default must match the declared scalar type''))])))))))"

definition validate_settings_schema :: "manifest_env \<Rightarrow> json \<Rightarrow> outcome" where
  "validate_settings_schema env schema =
     and_then (encode env settings_field ''schema cannot be encoded: '' schema) (\<lambda>encoded.
     and_then (check (\<not> len encoded > MAX_SETTINGS_SCHEMA_BYTES)
        (invalid settings_field
          (''schema must be at most '' @ show_int MAX_SETTINGS_SCHEMA_BYTES @ '' bytes''))) (\<lambda>_.
     and_then (ok_or (as_object schema) (invalid settings_field ''must be a JSON Schema object'')) (\<lambda>root.
     and_then (all_ok
       [check (get_as as_str ''type'' root = Some ''object'')
         (invalid (settings_field @ ''.type'') ''root type must be object''),
        check (get_as as_bool ''additionalProperties'' root = Some False)
         (invalid (settings_field @ ''.additionalProperties'') ''must be false''),
        try_each (\<lambda>unsupported. check (\<not> has_member unsupported root)
            (invalid (settings_field @ ''.'' @ unsupported)
              ''remote/composed settings schemas are not supported''))
          [''$ref'', ''oneOf'', ''anyOf'', ''allOf'', ''patternProperties'']]) (\<lambda>_.
     and_then (ok_or (get_as as_object ''properties'' root)
        (invalid (settings_field @ ''.properties'') ''an object of leaf properties is required'')) (\<lambda>properties.
     all_ok
      [check (\<not> len properties > MAX_SETTINGS_PROPERTIES)
        (invalid (settings_field @ ''.properties'')
          (''at most '' @ show_int MAX_SETTINGS_PROPERTIES @ '' settings may be declared'')),
       when_some (map_of root ''required'') (\<lambda>v.
         and_then (ok_or (as_array v)
            (invalid (settings_field @ ''.required'') ''must be an array of property names'')) (\<lambda>values.
         settings_required properties 0 [] values)),
       try_each (settings_property env) properties])))))"

section \<open>Closed object schemas\<close>

definition validate_closed_object_schema :: "manifest_env \<Rightarrow> string \<Rightarrow> json \<Rightarrow> outcome" where
  "validate_closed_object_schema env field schema =
     and_then (require_json_object field schema) (\<lambda>_.
     and_then (encode env field ''schema cannot be encoded: '' schema) (\<lambda>encoded.
     and_then (check (\<not> len encoded > MAX_SETTINGS_SCHEMA_BYTES)
        (invalid field (''schema must be at most '' @ show_int MAX_SETTINGS_SCHEMA_BYTES @ '' bytes''))) (\<lambda>_.
     and_then (expect (as_object schema) ''object checked above'') (\<lambda>root.
     check (\<not> (get_as as_str ''type'' root \<noteq> Some ''object''
               \<or> get_as as_bool ''additionalProperties'' root \<noteq> Some False))
       (invalid field ''must be a closed object schema with additionalProperties = false'')))))"

definition bootstrap_property :: "string \<Rightarrow> string \<times> json \<Rightarrow> outcome" where
  "bootstrap_property field np =
     (let name = fst np; path = field @ ''.properties.'' @ name in
      and_then (validate_target_argument path name) (\<lambda>_.
      and_then (check (\<not> secret_like_name name)
         (invalid path ''secret-like bootstrap parameters are forbidden; Core owns credential input'')) (\<lambda>_.
      and_then (ok_or (as_object (snd np)) (invalid path ''must be a scalar schema object'')) (\<lambda>property.
      all_ok
       [check (get_as as_str ''type'' property
            \<in> {Some ''string'', Some ''integer'', Some ''number'', Some ''boolean''})
         (invalid (path @ ''.type'') ''only scalar bootstrap parameters are supported''),
        check (\<not> list_ex (\<lambda>key. key
            \<in> {''properties'', ''items'', ''oneOf'', ''anyOf'', ''allOf'', ''writeOnly''}) (map fst property))
         (invalid path ''nested, composed and write-only bootstrap parameters are not supported'')]))))"

definition validate_target_bootstrap_schema :: "manifest_env \<Rightarrow> string \<Rightarrow> json \<Rightarrow> string \<Rightarrow> outcome" where
  "validate_target_bootstrap_schema env field schema target_argument =
     and_then (require_json_object field schema) (\<lambda>_.
     and_then (encode env field ''schema cannot be encoded: '' schema) (\<lambda>encoded.
     and_then (check (\<not> len encoded > MAX_SETTINGS_SCHEMA_BYTES)
        (invalid field (''schema must be at most '' @ show_int MAX_SETTINGS_SCHEMA_BYTES @ '' bytes''))) (\<lambda>_.
     and_then (expect (as_object schema) ''object checked above'') (\<lambda>root.
     and_then (check (\<not> (get_as as_str ''type'' root \<noteq> Some ''object''
               \<or> get_as as_bool ''additionalProperties'' root \<noteq> Some False))
        (invalid field ''must be a closed object schema with additionalProperties = false'')) (\<lambda>_.
     and_then (ok_or (get_as as_object ''properties'' root)
        (invalid field ''properties must be an object'')) (\<lambda>properties.
     all_ok
      [check (\<not> len properties > MAX_SETTINGS_PROPERTIES)
        (invalid (field @ ''.properties'')
          (''at most '' @ show_int MAX_SETTINGS_PROPERTIES @ '' bootstrap parameters may be declared'')),
       check (\<not> has_member target_argument properties)
        (invalid (field @ ''.properties.'' @ target_argument)
          ''the Core-injected target argument must not be user supplied''),
       try_each (bootstrap_property field) properties,
       when_some (map_of root ''required'') (\<lambda>v.
         and_then (ok_or (as_array v) (invalid (field @ ''.required'') ''must be an array'')) (\<lambda>required.
         try_indexed (\<lambda>i name_value.
           and_then (ok_or (as_str name_value)
              (invalid (idx (field @ ''.required'') i) ''must be a property name'')) (\<lambda>name.
           check (has_member name properties)
             (invalid (idx (field @ ''.required'') i) ''references an undeclared property''))) required))]))))))"

section \<open>Row enrichment\<close>

text \<open>\<open>map[k]\<close> panics when the member is missing.\<close>

definition index_member :: "string \<Rightarrow> json_object \<Rightarrow> (manifest_fault, json) result" where
  "index_member k ms = expect (map_of ms k) ''no entry found for key''"

definition subject_names :: "bool \<Rightarrow> string list" where
  "subject_names output = (if output then [''id'', ''revision'', ''status'', ''data''] else [''id'', ''revision''])"

definition has_type :: "json \<Rightarrow> string \<Rightarrow> bool" where
  "has_type v kind \<longleftrightarrow> Option.bind (value_get ''type'' v) as_str = Some kind"

definition enrichment_output_ok :: "json \<Rightarrow> json \<Rightarrow> bool" where
  "enrichment_output_ok status data \<longleftrightarrow>
     \<not> (\<not> has_type status ''string''
        \<or> \<not> (case Option.bind (value_get ''enum'' status) as_array of
               Some [v] \<Rightarrow> as_str v = Some ''ready''
             | _ \<Rightarrow> False)
        \<or> \<not> has_type data ''object'')"

definition enrichment_items :: "string \<Rightarrow> bool \<Rightarrow> json_object \<Rightarrow> outcome" where
  "enrichment_items field output item =
     (let expected = subject_names output in
      and_then (check (\<not> (get_as as_str ''type'' item \<noteq> Some ''object''
                \<or> get_as as_bool ''additionalProperties'' item \<noteq> Some False))
         (invalid field ''subjects items must be closed object schemas'')) (\<lambda>_.
      and_then (ok_or (get_as as_object ''properties'' item)
         (invalid field ''subjects items need properties'')) (\<lambda>item_properties.
      and_then (check (\<not> (length item_properties \<noteq> length expected
                \<or> list_ex (\<lambda>name. \<not> has_member name item_properties) expected))
         (invalid field (''subjects items must declare exactly '' @ join_with '', '' expected))) (\<lambda>_.
      and_then (ok_or (get_as as_array ''required'' item)
         (invalid field ''subjects item fields must be required'')) (\<lambda>item_required.
      and_then (check (\<not> (length item_required \<noteq> length expected
                \<or> list_ex (\<lambda>name. \<not> list_ex (\<lambda>required. as_str required = Some name) item_required) expected))
         (invalid field ''every subjects item field must be required'')) (\<lambda>_.
      and_then (try_each (\<lambda>name. and_then (index_member name item_properties) (\<lambda>v.
            check (has_type v ''string'')
              (invalid field (''subjects item '' @ name @ '' must be a string''))))
          [''id'', ''revision'']) (\<lambda>_.
      if \<not> output then Inr ()
      else and_then (index_member ''status'' item_properties) (\<lambda>status.
           and_then (index_member ''data'' item_properties) (\<lambda>data.
           check (enrichment_output_ok status data)
             (invalid field ''output subjects require status enum [ready] and object data''))))))))))"

definition validate_row_enrichment_gadget_schema :: "manifest_env \<Rightarrow> string \<Rightarrow> json \<Rightarrow> bool \<Rightarrow> outcome" where
  "validate_row_enrichment_gadget_schema env field schema output =
     and_then (validate_closed_object_schema env field schema) (\<lambda>_.
     and_then (expect (as_object schema) ''closed object checked above'') (\<lambda>root.
     and_then (ok_or (get_as as_object ''properties'' root)
        (invalid field ''must declare object properties'')) (\<lambda>properties.
     and_then (check (\<not> (length properties \<noteq> 1 \<or> \<not> has_member ''subjects'' properties))
        (invalid field ''must declare only the subjects batch property'')) (\<lambda>_.
     and_then (ok_or (get_as as_array ''required'' root)
        (invalid field ''subjects must be required'')) (\<lambda>required.
     and_then (check (case required of [v] \<Rightarrow> as_str v = Some ''subjects'' | _ \<Rightarrow> False)
        (invalid field ''subjects must be the only required property'')) (\<lambda>_.
     and_then (index_member ''subjects'' properties) (\<lambda>subjects_value.
     and_then (ok_or (as_object subjects_value) (invalid field ''subjects must be an array schema'')) (\<lambda>subjects.
     and_then (check (\<not> (get_as as_str ''type'' subjects \<noteq> Some ''array''
               \<or> \<not> (case get_as as_u64 ''maxItems'' subjects of
                      Some limit \<Rightarrow> 1 \<le> limit \<and> limit \<le> MAX_ROW_ENRICHMENT_SUBJECTS
                    | None \<Rightarrow> False)))
        (invalid field (''subjects must be an array bounded to at most ''
           @ show_int MAX_ROW_ENRICHMENT_SUBJECTS @ '' items''))) (\<lambda>_.
     and_then (ok_or (get_as as_object ''items'' subjects)
        (invalid field ''subjects items must be objects'')) (\<lambda>item.
     enrichment_items field output item))))))))))"

section \<open>The route to a nested target\<close>

definition validate_target_ssh_route :: "manifest_env \<Rightarrow> string \<Rightarrow> target_ssh_route \<Rightarrow> json \<Rightarrow> string \<Rightarrow> outcome" where
  "validate_target_ssh_route env field route schema target_argument =
     (let activation = activation_parameter route; parent = parent_target_parameter route in
      and_then (all_ok
       [validate_target_argument (field @ ''.activation_parameter'') activation,
        validate_target_argument (field @ ''.parent_target_parameter'') parent,
        bounded_nonempty_text (field @ ''.activation_value'') (activation_value route) MAX_SHORT_TEXT,
        check (\<not> (activation = parent \<or> activation = target_argument \<or> parent = target_argument))
         (invalid field ''route parameters and the Core-injected target argument must be distinct'')]) (\<lambda>_.
      and_then (expect (as_object schema) ''bootstrap schema was validated as an object'') (\<lambda>root.
      and_then (expect (get_as as_object ''properties'' root)
         ''bootstrap schema properties were validated'') (\<lambda>properties.
      and_then (ok_or (get_as as_object activation properties)
         (invalid (field @ ''.activation_parameter'')
           ''must reference a declared scalar bootstrap property'')) (\<lambda>activation_property.
      and_then (check (\<not> (get_as as_str ''type'' activation_property \<noteq> Some ''string''
                \<or> \<not> (case get_as as_array ''enum'' activation_property of
                       Some values \<Rightarrow> list_ex (\<lambda>v. as_str v = Some (activation_value route)) values
                     | None \<Rightarrow> False)))
         (invalid (field @ ''.activation_value'')
           (''must be a member of the activation property'' @ CHR 0x27 # ''s string enum''))) (\<lambda>_.
      and_then (ok_or (get_as as_object parent properties)
         (invalid (field @ ''.parent_target_parameter'')
           ''must reference a declared scalar bootstrap property'')) (\<lambda>parent_property.
      and_then (check (get_as as_str ''type'' parent_property = Some ''string'')
         (invalid (field @ ''.parent_target_parameter'') ''must reference a string bootstrap property'')) (\<lambda>_.
      and_then (ok_or (get_as as_array ''required'' root)
         (invalid field ''route parameters must be required'')) (\<lambda>required.
      try_each (\<lambda>parameter. check (list_ex (\<lambda>v. as_str v = Some parameter) required)
          (invalid field (''route parameter '' @ debug_str env parameter @ '' must be required'')))
        [activation, parent])))))))))"

section \<open>No panics\<close>

lemma encode_panic_free [panic_free_rules]: "panic_free (encode env field what v)"
  by (cases "to_vec env v") (simp_all add: encode_def panic_free_def invalid_def)

lemma required_panic_free [panic_free_rules]: "panic_free (settings_required ps i seen vs)"
  by (induction ps i seen vs rule: settings_required.induct) (auto intro!: panic_free_rules)

lemma settings_schema_panic_free [panic_free_rules]: "panic_free (validate_settings_schema env schema)"
  unfolding validate_settings_schema_def settings_property_def settings_enum_def Let_def
  by (intro panic_free_rules) (auto intro: panic_free_rules split: sum.splits)

lemma require_json_object_ok: "require_json_object field v = Inr u \<longleftrightarrow> (\<exists>ms. v = JObject ms)"
  by (cases v) (auto simp: require_json_object_def result_simps as_object_def)

lemma closed_schema_panic_free [panic_free_rules]: "panic_free (validate_closed_object_schema env f v)"
  unfolding validate_closed_object_schema_def
  by (intro panic_free_rules) (auto simp: require_json_object_ok)

lemma closed_schema_object: "validate_closed_object_schema env f v = Inr u \<Longrightarrow> \<exists>ms. v = JObject ms"
  by (auto simp: validate_closed_object_schema_def result_simps require_json_object_ok)

lemma bootstrap_schema_panic_free [panic_free_rules]:
  "panic_free (validate_target_bootstrap_schema env f v arg)"
  unfolding validate_target_bootstrap_schema_def bootstrap_property_def Let_def
  by (intro panic_free_rules) (auto simp: require_json_object_ok)

lemma bootstrap_schema_object:
  "validate_target_bootstrap_schema env f v arg = Inr u \<Longrightarrow>
     \<exists>ms ps. v = JObject ms \<and> get_as as_object ''properties'' ms = Some ps \<and> \<not> has_member arg ps"
  unfolding validate_target_bootstrap_schema_def expect_def
  by (auto simp: result_simps)

lemma index_member_panic_free: "has_member k ms \<Longrightarrow> panic_free (index_member k ms)"
  by (simp add: index_member_def has_member_iff panic_free_expect)

lemma enrichment_items_panic_free [panic_free_rules]: "panic_free (enrichment_items field output item)"
  unfolding enrichment_items_def Let_def
  by (intro panic_free_rules index_member_panic_free)
    (auto simp: result_simps subject_names_def split: if_splits)

lemma row_enrichment_panic_free [panic_free_rules]:
  "panic_free (validate_row_enrichment_gadget_schema env field schema output)"
  unfolding validate_row_enrichment_gadget_schema_def
  by (intro panic_free_rules index_member_panic_free)
    (auto simp: result_simps dest: closed_schema_object)

lemma ssh_route_panic_free:
  "validate_target_bootstrap_schema env f v arg = Inr u \<Longrightarrow> panic_free (validate_target_ssh_route env f' route v arg)"
  unfolding validate_target_ssh_route_def Let_def
  by (intro panic_free_rules) (auto simp: expect_def result_simps dest: bootstrap_schema_object)

section \<open>What an accepted settings schema declares\<close>

text \<open>
  The form such a schema describes: an object whose members are scalars.  Every setting has a kebab-case
  name that does not look like a secret, a scalar type, and neither nested members nor a default or
  choice of another type; the required settings are declared ones, each named once.
\<close>

definition scalar_setting :: "string \<times> json \<Rightarrow> bool" where
  "scalar_setting np \<longleftrightarrow>
     validate_kebab_id (fst np) = Inr () \<and> \<not> secret_like_name (fst np)
     \<and> (\<exists>property kind. snd np = JObject property \<and> map_of property ''type'' = Some (JString kind)
          \<and> kind \<in> {''string'', ''integer'', ''number'', ''boolean''}
          \<and> map_of property ''properties'' = None \<and> map_of property ''items'' = None
          \<and> map_of property ''$ref'' = None
          \<and> (\<forall>d. map_of property ''default'' = Some d \<longrightarrow> setting_value_matches_type d kind)
          \<and> (\<forall>vs. map_of property ''enum'' = Some (JArray vs) \<longrightarrow>
               vs \<noteq> [] \<and> (\<forall>v \<in> set vs. setting_value_matches_type v kind)))"

lemma settings_required_ok:
  "settings_required ps i seen vs = Inr u \<Longrightarrow>
     \<exists>names. vs = map JString names \<and> distinct names \<and> set seen \<inter> set names = {}
       \<and> set names \<subseteq> fst ` set ps"
proof (induction ps i seen vs rule: settings_required.induct)
  case (2 ps i seen v vs)
  from 2(2) obtain name where name: "v = JString name" "has_member name ps" "name \<notin> set seen"
    "settings_required ps (Suc i) (bt_insert name seen) vs = Inr u"
    by (auto simp: result_simps split: if_splits)
  from 2(1) [of name] name obtain names where names: "vs = map JString names" "distinct names"
    "set (bt_insert name seen) \<inter> set names = {}" "set names \<subseteq> fst ` set ps"
    by (auto simp: as_str_def)
  with name show ?case
    by (intro exI [of _ "name # names"]) (auto simp: has_member_def)
qed simp

lemma settings_enum_ok:
  "settings_enum field kind v = Inr u \<Longrightarrow>
     \<exists>vs. v = JArray vs \<and> vs \<noteq> [] \<and> (\<forall>x \<in> set vs. setting_value_matches_type x kind)"
  by (cases v) (auto simp: settings_enum_def result_simps as_array_def split: list.splits)

lemma settings_property_ok:
  assumes "settings_property env np = Inr u"
  shows "scalar_setting np"
proof -
  obtain name v where np: "np = (name, v)" by (cases np)
  define field where "field = settings_field @ ''.properties.'' @ name"
  from assms obtain property kind where
    name: "local_id_new name = Inr name" "\<not> secret_like_name name"
    and property: "v = JObject property" "map_of property ''type'' = Some (JString kind)"
    and plain: "\<forall>k \<in> {''$ref'', ''properties'', ''items''}. \<not> has_member k property"
    and kind: "kind \<in> {''string'', ''integer'', ''number'', ''boolean''}"
    and enum: "\<forall>x. map_of property ''enum'' = Some x \<longrightarrow> settings_enum field kind x = Inr ()"
    and default: "\<forall>d. map_of property ''default'' = Some d \<longrightarrow> setting_value_matches_type d kind"
    unfolding settings_property_def Let_def np fst_conv snd_conv field_def [symmetric]
    by (auto simp: result_simps get_as_eq_Some local_id_new_def string_newtype_new_eq_Inr
        split: sum.splits simp del: insert_iff)
  from enum have "\<forall>vs. map_of property ''enum'' = Some (JArray vs) \<longrightarrow>
      vs \<noteq> [] \<and> (\<forall>x \<in> set vs. setting_value_matches_type x kind)"
    by (auto dest: settings_enum_ok)
  with name property plain kind default show ?thesis
    by (simp add: scalar_setting_def np has_member_iff local_id_new_def string_newtype_new_eq_Inr)
qed

end
