(* ===== verification/Manifest_Capabilities.thy ===== *)
theory Manifest_Capabilities
  imports Manifest_Schemas
begin

text \<open>
  Validation of the capabilities a Bundle declares: \<open>BundleCapabilities::validate\<close> and
  \<open>UiContributionDescriptor::validate\<close> of \<open>manifest.rs\<close>.  The function of the source is one sequence of
  loops; each loop body is a definition here, \<open>capabilities_validate\<close> is the sequence.  The maps and sets
  the source builds before the loops are the functions \<open>gadget_names\<close> to \<open>workspace_contributions\<close>.
\<close>

abbreviation MAX_PUBLIC_CAPABILITIES :: int where "MAX_PUBLIC_CAPABILITIES \<equiv> 128"
abbreviation MAX_COLLECTION_PROFILES :: int where "MAX_COLLECTION_PROFILES \<equiv> 64"
abbreviation MAX_AGENT_ROLES :: int where "MAX_AGENT_ROLES \<equiv> 64"
abbreviation MAX_EVENT_JOBS :: int where "MAX_EVENT_JOBS \<equiv> 64"
abbreviation MAX_ROW_ENRICHMENTS :: int where "MAX_ROW_ENRICHMENTS \<equiv> 64"
abbreviation MAX_KNOWLEDGE_EVENTS :: int where "MAX_KNOWLEDGE_EVENTS \<equiv> 64"
abbreviation MAX_UI_CONTRIBUTIONS :: int where "MAX_UI_CONTRIBUTIONS \<equiv> 256"
abbreviation MAX_COLLECTION_SOURCES :: int where "MAX_COLLECTION_SOURCES \<equiv> 100"
abbreviation MAX_COLLECTION_BYTES :: int where "MAX_COLLECTION_BYTES \<equiv> 1073741824"
abbreviation MAX_COLLECTION_WALL_SECONDS :: int where "MAX_COLLECTION_WALL_SECONDS \<equiv> 3600"
abbreviation MAX_GENERATED_TARGET_PREFIX :: int where "MAX_GENERATED_TARGET_PREFIX \<equiv> 51"
abbreviation MIN_UI_REFRESH_SECONDS :: int where "MIN_UI_REFRESH_SECONDS \<equiv> 5"
abbreviation MAX_UI_REFRESH_SECONDS :: int where "MAX_UI_REFRESH_SECONDS \<equiv> 3600"
abbreviation MIN_UI_ORDER_HINT :: int where "MIN_UI_ORDER_HINT \<equiv> - 10000"
abbreviation MAX_UI_ORDER_HINT :: int where "MAX_UI_ORDER_HINT \<equiv> 10000"

section \<open>Sizes and unique identifiers\<close>

definition at_most :: "string \<Rightarrow> int \<Rightarrow> string \<Rightarrow> 'a list \<Rightarrow> outcome" where
  "at_most field limit what xs =
     check (\<not> len xs > limit)
       (invalid field (''at most '' @ show_int limit @ '' '' @ what @ '' may be declared''))"

definition event_route :: "event_job_descriptor \<Rightarrow> string" where
  "event_route e = ej_subject_owner_bundle e @ '':'' @ ej_subject_kind e @ '':'' @ ej_event_kind e"

definition knowledge_event_route :: "knowledge_event_descriptor \<Rightarrow> string" where
  "knowledge_event_route e = ke_subject_kind e @ '':'' @ ke_event_kind e"

definition capabilities_unique :: "manifest_env \<Rightarrow> 'v bundle_capabilities \<Rightarrow> outcome" where
  "capabilities_unique env c =
     all_ok
      [at_most ''capabilities.provides'' MAX_PUBLIC_CAPABILITIES ''public capabilities'' (ca_provides c),
       ensure_unique env ''capabilities.provides[].id'' (map cap_id (ca_provides c)),
       try_indexed (\<lambda>i capability.
         bounded_nonempty_text (idx ''capabilities.provides'' i @ ''.description'') (cap_description capability)
           MAX_DESCRIPTION) (ca_provides c),
       ensure_unique env ''capabilities.gadget_namespaces'' (ca_gadget_namespaces c),
       ensure_unique env ''capabilities.domain_schemas[].id'' (map ds_id (ca_domain_schemas c)),
       ensure_unique env ''capabilities.gadgets[].name'' (map gd_name (ca_gadgets c)),
       ensure_unique env ''capabilities.source_connectors[].id'' (map sc_id (ca_source_connectors c)),
       at_most ''capabilities.collection_profiles'' MAX_COLLECTION_PROFILES ''collection profiles''
         (ca_collection_profiles c),
       ensure_unique env ''capabilities.collection_profiles[].id'' (map cp_id (ca_collection_profiles c)),
       at_most ''capabilities.agent_roles'' MAX_AGENT_ROLES ''AI roles'' (ca_agent_roles c),
       ensure_unique env ''capabilities.agent_roles[].id'' (map kr_id (ca_agent_roles c)),
       ensure_unique env ''capabilities.target_profiles[].id'' (map tp_id (ca_target_profiles c)),
       ensure_unique env ''capabilities.jobs[].id'' (map jr_id (ca_jobs c)),
       at_most ''capabilities.event_jobs'' MAX_EVENT_JOBS ''event jobs'' (ca_event_jobs c),
       ensure_unique env ''capabilities.event_jobs[].id'' (map ej_id (ca_event_jobs c)),
       ensure_unique env ''capabilities.event_jobs[].route'' (map event_route (ca_event_jobs c)),
       at_most ''capabilities.knowledge_events'' MAX_KNOWLEDGE_EVENTS ''Knowledge events''
         (ca_knowledge_events c),
       ensure_unique env ''capabilities.knowledge_events[].id'' (map ke_id (ca_knowledge_events c)),
       ensure_unique env ''capabilities.knowledge_events[].route''
         (map knowledge_event_route (ca_knowledge_events c)),
       at_most ''capabilities.row_enrichments'' MAX_ROW_ENRICHMENTS ''row enrichments'' (ca_row_enrichments c),
       ensure_unique env ''capabilities.row_enrichments[].id'' (map re_id (ca_row_enrichments c)),
       ensure_unique env ''capabilities.policy_hints[].id'' (map ph_id (ca_policy_hints c)),
       ensure_unique env ''capabilities.workspaces[].id'' (map wd_id (ca_workspaces c)),
       ensure_unique env ''capabilities.ui_contributions[].id'' (map ui_id (ca_ui_contributions c)),
       ensure_unique env ''capabilities.seed_assets[].id'' (map sa_id (ca_seed_assets c)),
       ensure_unique env ''capabilities.migrations[].id'' (map mi_id (ca_migrations c))]"

section \<open>The sets and maps of declarations\<close>

definition gadget_names :: "'v bundle_capabilities \<Rightarrow> string list" where
  "gadget_names c = bt_of_list (map gd_name (ca_gadgets c))"

definition gadget_descriptors :: "'v bundle_capabilities \<Rightarrow> (string \<times> gadget_descriptor) list" where
  "gadget_descriptors c = index_by gd_name (ca_gadgets c)"

definition workspaces_by_id :: "'v bundle_capabilities \<Rightarrow> (string \<times> workspace_descriptor) list" where
  "workspaces_by_id c = index_by wd_id (ca_workspaces c)"

definition job_ids :: "'v bundle_capabilities \<Rightarrow> string list" where
  "job_ids c = bt_of_list (map jr_id (ca_jobs c))"

definition target_profiles_by_id :: "'v bundle_capabilities \<Rightarrow> (string \<times> target_profile_descriptor) list" where
  "target_profiles_by_id c = index_by tp_id (ca_target_profiles c)"

definition domain_schema_ids :: "'v bundle_capabilities \<Rightarrow> string list" where
  "domain_schema_ids c = bt_of_list (map ds_id (ca_domain_schemas c))"

definition seed_assets_by_id :: "'v bundle_capabilities \<Rightarrow> (string \<times> seed_asset_descriptor) list" where
  "seed_assets_by_id c = index_by sa_id (ca_seed_assets c)"

definition collection_profiles_by_id ::
  "'v bundle_capabilities \<Rightarrow> (string \<times> collection_profile_descriptor) list" where
  "collection_profiles_by_id c = index_by cp_id (ca_collection_profiles c)"

definition workspace_contributions :: "'v bundle_capabilities \<Rightarrow> string list" where
  "workspace_contributions c =
     bt_of_list (List.map_filter ui_workspace (filter (\<lambda>u. ui_kind u = UiWorkspace) (ca_ui_contributions c)))"

section \<open>Gadgets and sources\<close>

definition validate_domain_schema :: "nat \<Rightarrow> domain_schema_descriptor \<Rightarrow> outcome" where
  "validate_domain_schema i schema =
     (let path = idx ''capabilities.domain_schemas'' i in
      all_ok
       [check (ds_version schema \<noteq> 0) (invalid (path @ ''.version'') ''schema versions begin at 1''),
        validate_manifest_sha256 (path @ ''.sha256'') (ds_sha256 schema)])"

definition validate_gadget :: "'v bundle_capabilities \<Rightarrow> nat \<Rightarrow> gadget_descriptor \<Rightarrow> outcome" where
  "validate_gadget c i g =
     (let path = idx ''capabilities.gadgets'' i in
      all_ok
       [check (gadget_namespace (gd_name g) \<in> set (bt_of_list (ca_gadget_namespaces c)))
         (invalid (path @ ''.name'')
           (''namespace '' @ debug_id (gadget_namespace (gd_name g)) @ '' is not declared in gadget_namespaces'')),
        bounded_nonempty_text (path @ ''.description'') (gd_description g) MAX_DESCRIPTION,
        require_json_object (path @ ''.input_schema'') (gd_input_schema g),
        require_json_object (path @ ''.output_schema'') (gd_output_schema g),
        try_each (\<lambda>(field, reference). when_some reference (\<lambda>r.
            require_known_gadget (path @ ''.effect.'' @ field) r (gadget_names c)))
          [(''outcome_gadget'', ge_outcome_gadget (gd_effect g)),
           (''rollback_gadget'', ge_rollback_gadget (gd_effect g))]])"

definition validate_source_connector ::
  "'v bundle_capabilities \<Rightarrow> nat \<Rightarrow> source_connector_descriptor \<Rightarrow> outcome" where
  "validate_source_connector c i s =
     (let path = idx ''capabilities.source_connectors'' i in
      all_ok
       [bounded_nonempty_text (path @ ''.description'') (sc_description s) MAX_DESCRIPTION,
        require_known_gadget (path @ ''.gadget'') (sc_gadget s) (gadget_names c),
        require_json_object (path @ ''.output_schema'') (sc_output_schema s)])"

definition validate_query_provider ::
  "collection_profile_descriptor \<Rightarrow> string \<Rightarrow> nat \<Rightarrow> collection_query_provider \<Rightarrow> outcome" where
  "validate_query_provider profile path i p =
     (let provider_path = idx (path @ ''.query_providers'') i in
      all_ok
       [bounded_nonempty_text (provider_path @ ''.label'') (qp_label p) MAX_SHORT_TEXT,
        bounded_nonempty_text (provider_path @ ''.description'') (qp_description p) MAX_DESCRIPTION,
        try_each (\<lambda>(field, v). bounded_nonempty_text (provider_path @ ''.'' @ field) v MAX_SHORT_TEXT)
          [(''scope_label'', qp_scope_label p), (''scope_placeholder'', qp_scope_placeholder p),
           (''default_scope'', qp_default_scope p)],
        try_each (\<lambda>(field, v). when_some v (\<lambda>v.
            bounded_nonempty_text (provider_path @ ''.'' @ field) v MAX_SHORT_TEXT))
          [(''query_label'', qp_query_label p), (''query_placeholder'', qp_query_placeholder p)],
        check (list_ex (\<lambda>source_class. source_class = qp_source_class p) (cp_source_classes profile))
         (invalid (provider_path @ ''.source_class'') ''must reference one of the profile source_classes''),
        check (\<not> (qp_max_window_days p = 0 \<or> qp_max_window_days p > 3650))
         (invalid (provider_path @ ''.max_window_days'') ''must be between 1 and 3650 days'')])"

definition collection_budget_ok :: "collection_budget \<Rightarrow> bool" where
  "collection_budget_ok b \<longleftrightarrow>
     \<not> (cb_max_sources b = 0 \<or> cb_max_bytes b = 0 \<or> cb_max_wall_seconds b = 0
        \<or> uint (cb_max_sources b) > MAX_COLLECTION_SOURCES \<or> uint (cb_max_bytes b) > MAX_COLLECTION_BYTES
        \<or> uint (cb_max_wall_seconds b) > MAX_COLLECTION_WALL_SECONDS)"

definition validate_collection_profile ::
  "manifest_env \<Rightarrow> 'v bundle_capabilities \<Rightarrow> nat \<Rightarrow> collection_profile_descriptor \<Rightarrow> outcome" where
  "validate_collection_profile env c i p =
     (let path = idx ''capabilities.collection_profiles'' i in
      all_ok
       [bounded_nonempty_text (path @ ''.label'') (cp_label p) MAX_SHORT_TEXT,
        bounded_nonempty_text (path @ ''.description'') (cp_description p) MAX_DESCRIPTION,
        check (cp_source_classes p \<noteq> [])
         (invalid (path @ ''.source_classes'') ''at least one source class is required''),
        ensure_unique env (path @ ''.source_classes'') (cp_source_classes p),
        ensure_unique env (path @ ''.query_providers[].id'') (map qp_id (cp_query_providers p)),
        try_indexed (validate_query_provider p path) (cp_query_providers p),
        ensure_unique env (path @ ''.allowlisted_domains'') (cp_allowlisted_domains p),
        try_indexed (\<lambda>i domain. validate_source_domain (idx (path @ ''.allowlisted_domains'') i) domain)
          (cp_allowlisted_domains p),
        ensure_unique env (path @ ''.extractor_hints'') (cp_extractor_hints p),
        check (60 \<le> cp_freshness_seconds p \<and> cp_freshness_seconds p \<le> 31536000)
         (invalid (path @ ''.freshness_seconds'') ''must be between 60 seconds and 365 days''),
        when_some (cp_schedule p) (\<lambda>schedule. all_ok
          [bounded_nonempty_text (path @ ''.schedule'') schedule MAX_SHORT_TEXT,
           validate_collection_schedule (path @ ''.schedule'') schedule]),
        check (collection_budget_ok (cp_budget p))
         (invalid (path @ ''.budget'')
           (''must fit Core bounds: sources 1..='' @ show_int MAX_COLLECTION_SOURCES @ '', bytes 1..=''
             @ show_int MAX_COLLECTION_BYTES @ '', wall seconds 1..='' @ show_int MAX_COLLECTION_WALL_SECONDS)),
        require_json_seed_asset (path @ ''.recipe_asset'') (cp_recipe_asset p) (seed_assets_by_id c)])"

section \<open>Roles, targets and jobs\<close>

definition validate_followup_role ::
  "'v bundle_capabilities \<Rightarrow> string \<Rightarrow> knowledge_agent_role \<Rightarrow> string \<Rightarrow> outcome" where
  "validate_followup_role c path role followup_role =
     and_then (check (kr_core_role role = Researcher)
        (invalid (path @ ''.followup_role'') ''only a researcher role may declare a follow-up role'')) (\<lambda>_.
     and_then (ok_or (List.find (\<lambda>candidate. kr_id candidate = followup_role) (ca_agent_roles c))
        (invalid (path @ ''.followup_role'')
          (''references undeclared Knowledge role '' @ debug_id followup_role))) (\<lambda>followup.
     check (kr_core_role followup = Gardener)
       (invalid (path @ ''.followup_role'') ''must reference a gardener role in the same package'')))"

definition validate_agent_role :: "'v bundle_capabilities \<Rightarrow> nat \<Rightarrow> knowledge_agent_role \<Rightarrow> outcome" where
  "validate_agent_role c i role =
     (let path = idx ''capabilities.agent_roles'' i in
      and_then (all_ok
       [bounded_nonempty_text (path @ ''.label'') (kr_label role) MAX_SHORT_TEXT,
        bounded_nonempty_text (path @ ''.description'') (kr_description role) MAX_DESCRIPTION,
        bounded_nonempty_text (path @ ''.prompt_contract_revision'') (kr_prompt_contract_revision role) 64]) (\<lambda>_.
      and_then (ok_or (List.find (\<lambda>candidate. jr_id candidate = kr_job role) (ca_jobs c))
         (invalid (path @ ''.job'') (''references undeclared job '' @ debug_id (kr_job role)))) (\<lambda>job.
      all_ok
       [check (jr_role job = kr_core_role role)
         (invalid (path @ ''.core_role'') ''must match the referenced job role''),
        check (kr_core_role role \<noteq> Operator)
         (invalid (path @ ''.core_role'') ''operator jobs are operational actions, not Knowledge AI roles''),
        require_json_seed_asset (path @ ''.recipe_asset'') (kr_recipe_asset role) (seed_assets_by_id c),
        when_some (kr_collection_profile role) (\<lambda>profile.
          check (map_of (collection_profiles_by_id c) profile \<noteq> None)
            (invalid (path @ ''.collection_profile'')
              (''references undeclared collection profile '' @ debug_id profile))),
        when_some (kr_followup_role role) (validate_followup_role c path role)])))"

definition validate_verification ::
  "'v bundle_capabilities \<Rightarrow> string \<Rightarrow> target_profile_descriptor \<Rightarrow> outcome" where
  "validate_verification c path profile =
     (case (tp_verification_gadget profile, tp_verification_job profile) of
        (Some g, None) \<Rightarrow>
          and_then (require_known_gadget (path @ ''.verification_gadget'') g (gadget_names c)) (\<lambda>_.
          and_then (expect (map_of (gadget_descriptors c) g) ''known Gadget has a descriptor'') (\<lambda>descriptor.
          validate_target_verifier_gadget (path @ ''.verification_gadget'') descriptor False))
      | (None, Some job) \<Rightarrow>
          (case List.find (\<lambda>candidate. jr_id candidate = job) (ca_jobs c) of
             Some recipe \<Rightarrow>
               if jr_target_registry recipe = Some (tp_registry profile)
                  \<and> jr_target_profile recipe = Some (tp_id profile)
               then try_indexed (\<lambda>i g.
                      let field = idx (path @ ''.verification_job.gadget_allowlist'') i in
                      and_then (ok_or (map_of (gadget_descriptors c) g)
                         (invalid field (''references undeclared Gadget '' @ debug_id g))) (\<lambda>descriptor.
                      validate_target_verifier_gadget field descriptor True)) (jr_gadget_allowlist recipe)
               else Inl (invalid (path @ ''.verification_job'')
                      ''must use the same target registry and target profile'')
           | None \<Rightarrow> Inl (invalid (path @ ''.verification_job'')
               (''references undeclared job '' @ debug_id job)))
      | _ \<Rightarrow> Inl (invalid path ''exactly one verification_gadget or verification_job is required''))"

definition validate_setup_reapply ::
  "manifest_env \<Rightarrow> 'v bundle_capabilities \<Rightarrow> string \<Rightarrow> target_profile_descriptor \<Rightarrow> outcome" where
  "validate_setup_reapply env c path profile =
     (case (tp_setup_reapply_gadget profile, tp_setup_reapply_input_schema profile) of
        (Some g, Some schema) \<Rightarrow>
          and_then (require_known_gadget (path @ ''.setup_reapply_gadget'') g (gadget_names c)) (\<lambda>_.
          and_then (expect (map_of (gadget_descriptors c) g) ''known Gadget has a descriptor'') (\<lambda>descriptor.
          and_then (check (\<not> (gd_tier descriptor \<noteq> TierWrite \<or> \<not> ge_idempotent (gd_effect descriptor)
                    \<or> ge_risk (gd_effect descriptor) \<in> {RiskHigh, RiskCritical}))
             (invalid (path @ ''.setup_reapply_gadget'')
               ''setup receipt Gadget must be idempotent write-tier and no higher than medium risk'')) (\<lambda>_.
          validate_target_bootstrap_schema env (path @ ''.setup_reapply_input_schema'') schema
            (tp_target_argument profile))))
      | (None, None) \<Rightarrow> Inr ()
      | _ \<Rightarrow> Inl (invalid path
          ''setup_reapply_gadget and setup_reapply_input_schema must be declared together''))"

definition validate_target_profile ::
  "manifest_env \<Rightarrow> 'v bundle_capabilities \<Rightarrow> nat \<Rightarrow> target_profile_descriptor \<Rightarrow> outcome" where
  "validate_target_profile env c i profile =
     (let path = idx ''capabilities.target_profiles'' i in
      all_ok
       [bounded_nonempty_text (path @ ''.label'') (tp_label profile) MAX_SHORT_TEXT,
        check (\<not> len (tp_target_id_prefix profile) > MAX_GENERATED_TARGET_PREFIX)
         (invalid (path @ ''.target_id_prefix'')
           (''must contain at most '' @ show_int MAX_GENERATED_TARGET_PREFIX
             @ '' characters so Core-generated target ids remain valid'')),
        validate_target_argument (path @ ''.target_argument'') (tp_target_argument profile),
        check (tp_allowed_operations profile \<noteq> [])
         (invalid (path @ ''.allowed_operations'') ''at least one signed broker operation is required''),
        ensure_unique env (path @ ''.allowed_operations'') (tp_allowed_operations profile),
        check (distinct (tp_setup_features profile))
         (invalid (path @ ''.setup_features'') ''setup features must be unique''),
        validate_target_bootstrap_schema env (path @ ''.bootstrap_input_schema'')
          (tp_bootstrap_input_schema profile) (tp_target_argument profile),
        when_some (tp_ssh_route profile) (\<lambda>route.
          validate_target_ssh_route env (path @ ''.ssh_route'') route (tp_bootstrap_input_schema profile)
            (tp_target_argument profile)),
        validate_verification c path profile,
        validate_setup_reapply env c path profile])"

definition validate_knowledge_context ::
  "'v bundle_capabilities \<Rightarrow> string \<Rightarrow> job_recipe_descriptor \<Rightarrow> job_knowledge_context \<Rightarrow> outcome" where
  "validate_knowledge_context c path job context =
     all_ok
      [check (\<not> (jr_target_registry job = None \<or> jr_target_profile job = None))
        (invalid (path @ ''.knowledge_context'') ''requires a scheduled target profile''),
       bounded_nonempty_text (path @ ''.knowledge_context.question'') (jk_question context) MAX_DESCRIPTION,
       try_each (\<lambda>(field, g). all_ok
           [require_known_gadget (path @ ''.knowledge_context.'' @ field) g (gadget_names c),
            check (g \<in> set (jr_gadget_allowlist job))
              (invalid (path @ ''.knowledge_context.'' @ field)
                ''must also appear in the job gadget_allowlist'')])
         [(''subject_gadget'', jk_subject_gadget context), (''context_gadget'', jk_context_gadget context)]]"

definition validate_job_target ::
  "'v bundle_capabilities \<Rightarrow> string \<Rightarrow> job_recipe_descriptor \<Rightarrow> string \<Rightarrow> outcome" where
  "validate_job_target c path job profile_id =
     and_then (ok_or (map_of (target_profiles_by_id c) profile_id)
        (invalid (path @ ''.target_profile'')
          (''references undeclared target profile '' @ debug_id profile_id))) (\<lambda>profile.
     check (jr_target_registry job = Some (tp_registry profile))
       (invalid (path @ ''.target_profile'') ''requires a matching target_registry''))"

definition validate_job :: "manifest_env \<Rightarrow> 'v bundle_capabilities \<Rightarrow> nat \<Rightarrow> job_recipe_descriptor \<Rightarrow> outcome" where
  "validate_job env c i job =
     (let path = idx ''capabilities.jobs'' i in
      all_ok
       [check (jr_triggers job \<noteq> []) (invalid (path @ ''.triggers'') ''at least one trigger is required''),
        ensure_unique env (path @ ''.triggers'') (map trigger_wire_name (jr_triggers job)),
        check (\<not> (Schedule \<in> set (jr_triggers job) \<and> jr_schedule job = None))
         (invalid (path @ ''.schedule'') ''a schedule expression is required for the schedule trigger''),
        check (\<not> (Event \<in> set (jr_triggers job) \<and> jr_event_kinds job = []))
         (invalid (path @ ''.event_kinds'')
           ''at least one canonical event kind is required for the event trigger''),
        ensure_unique env (path @ ''.event_kinds'') (jr_event_kinds job),
        try_indexed (\<lambda>i kind. check (is_ok (local_id_new kind))
          (invalid (idx (path @ ''.event_kinds'') i) ''must be a canonical lowercase event id''))
          (jr_event_kinds job),
        when_some (jr_schedule job) (\<lambda>schedule.
          bounded_nonempty_text (path @ ''.schedule'') schedule MAX_SHORT_TEXT),
        check (\<not> (jr_target_registry job \<noteq> None \<and> Schedule \<notin> set (jr_triggers job)))
         (invalid (path @ ''.target_registry'') ''requires the schedule trigger''),
        check (\<not> (jr_target_registry job \<noteq> None \<and> jr_goal job = None))
         (invalid (path @ ''.goal'') ''is required for a scheduled target job''),
        when_some (jr_goal job) (\<lambda>goal. bounded_nonempty_text (path @ ''.goal'') goal MAX_DESCRIPTION),
        check (\<not> (target_profiles_by_id c \<noteq> [] \<and> jr_target_registry job \<noteq> None
            \<and> jr_target_profile job = None))
         (invalid (path @ ''.target_profile'') ''is required when signed target profiles are declared''),
        when_some (jr_target_profile job) (validate_job_target c path job),
        when_some (jr_knowledge_context job) (validate_knowledge_context c path job),
        ensure_unique env (path @ ''.gadget_allowlist'') (jr_gadget_allowlist job),
        try_indexed (\<lambda>i g. require_known_gadget (idx (path @ ''.gadget_allowlist'') i) g (gadget_names c))
          (jr_gadget_allowlist job),
        when_some (jr_budget job) (\<lambda>budget.
          check (\<not> (jb_max_gadget_calls budget = 0 \<or> jb_max_wall_seconds budget = 0))
            (invalid (path @ ''.budget'') ''max_gadget_calls and max_wall_seconds must be non-zero''))])"

section \<open>Events and enrichments\<close>

definition validate_event_job ::
  "manifest_env \<Rightarrow> 'v bundle_capabilities \<Rightarrow> nat \<Rightarrow> event_job_descriptor \<Rightarrow> outcome" where
  "validate_event_job env c i event =
     (let path = idx ''capabilities.event_jobs'' i in
      and_then (validate_closed_object_schema env (path @ ''.input_schema'') (ej_input_schema event)) (\<lambda>_.
      and_then (ok_or (List.find (\<lambda>candidate. kr_id candidate = ej_agent_role event) (ca_agent_roles c))
         (invalid (path @ ''.agent_role'')
           (''references undeclared Knowledge role '' @ debug_id (ej_agent_role event)))) (\<lambda>role.
      and_then (expect (List.find (\<lambda>candidate. jr_id candidate = kr_job role) (ca_jobs c))
         ''validated AI role job reference'') (\<lambda>job.
      and_then (all_ok
       [check (Event \<in> set (jr_triggers job))
         (invalid (path @ ''.agent_role'')
           ''must reference an AI role whose signed job declares the event trigger''),
        check (jr_goal job \<noteq> None)
         (invalid (path @ ''.agent_role'') ''event-triggered AI roles require a bounded job goal''),
        check (list_ex (\<lambda>kind. kind = ej_event_kind event) (jr_event_kinds job))
         (invalid (path @ ''.event_kind'') ''must appear in the referenced AI job event_kinds'')]) (\<lambda>_.
      and_then (ok_or (map_of (gadget_descriptors c) (ej_result_gadget event))
         (invalid (path @ ''.result_gadget'')
           (''references undeclared Gadget '' @ debug_id (ej_result_gadget event)))) (\<lambda>g.
      check (\<not> (gd_tier g \<noteq> TierWrite \<or> \<not> ge_idempotent (gd_effect g)
          \<or> ge_risk (gd_effect g) \<in> {RiskHigh, RiskCritical}))
        (invalid (path @ ''.result_gadget'')
          ''must be an idempotent write-tier Gadget with low or medium risk'')))))))"

definition validate_row_enrichment ::
  "manifest_env \<Rightarrow> 'v bundle_capabilities \<Rightarrow> nat \<Rightarrow> row_enrichment_descriptor \<Rightarrow> outcome" where
  "validate_row_enrichment env c i e =
     (let path = idx ''capabilities.row_enrichments'' i in
      and_then (all_ok
       [validate_target_argument (path @ ''.row_join_key_field'') (re_row_join_key_field e),
        validate_target_argument (path @ ''.row_revision_field'') (re_row_revision_field e),
        check (re_row_join_key_field e \<noteq> re_row_revision_field e)
         (invalid path ''row join key and revision fields must be distinct'')]) (\<lambda>_.
      and_then (ok_or (List.find (\<lambda>candidate. ej_id candidate = re_event_job e) (ca_event_jobs c))
         (invalid (path @ ''.event_job'')
           (''references undeclared event job '' @ debug_id (re_event_job e)))) (\<lambda>event.
      and_then (check (\<not> (ej_subject_owner_bundle event \<noteq> re_target_bundle e
                \<or> ej_subject_kind event \<noteq> re_subject_kind e))
         (invalid (path @ ''.event_job'') ''must bind the declared target Bundle and subject kind'')) (\<lambda>_.
      and_then (ok_or (map_of (gadget_descriptors c) (re_read_gadget e))
         (invalid (path @ ''.read_gadget'')
           (''references undeclared Gadget '' @ debug_id (re_read_gadget e)))) (\<lambda>g.
      all_ok
       [check (\<not> (gd_tier g \<noteq> TierRead \<or> \<not> ge_idempotent (gd_effect g)))
         (invalid (path @ ''.read_gadget'') ''must be an idempotent read-tier Gadget''),
        validate_row_enrichment_gadget_schema env (path @ ''.read_gadget.input_schema'') (gd_input_schema g) False,
        validate_row_enrichment_gadget_schema env (path @ ''.read_gadget.output_schema'') (gd_output_schema g)
          True])))))"

definition snapshot_field :: "knowledge_event_descriptor \<Rightarrow> string \<Rightarrow> string \<Rightarrow> outcome" where
  "snapshot_field event path field =
     all_ok
      [map_sum Rejected id (validate_database_field path field),
       check (field \<in> set (ke_snapshot_fields event)) (invalid path ''must be included in snapshot_fields'')]"

definition validate_knowledge_event :: "manifest_env \<Rightarrow> nat \<Rightarrow> knowledge_event_descriptor \<Rightarrow> outcome" where
  "validate_knowledge_event env i event =
     (let path = idx ''capabilities.knowledge_events'' i in
      all_ok
       [check (database_table_name (ke_snapshot_resource event) \<noteq> None)
         (invalid (path @ ''.snapshot_resource'') ''must identify an exact postgres table or projection''),
        check (\<not> (ke_snapshot_fields event = [] \<or> len (ke_snapshot_fields event) > 64))
         (invalid (path @ ''.snapshot_fields'') ''must contain 1-64 declared projection fields''),
        ensure_unique env (path @ ''.snapshot_fields'') (ke_snapshot_fields event),
        try_indexed (\<lambda>i field.
          map_sum Rejected id (validate_database_field (idx (path @ ''.snapshot_fields'') i) field))
          (ke_snapshot_fields event),
        try_each (\<lambda>(field_name, field). snapshot_field event (path @ ''.'' @ field_name) field)
          [(''subject_id_field'', ke_subject_id_field event),
           (''subject_revision_field'', ke_subject_revision_field event),
           (''title_field'', ke_title_field event)],
        when_some (ke_acting_space_id_field event) (snapshot_field event (path @ ''.acting_space_id_field'')),
        bounded_nonempty_text (path @ ''.knowledge_schema_id'') (ke_knowledge_schema_id event) MAX_SHORT_TEXT,
        check (\<not> (ke_source_path_prefix event = [] \<or> len (ke_source_path_prefix event) > 63
            \<or> \<not> list_all is_kebab_char (ke_source_path_prefix event)))
         (invalid (path @ ''.source_path_prefix'') ''must be a 1-63 character lowercase path segment'')])"

section \<open>Hints, workspaces and contributions\<close>

definition validate_policy_hint :: "'v bundle_capabilities \<Rightarrow> nat \<Rightarrow> policy_hint_descriptor \<Rightarrow> outcome" where
  "validate_policy_hint c i hint =
     (let path = idx ''capabilities.policy_hints'' i in
      all_ok
       [bounded_nonempty_text (path @ ''.description'') (ph_description hint) MAX_DESCRIPTION,
        require_json_object (path @ ''.hint'') (ph_hint hint),
        try_indexed (\<lambda>i g. require_known_gadget (idx (path @ ''.applies_to'') i) g (gadget_names c))
          (ph_applies_to hint)])"

definition validate_workspace ::
  "manifest_env \<Rightarrow> 'v bundle_capabilities \<Rightarrow> nat \<Rightarrow> workspace_descriptor \<Rightarrow> outcome" where
  "validate_workspace env c i w =
     (let path = idx ''capabilities.workspaces'' i in
      all_ok
       [bounded_nonempty_text (path @ ''.label'') (wd_label w) MAX_SHORT_TEXT,
        require_known_gadget (path @ ''.data_capability'') (wd_data_capability w) (gadget_names c),
        when_some (wd_collection_profile w) (\<lambda>profile.
          check (map_of (collection_profiles_by_id c) profile \<noteq> None)
            (invalid (path @ ''.collection_profile'')
              (''references undeclared collection profile '' @ debug_id profile))),
        ensure_unique env (path @ ''.action_gadgets'') (wd_action_gadgets w),
        try_indexed (\<lambda>i g. require_known_gadget (idx (path @ ''.action_gadgets'') i) g (gadget_names c))
          (wd_action_gadgets w),
        validate_scope_names env (path @ ''.required_scopes'') (wd_required_scopes w)])"

definition reference_count :: "ui_contribution_descriptor \<Rightarrow> nat" where
  "reference_count u =
     (if ui_workspace u \<noteq> None then 1 else 0) + (if ui_gadget u \<noteq> None then 1 else 0)
     + (if ui_job u \<noteq> None then 1 else 0) + (if ui_domain_schema u \<noteq> None then 1 else 0)"

definition ui_matrix :: "ui_contribution_descriptor \<Rightarrow> bool \<times> bool \<times> bool \<times> ui_refresh_policy" where
  "ui_matrix u =
     (let one = (reference_count u = 1); place = ui_placement u in
      case ui_kind u of
        UiWorkspace \<Rightarrow> (place = PlaceMain, ui_workspace u \<noteq> None \<and> one, False, RefreshForbidden)
      | UiNavigation \<Rightarrow>
          (place \<in> {PlacePrimaryNavigation, PlaceSecondaryNavigation}, ui_workspace u \<noteq> None \<and> one, False,
           RefreshForbidden)
      | UiDashboardWidget \<Rightarrow> (place = PlaceDashboard, ui_gadget u \<noteq> None \<and> one, True, RefreshRequired)
      | UiCommand \<Rightarrow>
          (place \<in> {PlaceCommandPalette, PlaceContextMenu}, ui_gadget u \<noteq> None \<and> one, False, RefreshForbidden)
      | UiSearchResult \<Rightarrow> (place = PlaceSearch, ui_gadget u \<noteq> None \<and> one, True, RefreshOptional)
      | UiSubjectContext \<Rightarrow> (place = PlacePennyContext, ui_gadget u \<noteq> None \<and> one, False, RefreshForbidden)
      | UiToolResult \<Rightarrow> (place = PlaceToolResult, ui_gadget u \<noteq> None \<and> one, True, RefreshForbidden)
      | UiReviewPresentation \<Rightarrow> (place = PlaceReview, one \<and> ui_workspace u = None, True, RefreshForbidden)
      | UiJobPresentation \<Rightarrow> (place = PlaceJobs, ui_job u \<noteq> None \<and> one, True, RefreshOptional)
      | UiKnowledgeContribution \<Rightarrow>
          (place = PlaceKnowledge, ui_domain_schema u \<noteq> None \<and> one, False, RefreshForbidden))"

definition ui_matrix_checks :: "string \<Rightarrow> ui_contribution_descriptor \<Rightarrow> outcome" where
  "ui_matrix_checks path u =
     (case ui_matrix u of (placement_ok, reference_ok, renderer_required, refresh_policy) \<Rightarrow>
      all_ok
       [check placement_ok
         (invalid (path @ ''.placement'') ''placement is not allowed for this contribution kind''),
        check reference_ok
         (invalid path ''contribution kind requires exactly its declared typed reference''),
        check (renderer_required = (ui_renderer u \<noteq> None))
         (invalid (path @ ''.renderer'')
           (if renderer_required then ''a renderer is required for this contribution kind''
            else ''a renderer is not allowed for this contribution kind'')),
        check (\<not> (refresh_policy = RefreshRequired \<and> ui_refresh_seconds u = None))
         (invalid (path @ ''.refresh_seconds'')
           ''a bounded refresh interval is required for this contribution kind''),
        check (\<not> (refresh_policy = RefreshForbidden \<and> ui_refresh_seconds u \<noteq> None))
         (invalid (path @ ''.refresh_seconds'') ''refresh is not allowed for this contribution kind'')])"

definition ui_target_checks :: "'v bundle_capabilities \<Rightarrow> string \<Rightarrow> ui_contribution_descriptor \<Rightarrow> outcome" where
  "ui_target_checks c path u =
     all_ok
      [check (\<not> (ui_navigation_section u \<noteq> None \<and> ui_kind u \<noteq> UiNavigation))
        (invalid (path @ ''.navigation_section'') ''is only valid for navigation contributions''),
       check (\<not> (ui_target_registry u \<noteq> None \<and> ui_kind u \<noteq> UiWorkspace))
        (invalid (path @ ''.target_registry'') ''is only valid for workspace contributions''),
       when_some (ui_target_profile u) (\<lambda>profile_id.
         and_then (ok_or (map_of (target_profiles_by_id c) profile_id)
            (invalid (path @ ''.target_profile'')
              (''references undeclared target profile '' @ debug_id profile_id))) (\<lambda>profile.
         check (\<not> (ui_kind u \<noteq> UiWorkspace \<or> ui_target_registry u \<noteq> Some (tp_registry profile)))
           (invalid (path @ ''.target_profile'') ''requires a workspace with a matching target_registry''))),
       check (\<not> (target_profiles_by_id c \<noteq> [] \<and> ui_target_registry u \<noteq> None \<and> ui_target_profile u = None))
        (invalid (path @ ''.target_profile'') ''is required when signed target profiles are declared''),
       when_some (ui_target_retire_gadget u) (\<lambda>g. all_ok
         [check (\<not> (ui_target_registry u = None \<or> ui_kind u \<noteq> UiWorkspace))
           (invalid (path @ ''.target_retire_gadget'') ''requires a workspace target registry''),
          require_known_gadget (path @ ''.target_retire_gadget'') g (gadget_names c)]),
       when_some (ui_refresh_seconds u) (\<lambda>refresh.
         check (MIN_UI_REFRESH_SECONDS \<le> uint refresh \<and> uint refresh \<le> MAX_UI_REFRESH_SECONDS)
           (invalid (path @ ''.refresh_seconds'')
             (''must be in '' @ show_int MIN_UI_REFRESH_SECONDS @ ''..='' @ show_int MAX_UI_REFRESH_SECONDS)))]"

definition ui_workspace_reference ::
  "manifest_env \<Rightarrow> 'v bundle_capabilities \<Rightarrow> string \<Rightarrow> ui_contribution_descriptor \<Rightarrow> string \<Rightarrow> outcome" where
  "ui_workspace_reference env c path u workspace =
     and_then (ok_or (map_of (workspaces_by_id c) workspace)
        (invalid (path @ ''.workspace'')
          (''references undeclared workspace '' @ debug_newtype ''LocalId'' workspace))) (\<lambda>descriptor.
     all_ok
      [try_each (\<lambda>required. check (required \<in> set (ui_required_scopes u))
          (invalid (path @ ''.required_scopes'')
            (''must retain referenced workspace scope '' @ debug_str env required
              @ '' and may only narrow access''))) (wd_required_scopes descriptor),
       check (\<not> (ui_kind u = UiNavigation \<and> workspace \<notin> set (workspace_contributions c)))
        (invalid (path @ ''.workspace'') ''navigation requires a matching workspace UI contribution'')])"

definition ui_contribution_validate ::
  "manifest_env \<Rightarrow> 'v bundle_capabilities \<Rightarrow> nat \<Rightarrow> ui_contribution_descriptor \<Rightarrow> outcome" where
  "ui_contribution_validate env c i u =
     (let path = idx ''capabilities.ui_contributions'' i in
      all_ok
       [bounded_nonempty_text (path @ ''.label'') (ui_label u) MAX_SHORT_TEXT,
        bounded_nonempty_text (path @ ''.empty_state'') (ui_empty_state u) MAX_DESCRIPTION,
        bounded_nonempty_text (path @ ''.error_state'') (ui_error_state u) MAX_DESCRIPTION,
        check (MIN_UI_ORDER_HINT \<le> ui_order_hint u \<and> ui_order_hint u \<le> MAX_UI_ORDER_HINT)
         (invalid (path @ ''.order_hint'')
           (''must be in '' @ show_int MIN_UI_ORDER_HINT @ ''..='' @ show_int MAX_UI_ORDER_HINT)),
        validate_scope_names env (path @ ''.required_scopes'') (ui_required_scopes u),
        ui_target_checks c path u,
        ui_matrix_checks path u,
        when_some (ui_workspace u) (ui_workspace_reference env c path u),
        when_some (ui_gadget u) (\<lambda>g. require_known_gadget (path @ ''.gadget'') g (gadget_names c)),
        when_some (ui_job u) (\<lambda>job. check (job \<in> set (job_ids c))
          (invalid (path @ ''.job'') (''references undeclared job '' @ debug_newtype ''LocalId'' job))),
        when_some (ui_domain_schema u) (\<lambda>schema. check (schema \<in> set (domain_schema_ids c))
          (invalid (path @ ''.domain_schema'')
            (''references undeclared domain schema '' @ debug_newtype ''LocalId'' schema)))])"

section \<open>Assets and migrations\<close>

definition validate_seed_asset :: "nat \<Rightarrow> seed_asset_descriptor \<Rightarrow> outcome" where
  "validate_seed_asset i asset =
     (let path = idx ''capabilities.seed_assets'' i in
      all_ok
       [bounded_nonempty_text (path @ ''.media_type'') (sa_media_type asset) MAX_SHORT_TEXT,
        validate_manifest_sha256 (path @ ''.sha256'') (sa_sha256 asset)])"

fun validate_migrations :: "nat \<Rightarrow> u64 list \<Rightarrow> int list \<Rightarrow> migration_descriptor list \<Rightarrow> outcome" where
  "validate_migrations i revisions versions [] = Inr ()"
| "validate_migrations i revisions versions (m # ms) =
     (let path = idx ''capabilities.migrations'' i in
      if mi_revision m = 0 \<or> mi_revision m > 9223372036854775807
      then Inl (invalid (path @ ''.revision'') ''revision must be in 1..=i64::MAX'')
      else if mi_revision m \<in> set revisions
      then Inl (invalid ''capabilities.migrations[].revision''
             (''duplicate revision '' @ show_int (uint (mi_revision m))))
      else and_then (when_some (mi_legacy_sqlx_version m) (\<lambda>version. all_ok
          [check (\<not> version \<le> 0)
            (invalid (path @ ''.legacy_sqlx_version'') ''legacy SQLx versions must be positive''),
           check (version \<notin> set versions)
            (invalid ''capabilities.migrations[].legacy_sqlx_version''
              (''duplicate legacy SQLx version '' @ show_int version))])) (\<lambda>_.
        and_then (validate_manifest_sha256 (path @ ''.sha256'') (mi_sha256 m)) (\<lambda>_.
        validate_migrations (Suc i) (bt_insert (mi_revision m) revisions)
          (case mi_legacy_sqlx_version m of Some v \<Rightarrow> bt_insert v versions | None \<Rightarrow> versions) ms)))"

section \<open>The sequence\<close>

definition capabilities_validate :: "manifest_env \<Rightarrow> 'v bundle_capabilities \<Rightarrow> outcome" where
  "capabilities_validate env c =
     all_ok
      [capabilities_unique env c,
       try_indexed validate_domain_schema (ca_domain_schemas c),
       try_indexed (validate_gadget c) (ca_gadgets c),
       try_indexed (validate_source_connector c) (ca_source_connectors c),
       try_indexed (validate_collection_profile env c) (ca_collection_profiles c),
       try_indexed (validate_agent_role c) (ca_agent_roles c),
       check (\<not> (ca_target_profiles c \<noteq> [] \<and> length (filter tp_default (ca_target_profiles c)) \<noteq> 1))
        (invalid ''capabilities.target_profiles'' ''exactly one target profile must be the default''),
       try_indexed (validate_target_profile env c) (ca_target_profiles c),
       try_indexed (validate_job env c) (ca_jobs c),
       try_indexed (validate_event_job env c) (ca_event_jobs c),
       try_indexed (validate_row_enrichment env c) (ca_row_enrichments c),
       try_indexed (validate_knowledge_event env) (ca_knowledge_events c),
       try_indexed (validate_policy_hint c) (ca_policy_hints c),
       try_indexed (validate_workspace env c) (ca_workspaces c),
       at_most ''capabilities.ui_contributions'' MAX_UI_CONTRIBUTIONS ''UI contributions''
         (ca_ui_contributions c),
       try_indexed (ui_contribution_validate env c) (ca_ui_contributions c),
       when_some (ca_settings_schema c) (validate_settings_schema env),
       try_indexed validate_seed_asset (ca_seed_assets c),
       validate_migrations 0 [] [] (ca_migrations c)]"

section \<open>No panics\<close>

text \<open>
  The three places where the source relies on an earlier check: a known Gadget has a descriptor, the
  bootstrap schema of a target with a route was accepted, and the job of a Knowledge role exists.
\<close>

lemma gadget_lookup: "g \<in> set (gadget_names c) \<longleftrightarrow> map_of (gadget_descriptors c) g \<noteq> None"
  using index_by_dom [of gd_name "ca_gadgets c" g] by (simp add: gadget_names_def gadget_descriptors_def)

lemma known_gadget_expect [panic_free_rules]:
  "require_known_gadget f g (gadget_names c) = Inr u \<Longrightarrow> panic_free (expect (map_of (gadget_descriptors c) g) m)"
  by (rule panic_free_expect) (simp add: result_simps gadget_lookup)

lemma database_field_panic_free [panic_free_rules]: "panic_free (map_sum Rejected id (validate_database_field p f))"
  by (simp add: validate_database_field_def panic_free_def)

lemma case_pair_panic_free [panic_free_rules]:
  "(\<And>a b. x = (a, b) \<Longrightarrow> panic_free (f a b)) \<Longrightarrow> panic_free (case x of (a, b) \<Rightarrow> f a b)"
  by (cases x) simp

lemma at_most_panic_free [panic_free_rules]: "panic_free (at_most f n w xs)"
  unfolding at_most_def by (rule panic_free_check)

lemma capabilities_unique_panic_free [panic_free_rules]: "panic_free (capabilities_unique env c)"
  unfolding capabilities_unique_def by (intro panic_free_rules)

lemma gadget_bodies_panic_free [panic_free_rules]:
  "panic_free (validate_domain_schema i schema)"
  "panic_free (validate_gadget c i g)"
  "panic_free (validate_source_connector c i s)"
  "panic_free (validate_collection_profile env c i p)"
  "panic_free (validate_agent_role c i role)"
  unfolding validate_domain_schema_def validate_gadget_def validate_source_connector_def
    validate_collection_profile_def validate_query_provider_def validate_agent_role_def
    validate_followup_role_def Let_def
  by (intro panic_free_rules)+

lemma verification_panic_free [panic_free_rules]: "panic_free (validate_verification c path p)"
  unfolding validate_verification_def Let_def
  by (auto split: option.splits intro!: panic_free_rules)

lemma setup_reapply_panic_free [panic_free_rules]: "panic_free (validate_setup_reapply env c path p)"
  unfolding validate_setup_reapply_def
  by (auto split: option.splits intro!: panic_free_rules)

lemma target_profile_panic_free [panic_free_rules]: "panic_free (validate_target_profile env c i p)"
  unfolding validate_target_profile_def Let_def
  by (intro panic_free_rules) (erule ssh_route_panic_free)

lemma job_panic_free [panic_free_rules]: "panic_free (validate_job env c i j)"
  unfolding validate_job_def validate_job_target_def validate_knowledge_context_def Let_def
  by (intro panic_free_rules)

lemma role_job_found:
  "try_indexed (validate_agent_role c) (ca_agent_roles c) = Inr u \<Longrightarrow> role \<in> set (ca_agent_roles c) \<Longrightarrow>
   List.find (\<lambda>candidate. jr_id candidate = kr_job role) (ca_jobs c) \<noteq> None"
  by (drule (1) try_indexed_member) (auto simp: validate_agent_role_def Let_def result_simps)

lemma event_job_panic_free:
  assumes "try_indexed (validate_agent_role c) (ca_agent_roles c) = Inr u"
  shows "panic_free (validate_event_job env c i e)"
  unfolding validate_event_job_def Let_def
  by (intro panic_free_rules) (use role_job_found [OF assms] in \<open>auto simp: result_simps dest: find_some\<close>)

lemma event_bodies_panic_free [panic_free_rules]:
  "panic_free (validate_row_enrichment env c i e)"
  "panic_free (validate_knowledge_event env i k)"
  "panic_free (validate_policy_hint c i h)"
  "panic_free (validate_workspace env c i w)"
  unfolding validate_row_enrichment_def validate_knowledge_event_def snapshot_field_def
    validate_policy_hint_def validate_workspace_def Let_def
  by (intro panic_free_rules)+

lemma ui_panic_free [panic_free_rules]: "panic_free (ui_contribution_validate env c i u)"
  unfolding ui_contribution_validate_def ui_target_checks_def ui_matrix_checks_def
    ui_workspace_reference_def Let_def
  by (intro panic_free_rules)

lemma asset_panic_free [panic_free_rules]: "panic_free (validate_seed_asset i a)"
  unfolding validate_seed_asset_def Let_def by (intro panic_free_rules)

lemma migrations_panic_free [panic_free_rules]: "panic_free (validate_migrations i rs vs ms)"
  by (induction i rs vs ms rule: validate_migrations.induct)
    (auto simp: Let_def intro!: panic_free_rules)

lemma capabilities_panic_free [panic_free_rules]: "panic_free (capabilities_validate env c)"
  unfolding capabilities_validate_def by (intro panic_free_rules event_job_panic_free)

end
