(* ===== verification/Bundle_Manifest.thy ===== *)
theory Bundle_Manifest
  imports Manifest_Capabilities
begin

text \<open>
  The package manifest: validation of the runtime, permissions, broker operations, dependencies, package
  paths and of the whole (\<open>manifest.rs\<close>), and the dependency candidate a manifest gives rise to
  (\<open>BundleDependencyCandidate::from_manifest\<close> of \<open>dependency.rs\<close>).

  The \<open>toml\<close> crate is the pair of arguments \<open>toml_version\<close> and \<open>toml_decode\<close> of \<open>manifest_parse_toml\<close>, as
  for Bundle Sets; \<open>vmatch\<close>, \<open>vshow\<close> and \<open>rshow\<close> are the operations of \<open>semver\<close>.
\<close>

abbreviation BUNDLE_PACKAGE_MANIFEST_VERSION_MIN :: u32 where "BUNDLE_PACKAGE_MANIFEST_VERSION_MIN \<equiv> 1"
abbreviation BUNDLE_PACKAGE_MANIFEST_VERSION :: u32 where "BUNDLE_PACKAGE_MANIFEST_VERSION \<equiv> 3"
abbreviation MAX_ARGS :: int where "MAX_ARGS \<equiv> 64"
abbreviation MAX_EXTENSION_BYTES :: int where "MAX_EXTENSION_BYTES \<equiv> 65536"
abbreviation MAX_BROKER_OPERATIONS :: int where "MAX_BROKER_OPERATIONS \<equiv> 64"
abbreviation MAX_SSH_TIMEOUT_SECONDS :: int where "MAX_SSH_TIMEOUT_SECONDS \<equiv> 30"
abbreviation MAX_SSH_STDOUT_BYTES :: int where "MAX_SSH_STDOUT_BYTES \<equiv> 262144"
abbreviation MAX_SSH_STDERR_BYTES :: int where "MAX_SSH_STDERR_BYTES \<equiv> 65536"
abbreviation MAX_DEPENDENCIES_PER_RELATION :: int where "MAX_DEPENDENCIES_PER_RELATION \<equiv> 64"

section \<open>Dependencies\<close>

definition dependencies_is_empty :: "'r bundle_dependencies \<Rightarrow> bool" where
  "dependencies_is_empty d \<longleftrightarrow> dep_requires d = [] \<and> dep_optional d = [] \<and> dep_conflicts d = []"

definition declaration_validate :: "'r dependency_declaration \<Rightarrow> string \<Rightarrow> nat \<Rightarrow> string \<Rightarrow> outcome" where
  "declaration_validate d relation i owner =
     (let field = idx (''dependencies.'' @ relation) i in
      all_ok
       [bounded_nonempty_text (field @ ''.reason'') (decl_reason d) MAX_DESCRIPTION,
        check (\<not> (decl_provider_version d \<noteq> None \<and> decl_provider_bundle d = None))
         (invalid (field @ ''.provider_version'')
           ''requires provider_bundle so the package version constraint has an authority''),
        check (decl_provider_bundle d \<noteq> Some owner)
         (invalid (field @ ''.provider_bundle'') ''a Bundle cannot depend on or conflict with itself'')])"

definition declaration_target :: "'r dependency_declaration \<Rightarrow> string \<times> string option" where
  "declaration_target d = (decl_capability d, decl_provider_bundle d)"

fun validate_relation ::
  "string \<Rightarrow> string \<Rightarrow> nat \<Rightarrow> (string \<times> string option) list \<Rightarrow> 'r dependency_declaration list \<Rightarrow> outcome" where
  "validate_relation owner relation i targets [] = Inr ()"
| "validate_relation owner relation i targets (d # ds) =
     and_then (declaration_validate d relation i owner) (\<lambda>_.
       if declaration_target d \<in> set targets
       then Inl (invalid (idx (''dependencies.'' @ relation) i)
              ''duplicates a capability/provider target in the same relation'')
       else validate_relation owner relation (Suc i) (declaration_target d # targets) ds)"

fun validate_cross_relations ::
  "((string \<times> string option) \<times> string) list \<Rightarrow> (string \<times> 'r dependency_declaration) list \<Rightarrow> outcome" where
  "validate_cross_relations relation_by_target [] = Inr ()"
| "validate_cross_relations relation_by_target ((relation, d) # ds) =
     (case map_of relation_by_target (declaration_target d) of
        Some previous \<Rightarrow> Inl (invalid ''dependencies''
          (''capability/provider target is declared as both '' @ previous @ '' and '' @ relation))
      | None \<Rightarrow> validate_cross_relations ((declaration_target d, relation) # relation_by_target) ds)"

definition relations :: "'r bundle_dependencies \<Rightarrow> (string \<times> 'r dependency_declaration list) list" where
  "relations d = [(''requires'', dep_requires d), (''optional'', dep_optional d), (''conflicts'', dep_conflicts d)]"

definition dependencies_validate :: "'r bundle_dependencies \<Rightarrow> 'v bundle_identity \<Rightarrow> outcome" where
  "dependencies_validate d identity =
     all_ok
      [try_each (\<lambda>(relation, declarations). all_ok
          [at_most (''dependencies.'' @ relation) MAX_DEPENDENCIES_PER_RELATION ''entries'' declarations,
           validate_relation (bi_id identity) relation 0 [] declarations]) (relations d),
       validate_cross_relations []
         (concat (map (\<lambda>(relation, declarations). map (Pair relation) declarations) (relations d)))]"

section \<open>Runtime\<close>

definition relative_entry :: "manifest_env \<Rightarrow> string \<Rightarrow> outcome" where
  "relative_entry env entry =
     (case relative_path_new entry of
        Inl e \<Rightarrow> Inl (invalid ''runtime.entry''
          (''must be a portable package-relative path: '' @ error_display env e))
      | Inr _ \<Rightarrow> Inr ())"

definition runtime_validate :: "manifest_env \<Rightarrow> external_runtime_spec \<Rightarrow> outcome" where
  "runtime_validate env r =
     (let transport_is_http = (rt_transport r \<in> {JsonRpcHttp, McpHttp}); packaged = (rt_kind r \<in> {Subprocess, Wasm}) in
      all_ok
       [bounded_nonempty_text ''runtime.entry'' (rt_entry r) MAX_ENTRY,
        at_most ''runtime.args'' MAX_ARGS ''arguments'' (rt_args r),
        try_indexed (\<lambda>i arg. bounded_text (idx ''runtime.args'' i) arg MAX_ENTRY) (rt_args r),
        check (\<not> (rl_memory_mb (rt_limits r) = 0 \<or> rl_open_files (rt_limits r) = 0
            \<or> rl_cpu_seconds (rt_limits r) = 0))
         (invalid ''runtime.limits'' ''memory_mb, open_files, and cpu_seconds must all be non-zero''),
        check (\<not> (rt_kind r = Http \<and> \<not> transport_is_http))
         (invalid ''runtime.transport'' ''an HTTP runtime requires json_rpc_http or mcp_http''),
        check (\<not> (packaged \<and> transport_is_http))
         (invalid ''runtime.transport'' ''subprocess and wasm runtimes require a stdio transport''),
        (if packaged
         then and_then (relative_entry env (rt_entry r)) (\<lambda>_.
              and_then (ok_or (rt_entry_sha256 r) (invalid ''runtime.entry_sha256''
                 ''subprocess and Wasm runtimes must pin their entry bytes'')) (\<lambda>digest.
              validate_manifest_sha256 ''runtime.entry_sha256'' digest))
         else if rt_kind r = Http
         then check (prefix ''http://'' (rt_entry r) \<or> prefix ''https://'' (rt_entry r))
                (invalid ''runtime.entry'' ''an HTTP runtime entry must begin with http:// or https://'')
         else Inr ()),
        ensure_unique env ''runtime.egress.allow'' (rt_egress_allow r),
        try_indexed (\<lambda>i destination. all_ok
          [bounded_nonempty_text (idx ''runtime.egress.allow'' i) destination MAX_SHORT_TEXT,
           check (\<not> (CHR '':'' \<notin> set destination \<or> list_ex is_whitespace (chars_of destination)))
            (invalid (idx ''runtime.egress.allow'' i) ''destination must be an exact host:port pair'')])
          (rt_egress_allow r)])"

section \<open>Permissions and broker operations\<close>

definition permission_resource_supported :: "permission_kind \<Rightarrow> string \<Rightarrow> bool" where
  "permission_resource_supported kind resource =
     (case kind of
        Database \<Rightarrow> database_table_name resource \<noteq> None
      | Network \<Rightarrow> ssh_operation_name resource \<noteq> None
      | SecretUse \<Rightarrow> secret_use_name resource \<noteq> None
      | KnowledgeRead \<Rightarrow> is_knowledge_context resource
      | KnowledgeFeedback \<Rightarrow> is_knowledge_feedback resource
      | KnowledgeCollection \<Rightarrow> is_knowledge_collection resource
      | _ \<Rightarrow> True)"

definition permission_resource_reason :: "permission_kind \<Rightarrow> string" where
  "permission_resource_reason kind =
     (case kind of
        Database \<Rightarrow> ''database permissions require exact postgres:table:<lowercase_identifier> resources''
      | Network \<Rightarrow> ''network v1 permissions require exact ssh:operation:<kebab-id> resources''
      | SecretUse \<Rightarrow> ''secret-use v1 permissions require exact secret:use:<kebab-id> resources''
      | KnowledgeRead \<Rightarrow> ''knowledge-read permissions require the exact knowledge:context resource''
      | KnowledgeFeedback \<Rightarrow> ''knowledge-feedback permissions require the exact knowledge:feedback resource''
      | KnowledgeCollection \<Rightarrow>
          ''knowledge-collection permissions require the exact knowledge:collection resource''
      | _ \<Rightarrow> ''permission resource is not supported'')"

definition broker_resource_of :: "manifest_env \<Rightarrow> string \<Rightarrow> string \<Rightarrow> (manifest_fault, string) result" where
  "broker_resource_of env field resource =
     map_sum (\<lambda>e. invalid field (error_display env e)) id (broker_resource_new resource)"

definition validate_permission_resource ::
  "manifest_env \<Rightarrow> permission_kind \<Rightarrow> string \<Rightarrow> string \<Rightarrow> outcome" where
  "validate_permission_resource env kind field resource =
     all_ok
      [bounded_nonempty_text field resource MAX_ENTRY,
       (if kind \<in> {Database, Network, SecretUse, KnowledgeRead, KnowledgeFeedback, KnowledgeCollection}
        then and_then (broker_resource_of env field resource) (\<lambda>r.
             check (permission_resource_supported kind r) (invalid field (permission_resource_reason kind)))
        else Inr ())]"

definition validate_permission :: "manifest_env \<Rightarrow> nat \<Rightarrow> permission_declaration \<Rightarrow> outcome" where
  "validate_permission env i p =
     (let path = idx ''permissions'' i in
      all_ok
       [bounded_nonempty_text (path @ ''.description'') (pm_description p) MAX_DESCRIPTION,
        check (\<not> len (pm_resources p) > 128)
         (invalid (path @ ''.resources'') ''at most 128 resources may be declared''),
        try_indexed (\<lambda>j. validate_permission_resource env (pm_kind p) (idx (path @ ''.resources'') j))
          (pm_resources p),
        ensure_unique env (path @ ''.secret_references[].id'') (map sr_id (pm_secret_references p)),
        try_indexed (\<lambda>j secret.
          bounded_nonempty_text (idx (path @ ''.secret_references'') j @ ''.purpose'') (sr_purpose secret)
            MAX_DESCRIPTION) (pm_secret_references p)])"

definition require_permission_resource ::
  "string \<Rightarrow> permission_declaration list \<Rightarrow> string \<Rightarrow> permission_kind \<Rightarrow> string
    \<Rightarrow> (manifest_fault, permission_declaration) result" where
  "require_permission_resource operation_path permissions permission_id kind resource =
     and_then (ok_or (List.find (\<lambda>p. pm_id p = permission_id) permissions)
        (invalid operation_path
          (''references undeclared permission '' @ debug_newtype ''LocalId'' permission_id))) (\<lambda>permission.
     if pm_kind permission \<noteq> kind \<or> \<not> list_ex (\<lambda>item. item = resource) (pm_resources permission)
     then Inl (invalid operation_path
            (''permission '' @ debug_newtype ''LocalId'' permission_id
              @ '' does not request the required kind and exact resource '' @ debug_id resource))
     else Inr permission)"

definition broker_operation_validate ::
  "manifest_env \<Rightarrow> permission_declaration list \<Rightarrow> nat \<Rightarrow> broker_operation_declaration \<Rightarrow> outcome" where
  "broker_operation_validate env permissions i op =
     (let path = idx ''broker_operations'' i in
      and_then (broker_resource_of env (path @ ''.network_resource'') (bo_network_resource op)) (\<lambda>network_resource.
      and_then (broker_resource_of env (path @ ''.secret_resource'') (bo_secret_resource op)) (\<lambda>secret_resource.
      case bo_kind op of
        SshExecute \<Rightarrow>
      and_then (check (ssh_operation_name network_resource = Some (bo_id op))
         (invalid (path @ ''.network_resource'')
           ''SSH operation resource must be ssh:operation:<operation-id>'')) (\<lambda>_.
      and_then (ok_or (secret_use_name secret_resource)
         (invalid (path @ ''.secret_resource'')
           ''SSH operations require an exact secret:use:<purpose> resource'')) (\<lambda>secret_name.
      and_then (require_permission_resource path permissions (bo_network_permission_id op) Network
         network_resource) (\<lambda>network_permission.
      and_then (require_permission_resource path permissions (bo_secret_permission_id op) SecretUse
         secret_resource) (\<lambda>_.
      all_ok
       [check (list_ex (\<lambda>r. sr_required r \<and> sr_id r = secret_name) (pm_secret_references network_permission))
         (invalid (path @ ''.secret_resource'')
           ''network permission must declare the matching required secret reference''),
        validate_signed_ssh_command (path @ ''.command'') (bo_command op),
        check (1 \<le> uint (bo_timeout_seconds op) \<and> uint (bo_timeout_seconds op) \<le> MAX_SSH_TIMEOUT_SECONDS)
         (invalid (path @ ''.timeout_seconds'')
           (''must be between 1 and '' @ show_int MAX_SSH_TIMEOUT_SECONDS)),
        check (1 \<le> uint (bo_max_stdout_bytes op) \<and> uint (bo_max_stdout_bytes op) \<le> MAX_SSH_STDOUT_BYTES)
         (invalid (path @ ''.max_stdout_bytes'')
           (''must be between 1 and '' @ show_int MAX_SSH_STDOUT_BYTES)),
        check (\<not> uint (bo_max_stderr_bytes op) > MAX_SSH_STDERR_BYTES)
         (invalid (path @ ''.max_stderr_bytes'') (''must not exceed '' @ show_int MAX_SSH_STDERR_BYTES))])))))))"

definition validate_event_permission ::
  "permission_declaration list \<Rightarrow> nat \<Rightarrow> knowledge_event_descriptor \<Rightarrow> outcome" where
  "validate_event_permission permissions i event =
     (let path = idx ''capabilities.knowledge_events'' i in
      and_then (ok_or (List.find (\<lambda>p. pm_id p = ke_snapshot_permission_id event) permissions)
         (invalid (path @ ''.snapshot_permission_id'') ''references an undeclared database permission'')) (\<lambda>p.
      check (\<not> (pm_kind p \<noteq> Database
          \<or> \<not> list_ex (\<lambda>resource. resource = ke_snapshot_resource event) (pm_resources p)))
        (invalid (path @ ''.snapshot_resource'') ''must be covered by the referenced database permission'')))"

definition validate_profile_operations ::
  "(string \<times> broker_operation_declaration) list \<Rightarrow> nat \<Rightarrow> target_profile_descriptor \<Rightarrow> outcome" where
  "validate_profile_operations operations i profile =
     try_indexed (\<lambda>j operation.
       let path = idx (idx ''capabilities.target_profiles'' i @ ''.allowed_operations'') j in
       and_then (ok_or (map_of operations operation)
          (invalid path (''references undeclared signed broker operation '' @ debug_id operation))) (\<lambda>declaration.
       check (\<not> (tp_registry profile = SshRegistry
           \<and> (bo_kind declaration \<noteq> SshExecute \<or> bo_secret_resource declaration \<noteq> ''secret:use:ssh-identity'')))
         (invalid path ''SSH target profiles require SSH operations bound to secret:use:ssh-identity'')))
     (tp_allowed_operations profile)"

section \<open>Package paths\<close>

abbreviation RESERVED_PATHS :: "string list" where
  "RESERVED_PATHS \<equiv> [''bundle.toml'', ''catalog.sig'', ''package.toml'', ''package.sig'']"

fun register_paths :: "manifest_env \<Rightarrow> string list \<Rightarrow> (string \<times> string) list \<Rightarrow> outcome" where
  "register_paths env paths [] = Inr ()"
| "register_paths env paths ((field, path) # rest) =
     (if list_ex (\<lambda>reserved. path = reserved \<or> prefix (reserved @ ''/'') path) RESERVED_PATHS
      then Inl (invalid field ''path is reserved for Core-owned package metadata'')
      else (case List.find (\<lambda>existing. path = existing \<or> prefix (existing @ ''/'') path
                     \<or> prefix (path @ ''/'') existing) paths of
              Some existing \<Rightarrow> Inl (invalid field
                (''package path '' @ debug_str env path @ '' collides with existing path ''
                  @ debug_str env existing))
            | None \<Rightarrow> register_paths env (bt_insert path paths) rest))"

definition package_files :: "('v, 'r) bundle_package_manifest \<Rightarrow> (string \<times> string) list" where
  "package_files m =
     (if rt_kind (pk_runtime m) \<in> {Subprocess, Wasm} then [(''runtime.entry'', rt_entry (pk_runtime m))] else [])
     @ map (\<lambda>(i, s). (idx ''capabilities.domain_schemas'' i @ ''.schema_path'', ds_schema_path s))
         (enumerate 0 (ca_domain_schemas (pk_capabilities m)))
     @ map (\<lambda>(i, a). (idx ''capabilities.seed_assets'' i @ ''.path'', sa_path a))
         (enumerate 0 (ca_seed_assets (pk_capabilities m)))
     @ map (\<lambda>(i, g). (idx ''capabilities.migrations'' i @ ''.path'', mi_path g))
         (enumerate 0 (ca_migrations (pk_capabilities m)))"

definition validate_package_paths :: "manifest_env \<Rightarrow> ('v, 'r) bundle_package_manifest \<Rightarrow> outcome" where
  "validate_package_paths env m =
     all_ok
      [(if rt_kind (pk_runtime m) \<in> {Subprocess, Wasm} then relative_entry env (rt_entry (pk_runtime m)) else Inr ()),
       register_paths env [] (package_files m)]"

section \<open>The manifest\<close>

definition validate_version_features :: "('v, 'r) bundle_package_manifest \<Rightarrow> outcome" where
  "validate_version_features m =
     (let c = pk_capabilities m; version = pk_manifest_version m in
      all_ok
       [check (\<not> (version = 1 \<and> (ca_ui_contributions c \<noteq> [] \<or> ca_target_profiles c \<noteq> []
            \<or> ca_settings_schema c \<noteq> None)))
         (invalid ''capabilities''
           (''signed UI contributions, target profiles and settings schema require package manifest ''
             @ ''version 2'')),
        check (\<not> (version < 3 \<and> bi_class (pk_bundle m) \<noteq> None))
         (invalid ''bundle.class'' ''signed Bundle product class requires package manifest version 3''),
        check (\<not> (version < 3 \<and> (ca_provides c \<noteq> [] \<or> \<not> dependencies_is_empty (pk_dependencies m))))
         (invalid ''dependencies'' ''public capability dependencies require package manifest version 3''),
        check (\<not> (version < 3 \<and> (ca_collection_profiles c \<noteq> [] \<or> ca_agent_roles c \<noteq> [])))
         (invalid ''capabilities''
           ''signed collection profiles and AI roles require package manifest version 3''),
        check (\<not> (3 \<le> version \<and> bi_class (pk_bundle m) = None))
         (invalid ''bundle.class''
           ''package manifest version 3 requires an operational or intelligence product class''),
        (if 2 \<le> version
         then try_indexed (\<lambda>i w. check
                (length (filter (\<lambda>u. ui_kind u = UiWorkspace \<and> ui_workspace u = Some (wd_id w))
                   (ca_ui_contributions c)) = 1)
                (invalid (idx ''capabilities.workspaces'' i @ ''.id'')
                  ''manifest v2 workspaces require exactly one workspace UI contribution'')) (ca_workspaces c)
         else Inr ())])"

definition validate_extension :: "manifest_env \<Rightarrow> string \<times> json \<Rightarrow> outcome" where
  "validate_extension env kv =
     (let key = fst kv; field = ''extensions.'' @ key in
      and_then (check (\<not> (len key > MAX_SHORT_TEXT \<or> CHR ''.'' \<notin> set key \<or> prefix ''.'' key))
         (invalid field ''extension keys must be namespaced (for example publisher.feature)'')) (\<lambda>_.
      and_then (encode env field ''extension cannot be serialized: '' (snd kv)) (\<lambda>bytes.
      check (\<not> len bytes > MAX_EXTENSION_BYTES)
        (invalid field (''extension exceeds '' @ show_int MAX_EXTENSION_BYTES @ '' serialized bytes'')))))"

definition supported_version :: "u32 \<Rightarrow> outcome" where
  "supported_version v =
     check (BUNDLE_PACKAGE_MANIFEST_VERSION_MIN \<le> v \<and> v \<le> BUNDLE_PACKAGE_MANIFEST_VERSION)
       (Rejected (UnsupportedManifestVersion v BUNDLE_PACKAGE_MANIFEST_VERSION_MIN
          BUNDLE_PACKAGE_MANIFEST_VERSION))"

definition validate_structure :: "manifest_env \<Rightarrow> ('v, 'r) bundle_package_manifest \<Rightarrow> outcome" where
  "validate_structure env m =
     all_ok
      [supported_version (pk_manifest_version m),
       bounded_nonempty_text ''bundle.publisher'' (bi_publisher (pk_bundle m)) MAX_SHORT_TEXT,
       bounded_nonempty_text ''bundle.license'' (bi_license (pk_bundle m)) MAX_SHORT_TEXT,
       when_some (bi_homepage (pk_bundle m)) (\<lambda>homepage.
         bounded_nonempty_text ''bundle.homepage'' homepage MAX_ENTRY),
       check (bc_host_protocol_min (pk_compatibility m) \<noteq> 0)
        (invalid ''compatibility.host_protocol_min'' ''protocol versions begin at 1''),
       check (\<not> bc_host_protocol_min (pk_compatibility m) > bc_host_protocol_max (pk_compatibility m))
        (invalid ''compatibility'' ''host_protocol_min must not exceed host_protocol_max''),
       runtime_validate env (pk_runtime m),
       ensure_unique env ''permissions[].id'' (map pm_id (pk_permissions m)),
       try_indexed (validate_permission env) (pk_permissions m),
       at_most ''broker_operations'' MAX_BROKER_OPERATIONS ''signed broker operations'' (pk_broker_operations m),
       ensure_unique env ''broker_operations[].id'' (map bo_id (pk_broker_operations m)),
       try_indexed (broker_operation_validate env (pk_permissions m)) (pk_broker_operations m),
       capabilities_validate env (pk_capabilities m),
       try_indexed (validate_event_permission (pk_permissions m)) (ca_knowledge_events (pk_capabilities m)),
       dependencies_validate (pk_dependencies m) (pk_bundle m),
       try_indexed (validate_profile_operations (index_by bo_id (pk_broker_operations m)))
         (ca_target_profiles (pk_capabilities m)),
       validate_version_features m,
       validate_package_paths env m,
       try_each (validate_extension env) (pk_extensions m)]"

definition validate_for_core ::
  "manifest_env \<Rightarrow> ('r \<Rightarrow> 'v \<Rightarrow> bool) \<Rightarrow> ('v \<Rightarrow> string) \<Rightarrow> ('r \<Rightarrow> string) \<Rightarrow> ('v, 'r) bundle_package_manifest
    \<Rightarrow> 'v \<Rightarrow> u32 \<Rightarrow> outcome" where
  "validate_for_core env vmatch vshow rshow m core_version host_protocol =
     (let compat = pk_compatibility m in
      all_ok
       [validate_structure env m,
        check (vmatch (bc_gadgetron compat) core_version)
         (Rejected (IncompatibleCore (rshow (bc_gadgetron compat)) (vshow core_version))),
        check (bc_host_protocol_min compat \<le> host_protocol \<and> host_protocol \<le> bc_host_protocol_max compat)
         (Rejected (IncompatibleProtocol (bc_host_protocol_min compat) (bc_host_protocol_max compat)
            host_protocol))])"

definition manifest_parse_toml ::
  "manifest_env \<Rightarrow> (string \<Rightarrow> (string, int option) result)
    \<Rightarrow> (string \<Rightarrow> (string, ('v, 'r) bundle_package_manifest) result) \<Rightarrow> string
    \<Rightarrow> (manifest_fault, ('v, 'r) bundle_package_manifest) result" where
  "manifest_parse_toml env toml_version toml_decode source =
     and_then (map_sum (\<lambda>e. Rejected (ManifestToml e)) id (toml_version source)) (\<lambda>raw.
     and_then (ok_or raw (invalid ''manifest_version'' ''a positive integer manifest version is required'')) (\<lambda>n.
     and_then (ok_or (if 0 \<le> n \<and> n < 2 ^ 32 then Some (word_of_int n :: u32) else None)
        (invalid ''manifest_version'' ''manifest version must fit an unsigned 32-bit integer'')) (\<lambda>version.
     and_then (supported_version version) (\<lambda>_.
     and_then (map_sum (\<lambda>e. Rejected (ManifestToml e)) id (toml_decode source)) (\<lambda>manifest.
     and_then (validate_structure env manifest) (\<lambda>_. Inr manifest))))))"

definition candidate_from_manifest ::
  "manifest_env \<Rightarrow> ('v, 'r) bundle_package_manifest \<Rightarrow> string \<Rightarrow> bundle_candidate_state
    \<Rightarrow> (manifest_fault, ('v, 'r) dependency_candidate) result" where
  "candidate_from_manifest env m digest state =
     and_then (validate_structure env m) (\<lambda>_.
     and_then (map_sum Rejected id (validate_sha256 digest)) (\<lambda>_.
     Inr \<lparr>cand_bundle_id = bi_id (pk_bundle m), cand_bundle_version = bi_version (pk_bundle m),
          cand_manifest_sha256 = digest, cand_state = state,
          cand_provides = ca_provides (pk_capabilities m), cand_dependencies = pk_dependencies m\<rparr>))"

end
