(* ===== verification/Manifest_Sample.thy ===== *)
theory Manifest_Sample
  imports Bundle_Manifest
begin

text \<open>
  A small accepted package, used as the concrete input of the witnesses: a subprocess runtime with one
  SSH operation, a target profile, two Gadgets, a researcher role that answers an event, a workspace with
  its contribution, a settings form, an asset and a migration.  Versions are numbers.
\<close>

definition package_env :: manifest_env where
  "package_env = \<lparr>to_vec = (\<lambda>v. Inr []), debug_str = (\<lambda>s. s)\<rparr>"

abbreviation sample_sha :: string where
  "sample_sha \<equiv> ''0123456789abcdef0123456789abcdef0123456789abcdef0123456789abcdef''"

definition object_schema :: "json_object \<Rightarrow> json" where
  "object_schema properties =
     JObject [(''type'', JString ''object''), (''additionalProperties'', JBool False),
       (''properties'', JObject properties)]"

definition sample_runtime :: external_runtime_spec where
  "sample_runtime =
     \<lparr>rt_kind = Subprocess, rt_transport = JsonRpcStdio, rt_entry = ''bin/run'', rt_entry_sha256 = Some sample_sha,
      rt_args = [], rt_limits = \<lparr>rl_memory_mb = 64, rl_open_files = 16, rl_cpu_seconds = 5\<rparr>, rt_egress_allow = []\<rparr>"

definition sample_permissions :: "permission_declaration list" where
  "sample_permissions =
     [\<lparr>pm_id = ''net'', pm_kind = Network, pm_description = ''ssh'', pm_resources = [''ssh:operation:inventory''],
       pm_secret_references = [\<lparr>sr_id = ''ssh-identity'', sr_purpose = ''login'', sr_required = True\<rparr>]\<rparr>,
      \<lparr>pm_id = ''key'', pm_kind = SecretUse, pm_description = ''key'', pm_resources = [''secret:use:ssh-identity''],
       pm_secret_references = []\<rparr>]"

definition sample_operation :: broker_operation_declaration where
  "sample_operation =
     \<lparr>bo_id = ''inventory'', bo_kind = SshExecute, bo_network_permission_id = ''net'',
      bo_network_resource = ''ssh:operation:inventory'', bo_secret_permission_id = ''key'',
      bo_secret_resource = ''secret:use:ssh-identity'', bo_command = ''uname'', bo_timeout_seconds = 10,
      bo_max_stdout_bytes = 1000, bo_max_stderr_bytes = 0\<rparr>"

definition sample_gadget :: "string \<Rightarrow> sdk_gadget_tier \<Rightarrow> gadget_descriptor" where
  "sample_gadget name tier =
     \<lparr>gd_name = name, gd_description = ''d'', gd_tier = tier, gd_input_schema = JObject [],
      gd_output_schema = JObject [],
      gd_effect = \<lparr>ge_risk = RiskLow, ge_idempotent = True, ge_reversible = True, ge_requires_evidence = False,
        ge_outcome_gadget = None, ge_rollback_gadget = None\<rparr>\<rparr>"

definition sample_profile :: target_profile_descriptor where
  "sample_profile =
     \<lparr>tp_id = ''host'', tp_label = ''Host'', tp_registry = SshRegistry, tp_default = True,
      tp_target_id_prefix = ''host'', tp_target_argument = ''target'', tp_allowed_operations = [''inventory''],
      tp_setup_features = [], tp_bootstrap_input_schema = object_schema [], tp_ssh_route = None,
      tp_verification_gadget = Some ''srv.list'', tp_verification_job = None, tp_setup_reapply_gadget = None,
      tp_setup_reapply_input_schema = None\<rparr>"

definition sample_job :: job_recipe_descriptor where
  "sample_job =
     \<lparr>jr_id = ''study'', jr_role = Researcher, jr_triggers = [Event], jr_goal = Some ''g'', jr_schedule = None,
      jr_target_registry = None, jr_target_profile = None, jr_knowledge_context = None,
      jr_event_kinds = [''changed''], jr_gadget_allowlist = [''srv.list''], jr_budget = None\<rparr>"

definition sample_role :: knowledge_agent_role where
  "sample_role =
     \<lparr>kr_id = ''reader'', kr_label = ''Reader'', kr_description = ''d'', kr_core_role = Researcher,
      kr_job = ''study'', kr_recipe_asset = ''recipe'', kr_collection_profile = None, kr_followup_role = None,
      kr_prompt_contract_revision = ''1''\<rparr>"

definition sample_event :: event_job_descriptor where
  "sample_event =
     \<lparr>ej_id = ''on-change'', ej_event_kind = ''changed'', ej_subject_owner_bundle = ''inv'',
      ej_subject_kind = ''server'', ej_agent_role = ''reader'', ej_input_schema = object_schema [],
      ej_result_gadget = ''srv.note''\<rparr>"

definition sample_workspace :: workspace_descriptor where
  "sample_workspace =
     \<lparr>wd_id = ''main'', wd_label = ''Main'', wd_renderer = RenderTable, wd_data_capability = ''srv.list'',
      wd_collection_profile = None, wd_action_gadgets = [''srv.note''], wd_required_scopes = [''ops'']\<rparr>"

definition sample_contribution :: ui_contribution_descriptor where
  "sample_contribution =
     \<lparr>ui_id = ''main-ui'', ui_kind = UiWorkspace, ui_label = ''Main'', ui_placement = PlaceMain,
      ui_order_hint = 0, ui_icon = IconFleet, ui_navigation_section = None, ui_target_registry = None,
      ui_target_profile = None, ui_target_retire_gadget = None, ui_required_scopes = [''ops''],
      ui_empty_state = ''none'', ui_error_state = ''error'', ui_workspace = Some ''main'', ui_gadget = None,
      ui_job = None, ui_domain_schema = None, ui_renderer = None, ui_refresh_seconds = None\<rparr>"

definition sample_settings :: json where
  "sample_settings =
     object_schema [(''mode'', JObject [(''type'', JString ''string''), (''default'', JString ''a'')])]"

definition sample_capabilities :: "nat bundle_capabilities" where
  "sample_capabilities =
     \<lparr>ca_provides = [], ca_gadget_namespaces = [''srv''], ca_domain_schemas = [],
      ca_gadgets = [sample_gadget ''srv.list'' TierRead, sample_gadget ''srv.note'' TierWrite],
      ca_source_connectors = [], ca_collection_profiles = [], ca_agent_roles = [sample_role],
      ca_target_profiles = [sample_profile], ca_jobs = [sample_job], ca_event_jobs = [sample_event],
      ca_knowledge_events = [], ca_row_enrichments = [], ca_policy_hints = [], ca_workspaces = [sample_workspace],
      ca_ui_contributions = [sample_contribution], ca_settings_schema = Some sample_settings,
      ca_seed_assets = [\<lparr>sa_id = ''recipe'', sa_path = ''assets/recipe.json'', sa_media_type = ''application/json'',
        sa_sha256 = sample_sha\<rparr>],
      ca_migrations = [\<lparr>mi_id = ''init'', mi_revision = 1, mi_kind = MigrateSchema, mi_path = ''sql/1.sql'',
        mi_sha256 = sample_sha, mi_legacy_sqlx_version = None\<rparr>]\<rparr>"

definition sample_package :: "(nat, nat) bundle_package_manifest" where
  "sample_package =
     \<lparr>pk_manifest_version = 3,
      pk_bundle = \<lparr>bi_id = ''srv-admin'', bi_version = 2, bi_class = Some Operational, bi_publisher = ''p'',
        bi_license = ''l'', bi_homepage = None\<rparr>,
      pk_compatibility = \<lparr>bc_gadgetron = 1, bc_host_protocol_min = 1, bc_host_protocol_max = 1\<rparr>,
      pk_runtime = sample_runtime, pk_permissions = sample_permissions,
      pk_broker_operations = [sample_operation], pk_capabilities = sample_capabilities,
      pk_dependencies = \<lparr>dep_requires = [], dep_optional = [\<lparr>decl_capability = ''wiki.pages'', decl_version = 1,
        decl_feature = ''notes'', decl_reason = ''r'', decl_provider_bundle = None, decl_provider_version = None\<rparr>],
        dep_conflicts = []\<rparr>,
      pk_extensions = []\<rparr>"

text \<open>Evaluation does not build the error texts of checks that pass.\<close>

declare check_def [code_unfold]
declare ok_or_def [code_unfold]

lemma sample_accepted: "validate_structure package_env sample_package = Inr ()"
  by code_simp

end
