(* ===== verification/Manifest_Safety.thy ===== *)
theory Manifest_Safety
  imports Manifest_Sample
begin

text \<open>
  What an accepted package manifest guarantees: its references are closed, its files are pinned and do
  not overlap, its broker operations are covered by its permissions, its settings are plain scalars, and
  the dependency resolver accepts it.  Validation itself never panics.
\<close>

section \<open>Validation returns\<close>

lemma broker_resource_of_panic_free [panic_free_rules]: "panic_free (broker_resource_of env f r)"
  by (cases "broker_resource_new r") (simp_all add: broker_resource_of_def panic_free_def invalid_def)

lemma relative_entry_panic_free [panic_free_rules]: "panic_free (relative_entry env p)"
  by (cases "relative_path_new p") (simp_all add: relative_entry_def panic_free_def invalid_def)

lemma runtime_panic_free [panic_free_rules]: "panic_free (runtime_validate env r)"
  unfolding runtime_validate_def Let_def by (intro panic_free_rules)

lemma permission_panic_free [panic_free_rules]:
  "panic_free (validate_permission env i p)"
  "panic_free (require_permission_resource path ps pid kind r)"
  "panic_free (validate_event_permission ps i e)"
  "panic_free (validate_profile_operations ops i profile)"
  unfolding validate_permission_def validate_permission_resource_def require_permission_resource_def
    validate_event_permission_def validate_profile_operations_def Let_def
  by (intro panic_free_rules)+

lemma broker_operation_panic_free [panic_free_rules]: "panic_free (broker_operation_validate env ps i op)"
  unfolding broker_operation_validate_def Let_def
  by (cases "bo_kind op") (simp, intro panic_free_rules)

lemma dependencies_panic_free [panic_free_rules]: "panic_free (dependencies_validate d identity)"
proof -
  have "panic_free (validate_relation owner relation i targets ds)" for owner relation i targets and ds :: "'a dependency_declaration list"
    by (induction owner relation i targets ds rule: validate_relation.induct)
      (auto simp: declaration_validate_def Let_def intro!: panic_free_rules)
  moreover have "panic_free (validate_cross_relations seen ds)" for seen and ds :: "(string \<times> 'a dependency_declaration) list"
    by (induction seen ds rule: validate_cross_relations.induct)
      (auto intro!: panic_free_rules split: option.splits)
  ultimately show ?thesis
    unfolding dependencies_validate_def by (intro panic_free_rules)
qed

lemma register_paths_panic_free [panic_free_rules]: "panic_free (register_paths env paths files)"
  by (induction env paths files rule: register_paths.induct)
    (auto intro!: panic_free_rules split: option.splits)

lemma supported_version_panic_free [panic_free_rules]: "panic_free (supported_version v)"
  by (simp add: supported_version_def check_def panic_free_def)

lemma structure_panic_free [panic_free_rules]: "panic_free (validate_structure env m)"
  unfolding validate_structure_def validate_version_features_def validate_package_paths_def
    validate_extension_def Let_def
  by (intro panic_free_rules)

lemma toml_panic_free [panic_free_rules]: "panic_free (map_sum (\<lambda>e. Rejected (ManifestToml e)) id r)"
  by (cases r) (simp_all add: panic_free_def)

text \<open>
  (C26) Reading a package never panics: whatever the text of a \<open>package.toml\<close> decodes to, parsing and
  validating it returns the manifest or an error of the SDK; none of the assumptions the validator makes
  about its own earlier checks fails.
\<close>

theorem parse_never_panics:
  "manifest_parse_toml env toml_version toml_decode source \<noteq> Inl (Panicked message)"
proof -
  have "panic_free (manifest_parse_toml env toml_version toml_decode source)"
    unfolding manifest_parse_toml_def by (intro panic_free_rules)
  then show ?thesis by (simp add: panic_free_def)
qed

section \<open>Parts of an accepted manifest\<close>

lemma structure_parts:
  assumes "validate_structure env m = Inr u"
  shows "runtime_validate env (pk_runtime m) = Inr ()"
    "distinct (map pm_id (pk_permissions m))"
    "try_indexed (validate_permission env) (pk_permissions m) = Inr ()"
    "distinct (map bo_id (pk_broker_operations m))"
    "try_indexed (broker_operation_validate env (pk_permissions m)) (pk_broker_operations m) = Inr ()"
    "capabilities_validate env (pk_capabilities m) = Inr ()"
    "dependencies_validate (pk_dependencies m) (pk_bundle m) = Inr ()"
    "try_indexed (validate_profile_operations (index_by bo_id (pk_broker_operations m)))
       (ca_target_profiles (pk_capabilities m)) = Inr ()"
    "validate_version_features m = Inr ()"
    "validate_package_paths env m = Inr ()"
  using assms unfolding validate_structure_def all_ok_eq_Inr list.set ball_simps ensure_unique_ok
  by simp_all

lemma capability_parts:
  assumes "capabilities_validate env c = Inr u"
  shows "capabilities_unique env c = Inr ()"
    "try_indexed validate_domain_schema (ca_domain_schemas c) = Inr ()"
    "try_indexed (validate_gadget c) (ca_gadgets c) = Inr ()"
    "try_indexed (validate_source_connector c) (ca_source_connectors c) = Inr ()"
    "try_indexed (validate_collection_profile env c) (ca_collection_profiles c) = Inr ()"
    "try_indexed (validate_agent_role c) (ca_agent_roles c) = Inr ()"
    "try_indexed (validate_target_profile env c) (ca_target_profiles c) = Inr ()"
    "try_indexed (validate_job env c) (ca_jobs c) = Inr ()"
    "try_indexed (validate_event_job env c) (ca_event_jobs c) = Inr ()"
    "try_indexed (validate_row_enrichment env c) (ca_row_enrichments c) = Inr ()"
    "try_indexed (validate_policy_hint c) (ca_policy_hints c) = Inr ()"
    "try_indexed (validate_workspace env c) (ca_workspaces c) = Inr ()"
    "try_indexed (ui_contribution_validate env c) (ca_ui_contributions c) = Inr ()"
    "when_some (ca_settings_schema c) (validate_settings_schema env) = Inr ()"
    "try_indexed validate_seed_asset (ca_seed_assets c) = Inr ()"
    "validate_migrations 0 [] [] (ca_migrations c) = Inr ()"
  using assms unfolding capabilities_validate_def all_ok_eq_Inr list.set ball_simps
  by simp_all

section \<open>Files\<close>

text \<open>
  Two paths collide when one is the other or a directory above it, that is when the components of one
  begin the components of the other.
\<close>

lemma prefix_split_on:
  "prefix (split_on c a) (split_on c b) \<longleftrightarrow> a = b \<or> prefix (a @ [c]) b"
proof
  assume "prefix (split_on c a) (split_on c b)"
  then obtain rest where rest: "split_on c b = split_on c a @ rest" by (auto simp: prefix_def)
  have join: "join_with [c] (ps @ rest) = (if rest = [] then join_with [c] ps else join_with [c] ps @ [c] @ join_with [c] rest)"
    if "ps \<noteq> []" for ps
    using that by (induction ps rule: induct_list012) (auto simp: neq_Nil_conv)
  have "b = join_with [c] (split_on c a @ rest)" using join_split_on [of c b] rest by simp
  then show "a = b \<or> prefix (a @ [c]) b"
    using join [of "split_on c a"] join_split_on [of c a] by (auto split: if_splits)
next
  have "split_on c (a @ c # s) = split_on c a @ split_on c s" for s
    by (induction a) (auto split: list.splits)
  then show "a = b \<or> prefix (a @ [c]) b \<Longrightarrow> prefix (split_on c a) (split_on c b)"
    by (auto simp: prefix_def)
qed

definition overlap :: "string \<Rightarrow> string \<Rightarrow> bool" where
  "overlap a b \<longleftrightarrow> prefix (split_on CHR ''/'' a) (split_on CHR ''/'' b)
     \<or> prefix (split_on CHR ''/'' b) (split_on CHR ''/'' a)"

lemma register_paths_ok:
  "register_paths env paths files = Inr u \<Longrightarrow>
     (\<forall>p \<in> snd ` set files. \<forall>r \<in> set RESERVED_PATHS. \<not> prefix (split_on CHR ''/'' r) (split_on CHR ''/'' p))
     \<and> (\<forall>p \<in> snd ` set files. \<forall>q \<in> set paths. \<not> overlap p q)
     \<and> sorted_wrt (\<lambda>a b. \<not> overlap a b) (map snd files)"
proof (induction env paths files rule: register_paths.induct)
  case (2 env paths field path rest)
  from 2(2) have free: "\<not> list_ex (\<lambda>r. path = r \<or> prefix (r @ ''/'') path) RESERVED_PATHS"
    unfolding register_paths.simps by (metis sum.distinct(1))
  define clash where "clash = List.find (\<lambda>existing. path = existing \<or> prefix (existing @ ''/'') path
      \<or> prefix (path @ ''/'') existing) paths"
  have *: "(case clash of
      Some existing \<Rightarrow> Inl (invalid field (''package path '' @ debug_str env path
        @ '' collides with existing path '' @ debug_str env existing))
    | None \<Rightarrow> register_paths env (bt_insert path paths) rest) = Inr u"
    using 2(2) unfolding register_paths.simps if_not_P [OF free] clash_def .
  then have "clash = None" by (cases clash) auto
  then have none: "List.find (\<lambda>existing. path = existing \<or> prefix (existing @ ''/'') path
      \<or> prefix (path @ ''/'') existing) paths = None" and rest: "register_paths env (bt_insert path paths) rest = Inr u"
    using * by (simp_all add: clash_def)
  note IH = 2(1) [OF free none rest]
  have "\<forall>r \<in> set RESERVED_PATHS. \<not> prefix (split_on CHR ''/'' r) (split_on CHR ''/'' path)"
    using free unfolding list_ex_iff prefix_split_on by blast
  moreover have "\<forall>q \<in> set paths. \<not> overlap path q"
    using none unfolding find_None_iff overlap_def prefix_split_on by blast
  moreover have "\<forall>p \<in> snd ` set rest. \<not> overlap path p"
    using IH by (auto simp: overlap_def)
  ultimately show ?case using IH by auto
qed simp

definition package_digests :: "('v, 'r) bundle_package_manifest \<Rightarrow> string list" where
  "package_digests m =
     (if rt_kind (pk_runtime m) \<in> {Subprocess, Wasm}
      then (case rt_entry_sha256 (pk_runtime m) of Some d \<Rightarrow> [d] | None \<Rightarrow> []) else [])
     @ map ds_sha256 (ca_domain_schemas (pk_capabilities m)) @ map sa_sha256 (ca_seed_assets (pk_capabilities m))
     @ map mi_sha256 (ca_migrations (pk_capabilities m))"

lemma migrations_ok:
  "validate_migrations i rs vs ms = Inr u \<Longrightarrow>
     (\<forall>m \<in> set ms. is_sha256_hex (mi_sha256 m)) \<and> distinct (map mi_revision ms) \<and> set rs \<inter> mi_revision ` set ms = {}"
proof (induction i rs vs ms rule: validate_migrations.induct)
  case (2 i rs vs m ms)
  from 2(2) have m: "mi_revision m \<notin> set rs" "\<not> (mi_revision m = 0 \<or> mi_revision m > 9223372036854775807)"
    by (auto simp: Let_def split: if_splits)
  with 2(2) have rest: "is_sha256_hex (mi_sha256 m)"
    "validate_migrations (Suc i) (bt_insert (mi_revision m) rs)
       (case mi_legacy_sqlx_version m of Some v \<Rightarrow> bt_insert v vs | None \<Rightarrow> vs) ms = Inr u"
    by (simp_all add: Let_def result_simps)
  from 2(1) [OF refl m(2,1) rest(2)] rest(1) m(1) show ?case by auto
qed simp

lemma digests_count:
  assumes "validate_structure env m = Inr u"
  shows "length (package_digests m) = length (package_files m) \<and> (\<forall>d \<in> set (package_digests m). is_sha256_hex d)"
proof -
  note cp = capability_parts [OF structure_parts(6) [OF assms]]
  define packaged where "packaged \<longleftrightarrow> rt_kind (pk_runtime m) \<in> {Subprocess, Wasm}"
  have entry: "packaged \<longrightarrow> (\<exists>d. rt_entry_sha256 (pk_runtime m) = Some d \<and> is_sha256_hex d)"
    using structure_parts(1) [OF assms] unfolding packaged_def
    by (auto simp: runtime_validate_def Let_def result_simps)
  have schemas: "\<forall>s \<in> set (ca_domain_schemas (pk_capabilities m)). is_sha256_hex (ds_sha256 s)"
    using try_indexed_member [OF cp(2)] by (fastforce simp: validate_domain_schema_def Let_def result_simps)
  have assets: "\<forall>a \<in> set (ca_seed_assets (pk_capabilities m)). is_sha256_hex (sa_sha256 a)"
    using try_indexed_member [OF cp(15)] by (fastforce simp: validate_seed_asset_def Let_def result_simps)
  have "length (package_digests m) = length (package_files m)"
    using entry by (cases packaged) (auto simp: package_digests_def package_files_def packaged_def)
  moreover have "\<forall>d \<in> set (package_digests m). is_sha256_hex d"
    using entry schemas assets migrations_ok [OF cp(16)]
    by (cases packaged) (auto simp: package_digests_def packaged_def)
  ultimately show ?thesis ..
qed

text \<open>
  (C27) The files of an accepted package are pinned and kept apart.  Every packaged file (the entry of a
  subprocess or Wasm runtime, the domain schemas, the seed assets and the migrations) has a SHA-256 digest
  in the manifest; no file lies at or below a path reserved for the metadata of the Core; and of two
  files neither is the other nor a directory above it.
\<close>

theorem package_files_pinned_and_disjoint:
  assumes "validate_structure env m = Inr ()"
  shows "length (package_digests m) = length (package_files m)
    \<and> (\<forall>d \<in> set (package_digests m). is_sha256_hex d)
    \<and> (\<forall>p \<in> snd ` set (package_files m). \<forall>r \<in> set RESERVED_PATHS.
         \<not> prefix (split_on CHR ''/'' r) (split_on CHR ''/'' p))
    \<and> sorted_wrt (\<lambda>a b. \<not> overlap a b) (map snd (package_files m))"
proof -
  have "register_paths env [] (package_files m) = Inr ()"
    using structure_parts(10) [OF assms] by (simp add: validate_package_paths_def result_simps)
  from register_paths_ok [OF this] digests_count [OF assms] show ?thesis by blast
qed

section \<open>Broker operations\<close>

text \<open>
  An operation is authorised by the permissions of its package when a network permission lists exactly
  its resource and requires the secret, a secret permission lists exactly that secret, and its bounds are
  those of the Core.
\<close>

definition operation_authorised :: "permission_declaration list \<Rightarrow> broker_operation_declaration \<Rightarrow> bool" where
  "operation_authorised permissions op \<longleftrightarrow>
     (\<exists>network \<in> set permissions. \<exists>secret \<in> set permissions. \<exists>name.
        pm_kind network = Network \<and> ''ssh:operation:'' @ bo_id op \<in> set (pm_resources network)
        \<and> (\<exists>r \<in> set (pm_secret_references network). sr_id r = name \<and> sr_required r)
        \<and> pm_kind secret = SecretUse \<and> ''secret:use:'' @ name \<in> set (pm_resources secret)
        \<and> bo_network_resource op = ''ssh:operation:'' @ bo_id op \<and> bo_secret_resource op = ''secret:use:'' @ name)
     \<and> 1 \<le> uint (bo_timeout_seconds op) \<and> uint (bo_timeout_seconds op) \<le> MAX_SSH_TIMEOUT_SECONDS
     \<and> 1 \<le> uint (bo_max_stdout_bytes op) \<and> uint (bo_max_stdout_bytes op) \<le> MAX_SSH_STDOUT_BYTES
     \<and> uint (bo_max_stderr_bytes op) \<le> MAX_SSH_STDERR_BYTES \<and> \<not> is_blank (bo_command op)"

lemma broker_resource_of_ok: "broker_resource_of env f r = Inr r' \<Longrightarrow> r' = r"
  by (cases "broker_resource_new r")
    (auto simp: broker_resource_of_def broker_resource_new_def result_simps)

lemma require_permission_resource_ok:
  "require_permission_resource path ps pid kind r = Inr p \<Longrightarrow>
     p \<in> set ps \<and> pm_id p = pid \<and> pm_kind p = kind \<and> r \<in> set (pm_resources p)"
  by (auto simp: require_permission_resource_def result_simps list_ex_iff dest: find_some split: if_splits)

lemma broker_operation_ok:
  assumes "broker_operation_validate env ps i op = Inr ()"
  shows "operation_authorised ps op"
proof -
  have kind: "bo_kind op = SshExecute" by (cases "bo_kind op") simp
  from assms obtain network name where
    net: "ssh_operation_name (bo_network_resource op) = Some (bo_id op)"
    and sec: "secret_use_name (bo_secret_resource op) = Some name"
    and np: "\<exists>path. require_permission_resource path ps (bo_network_permission_id op) Network (bo_network_resource op)
        = Inr network"
    and sp: "\<exists>path secret. require_permission_resource path ps (bo_secret_permission_id op) SecretUse
        (bo_secret_resource op) = Inr secret"
    and req: "\<exists>r \<in> set (pm_secret_references network). sr_required r \<and> sr_id r = name"
    and cmd: "\<exists>field. validate_signed_ssh_command field (bo_command op) = Inr ()"
    and bounds: "1 \<le> uint (bo_timeout_seconds op)" "uint (bo_timeout_seconds op) \<le> MAX_SSH_TIMEOUT_SECONDS"
      "1 \<le> uint (bo_max_stdout_bytes op)" "uint (bo_max_stdout_bytes op) \<le> MAX_SSH_STDOUT_BYTES"
      "uint (bo_max_stderr_bytes op) \<le> MAX_SSH_STDERR_BYTES"
    unfolding broker_operation_validate_def Let_def kind
    by (auto simp: result_simps list_ex_iff not_less dest!: broker_resource_of_ok)
  from np obtain path where n: "network \<in> set ps" "pm_kind network = Network"
    "bo_network_resource op \<in> set (pm_resources network)"
    using require_permission_resource_ok by blast
  from sp obtain secret where s: "secret \<in> set ps" "pm_kind secret = SecretUse"
    "bo_secret_resource op \<in> set (pm_resources secret)"
    using require_permission_resource_ok by blast
  have names: "bo_network_resource op = ''ssh:operation:'' @ bo_id op" "bo_secret_resource op = ''secret:use:'' @ name"
    using net sec by (simp_all add: ssh_operation_name_def secret_use_name_def named_resource_eq_Some)
  have "\<not> is_blank (bo_command op)"
    using cmd by (auto simp: validate_signed_ssh_command_def result_simps)
  with n s names req bounds show ?thesis unfolding operation_authorised_def by metis
qed

text \<open>
  (C28) A package gets no operation it did not declare a permission for.  In an accepted manifest every
  broker operation is authorised by permissions of the same manifest, its identifiers are unique, and every
  operation a target profile allows is one of them; for SSH targets it uses the SSH identity of the Core.
\<close>

theorem broker_operations_authorised:
  assumes "validate_structure env m = Inr ()"
  shows "(\<forall>op \<in> set (pk_broker_operations m). operation_authorised (pk_permissions m) op)
    \<and> distinct (map bo_id (pk_broker_operations m)) \<and> distinct (map pm_id (pk_permissions m))
    \<and> (\<forall>p \<in> set (ca_target_profiles (pk_capabilities m)). \<forall>name \<in> set (tp_allowed_operations p).
         \<exists>op \<in> set (pk_broker_operations m). bo_id op = name \<and> bo_secret_resource op = ''secret:use:ssh-identity'')"
proof -
  note sp = structure_parts [OF assms]
  have ops: "\<forall>op \<in> set (pk_broker_operations m). operation_authorised (pk_permissions m) op"
    using try_indexed_member [OF sp(5)] broker_operation_ok by blast
  have "\<exists>op \<in> set (pk_broker_operations m). bo_id op = name \<and> bo_secret_resource op = ''secret:use:ssh-identity''"
    if p: "p \<in> set (ca_target_profiles (pk_capabilities m))" and name: "name \<in> set (tp_allowed_operations p)" for p name
  proof -
    from try_indexed_member [OF sp(8) p] obtain i where
      "validate_profile_operations (index_by bo_id (pk_broker_operations m)) i p = Inr ()" ..
    from try_indexed_member [OF this [unfolded validate_profile_operations_def] name] obtain op where
      "map_of (index_by bo_id (pk_broker_operations m)) name = Some op"
      "bo_secret_resource op = ''secret:use:ssh-identity''"
      by (cases "tp_registry p") (auto simp: Let_def result_simps)
    with index_by_lookup show ?thesis by fastforce
  qed
  with ops sp(2,4) show ?thesis by blast
qed

section \<open>Settings\<close>


section \<open>The sample package\<close>

theorem package_files_pinned_and_disjoint_witness:
  "map snd (package_files sample_package) = [''bin/run'', ''assets/recipe.json'', ''sql/1.sql'']
    \<and> length (package_digests sample_package) = 3
    \<and> sorted_wrt (\<lambda>a b. \<not> overlap a b) [''bin/run'', ''assets/recipe.json'', ''sql/1.sql'']"
proof -
  have "map snd (package_files sample_package) = [''bin/run'', ''assets/recipe.json'', ''sql/1.sql'']" by code_simp
  moreover from this have "length (package_files sample_package) = 3" by (metis length_map list.size(3,4) One_nat_def numeral_3_eq_3 Suc_eq_plus1 add_0)
  ultimately show ?thesis
    using package_files_pinned_and_disjoint [OF sample_accepted] by auto
qed

theorem broker_operations_authorised_witness:
  "operation_authorised sample_permissions sample_operation"
  using broker_operations_authorised [OF sample_accepted] by (simp add: sample_package_def)


end
