(* ===== verification/Manifest_Closure.thy ===== *)
theory Manifest_Closure
  imports Manifest_Safety
begin

text \<open>
  The references inside an accepted manifest, and the manifest as a candidate of the dependency
  resolver.
\<close>

section \<open>Closed references\<close>

definition offers :: "'v bundle_capabilities \<Rightarrow> string \<Rightarrow> bool" where
  "offers c g \<longleftrightarrow> g \<in> gd_name ` set (ca_gadgets c)"

definition bounded_write :: "gadget_descriptor \<Rightarrow> bool" where
  "bounded_write g \<longleftrightarrow> gd_tier g = TierWrite \<and> ge_idempotent (gd_effect g) \<and> ge_risk (gd_effect g) \<in> {RiskLow, RiskMedium}"

definition json_asset :: "'v bundle_capabilities \<Rightarrow> string \<Rightarrow> bool" where
  "json_asset c a \<longleftrightarrow> (\<exists>s \<in> set (ca_seed_assets c). sa_id s = a \<and> sa_media_type s = ''application/json'')"

definition gadgets_closed :: "'v bundle_capabilities \<Rightarrow> bool" where
  "gadgets_closed c \<longleftrightarrow>
     (\<forall>g \<in> set (ca_gadgets c). gadget_namespace (gd_name g) \<in> set (ca_gadget_namespaces c)
        \<and> (\<forall>r. ge_outcome_gadget (gd_effect g) = Some r \<longrightarrow> offers c r)
        \<and> (\<forall>r. ge_rollback_gadget (gd_effect g) = Some r \<longrightarrow> offers c r))
     \<and> (\<forall>s \<in> set (ca_source_connectors c). offers c (sc_gadget s))
     \<and> (\<forall>h \<in> set (ca_policy_hints c). \<forall>g \<in> set (ph_applies_to h). offers c g)
     \<and> (\<forall>j \<in> set (ca_jobs c). \<forall>g \<in> set (jr_gadget_allowlist j). offers c g)
     \<and> (\<forall>w \<in> set (ca_workspaces c). offers c (wd_data_capability w) \<and> (\<forall>g \<in> set (wd_action_gadgets w). offers c g))"

definition roles_closed :: "'v bundle_capabilities \<Rightarrow> bool" where
  "roles_closed c \<longleftrightarrow>
     (\<forall>r \<in> set (ca_agent_roles c). kr_core_role r \<noteq> Operator \<and> json_asset c (kr_recipe_asset r)
        \<and> (\<exists>j \<in> set (ca_jobs c). jr_id j = kr_job r \<and> jr_role j = kr_core_role r)
        \<and> (\<forall>p. kr_collection_profile r = Some p \<longrightarrow> p \<in> cp_id ` set (ca_collection_profiles c))
        \<and> (\<forall>f. kr_followup_role r = Some f \<longrightarrow> kr_core_role r = Researcher
             \<and> (\<exists>r' \<in> set (ca_agent_roles c). kr_id r' = f \<and> kr_core_role r' = Gardener)))
     \<and> (\<forall>e \<in> set (ca_event_jobs c).
          (\<exists>r \<in> set (ca_agent_roles c). \<exists>j \<in> set (ca_jobs c). kr_id r = ej_agent_role e \<and> jr_id j = kr_job r
             \<and> Event \<in> set (jr_triggers j) \<and> ej_event_kind e \<in> set (jr_event_kinds j))
          \<and> (\<exists>g \<in> set (ca_gadgets c). gd_name g = ej_result_gadget e \<and> bounded_write g))
     \<and> (\<forall>n \<in> set (ca_row_enrichments c).
          (\<exists>e \<in> set (ca_event_jobs c). ej_id e = re_event_job n \<and> ej_subject_owner_bundle e = re_target_bundle n
             \<and> ej_subject_kind e = re_subject_kind n)
          \<and> (\<exists>g \<in> set (ca_gadgets c). gd_name g = re_read_gadget n \<and> gd_tier g = TierRead \<and> ge_idempotent (gd_effect g)))"

definition surfaces_closed :: "'v bundle_capabilities \<Rightarrow> bool" where
  "surfaces_closed c \<longleftrightarrow>
     (\<forall>u \<in> set (ca_ui_contributions c).
        (\<forall>w. ui_workspace u = Some w \<longrightarrow>
           (\<exists>d \<in> set (ca_workspaces c). wd_id d = w \<and> set (wd_required_scopes d) \<subseteq> set (ui_required_scopes u)))
        \<and> (\<forall>g. ui_gadget u = Some g \<longrightarrow> offers c g)
        \<and> (\<forall>j. ui_job u = Some j \<longrightarrow> j \<in> jr_id ` set (ca_jobs c))
        \<and> (\<forall>s. ui_domain_schema u = Some s \<longrightarrow> s \<in> ds_id ` set (ca_domain_schemas c))
        \<and> (\<forall>p. ui_target_profile u = Some p \<longrightarrow> p \<in> tp_id ` set (ca_target_profiles c)))"

lemma offers_iff: "g \<in> set (gadget_names c) \<longleftrightarrow> offers c g"
  by (simp add: gadget_names_def offers_def)

lemma descriptor_lookup:
  "map_of (gadget_descriptors c) g = Some d \<Longrightarrow> d \<in> set (ca_gadgets c) \<and> gd_name d = g"
  unfolding gadget_descriptors_def by (rule index_by_lookup)

lemma json_asset_ok: "require_json_seed_asset f a (seed_assets_by_id c) = Inr u \<Longrightarrow> json_asset c a"
  by (auto simp: require_json_seed_asset_def seed_assets_by_id_def json_asset_def result_simps dest: index_by_lookup)

lemma gadget_ok:
  "validate_gadget c i g = Inr u \<Longrightarrow>
     gadget_namespace (gd_name g) \<in> set (ca_gadget_namespaces c)
     \<and> (\<forall>r. ge_outcome_gadget (gd_effect g) = Some r \<longrightarrow> offers c r)
     \<and> (\<forall>r. ge_rollback_gadget (gd_effect g) = Some r \<longrightarrow> offers c r)"
  by (auto simp: validate_gadget_def Let_def result_simps offers_iff)

lemma connector_ok: "validate_source_connector c i s = Inr u \<Longrightarrow> offers c (sc_gadget s)"
  by (simp add: validate_source_connector_def Let_def result_simps offers_iff)

lemma known_gadgets_ok:
  "try_indexed (\<lambda>i g. require_known_gadget (field i) g (gadget_names c)) gs = Inr u \<longleftrightarrow> (\<forall>g \<in> set gs. offers c g)"
  by (simp add: try_indexed_eq_Inr require_known_gadget_ok offers_iff all_set_conv_all_nth)

lemma hint_ok: "validate_policy_hint c i h = Inr u \<Longrightarrow> g \<in> set (ph_applies_to h) \<Longrightarrow> offers c g"
  by (simp add: validate_policy_hint_def Let_def all_ok_eq_Inr known_gadgets_ok)

lemma job_ok: "validate_job env c i j = Inr u \<Longrightarrow> g \<in> set (jr_gadget_allowlist j) \<Longrightarrow> offers c g"
  unfolding validate_job_def Let_def all_ok_eq_Inr list.set ball_simps
  by (elim conjE) (simp add: known_gadgets_ok)

lemma workspace_ok:
  "validate_workspace env c i w = Inr u \<Longrightarrow>
     offers c (wd_data_capability w) \<and> (\<forall>g \<in> set (wd_action_gadgets w). offers c g)"
  by (simp add: validate_workspace_def Let_def all_ok_eq_Inr known_gadgets_ok require_known_gadget_ok offers_iff)

lemma gadgets_closed_ok:
  assumes "capabilities_validate env c = Inr u"
  shows "gadgets_closed c"
proof -
  note cp = capability_parts [OF assms]
  note members = try_indexed_member [OF cp(3)] try_indexed_member [OF cp(4)] try_indexed_member [OF cp(11)]
    try_indexed_member [OF cp(8)] try_indexed_member [OF cp(12)]
  show ?thesis
    unfolding gadgets_closed_def
  proof (intro conjI ballI)
    fix g assume "g \<in> set (ca_gadgets c)"
    then show "gadget_namespace (gd_name g) \<in> set (ca_gadget_namespaces c)"
      "\<forall>r. ge_outcome_gadget (gd_effect g) = Some r \<longrightarrow> offers c r"
      "\<forall>r. ge_rollback_gadget (gd_effect g) = Some r \<longrightarrow> offers c r"
      using members(1) gadget_ok by blast+
  next
    fix s assume "s \<in> set (ca_source_connectors c)"
    then show "offers c (sc_gadget s)" using members(2) connector_ok by blast
  next
    fix h g assume "h \<in> set (ca_policy_hints c)" "g \<in> set (ph_applies_to h)"
    then show "offers c g" using members(3) hint_ok by blast
  next
    fix j g assume "j \<in> set (ca_jobs c)" "g \<in> set (jr_gadget_allowlist j)"
    then show "offers c g" using members(4) job_ok by blast
  next
    fix w assume "w \<in> set (ca_workspaces c)"
    then show "offers c (wd_data_capability w)" using members(5) workspace_ok by blast
  next
    fix w g assume "w \<in> set (ca_workspaces c)" "g \<in> set (wd_action_gadgets w)"
    then show "offers c g" using members(5) workspace_ok by blast
  qed
qed

lemma role_ok:
  assumes "validate_agent_role c i r = Inr u"
  shows "kr_core_role r \<noteq> Operator" "json_asset c (kr_recipe_asset r)"
    "\<exists>j \<in> set (ca_jobs c). jr_id j = kr_job r \<and> jr_role j = kr_core_role r"
    "kr_collection_profile r = Some p \<Longrightarrow> p \<in> cp_id ` set (ca_collection_profiles c)"
    "kr_followup_role r = Some f \<Longrightarrow> kr_core_role r = Researcher
       \<and> (\<exists>r' \<in> set (ca_agent_roles c). kr_id r' = f \<and> kr_core_role r' = Gardener)"
proof -
  define path where "path = idx ''capabilities.agent_roles'' i"
  from assms obtain job where
    job: "List.find (\<lambda>candidate. jr_id candidate = kr_job r) (ca_jobs c) = Some job" "jr_role job = kr_core_role r"
    and core: "kr_core_role r \<noteq> Operator"
    and asset: "require_json_seed_asset (path @ ''.recipe_asset'') (kr_recipe_asset r) (seed_assets_by_id c) = Inr ()"
    and profile: "\<forall>p. kr_collection_profile r = Some p \<longrightarrow> map_of (collection_profiles_by_id c) p \<noteq> None"
    and followup: "\<forall>f. kr_followup_role r = Some f \<longrightarrow> validate_followup_role c path r f = Inr ()"
    unfolding validate_agent_role_def Let_def path_def [symmetric] by (auto simp: result_simps)
  show "kr_core_role r \<noteq> Operator" by (rule core)
  show "json_asset c (kr_recipe_asset r)" by (rule json_asset_ok [OF asset])
  show "\<exists>j \<in> set (ca_jobs c). jr_id j = kr_job r \<and> jr_role j = kr_core_role r"
    using find_some [OF job(1)] job(2) by blast
  show "kr_collection_profile r = Some p \<Longrightarrow> p \<in> cp_id ` set (ca_collection_profiles c)"
    using profile index_by_dom [of cp_id "ca_collection_profiles c" p] by (simp add: collection_profiles_by_id_def)
  show "kr_followup_role r = Some f \<Longrightarrow> kr_core_role r = Researcher
      \<and> (\<exists>r' \<in> set (ca_agent_roles c). kr_id r' = f \<and> kr_core_role r' = Gardener)"
    using followup by (auto simp: validate_followup_role_def result_simps dest: find_some)
qed

lemma risk_bounded: "ge_risk e \<notin> {RiskHigh, RiskCritical} \<longleftrightarrow> ge_risk e \<in> {RiskLow, RiskMedium}"
  by (cases "ge_risk e") auto

lemma event_job_ok:
  assumes "validate_event_job env c i e = Inr u"
  shows "\<exists>r \<in> set (ca_agent_roles c). \<exists>j \<in> set (ca_jobs c). kr_id r = ej_agent_role e \<and> jr_id j = kr_job r
           \<and> Event \<in> set (jr_triggers j) \<and> ej_event_kind e \<in> set (jr_event_kinds j)"
    "\<exists>g \<in> set (ca_gadgets c). gd_name g = ej_result_gadget e \<and> bounded_write g"
proof -
  from assms obtain r j g where
    r: "List.find (\<lambda>candidate. kr_id candidate = ej_agent_role e) (ca_agent_roles c) = Some r"
    and j: "List.find (\<lambda>candidate. jr_id candidate = kr_job r) (ca_jobs c) = Some j"
      "Event \<in> set (jr_triggers j)" "ej_event_kind e \<in> set (jr_event_kinds j)"
    and g: "map_of (gadget_descriptors c) (ej_result_gadget e) = Some g" "gd_tier g = TierWrite"
      "ge_idempotent (gd_effect g)" "ge_risk (gd_effect g) \<notin> {RiskHigh, RiskCritical}"
    unfolding validate_event_job_def Let_def expect_def
    by (auto simp: result_simps list_ex_iff simp del: insert_iff)
  show "\<exists>r \<in> set (ca_agent_roles c). \<exists>j \<in> set (ca_jobs c). kr_id r = ej_agent_role e \<and> jr_id j = kr_job r
      \<and> Event \<in> set (jr_triggers j) \<and> ej_event_kind e \<in> set (jr_event_kinds j)"
    using find_some [OF r] find_some [OF j(1)] j(2,3) by blast
  show "\<exists>g \<in> set (ca_gadgets c). gd_name g = ej_result_gadget e \<and> bounded_write g"
    using descriptor_lookup [OF g(1)] g(2-4) unfolding bounded_write_def risk_bounded by blast
qed

lemma enrichment_ok:
  assumes "validate_row_enrichment env c i n = Inr u"
  shows "\<exists>e \<in> set (ca_event_jobs c). ej_id e = re_event_job n \<and> ej_subject_owner_bundle e = re_target_bundle n
      \<and> ej_subject_kind e = re_subject_kind n"
    "\<exists>g \<in> set (ca_gadgets c). gd_name g = re_read_gadget n \<and> gd_tier g = TierRead \<and> ge_idempotent (gd_effect g)"
proof -
  from assms obtain e g where
    e: "List.find (\<lambda>candidate. ej_id candidate = re_event_job n) (ca_event_jobs c) = Some e"
      "ej_subject_owner_bundle e = re_target_bundle n" "ej_subject_kind e = re_subject_kind n"
    and g: "map_of (gadget_descriptors c) (re_read_gadget n) = Some g" "gd_tier g = TierRead"
      "ge_idempotent (gd_effect g)"
    unfolding validate_row_enrichment_def Let_def by (auto simp: result_simps)
  show "\<exists>e \<in> set (ca_event_jobs c). ej_id e = re_event_job n \<and> ej_subject_owner_bundle e = re_target_bundle n
      \<and> ej_subject_kind e = re_subject_kind n"
    using find_some [OF e(1)] e(2,3) by blast
  show "\<exists>g \<in> set (ca_gadgets c). gd_name g = re_read_gadget n \<and> gd_tier g = TierRead \<and> ge_idempotent (gd_effect g)"
    using descriptor_lookup [OF g(1)] g(2,3) by blast
qed

lemma roles_closed_ok:
  assumes "capabilities_validate env c = Inr u"
  shows "roles_closed c"
proof -
  note cp = capability_parts [OF assms]
  show ?thesis
    unfolding roles_closed_def
  proof (intro conjI ballI allI impI)
    fix r assume "r \<in> set (ca_agent_roles c)"
    then obtain i where r: "validate_agent_role c i r = Inr ()" using try_indexed_member [OF cp(6)] by blast
    note role_ok [OF r]
    then show "kr_core_role r \<noteq> Operator" "json_asset c (kr_recipe_asset r)"
      "\<exists>j \<in> set (ca_jobs c). jr_id j = kr_job r \<and> jr_role j = kr_core_role r"
      "\<And>p. kr_collection_profile r = Some p \<Longrightarrow> p \<in> cp_id ` set (ca_collection_profiles c)"
      "\<And>f. kr_followup_role r = Some f \<Longrightarrow> kr_core_role r = Researcher"
      "\<And>f. kr_followup_role r = Some f \<Longrightarrow> \<exists>r' \<in> set (ca_agent_roles c). kr_id r' = f \<and> kr_core_role r' = Gardener"
      by blast+
  next
    fix e assume "e \<in> set (ca_event_jobs c)"
    then obtain i where e: "validate_event_job env c i e = Inr ()" using try_indexed_member [OF cp(9)] by blast
    show "\<exists>r \<in> set (ca_agent_roles c). \<exists>j \<in> set (ca_jobs c). kr_id r = ej_agent_role e \<and> jr_id j = kr_job r
        \<and> Event \<in> set (jr_triggers j) \<and> ej_event_kind e \<in> set (jr_event_kinds j)"
      "\<exists>g \<in> set (ca_gadgets c). gd_name g = ej_result_gadget e \<and> bounded_write g"
      by (rule event_job_ok [OF e])+
  next
    fix n assume "n \<in> set (ca_row_enrichments c)"
    then obtain i where n: "validate_row_enrichment env c i n = Inr ()" using try_indexed_member [OF cp(10)] by blast
    show "\<exists>e \<in> set (ca_event_jobs c). ej_id e = re_event_job n \<and> ej_subject_owner_bundle e = re_target_bundle n
        \<and> ej_subject_kind e = re_subject_kind n"
      "\<exists>g \<in> set (ca_gadgets c). gd_name g = re_read_gadget n \<and> gd_tier g = TierRead \<and> ge_idempotent (gd_effect g)"
      by (rule enrichment_ok [OF n])+
  qed
qed

lemma surface_ok:
  assumes "ui_contribution_validate env c i u = Inr x"
  shows "ui_workspace u = Some w \<Longrightarrow>
      \<exists>d \<in> set (ca_workspaces c). wd_id d = w \<and> set (wd_required_scopes d) \<subseteq> set (ui_required_scopes u)"
    "ui_gadget u = Some g \<Longrightarrow> offers c g"
    "ui_job u = Some j \<Longrightarrow> j \<in> jr_id ` set (ca_jobs c)"
    "ui_domain_schema u = Some s \<Longrightarrow> s \<in> ds_id ` set (ca_domain_schemas c)"
    "ui_target_profile u = Some p \<Longrightarrow> p \<in> tp_id ` set (ca_target_profiles c)"
proof -
  define path where "path = idx ''capabilities.ui_contributions'' i"
  from assms have
    target: "ui_target_checks c path u = Inr ()"
    and workspace: "when_some (ui_workspace u) (ui_workspace_reference env c path u) = Inr ()"
    and gadget: "\<forall>g. ui_gadget u = Some g \<longrightarrow> offers c g"
    and job: "\<forall>j. ui_job u = Some j \<longrightarrow> j \<in> set (job_ids c)"
    and schema: "\<forall>s. ui_domain_schema u = Some s \<longrightarrow> s \<in> set (domain_schema_ids c)"
    unfolding ui_contribution_validate_def Let_def path_def [symmetric] all_ok_eq_Inr list.set ball_simps
    by (elim conjE, simp add: result_simps offers_iff)+
  show "ui_gadget u = Some g \<Longrightarrow> offers c g" using gadget by blast
  show "ui_job u = Some j \<Longrightarrow> j \<in> jr_id ` set (ca_jobs c)" using job by (simp add: job_ids_def)
  show "ui_domain_schema u = Some s \<Longrightarrow> s \<in> ds_id ` set (ca_domain_schemas c)"
    using schema by (simp add: domain_schema_ids_def)
  show "ui_target_profile u = Some p \<Longrightarrow> p \<in> tp_id ` set (ca_target_profiles c)"
    using target unfolding ui_target_checks_def all_ok_eq_Inr list.set ball_simps
    by (elim conjE) (auto simp: result_simps target_profiles_by_id_def dest!: index_by_lookup)
  show "\<exists>d \<in> set (ca_workspaces c). wd_id d = w \<and> set (wd_required_scopes d) \<subseteq> set (ui_required_scopes u)"
    if "ui_workspace u = Some w"
    using workspace that
    by (auto simp: ui_workspace_reference_def workspaces_by_id_def result_simps dest!: index_by_lookup)
qed

lemma surfaces_closed_ok:
  assumes "capabilities_validate env c = Inr u"
  shows "surfaces_closed c"
  unfolding surfaces_closed_def
  using try_indexed_member [OF capability_parts(13) [OF assms]] surface_ok by metis


section \<open>Packages as candidates\<close>

lemma validate_relation_ok:
  "validate_relation owner relation i targets ds = Inr u \<Longrightarrow>
     distinct (map declaration_target ds) \<and> (\<forall>d \<in> set ds. decl_provider_bundle d \<noteq> Some owner)"
proof -
  have "validate_relation owner relation i targets ds = Inr u \<Longrightarrow>
     distinct (map declaration_target ds) \<and> set targets \<inter> declaration_target ` set ds = {}
     \<and> (\<forall>d \<in> set ds. decl_provider_bundle d \<noteq> Some owner)"
    by (induction owner relation i targets ds rule: validate_relation.induct)
      (auto simp: result_simps declaration_validate_def Let_def split: if_splits)
  then show "validate_relation owner relation i targets ds = Inr u \<Longrightarrow>
     distinct (map declaration_target ds) \<and> (\<forall>d \<in> set ds. decl_provider_bundle d \<noteq> Some owner)" by blast
qed

lemma cross_relations_ok:
  "validate_cross_relations seen ds = Inr u \<Longrightarrow>
     distinct (map (declaration_target \<circ> snd) ds) \<and> fst ` set seen \<inter> declaration_target ` snd ` set ds = {}"
  by (induction seen ds rule: validate_cross_relations.induct)
    (auto simp: map_of_eq_None_iff split: option.splits)

definition declared :: "'r bundle_dependencies \<Rightarrow> 'r dependency_declaration list" where
  "declared d = dep_requires d @ dep_optional d @ dep_conflicts d"

lemma dependencies_ok:
  assumes "dependencies_validate d identity = Inr u"
  shows "distinct (map declaration_target (declared d))"
    "x \<in> set (declared d) \<Longrightarrow> decl_provider_bundle x \<noteq> Some (bi_id identity)"
proof -
  have rels: "\<forall>(relation, ds) \<in> set (relations d). validate_relation (bi_id identity) relation 0 [] ds = Inr ()"
    and cross: "validate_cross_relations []
      (concat (map (\<lambda>(relation, declarations). map (Pair relation) declarations) (relations d))) = Inr ()"
    using assms by (auto simp: dependencies_validate_def result_simps)
  show "distinct (map declaration_target (declared d))"
    using cross_relations_ok [OF cross] by (simp add: relations_def declared_def o_def)
  show "x \<in> set (declared d) \<Longrightarrow> decl_provider_bundle x \<noteq> Some (bi_id identity)"
    using rels validate_relation_ok by (fastforce simp: relations_def declared_def)
qed

lemma candidate_ok:
  assumes "candidate_from_manifest env m digest state = Inr c"
  shows "is_sha256_hex (cand_manifest_sha256 c)"
    "distinct (map declaration_target (declared (cand_dependencies c)))"
    "x \<in> set (declared (cand_dependencies c)) \<Longrightarrow> decl_provider_bundle x \<noteq> Some (cand_bundle_id c)"
proof -
  from assms have v: "validate_structure env m = Inr ()" and sha: "validate_sha256 digest = Inr ()"
    and c: "cand_manifest_sha256 c = digest" "cand_dependencies c = pk_dependencies m"
      "cand_bundle_id c = bi_id (pk_bundle m)"
    by (auto simp: candidate_from_manifest_def result_simps map_sum_def split: sum.splits)
  show "is_sha256_hex (cand_manifest_sha256 c)" using sha c by (simp add: validate_sha256_def result_simps)
  show "distinct (map declaration_target (declared (cand_dependencies c)))"
    "x \<in> set (declared (cand_dependencies c)) \<Longrightarrow> decl_provider_bundle x \<noteq> Some (cand_bundle_id c)"
    using dependencies_ok [OF structure_parts(7) [OF v]] c by simp_all
qed

text \<open>
  Accepted packages can be planned.  Candidates made from manifests, with distinct identifiers, always
  have a dependency plan for every set of them; no declaration of a candidate names its own Bundle, and no
  capability and provider is declared twice, be it as a requirement, an option or a conflict.
\<close>

lemma accepted_packages_have_plan:
  assumes "\<forall>c \<in> set cs. \<exists>m digest state. candidate_from_manifest env m digest state = Inr c"
    and "distinct (map cand_bundle_id cs)" and "ascending desired" and "set desired \<subseteq> cand_bundle_id ` set cs"
  shows "(\<exists>plan. resolve_bundle_dependencies vmatch cs desired = Some (Inr plan))
    \<and> (\<forall>c \<in> set cs. distinct (map declaration_target (declared (cand_dependencies c)))
         \<and> (\<forall>x \<in> set (declared (cand_dependencies c)). decl_provider_bundle x \<noteq> Some (cand_bundle_id c)))"
proof -
  have "candidates_ok cs" using assms(1,2) candidate_ok(1) by (fastforce simp: candidates_ok_def list_all_iff)
  moreover have "known cs desired" using assms(4) by (simp add: known_def)
  ultimately have "\<exists>plan. resolve_bundle_dependencies vmatch cs desired = Some (Inr plan)"
    using resolve_ok [OF assms(3)] by blast
  with assms(1) candidate_ok(2,3) show ?thesis by metis
qed

section \<open>The sample package\<close>


definition sample_candidate :: "(nat, nat) dependency_candidate" where
  "sample_candidate =
     \<lparr>cand_bundle_id = ''srv-admin'', cand_bundle_version = 2, cand_manifest_sha256 = sample_sha,
      cand_state = Installed, cand_provides = [], cand_dependencies = pk_dependencies sample_package\<rparr>"

lemma sample_candidate_made:
  "candidate_from_manifest package_env sample_package sample_sha Installed = Inr sample_candidate"
proof -
  have "validate_sha256 sample_sha = Inr ()" by code_simp
  moreover have "bi_id (pk_bundle sample_package) = ''srv-admin''" "bi_version (pk_bundle sample_package) = 2"
    "ca_provides (pk_capabilities sample_package) = []"
    by (simp_all add: sample_package_def sample_capabilities_def)
  ultimately show ?thesis
    by (simp add: candidate_from_manifest_def sample_accepted sample_candidate_def)
qed

lemma accepted_packages_have_plan_example:
  "\<exists>plan. resolve_bundle_dependencies (\<le>) [sample_candidate] [''srv-admin''] = Some (Inr plan)"
proof -
  have "\<forall>c \<in> set [sample_candidate]. \<exists>m digest state. candidate_from_manifest package_env m digest state = Inr c"
    using sample_candidate_made by auto
  then show ?thesis
    using accepted_packages_have_plan [of "[sample_candidate]" package_env "[''srv-admin'']" "(\<le>)"]
    by (simp add: sample_candidate_def)
qed

end
