(* ===== verification/Domain_Ontology.thy ===== *)
theory Domain_Ontology
  imports Sdk_Checks Json_Value
begin

text \<open>
  Domain ontologies of Bundles: \<open>crates/gadgetron-bundle-sdk/src/ontology.rs\<close>.  A schema file is either an
  ontology of format version 1 or a legacy JSON schema that is adapted.  Parsing JSON text and the derived
  decoder of \<open>DomainOntology\<close> belong to \<open>serde\<close>: they are the fields of \<open>ontology_codec\<close>.
\<close>

abbreviation MAX_TYPES :: int where "MAX_TYPES \<equiv> 512"
abbreviation MAX_RELATIONS :: int where "MAX_RELATIONS \<equiv> 1024"
abbreviation MAX_ALIASES :: int where "MAX_ALIASES \<equiv> 32"
abbreviation MAX_MIGRATIONS :: int where "MAX_MIGRATIONS \<equiv> 32"
abbreviation MAX_MAPPINGS :: int where "MAX_MAPPINGS \<equiv> 512"

datatype ontology_node_family =
    NSource | NClaim | NEntity | NEvent | NProcedure | NDecision | NLesson | NInsight | NAction | NOutcome

datatype ontology_relation_family =
    RCites | RDerivedFrom | RSupports | RContradicts | RSupersedes | RAppliesTo | RProducedBy | ROutcomeOf
  | RBridgeTo

record ontology_type =
  ot_id :: string
  ot_label :: string
  ot_family :: ontology_node_family
  ot_aliases :: "string list"
  ot_deprecated :: bool

record ontology_relation =
  on_id :: string
  on_label :: string
  on_family :: ontology_relation_family
  on_source_types :: "string list"
  on_target_types :: "string list"
  on_aliases :: "string list"
  on_deprecated :: bool

datatype ontology_migration_kind = MRename | MMerge | MSplit | MDeprecate

record ontology_type_migration =
  tm_kind :: ontology_migration_kind
  tm_from :: string
  tm_to :: "string list"

record ontology_migration =
  mg_from_version :: u32
  mg_mappings :: "ontology_type_migration list"

record domain_ontology =
  do_format_version :: u32
  do_types :: "ontology_type list"
  do_relations :: "ontology_relation list"
  do_migrations :: "ontology_migration list"
  do_legacy_adapter :: bool

record ontology_codec =
  oc_from_slice :: "string \<Rightarrow> (string, json) result"
  oc_from_value :: "json \<Rightarrow> (string, domain_ontology) result"
  oc_debug_str :: "string \<Rightarrow> string"

section \<open>Checks\<close>

definition is_ascii_letter :: "nat \<Rightarrow> bool" where
  "is_ascii_letter c \<longleftrightarrow> (65 \<le> c \<and> c \<le> 90) \<or> (97 \<le> c \<and> c \<le> 122)"

definition is_item_char :: "nat \<Rightarrow> bool" where
  "is_item_char c \<longleftrightarrow> is_ascii_letter c \<or> (48 \<le> c \<and> c \<le> 57) \<or> c = 95 \<or> c = 45 \<or> c = 46"

definition validate_item_id :: "string \<Rightarrow> string \<Rightarrow> (bundle_sdk_error, unit) result" where
  "validate_item_id field s =
     check (1 \<le> len s \<and> len s \<le> 128
         \<and> (case chars_of s of [] \<Rightarrow> False | c # _ \<Rightarrow> is_ascii_letter c) \<and> list_all is_item_char (chars_of s))
       (InvalidManifest field ''must be a 1-128 byte identifier beginning with an ASCII letter'')"

definition validate_ontology_label :: "string \<Rightarrow> string \<Rightarrow> (bundle_sdk_error, unit) result" where
  "validate_ontology_label field s =
     check (\<not> is_blank s \<and> len s \<le> 120) (InvalidManifest field ''must contain 1-120 UTF-8 bytes'')"

definition validate_aliases :: "string \<Rightarrow> string list \<Rightarrow> (bundle_sdk_error, unit) result" where
  "validate_aliases field aliases =
     all_ok
      [check (\<not> len aliases > MAX_ALIASES)
        (InvalidManifest field (''must contain at most '' @ show_int MAX_ALIASES @ '' aliases'')),
       try_unique (\<lambda>_. validate_ontology_label field) (\<lambda>a. a)
        (\<lambda>_ _. InvalidManifest field ''contains a duplicate alias'') (\<lambda>_ _. Inr ()) aliases]"

definition validate_type_refs ::
  "ontology_codec \<Rightarrow> string \<Rightarrow> string list \<Rightarrow> string list \<Rightarrow> (bundle_sdk_error, unit) result" where
  "validate_type_refs C field refs type_ids =
     try_unique
      (\<lambda>_ r. check (r \<in> set type_ids)
        (InvalidManifest field (''references unknown type '' @ oc_debug_str C r)))
      (\<lambda>r. r) (\<lambda>_ _. InvalidManifest field ''contains a duplicate type'') (\<lambda>_ _. Inr ()) refs"

definition migration_target_count_ok :: "ontology_type_migration \<Rightarrow> bool" where
  "migration_target_count_ok m =
     (case tm_kind m of
        MRename \<Rightarrow> len (tm_to m) = 1
      | MMerge \<Rightarrow> len (tm_to m) = 1
      | MSplit \<Rightarrow> len (tm_to m) \<ge> 2
      | MDeprecate \<Rightarrow> tm_to m = [])"

definition validate_types :: "ontology_codec \<Rightarrow> ontology_type list \<Rightarrow> (bundle_sdk_error, unit) result" where
  "validate_types C types =
     (let path = idx ''domain_schema.types''
      in try_unique
          (\<lambda>i t. all_ok
            [validate_item_id (path i @ ''.id'') (ot_id t),
             validate_ontology_label (path i @ ''.label'') (ot_label t),
             validate_aliases (path i @ ''.aliases'') (ot_aliases t)])
          ot_id
          (\<lambda>_ t. InvalidManifest ''domain_schema.types'' (''duplicate type id '' @ oc_debug_str C (ot_id t)))
          (\<lambda>_ _. Inr ()) types)"

definition validate_relations ::
  "ontology_codec \<Rightarrow> string list \<Rightarrow> ontology_relation list \<Rightarrow> (bundle_sdk_error, unit) result" where
  "validate_relations C type_ids relations =
     (let path = idx ''domain_schema.relations''
      in try_unique
          (\<lambda>i r. all_ok
            [validate_item_id (path i @ ''.id'') (on_id r),
             validate_ontology_label (path i @ ''.label'') (on_label r),
             validate_aliases (path i @ ''.aliases'') (on_aliases r)])
          on_id
          (\<lambda>_ r. InvalidManifest ''domain_schema.relations''
            (''duplicate relation id '' @ oc_debug_str C (on_id r)))
          (\<lambda>i r. all_ok
            [validate_type_refs C (path i @ ''.source_types'') (on_source_types r) type_ids,
             validate_type_refs C (path i @ ''.target_types'') (on_target_types r) type_ids])
          relations)"

definition validate_mappings ::
  "ontology_codec \<Rightarrow> string list \<Rightarrow> string \<Rightarrow> ontology_type_migration list \<Rightarrow> (bundle_sdk_error, unit) result" where
  "validate_mappings C type_ids path mappings =
     try_unique
      (\<lambda>i m. validate_item_id (idx path i @ ''.from'') (tm_from m))
      tm_from
      (\<lambda>_ m. InvalidManifest path (''duplicate source type '' @ oc_debug_str C (tm_from m)))
      (\<lambda>i m. all_ok
        [check (migration_target_count_ok m)
          (InvalidManifest (idx path i @ ''.to'') ''target count does not match the migration kind''),
         validate_type_refs C (idx path i @ ''.to'') (tm_to m) type_ids])
      mappings"

definition validate_ontology_migrations ::
  "ontology_codec \<Rightarrow> string list \<Rightarrow> u32 \<Rightarrow> ontology_migration list \<Rightarrow> (bundle_sdk_error, unit) result" where
  "validate_ontology_migrations C type_ids schema_version migrations =
     (let path = idx ''domain_schema.migrations''
      in try_unique
          (\<lambda>i m. check (\<not> (mg_from_version m = 0 \<or> mg_from_version m \<ge> schema_version))
            (InvalidManifest (path i @ ''.from_version'') ''must reference an earlier positive schema version''))
          mg_from_version
          (\<lambda>_ m. InvalidManifest ''domain_schema.migrations''
            (''duplicate migration from version '' @ show_int (uint (mg_from_version m))))
          (\<lambda>i m. all_ok
            [check (\<not> len (mg_mappings m) > MAX_MAPPINGS)
              (InvalidManifest (path i @ ''.mappings'')
                (''must contain at most '' @ show_int MAX_MAPPINGS @ '' mappings'')),
             validate_mappings C type_ids (path i @ ''.mappings'') (mg_mappings m)])
          migrations)"

definition validate_ontology :: "ontology_codec \<Rightarrow> u32 \<Rightarrow> domain_ontology \<Rightarrow> (bundle_sdk_error, unit) result" where
  "validate_ontology C schema_version ont =
     (let type_ids = bt_of_list (map ot_id (do_types ont))
      in all_ok
          [check (do_format_version ont = 1)
            (InvalidManifest ''domain_schema.format_version''
              ''only ontology format version 1 is supported''),
           check (\<not> (do_types ont = [] \<or> len (do_types ont) > MAX_TYPES))
            (InvalidManifest ''domain_schema.types'' (''must contain 1-'' @ show_int MAX_TYPES @ '' types'')),
           check (\<not> len (do_relations ont) > MAX_RELATIONS)
            (InvalidManifest ''domain_schema.relations''
              (''must contain at most '' @ show_int MAX_RELATIONS @ '' relations'')),
           validate_types C (do_types ont),
           validate_relations C type_ids (do_relations ont),
           check (\<not> len (do_migrations ont) > MAX_MIGRATIONS)
            (InvalidManifest ''domain_schema.migrations''
              (''must contain at most '' @ show_int MAX_MIGRATIONS @ '' migrations'')),
           validate_ontology_migrations C type_ids schema_version (do_migrations ont)])"

definition type_by_id :: "domain_ontology \<Rightarrow> string \<Rightarrow> ontology_type option" where
  "type_by_id ont type_id = find (\<lambda>t. ot_id t = type_id) (do_types ont)"

section \<open>Legacy schemas\<close>

definition legacy_node_family :: "string \<Rightarrow> ontology_node_family" where
  "legacy_node_family type_id =
     (case find (\<lambda>(ending, _). suffix ending (to_ascii_lowercase type_id))
             [(''source'', NSource), (''claim'', NClaim), (''event'', NEvent), (''procedure'', NProcedure),
              (''decision'', NDecision), (''lesson'', NLesson), (''insight'', NInsight), (''action'', NAction),
              (''outcome'', NOutcome)] of
        Some (_, family) \<Rightarrow> family
      | None \<Rightarrow> NEntity)"

definition legacy_relation_family :: "string \<Rightarrow> ontology_relation_family" where
  "legacy_relation_family relation_id =
     (if relation_id = ''cites'' then RCites
      else if relation_id = ''derived_from'' then RDerivedFrom
      else if relation_id = ''supersedes'' then RSupersedes
      else if relation_id = ''produced_by'' then RProducedBy
      else if relation_id = ''outcome_of'' then ROutcomeOf
      else if relation_id = ''bridge_to'' then RBridgeTo
      else if prefix ''supports'' relation_id then RSupports
      else if prefix ''contradicts'' relation_id then RContradicts
      else RAppliesTo)"

text \<open>
  \<open>humanize\<close> scans the characters; the bytes of a non-ASCII character are neither separators nor
  letters of either case, so the scan of the bytes is the same.
\<close>

fun humanize_from :: "string \<Rightarrow> bool \<Rightarrow> string \<Rightarrow> string" where
  "humanize_from output previous_lower [] = output"
| "humanize_from output previous_lower (c # s) =
     (if c = CHR ''_'' \<or> c = CHR ''-'' \<or> c = CHR ''.''
      then humanize_from (if suffix '' '' output then output else output @ '' '') False s
      else humanize_from
             ((if is_ascii_uppercase c \<and> previous_lower then output @ '' '' else output) @ [c])
             (is_ascii_lowercase c) s)"

definition humanize :: "string \<Rightarrow> string" where
  "humanize s = humanize_from [] False s"

fun collect_strings :: "'e \<Rightarrow> json list \<Rightarrow> ('e, string list) result" where
  "collect_strings e [] = Inr []"
| "collect_strings e (v # vs) =
     and_then (ok_or (as_str v) e) (\<lambda>s. and_then (collect_strings e vs) (\<lambda>rest. Inr (s # rest)))"

definition legacy_const_strings :: "json \<Rightarrow> string \<Rightarrow> (bundle_sdk_error, string list) result" where
  "legacy_const_strings v field =
     (let path = ''domain_schema.properties.'' @ field @ ''.const''
      in and_then
          (ok_or
            (Option.bind (value_get ''properties'' v) (\<lambda>properties.
              Option.bind (value_get field properties) (\<lambda>d.
                Option.bind (value_get ''const'' d) as_array)))
            (InvalidManifest path ''legacy schema requires an array of strings''))
          (collect_strings (InvalidManifest path ''legacy schema entries must be strings'')))"

definition adapt_legacy_schema :: "json \<Rightarrow> (bundle_sdk_error, domain_ontology) result" where
  "adapt_legacy_schema v =
     and_then (legacy_const_strings v ''entities'') (\<lambda>entities.
     and_then (legacy_const_strings v ''relations'') (\<lambda>relations.
       Inr \<lparr>do_format_version = 1,
            do_types = map (\<lambda>i. \<lparr>ot_id = i, ot_label = humanize i, ot_family = legacy_node_family i,
                                 ot_aliases = [], ot_deprecated = False\<rparr>) entities,
            do_relations = map (\<lambda>i. \<lparr>on_id = i, on_label = humanize i, on_family = legacy_relation_family i,
                                     on_source_types = [], on_target_types = [], on_aliases = [],
                                     on_deprecated = False\<rparr>) relations,
            do_migrations = [],
            do_legacy_adapter = True\<rparr>))"

definition parse_ontology :: "ontology_codec \<Rightarrow> string \<Rightarrow> u32 \<Rightarrow> (bundle_sdk_error, domain_ontology) result" where
  "parse_ontology C source schema_version =
     and_then (map_sum (\<lambda>e. InvalidManifest ''domain_schema'' (''JSON parse failed: '' @ e)) id
                (oc_from_slice C source)) (\<lambda>v.
     and_then
       (if value_get ''format_version'' v \<noteq> None
        then map_sum (\<lambda>e. InvalidManifest ''domain_schema'' (''ontology contract parse failed: '' @ e)) id
               (oc_from_value C v)
        else adapt_legacy_schema v) (\<lambda>ont.
     and_then (validate_ontology C schema_version ont) (\<lambda>_. Inr ont)))"

section \<open>Accepted ontologies are closed\<close>

definition refers_to :: "domain_ontology \<Rightarrow> string set" where
  "refers_to ont =
     (\<Union>r \<in> set (do_relations ont). set (on_source_types r) \<union> set (on_target_types r))
     \<union> (\<Union>m \<in> set (do_migrations ont). \<Union>t \<in> set (mg_mappings m). set (tm_to t))"

lemma type_refs_known:
  "validate_type_refs C field refs type_ids = Inr u \<Longrightarrow> set refs \<subseteq> set type_ids \<and> distinct refs"
  by (auto simp: validate_type_refs_def result_simps in_set_conv_nth)

lemma relations_known:
  assumes "validate_relations C type_ids relations = Inr u" "r \<in> set relations"
  shows "set (on_source_types r) \<union> set (on_target_types r) \<subseteq> set type_ids"
  using try_unique_member [OF assms(1) [unfolded validate_relations_def Let_def] assms(2)]
  by (auto simp: all_ok_eq_Inr dest: type_refs_known)

lemma mappings_known:
  assumes "validate_mappings C type_ids path mappings = Inr u" "m \<in> set mappings"
  shows "set (tm_to m) \<subseteq> set type_ids \<and> migration_target_count_ok m"
  using try_unique_member [OF assms(1) [unfolded validate_mappings_def] assms(2)]
  by (auto simp: all_ok_eq_Inr check_eq_Inr dest: type_refs_known)

lemma migrations_known:
  assumes "validate_ontology_migrations C type_ids v migrations = Inr u" "m \<in> set migrations"
  shows "0 < mg_from_version m \<and> mg_from_version m < v
    \<and> (\<forall>t \<in> set (mg_mappings m). set (tm_to t) \<subseteq> set type_ids \<and> migration_target_count_ok t)"
  using try_unique_member [OF assms(1) [unfolded validate_ontology_migrations_def Let_def] assms(2)]
  by (auto simp: all_ok_eq_Inr check_eq_Inr word_neq_0_conv not_le dest: mappings_known)

lemma find_distinct:
  "distinct (map f xs) \<Longrightarrow> x \<in> set xs \<Longrightarrow> find (\<lambda>y. f y = f x) xs = Some x"
  by (induction xs) auto

lemma validate_ontology_parts:
  assumes "validate_ontology C v ont = Inr u"
  shows "validate_types C (do_types ont) = Inr ()"
    and "validate_relations C (bt_of_list (map ot_id (do_types ont))) (do_relations ont) = Inr ()"
    and "validate_ontology_migrations C (bt_of_list (map ot_id (do_types ont))) v (do_migrations ont) = Inr ()"
    and "do_format_version ont = 1" and "do_types ont \<noteq> []"
  using assms unfolding validate_ontology_def Let_def all_ok_eq_Inr list.set ball_simps
  by (simp_all add: check_eq_Inr)

lemma validated_types_are_found:
  assumes "validate_ontology C v ont = Inr u" "t \<in> set (do_types ont)"
  shows "type_by_id ont (ot_id t) = Some t"
  using validate_ontology_parts(1) [OF assms(1)] find_distinct [of ot_id "do_types ont" t] assms(2)
  by (simp add: validate_types_def Let_def try_unique_eq_Inr type_by_id_def)

lemma validated_references_resolve:
  assumes "validate_ontology C v ont = Inr u" "type_id \<in> refers_to ont"
  shows "\<exists>t \<in> set (do_types ont). ot_id t = type_id"
proof -
  have "type_id \<in> set (bt_of_list (map ot_id (do_types ont)))"
    using assms(2) relations_known [OF validate_ontology_parts(2) [OF assms(1)]]
      migrations_known [OF validate_ontology_parts(3) [OF assms(1)]]
    unfolding refers_to_def by blast
  then show ?thesis by auto
qed

lemma parsed_is_validated: "parse_ontology C source v = Inr ont \<Longrightarrow> validate_ontology C v ont = Inr ()"
  by (auto simp: parse_ontology_def result_simps)

text \<open>
  Every schema file that is accepted, legacy or not, is a closed ontology: a type is found under its
  id, whatever a relation or a migration refers to is one of its types, and a migration starts from a
  version before the schema's own, each version at most once, with the number of targets of its kind.
\<close>

lemma accepted_ontology_is_closed:
  assumes "parse_ontology C source schema_version = Inr ont"
  shows "(\<forall>t \<in> set (do_types ont). type_by_id ont (ot_id t) = Some t)
    \<and> (\<forall>type_id \<in> refers_to ont. \<exists>t. type_by_id ont type_id = Some t)
    \<and> (\<forall>m \<in> set (do_migrations ont). 0 < mg_from_version m \<and> mg_from_version m < schema_version
        \<and> (\<forall>t \<in> set (mg_mappings m). migration_target_count_ok t))
    \<and> distinct (map mg_from_version (do_migrations ont))"
proof -
  note v = parsed_is_validated [OF assms]
  have "\<exists>t. type_by_id ont type_id = Some t" if "type_id \<in> refers_to ont" for type_id
    using validated_references_resolve [OF v that] validated_types_are_found [OF v] by auto
  moreover have "distinct (map mg_from_version (do_migrations ont))"
    using validate_ontology_parts(3) [OF v]
    by (simp add: validate_ontology_migrations_def Let_def try_unique_eq_Inr)
  ultimately show ?thesis
    using validated_types_are_found [OF v] migrations_known [OF validate_ontology_parts(3) [OF v]] by blast
qed

definition branch_codec :: ontology_codec where
  "branch_codec =
     \<lparr>oc_from_slice = (\<lambda>s. if s = ''legacy'' then
          Inr (JObject [(''properties'', JObject
            [(''entities'', JObject [(''const'', JArray [JString ''Branch'', JString ''VisitOutcome''])]),
             (''relations'', JObject [(''const'', JArray [JString ''serves'', JString ''outcome_of''])])])])
        else Inl ''EOF''),
      oc_from_value = (\<lambda>_. Inl ''not an ontology''),
      oc_debug_str = (\<lambda>s. s)\<rparr>"

lemma sample_legacy_accepted: "is_ok (parse_ontology branch_codec ''legacy'' 1)"
  by code_simp

lemma accepted_ontology_is_closed_example:
  "\<exists>ont. parse_ontology branch_codec ''legacy'' 1 = Inr ont
     \<and> (\<forall>t \<in> set (do_types ont). type_by_id ont (ot_id t) = Some t)"
  using sample_legacy_accepted accepted_ontology_is_closed [of branch_codec "''legacy''" 1]
  by (auto simp: is_ok_iff)

end
