(* ===== verification/Sql_Model.thy ===== *)
theory Sql_Model
  imports Sdk_Checks Json_Value
begin

text \<open>
  What the models of PostgreSQL tables share: transactions over a state, the text functions the check
  constraints use, and lemmas on lists whose rows have unique keys.
\<close>

section \<open>Transactions\<close>

text \<open>A transaction: on an error the state is the one before it.\<close>

definition transaction :: "('s \<Rightarrow> ('e, 'a \<times> 's) result) \<Rightarrow> 's \<Rightarrow> ('e, 'a) result \<times> 's" where
  "transaction f s = (case f s of Inl e \<Rightarrow> (Inl e, s) | Inr (a, s') \<Rightarrow> (Inr a, s'))"

lemma transaction_cases:
  assumes "P s" and "\<And>a s'. f s = Inr (a, s') \<Longrightarrow> P s'"
  shows "P (snd (transaction f s))"
  using assms by (auto simp: transaction_def split: sum.split)

lemma transaction_eq_Inr: "transaction f s = (Inr a, s') \<longleftrightarrow> f s = Inr (a, s')"
  by (auto simp: transaction_def split: sum.split)

lemma map_sum_eq_Inr: "map_sum f (\<lambda>v. v) r = Inr a \<longleftrightarrow> r = Inr a"
  by (cases r) auto

section \<open>Check constraints\<close>

text \<open>\<open>length\<close> of a text counts characters; \<open>btrim\<close> removes spaces at both ends.\<close>

definition text_length_within :: "int \<Rightarrow> string \<Rightarrow> bool" where
  "text_length_within n s \<longleftrightarrow> 1 \<le> len (chars_of s) \<and> len (chars_of s) \<le> n"

definition btrim :: "string \<Rightarrow> string" where
  "btrim s = rev (dropWhile (\<lambda>c. c = CHR '' '') (rev (dropWhile (\<lambda>c. c = CHR '' '') s)))"

section \<open>Unique keys\<close>

lemma same_image:
  assumes "distinct (map f xs)" "a \<in> set xs" "b \<in> set xs" "f a = f b"
  shows "a = b"
  using assms by (auto simp: distinct_map dest: inj_onD)

lemma find_SomeD: "find P xs = Some x \<Longrightarrow> x \<in> set xs \<and> P x"
  by (auto simp: find_Some_iff)

lemma find_unique: "distinct (map f xs) \<Longrightarrow> x \<in> set xs \<Longrightarrow> find (\<lambda>y. f y = f x) xs = Some x"
  by (induction xs) (auto simp: image_iff)

end
