(* ===== verification/Ontology_Registry.thy ===== *)
theory Ontology_Registry
  imports Domain_Ontology Machine_Float Sql_Model
begin

text \<open>
  The ontology registry and kernel of \<open>crates/gadgetron-knowledge/src/ontology.rs\<close>: immutable revisions of
  domain schemas, the tenants' activations of them, and the classification of knowledge objects.

  The PostgreSQL tables are lists of rows in the state \<open>ontology_db\<close>, in the order of insertion; a query
  is the list operation its SQL text denotes, and an \<open>INSERT\<close> fails with the constraint it violates
  (\<open>migrations/20260713000002_ontology_registry.sql\<close> and \<open>20260713000003_ontology_kernel.sql\<close>).  A
  transaction that returns early leaves the state as it was.  Generated ids and \<open>NOW()\<close> are arguments.
  The database itself is assumed to answer: \<open>OntoDatabase\<close> stands for a violated constraint, a missing row or a column
  that cannot be decoded.
\<close>

section \<open>Data\<close>

datatype onto_db_fault = OntoPrimaryKey | OntoUnique | OntoCheck | OntoForeignKey | OntoNoRow | OntoDecode

datatype ontology_registry_error =
    InvalidPackageDigest
  | InvalidPackageVersion
  | SchemaVersionOverflow string
  | SchemaDigestMismatch string string string
  | OntoRevisionConflict string string u32 string string
  | InvalidExpectedRevision
  | InvalidReason
  | OntoRevisionNotFound uuid
  | ActivationConflict int int
  | ActivationRequired
  | ActivationTargetChanged
  | ObjectNotFound uuid
  | ObjectRevisionConflict int int
  | MappingConflict int int
  | InvalidMappingShape
  | InvalidConfidence
  | InvalidEvidence
  | UnknownType uuid string
  | DeprecatedType string
  | OntoContract bundle_sdk_error
  | OntoDatabase onto_db_fault
  | OntoSerialization string

record domain_schema_file =
  sf_id :: string
  sf_version :: u32
  sf_sha256 :: string
  sf_bytes :: string

record ontology_package_registration =
  pr_owner_bundle_id :: string
  pr_package_version :: string
  pr_package_manifest_sha256 :: string
  pr_schemas :: "domain_schema_file list"

record ontology_revision_row =
  ow_id :: uuid
  ow_owner_bundle_id :: string
  ow_schema_id :: string
  ow_schema_version :: int
  ow_schema_sha256 :: string
  ow_format_version :: int
  ow_legacy_adapter :: bool
  ow_schema_bytes :: string
  ow_normalized :: json
  ow_created_at :: int

record ontology_revision =
  rev_id :: uuid
  rev_owner_bundle_id :: string
  rev_schema_id :: string
  rev_schema_version :: int
  rev_schema_sha256 :: string
  rev_format_version :: int
  rev_legacy_adapter :: bool
  rev_created_at :: int

record ontology_provenance_row =
  pv_id :: uuid
  pv_revision_id :: uuid
  pv_package_version :: string
  pv_package_manifest_sha256 :: string

record ontology_registration_receipt =
  rg_revision :: ontology_revision
  rg_revision_created :: bool
  rg_provenance_created :: bool

datatype ontology_activation_action = Activate | Deactivate

record ontology_activation_command =
  ac_tenant :: uuid
  ac_actor_user_id :: uuid
  ac_ontology_revision_id :: uuid
  ac_expected_activation_revision :: int
  ac_reason :: string

record ontology_activation_event =
  ae_id :: uuid
  ae_tenant_id :: uuid
  ae_ontology_revision_id :: uuid
  ae_owner_bundle_id :: string
  ae_schema_id :: string
  ae_activation_revision :: int
  ae_action :: ontology_activation_action
  ae_actor_user_id :: uuid
  ae_reason :: string
  ae_created_at :: int

record ontology_activation_receipt =
  at_event :: ontology_activation_event
  at_created :: bool

datatype ontology_mapping_disposition = Proposed | MappingActive | Unmapped

record ontology_mapping_command =
  mc_tenant_id :: uuid
  mc_recorded_by :: uuid
  mc_object_id :: uuid
  mc_object_revision :: int
  mc_expected_mapping_revision :: int
  mc_disposition :: ontology_mapping_disposition
  mc_ontology_revision_id :: "uuid option"
  mc_type_id :: "string option"
  mc_confidence :: "float_value option"
  mc_evidence :: json
  mc_reason :: string

record ontology_mapping_event =
  me_id :: uuid
  me_tenant_id :: uuid
  me_object_id :: uuid
  me_object_revision :: int
  me_mapping_revision :: int
  me_disposition :: ontology_mapping_disposition
  me_ontology_revision_id :: "uuid option"
  me_type_id :: "string option"
  me_confidence :: "float_value option"
  me_evidence :: json
  me_reason :: string
  me_recorded_by :: uuid
  me_created_at :: int

record ontology_registry_entry =
  ry_revision :: ontology_revision
  ry_package_count :: int
  ry_type_count :: int
  ry_relation_count :: int
  ry_activation_action :: "ontology_activation_action option"
  ry_activation_revision :: "int option"

record knowledge_object_row =
  ko_tenant_id :: uuid
  ko_id :: uuid
  ko_status :: string
  ko_revision :: int

record ontology_db =
  od_users :: "(uuid \<times> uuid) list"
  od_objects :: "knowledge_object_row list"
  od_revisions :: "ontology_revision_row list"
  od_provenance :: "ontology_provenance_row list"
  od_activations :: "ontology_activation_event list"
  od_mappings :: "ontology_mapping_event list"

text \<open>What is outside the repository: the ontology codec, \<open>serde_json::to_value\<close> and SHA-256 in hex.\<close>

record ontology_env =
  oe_codec :: ontology_codec
  oe_to_value :: "domain_ontology \<Rightarrow> (string, json) result"
  oe_sha256_hex :: "string \<Rightarrow> string"

section \<open>Queries\<close>

text \<open>\<open>ORDER BY f DESC LIMIT 1\<close>.\<close>

definition latest_by :: "('a \<Rightarrow> int) \<Rightarrow> 'a list \<Rightarrow> 'a option" where
  "latest_by f xs =
     foldl (\<lambda>acc x. case acc of None \<Rightarrow> Some x | Some y \<Rightarrow> if f y < f x then Some x else Some y) None xs"

definition revision_of_row :: "ontology_revision_row \<Rightarrow> ontology_revision" where
  "revision_of_row r =
     \<lparr>rev_id = ow_id r, rev_owner_bundle_id = ow_owner_bundle_id r, rev_schema_id = ow_schema_id r,
      rev_schema_version = ow_schema_version r, rev_schema_sha256 = ow_schema_sha256 r,
      rev_format_version = ow_format_version r, rev_legacy_adapter = ow_legacy_adapter r,
      rev_created_at = ow_created_at r\<rparr>"

definition revision_by_id :: "ontology_db \<Rightarrow> uuid \<Rightarrow> ontology_revision_row option" where
  "revision_by_id db revision = find (\<lambda>r. ow_id r = revision) (od_revisions db)"

definition activation_key :: "ontology_activation_event \<Rightarrow> uuid \<times> string \<times> string" where
  "activation_key e = (ae_tenant_id e, ae_owner_bundle_id e, ae_schema_id e)"

definition activation_history ::
  "ontology_db \<Rightarrow> uuid \<times> string \<times> string \<Rightarrow> ontology_activation_event list" where
  "activation_history db key = filter (\<lambda>e. activation_key e = key) (od_activations db)"

definition current_activation ::
  "ontology_db \<Rightarrow> uuid \<times> string \<times> string \<Rightarrow> ontology_activation_event option" where
  "current_activation db key = latest_by ae_activation_revision (activation_history db key)"

definition mapping_history :: "ontology_db \<Rightarrow> uuid \<Rightarrow> uuid \<Rightarrow> ontology_mapping_event list" where
  "mapping_history db tenant object =
     filter (\<lambda>e. me_tenant_id e = tenant \<and> me_object_id e = object) (od_mappings db)"

section \<open>Registering packages\<close>

definition validate_package_metadata :: "string \<Rightarrow> string \<Rightarrow> (ontology_registry_error, unit) result" where
  "validate_package_metadata package_version package_manifest_sha256 =
     all_ok
      [check (\<not> (is_blank package_version \<or> len package_version > 128)) InvalidPackageVersion,
       check (is_sha256_text package_manifest_sha256) InvalidPackageDigest]"

fun prepare_schemas ::
  "ontology_env \<Rightarrow> domain_schema_file list
   \<Rightarrow> (ontology_registry_error, (domain_schema_file \<times> domain_ontology \<times> json) list) result" where
  "prepare_schemas E [] = Inr []"
| "prepare_schemas E (schema # schemas) =
     (let actual = oe_sha256_hex E (sf_bytes schema)
      in if actual \<noteq> sf_sha256 schema
         then Inl (SchemaDigestMismatch (sf_id schema) (sf_sha256 schema) actual)
         else and_then (map_sum OntoContract (\<lambda>v. v) (parse_ontology (oe_codec E) (sf_bytes schema) (sf_version schema))) (\<lambda>ontology.
              and_then (map_sum OntoSerialization (\<lambda>v. v) (oe_to_value E ontology)) (\<lambda>normalized.
              and_then (prepare_schemas E schemas) (\<lambda>prepared.
                Inr ((schema, ontology, normalized) # prepared)))))"

text \<open>\<open>INSERT \<dots> ON CONFLICT (owner_bundle_id, schema_id, schema_version) DO NOTHING RETURNING\<close>.\<close>

definition insert_ontology_revision ::
  "ontology_revision_row \<Rightarrow> ontology_db \<Rightarrow> (ontology_registry_error, ontology_revision option \<times> ontology_db) result" where
  "insert_ontology_revision row db =
     (if \<not> (is_ok (validate_kebab_id (ow_owner_bundle_id row)) \<and> is_ok (validate_kebab_id (ow_schema_id row))
           \<and> ow_schema_version row > 0 \<and> is_sha256_text (ow_schema_sha256 row)
           \<and> ow_format_version row = 1 \<and> ow_schema_bytes row \<noteq> [] \<and> as_object (ow_normalized row) \<noteq> None)
      then Inl (OntoDatabase OntoCheck)
      else if list_ex (\<lambda>r. ow_owner_bundle_id r = ow_owner_bundle_id row \<and> ow_schema_id r = ow_schema_id row
                         \<and> ow_schema_version r = ow_schema_version row) (od_revisions db)
      then Inr (None, db)
      else if list_ex (\<lambda>r. ow_id r = ow_id row) (od_revisions db) then Inl (OntoDatabase OntoPrimaryKey)
      else Inr (Some (revision_of_row row), db\<lparr>od_revisions := od_revisions db @ [row]\<rparr>))"

definition insert_provenance ::
  "ontology_provenance_row \<Rightarrow> ontology_db \<Rightarrow> (ontology_registry_error, bool \<times> ontology_db) result" where
  "insert_provenance row db =
     (if list_ex (\<lambda>p. pv_revision_id p = pv_revision_id row
                    \<and> pv_package_manifest_sha256 p = pv_package_manifest_sha256 row) (od_provenance db)
      then Inr (False, db)
      else if list_ex (\<lambda>p. pv_id p = pv_id row) (od_provenance db) then Inl (OntoDatabase OntoPrimaryKey)
      else Inr (True, db\<lparr>od_provenance := od_provenance db @ [row]\<rparr>))"

definition schema_row ::
  "uuid \<Rightarrow> int \<Rightarrow> ontology_package_registration \<Rightarrow> domain_schema_file \<times> domain_ontology \<times> json \<Rightarrow> ontology_revision_row" where
  "schema_row new_id now reg item =
     (case item of (schema, ontology, normalized) \<Rightarrow>
       \<lparr>ow_id = new_id, ow_owner_bundle_id = pr_owner_bundle_id reg, ow_schema_id = sf_id schema,
        ow_schema_version = uint (sf_version schema), ow_schema_sha256 = sf_sha256 schema,
        ow_format_version = uint (do_format_version ontology),
        ow_legacy_adapter = do_legacy_adapter ontology, ow_schema_bytes = sf_bytes schema,
        ow_normalized = normalized, ow_created_at = now\<rparr>)"

definition registered_row ::
  "ontology_package_registration \<Rightarrow> domain_schema_file \<Rightarrow> ontology_db \<Rightarrow> ontology_revision_row option" where
  "registered_row reg schema db =
     find (\<lambda>r. ow_owner_bundle_id r = pr_owner_bundle_id reg \<and> ow_schema_id r = sf_id schema
             \<and> ow_schema_version r = uint (sf_version schema)) (od_revisions db)"

definition resolve_inserted ::
  "ontology_package_registration \<Rightarrow> domain_schema_file \<Rightarrow> ontology_revision option \<Rightarrow> ontology_db
   \<Rightarrow> (ontology_registry_error, ontology_revision) result" where
  "resolve_inserted reg schema inserted db =
     (case inserted of
        Some revision \<Rightarrow> Inr revision
      | None \<Rightarrow> ok_or (map_option revision_of_row (registered_row reg schema db)) (OntoDatabase OntoNoRow))"

definition register_schema ::
  "uuid \<times> uuid \<Rightarrow> int \<Rightarrow> ontology_package_registration \<Rightarrow> domain_schema_file \<times> domain_ontology \<times> json
   \<Rightarrow> ontology_db \<Rightarrow> (ontology_registry_error, ontology_registration_receipt \<times> ontology_db) result" where
  "register_schema ids now reg item db =
     (let schema = fst item
      in and_then (check (uint (sf_version schema) < 2 ^ 31) (SchemaVersionOverflow (sf_id schema))) (\<lambda>_.
         and_then (insert_ontology_revision (schema_row (fst ids) now reg item) db) (\<lambda>(inserted, db).
         and_then (resolve_inserted reg schema inserted db) (\<lambda>revision.
         and_then (check (rev_schema_sha256 revision = sf_sha256 schema)
            (OntoRevisionConflict (pr_owner_bundle_id reg) (sf_id schema) (sf_version schema)
              (rev_schema_sha256 revision) (sf_sha256 schema))) (\<lambda>_.
         and_then (insert_provenance
            \<lparr>pv_id = snd ids, pv_revision_id = rev_id revision, pv_package_version = pr_package_version reg,
             pv_package_manifest_sha256 = pr_package_manifest_sha256 reg\<rparr> db) (\<lambda>(provenance_created, db).
           Inr (\<lparr>rg_revision = revision, rg_revision_created = (inserted \<noteq> None),
                 rg_provenance_created = provenance_created\<rparr>, db)))))))"

fun register_schemas ::
  "(nat \<Rightarrow> uuid \<times> uuid) \<Rightarrow> int \<Rightarrow> ontology_package_registration \<Rightarrow> nat
   \<Rightarrow> (domain_schema_file \<times> domain_ontology \<times> json) list \<Rightarrow> ontology_db
   \<Rightarrow> (ontology_registry_error, ontology_registration_receipt list \<times> ontology_db) result" where
  "register_schemas ids now reg i [] db = Inr ([], db)"
| "register_schemas ids now reg i (item # items) db =
     and_then (register_schema (ids i) now reg item db) (\<lambda>(receipt, db).
     and_then (register_schemas ids now reg (Suc i) items db) (\<lambda>(receipts, db). Inr (receipt # receipts, db)))"

definition register_package ::
  "ontology_env \<Rightarrow> (nat \<Rightarrow> uuid \<times> uuid) \<Rightarrow> int \<Rightarrow> ontology_package_registration \<Rightarrow> ontology_db
   \<Rightarrow> (ontology_registry_error, ontology_registration_receipt list) result \<times> ontology_db" where
  "register_package E ids now reg =
     transaction (\<lambda>db.
       and_then (validate_package_metadata (pr_package_version reg) (pr_package_manifest_sha256 reg)) (\<lambda>_.
       and_then (prepare_schemas E (pr_schemas reg)) (\<lambda>prepared.
         register_schemas ids now reg 0 prepared db)))"

section \<open>Activation\<close>

definition validate_expected_revision :: "int \<Rightarrow> (ontology_registry_error, unit) result" where
  "validate_expected_revision v = check (\<not> v < 0) InvalidExpectedRevision"

definition validate_reason :: "string \<Rightarrow> (ontology_registry_error, unit) result" where
  "validate_reason s = check (\<not> (is_blank s \<or> len s > 2048)) InvalidReason"

definition next_revision :: "int \<Rightarrow> (ontology_registry_error, int) result" where
  "next_revision current = (if current + 1 < 2 ^ 63 then Inr (current + 1) else Inl InvalidExpectedRevision)"

definition insert_activation ::
  "ontology_activation_event \<Rightarrow> ontology_db \<Rightarrow> (ontology_registry_error, ontology_activation_event \<times> ontology_db) result" where
  "insert_activation e db =
     (if (ae_tenant_id e, ae_actor_user_id e) \<notin> set (od_users db) then Inl (OntoDatabase OntoForeignKey)
      else if list_ex (\<lambda>a. ae_id a = ae_id e) (od_activations db) then Inl (OntoDatabase OntoPrimaryKey)
      else if list_ex (\<lambda>a. activation_key a = activation_key e
                         \<and> ae_activation_revision a = ae_activation_revision e) (od_activations db)
      then Inl (OntoDatabase OntoUnique)
      else Inr (e, db\<lparr>od_activations := od_activations db @ [e]\<rparr>))"

definition activation_decision ::
  "ontology_activation_action \<Rightarrow> uuid \<Rightarrow> ontology_activation_event option
   \<Rightarrow> (ontology_registry_error, ontology_activation_event option) result" where
  "activation_decision action revision current =
     (case current of
        Some c \<Rightarrow>
          if ae_action c = action \<and> ae_ontology_revision_id c = revision then Inr (Some c)
          else if action = Deactivate \<and> (ae_action c \<noteq> Activate \<or> ae_ontology_revision_id c \<noteq> revision)
          then Inl ActivationTargetChanged
          else Inr None
      | None \<Rightarrow> if action = Deactivate then Inl ActivationRequired else Inr None)"

definition set_activation_tx ::
  "uuid \<Rightarrow> int \<Rightarrow> ontology_activation_command \<Rightarrow> ontology_activation_action \<Rightarrow> ontology_db
   \<Rightarrow> (ontology_registry_error, ontology_activation_receipt \<times> ontology_db) result" where
  "set_activation_tx new_id now command action db =
     and_then (validate_expected_revision (ac_expected_activation_revision command)) (\<lambda>_.
     and_then (validate_reason (ac_reason command)) (\<lambda>_.
     and_then (ok_or (revision_by_id db (ac_ontology_revision_id command))
        (OntoRevisionNotFound (ac_ontology_revision_id command))) (\<lambda>row.
     (let current = current_activation db (ac_tenant command, ow_owner_bundle_id row, ow_schema_id row);
          current_revision = (case current of Some c \<Rightarrow> ae_activation_revision c | None \<Rightarrow> 0)
      in and_then (check (current_revision = ac_expected_activation_revision command)
            (ActivationConflict (ac_expected_activation_revision command) current_revision)) (\<lambda>_.
         and_then (activation_decision action (ac_ontology_revision_id command) current) (\<lambda>settled.
         (case settled of
            Some c \<Rightarrow> Inr (\<lparr>at_event = c, at_created = False\<rparr>, db)
          | None \<Rightarrow>
              and_then (next_revision current_revision) (\<lambda>revision.
              and_then (insert_activation
                \<lparr>ae_id = new_id, ae_tenant_id = ac_tenant command,
                 ae_ontology_revision_id = ac_ontology_revision_id command,
                 ae_owner_bundle_id = ow_owner_bundle_id row, ae_schema_id = ow_schema_id row,
                 ae_activation_revision = revision, ae_action = action,
                 ae_actor_user_id = ac_actor_user_id command, ae_reason = ac_reason command,
                 ae_created_at = now\<rparr> db) (\<lambda>(event, db).
                Inr (\<lparr>at_event = event, at_created = True\<rparr>, db))))))))))"

definition set_activation ::
  "uuid \<Rightarrow> int \<Rightarrow> ontology_activation_command \<Rightarrow> ontology_activation_action \<Rightarrow> ontology_db
   \<Rightarrow> (ontology_registry_error, ontology_activation_receipt) result \<times> ontology_db" where
  "set_activation new_id now command action = transaction (set_activation_tx new_id now command action)"

definition activate ::
  "uuid \<Rightarrow> int \<Rightarrow> ontology_activation_command \<Rightarrow> ontology_db
   \<Rightarrow> (ontology_registry_error, ontology_activation_receipt) result \<times> ontology_db" where
  "activate new_id now command = set_activation new_id now command Activate"

definition deactivate ::
  "uuid \<Rightarrow> int \<Rightarrow> ontology_activation_command \<Rightarrow> ontology_db
   \<Rightarrow> (ontology_registry_error, ontology_activation_receipt) result \<times> ontology_db" where
  "deactivate new_id now command = set_activation new_id now command Deactivate"

section \<open>Mapping objects\<close>

definition confidence_ok :: "float_value \<Rightarrow> bool" where
  "confidence_ok c \<longleftrightarrow> (case c of FFin _ \<Rightarrow> True | _ \<Rightarrow> False) \<and> float_le (FFin 0) c \<and> float_le c (FFin 1)"

definition validate_mapping_command :: "ontology_mapping_command \<Rightarrow> (ontology_registry_error, unit) result" where
  "validate_mapping_command c =
     all_ok
      [validate_expected_revision (mc_expected_mapping_revision c),
       validate_reason (mc_reason c),
       check (as_object (mc_evidence c) \<noteq> None) InvalidEvidence,
       check (\<not> (case mc_confidence c of None \<Rightarrow> False | Some v \<Rightarrow> \<not> confidence_ok v)) InvalidConfidence,
       check (case mc_disposition c of
           Proposed \<Rightarrow> mc_ontology_revision_id c \<noteq> None \<and> mc_type_id c \<noteq> None
         | MappingActive \<Rightarrow> mc_ontology_revision_id c \<noteq> None \<and> mc_type_id c \<noteq> None
         | Unmapped \<Rightarrow> mc_ontology_revision_id c = None \<and> mc_type_id c = None) InvalidMappingShape]"

definition validate_effective_type ::
  "ontology_env \<Rightarrow> ontology_db \<Rightarrow> uuid \<Rightarrow> uuid \<Rightarrow> string \<Rightarrow> (ontology_registry_error, unit) result" where
  "validate_effective_type E db tenant revision type_id =
     and_then (ok_or (revision_by_id db revision) (OntoRevisionNotFound revision)) (\<lambda>row.
     and_then (map_sum OntoSerialization (\<lambda>v. v) (oc_from_value (oe_codec E) (ow_normalized row))) (\<lambda>ontology.
     and_then (ok_or (type_by_id ontology type_id) (UnknownType revision type_id)) (\<lambda>ontology_type.
     and_then (check (\<not> ot_deprecated ontology_type) (DeprecatedType type_id)) (\<lambda>_.
       check (case current_activation db (tenant, ow_owner_bundle_id row, ow_schema_id row) of
           Some a \<Rightarrow> ae_ontology_revision_id a = revision \<and> ae_action a = Activate
         | None \<Rightarrow> False) ActivationRequired))))"

definition insert_mapping ::
  "ontology_mapping_event \<Rightarrow> ontology_db \<Rightarrow> (ontology_registry_error, ontology_mapping_event \<times> ontology_db) result" where
  "insert_mapping e db =
     (if \<not> (me_object_revision e > 0 \<and> me_mapping_revision e > 0
           \<and> (case me_type_id e of None \<Rightarrow> True | Some t \<Rightarrow> 1 \<le> int (length (chars_of t)) \<and> int (length (chars_of t)) \<le> 128))
      then Inl (OntoDatabase OntoCheck)
      else if (me_tenant_id e, me_recorded_by e) \<notin> set (od_users db) then Inl (OntoDatabase OntoForeignKey)
      else if list_ex (\<lambda>m. me_id m = me_id e) (od_mappings db) then Inl (OntoDatabase OntoPrimaryKey)
      else if list_ex (\<lambda>m. me_tenant_id m = me_tenant_id e \<and> me_object_id m = me_object_id e
                         \<and> me_mapping_revision m = me_mapping_revision e) (od_mappings db)
      then Inl (OntoDatabase OntoUnique)
      else Inr (e, db\<lparr>od_mappings := od_mappings db @ [e]\<rparr>))"

definition append_mapping_tx ::
  "ontology_env \<Rightarrow> uuid \<Rightarrow> int \<Rightarrow> ontology_mapping_command \<Rightarrow> ontology_db
   \<Rightarrow> (ontology_registry_error, ontology_mapping_event \<times> ontology_db) result" where
  "append_mapping_tx E new_id now c db =
     and_then (validate_mapping_command c) (\<lambda>_.
     and_then (ok_or (find (\<lambda>k. ko_tenant_id k = mc_tenant_id c \<and> ko_id k = mc_object_id c \<and> ko_status k = ''active'')
          (od_objects db)) (ObjectNotFound (mc_object_id c))) (\<lambda>object.
     and_then (check (ko_revision object = mc_object_revision c)
        (ObjectRevisionConflict (mc_object_revision c) (ko_revision object))) (\<lambda>_.
     (let current = (case latest_by me_mapping_revision (mapping_history db (mc_tenant_id c) (mc_object_id c)) of
            Some e \<Rightarrow> me_mapping_revision e | None \<Rightarrow> 0)
      in and_then (check (current = mc_expected_mapping_revision c)
            (MappingConflict (mc_expected_mapping_revision c) current)) (\<lambda>_.
         and_then (case (mc_ontology_revision_id c, mc_type_id c) of
             (Some revision, Some type_id) \<Rightarrow> validate_effective_type E db (mc_tenant_id c) revision type_id
           | _ \<Rightarrow> Inr ()) (\<lambda>_.
         and_then (next_revision current) (\<lambda>revision.
           insert_mapping
            \<lparr>me_id = new_id, me_tenant_id = mc_tenant_id c, me_object_id = mc_object_id c,
             me_object_revision = mc_object_revision c, me_mapping_revision = revision,
             me_disposition = mc_disposition c, me_ontology_revision_id = mc_ontology_revision_id c,
             me_type_id = mc_type_id c, me_confidence = mc_confidence c, me_evidence = mc_evidence c,
             me_reason = mc_reason c, me_recorded_by = mc_recorded_by c, me_created_at = now\<rparr> db)))))))"

definition append_mapping ::
  "ontology_env \<Rightarrow> uuid \<Rightarrow> int \<Rightarrow> ontology_mapping_command \<Rightarrow> ontology_db
   \<Rightarrow> (ontology_registry_error, ontology_mapping_event) result \<times> ontology_db" where
  "append_mapping E new_id now c = transaction (append_mapping_tx E new_id now c)"

section \<open>Reading\<close>

definition json_array_length :: "string \<Rightarrow> json \<Rightarrow> int option" where
  "json_array_length field v = map_option len (Option.bind (value_get field v) as_array)"

definition registry_entry :: "ontology_db \<Rightarrow> uuid \<Rightarrow> ontology_revision_row \<Rightarrow> ontology_registry_entry option" where
  "registry_entry db tenant r =
     (let active = current_activation db (tenant, ow_owner_bundle_id r, ow_schema_id r)
      in Option.bind (json_array_length ''types'' (ow_normalized r)) (\<lambda>types.
         Option.bind (json_array_length ''relations'' (ow_normalized r)) (\<lambda>relations.
         Some \<lparr>ry_revision = revision_of_row r,
          ry_package_count = len (filter (\<lambda>p. pv_revision_id p = ow_id r) (od_provenance db)),
          ry_type_count = types,
          ry_relation_count = relations,
          ry_activation_action = map_option ae_action active,
          ry_activation_revision = map_option ae_activation_revision active\<rparr>)))"

definition list_registry ::
  "ontology_db \<Rightarrow> uuid \<Rightarrow> (ontology_registry_error, ontology_registry_entry list) result" where
  "list_registry db tenant =
     ok_or (those (map (registry_entry db tenant)
        (sort_by (\<lambda>a b. (ow_owner_bundle_id a, ow_schema_id a, - ow_schema_version a)
                       \<le> (ow_owner_bundle_id b, ow_schema_id b, - ow_schema_version b)) (od_revisions db))))
      (OntoDatabase OntoDecode)"

definition list_mapping_history ::
  "ontology_db \<Rightarrow> uuid \<Rightarrow> uuid \<Rightarrow> (ontology_registry_error, ontology_mapping_event list) result" where
  "list_mapping_history db tenant object =
     and_then (check (list_ex (\<lambda>k. ko_tenant_id k = tenant \<and> ko_id k = object \<and> ko_status k \<noteq> ''tombstone'')
          (od_objects db)) (ObjectNotFound object)) (\<lambda>_.
       Inr (sort_by (\<lambda>a b. me_mapping_revision b \<le> me_mapping_revision a) (mapping_history db tenant object)))"

section \<open>Transactions and histories\<close>

lemma latest_by_snoc:
  "latest_by f (xs @ [x]) =
     (case latest_by f xs of None \<Rightarrow> Some x | Some y \<Rightarrow> if f y < f x then Some x else Some y)"
  by (simp add: latest_by_def)

lemma latest_by_last: "ascending (map f xs) \<Longrightarrow> latest_by f xs = (if xs = [] then None else Some (last xs))"
  by (induction xs rule: rev_induct) (auto simp: latest_by_snoc sorted_wrt_append latest_by_def)

text \<open>A history is numbered when its revisions are 1, 2, 3, in the order of insertion.\<close>

definition numbered :: "('a \<Rightarrow> int) \<Rightarrow> 'a list \<Rightarrow> bool" where
  "numbered f xs \<longleftrightarrow> map f xs = [1..len xs]"

lemma numbered_Nil [simp]: "numbered f []"
  by (simp add: numbered_def len_def)

lemma numbered_snoc: "numbered f (xs @ [x]) \<longleftrightarrow> numbered f xs \<and> f x = len xs + 1"
  using upto_rec2 [of 1 "1 + int (length xs)"] by (auto simp: numbered_def len_def add.commute)

lemma numbered_latest:
  "numbered f xs \<Longrightarrow> latest_by f xs = (if xs = [] then None else Some (last xs))"
  by (rule latest_by_last) (simp add: numbered_def)

lemma numbered_current:
  assumes "numbered f xs"
  shows "(case latest_by f xs of Some y \<Rightarrow> f y | None \<Rightarrow> 0) = len xs"
  using assms by (cases xs rule: rev_cases) (auto simp: numbered_latest numbered_snoc len_def)

lemma next_revision_ok: "next_revision r = Inr n \<longleftrightarrow> n = r + 1 \<and> r + 1 < 2 ^ 63"
  by (auto simp: next_revision_def)

text \<open>A deactivation ends the activation right before it, and nothing is recorded twice in a row.\<close>

definition switches :: "ontology_activation_event list \<Rightarrow> bool" where
  "switches h \<longleftrightarrow>
     (\<forall>i < length h. ae_action (h ! i) = Deactivate \<longrightarrow>
        0 < i \<and> ae_action (h ! (i - 1)) = Activate
        \<and> ae_ontology_revision_id (h ! (i - 1)) = ae_ontology_revision_id (h ! i))
     \<and> (\<forall>i. Suc i < length h \<longrightarrow>
        (ae_action (h ! i), ae_ontology_revision_id (h ! i))
          \<noteq> (ae_action (h ! Suc i), ae_ontology_revision_id (h ! Suc i)))"

lemma switches_snoc:
  assumes "switches h"
    and "ae_action e = Deactivate \<Longrightarrow>
      h \<noteq> [] \<and> ae_action (last h) = Activate \<and> ae_ontology_revision_id (last h) = ae_ontology_revision_id e"
    and "h \<noteq> [] \<Longrightarrow>
      (ae_action (last h), ae_ontology_revision_id (last h)) \<noteq> (ae_action e, ae_ontology_revision_id e)"
  shows "switches (h @ [e])"
  unfolding switches_def
proof (rule conjI; intro allI impI)
  fix i assume i: "i < length (h @ [e])" and d: "ae_action ((h @ [e]) ! i) = Deactivate"
  show "0 < i \<and> ae_action ((h @ [e]) ! (i - 1)) = Activate
    \<and> ae_ontology_revision_id ((h @ [e]) ! (i - 1)) = ae_ontology_revision_id ((h @ [e]) ! i)"
  proof (cases "i < length h")
    case True
    with assms(1) d have "0 < i \<and> ae_action (h ! (i - 1)) = Activate
      \<and> ae_ontology_revision_id (h ! (i - 1)) = ae_ontology_revision_id (h ! i)"
      by (simp add: switches_def nth_append)
    with True show ?thesis by (auto simp: nth_append)
  next
    case False
    with i have e: "i = length h" by simp
    with d have "ae_action e = Deactivate" by simp
    with e assms(2) show ?thesis by (auto simp: nth_append last_conv_nth)
  qed
next
  fix i assume i: "Suc i < length (h @ [e])"
  show "(ae_action ((h @ [e]) ! i), ae_ontology_revision_id ((h @ [e]) ! i))
      \<noteq> (ae_action ((h @ [e]) ! Suc i), ae_ontology_revision_id ((h @ [e]) ! Suc i))"
  proof (cases "Suc i < length h")
    case True
    with assms(1) show ?thesis by (auto simp: switches_def nth_append)
  next
    case False
    with i have n: "length h = Suc i" by simp
    then have h: "h \<noteq> []" by auto
    with n have "last h = h ! i" by (simp add: last_conv_nth)
    with assms(3) n h show ?thesis by (simp add: nth_append)
  qed
qed

section \<open>Reachable registries\<close>

text \<open>
  The operations of the registry and kernel in any order, and whatever other components do to the users
  and the knowledge objects in between.
\<close>

inductive registry_step :: "ontology_env \<Rightarrow> ontology_db \<Rightarrow> ontology_db \<Rightarrow> bool" for E where
  step_register: "registry_step E db (snd (register_package E ids now reg db))"
| step_activate: "registry_step E db (snd (activate new_id now command db))"
| step_deactivate: "registry_step E db (snd (deactivate new_id now command db))"
| step_map: "registry_step E db (snd (append_mapping E new_id now mapping db))"
| step_outside: "registry_step E db (db\<lparr>od_users := users, od_objects := objects\<rparr>)"

inductive registry_reachable :: "ontology_env \<Rightarrow> ontology_db \<Rightarrow> bool" for E where
  initial: "registry_reachable E \<lparr>od_users = users, od_objects = objects, od_revisions = [],
      od_provenance = [], od_activations = [], od_mappings = []\<rparr>"
| later: "registry_reachable E db \<Longrightarrow> registry_step E db db' \<Longrightarrow> registry_reachable E db'"

definition row_pinned :: "ontology_env \<Rightarrow> ontology_revision_row \<Rightarrow> bool" where
  "row_pinned E r \<longleftrightarrow>
     oe_sha256_hex E (ow_schema_bytes r) = ow_schema_sha256 r
     \<and> (\<exists>v ont. ow_schema_version r = uint v \<and> parse_ontology (oe_codec E) (ow_schema_bytes r) v = Inr ont
          \<and> oe_to_value E ont = Inr (ow_normalized r))"

definition revisions_ok :: "ontology_env \<Rightarrow> ontology_revision_row list \<Rightarrow> bool" where
  "revisions_ok E rs \<longleftrightarrow>
     distinct (map ow_id rs) \<and> distinct (map (\<lambda>r. (ow_owner_bundle_id r, ow_schema_id r, ow_schema_version r)) rs)
     \<and> (\<forall>r \<in> set rs. row_pinned E r)"

definition activations_ok :: "ontology_db \<Rightarrow> bool" where
  "activations_ok db \<longleftrightarrow>
     (\<forall>key. numbered ae_activation_revision (activation_history db key) \<and> switches (activation_history db key))
     \<and> (\<forall>e \<in> set (od_activations db). \<exists>r \<in> set (od_revisions db).
          ow_id r = ae_ontology_revision_id e \<and> ow_owner_bundle_id r = ae_owner_bundle_id e
          \<and> ow_schema_id r = ae_schema_id e)"

definition mapping_grounded :: "ontology_env \<Rightarrow> ontology_db \<Rightarrow> ontology_mapping_event \<Rightarrow> bool" where
  "mapping_grounded E db m \<longleftrightarrow>
     (me_disposition m = Unmapped \<longrightarrow> me_ontology_revision_id m = None \<and> me_type_id m = None)
     \<and> (me_disposition m \<noteq> Unmapped \<longrightarrow>
         (\<exists>r type_id. me_ontology_revision_id m = Some (ow_id r) \<and> me_type_id m = Some type_id
           \<and> r \<in> set (od_revisions db)
           \<and> (\<exists>a \<in> set (od_activations db). ae_tenant_id a = me_tenant_id m
                \<and> ae_ontology_revision_id a = ow_id r \<and> ae_action a = Activate)
           \<and> (\<exists>ont t. oc_from_value (oe_codec E) (ow_normalized r) = Inr ont
                \<and> type_by_id ont type_id = Some t \<and> \<not> ot_deprecated t)))"

definition mappings_ok :: "ontology_env \<Rightarrow> ontology_db \<Rightarrow> bool" where
  "mappings_ok E db \<longleftrightarrow>
     (\<forall>tenant object. numbered me_mapping_revision (mapping_history db tenant object))
     \<and> (\<forall>m \<in> set (od_mappings db). mapping_grounded E db m)"

text \<open>Each operation only appends.\<close>

definition registry_extends :: "ontology_db \<Rightarrow> ontology_db \<Rightarrow> bool" where
  "registry_extends db db' \<longleftrightarrow> (\<exists>rs ps. od_revisions db' = od_revisions db @ rs \<and> od_provenance db' = od_provenance db @ ps)"

lemma registry_extends_refl [simp]: "registry_extends db db"
  by (simp add: registry_extends_def)

lemma registry_extends_trans: "registry_extends a b \<Longrightarrow> registry_extends b c \<Longrightarrow> registry_extends a c"
  by (auto simp: registry_extends_def)

lemma mapping_grounded_mono:
  "mapping_grounded E db m \<Longrightarrow> set (od_revisions db) \<subseteq> set (od_revisions db')
   \<Longrightarrow> set (od_activations db) \<subseteq> set (od_activations db') \<Longrightarrow> mapping_grounded E db' m"
  unfolding mapping_grounded_def by blast

lemma insert_revision_effect:
  assumes "insert_ontology_revision row db = Inr (inserted, db')" "revisions_ok E (od_revisions db)" "row_pinned E row"
  shows "revisions_ok E (od_revisions db')" "registry_extends db db'"
    "od_activations db' = od_activations db" "od_mappings db' = od_mappings db"
  using assms
  by (auto simp: insert_ontology_revision_def revisions_ok_def registry_extends_def list_ex_iff split: if_splits; blast)+

lemma insert_provenance_effect:
  assumes "insert_provenance row db = Inr (created, db')"
  shows "od_revisions db' = od_revisions db" "registry_extends db db'"
    "od_activations db' = od_activations db" "od_mappings db' = od_mappings db"
  using assms by (auto simp: insert_provenance_def registry_extends_def split: if_splits)

lemma register_schema_inserts:
  assumes "register_schema ids now reg item db = Inr (receipt, db')"
  obtains inserted db1 revision created where
    "uint (sf_version (fst item)) < 2 ^ 31"
    "insert_ontology_revision (schema_row (fst ids) now reg item) db = Inr (inserted, db1)"
    "resolve_inserted reg (fst item) inserted db1 = Inr revision"
    "rev_schema_sha256 revision = sf_sha256 (fst item)"
    "insert_provenance
          \<lparr>pv_id = snd ids, pv_revision_id = rev_id revision, pv_package_version = pr_package_version reg,
           pv_package_manifest_sha256 = pr_package_manifest_sha256 reg\<rparr> db1 = Inr (created, db')"
    "receipt = \<lparr>rg_revision = revision, rg_revision_created = (inserted \<noteq> None), rg_provenance_created = created\<rparr>"
  using assms by (fastforce simp: register_schema_def Let_def result_simps split: prod.splits)

definition item_pinned :: "ontology_env \<Rightarrow> domain_schema_file \<times> domain_ontology \<times> json \<Rightarrow> bool" where
  "item_pinned E item =
     (case item of (schema, ontology, normalized) \<Rightarrow>
       oe_sha256_hex E (sf_bytes schema) = sf_sha256 schema
       \<and> parse_ontology (oe_codec E) (sf_bytes schema) (sf_version schema) = Inr ontology
       \<and> oe_to_value E ontology = Inr normalized)"

lemma schema_row_pinned: "item_pinned E item \<Longrightarrow> row_pinned E (schema_row new_id now reg item)"
  by (auto simp: item_pinned_def row_pinned_def schema_row_def split: prod.splits)

lemma prepare_schemas_pinned:
  "prepare_schemas E schemas = Inr items \<Longrightarrow> \<forall>item \<in> set items. item_pinned E item"
proof (induction schemas arbitrary: items)
  case (Cons schema schemas)
  then obtain ontology normalized prepared where
    items: "items = (schema, ontology, normalized) # prepared" "prepare_schemas E schemas = Inr prepared"
    and p: "item_pinned E (schema, ontology, normalized)"
    by (auto simp: item_pinned_def Let_def result_simps map_sum_eq_Inr split: if_splits)
  from Cons.IH [OF items(2)] p items(1) show ?case by simp
qed simp

lemma register_schema_effect:
  assumes "register_schema ids now reg item db = Inr (receipt, db')"
    and "revisions_ok E (od_revisions db)" "item_pinned E item"
  shows "revisions_ok E (od_revisions db') \<and> registry_extends db db'
    \<and> od_activations db' = od_activations db \<and> od_mappings db' = od_mappings db"
proof -
  from assms(1) obtain inserted db1 created and revision :: ontology_revision where
    i: "insert_ontology_revision (schema_row (fst ids) now reg item) db = Inr (inserted, db1)"
    and p: "insert_provenance
          \<lparr>pv_id = snd ids, pv_revision_id = rev_id revision, pv_package_version = pr_package_version reg,
           pv_package_manifest_sha256 = pr_package_manifest_sha256 reg\<rparr> db1 = Inr (created, db')"
    by (elim register_schema_inserts) blast
  from insert_revision_effect [OF i assms(2) schema_row_pinned [OF assms(3)]] insert_provenance_effect [OF p]
  show ?thesis by (auto intro: registry_extends_trans)
qed

lemma register_schemas_effect:
  assumes "register_schemas ids now reg i items db = Inr (receipts, db')"
    and "revisions_ok E (od_revisions db)" "\<forall>item \<in> set items. item_pinned E item"
  shows "revisions_ok E (od_revisions db') \<and> registry_extends db db'
    \<and> od_activations db' = od_activations db \<and> od_mappings db' = od_mappings db"
  using assms
proof (induction items arbitrary: i db receipts)
  case (Cons item items)
  from Cons.prems(1) obtain receipt db1 receipts' where
    f: "register_schema (ids i) now reg item db = Inr (receipt, db1)"
    and r: "register_schemas ids now reg (Suc i) items db1 = Inr (receipts', db')"
    by (auto simp: result_simps)
  from register_schema_effect [OF f Cons.prems(2)] Cons.prems(3) have
    e: "revisions_ok E (od_revisions db1)" "registry_extends db db1" "od_activations db1 = od_activations db"
      "od_mappings db1 = od_mappings db" by simp_all
  from Cons.IH [OF r e(1)] Cons.prems(3) e show ?case by (auto intro: registry_extends_trans)
qed simp

lemma register_package_effect:
  assumes "revisions_ok E (od_revisions db)"
  shows "let db' = snd (register_package E ids now reg db)
    in revisions_ok E (od_revisions db') \<and> registry_extends db db'
      \<and> od_activations db' = od_activations db \<and> od_mappings db' = od_mappings db"
  unfolding register_package_def Let_def
  by (rule transaction_cases)
     (auto simp: result_simps assms dest!: register_schemas_effect [OF _ assms prepare_schemas_pinned])

subsection \<open>Activations\<close>

lemma activation_history_append:
  "activation_history (db\<lparr>od_activations := od_activations db @ [e]\<rparr>) key =
     (if activation_key e = key then activation_history db key @ [e] else activation_history db key)"
  by (simp add: activation_history_def)

lemma revision_by_id_Some:
  "revision_by_id db revision = Some r \<Longrightarrow> r \<in> set (od_revisions db) \<and> ow_id r = revision"
  by (auto simp: revision_by_id_def find_Some_iff)

lemma current_activation_last:
  "activations_ok db \<Longrightarrow>
     current_activation db key =
       (if activation_history db key = [] then None else Some (last (activation_history db key)))"
  unfolding activations_ok_def current_activation_def by (metis numbered_latest)

text \<open>What a successful activation or deactivation appended, if anything.\<close>

lemma set_activation_tx_effect:
  assumes "set_activation_tx new_id now command action db = Inr (receipt, db')"
  obtains (settled) "db' = db" "at_created receipt = False"
  | (recorded) e r where "db' = db\<lparr>od_activations := od_activations db @ [e]\<rparr>"
      "at_event receipt = e" "at_created receipt"
      "r \<in> set (od_revisions db)" "ow_id r = ae_ontology_revision_id e"
      "ow_owner_bundle_id r = ae_owner_bundle_id e" "ow_schema_id r = ae_schema_id e"
      "ae_activation_revision e =
         (case current_activation db (activation_key e) of Some c \<Rightarrow> ae_activation_revision c | None \<Rightarrow> 0) + 1"
      "activation_decision (ae_action e) (ae_ontology_revision_id e) (current_activation db (activation_key e)) = Inr None"
      "revision_by_id db (ac_ontology_revision_id command) = Some r"
      "ae_tenant_id e = ac_tenant command" "ae_activation_revision e = ac_expected_activation_revision command + 1"
proof -
  from assms obtain row where row: "revision_by_id db (ac_ontology_revision_id command) = Some row"
    by (auto simp: set_activation_tx_def result_simps)
  define key where "key = (ac_tenant command, ow_owner_bundle_id row, ow_schema_id row)"
  define current where "current = (case current_activation db key of Some c \<Rightarrow> ae_activation_revision c | None \<Rightarrow> 0)"
  from assms row obtain settled where
    d: "activation_decision action (ac_ontology_revision_id command) (current_activation db key) = Inr settled"
    by (auto simp: set_activation_tx_def result_simps Let_def key_def)
  show thesis
  proof (cases settled)
    case (Some c)
    with assms row d show thesis
      by (intro settled) (auto simp: set_activation_tx_def result_simps Let_def key_def)
  next
    case None
    define e where "e = \<lparr>ae_id = new_id, ae_tenant_id = ac_tenant command,
                 ae_ontology_revision_id = ac_ontology_revision_id command,
                 ae_owner_bundle_id = ow_owner_bundle_id row, ae_schema_id = ow_schema_id row,
                 ae_activation_revision = current + 1, ae_action = action,
                 ae_actor_user_id = ac_actor_user_id command, ae_reason = ac_reason command,
                 ae_created_at = now\<rparr>"
    have k: "activation_key e = key" by (simp add: e_def activation_key_def key_def)
    from assms row d None have "insert_activation e db = Inr (at_event receipt, db')" "at_created receipt"
      by (auto simp: set_activation_tx_def result_simps Let_def key_def current_def e_def next_revision_ok)
    moreover from this(1) have "db' = db\<lparr>od_activations := od_activations db @ [e]\<rparr>" "at_event receipt = e"
      by (auto simp: insert_activation_def split: if_splits)
    moreover from assms row have "current = ac_expected_activation_revision command"
      by (auto simp: set_activation_tx_def result_simps Let_def key_def current_def)
    ultimately show thesis
      using d None row k revision_by_id_Some [OF row]
      by (intro recorded [of e row]) (simp_all add: e_def current_def)
  qed
qed

lemma set_activation_tx_ok:
  assumes "set_activation_tx new_id now command action db = Inr (receipt, db')" and ok: "activations_ok db"
  shows "activations_ok db' \<and> od_revisions db' = od_revisions db \<and> od_mappings db' = od_mappings db
    \<and> set (od_activations db) \<subseteq> set (od_activations db')"
  using assms(1)
proof (cases rule: set_activation_tx_effect)
  case settled
  with ok show ?thesis by simp
next
  case (recorded e r)
  define h where "h = activation_history db (activation_key e)"
  from ok have n: "numbered ae_activation_revision h" and sw: "switches h"
    unfolding activations_ok_def h_def by blast+
  note c = current_activation_last [OF ok, of "activation_key e", folded h_def]
  from recorded(8) c n have "ae_activation_revision e = len h + 1"
    using numbered_current [OF n] by (simp add: current_activation_def h_def)
  with n have "numbered ae_activation_revision (h @ [e])" by (simp add: numbered_snoc)
  moreover have "switches (h @ [e])"
    using recorded(9) c
    by (intro switches_snoc [OF sw]) (auto simp: activation_decision_def split: if_splits)
  ultimately have "activations_ok db'"
    using ok recorded(1,4-7) unfolding activations_ok_def
    by (auto simp: activation_history_append h_def)
  with recorded(1) show ?thesis by auto
qed

lemma set_activation_ok:
  assumes "activations_ok db"
  shows "let db' = snd (set_activation new_id now command action db)
    in activations_ok db' \<and> od_revisions db' = od_revisions db \<and> od_mappings db' = od_mappings db
      \<and> set (od_activations db) \<subseteq> set (od_activations db')"
  unfolding set_activation_def Let_def
  by (rule transaction_cases) (auto simp: assms dest: set_activation_tx_ok [OF _ assms])

subsection \<open>Mappings\<close>

lemma effective_type_grounded:
  assumes "validate_effective_type E db tenant revision type_id = Inr u" and ok: "activations_ok db"
  shows "\<exists>r \<in> set (od_revisions db). ow_id r = revision
      \<and> (\<exists>a \<in> set (od_activations db). ae_tenant_id a = tenant \<and> ae_ontology_revision_id a = revision
           \<and> ae_action a = Activate)
      \<and> (\<exists>ont t. oc_from_value (oe_codec E) (ow_normalized r) = Inr ont
           \<and> type_by_id ont type_id = Some t \<and> \<not> ot_deprecated t)"
proof -
  from assms(1) obtain r ont t a where
    r: "revision_by_id db revision = Some r"
    and t: "oc_from_value (oe_codec E) (ow_normalized r) = Inr ont" "type_by_id ont type_id = Some t"
      "\<not> ot_deprecated t"
    and a: "current_activation db (tenant, ow_owner_bundle_id r, ow_schema_id r) = Some a"
      "ae_ontology_revision_id a = revision" "ae_action a = Activate"
    by (auto simp: validate_effective_type_def result_simps map_sum_eq_Inr split: option.splits)
  from a(1) current_activation_last [OF ok] have
    "a \<in> set (activation_history db (tenant, ow_owner_bundle_id r, ow_schema_id r))"
    by (auto split: if_splits)
  then have "a \<in> set (od_activations db)" "ae_tenant_id a = tenant"
    by (auto simp: activation_history_def activation_key_def)
  with revision_by_id_Some [OF r] t a(2,3) show ?thesis by blast
qed

lemma append_mapping_tx_effect:
  assumes "append_mapping_tx E new_id now c db = Inr (e, db')" and ok: "activations_ok db"
  shows "db' = db\<lparr>od_mappings := od_mappings db @ [e]\<rparr> \<and> mapping_grounded E db e
    \<and> me_mapping_revision e =
        (case latest_by me_mapping_revision (mapping_history db (me_tenant_id e) (me_object_id e)) of
           Some m \<Rightarrow> me_mapping_revision m | None \<Rightarrow> 0) + 1"
proof -
  from assms(1) have v: "validate_mapping_command c = Inr ()"
    and ty: "\<And>revision type_id. mc_ontology_revision_id c = Some revision \<Longrightarrow> mc_type_id c = Some type_id \<Longrightarrow>
      validate_effective_type E db (mc_tenant_id c) revision type_id = Inr ()"
    by (auto simp: append_mapping_tx_def result_simps Let_def)
  from assms(1) have e: "db' = db\<lparr>od_mappings := od_mappings db @ [e]\<rparr>"
    "me_tenant_id e = mc_tenant_id c" "me_object_id e = mc_object_id c" "me_disposition e = mc_disposition c"
    "me_ontology_revision_id e = mc_ontology_revision_id c" "me_type_id e = mc_type_id c"
    "me_mapping_revision e =
        (case latest_by me_mapping_revision (mapping_history db (mc_tenant_id c) (mc_object_id c)) of
           Some m \<Rightarrow> me_mapping_revision m | None \<Rightarrow> 0) + 1"
    by (auto simp: append_mapping_tx_def result_simps Let_def next_revision_ok insert_mapping_def split: if_splits)
  have "mapping_grounded E db e"
  proof (cases "mc_disposition c = Unmapped")
    case True
    with v e show ?thesis
      by (auto simp: mapping_grounded_def validate_mapping_command_def all_ok_eq_Inr check_eq_Inr)
  next
    case False
    with v obtain revision type_id where
      m: "mc_ontology_revision_id c = Some revision" "mc_type_id c = Some type_id"
      by (auto simp: validate_mapping_command_def all_ok_eq_Inr check_eq_Inr
          split: ontology_mapping_disposition.splits)
    from effective_type_grounded [OF ty [OF m] ok] False m e show ?thesis
      by (auto simp: mapping_grounded_def)
  qed
  with e show ?thesis by simp
qed

lemma mapping_history_append:
  "mapping_history (db\<lparr>od_mappings := od_mappings db @ [e]\<rparr>) tenant object =
     (if me_tenant_id e = tenant \<and> me_object_id e = object then mapping_history db tenant object @ [e]
      else mapping_history db tenant object)"
  by (simp add: mapping_history_def)

lemma append_mapping_tx_ok:
  assumes "append_mapping_tx E new_id now c db = Inr (e, db')" "activations_ok db" "mappings_ok E db"
  shows "mappings_ok E db' \<and> od_revisions db' = od_revisions db \<and> od_activations db' = od_activations db"
proof -
  note eff = append_mapping_tx_effect [OF assms(1,2)]
  have n: "numbered me_mapping_revision (mapping_history db t k)" for t k
    using assms(3) unfolding mappings_ok_def by blast
  have "numbered me_mapping_revision (mapping_history db' t k)" for t k
    using eff n [of t k] numbered_current [OF n, of "me_tenant_id e" "me_object_id e"]
    by (auto simp: mapping_history_append numbered_snoc)
  moreover have "mapping_grounded E db' m" if "m \<in> set (od_mappings db')" for m
    using that eff assms(3) mapping_grounded_mono [of E db m db'] by (auto simp: mappings_ok_def)
  ultimately show ?thesis using eff by (simp add: mappings_ok_def)
qed

end
