(* ===== verification/Ontology_Kernel.thy ===== *)
theory Ontology_Kernel
  imports Ontology_Registry
begin

text \<open>
  What the ontology registry and kernel guarantee over every sequence of their operations: linear
  activation and mapping histories, classification only by activated types, registrations that can be
  repeated, and the optimistic concurrency of activations.
\<close>

section \<open>The invariant of reachable registries\<close>

definition registry_ok :: "ontology_env \<Rightarrow> ontology_db \<Rightarrow> bool" where
  "registry_ok E db \<longleftrightarrow> revisions_ok E (od_revisions db) \<and> activations_ok db \<and> mappings_ok E db"

lemma activations_ok_mono:
  "activations_ok db \<Longrightarrow> od_activations db' = od_activations db
   \<Longrightarrow> set (od_revisions db) \<subseteq> set (od_revisions db') \<Longrightarrow> activations_ok db'"
  unfolding activations_ok_def activation_history_def by (metis subsetD)

lemma mappings_ok_mono:
  assumes "mappings_ok E db" "od_mappings db' = od_mappings db"
    "set (od_revisions db) \<subseteq> set (od_revisions db')" "set (od_activations db) \<subseteq> set (od_activations db')"
  shows "mappings_ok E db'"
  using assms mapping_grounded_mono [OF _ assms(3,4), of E]
  unfolding mappings_ok_def mapping_history_def by simp

lemma registry_ok_activation:
  assumes "registry_ok E db"
  shows "registry_ok E (snd (set_activation new_id now command action db))"
  using assms set_activation_ok [of db new_id now command action]
  by (auto simp: registry_ok_def Let_def intro: mappings_ok_mono [of E db])

lemma registry_step_ok:
  assumes "registry_step E db db'" "registry_ok E db"
  shows "registry_ok E db'"
  using assms
proof cases
  case (step_register ids now reg)
  from assms(2) have "revisions_ok E (od_revisions db)" by (simp add: registry_ok_def)
  from register_package_effect [OF this, of ids now reg] step_register assms(2) show ?thesis
    by (auto simp: registry_ok_def Let_def registry_extends_def
        intro: mappings_ok_mono [of E db] activations_ok_mono [of db])
next
  case (step_map new_id now mapping)
  then show ?thesis unfolding step_map append_mapping_def
    using assms(2) append_mapping_tx_ok [of E new_id now mapping db]
    by (intro transaction_cases [where P = "registry_ok E"])
       (auto simp: registry_ok_def intro: activations_ok_mono [of db])
next
  case (step_outside users objects)
  with assms(2) show ?thesis
    by (auto simp: registry_ok_def intro: mappings_ok_mono [of E db] activations_ok_mono [of db])
qed (use assms(2) in \<open>simp_all add: activate_def deactivate_def registry_ok_activation\<close>)

lemma reachable_registry_ok: "registry_reachable E db \<Longrightarrow> registry_ok E db"
proof (induction rule: registry_reachable.induct)
  case (initial users objects)
  then show ?case
    by (simp add: registry_ok_def revisions_ok_def activations_ok_def mappings_ok_def activation_history_def
        mapping_history_def switches_def)
next
  case (later db db')
  then show ?case using registry_step_ok by blast
qed

text \<open>
  In every reachable registry the activation events of a schema in a tenant are numbered 1, 2, 3 and
  so on in the order they were recorded, each names a registered revision of that schema, a deactivation
  directly follows the activation of the revision it ends, and the event that counts as current is the
  one recorded last.
\<close>

lemma activation_history_is_linear:
  assumes "registry_reachable E db" and h: "h = activation_history db (tenant, owner, schema)"
  shows "map ae_activation_revision h = [1..int (length h)]
    \<and> (\<forall>e \<in> set h. \<exists>r \<in> set (od_revisions db). ow_id r = ae_ontology_revision_id e
           \<and> ow_owner_bundle_id r = owner \<and> ow_schema_id r = schema)
    \<and> (\<forall>i < length h. ae_action (h ! i) = Deactivate \<longrightarrow>
           0 < i \<and> ae_action (h ! (i - 1)) = Activate
           \<and> ae_ontology_revision_id (h ! (i - 1)) = ae_ontology_revision_id (h ! i))
    \<and> current_activation db (tenant, owner, schema) = (if h = [] then None else Some (last h))"
proof -
  have ok: "activations_ok db" using reachable_registry_ok [OF assms(1)] by (simp add: registry_ok_def)
  then have "numbered ae_activation_revision h" "switches h"
    unfolding activations_ok_def h by blast+
  moreover have "\<forall>e \<in> set h. \<exists>r \<in> set (od_revisions db). ow_id r = ae_ontology_revision_id e
           \<and> ow_owner_bundle_id r = owner \<and> ow_schema_id r = schema"
    using ok by (auto simp: activations_ok_def h activation_history_def activation_key_def)
  ultimately show ?thesis
    using current_activation_last [OF ok] by (simp add: numbered_def len_def switches_def h)
qed

text \<open>\<open>serde\<close> decodes what it encoded.\<close>

definition codec_roundtrips :: "ontology_env \<Rightarrow> bool" where
  "codec_roundtrips E \<longleftrightarrow> (\<forall>ont v. oe_to_value E ont = Inr v \<longrightarrow> oc_from_value (oe_codec E) v = Inr ont)"


section \<open>A registry in use\<close>

lemma evaluated_projection:
  "map_sum (\<lambda>_. ()) f (fst p) = Inr y \<Longrightarrow> \<exists>x. p = (Inr x, snd p) \<and> f x = y"
  by (cases p; cases "fst p") auto

text \<open>
  One package with a legacy schema, registered, activated and used to classify an object; the codec
  knows this one ontology.
\<close>

definition branch_ontology :: domain_ontology where
  "branch_ontology =
     \<lparr>do_format_version = 1,
      do_types = [\<lparr>ot_id = ''Branch'', ot_label = ''Branch'', ot_family = NEntity, ot_aliases = [],
                   ot_deprecated = False\<rparr>],
      do_relations = [], do_migrations = [], do_legacy_adapter = True\<rparr>"

definition branch_schema :: json where
  "branch_schema =
     JObject [(''properties'', JObject
       [(''entities'', JObject [(''const'', JArray [JString ''Branch''])]),
        (''relations'', JObject [(''const'', JArray [])])])]"

definition branch_env :: ontology_env where
  "branch_env =
     \<lparr>oe_codec =
        \<lparr>oc_from_slice = (\<lambda>s. if s = ''schema'' then Inr branch_schema else Inl ''EOF''),
         oc_from_value = (\<lambda>v. if v = JObject [(''format_version'', JNumber ''1'')] then Inr branch_ontology
                             else Inl ''unknown''),
         oc_debug_str = (\<lambda>s. s)\<rparr>,
      oe_to_value = (\<lambda>ont. if ont = branch_ontology then Inr (JObject [(''format_version'', JNumber ''1'')])
                          else Inl ''unknown''),
      oe_sha256_hex = (\<lambda>_. replicate 64 (CHR ''a''))\<rparr>"

definition branch_registration :: ontology_package_registration where
  "branch_registration =
     \<lparr>pr_owner_bundle_id = ''branch-planner'', pr_package_version = ''1.0.0'',
      pr_package_manifest_sha256 = replicate 64 (CHR ''b''),
      pr_schemas = [\<lparr>sf_id = ''branch'', sf_version = 1, sf_sha256 = replicate 64 (CHR ''a''),
                     sf_bytes = ''schema''\<rparr>]\<rparr>"

definition fresh_db :: ontology_db where
  "fresh_db =
     \<lparr>od_users = [(7, 1)],
      od_objects = [\<lparr>ko_tenant_id = 7, ko_id = 20, ko_status = ''active'', ko_revision = 3\<rparr>],
      od_revisions = [], od_provenance = [], od_activations = [], od_mappings = []\<rparr>"

definition branch_command :: "int \<Rightarrow> ontology_activation_command" where
  "branch_command expected =
     \<lparr>ac_tenant = 7, ac_actor_user_id = 1, ac_ontology_revision_id = 10,
      ac_expected_activation_revision = expected, ac_reason = ''rollout''\<rparr>"

definition branch_mapping :: ontology_mapping_command where
  "branch_mapping =
     \<lparr>mc_tenant_id = 7, mc_recorded_by = 1, mc_object_id = 20, mc_object_revision = 3,
      mc_expected_mapping_revision = 0, mc_disposition = MappingActive, mc_ontology_revision_id = Some 10,
      mc_type_id = Some ''Branch'', mc_confidence = Some (FFin (9 / 10)), mc_evidence = JObject [],
      mc_reason = ''reviewed''\<rparr>"

definition registered_db :: ontology_db where
  "registered_db = snd (register_package branch_env (\<lambda>i. (10 + of_nat i, 40 + of_nat i)) 100 branch_registration fresh_db)"

definition activated_db :: ontology_db where
  "activated_db = snd (activate 50 101 (branch_command 0) registered_db)"

definition mapped_db :: ontology_db where
  "mapped_db = snd (append_mapping branch_env 60 102 branch_mapping activated_db)"

definition retired_db :: ontology_db where
  "retired_db = snd (deactivate 51 103 (branch_command 1) mapped_db)"

lemma branch_codec_roundtrips: "codec_roundtrips branch_env"
  by (simp add: codec_roundtrips_def branch_env_def)

lemma retired_db_reachable: "registry_reachable branch_env mapped_db \<and> registry_reachable branch_env retired_db"
proof -
  have "registry_reachable branch_env fresh_db" unfolding fresh_db_def by (rule initial)
  then have "registry_reachable branch_env registered_db"
    unfolding registered_db_def by (rule later [OF _ step_register])
  then have "registry_reachable branch_env activated_db"
    unfolding activated_db_def by (rule later [OF _ step_activate])
  then have m: "registry_reachable branch_env mapped_db"
    unfolding mapped_db_def by (rule later [OF _ step_map])
  then have "registry_reachable branch_env retired_db"
    unfolding retired_db_def by (rule later [OF _ step_deactivate])
  with m show ?thesis by simp
qed

lemma branch_run:
  "map (\<lambda>e. (ae_activation_revision e, ae_action e)) (od_activations retired_db) = [(1, Activate), (2, Deactivate)]"
  "map (\<lambda>m. (me_disposition m, me_mapping_revision m)) (od_mappings retired_db) = [(MappingActive, 1)]"
  "map (\<lambda>m. (me_disposition m, me_mapping_revision m)) (od_mappings mapped_db) = [(MappingActive, 1)]"
  by code_simp+

lemma activation_history_is_linear_example:
  "registry_reachable branch_env retired_db
   \<and> map ae_activation_revision (activation_history retired_db (7, ''branch-planner'', ''branch'')) =
       [1..int (length (activation_history retired_db (7, ''branch-planner'', ''branch'')))]
   \<and> length (activation_history retired_db (7, ''branch-planner'', ''branch'')) = 2"
proof -
  have "length (activation_history retired_db (7, ''branch-planner'', ''branch'')) = 2" by code_simp
  with activation_history_is_linear [OF _ refl] retired_db_reachable show ?thesis by blast
qed


section \<open>Registering again\<close>

lemma find_append:
  "find P (xs @ ys) = (case find P xs of None \<Rightarrow> find P ys | Some x \<Rightarrow> Some x)"
  by (induction xs) auto

lemma registered_row_extends:
  "registered_row reg schema db = Some r \<Longrightarrow> registry_extends db db' \<Longrightarrow> registered_row reg schema db' = Some r"
  by (auto simp: registered_row_def registry_extends_def find_append)

text \<open>After a registration the row of the schema is in the table and the receipt shows it.\<close>

lemma register_schema_registers:
  assumes "register_schema ids now reg item db = Inr (receipt, db')"
  shows "\<exists>r. registered_row reg (fst item) db' = Some r \<and> revision_of_row r = rg_revision receipt"
    and "registry_extends db db'"
    and "\<exists>p \<in> set (od_provenance db'). pv_revision_id p = rev_id (rg_revision receipt)
           \<and> pv_package_manifest_sha256 p = pr_package_manifest_sha256 reg"
proof -
  from assms obtain inserted db1 created and revision :: ontology_revision where
    i: "insert_ontology_revision (schema_row (fst ids) now reg item) db = Inr (inserted, db1)"
    and v: "resolve_inserted reg (fst item) inserted db1 = Inr revision"
    and p: "insert_provenance
          \<lparr>pv_id = snd ids, pv_revision_id = rev_id revision, pv_package_version = pr_package_version reg,
           pv_package_manifest_sha256 = pr_package_manifest_sha256 reg\<rparr> db1 = Inr (created, db')"
    and rc: "rg_revision receipt = revision"
    by (elim register_schema_inserts) auto
  have "\<exists>r. registered_row reg (fst item) db1 = Some r \<and> revision_of_row r = revision"
  proof (cases inserted)
    case None
    with v show ?thesis by (auto simp: resolve_inserted_def result_simps)
  next
    case (Some r)
    with i v have new: "db1 = db\<lparr>od_revisions := od_revisions db @ [schema_row (fst ids) now reg item]\<rparr>"
      "revision = revision_of_row (schema_row (fst ids) now reg item)"
      and no: "\<not> list_ex (\<lambda>r. ow_owner_bundle_id r = ow_owner_bundle_id (schema_row (fst ids) now reg item)
          \<and> ow_schema_id r = ow_schema_id (schema_row (fst ids) now reg item)
          \<and> ow_schema_version r = ow_schema_version (schema_row (fst ids) now reg item)) (od_revisions db)"
      by (auto simp: insert_ontology_revision_def resolve_inserted_def split: if_splits)
    from no have "find (\<lambda>r. ow_owner_bundle_id r = pr_owner_bundle_id reg \<and> ow_schema_id r = sf_id (fst item)
        \<and> ow_schema_version r = uint (sf_version (fst item))) (od_revisions db) = None"
      by (auto simp: find_None_iff list_ex_iff schema_row_def split: prod.splits)
    then have "registered_row reg (fst item) db1 = Some (schema_row (fst ids) now reg item)"
      by (simp add: registered_row_def new(1) find_append schema_row_def split: prod.splits)
    with new(2) show ?thesis by simp
  qed
  moreover from p have "od_revisions db' = od_revisions db1" by (rule insert_provenance_effect)
  ultimately show "\<exists>r. registered_row reg (fst item) db' = Some r \<and> revision_of_row r = rg_revision receipt"
    using rc by (simp add: registered_row_def)
  show "registry_extends db db'"
    using i insert_provenance_effect(2) [OF p]
    by (auto simp: insert_ontology_revision_def registry_extends_def split: if_splits)
  show "\<exists>p \<in> set (od_provenance db'). pv_revision_id p = rev_id (rg_revision receipt)
           \<and> pv_package_manifest_sha256 p = pr_package_manifest_sha256 reg"
    using p rc by (auto simp: insert_provenance_def list_ex_iff split: if_splits)
qed

definition seen_again :: "ontology_registration_receipt \<Rightarrow> ontology_registration_receipt" where
  "seen_again r = r\<lparr>rg_revision_created := False, rg_provenance_created := False\<rparr>"

lemma register_schema_again:
  assumes "register_schema ids now reg item db = Inr (receipt, db1)" "registry_extends db1 db2"
  shows "register_schema ids' now' reg item db2 = Inr (seen_again receipt, db2)"
proof -
  from assms(1) obtain inserted db0 where
    v: "uint (sf_version (fst item)) < 2 ^ 31"
    and i: "insert_ontology_revision (schema_row (fst ids) now reg item) db = Inr (inserted, db0)"
    and s: "rev_schema_sha256 (rg_revision receipt) = sf_sha256 (fst item)"
    by (elim register_schema_inserts) auto
  from register_schema_registers(1) [OF assms(1)] obtain r where
    r1: "registered_row reg (fst item) db1 = Some r" and rr: "revision_of_row r = rg_revision receipt" by blast
  from registered_row_extends [OF r1 assms(2)] have r: "registered_row reg (fst item) db2 = Some r" .
  then have "insert_ontology_revision (schema_row (fst ids') now' reg item) db2 = Inr (None, db2)"
    using i by (auto simp: insert_ontology_revision_def schema_row_def registered_row_def find_Some_iff list_ex_iff
        split: if_splits prod.splits)
  moreover have "\<exists>p \<in> set (od_provenance db2). pv_revision_id p = rev_id (rg_revision receipt)
           \<and> pv_package_manifest_sha256 p = pr_package_manifest_sha256 reg"
    using register_schema_registers(3) [OF assms(1)] assms(2) by (auto simp: registry_extends_def)
  ultimately show ?thesis
    using v s r rr
    by (cases receipt) (auto simp: register_schema_def Let_def resolve_inserted_def ok_or_def
        insert_provenance_def list_ex_iff seen_again_def)
qed

lemma register_schemas_again:
  assumes "register_schemas ids now reg i items db = Inr (receipts, db1)"
  shows "registry_extends db db1 \<and> (\<forall>db2. registry_extends db1 db2 \<longrightarrow>
    register_schemas ids' now' reg j items db2 = Inr (map seen_again receipts, db2))"
  using assms
proof (induction items arbitrary: i j db receipts)
  case (Cons item items)
  from Cons.prems obtain receipt dba receipts' where
    f: "register_schema (ids i) now reg item db = Inr (receipt, dba)"
    and r: "register_schemas ids now reg (Suc i) items dba = Inr (receipts', db1)"
    and rs: "receipts = receipt # receipts'"
    by (auto simp: result_simps)
  from Cons.IH [OF r] have e: "registry_extends dba db1" by blast
  from registry_extends_trans [OF register_schema_registers(2) [OF f] e] have "registry_extends db db1" .
  moreover have "register_schemas ids' now' reg j (item # items) db2 = Inr (map seen_again receipts, db2)"
    if "registry_extends db1 db2" for db2
    using register_schema_again [OF f registry_extends_trans [OF e that], of "ids' j" now'] Cons.IH [OF r, of "Suc j"] that rs
    by simp
  ultimately show ?case by blast
qed simp

text \<open>
  Registering a package is idempotent: when it succeeded once, registering it again at any later
  time, with whatever fresh ids, succeeds, returns the same revisions, reports that nothing was created
  and leaves the registry as it is.
\<close>

lemma registration_is_idempotent:
  assumes "register_package E ids now reg db = (Inr receipts, db')"
  shows "register_package E ids' now' reg db' = (Inr (map seen_again receipts), db')"
proof -
  from assms obtain prepared where p: "prepare_schemas E (pr_schemas reg) = Inr prepared"
    "validate_package_metadata (pr_package_version reg) (pr_package_manifest_sha256 reg) = Inr ()"
    and r: "register_schemas ids now reg 0 prepared db = Inr (receipts, db')"
    by (auto simp: register_package_def transaction_eq_Inr result_simps)
  from register_schemas_again [OF r, of ids' now' 0] p show ?thesis
    by (simp add: register_package_def transaction_def)
qed

lemma registration_is_idempotent_example:
  "\<exists>receipts. length receipts = 1
     \<and> register_package branch_env (\<lambda>_. (0, 0)) 200 branch_registration registered_db
         = (Inr (map seen_again receipts), registered_db)"
proof -
  let ?first = "register_package branch_env (\<lambda>i. (10 + of_nat i, 40 + of_nat i)) 100 branch_registration fresh_db"
  have "map_sum (\<lambda>_. ()) length (fst ?first) = Inr 1" by code_simp
  from evaluated_projection [OF this] obtain receipts where
    n: "length receipts = 1" and r: "?first = (Inr receipts, registered_db)"
    unfolding registered_db_def by auto
  from registration_is_idempotent [OF r] n show ?thesis by blast
qed

section \<open>Concurrent activations\<close>

lemma activation_changes_current:
  assumes "set_activation new_id now command action db = (Inr receipt, db')" "at_created receipt"
    and ok: "activations_ok db" and row: "revision_by_id db (ac_ontology_revision_id command) = Some row"
  shows "current_activation db' (ac_tenant command, ow_owner_bundle_id row, ow_schema_id row) = Some (at_event receipt)
    \<and> ae_activation_revision (at_event receipt) = ac_expected_activation_revision command + 1"
proof -
  from assms(1) have tx: "set_activation_tx new_id now command action db = Inr (receipt, db')"
    by (simp add: set_activation_def transaction_eq_Inr)
  let ?key = "(ac_tenant command, ow_owner_bundle_id row, ow_schema_id row)"
  have k: "activation_key (at_event receipt) = ?key"
    and n: "ae_activation_revision (at_event receipt) = ac_expected_activation_revision command + 1"
    and db': "db' = db\<lparr>od_activations := od_activations db @ [at_event receipt]\<rparr>"
    using tx assms(2) row by (cases rule: set_activation_tx_effect; auto simp: activation_key_def)+
  have "activations_ok db'" using set_activation_tx_ok [OF tx ok] by blast
  from current_activation_last [OF this, of ?key] k n show ?thesis
    by (simp add: db' activation_history_append)
qed

text \<open>
  Two managers who both saw the same activation revision of a schema cannot both change it: once
  the first change is recorded, the second, whichever revision of the schema it activates or
  deactivates, is refused with the current revision and changes nothing.
\<close>

lemma stale_activation_is_refused:
  assumes "registry_reachable E db"
    and "set_activation new_id now first action db = (Inr receipt, db')" and "at_created receipt"
    and "revision_by_id db (ac_ontology_revision_id first) = Some row"
    and "revision_by_id db (ac_ontology_revision_id second) = Some row'"
    and "(ow_owner_bundle_id row', ow_schema_id row') = (ow_owner_bundle_id row, ow_schema_id row)"
    and "ac_tenant second = ac_tenant first"
    and "ac_expected_activation_revision second = ac_expected_activation_revision first"
    and "validate_reason (ac_reason second) = Inr ()"
  shows "set_activation new_id' now' second action' db' =
    (Inl (ActivationConflict (ac_expected_activation_revision first) (ac_expected_activation_revision first + 1)), db')"
proof -
  have ok: "activations_ok db" using reachable_registry_ok [OF assms(1)] by (simp add: registry_ok_def)
  have tx: "set_activation_tx new_id now first action db = Inr (receipt, db')"
    using assms(2) by (simp add: set_activation_def transaction_eq_Inr)
  then have "validate_expected_revision (ac_expected_activation_revision second) = Inr ()"
    using assms(8) by (auto simp: set_activation_tx_def result_simps)
  moreover have "revision_by_id db' (ac_ontology_revision_id second) = Some row'"
    using assms(5) set_activation_tx_ok [OF tx ok] by (simp add: revision_by_id_def)
  ultimately show ?thesis
    using activation_changes_current [OF assms(2,3) ok assms(4)] assms(6-9)
    by (simp add: set_activation_def transaction_def set_activation_tx_def ok_or_def)
qed

lemma stale_activation_is_refused_example:
  "set_activation 52 104 (branch_command 0) Deactivate activated_db = (Inl (ActivationConflict 0 1), activated_db)"
proof -
  let ?first = "set_activation 50 101 (branch_command 0) Activate registered_db"
  have "map_sum (\<lambda>_. ()) at_created (fst ?first) = Inr True"
    and "revision_by_id registered_db 10 \<noteq> None"
    and reason: "validate_reason (ac_reason (branch_command 0)) = Inr ()"
    by code_simp+
  then obtain receipt row where r: "?first = (Inr receipt, activated_db)" "at_created receipt"
    and "revision_by_id registered_db 10 = Some row"
    using evaluated_projection [of at_created ?first True] unfolding activated_db_def activate_def by auto
  then have row: "revision_by_id registered_db (ac_ontology_revision_id (branch_command 0)) = Some row"
    by (simp add: branch_command_def)
  have reach: "registry_reachable branch_env registered_db"
    unfolding registered_db_def fresh_db_def by (rule later [OF initial step_register])
  from stale_activation_is_refused [OF reach r row row refl refl refl reason]
  show ?thesis by (simp add: branch_command_def)
qed

end
