(* ===== verification/Bundle_Grants.thy ===== *)
theory Bundle_Grants
  imports Manifest_Checks
begin

text \<open>
  Operator grants, \<open>crates/gadgetron-gateway/src/web/bundle_grants.rs\<close>: the permissions an operator
  accepted for one package digest, kept in memory and as one file per Bundle.

  The grant directory is a list of entries.  JSON coding, UUID syntax and the \<open>Debug\<close> of paths are the
  fields of \<open>grant_env\<close>; how far the file operations of a call got, with the text of the operating system's
  error, is an argument of the call.
\<close>

record granted_permission =
  gp_id :: string
  gp_kind :: permission_kind
  gp_description :: string
  gp_resources :: "string list"

record bundle_permission_grant =
  bg_format_version :: u32
  bg_grant_revision :: string
  bg_bundle_id :: string
  bg_package_manifest_sha256 :: string
  bg_permissions :: "granted_permission list"
  bg_granted_at_ms :: u64

record grant_env =
  gv_manifest :: manifest_env
  gv_uuid_ok :: "string \<Rightarrow> bool"
  gv_decode :: "string \<Rightarrow> (string, bundle_permission_grant) result"
  gv_encode :: "bundle_permission_grant \<Rightarrow> (string, string) result"
  gv_debug_path :: "string \<Rightarrow> string"

abbreviation GRANT_FORMAT_VERSION :: u32 where "GRANT_FORMAT_VERSION \<equiv> 1"

definition granted_permission_from :: "permission_declaration \<Rightarrow> granted_permission" where
  "granted_permission_from p =
     \<lparr>gp_id = pm_id p, gp_kind = pm_kind p, gp_description = pm_description p, gp_resources = pm_resources p\<rparr>"

section \<open>Grants\<close>

definition validate_granted_permission :: "grant_env \<Rightarrow> granted_permission \<Rightarrow> (string, unit) result" where
  "validate_granted_permission V p =
     (let shown = debug_str (gv_manifest V) (gp_id p)
      in all_ok
          [check (\<not> (is_blank (gp_description p) \<or> len (gp_description p) > 2048))
            (''granted permission '' @ shown @ '' has an invalid description''),
           check (\<not> (gp_resources p = [] \<or> len (gp_resources p) > 128))
            (''granted permission '' @ shown @ '' must retain 1-128 signed resources''),
           try_each (\<lambda>r. check (\<not> (is_blank r \<or> len r > 1024 \<or> has_control r))
            (''granted permission '' @ shown @ '' contains an invalid resource'')) (gp_resources p)])"

definition validate_grant :: "grant_env \<Rightarrow> bundle_permission_grant \<Rightarrow> (string, unit) result" where
  "validate_grant V g =
     all_ok
      [check (bg_format_version g = GRANT_FORMAT_VERSION)
        (''unsupported Bundle grant format version '' @ show_int (uint (bg_format_version g))),
       map_sum (\<lambda>e. ''invalid Bundle grant id: '' @ error_display (gv_manifest V) e) (\<lambda>_. ())
        (bundle_id_new (bg_bundle_id g)),
       check (gv_uuid_ok V (bg_grant_revision g)) ''Bundle grant revision is not a UUID'',
       check (is_sha256_text (bg_package_manifest_sha256 g)) ''Bundle grant package digest is not canonical SHA-256'',
       check (bg_permissions g \<noteq> []) ''Bundle grant must contain at least one permission'',
       try_unique
        (\<lambda>_ p. map_sum (\<lambda>e. ''invalid granted permission id: '' @ error_display (gv_manifest V) e) (\<lambda>_. ())
          (local_id_new (gp_id p)))
        gp_id
        (\<lambda>_ p. ''Bundle grant repeats permission '' @ debug_str (gv_manifest V) (gp_id p))
        (\<lambda>_. validate_granted_permission V) (bg_permissions g)]"

definition grant_new ::
  "grant_env \<Rightarrow> string \<Rightarrow> u64 \<Rightarrow> string \<Rightarrow> string \<Rightarrow> granted_permission list \<Rightarrow> (string, bundle_permission_grant) result" where
  "grant_new V revision now_ms bundle_id digest permissions =
     (let g = \<lparr>bg_format_version = GRANT_FORMAT_VERSION, bg_grant_revision = revision, bg_bundle_id = bundle_id,
               bg_package_manifest_sha256 = digest,
               bg_permissions = sort_by (\<lambda>a b. gp_id a \<le> gp_id b) permissions, bg_granted_at_ms = now_ms\<rparr>
      in and_then (validate_grant V g) (\<lambda>_. Inr g))"

definition grant_allows :: "bundle_permission_grant \<Rightarrow> string \<Rightarrow> string \<Rightarrow> permission_kind \<Rightarrow> string \<Rightarrow> bool" where
  "grant_allows g digest permission_id kind resource \<longleftrightarrow>
     bg_package_manifest_sha256 g = digest
     \<and> list_ex (\<lambda>p. gp_id p = permission_id \<and> gp_kind p = kind \<and> list_ex (\<lambda>r. r = resource) (gp_resources p))
        (bg_permissions g)"

section \<open>The store\<close>

record grant_file =
  gf_name :: string
  gf_regular :: bool
  gf_bytes :: string

record grant_store =
  gs_files :: "grant_file list"
  gs_grants :: "(string \<times> bundle_permission_grant) list"

text \<open>\<open>Path::extension\<close> of a file name: what follows its last dot, unless that dot is its first character.\<close>

definition file_extension :: "string \<Rightarrow> string option" where
  "file_extension name =
     (case rsplit_once (CHR ''.'') name of Some (stem, ext) \<Rightarrow> if stem = [] then None else Some ext | None \<Rightarrow> None)"

definition grant_file_name :: "string \<Rightarrow> string" where
  "grant_file_name bundle_id = bundle_id @ ''.json''"

fun open_entries ::
  "grant_env \<Rightarrow> grant_file list \<Rightarrow> (string \<times> bundle_permission_grant) list
   \<Rightarrow> (string, (string \<times> bundle_permission_grant) list) result" where
  "open_entries V [] grants = Inr grants"
| "open_entries V (f # fs) grants =
     (if file_extension (gf_name f) \<noteq> Some ''json'' then open_entries V fs grants
      else and_then (check (gf_regular f) (''Bundle grant '' @ gv_debug_path V (gf_name f) @ '' is not a regular file'')) (\<lambda>_.
           and_then (map_sum (\<lambda>e. ''cannot parse Bundle grant '' @ gv_debug_path V (gf_name f) @ '': '' @ e) (\<lambda>g. g)
              (gv_decode V (gf_bytes f))) (\<lambda>g.
           and_then (validate_grant V g) (\<lambda>_.
           and_then (check (gf_name f = grant_file_name (bg_bundle_id g))
              (''Bundle grant filename does not match signed id '' @ debug_str (gv_manifest V) (bg_bundle_id g))) (\<lambda>_.
           and_then (check (map_of grants (bg_bundle_id g) = None) ''duplicate persisted Bundle grant'') (\<lambda>_.
             open_entries V fs (bm_insert (bg_bundle_id g) g grants)))))))"

definition open_grants :: "grant_env \<Rightarrow> grant_file list \<Rightarrow> (string, grant_store) result" where
  "open_grants V files =
     map_sum (\<lambda>e. e) (\<lambda>grants. \<lparr>gs_files = files, gs_grants = grants\<rparr>) (open_entries V files [])"

definition grants_get :: "grant_store \<Rightarrow> string \<Rightarrow> bundle_permission_grant option" where
  "grants_get store bundle_id = map_of (gs_grants store) bundle_id"

text \<open>How far the file operations got: to the end, not to the rename or removal, or past it.\<close>

datatype file_outcome = FilesDone | FilesUntouched string | FilesUnsynced string

definition without_file :: "string \<Rightarrow> grant_file list \<Rightarrow> grant_file list" where
  "without_file name fs = filter (\<lambda>f. gf_name f \<noteq> name) fs"

definition grants_put ::
  "grant_env \<Rightarrow> file_outcome \<Rightarrow> bundle_permission_grant \<Rightarrow> grant_store
   \<Rightarrow> (string, bundle_permission_grant) result \<times> grant_store" where
  "grants_put V io g store =
     (case validate_grant V g of Inl e \<Rightarrow> (Inl e, store) | Inr _ \<Rightarrow>
      (case gv_encode V g of Inl e \<Rightarrow> (Inl (''cannot encode Bundle grant: '' @ e), store) | Inr encoded \<Rightarrow>
        (let name = grant_file_name (bg_bundle_id g);
             written = store\<lparr>gs_files := without_file name (gs_files store)
               @ [\<lparr>gf_name = name, gf_regular = True, gf_bytes = encoded @ [CHR 0x0A]\<rparr>]\<rparr>
         in case io of
              FilesUntouched e \<Rightarrow> (Inl (''cannot persist Bundle grant: '' @ e), store)
            | FilesUnsynced e \<Rightarrow> (Inl (''cannot persist Bundle grant: '' @ e), written)
            | FilesDone \<Rightarrow> (Inr g, written\<lparr>gs_grants := bm_insert (bg_bundle_id g) g (gs_grants store)\<rparr>))))"

definition grants_revoke ::
  "grant_env \<Rightarrow> file_outcome \<Rightarrow> string \<Rightarrow> grant_store \<Rightarrow> (string, bool) result \<times> grant_store" where
  "grants_revoke V io bundle_id store =
     (case bundle_id_new bundle_id of
        Inl e \<Rightarrow> (Inl (''invalid Bundle grant id: '' @ error_display (gv_manifest V) e), store)
      | Inr _ \<Rightarrow>
          (let name = grant_file_name bundle_id;
               existed = list_ex (\<lambda>f. gf_name f = name) (gs_files store);
               removed = store\<lparr>gs_files := without_file name (gs_files store)\<rparr>;
               forgotten = removed\<lparr>gs_grants := filter (\<lambda>(b, _). b \<noteq> bundle_id) (gs_grants store)\<rparr>
           in if \<not> existed then (Inr False, forgotten)
              else case io of
                FilesUntouched e \<Rightarrow> (Inl (''cannot remove Bundle grant: '' @ e), store)
              | FilesUnsynced e \<Rightarrow> (Inl (''cannot sync Bundle grant revocation: '' @ e), removed)
              | FilesDone \<Rightarrow> (Inr True, forgotten)))"

section \<open>Memory and disk\<close>

definition grant_codec_ok :: "grant_env \<Rightarrow> bool" where
  "grant_codec_ok V \<longleftrightarrow> (\<forall>g text. gv_encode V g = Inr text \<longrightarrow> gv_decode V (text @ [CHR 0x0A]) = Inr g)"

text \<open>Each grant file is readable, holds a valid grant under its name, and is in memory; and conversely.\<close>

definition file_holds :: "grant_env \<Rightarrow> grant_file \<Rightarrow> bundle_permission_grant \<Rightarrow> bool" where
  "file_holds V f g \<longleftrightarrow>
     gf_regular f \<and> gv_decode V (gf_bytes f) = Inr g \<and> validate_grant V g = Inr ()
     \<and> gf_name f = grant_file_name (bg_bundle_id g)"

definition grants_persisted :: "grant_env \<Rightarrow> grant_store \<Rightarrow> bool" where
  "grants_persisted V s \<longleftrightarrow>
     distinct (map gf_name (gs_files s)) \<and> ascending (map fst (gs_grants s))
     \<and> (\<forall>f \<in> set (gs_files s). file_extension (gf_name f) = Some ''json'' \<longrightarrow>
          (\<exists>g. file_holds V f g \<and> map_of (gs_grants s) (bg_bundle_id g) = Some g))
     \<and> (\<forall>b g. map_of (gs_grants s) b = Some g \<longrightarrow>
          bg_bundle_id g = b \<and> (\<exists>f \<in> set (gs_files s). file_holds V f g))"

lemma grant_file_name_inj [simp]: "grant_file_name a = grant_file_name b \<longleftrightarrow> a = b"
  by (simp add: grant_file_name_def)

lemma valid_grant_bundle_id: "validate_grant V g = Inr u \<Longrightarrow> bundle_id_new (bg_bundle_id g) = Inr (bg_bundle_id g)"
proof -
  assume "validate_grant V g = Inr u"
  then have "map_sum (\<lambda>e. ''invalid Bundle grant id: '' @ error_display (gv_manifest V) e) (\<lambda>_. ())
      (bundle_id_new (bg_bundle_id g)) = Inr ()"
    unfolding validate_grant_def all_ok_eq_Inr list.set ball_simps by simp
  then show ?thesis
    by (cases "bundle_id_new (bg_bundle_id g)") (auto simp: bundle_id_new_def text_simps)
qed

lemma valid_bundle_id_nonempty: "bundle_id_new b = Inr b' \<Longrightarrow> b \<noteq> []"
  by (auto simp: bundle_id_new_def validate_kebab_id_def text_simps result_simps)

lemma grant_file_extension: "b \<noteq> [] \<Longrightarrow> file_extension (grant_file_name b) = Some ''json''"
proof -
  assume "b \<noteq> []"
  moreover have "rsplit_once (CHR ''.'') (grant_file_name b) = Some (b, ''json'')"
    by (simp add: rsplit_once_eq_Some grant_file_name_def)
  ultimately show ?thesis by (simp add: file_extension_def)
qed

lemma file_holds_json: "file_holds V f g \<Longrightarrow> file_extension (gf_name f) = Some ''json''"
  using grant_file_extension valid_bundle_id_nonempty [OF valid_grant_bundle_id]
  by (auto simp: file_holds_def)

lemma file_holds_unique: "file_holds V f g \<Longrightarrow> file_holds V f g' \<Longrightarrow> g = g'"
  by (auto simp: file_holds_def)

declare map_of_eq_Some_iff [simp del]

text \<open>Opening a directory reads every grant file into an ordered map, or fails.\<close>

lemma open_entries_step:
  assumes "file_extension (gf_name f) = Some ''json''"
  shows "open_entries V (f # fs) acc = Inr m \<longleftrightarrow>
    (\<exists>g. file_holds V f g \<and> map_of acc (bg_bundle_id g) = None
       \<and> open_entries V fs (bm_insert (bg_bundle_id g) g acc) = Inr m)"
proof -
  have e: "map_sum h (\<lambda>g. g) r = Inr g \<longleftrightarrow> r = Inr g" for h :: "string \<Rightarrow> string" and r and g :: bundle_permission_grant
    by (cases r) auto
  show ?thesis using assms by (auto simp: result_simps file_holds_def e)
qed

lemma open_entries_sound:
  assumes "open_entries V fs acc = Inr m" "ascending (map fst acc)"
  shows "ascending (map fst m) \<and> map_of acc \<subseteq>\<^sub>m map_of m
    \<and> (\<forall>f \<in> set fs. file_extension (gf_name f) = Some ''json'' \<longrightarrow>
         (\<exists>g. file_holds V f g \<and> map_of m (bg_bundle_id g) = Some g))
    \<and> (\<forall>b g. map_of m b = Some g \<longrightarrow>
         map_of acc b = Some g \<or> bg_bundle_id g = b \<and> (\<exists>f \<in> set fs. file_holds V f g))"
  using assms
proof (induction fs arbitrary: acc)
  case Nil
  then show ?case by simp
next
  case (Cons f fs)
  show ?case
  proof (cases "file_extension (gf_name f) = Some ''json''")
    case False
    with Cons show ?thesis by auto
  next
    case True
    from Cons.prems(1) [unfolded open_entries_step [OF True]] obtain g where
      f: "file_holds V f g" "map_of acc (bg_bundle_id g) = None"
      and r: "open_entries V fs (bm_insert (bg_bundle_id g) g acc) = Inr m" by blast
    have a: "ascending (map fst (bm_insert (bg_bundle_id g) g acc))"
      using Cons.prems(2) by (simp add: keys_bm_insert)
    from Cons.IH [OF r a] f have
      le: "(map_of acc)(bg_bundle_id g \<mapsto> g) \<subseteq>\<^sub>m map_of m" "ascending (map fst m)"
      and fs: "\<forall>f \<in> set fs. file_extension (gf_name f) = Some ''json'' \<longrightarrow>
         (\<exists>g. file_holds V f g \<and> map_of m (bg_bundle_id g) = Some g)"
      and origin: "\<forall>b h. map_of m b = Some h \<longrightarrow> ((map_of acc)(bg_bundle_id g \<mapsto> g)) b = Some h
         \<or> bg_bundle_id h = b \<and> (\<exists>f \<in> set fs. file_holds V f h)" by (simp_all add: fun_upd_def)
    from le(1) f(2) have "map_of acc \<subseteq>\<^sub>m map_of m" and g: "map_of m (bg_bundle_id g) = Some g"
      by (auto simp: map_le_def dom_def)
    moreover have "map_of acc b = Some h \<or> bg_bundle_id h = b \<and> (\<exists>f \<in> set (f # fs). file_holds V f h)"
      if "map_of m b = Some h" for b h
    proof (cases "b = bg_bundle_id g")
      case True
      with that g f(1) show ?thesis by simp
    next
      case False
      with origin [rule_format, OF that] show ?thesis by auto
    qed
    ultimately show ?thesis using le(2) fs f(1) by auto
  qed
qed

lemma open_entries_complete:
  assumes "distinct (map gf_name fs)"
    and "\<And>f. f \<in> set fs \<Longrightarrow> file_extension (gf_name f) = Some ''json'' \<Longrightarrow>
      \<exists>g. file_holds V f g \<and> map_of acc (bg_bundle_id g) = None"
  shows "\<exists>m. open_entries V fs acc = Inr m"
  using assms
proof (induction fs arbitrary: acc)
  case Nil
  then show ?case by simp
next
  case (Cons f fs)
  show ?case
  proof (cases "file_extension (gf_name f) = Some ''json''")
    case False
    with Cons show ?thesis by auto
  next
    case True
    from Cons.prems(2) [of f] True obtain g where f: "file_holds V f g" "map_of acc (bg_bundle_id g) = None" by auto
    have "\<exists>g'. file_holds V f' g' \<and> map_of (bm_insert (bg_bundle_id g) g acc) (bg_bundle_id g') = None"
      if "f' \<in> set fs" "file_extension (gf_name f') = Some ''json''" for f'
    proof -
      from Cons.prems(2) [of f'] that obtain g' where
        f': "file_holds V f' g'" "map_of acc (bg_bundle_id g') = None" by auto
      from that(1) Cons.prems(1) have "gf_name f' \<in> gf_name ` set fs" "gf_name f \<notin> gf_name ` set fs" by simp_all
      then have "gf_name f' \<noteq> gf_name f" by metis
      with f' f(1) have "bg_bundle_id g' \<noteq> bg_bundle_id g" by (auto simp: file_holds_def)
      with f' show ?thesis by auto
    qed
    with Cons.IH [of "bm_insert (bg_bundle_id g) g acc"] Cons.prems(1) obtain m where
      "open_entries V fs (bm_insert (bg_bundle_id g) g acc) = Inr m" by auto
    with f open_entries_step [OF True] show ?thesis by blast
  qed
qed

lemma ascending_map_eqI:
  assumes "ascending (map fst m)" "ascending (map fst m')" "map_of m = map_of m'"
  shows "m = (m' :: (string \<times> 'a) list)"
proof -
  have d: "distinct (map fst m)" "distinct (map fst m')" "sorted (map fst m)" "sorted (map fst m')"
    using assms(1,2) by (simp_all add: strict_sorted_iff)
  have "set m = set m'"
    using d(1,2) assms(3) by (auto simp: set_eq_iff) (metis map_of_eq_Some_iff)+
  moreover have "inj_on fst (set m \<union> set m')"
    using d(1) \<open>set m = set m'\<close> by (simp add: distinct_map)
  ultimately show ?thesis using d by (intro map_sorted_distinct_set_unique [of fst]) simp_all
qed

lemma opened_is_persisted:
  assumes "open_grants V files = Inr s" "distinct (map gf_name files)"
  shows "grants_persisted V s"
proof -
  from assms(1) obtain m where m: "open_entries V files [] = Inr m" "s = \<lparr>gs_files = files, gs_grants = m\<rparr>"
    by (cases "open_entries V files []") (auto simp: open_grants_def)
  from open_entries_sound [OF m(1)] assms(2) m(2) show ?thesis
    by (simp add: grants_persisted_def)
qed

text \<open>A store that agrees with its directory is what opening the directory gives, in any order.\<close>

lemma persisted_reopens:
  assumes ok: "grants_persisted V s" and files: "set files = set (gs_files s)" "distinct (map gf_name files)"
  shows "open_grants V files = Inr (s\<lparr>gs_files := files\<rparr>)"
proof -
  have h: "\<exists>g. file_holds V f g \<and> map_of (gs_grants s) (bg_bundle_id g) = Some g"
    if "f \<in> set files" "file_extension (gf_name f) = Some ''json''" for f
    using ok that files(1) unfolding grants_persisted_def by blast
  then obtain m where m: "open_entries V files [] = Inr m"
    using open_entries_complete [OF files(2), of V "[]"] by (auto simp: )
  from open_entries_sound [OF m] have sorted: "ascending (map fst m)"
    and in_map: "\<forall>f \<in> set files. file_extension (gf_name f) = Some ''json'' \<longrightarrow>
         (\<exists>g. file_holds V f g \<and> map_of m (bg_bundle_id g) = Some g)"
    and from_file: "\<forall>b g. map_of m b = Some g \<longrightarrow> bg_bundle_id g = b \<and> (\<exists>f \<in> set files. file_holds V f g)"
    by simp_all
  have "map_of m b = map_of (gs_grants s) b" for b
  proof -
    have "map_of m b = Some g \<longleftrightarrow> bg_bundle_id g = b \<and> (\<exists>f \<in> set files. file_holds V f g)" for g
    proof
      assume "map_of m b = Some g"
      with from_file show "bg_bundle_id g = b \<and> (\<exists>f \<in> set files. file_holds V f g)" by blast
    next
      assume "bg_bundle_id g = b \<and> (\<exists>f \<in> set files. file_holds V f g)"
      then obtain f where f: "bg_bundle_id g = b" "f \<in> set files" "file_holds V f g" by blast
      with in_map file_holds_json [OF f(3)] obtain g' where
        g': "file_holds V f g'" "map_of m (bg_bundle_id g') = Some g'" by blast
      from file_holds_unique [OF g'(1) f(3)] g'(2) f(1) show "map_of m b = Some g" by simp
    qed
    moreover have "map_of (gs_grants s) b = Some g \<longleftrightarrow> bg_bundle_id g = b \<and> (\<exists>f \<in> set files. file_holds V f g)" for g
    proof
      assume "map_of (gs_grants s) b = Some g"
      with ok files(1) show "bg_bundle_id g = b \<and> (\<exists>f \<in> set files. file_holds V f g)"
        by (auto simp: grants_persisted_def)
    next
      assume "bg_bundle_id g = b \<and> (\<exists>f \<in> set files. file_holds V f g)"
      then obtain f where f: "bg_bundle_id g = b" "f \<in> set files" "file_holds V f g" by blast
      from h [OF f(2) file_holds_json [OF f(3)]] obtain g' where
        g': "file_holds V f g'" "map_of (gs_grants s) (bg_bundle_id g') = Some g'" by blast
      from file_holds_unique [OF g'(1) f(3)] g'(2) f(1) show "map_of (gs_grants s) b = Some g" by simp
    qed
    ultimately show ?thesis by (metis not_None_eq)
  qed
  then have "m = gs_grants s"
    using sorted ok by (intro ascending_map_eqI) (auto simp: grants_persisted_def)
  with m show ?thesis by (simp add: open_grants_def)
qed

section \<open>Granting and revoking\<close>

lemma put_persists:
  assumes ok: "grants_persisted V s" and codec: "grant_codec_ok V" and io: "\<forall>e. io \<noteq> FilesUnsynced e"
  shows "grants_persisted V (snd (grants_put V io g s))"
proof (cases "\<exists>encoded. validate_grant V g = Inr () \<and> gv_encode V g = Inr encoded \<and> io = FilesDone")
  case False
  with ok io show ?thesis
    by (cases io) (auto simp: grants_put_def Let_def split: sum.split)
next
  case True
  then obtain encoded where v: "validate_grant V g = Inr ()" "gv_encode V g = Inr encoded" "io = FilesDone" by blast
  define name where "name = grant_file_name (bg_bundle_id g)"
  define f where "f = \<lparr>gf_name = name, gf_regular = True, gf_bytes = encoded @ [CHR 0x0A]\<rparr>"
  define s' where "s' = s\<lparr>gs_files := without_file name (gs_files s) @ [f],
    gs_grants := bm_insert (bg_bundle_id g) g (gs_grants s)\<rparr>"
  have s': "snd (grants_put V io g s) = s'"
    using v by (simp add: grants_put_def Let_def s'_def f_def name_def)
  have f: "file_holds V f g"
    using codec v by (simp add: file_holds_def f_def name_def grant_codec_ok_def)
  have other: "bg_bundle_id h \<noteq> bg_bundle_id g" if "file_holds V f' h" "gf_name f' \<noteq> name" for f' h
    using that by (auto simp: file_holds_def name_def)
  have "distinct (map gf_name (gs_files s'))"
    using ok by (auto simp: s'_def grants_persisted_def without_file_def f_def distinct_map_filter)
  moreover have "ascending (map fst (gs_grants s'))"
    using ok by (simp add: s'_def grants_persisted_def keys_bm_insert)
  moreover have "\<exists>h. file_holds V f' h \<and> map_of (gs_grants s') (bg_bundle_id h) = Some h"
    if "f' \<in> set (gs_files s')" "file_extension (gf_name f') = Some ''json''" for f'
  proof (cases "f' = f")
    case True
    with f show ?thesis by (auto simp: s'_def)
  next
    case False
    with that have "f' \<in> set (gs_files s)" "gf_name f' \<noteq> name" by (auto simp: s'_def without_file_def)
    with ok that(2) obtain h where "file_holds V f' h" "map_of (gs_grants s) (bg_bundle_id h) = Some h"
      unfolding grants_persisted_def by blast
    with other [OF this(1) \<open>gf_name f' \<noteq> name\<close>] show ?thesis by (auto simp: s'_def)
  qed
  moreover have "bg_bundle_id h = b \<and> (\<exists>f' \<in> set (gs_files s'). file_holds V f' h)"
    if "map_of (gs_grants s') b = Some h" for b h
  proof (cases "b = bg_bundle_id g")
    case True
    with that f show ?thesis by (auto simp: s'_def)
  next
    case False
    with that have "map_of (gs_grants s) b = Some h" by (simp add: s'_def)
    with ok obtain f' where f': "bg_bundle_id h = b" "f' \<in> set (gs_files s)" "file_holds V f' h"
      unfolding grants_persisted_def by blast
    with False have "gf_name f' \<noteq> name" by (auto simp: file_holds_def name_def)
    with f' show ?thesis by (auto simp: s'_def without_file_def)
  qed
  ultimately show ?thesis unfolding s' grants_persisted_def by blast
qed

lemma map_of_without: "map_of (filter (\<lambda>(c, _). c \<noteq> b) m) c = (if c = b then None else map_of m c)"
  by (induction m) auto

lemma ascending_without: "ascending (map fst m) \<Longrightarrow> ascending (map fst (filter P m))"
  by (induction m) auto

lemma revoke_persists:
  assumes ok: "grants_persisted V s" and io: "\<forall>e. io \<noteq> FilesUnsynced e"
  shows "grants_persisted V (snd (grants_revoke V io b s))"
proof (cases "snd (grants_revoke V io b s) = s")
  case True
  with ok show ?thesis by simp
next
  case False
  define s' where "s' = s\<lparr>gs_files := without_file (grant_file_name b) (gs_files s),
    gs_grants := filter (\<lambda>(c, _). c \<noteq> b) (gs_grants s)\<rparr>"
  from False io have s': "snd (grants_revoke V io b s) = s'"
    by (cases io) (auto simp: grants_revoke_def Let_def s'_def split: sum.splits if_splits)
  have m: "map_of (gs_grants s') c = (if c = b then None else map_of (gs_grants s) c)" for c
    by (simp add: s'_def map_of_without)
  have files: "f \<in> set (gs_files s') \<longleftrightarrow> f \<in> set (gs_files s) \<and> gf_name f \<noteq> grant_file_name b" for f
    by (auto simp: s'_def without_file_def)
  have name: "gf_name f = grant_file_name (bg_bundle_id g)" if "file_holds V f g" for f g
    using that by (simp add: file_holds_def)
  have "distinct (map gf_name (gs_files s'))" "ascending (map fst (gs_grants s'))"
    using ok by (auto simp: s'_def grants_persisted_def without_file_def distinct_map_filter ascending_without)
  moreover have "\<exists>h. file_holds V f h \<and> map_of (gs_grants s') (bg_bundle_id h) = Some h"
    if "f \<in> set (gs_files s')" "file_extension (gf_name f) = Some ''json''" for f
  proof -
    from that ok obtain h where "file_holds V f h" "map_of (gs_grants s) (bg_bundle_id h) = Some h"
      unfolding grants_persisted_def files by blast
    with that(1) name [OF this(1)] show ?thesis by (auto simp: m files)
  qed
  moreover have "bg_bundle_id h = c \<and> (\<exists>f \<in> set (gs_files s'). file_holds V f h)"
    if "map_of (gs_grants s') c = Some h" for c h
  proof -
    from that have c: "c \<noteq> b" "map_of (gs_grants s) c = Some h" by (auto simp: m split: if_splits)
    with ok obtain f where f: "bg_bundle_id h = c" "f \<in> set (gs_files s)" "file_holds V f h"
      unfolding grants_persisted_def by blast
    with c(1) name [OF f(3)] have "f \<in> set (gs_files s')" by (simp add: files)
    with f show ?thesis by blast
  qed
  ultimately show ?thesis unfolding s' grants_persisted_def by blast
qed

text \<open>A run of the store: grants and revocations whose file operations ended or did not begin.\<close>

datatype grant_event = PutGrant file_outcome bundle_permission_grant | RevokeGrant file_outcome string

fun grant_step :: "grant_env \<Rightarrow> grant_store \<Rightarrow> grant_event \<Rightarrow> grant_store" where
  "grant_step V s (PutGrant io g) = snd (grants_put V io g s)"
| "grant_step V s (RevokeGrant io b) = snd (grants_revoke V io b s)"

fun synced :: "grant_event \<Rightarrow> bool" where
  "synced (PutGrant io g) = (case io of FilesUnsynced _ \<Rightarrow> False | _ \<Rightarrow> True)"
| "synced (RevokeGrant io b) = (case io of FilesUnsynced _ \<Rightarrow> False | _ \<Rightarrow> True)"

lemma grant_run_persists:
  assumes "grants_persisted V s" "grant_codec_ok V" "list_all synced events"
  shows "grants_persisted V (foldl (grant_step V) s events)"
  using assms
proof (induction events arbitrary: s)
  case (Cons e events)
  have "grants_persisted V (grant_step V s e)"
    using Cons.prems put_persists revoke_persists by (cases e) (auto split: file_outcome.splits)
  with Cons show ?case by simp
qed simp

text \<open>
  (C36) Grants survive a restart: after any sequence of grants and revocations whose file operations
  succeeded or failed before touching the directory, opening the grant directory again, whatever order it
  lists its files in, gives the same grants as the store held in memory.
\<close>

theorem grants_survive_restart:
  assumes "open_grants V files = Inr s" and "distinct (map gf_name files)" and "grant_codec_ok V"
    and "list_all synced events" and "s' = foldl (grant_step V) s events"
    and "set files' = set (gs_files s')" and "distinct (map gf_name files')"
  shows "\<exists>s''. open_grants V files' = Inr s'' \<and> (\<forall>bundle. grants_get s'' bundle = grants_get s' bundle)"
  using persisted_reopens [OF grant_run_persists [OF opened_is_persisted [OF assms(1,2)] assms(3,4)], of files'] assms(5-7)
  by (simp add: grants_get_def)

definition sample_grant :: bundle_permission_grant where
  "sample_grant =
     \<lparr>bg_format_version = 1, bg_grant_revision = ''r1'', bg_bundle_id = ''server-administrator'',
      bg_package_manifest_sha256 = replicate 64 (CHR ''a''),
      bg_permissions = [\<lparr>gp_id = ''telemetry-read'', gp_kind = Database, gp_description = ''Read telemetry'',
                         gp_resources = [''postgres:table:host_stats'']\<rparr>],
      bg_granted_at_ms = 5\<rparr>"

definition sample_grant_env :: grant_env where
  "sample_grant_env =
     \<lparr>gv_manifest = \<lparr>to_vec = (\<lambda>_. Inr []), debug_str = debug_id\<rparr>,
      gv_uuid_ok = (\<lambda>s. s = ''r1''),
      gv_decode = (\<lambda>s. if s = ''grant'' @ [CHR 0x0A] then Inr sample_grant else Inl ''bad''),
      gv_encode = (\<lambda>g. if g = sample_grant then Inr ''grant'' else Inl ''unknown''),
      gv_debug_path = debug_id\<rparr>"

lemma sample_grant_codec: "grant_codec_ok sample_grant_env"
  by (simp add: grant_codec_ok_def sample_grant_env_def)

theorem grants_survive_restart_witness:
  "\<exists>s s''. s = foldl (grant_step sample_grant_env) \<lparr>gs_files = [], gs_grants = []\<rparr> [PutGrant FilesDone sample_grant]
     \<and> open_grants sample_grant_env (gs_files s) = Inr s''
     \<and> grants_get s'' ''server-administrator'' = Some sample_grant"
proof -
  define s where "s = foldl (grant_step sample_grant_env) \<lparr>gs_files = [], gs_grants = []\<rparr> [PutGrant FilesDone sample_grant]"
  have "validate_grant sample_grant_env sample_grant = Inr ()" by code_simp
  then have g: "grants_get s ''server-administrator'' = Some sample_grant" and n: "distinct (map gf_name (gs_files s))"
    by (simp_all add: s_def grants_put_def Let_def sample_grant_env_def grants_get_def without_file_def)
       (simp add: sample_grant_def)
  from grants_survive_restart [of sample_grant_env "[]" "\<lparr>gs_files = [], gs_grants = []\<rparr>"
      "[PutGrant FilesDone sample_grant]" s "gs_files s"] sample_grant_codec g n
  show ?thesis unfolding s_def by (auto simp: open_grants_def)
qed

text \<open>
  When the directory could not be synced the call fails although the file is in place: the grant that was
  reported as not persisted is in force after a restart.
\<close>

lemma unsynced_put_takes_effect_on_restart:
  assumes "grants_persisted V s" "grant_codec_ok V" "validate_grant V g = Inr ()" "gv_encode V g = Inr encoded"
  shows "\<exists>e s' s''. grants_put V (FilesUnsynced e) g s = (Inl (''cannot persist Bundle grant: '' @ e), s')
    \<and> grants_get s' = grants_get s
    \<and> open_grants V (gs_files s') = Inr s'' \<and> grants_get s'' (bg_bundle_id g) = Some g"
proof -
  let ?done = "snd (grants_put V FilesDone g s)"
  let ?s' = "snd (grants_put V (FilesUnsynced []) g s)"
  have p: "grants_persisted V ?done" using put_persists [OF assms(1,2)] by simp
  have files: "gs_files ?s' = gs_files ?done" using assms(3,4) by (simp add: grants_put_def Let_def)
  from p have "distinct (map gf_name (gs_files ?done))" by (simp add: grants_persisted_def)
  with persisted_reopens [OF p refl] files have "open_grants V (gs_files ?s') = Inr ?done" by simp
  moreover have "grants_get ?done (bg_bundle_id g) = Some g"
    using assms(3,4) by (simp add: grants_put_def Let_def grants_get_def)
  moreover have "grants_put V (FilesUnsynced []) g s = (Inl (''cannot persist Bundle grant: '' @ []), ?s')"
    "grants_get ?s' = grants_get s"
    using assms(3,4) by (simp_all add: grants_put_def Let_def grants_get_def fun_eq_iff)
  ultimately show ?thesis by blast
qed

declare map_of_eq_Some_iff [simp]

end
