(* ===== verification/Intelligence_Contract.thy ===== *)
theory Intelligence_Contract
  imports Sdk_Checks Json_Value
begin

text \<open>
  The intelligence contract of \<open>crates/gadgetron-bundle-sdk/src/intelligence.rs\<close>: a Bundle drafts a query
  or an outcome, Core binds it to the tenant, actor and Spaces it authenticated, and an answer is accepted
  only for the query it answers.  The sizes of serialised values come from \<open>serde_json\<close>, which is not part
  of the repository: they are the fields of \<open>intelligence_wire\<close>.
\<close>

abbreviation MAX_INTELLIGENCE_ID :: int where "MAX_INTELLIGENCE_ID \<equiv> 256"
abbreviation MAX_INTELLIGENCE_TEXT :: int where "MAX_INTELLIGENCE_TEXT \<equiv> 2048"
abbreviation MAX_PASSAGE :: int where "MAX_PASSAGE \<equiv> 32768"
abbreviation MAX_JSON_BYTES :: int where "MAX_JSON_BYTES \<equiv> 1048576"
abbreviation MAX_SPACES :: int where "MAX_SPACES \<equiv> 128"
abbreviation MAX_CITATIONS :: int where "MAX_CITATIONS \<equiv> 256"
abbreviation MAX_GAPS :: int where "MAX_GAPS \<equiv> 128"

section \<open>Authority, subject and budget\<close>

record intelligence_authority =
  ia_tenant_id :: string
  ia_actor_id :: string
  ia_allowed_space_ids :: "string list"

fun validate_allowed_spaces :: "string \<Rightarrow> nat \<Rightarrow> string option \<Rightarrow> string list \<Rightarrow> protocol_check" where
  "validate_allowed_spaces field i previous [] = Inr ()"
| "validate_allowed_spaces field i previous (space # spaces) =
     and_then (protocol_nonempty (idx (field @ ''.allowed_space_ids'') i) space MAX_INTELLIGENCE_ID) (\<lambda>_.
       if (case previous of None \<Rightarrow> False | Some p \<Rightarrow> p \<ge> space)
       then Inl (InvalidProtocol (field @ ''.allowed_space_ids'')
              ''must be strictly sorted and unique for canonical authorization binding'')
       else validate_allowed_spaces field (Suc i) (Some space) spaces)"

definition validate_authority :: "string \<Rightarrow> intelligence_authority \<Rightarrow> protocol_check" where
  "validate_authority field a =
     all_ok
      [protocol_nonempty (field @ ''.tenant_id'') (ia_tenant_id a) MAX_INTELLIGENCE_ID,
       protocol_nonempty (field @ ''.actor_id'') (ia_actor_id a) MAX_INTELLIGENCE_ID,
       check (\<not> (ia_allowed_space_ids a = [] \<or> len (ia_allowed_space_ids a) > MAX_SPACES))
        (InvalidProtocol (field @ ''.allowed_space_ids'')
          (''must contain 1-'' @ show_int MAX_SPACES @ '' authorized Space ids'')),
       validate_allowed_spaces field 0 None (ia_allowed_space_ids a)]"

definition intelligence_authority_new ::
  "string \<Rightarrow> string \<Rightarrow> string list \<Rightarrow> (bundle_sdk_error, intelligence_authority) result" where
  "intelligence_authority_new tenant_id actor_id allowed_space_ids =
     (let a = \<lparr>ia_tenant_id = tenant_id, ia_actor_id = actor_id, ia_allowed_space_ids = allowed_space_ids\<rparr>
      in and_then (validate_authority ''intelligence_authority'' a) (\<lambda>_. Inr a))"

record subject_revision_ref =
  su_owner_bundle :: string
  su_kind :: string
  su_stable_id :: string
  su_revision :: string

definition validate_subject :: "string \<Rightarrow> subject_revision_ref \<Rightarrow> protocol_check" where
  "validate_subject field s =
     all_ok
      [protocol_nonempty (field @ ''.stable_id'') (su_stable_id s) MAX_INTELLIGENCE_ID,
       protocol_nonempty (field @ ''.revision'') (su_revision s) MAX_INTELLIGENCE_ID]"

definition subject_revision_new ::
  "string \<Rightarrow> string \<Rightarrow> string \<Rightarrow> string \<Rightarrow> (bundle_sdk_error, subject_revision_ref) result" where
  "subject_revision_new owner_bundle kind stable_id revision =
     (let s = \<lparr>su_owner_bundle = owner_bundle, su_kind = kind, su_stable_id = stable_id, su_revision = revision\<rparr>
      in and_then (validate_subject ''subject_revision'' s) (\<lambda>_. Inr s))"

record intelligence_budget =
  ib_max_sources :: u32
  ib_max_items :: u32
  ib_max_bytes :: u64
  ib_max_tokens :: u64
  ib_timeout_seconds :: u32

definition budget_limits :: "intelligence_budget \<Rightarrow> (string \<times> int \<times> int) list" where
  "budget_limits b =
     [(''max_sources'', uint (ib_max_sources b), 1000),
      (''max_items'', uint (ib_max_items b), 10000),
      (''max_bytes'', uint (ib_max_bytes b), 1073741824),
      (''max_tokens'', uint (ib_max_tokens b), 10000000),
      (''timeout_seconds'', uint (ib_timeout_seconds b), 86400)]"

definition validate_budget :: "string \<Rightarrow> intelligence_budget \<Rightarrow> protocol_check" where
  "validate_budget field b =
     try_each (\<lambda>(name, v, maximum).
       check (\<not> (v = 0 \<or> v > maximum))
        (InvalidProtocol (field @ ''.'' @ name)
          (''must contain a non-zero value no greater than '' @ show_int maximum))) (budget_limits b)"

definition intelligence_budget_new ::
  "u32 \<Rightarrow> u32 \<Rightarrow> u64 \<Rightarrow> u64 \<Rightarrow> u32 \<Rightarrow> (bundle_sdk_error, intelligence_budget) result" where
  "intelligence_budget_new max_sources max_items max_bytes max_tokens timeout_seconds =
     (let b = \<lparr>ib_max_sources = max_sources, ib_max_items = max_items, ib_max_bytes = max_bytes,
               ib_max_tokens = max_tokens, ib_timeout_seconds = timeout_seconds\<rparr>
      in and_then (validate_budget ''intelligence_budget'' b) (\<lambda>_. Inr b))"

section \<open>Queries\<close>

record intelligence_query_draft =
  qd_query_id :: string
  qd_subject :: subject_revision_ref
  qd_question :: string
  qd_max_freshness_seconds :: u64
  qd_budget :: intelligence_budget

record intelligence_query =
  iq_query_id :: string
  iq_authority :: intelligence_authority
  iq_subject :: subject_revision_ref
  iq_question :: string
  iq_max_freshness_seconds :: u64
  iq_budget :: intelligence_budget

definition validate_query_draft :: "intelligence_query_draft \<Rightarrow> protocol_check" where
  "validate_query_draft d =
     all_ok
      [protocol_nonempty ''intelligence_query_draft.query_id'' (qd_query_id d) MAX_INTELLIGENCE_ID,
       validate_subject ''intelligence_query_draft.subject'' (qd_subject d),
       protocol_nonempty ''intelligence_query_draft.question'' (qd_question d) MAX_INTELLIGENCE_TEXT,
       check (qd_max_freshness_seconds d \<noteq> 0)
        (InvalidProtocol ''intelligence_query_draft.max_freshness_seconds'' ''must be non-zero''),
       validate_budget ''intelligence_query_draft.budget'' (qd_budget d)]"

definition query_draft_new ::
  "string \<Rightarrow> subject_revision_ref \<Rightarrow> string \<Rightarrow> u64 \<Rightarrow> intelligence_budget
   \<Rightarrow> (bundle_sdk_error, intelligence_query_draft) result" where
  "query_draft_new query_id subject question max_freshness_seconds budget =
     (let d = \<lparr>qd_query_id = query_id, qd_subject = subject, qd_question = question,
               qd_max_freshness_seconds = max_freshness_seconds, qd_budget = budget\<rparr>
      in and_then (validate_query_draft d) (\<lambda>_. Inr d))"

definition validate_query :: "intelligence_query \<Rightarrow> protocol_check" where
  "validate_query q =
     all_ok
      [protocol_nonempty ''intelligence_query.query_id'' (iq_query_id q) MAX_INTELLIGENCE_ID,
       validate_authority ''intelligence_query.authority'' (iq_authority q),
       validate_subject ''intelligence_query.subject'' (iq_subject q),
       protocol_nonempty ''intelligence_query.question'' (iq_question q) MAX_INTELLIGENCE_TEXT,
       check (iq_max_freshness_seconds q \<noteq> 0)
        (InvalidProtocol ''intelligence_query.max_freshness_seconds'' ''must be non-zero''),
       validate_budget ''intelligence_query.budget'' (iq_budget q)]"

definition bind_query ::
  "intelligence_query_draft \<Rightarrow> intelligence_authority \<Rightarrow> (bundle_sdk_error, intelligence_query) result" where
  "bind_query d authority =
     (let q = \<lparr>iq_query_id = qd_query_id d, iq_authority = authority, iq_subject = qd_subject d,
               iq_question = qd_question d, iq_max_freshness_seconds = qd_max_freshness_seconds d,
               iq_budget = qd_budget d\<rparr>
      in and_then (validate_query q) (\<lambda>_. Inr q))"

section \<open>Cited context packs\<close>

datatype context_coverage = Complete | Partial | CoverageUnavailable

datatype citation_role = Supporting | Contradicting | CitationContext

record knowledge_citation =
  kc_citation_id :: string
  kc_space_id :: string
  kc_owner_bundle :: string
  kc_source_id :: string
  kc_source_revision :: string
  kc_passage :: string
  kc_role :: citation_role
  kc_applicability :: string
  kc_freshness_seconds :: u64
  kc_content_sha256 :: "string option"

record knowledge_context_pack =
  kp_query_id :: string
  kp_authority :: intelligence_authority
  kp_subject :: subject_revision_ref
  kp_context_revision :: string
  kp_coverage :: context_coverage
  kp_citations :: "knowledge_citation list"
  kp_gaps :: "string list"

record intelligence_wire =
  pack_size :: "knowledge_context_pack \<Rightarrow> (string, int) result"
  json_size :: "json \<Rightarrow> (string, int) result"

definition validate_citation :: "string \<Rightarrow> string list \<Rightarrow> knowledge_citation \<Rightarrow> protocol_check" where
  "validate_citation field allowed_spaces c =
     all_ok
      [protocol_nonempty (field @ ''.citation_id'') (kc_citation_id c) MAX_INTELLIGENCE_ID,
       protocol_nonempty (field @ ''.space_id'') (kc_space_id c) MAX_INTELLIGENCE_ID,
       check (kc_space_id c \<in> set allowed_spaces)
        (InvalidProtocol (field @ ''.space_id'')
          ''citation Space is outside the query authorization binding''),
       protocol_nonempty (field @ ''.source_id'') (kc_source_id c) MAX_INTELLIGENCE_ID,
       protocol_nonempty (field @ ''.source_revision'') (kc_source_revision c) MAX_INTELLIGENCE_ID,
       bounded_multiline (field @ ''.passage'') (kc_passage c) MAX_PASSAGE,
       protocol_nonempty (field @ ''.applicability'') (kc_applicability c) MAX_INTELLIGENCE_TEXT,
       when_some (kc_content_sha256 c) (protocol_sha256 (field @ ''.content_sha256''))]"

definition validate_coverage :: "knowledge_context_pack \<Rightarrow> protocol_check" where
  "validate_coverage p =
     (case kp_coverage p of
        Complete \<Rightarrow>
          check (kp_citations p \<noteq> []) (InvalidProtocol ''knowledge_context.coverage''
            ''complete coverage requires at least one cited source'')
      | Partial \<Rightarrow>
          check (\<not> (kp_citations p = [] \<or> kp_gaps p = [])) (InvalidProtocol ''knowledge_context.coverage''
            ''partial coverage requires citations and explicit gaps'')
      | CoverageUnavailable \<Rightarrow>
          check (\<not> (kp_citations p \<noteq> [] \<or> kp_gaps p = [])) (InvalidProtocol ''knowledge_context.coverage''
            ''unavailable coverage requires no citations and at least one explicit gap''))"

definition validate_for_query ::
  "intelligence_wire \<Rightarrow> intelligence_query \<Rightarrow> knowledge_context_pack \<Rightarrow> protocol_check" where
  "validate_for_query W q p =
     all_ok
      [validate_query q,
       protocol_nonempty ''knowledge_context.query_id'' (kp_query_id p) MAX_INTELLIGENCE_ID,
       validate_authority ''knowledge_context.authority'' (kp_authority p),
       validate_subject ''knowledge_context.subject'' (kp_subject p),
       protocol_nonempty ''knowledge_context.context_revision'' (kp_context_revision p) MAX_INTELLIGENCE_ID,
       check (\<not> (kp_query_id p \<noteq> iq_query_id q \<or> kp_authority p \<noteq> iq_authority q
           \<or> kp_subject p \<noteq> iq_subject q))
        (InvalidProtocol ''knowledge_context.binding''
          ''query id, authority and subject revision must exactly match the IntelligenceQuery''),
       check (\<not> (len (kp_citations p) > MAX_CITATIONS \<or> len (kp_gaps p) > MAX_GAPS))
        (InvalidProtocol ''knowledge_context''
          (''exceeds '' @ show_int MAX_CITATIONS @ '' citations or '' @ show_int MAX_GAPS @ '' gaps'')),
       try_unique
        (\<lambda>i. validate_citation (idx ''knowledge_context.citations'' i) (ia_allowed_space_ids (iq_authority q)))
        kc_citation_id
        (\<lambda>_ _. InvalidProtocol ''knowledge_context.citations'' ''citation ids must be unique'')
        (\<lambda>_ _. Inr ()) (kp_citations p),
       try_indexed (\<lambda>i gap. protocol_nonempty (idx ''knowledge_context.gaps'' i) gap MAX_INTELLIGENCE_TEXT) (kp_gaps p),
       validate_size (min (uint (ib_max_bytes (iq_budget q))) MAX_JSON_BYTES) ''knowledge_context''
        (\<lambda>limit. ''exceeds the '' @ show_int limit @ ''-byte query response budget'') (pack_size W p) (\<lambda>e. e),
       validate_coverage p]"

definition context_pack_new ::
  "intelligence_wire \<Rightarrow> intelligence_query \<Rightarrow> string \<Rightarrow> context_coverage \<Rightarrow> knowledge_citation list \<Rightarrow> string list
   \<Rightarrow> (bundle_sdk_error, knowledge_context_pack) result" where
  "context_pack_new W q context_revision coverage citations gaps =
     (let p = \<lparr>kp_query_id = iq_query_id q, kp_authority = iq_authority q, kp_subject = iq_subject q,
               kp_context_revision = context_revision, kp_coverage = coverage, kp_citations = citations,
               kp_gaps = gaps\<rparr>
      in and_then (validate_for_query W q p) (\<lambda>_. Inr p))"

section \<open>Outcome feedback and artifacts\<close>

record context_use_ref =
  cu_query_id :: string
  cu_context_revision :: string

record citation_use_ref =
  ci_citation_id :: string
  ci_source_revision :: string

datatype outcome_predicate_result = Satisfied | PredicateFailed | Indeterminate

record outcome_feedback_draft =
  fd_feedback_id :: string
  fd_subject :: subject_revision_ref
  fd_operation_id :: string
  fd_context :: "context_use_ref option"
  fd_before_state :: json
  fd_after_state :: json
  fd_predicate_result :: outcome_predicate_result
  fd_verification_summary :: string
  fd_used_citations :: "citation_use_ref list"

record outcome_feedback =
  of_feedback_id :: string
  of_authority :: intelligence_authority
  of_subject :: subject_revision_ref
  of_operation_id :: string
  of_context :: "context_use_ref option"
  of_before_state :: json
  of_after_state :: json
  of_predicate_result :: outcome_predicate_result
  of_verification_summary :: string
  of_used_citations :: "citation_use_ref list"

definition validate_json_object :: "intelligence_wire \<Rightarrow> string \<Rightarrow> json \<Rightarrow> protocol_check" where
  "validate_json_object W field v =
     all_ok
      [check (as_object v \<noteq> None) (InvalidProtocol field ''must be a JSON object''),
       validate_size MAX_JSON_BYTES field
        (\<lambda>limit. ''exceeds '' @ show_int limit @ '' serialized bytes'') (json_size W v) (\<lambda>e. e)]"

definition validate_feedback :: "intelligence_wire \<Rightarrow> outcome_feedback \<Rightarrow> protocol_check" where
  "validate_feedback W f =
     all_ok
      [protocol_nonempty ''outcome_feedback.feedback_id'' (of_feedback_id f) MAX_INTELLIGENCE_ID,
       validate_authority ''outcome_feedback.authority'' (of_authority f),
       validate_subject ''outcome_feedback.subject'' (of_subject f),
       protocol_nonempty ''outcome_feedback.operation_id'' (of_operation_id f) MAX_INTELLIGENCE_ID,
       when_some (of_context f) (\<lambda>c. all_ok
        [protocol_nonempty ''outcome_feedback.context.query_id'' (cu_query_id c) MAX_INTELLIGENCE_ID,
         protocol_nonempty ''outcome_feedback.context.context_revision'' (cu_context_revision c)
           MAX_INTELLIGENCE_ID]),
       validate_json_object W ''outcome_feedback.before_state'' (of_before_state f),
       validate_json_object W ''outcome_feedback.after_state'' (of_after_state f),
       protocol_nonempty ''outcome_feedback.verification_summary'' (of_verification_summary f)
        MAX_INTELLIGENCE_TEXT,
       check (\<not> len (of_used_citations f) > MAX_CITATIONS)
        (InvalidProtocol ''outcome_feedback.used_citations''
          (''must contain at most '' @ show_int MAX_CITATIONS @ '' citation revisions'')),
       try_unique
        (\<lambda>i c. all_ok
          [protocol_nonempty (idx ''outcome_feedback.used_citations'' i @ ''.citation_id'') (ci_citation_id c)
            MAX_INTELLIGENCE_ID,
           protocol_nonempty (idx ''outcome_feedback.used_citations'' i @ ''.source_revision'')
            (ci_source_revision c) MAX_INTELLIGENCE_ID])
        ci_citation_id
        (\<lambda>_ _. InvalidProtocol ''outcome_feedback.used_citations'' ''citation ids must be unique'')
        (\<lambda>_ _. Inr ()) (of_used_citations f)]"

definition bind_feedback ::
  "intelligence_wire \<Rightarrow> outcome_feedback_draft \<Rightarrow> intelligence_authority
   \<Rightarrow> (bundle_sdk_error, outcome_feedback) result" where
  "bind_feedback W d authority =
     (let f = \<lparr>of_feedback_id = fd_feedback_id d, of_authority = authority, of_subject = fd_subject d,
               of_operation_id = fd_operation_id d, of_context = fd_context d,
               of_before_state = fd_before_state d, of_after_state = fd_after_state d,
               of_predicate_result = fd_predicate_result d,
               of_verification_summary = fd_verification_summary d, of_used_citations = fd_used_citations d\<rparr>
      in and_then (validate_feedback W f) (\<lambda>_. Inr f))"

record outcome_feedback_receipt =
  or_feedback_id :: string
  or_experience_revision :: string
  or_duplicate :: bool

definition validate_receipt :: "outcome_feedback_receipt \<Rightarrow> protocol_check" where
  "validate_receipt r =
     all_ok
      [protocol_nonempty ''outcome_feedback_receipt.feedback_id'' (or_feedback_id r) MAX_INTELLIGENCE_ID,
       protocol_nonempty ''outcome_feedback_receipt.experience_revision'' (or_experience_revision r)
        MAX_INTELLIGENCE_ID]"

definition receipt_new ::
  "string \<Rightarrow> string \<Rightarrow> bool \<Rightarrow> (bundle_sdk_error, outcome_feedback_receipt) result" where
  "receipt_new feedback_id experience_revision duplicate =
     (let r = \<lparr>or_feedback_id = feedback_id, or_experience_revision = experience_revision,
               or_duplicate = duplicate\<rparr>
      in and_then (validate_receipt r) (\<lambda>_. Inr r))"

record project_artifact_ref =
  pa_tenant_id :: string
  pa_actor_id :: string
  pa_space_id :: string
  pa_project_id :: string
  pa_owner_bundle :: string
  pa_artifact_id :: string
  pa_revision :: string
  pa_media_type :: string
  pa_content_sha256 :: string

definition validate_artifact :: "project_artifact_ref \<Rightarrow> protocol_check" where
  "validate_artifact a =
     all_ok
      [try_each (\<lambda>(field, v). protocol_nonempty (''project_artifact.'' @ field) v MAX_INTELLIGENCE_ID)
        [(''tenant_id'', pa_tenant_id a), (''actor_id'', pa_actor_id a), (''space_id'', pa_space_id a),
         (''project_id'', pa_project_id a), (''artifact_id'', pa_artifact_id a),
         (''revision'', pa_revision a), (''media_type'', pa_media_type a)],
       protocol_sha256 ''project_artifact.content_sha256'' (pa_content_sha256 a)]"

section \<open>Binding and answers\<close>

lemma allowed_spaces_ok:
  "validate_allowed_spaces field i previous spaces = Inr u \<longleftrightarrow>
     (\<forall>s \<in> set spaces. \<not> is_blank s \<and> len s \<le> MAX_INTELLIGENCE_ID \<and> \<not> has_control s)
     \<and> ascending (case previous of None \<Rightarrow> spaces | Some p \<Rightarrow> p # spaces)"
proof (induction field i previous spaces rule: validate_allowed_spaces.induct)
  case (1 field i previous)
  then show ?case by (cases previous) simp_all
next
  case (2 field i previous space spaces)
  show ?case
  proof (cases previous)
    case None
    with 2 show ?thesis by (auto simp: result_simps)
  next
    case (Some p)
    have "ascending (p # space # spaces) \<longleftrightarrow> \<not> space \<le> p \<and> ascending (space # spaces)"
      using less_trans [of p space] by (auto simp: not_le)
    with Some 2 show ?thesis
      by (cases "space \<le> p") (simp_all add: result_simps del: sorted_wrt.simps(2))
  qed
qed

lemma bind_query_keeps_authority:
  "bind_query d a = Inr q \<Longrightarrow> iq_authority q = a \<and> iq_subject q = qd_subject d \<and> iq_query_id q = qd_query_id d"
  by (auto simp: bind_query_def Let_def result_simps)

text \<open>Binding a valid draft fails only on the authority: the checks of the draft are those of the query.\<close>

lemma budget_ok_field_free: "validate_budget f b = Inr () \<longleftrightarrow> validate_budget g b = Inr ()"
  by (auto simp: validate_budget_def result_simps)

lemma subject_ok_field_free: "validate_subject f s = Inr () \<longleftrightarrow> validate_subject g s = Inr ()"
  by (auto simp: validate_subject_def result_simps)

lemma authority_ok_field_free: "validate_authority f a = Inr () \<longleftrightarrow> validate_authority g a = Inr ()"
  by (auto simp: validate_authority_def result_simps allowed_spaces_ok)

lemma bind_valid_draft:
  assumes "validate_query_draft d = Inr ()"
  shows "(\<exists>q. bind_query d a = Inr q) \<longleftrightarrow> validate_authority field a = Inr ()"
  using assms authority_ok_field_free [of field a "''intelligence_query.authority''"]
    budget_ok_field_free [of "''intelligence_query_draft.budget''" "qd_budget d"]
    subject_ok_field_free [of "''intelligence_query_draft.subject''" "qd_subject d"]
  by (simp add: bind_query_def validate_query_def validate_query_draft_def Let_def result_simps)

lemma answer_stays_in_authority:
  assumes "bind_query d a = Inr q" and "validate_for_query W q p = Inr ()"
  shows "kp_authority p = a" and "kp_subject p = qd_subject d" and "kp_query_id p = qd_query_id d"
    and "\<forall>c \<in> set (kp_citations p). kc_space_id c \<in> set (ia_allowed_space_ids a)"
    and "distinct (map kc_citation_id (kp_citations p))"
    and "kp_citations p = [] \<longleftrightarrow> kp_coverage p = CoverageUnavailable"
proof -
  note b = bind_query_keeps_authority [OF assms(1)]
  have c: "try_unique
        (\<lambda>i. validate_citation (idx ''knowledge_context.citations'' i) (ia_allowed_space_ids (iq_authority q)))
        kc_citation_id
        (\<lambda>_ _. InvalidProtocol ''knowledge_context.citations'' ''citation ids must be unique'')
        (\<lambda>_ _. Inr ()) (kp_citations p) = Inr ()"
    and k: "kp_query_id p = iq_query_id q" "kp_authority p = iq_authority q" "kp_subject p = iq_subject q"
    and v: "validate_coverage p = Inr ()"
    using assms(2) unfolding validate_for_query_def all_ok_eq_Inr list.set ball_simps
    by (simp_all add: result_simps(3))
  from k b show "kp_authority p = a" "kp_subject p = qd_subject d" "kp_query_id p = qd_query_id d"
    by simp_all
  show "\<forall>c \<in> set (kp_citations p). kc_space_id c \<in> set (ia_allowed_space_ids a)"
    using try_unique_member [OF c] b by (fastforce simp: validate_citation_def result_simps)
  from c show "distinct (map kc_citation_id (kp_citations p))" by (simp add: result_simps)
  from v show "kp_citations p = [] \<longleftrightarrow> kp_coverage p = CoverageUnavailable"
    by (auto simp: validate_coverage_def result_simps split: context_coverage.splits)
qed

end
