(* ===== verification/Broker_Protocol.thy ===== *)
theory Broker_Protocol
  imports Broker_Resource Intelligence_Contract
begin

text \<open>
  The messages of the Bundle broker, \<open>crates/gadgetron-bundle-sdk/src/broker.rs\<close>: what a Bundle may ask
  of Core, what Core may answer, and the checks both sides apply before a message is acted on.  A
  \<open>BTreeMap\<close> of fields is the list of its entries in key order.  Sizes of serialised messages come from
  \<open>serde_json\<close>: they are the fields of \<open>broker_wire\<close>.
\<close>

abbreviation BROKER_MAX_TEXT :: int where "BROKER_MAX_TEXT \<equiv> 2048"
abbreviation BROKER_MAX_ID :: int where "BROKER_MAX_ID \<equiv> 256"
abbreviation BROKER_MAX_FIELD :: int where "BROKER_MAX_FIELD \<equiv> 63"
abbreviation MAX_COLUMNS :: int where "MAX_COLUMNS \<equiv> 64"
abbreviation MAX_FILTERS :: int where "MAX_FILTERS \<equiv> 32"
abbreviation MAX_ORDER_FIELDS :: int where "MAX_ORDER_FIELDS \<equiv> 8"
abbreviation MAX_DATABASE_ROWS :: int where "MAX_DATABASE_ROWS \<equiv> 500"
abbreviation MAX_DATABASE_MUTATION_ROWS :: int where "MAX_DATABASE_MUTATION_ROWS \<equiv> 100"
abbreviation MAX_KNOWLEDGE_COLLECTIONS :: int where "MAX_KNOWLEDGE_COLLECTIONS \<equiv> 200"
abbreviation MAX_COLLECTION_LOCATORS :: int where "MAX_COLLECTION_LOCATORS \<equiv> 64"
abbreviation MAX_COLLECTION_QUERY_TAGS :: int where "MAX_COLLECTION_QUERY_TAGS \<equiv> 8"
abbreviation MAX_SSH_OUTPUT_BYTES :: int where "MAX_SSH_OUTPUT_BYTES \<equiv> 262144"
abbreviation BROKER_MAX_SSH_STDERR :: int where "BROKER_MAX_SSH_STDERR \<equiv> 65536"

section \<open>Lease tokens and envelopes\<close>

definition is_ascii_alphanumeric :: "char \<Rightarrow> bool" where
  "is_ascii_alphanumeric c \<longleftrightarrow> is_ascii_lowercase c \<or> is_ascii_uppercase c \<or> is_ascii_digit c"

definition validate_lease_token :: "string \<Rightarrow> protocol_check" where
  "validate_lease_token s =
     check (\<not> (len s \<noteq> 43 \<or> \<not> list_all is_ascii s
         \<or> \<not> list_all (\<lambda>c. is_ascii_alphanumeric c \<or> c = CHR ''-'' \<or> c = CHR ''_'') s))
       (InvalidProtocol ''broker.lease'' ''must be a 43-character base64url token encoding 256 bits'')"

definition lease_token_new :: "string \<Rightarrow> (bundle_sdk_error, string) result" where
  "lease_token_new s = and_then (validate_lease_token s) (\<lambda>_. Inr s)"

definition validate_message_id :: "string \<Rightarrow> protocol_check" where
  "validate_message_id s =
     check (\<not> (s = [] \<or> len s > 128 \<or> \<not> list_all is_ascii s
         \<or> \<not> list_all (\<lambda>c. is_ascii_alphanumeric c \<or> c \<in> set ''-_.:'') s))
       (InvalidProtocol ''broker.message_id'' ''must contain 1-128 characters from [A-Za-z0-9_.:-]'')"

record 'v bundle_runtime_identity =
  bri_id :: string
  bri_version :: 'v

record ('v, 'p) broker_envelope =
  env_protocol_version :: u32
  env_message_id :: string
  env_bundle :: "'v bundle_runtime_identity"
  env_payload :: 'p

abbreviation BUNDLE_BROKER_PROTOCOL_VERSION :: u32 where "BUNDLE_BROKER_PROTOCOL_VERSION \<equiv> 1"

definition envelope_new :: "string \<Rightarrow> 'v bundle_runtime_identity \<Rightarrow> 'p \<Rightarrow> ('v, 'p) broker_envelope" where
  "envelope_new message_id bundle payload =
     \<lparr>env_protocol_version = BUNDLE_BROKER_PROTOCOL_VERSION, env_message_id = message_id,
      env_bundle = bundle, env_payload = payload\<rparr>"

text \<open>\<open>show_version\<close> is the \<open>Display\<close> of \<open>semver\<close> versions.\<close>

definition validate_broker_routing ::
  "('v \<Rightarrow> string) \<Rightarrow> ('v, 'p) broker_envelope \<Rightarrow> 'v bundle_runtime_identity \<Rightarrow> protocol_check" where
  "validate_broker_routing show_version e expected =
     all_ok
      [check (env_protocol_version e = BUNDLE_BROKER_PROTOCOL_VERSION)
        (InvalidProtocol ''broker.protocol_version''
          (''expected '' @ show_int (uint BUNDLE_BROKER_PROTOCOL_VERSION) @ '', received ''
            @ show_int (uint (env_protocol_version e)))),
       validate_message_id (env_message_id e),
       check (env_bundle e = expected)
        (InvalidProtocol ''broker.bundle''
          (''expected '' @ bri_id expected @ ''@'' @ show_version (bri_version expected) @ '', received ''
            @ bri_id (env_bundle e) @ ''@'' @ show_version (bri_version (env_bundle e))))]"

section \<open>Requests\<close>

record knowledge_collection_locator =
  cl_url :: string
  cl_title :: string
  cl_source_class :: string

record knowledge_collection_query =
  cq_provider :: string
  cq_query :: string
  cq_scope :: string
  cq_tags :: "string list"
  cq_language :: "string option"
  cq_window_days :: u32

datatype knowledge_collection_status = CollectionActive | CollectionPaused

datatype knowledge_collection_action =
    CollectionList (list_limit: u32)
  | CollectionCreate string string string string bool "knowledge_collection_locator list"
      "knowledge_collection_query list"
  | CollectionUpdate string int string knowledge_collection_status bool "knowledge_collection_locator list"
      "knowledge_collection_query list"
  | CollectionArchive string int
  | CollectionEnqueue string int

record knowledge_collection_request =
  kq_lease :: string
  kq_permission_id :: string
  kq_action :: knowledge_collection_action

record intelligence_context_request =
  ir_lease :: string
  ir_permission_id :: string
  ir_draft :: intelligence_query_draft

record outcome_feedback_request =
  fr_lease :: string
  fr_permission_id :: string
  fr_draft :: outcome_feedback_draft

record ssh_execute_request =
  se_lease :: string
  se_target_id :: string
  se_operation_id :: string

record broker_probe_request =
  pq_permission_id :: string
  pq_resource :: string

datatype database_order_direction = Ascending | Descending

record database_order =
  dor_field :: string
  dor_direction :: database_order_direction

record database_select_request =
  sel_lease :: string
  sel_permission_id :: string
  sel_resource :: string
  sel_columns :: "string list"
  sel_filters :: "(string \<times> json) list"
  sel_order_by :: "database_order list"
  sel_limit :: u32

record database_mutation_event =
  dm_event_kind :: string
  dm_subject_kind :: string
  dm_subject_id :: string
  dm_subject_revision :: string
  dm_input :: json
  dm_snapshot_filters :: "(string \<times> json) list option"

record database_insert_request =
  ins_lease :: string
  ins_permission_id :: string
  ins_resource :: string
  ins_values :: "(string \<times> json) list"
  ins_conflict_keys :: "string list"
  ins_event :: "database_mutation_event option"

record database_update_request =
  upd_lease :: string
  upd_permission_id :: string
  upd_resource :: string
  upd_values :: "(string \<times> json) list"
  upd_filters :: "(string \<times> json) list"
  upd_limit :: u32
  upd_event :: "database_mutation_event option"

record database_delete_request =
  del_lease :: string
  del_permission_id :: string
  del_resource :: string
  del_filters :: "(string \<times> json) list"
  del_limit :: u32
  del_event :: "database_mutation_event option"

datatype broker_request =
    Probe broker_probe_request
  | DatabaseSelect database_select_request
  | DatabaseInsert database_insert_request
  | DatabaseUpdate database_update_request
  | DatabaseDelete database_delete_request
  | SshExecuteOp ssh_execute_request
  | IntelligenceContext intelligence_context_request
  | OutcomeFeedback outcome_feedback_request
  | KnowledgeCollectionOp knowledge_collection_request

section \<open>Responses\<close>

datatype broker_resource_readiness = ResourceReady | ResourceUnavailable

record broker_probe_result =
  pb_permission_id :: string
  pb_resource :: string
  pb_readiness :: broker_resource_readiness
  pb_message :: "string option"

definition probe_ready :: "string \<Rightarrow> string \<Rightarrow> broker_probe_result" where
  "probe_ready permission_id resource =
     \<lparr>pb_permission_id = permission_id, pb_resource = resource, pb_readiness = ResourceReady, pb_message = None\<rparr>"

definition probe_unavailable :: "string \<Rightarrow> string \<Rightarrow> string \<Rightarrow> broker_probe_result" where
  "probe_unavailable permission_id resource message =
     \<lparr>pb_permission_id = permission_id, pb_resource = resource, pb_readiness = ResourceUnavailable,
      pb_message = Some message\<rparr>"

record database_rows =
  rows_rows :: "(string \<times> json) list list"
  rows_truncated :: bool

record ssh_execution_result =
  sx_target_id :: string
  sx_operation_id :: string
  sx_exit_code :: int
  sx_stdout :: string
  sx_stderr :: string
  sx_duration_ms :: u64

record knowledge_collection_record =
  cr_collection_id :: string
  cr_space_id :: string
  cr_output_vault_id :: string
  cr_profile_id :: string
  cr_label :: string
  cr_topic :: string
  cr_status :: string
  cr_source_classes :: "string list"
  cr_schedule_enabled :: bool
  cr_next_run_at :: "string option"
  cr_last_enqueued_at :: "string option"
  cr_last_run_at :: "string option"
  cr_locators :: "knowledge_collection_locator list"
  cr_queries :: "knowledge_collection_query list"
  cr_revision :: int
  cr_updated_at :: string

datatype knowledge_collection_result =
    CollectionsListed "knowledge_collection_record list" bool
  | CollectionSaved knowledge_collection_record
  | CollectionEnqueued string string string bool

record broker_error =
  be_code :: string
  be_message :: string
  be_retryable :: bool
  be_details :: "json option"

datatype broker_response =
    ProbeResponse broker_probe_result
  | DatabaseRowsResponse database_rows
  | DatabaseMutationResponse u32
  | SshExecutionResponse ssh_execution_result
  | KnowledgeContextResponse knowledge_context_pack
  | OutcomeFeedbackAccepted outcome_feedback_receipt
  | KnowledgeCollectionResponse knowledge_collection_result
  | ErrorResponse broker_error

text \<open>The sizes of \<open>serde_json::to_vec\<close> of the struct in a request or response, and of a JSON value.\<close>

record broker_wire =
  bw_request :: "broker_request \<Rightarrow> (string, int) result"
  bw_response :: "broker_response \<Rightarrow> (string, int) result"
  bw_value :: "json \<Rightarrow> (string, int) result"

section \<open>Checks on parts of a message\<close>

definition validate_serialized_size :: "string \<Rightarrow> (string, int) result \<Rightarrow> protocol_check" where
  "validate_serialized_size field encoded =
     validate_size MAX_JSON_BYTES field (\<lambda>limit. ''JSON exceeds '' @ show_int limit @ '' serialized bytes'')
      encoded (\<lambda>e. ''JSON cannot be serialized: '' @ e)"

definition is_hex_char :: "char \<Rightarrow> bool" where
  "is_hex_char c \<longleftrightarrow> is_lower_hex c \<or> (65 \<le> byte c \<and> byte c \<le> 70)"

definition validate_uuid :: "string \<Rightarrow> string \<Rightarrow> protocol_check" where
  "validate_uuid path s =
     check (len s = 36
         \<and> list_all (\<lambda>(i, c). if i \<in> {8, 13, 18, 23} then c = CHR ''-'' else is_hex_char c) (enumerate 0 s))
       (InvalidProtocol path ''must be a canonical UUID'')"

definition validate_positive_revision :: "string \<Rightarrow> int \<Rightarrow> protocol_check" where
  "validate_positive_revision action revision =
     check (\<not> revision < 1)
       (InvalidProtocol (''broker.knowledge_collection.'' @ action @ ''.expected_revision'') ''must be positive'')"

definition validate_collection_locators :: "string \<Rightarrow> knowledge_collection_locator list \<Rightarrow> protocol_check" where
  "validate_collection_locators action locators =
     (let path = ''broker.knowledge_collection.'' @ action @ ''.locators''
      in all_ok
          [check (\<not> (locators = [] \<or> len locators > MAX_COLLECTION_LOCATORS))
            (InvalidProtocol path (''must contain 1-'' @ show_int MAX_COLLECTION_LOCATORS @ '' locators'')),
           try_indexed (\<lambda>i l. all_ok
            [protocol_nonempty (idx path i @ ''.url'') (cl_url l) BROKER_MAX_ID,
             check (\<not> len (cl_title l) > BROKER_MAX_TEXT)
              (InvalidProtocol (idx path i @ ''.title'') (''must not exceed '' @ show_int BROKER_MAX_TEXT @ '' bytes''))])
            locators])"

definition validate_collection_queries :: "string \<Rightarrow> knowledge_collection_query list \<Rightarrow> protocol_check" where
  "validate_collection_queries action queries =
     (let base = ''broker.knowledge_collection.'' @ action @ ''.queries''
      in all_ok
          [check (\<not> len queries > MAX_COLLECTION_LOCATORS)
            (InvalidProtocol base (''must not exceed '' @ show_int MAX_COLLECTION_LOCATORS @ '' provider queries'')),
           try_unique (\<lambda>_ _. Inr ()) cq_provider
            (\<lambda>i _. InvalidProtocol (idx base i @ ''.provider'') ''provider may appear only once'')
            (\<lambda>i q. all_ok
              [protocol_nonempty (idx base i @ ''.query'') (cq_query q) BROKER_MAX_TEXT,
               protocol_nonempty (idx base i @ ''.scope'') (cq_scope q) BROKER_MAX_ID,
               check (1 \<le> uint (cq_window_days q) \<and> uint (cq_window_days q) \<le> 3650)
                (InvalidProtocol (idx base i @ ''.window_days'') ''must be between 1 and 3650''),
               check (\<not> len (cq_tags q) > MAX_COLLECTION_QUERY_TAGS)
                (InvalidProtocol (idx base i @ ''.tags'')
                  (''must not exceed '' @ show_int MAX_COLLECTION_QUERY_TAGS @ '' tags'')),
               try_indexed (\<lambda>j tag. protocol_nonempty (idx (idx base i @ ''.tags'') j) tag BROKER_MAX_FIELD) (cq_tags q),
               when_some (cq_language q) (\<lambda>l. protocol_nonempty (idx base i @ ''.language'') l BROKER_MAX_FIELD)])
            queries])"

definition validate_collection_inputs ::
  "string \<Rightarrow> knowledge_collection_locator list \<Rightarrow> knowledge_collection_query list \<Rightarrow> protocol_check" where
  "validate_collection_inputs action locators queries =
     (if locators \<noteq> [] \<and> queries = [] then validate_collection_locators action locators
      else if locators = [] \<and> queries \<noteq> [] then validate_collection_queries action queries
      else Inl (InvalidProtocol (''broker.knowledge_collection.'' @ action @ ''.inputs'')
             ''must contain either approved URLs or provider queries, but not both''))"

definition validate_collection_action :: "knowledge_collection_action \<Rightarrow> protocol_check" where
  "validate_collection_action a =
     (let path = ''broker.knowledge_collection.''
      in case a of
          CollectionList limit \<Rightarrow>
            check (1 \<le> uint limit \<and> uint limit \<le> MAX_KNOWLEDGE_COLLECTIONS)
              (InvalidProtocol (path @ ''list.limit'')
                (''must be between 1 and '' @ show_int MAX_KNOWLEDGE_COLLECTIONS))
        | CollectionCreate space_id output_vault_id _ topic _ locators queries \<Rightarrow>
            all_ok
             [validate_uuid (path @ ''create.space_id'') space_id,
              validate_uuid (path @ ''create.output_vault_id'') output_vault_id,
              protocol_nonempty (path @ ''create.topic'') topic BROKER_MAX_TEXT,
              validate_collection_inputs ''create'' locators queries]
        | CollectionUpdate collection_id expected_revision topic _ _ locators queries \<Rightarrow>
            all_ok
             [validate_uuid (path @ ''update.collection_id'') collection_id,
              validate_positive_revision ''update'' expected_revision,
              protocol_nonempty (path @ ''update.topic'') topic BROKER_MAX_TEXT,
              validate_collection_inputs ''update'' locators queries]
        | CollectionArchive collection_id expected_revision \<Rightarrow>
            all_ok
             [validate_uuid (path @ ''archive.collection_id'') collection_id,
              validate_positive_revision ''archive'' expected_revision]
        | CollectionEnqueue collection_id expected_revision \<Rightarrow>
            all_ok
             [validate_uuid (path @ ''enqueue.collection_id'') collection_id,
              validate_positive_revision ''enqueue'' expected_revision])"

definition validate_filter_value :: "broker_wire \<Rightarrow> string \<Rightarrow> string \<Rightarrow> json \<Rightarrow> protocol_check" where
  "validate_filter_value W path field v =
     (let place = ''broker.'' @ path @ ''.'' @ field
      in case v of
          JString s \<Rightarrow> protocol_nonempty place s BROKER_MAX_TEXT
        | JObject _ \<Rightarrow>
            validate_size BROKER_MAX_TEXT place
             (\<lambda>limit. ''JSON equality value exceeds '' @ show_int limit @ '' serialized bytes'') (bw_value W v)
             (\<lambda>e. ''JSON equality value cannot be serialized: '' @ e)
        | JArray _ \<Rightarrow> Inl (InvalidProtocol place ''equality filters do not accept array values'')
        | _ \<Rightarrow> Inr ())"

definition validate_database_mutation_resource :: "string \<Rightarrow> string \<Rightarrow> protocol_check" where
  "validate_database_mutation_resource operation resource =
     check (database_table_name resource \<noteq> None)
       (InvalidProtocol (''broker.'' @ operation @ ''.resource'')
         ''must identify an exact postgres:table:<lowercase_identifier> resource'')"

definition validate_database_values :: "string \<Rightarrow> (string \<times> json) list \<Rightarrow> protocol_check" where
  "validate_database_values path entries =
     all_ok
      [check (\<not> (entries = [] \<or> len entries > MAX_COLUMNS))
        (InvalidProtocol (''broker.'' @ path) (''must contain 1-'' @ show_int MAX_COLUMNS @ '' fields'')),
       try_each (\<lambda>(field, _). validate_database_field (''broker.'' @ path @ ''.'' @ field) field) entries]"

definition validate_database_filters ::
  "broker_wire \<Rightarrow> string \<Rightarrow> (string \<times> json) list \<Rightarrow> bool \<Rightarrow> protocol_check" where
  "validate_database_filters W path filters require_one =
     all_ok
      [check (\<not> ((require_one \<and> filters = []) \<or> len filters > MAX_FILTERS))
        (InvalidProtocol (''broker.'' @ path)
          (''must contain 1-'' @ show_int MAX_FILTERS @ '' equality filters'')),
       try_each (\<lambda>(field, v). all_ok
        [validate_database_field (''broker.'' @ path @ ''.'' @ field) field,
         validate_filter_value W path field v]) filters]"

definition validate_database_mutation_limit :: "string \<Rightarrow> u32 \<Rightarrow> protocol_check" where
  "validate_database_mutation_limit path limit =
     check (1 \<le> uint limit \<and> uint limit \<le> MAX_DATABASE_MUTATION_ROWS)
       (InvalidProtocol (''broker.'' @ path) (''must be between 1 and '' @ show_int MAX_DATABASE_MUTATION_ROWS))"

definition validate_mutation_event :: "broker_wire \<Rightarrow> database_mutation_event \<Rightarrow> protocol_check" where
  "validate_mutation_event W e =
     all_ok
      [case dm_snapshot_filters e of
         Some filters \<Rightarrow>
           all_ok
            [check (\<not> (dm_subject_id e \<noteq> [] \<or> dm_subject_revision e \<noteq> []))
              (InvalidProtocol ''broker.database_mutation.event.subject''
                ''post-mutation Knowledge events derive subject id and revision from the signed snapshot''),
             validate_database_filters W ''database_mutation.event.snapshot.filters'' filters True]
       | None \<Rightarrow>
           all_ok
            [check (\<not> (dm_subject_id e = [] \<or> len (dm_subject_id e) > BROKER_MAX_ID \<or> has_control (dm_subject_id e)))
              (InvalidProtocol ''broker.database_mutation.event.subject_id''
                ''must contain 1-256 characters and no control characters''),
             check (is_sha256_text (dm_subject_revision e))
              (InvalidProtocol ''broker.database_mutation.event.subject_revision''
                ''enrichment events require a lowercase hexadecimal SHA-256 digest'')],
       check (as_object (dm_input e) \<noteq> None)
        (InvalidProtocol ''broker.database_mutation.event.input'' ''must be a JSON object'')]"

section \<open>Requests and responses that may be acted on\<close>

definition validate_database_select :: "broker_wire \<Rightarrow> database_select_request \<Rightarrow> protocol_check" where
  "validate_database_select W r =
     all_ok
      [check (database_table_name (sel_resource r) \<noteq> None)
        (InvalidProtocol ''broker.database_select.resource''
          ''must identify an exact postgres:table:<lowercase_identifier> resource''),
       check (\<not> (sel_columns r = [] \<or> len (sel_columns r) > MAX_COLUMNS))
        (InvalidProtocol ''broker.database_select.columns'' (''must contain 1-'' @ show_int MAX_COLUMNS @ '' fields'')),
       try_unique (\<lambda>i. validate_database_field (idx ''broker.database_select.columns'' i)) (\<lambda>c. c)
        (\<lambda>_ column. InvalidProtocol ''broker.database_select.columns'' (''duplicate field '' @ debug_id column))
        (\<lambda>_ _. Inr ()) (sel_columns r),
       check (\<not> len (sel_filters r) > MAX_FILTERS)
        (InvalidProtocol ''broker.database_select.filters''
          (''at most '' @ show_int MAX_FILTERS @ '' equality filters may be supplied'')),
       try_each (\<lambda>(field, v). all_ok
        [validate_database_field ''broker.database_select.filters'' field,
         validate_filter_value W ''database_select.filters'' field v]) (sel_filters r),
       check (\<not> len (sel_order_by r) > MAX_ORDER_FIELDS)
        (InvalidProtocol ''broker.database_select.order_by''
          (''at most '' @ show_int MAX_ORDER_FIELDS @ '' order fields may be supplied'')),
       try_indexed (\<lambda>i ord. validate_database_field (idx ''broker.database_select.order_by'' i @ ''.field'') (dor_field ord))
        (sel_order_by r),
       check (1 \<le> uint (sel_limit r) \<and> uint (sel_limit r) \<le> MAX_DATABASE_ROWS)
        (InvalidProtocol ''broker.database_select.limit'' (''must be between 1 and '' @ show_int MAX_DATABASE_ROWS)),
       validate_serialized_size ''broker.database_select'' (bw_request W (DatabaseSelect r))]"

definition validate_database_insert :: "broker_wire \<Rightarrow> database_insert_request \<Rightarrow> protocol_check" where
  "validate_database_insert W r =
     (let keys_error = InvalidProtocol ''broker.database_insert.conflict_keys'' ''keys must be unique and present in values''
      in all_ok
          [validate_database_mutation_resource ''database_insert'' (ins_resource r),
           validate_database_values ''database_insert.values'' (ins_values r),
           try_unique (\<lambda>i. validate_database_field (idx ''broker.database_insert.conflict_keys'' i)) (\<lambda>k. k)
            (\<lambda>_ _. keys_error)
            (\<lambda>_ k. check (map_of (ins_values r) k \<noteq> None) keys_error) (ins_conflict_keys r),
           check (\<not> (ins_conflict_keys r \<noteq> [] \<and> list_all (\<lambda>(k, _). k \<in> set (ins_conflict_keys r)) (ins_values r)))
            (InvalidProtocol ''broker.database_insert.values'' ''upsert must include at least one non-key value''),
           when_some (ins_event r) (\<lambda>e. all_ok
            [validate_mutation_event W e,
             check (dm_snapshot_filters e = None)
              (InvalidProtocol ''broker.database_insert.event''
                ''insert enrichment events cannot use a post-mutation snapshot'')]),
           validate_serialized_size ''broker.database_insert'' (bw_request W (DatabaseInsert r))])"

definition validate_database_update :: "broker_wire \<Rightarrow> database_update_request \<Rightarrow> protocol_check" where
  "validate_database_update W r =
     all_ok
      [validate_database_mutation_resource ''database_update'' (upd_resource r),
       validate_database_values ''database_update.values'' (upd_values r),
       validate_database_filters W ''database_update.filters'' (upd_filters r) True,
       validate_database_mutation_limit ''database_update.limit'' (upd_limit r),
       when_some (upd_event r) (\<lambda>e. all_ok
        [validate_mutation_event W e,
         check (dm_snapshot_filters e \<noteq> None)
          (InvalidProtocol ''broker.database_update.event'' ''update events require a post-mutation snapshot'')]),
       validate_serialized_size ''broker.database_update'' (bw_request W (DatabaseUpdate r))]"

definition validate_database_delete :: "broker_wire \<Rightarrow> database_delete_request \<Rightarrow> protocol_check" where
  "validate_database_delete W r =
     all_ok
      [validate_database_mutation_resource ''database_delete'' (del_resource r),
       validate_database_filters W ''database_delete.filters'' (del_filters r) True,
       validate_database_mutation_limit ''database_delete.limit'' (del_limit r),
       when_some (del_event r) (\<lambda>e. all_ok
        [validate_mutation_event W e,
         check (dm_snapshot_filters e \<noteq> None)
          (InvalidProtocol ''broker.database_delete.event'' ''delete events require a post-mutation snapshot'')]),
       validate_serialized_size ''broker.database_delete'' (bw_request W (DatabaseDelete r))]"

definition validate_request :: "broker_wire \<Rightarrow> broker_request \<Rightarrow> protocol_check" where
  "validate_request W request =
     (case request of
        Probe _ \<Rightarrow> Inr ()
      | DatabaseSelect r \<Rightarrow> validate_database_select W r
      | DatabaseInsert r \<Rightarrow> validate_database_insert W r
      | DatabaseUpdate r \<Rightarrow> validate_database_update W r
      | DatabaseDelete r \<Rightarrow> validate_database_delete W r
      | SshExecuteOp _ \<Rightarrow> validate_serialized_size ''broker.ssh_execute'' (bw_request W request)
      | IntelligenceContext r \<Rightarrow>
          all_ok
           [validate_query_draft (ir_draft r),
            validate_serialized_size ''broker.intelligence_context'' (bw_request W request)]
      | OutcomeFeedback _ \<Rightarrow> validate_serialized_size ''broker.outcome_feedback'' (bw_request W request)
      | KnowledgeCollectionOp r \<Rightarrow>
          all_ok
           [validate_collection_action (kq_action r),
            validate_serialized_size ''broker.knowledge_collection'' (bw_request W request)])"

definition validate_collection_record :: "knowledge_collection_record \<Rightarrow> protocol_check" where
  "validate_collection_record c =
     (let path = ''broker.knowledge_collection_record.''
      in all_ok
          [validate_uuid (path @ ''collection_id'') (cr_collection_id c),
           validate_uuid (path @ ''space_id'') (cr_space_id c),
           validate_uuid (path @ ''output_vault_id'') (cr_output_vault_id c),
           protocol_nonempty (path @ ''label'') (cr_label c) BROKER_MAX_TEXT,
           protocol_nonempty (path @ ''topic'') (cr_topic c) BROKER_MAX_TEXT,
           protocol_nonempty (path @ ''status'') (cr_status c) BROKER_MAX_FIELD,
           validate_positive_revision ''record'' (cr_revision c),
           validate_collection_locators ''record'' (cr_locators c),
           validate_collection_queries ''record'' (cr_queries c)])"

definition validate_collection_result :: "broker_wire \<Rightarrow> knowledge_collection_result \<Rightarrow> protocol_check" where
  "validate_collection_result W r =
     (let path = ''broker.knowledge_collection_result.''
      in all_ok
          [case r of
             CollectionsListed collections _ \<Rightarrow>
               check (\<not> len collections > MAX_KNOWLEDGE_COLLECTIONS)
                (InvalidProtocol (path @ ''collections'')
                  (''must not exceed '' @ show_int MAX_KNOWLEDGE_COLLECTIONS @ '' records''))
           | CollectionSaved c \<Rightarrow> validate_collection_record c
           | CollectionEnqueued collection_id run_id status _ \<Rightarrow>
               all_ok
                [validate_uuid (path @ ''collection_id'') collection_id,
                 validate_uuid (path @ ''run_id'') run_id,
                 protocol_nonempty (path @ ''status'') status BROKER_MAX_FIELD],
           validate_serialized_size ''broker.knowledge_collection_result''
            (bw_response W (KnowledgeCollectionResponse r))])"

definition validate_database_rows :: "broker_wire \<Rightarrow> database_rows \<Rightarrow> protocol_check" where
  "validate_database_rows W r =
     all_ok
      [check (\<not> len (rows_rows r) > MAX_DATABASE_ROWS)
        (InvalidProtocol ''broker.database_rows.rows''
          (''at most '' @ show_int MAX_DATABASE_ROWS @ '' rows may be returned'')),
       try_indexed (\<lambda>i row. all_ok
        [check (\<not> len row > MAX_COLUMNS)
          (InvalidProtocol (idx ''broker.database_rows.rows'' i)
            (''at most '' @ show_int MAX_COLUMNS @ '' fields may be returned per row'')),
         try_each (\<lambda>(field, _). validate_database_field (idx ''broker.database_rows.rows'' i) field) row])
        (rows_rows r),
       validate_serialized_size ''broker.database_rows'' (bw_response W (DatabaseRowsResponse r))]"

definition validate_ssh_execution :: "broker_wire \<Rightarrow> ssh_execution_result \<Rightarrow> protocol_check" where
  "validate_ssh_execution W r =
     all_ok
      [check (\<not> (sx_exit_code r < -1 \<or> sx_exit_code r > 255))
        (InvalidProtocol ''broker.ssh_execution.exit_code'' ''must be -1 or an unsigned process exit status''),
       check (\<not> len (sx_stdout r) > MAX_SSH_OUTPUT_BYTES)
        (InvalidProtocol ''broker.ssh_execution.stdout''
          (''must not exceed '' @ show_int MAX_SSH_OUTPUT_BYTES @ '' UTF-8 bytes'')),
       check (\<not> len (sx_stderr r) > BROKER_MAX_SSH_STDERR)
        (InvalidProtocol ''broker.ssh_execution.stderr''
          (''must not exceed '' @ show_int BROKER_MAX_SSH_STDERR @ '' UTF-8 bytes'')),
       validate_serialized_size ''broker.ssh_execution'' (bw_response W (SshExecutionResponse r))]"

definition validate_error :: "broker_wire \<Rightarrow> broker_error \<Rightarrow> protocol_check" where
  "validate_error W e =
     all_ok
      [protocol_nonempty ''broker.error.message'' (be_message e) BROKER_MAX_TEXT,
       when_some (be_details e) (\<lambda>d. validate_serialized_size ''broker.error.details'' (bw_value W d))]"

definition validate_response :: "broker_wire \<Rightarrow> broker_response \<Rightarrow> protocol_check" where
  "validate_response W response =
     (case response of
        ProbeResponse r \<Rightarrow>
          when_some (pb_message r) (\<lambda>m. protocol_nonempty ''broker.probe.message'' m BROKER_MAX_TEXT)
      | DatabaseRowsResponse r \<Rightarrow> validate_database_rows W r
      | DatabaseMutationResponse affected \<Rightarrow>
          check (\<not> uint affected > MAX_DATABASE_MUTATION_ROWS)
           (InvalidProtocol ''broker.database_mutation.affected_rows''
             (''must not exceed '' @ show_int MAX_DATABASE_MUTATION_ROWS))
      | SshExecutionResponse r \<Rightarrow> validate_ssh_execution W r
      | KnowledgeContextResponse _ \<Rightarrow>
          validate_serialized_size ''broker.knowledge_context'' (bw_response W response)
      | OutcomeFeedbackAccepted r \<Rightarrow> validate_receipt r
      | KnowledgeCollectionResponse r \<Rightarrow> validate_collection_result W r
      | ErrorResponse e \<Rightarrow> validate_error W e)"

section \<open>What accepted database requests look like\<close>

definition safe_field :: "string \<Rightarrow> bool" where
  "safe_field f \<longleftrightarrow> is_database_identifier f \<and> f \<noteq> ''tenant_id''"

lemma validate_database_field_ok [result_simps]: "validate_database_field path f = Inr u \<longleftrightarrow> safe_field f"
  by (simp add: validate_database_field_def safe_field_def)

lemma validated_values:
  "validate_database_values path entries = Inr u \<Longrightarrow> entries \<noteq> [] \<and> (\<forall>f \<in> fst ` set entries. safe_field f)"
  by (auto simp: validate_database_values_def result_simps)

lemma validated_filters:
  "validate_database_filters W path filters b = Inr u \<Longrightarrow>
     (\<forall>f \<in> fst ` set filters. safe_field f) \<and> (b \<longrightarrow> filters \<noteq> [])"
  by (auto simp: validate_database_filters_def result_simps)

lemma validated_select:
  assumes "validate_database_select W r = Inr u"
  shows "database_table_name (sel_resource r) \<noteq> None" "sel_columns r \<noteq> []" "distinct (sel_columns r)"
    "\<forall>c \<in> set (sel_columns r). safe_field c" "\<forall>f \<in> fst ` set (sel_filters r). safe_field f"
    "\<forall>d \<in> set (sel_order_by r). safe_field (dor_field d)"
    "1 \<le> uint (sel_limit r)" "uint (sel_limit r) \<le> MAX_DATABASE_ROWS" "len (sel_columns r) \<le> MAX_COLUMNS"
  using assms unfolding validate_database_select_def all_ok_eq_Inr list.set ball_simps
  by (auto simp: result_simps in_set_conv_nth)

lemma validated_update:
  assumes "validate_database_update W r = Inr u"
  shows "(\<forall>f \<in> fst ` set (upd_values r). safe_field f) \<and> (\<forall>f \<in> fst ` set (upd_filters r). safe_field f)
    \<and> upd_filters r \<noteq> [] \<and> 1 \<le> uint (upd_limit r) \<and> uint (upd_limit r) \<le> MAX_DATABASE_MUTATION_ROWS"
proof -
  from assms have "validate_database_values ''database_update.values'' (upd_values r) = Inr ()"
    "validate_database_filters W ''database_update.filters'' (upd_filters r) True = Inr ()"
    "validate_database_mutation_limit ''database_update.limit'' (upd_limit r) = Inr ()"
    unfolding validate_database_update_def all_ok_eq_Inr list.set ball_simps by simp_all
  then show ?thesis
    by (auto simp: validate_database_mutation_limit_def check_eq_Inr dest: validated_values validated_filters)
qed

lemma validated_insert:
  assumes "validate_database_insert W r = Inr u"
  shows "\<forall>f \<in> fst ` set (ins_values r). safe_field f" "distinct (ins_conflict_keys r)"
    "\<forall>k \<in> set (ins_conflict_keys r). safe_field k \<and> k \<in> fst ` set (ins_values r)"
proof -
  from assms have v: "validate_database_values ''database_insert.values'' (ins_values r) = Inr ()"
    and k: "distinct (ins_conflict_keys r)"
      "\<forall>j < length (ins_conflict_keys r). safe_field (ins_conflict_keys r ! j)
         \<and> map_of (ins_values r) (ins_conflict_keys r ! j) \<noteq> None"
    unfolding validate_database_insert_def Let_def all_ok_eq_Inr list.set ball_simps
    by (simp_all add: try_unique_eq_Inr validate_database_field_ok check_eq_Inr)
  show "\<forall>f \<in> fst ` set (ins_values r). safe_field f" using validated_values [OF v] by blast
  show "distinct (ins_conflict_keys r)" by (fact k(1))
  show "\<forall>k \<in> set (ins_conflict_keys r). safe_field k \<and> k \<in> fst ` set (ins_values r)"
    using k(2) by (auto simp: in_set_conv_nth map_of_eq_None_iff)
qed

lemma validated_delete:
  assumes "validate_database_delete W r = Inr u"
  shows "(\<forall>f \<in> fst ` set (del_filters r). safe_field f) \<and> del_filters r \<noteq> []
    \<and> 1 \<le> uint (del_limit r) \<and> uint (del_limit r) \<le> MAX_DATABASE_MUTATION_ROWS"
proof -
  from assms have "validate_database_filters W ''database_delete.filters'' (del_filters r) True = Inr ()"
    "validate_database_mutation_limit ''database_delete.limit'' (del_limit r) = Inr ()"
    unfolding validate_database_delete_def all_ok_eq_Inr list.set ball_simps by simp_all
  then show ?thesis
    by (auto simp: validate_database_mutation_limit_def check_eq_Inr dest: validated_filters)
qed

end
