(* ===== verification/Broker_Lease.thy ===== *)
theory Broker_Lease
  imports Broker_Protocol
begin

text \<open>
  Invocation leases, the \<open>InvocationLeaseStore\<close> of \<open>crates/gadgetron-gateway/src/web/bundle_broker.rs\<close>: Core
  issues a bearer token for one invocation, bound to the tenant and actor it authenticated and to one
  signed package, and every broker operation on tenant data presents it.  \<open>Instant::now()\<close> is an argument;
  the bytes of \<open>OsRng\<close> are the list of tokens drawn, and \<open>None\<close> is a drawing loop that used them up.
\<close>

abbreviation MAX_ACTIVE_LEASES :: int where "MAX_ACTIVE_LEASES \<equiv> 4096"

record invocation_context =
  ic_tenant_id :: string
  ic_actor_id :: string
  ic_request_id :: string
  ic_acting_space_id :: "string option"
  ic_conversation_id :: "string option"
  ic_scopes :: "string list"
  ic_secret_handles :: "(string \<times> string) list"
  ic_broker_lease :: "string option"

record invocation_lease_binding =
  lb_bundle_id :: string
  lb_package_manifest_sha256 :: string
  lb_tenant_id :: string
  lb_actor_id :: string
  lb_acting_space_id :: "string option"
  lb_delegated_actor_id :: "uuid option"
  lb_request_id :: string
  lb_scopes :: "string list"
  lb_expires_at :: int

record lease_store =
  ls_ttl :: int
  ls_active :: "(string \<times> invocation_lease_binding) list"

record 'v broker_caller =
  bcl_identity :: "'v bundle_runtime_identity"
  bcl_package_manifest_sha256 :: string

definition new_broker_error :: "string \<Rightarrow> string \<Rightarrow> bool \<Rightarrow> broker_error" where
  "new_broker_error code message retryable =
     \<lparr>be_code = code, be_message = message, be_retryable = retryable, be_details = None\<rparr>"

definition lease_store_new :: "int \<Rightarrow> lease_store" where
  "lease_store_new ttl = \<lparr>ls_ttl = ttl, ls_active = []\<rparr>"

definition retain_live :: "int \<Rightarrow> lease_store \<Rightarrow> lease_store" where
  "retain_live now store = store\<lparr>ls_active := filter (\<lambda>(_, b). lb_expires_at b > now) (ls_active store)\<rparr>"

definition bind_lease ::
  "int \<Rightarrow> string \<Rightarrow> string \<Rightarrow> invocation_context \<Rightarrow> uuid option \<Rightarrow> invocation_lease_binding" where
  "bind_lease expires_at bundle_id digest ctx delegated_actor_id =
     \<lparr>lb_bundle_id = bundle_id, lb_package_manifest_sha256 = digest, lb_tenant_id = ic_tenant_id ctx,
      lb_actor_id = ic_actor_id ctx, lb_acting_space_id = ic_acting_space_id ctx,
      lb_delegated_actor_id = delegated_actor_id, lb_request_id = ic_request_id ctx,
      lb_scopes = ic_scopes ctx, lb_expires_at = expires_at\<rparr>"

definition draw_token :: "string list \<Rightarrow> (string \<times> invocation_lease_binding) list \<Rightarrow> string option" where
  "draw_token draws active = find (\<lambda>t. map_of active t = None) draws"

definition issue_lease ::
  "int \<Rightarrow> string list \<Rightarrow> string \<Rightarrow> string \<Rightarrow> invocation_context \<Rightarrow> uuid option \<Rightarrow> lease_store
   \<Rightarrow> ((string, string) result \<times> lease_store) option" where
  "issue_lease now draws bundle_id digest ctx delegated_actor_id store =
     (let store = retain_live now store
      in if len (ls_active store) \<ge> MAX_ACTIVE_LEASES
         then Some (Inl ''Bundle broker active lease ceiling reached'', store)
         else map_option (\<lambda>token.
                (Inr token,
                 store\<lparr>ls_active := bm_insert token
                   (bind_lease (now + ls_ttl store) bundle_id digest ctx delegated_actor_id)
                   (ls_active store)\<rparr>))
              (draw_token draws (ls_active store)))"

definition validate_lease ::
  "int \<Rightarrow> 'v broker_caller \<Rightarrow> string \<Rightarrow> lease_store
   \<Rightarrow> (broker_error, invocation_lease_binding) result \<times> lease_store" where
  "validate_lease now caller token store =
     (let store = retain_live now store
      in (and_then (ok_or (map_of (ls_active store) token)
              (new_broker_error ''lease-invalid'' ''invocation lease is absent or expired'' False)) (\<lambda>b.
            if lb_bundle_id b \<noteq> bri_id (bcl_identity caller)
               \<or> lb_package_manifest_sha256 b \<noteq> bcl_package_manifest_sha256 caller
            then Inl (new_broker_error ''lease-binding-mismatch''
                   ''invocation lease does not belong to this signed Bundle runtime'' False)
            else Inr b), store))"

definition revoke_lease :: "string \<Rightarrow> lease_store \<Rightarrow> lease_store" where
  "revoke_lease token store = store\<lparr>ls_active := filter (\<lambda>(t, _). t \<noteq> token) (ls_active store)\<rparr>"

section \<open>The store over time\<close>

text \<open>
  What may happen to the store: an invocation gets a lease, some runtime presents a token, the guard of
  an invocation is dropped.  A run that is waiting for a token is \<open>None\<close>.
\<close>

datatype 'v lease_event =
    Issue int "string list" string string invocation_context "uuid option"
  | Present int "'v broker_caller" string
  | Revoke string

definition lease_step :: "'v lease_event \<Rightarrow> lease_store \<Rightarrow> lease_store option" where
  "lease_step e store =
     (case e of
        Issue now draws bundle_id digest ctx delegate \<Rightarrow>
          map_option snd (issue_lease now draws bundle_id digest ctx delegate store)
      | Present now caller token \<Rightarrow> Some (snd (validate_lease now caller token store))
      | Revoke token \<Rightarrow> Some (revoke_lease token store))"

definition lease_run :: "int \<Rightarrow> 'v lease_event list \<Rightarrow> lease_store option" where
  "lease_run ttl events = fold_opt lease_step events (lease_store_new ttl)"

lemma lease_run_snoc:
  "lease_run ttl (events @ [e]) = Option.bind (lease_run ttl events) (lease_step e)"
  by (simp add: lease_run_def fold_opt_append split: option.split)

lemmas lease_op_defs = lease_step_def issue_lease_def validate_lease_def revoke_lease_def retain_live_def Let_def

lemma lease_step_ttl: "lease_step e store = Some store' \<Longrightarrow> ls_ttl store' = ls_ttl store"
  by (auto simp: lease_op_defs split: lease_event.splits if_splits)

lemma lease_run_ttl: "lease_run ttl events = Some store \<Longrightarrow> ls_ttl store = ttl"
proof (induction events arbitrary: store rule: rev_induct)
  case Nil
  then show ?case by (auto simp: lease_run_def lease_store_new_def)
next
  case (snoc e events)
  then show ?case by (auto simp: lease_run_snoc Option.bind_eq_Some_conv dest: lease_step_ttl)
qed

text \<open>The token map keeps its keys in order, so it is a map.\<close>

lemma ascending_keys_filter: "ascending (map fst m) \<Longrightarrow> ascending (map fst (filter P m))"
  by (induction m) auto

lemma lease_step_ordered:
  "lease_step e store = Some store' \<Longrightarrow> ascending (map fst (ls_active store)) \<Longrightarrow> ascending (map fst (ls_active store'))"
  by (auto simp: lease_op_defs keys_bm_insert ascending_keys_filter split: lease_event.splits if_splits)

lemma lease_run_ordered: "lease_run ttl events = Some store \<Longrightarrow> ascending (map fst (ls_active store))"
proof (induction events arbitrary: store rule: rev_induct)
  case Nil
  then show ?case by (auto simp: lease_run_def lease_store_new_def)
next
  case (snoc e events)
  then show ?case by (auto simp: lease_run_snoc Option.bind_eq_Some_conv dest: lease_step_ordered)
qed

section \<open>Every live lease was issued and not revoked since\<close>

definition issued_in ::
  "'v lease_event list \<Rightarrow> int \<Rightarrow> string \<Rightarrow> invocation_lease_binding \<Rightarrow> bool" where
  "issued_in events ttl token b \<longleftrightarrow>
     (\<exists>earlier later now draws bundle_id digest ctx delegate.
        events = earlier @ Issue now draws bundle_id digest ctx delegate # later
        \<and> token \<in> set draws \<and> b = bind_lease (now + ttl) bundle_id digest ctx delegate
        \<and> Revoke token \<notin> set later)"

lemma issued_in_snoc:
  assumes "issued_in events ttl token b" "e \<noteq> Revoke token"
  shows "issued_in (events @ [e]) ttl token b"
proof -
  from assms(1) obtain earlier later now draws bundle_id digest ctx delegate where
    "events = earlier @ Issue now draws bundle_id digest ctx delegate # later"
    "token \<in> set draws" "b = bind_lease (now + ttl) bundle_id digest ctx delegate" "Revoke token \<notin> set later"
    unfolding issued_in_def by blast
  with assms(2) show ?thesis
    unfolding issued_in_def
    by (intro exI [of _ earlier] exI [of _ "later @ [e]"] exI [of _ now] exI [of _ draws]
        exI [of _ bundle_id] exI [of _ digest] exI [of _ ctx] exI [of _ delegate]) simp
qed

lemma issued_in_new:
  "token \<in> set draws \<Longrightarrow>
     issued_in (events @ [Issue now draws bundle_id digest ctx delegate]) ttl token
       (bind_lease (now + ttl) bundle_id digest ctx delegate)"
  unfolding issued_in_def by (metis append_Nil2 empty_iff list.set(1))

lemma live_leases_were_issued:
  assumes "lease_run ttl events = Some store" "(token, b) \<in> set (ls_active store)"
  shows "issued_in events ttl token b"
  using assms
proof (induction events arbitrary: store rule: rev_induct)
  case Nil
  then show ?case by (auto simp: lease_run_def lease_store_new_def)
next
  case (snoc e events)
  then obtain store0 where run: "lease_run ttl events = Some store0" and step: "lease_step e store0 = Some store"
    by (auto simp: lease_run_snoc Option.bind_eq_Some_conv)
  note old = snoc.IH [OF run]
  show ?case
  proof (cases e)
    case (Issue now draws bundle_id digest ctx delegate)
    show ?thesis
    proof (cases "(token, b) \<in> set (ls_active store0)")
      case True
      with old Issue show ?thesis by (simp add: issued_in_snoc)
    next
      case False
      with step snoc.prems(2) Issue lease_run_ttl [OF run] have
        "token \<in> set draws" "b = bind_lease (now + ttl) bundle_id digest ctx delegate"
        by (auto simp: lease_op_defs draw_token_def find_Some_iff split: if_splits dest!: set_bm_insert [THEN subsetD])
      with Issue show ?thesis by (simp add: issued_in_new)
    qed
  next
    case (Present now caller t)
    with step snoc.prems(2) have "(token, b) \<in> set (ls_active store0)" by (auto simp: lease_op_defs)
    with old Present show ?thesis by (simp add: issued_in_snoc)
  next
    case (Revoke t)
    with step snoc.prems(2) have "(token, b) \<in> set (ls_active store0)" "t \<noteq> token" by (auto simp: lease_op_defs)
    with old Revoke show ?thesis by (simp add: issued_in_snoc)
  qed
qed

text \<open>
  (C7) Whatever a Bundle presents, a lease is honoured only when Core issued that token earlier to the
  very package that presents it, by id and by manifest digest, less than the lease time ago, with no
  revocation since; the tenant, actor and space it then acts for are the ones Core bound at that time.
\<close>

theorem honoured_lease_was_issued:
  assumes "lease_run ttl events = Some store"
    and "fst (validate_lease now caller token store) = Inr b"
  shows "\<exists>earlier later issued_at draws ctx delegate.
      events = earlier @ Issue issued_at draws (bri_id (bcl_identity caller)) (bcl_package_manifest_sha256 caller)
                          ctx delegate # later
      \<and> token \<in> set draws \<and> now < issued_at + ttl \<and> Revoke token \<notin> set later
      \<and> lb_tenant_id b = ic_tenant_id ctx \<and> lb_actor_id b = ic_actor_id ctx
      \<and> lb_acting_space_id b = ic_acting_space_id ctx \<and> lb_delegated_actor_id b = delegate"
proof -
  from assms(2) have b: "map_of (ls_active (retain_live now store)) token = Some b"
    "lb_bundle_id b = bri_id (bcl_identity caller)" "lb_package_manifest_sha256 b = bcl_package_manifest_sha256 caller"
    by (auto simp: validate_lease_def Let_def result_simps split: if_splits)
  from map_of_SomeD [OF b(1)] have "(token, b) \<in> set (ls_active store)" "now < lb_expires_at b"
    by (auto simp: retain_live_def)
  with live_leases_were_issued [OF assms(1)] b(2,3) show ?thesis
    unfolding issued_in_def by (fastforce simp: bind_lease_def)
qed

section \<open>Bounds\<close>

lemma lease_step_bounded:
  assumes "lease_step e store = Some store'" "len (ls_active store) \<le> MAX_ACTIVE_LEASES"
  shows "len (ls_active store') \<le> MAX_ACTIVE_LEASES"
proof -
  have f: "len (filter P (ls_active store)) \<le> MAX_ACTIVE_LEASES" for P
    using assms(2) length_filter_le [of P "ls_active store"] unfolding len_def by linarith
  have "len (bm_insert k v m) \<le> MAX_ACTIVE_LEASES" if "\<not> MAX_ACTIVE_LEASES \<le> len m"
    for k v and m :: "(string \<times> invocation_lease_binding) list"
  proof -
    have "len (bm_insert k v m) \<le> len m + 1" by (induction m) (auto simp: len_def)
    with that show ?thesis by linarith
  qed
  with assms(1) f show ?thesis
    by (auto simp: lease_op_defs split: lease_event.splits if_splits)
qed

lemma active_leases_bounded:
  "lease_run ttl events = Some store \<Longrightarrow> len (ls_active store) \<le> MAX_ACTIVE_LEASES"
proof (induction events arbitrary: store rule: rev_induct)
  case Nil
  then show ?case by (auto simp: lease_run_def lease_store_new_def len_def)
next
  case (snoc e events)
  then show ?case by (auto simp: lease_run_snoc Option.bind_eq_Some_conv dest: lease_step_bounded)
qed

text \<open>Drawing ends: among as many different tokens as there may be leases, one is fresh.\<close>

lemma issue_returns:
  assumes "distinct draws" "len draws \<ge> MAX_ACTIVE_LEASES"
  shows "issue_lease now draws bundle_id digest ctx delegate store \<noteq> None"
proof (cases "len (ls_active (retain_live now store)) \<ge> MAX_ACTIVE_LEASES")
  case True
  then show ?thesis by (simp add: issue_lease_def Let_def)
next
  case False
  let ?keys = "fst ` set (ls_active (retain_live now store))"
  have "card ?keys \<le> length (ls_active (retain_live now store))"
    using card_image_le [of "set (ls_active (retain_live now store))" fst]
      card_length [of "ls_active (retain_live now store)"] by simp
  also from False have "\<dots> < length draws" using assms(2) by (simp add: len_def)
  finally have "\<not> set draws \<subseteq> ?keys"
    using assms(1) distinct_card card_mono [of ?keys "set draws"] by fastforce
  then obtain t where "t \<in> set draws" "map_of (ls_active (retain_live now store)) t = None"
    by (auto simp: map_of_eq_None_iff)
  then have "draw_token draws (ls_active (retain_live now store)) \<noteq> None"
    by (auto simp: draw_token_def find_None_iff)
  with False show ?thesis by (simp add: issue_lease_def Let_def)
qed

section \<open>A run of the store\<close>

definition sample_context :: invocation_context where
  "sample_context =
     \<lparr>ic_tenant_id = ''tenant-1'', ic_actor_id = ''manager-1'', ic_request_id = ''request-1'',
      ic_acting_space_id = None, ic_conversation_id = None, ic_scopes = [], ic_secret_handles = [],
      ic_broker_lease = None\<rparr>"

definition sample_caller :: "string \<Rightarrow> nat broker_caller" where
  "sample_caller digest =
     \<lparr>bcl_identity = \<lparr>bri_id = ''server-administrator'', bri_version = 1\<rparr>, bcl_package_manifest_sha256 = digest\<rparr>"

definition sample_events :: "nat lease_event list" where
  "sample_events =
     [Issue 0 [''tok''] ''server-administrator'' ''digest'' sample_context None,
      Present 10 (sample_caller ''other'') ''tok'']"

theorem honoured_lease_was_issued_witness:
  "\<exists>store b. lease_run 90 sample_events = Some store
     \<and> fst (validate_lease 89 (sample_caller ''digest'') ''tok'' store) = Inr b \<and> lb_tenant_id b = ''tenant-1''"
proof -
  have "map_option (\<lambda>s. map_sum (\<lambda>_. ()) lb_actor_id (fst (validate_lease 89 (sample_caller ''digest'') ''tok'' s)))
      (lease_run 90 sample_events) = Some (Inr ''manager-1'')"
    by code_simp
  then obtain store where r: "lease_run 90 sample_events = Some store"
    and "map_sum (\<lambda>_. ()) lb_actor_id (fst (validate_lease 89 (sample_caller ''digest'') ''tok'' store)) = Inr ''manager-1''"
    by (cases "lease_run 90 sample_events") auto
  then obtain b where v: "fst (validate_lease 89 (sample_caller ''digest'') ''tok'' store) = Inr b"
    by (cases "fst (validate_lease 89 (sample_caller ''digest'') ''tok'' store)") auto
  from honoured_lease_was_issued [OF r v] have "lb_tenant_id b = ic_tenant_id sample_context"
    by (auto simp: sample_events_def Cons_eq_append_conv)
  with r v show ?thesis by (auto simp: sample_context_def)
qed

lemma expired_lease_refused:
  "map_option (\<lambda>s. map_sum be_code (\<lambda>_. ()) (fst (validate_lease 90 (sample_caller ''digest'') ''tok'' s)))
      (lease_run 90 sample_events) = Some (Inl ''lease-invalid'')"
  by code_simp

end
