(* ===== verification/Knowledge_Events.thy ===== *)
theory Knowledge_Events
  imports Sql_Model
begin

text \<open>
  The outbox of knowledge events, \<open>crates/gadgetron-xaas/src/knowledge_events.rs\<close>, and the worker that drains
  it, \<open>crates/gadgetron-gateway/src/knowledge_events.rs\<close>.

  The table \<open>knowledge_event_outbox\<close> is the list of its rows; an operation is the list operation its SQL
  denotes, with the constraints of \<open>migrations/20260717000004_knowledge_event_bridge.sql\<close>.  \<open>NOW()\<close> (in
  microseconds), generated identifiers, the rows other transactions hold locked and the referenced tables
  are arguments.
\<close>

section \<open>Data\<close>

abbreviation OUTBOX_MAX_ATTEMPTS :: int where "OUTBOX_MAX_ATTEMPTS \<equiv> 3"
abbreviation OUTBOX_LEASE_SECONDS :: int where "OUTBOX_LEASE_SECONDS \<equiv> 30"

record enqueue_knowledge_event =
  eq_tenant_id :: uuid
  eq_descriptor_id :: string
  eq_event_kind :: string
  eq_publisher_bundle_id :: string
  eq_subject_kind :: string
  eq_subject_id :: string
  eq_subject_revision :: string
  eq_snapshot :: json
  eq_snapshot_hash :: string
  eq_source_title :: string
  eq_source_path_prefix :: string
  eq_acting_space_id :: uuid
  eq_output_vault_bundle :: string
  eq_knowledge_schema_id :: string
  eq_researcher_bundle_id :: string
  eq_researcher_role_id :: string
  eq_requested_by_user_id :: uuid
  eq_service_actor_user_id :: uuid
  eq_effective_role :: string

datatype event_status = EventPending | EventProcessing | EventCompleted | EventFailed

record knowledge_event_row =
  ob_id :: uuid
  ob_event :: enqueue_knowledge_event
  ob_status :: event_status
  ob_attempt_count :: int
  ob_next_attempt_at :: int
  ob_lease_owner :: "string option"
  ob_lease_expires_at :: "int option"
  ob_last_error :: "string option"
  ob_source_id :: "uuid option"
  ob_knowledge_job_id :: "uuid option"
  ob_created_at :: int
  ob_updated_at :: int
  ob_completed_at :: "int option"
  ob_oversight_recorded_at :: "int option"

type_synonym outbox = "knowledge_event_row list"

datatype failure_disposition = RetryLater | Terminal

datatype outbox_error = OutboxRowNotFound | OutboxConstraint | OutboxUnavailable

text \<open>The tables the outbox refers to.\<close>

record outbox_refs =
  or_tenant :: "uuid \<Rightarrow> bool"
  or_space :: "uuid \<Rightarrow> uuid \<Rightarrow> bool"
  or_user :: "uuid \<Rightarrow> uuid \<Rightarrow> bool"
  or_source :: "uuid \<Rightarrow> uuid \<Rightarrow> bool"
  or_job :: "uuid \<Rightarrow> uuid \<Rightarrow> bool"

section \<open>Enqueuing\<close>

definition outbox_key ::
  "enqueue_knowledge_event \<Rightarrow> uuid \<times> string \<times> string \<times> string \<times> string \<times> string \<times> string \<times> string" where
  "outbox_key e =
     (eq_tenant_id e, eq_publisher_bundle_id e, eq_event_kind e, eq_subject_kind e, eq_subject_id e,
      eq_subject_revision e, eq_researcher_bundle_id e, eq_researcher_role_id e)"

definition path_prefix_ok :: "string \<Rightarrow> bool" where
  "path_prefix_ok s \<longleftrightarrow>
     (case s of [] \<Rightarrow> False
      | c # cs \<Rightarrow> (is_ascii_lowercase c \<or> is_ascii_digit c) \<and> len cs \<le> 62
          \<and> list_all (\<lambda>c. is_ascii_lowercase c \<or> is_ascii_digit c \<or> c = CHR ''-'') cs)"

definition event_checks :: "enqueue_knowledge_event \<Rightarrow> bool" where
  "event_checks e \<longleftrightarrow>
     text_length_within 256 (eq_subject_id e) \<and> text_length_within 256 (eq_subject_revision e)
     \<and> as_object (eq_snapshot e) \<noteq> None
     \<and> take 7 (eq_snapshot_hash e) = ''sha256:'' \<and> is_sha256_text (drop 7 (eq_snapshot_hash e))
     \<and> text_length_within 512 (btrim (eq_source_title e)) \<and> path_prefix_ok (eq_source_path_prefix e)
     \<and> text_length_within 256 (btrim (eq_knowledge_schema_id e))
     \<and> eq_effective_role e \<in> set [''contributor'', ''curator'', ''manager'']"

definition event_refs_exist :: "outbox_refs \<Rightarrow> enqueue_knowledge_event \<Rightarrow> bool" where
  "event_refs_exist R e \<longleftrightarrow>
     or_tenant R (eq_tenant_id e) \<and> or_space R (eq_tenant_id e) (eq_acting_space_id e)
     \<and> or_user R (eq_tenant_id e) (eq_requested_by_user_id e) \<and> or_user R (eq_tenant_id e) (eq_service_actor_user_id e)"

definition new_event_row :: "uuid \<Rightarrow> int \<Rightarrow> enqueue_knowledge_event \<Rightarrow> knowledge_event_row" where
  "new_event_row new_id now e =
     \<lparr>ob_id = new_id, ob_event = e, ob_status = EventPending, ob_attempt_count = 0, ob_next_attempt_at = now,
      ob_lease_owner = None, ob_lease_expires_at = None, ob_last_error = None, ob_source_id = None,
      ob_knowledge_job_id = None, ob_created_at = now, ob_updated_at = now, ob_completed_at = None,
      ob_oversight_recorded_at = None\<rparr>"

definition enqueue_in_transaction ::
  "outbox_refs \<Rightarrow> uuid \<Rightarrow> int \<Rightarrow> enqueue_knowledge_event \<Rightarrow> outbox \<Rightarrow> (outbox_error, uuid) result \<times> outbox" where
  "enqueue_in_transaction R new_id now e rows =
     (if \<not> event_checks e then (Inl OutboxConstraint, rows)
      else case find (\<lambda>r. outbox_key (ob_event r) = outbox_key e) rows of
        Some r \<Rightarrow> (Inr (ob_id r), rows)
      | None \<Rightarrow>
          if \<not> event_refs_exist R e \<or> list_ex (\<lambda>r. ob_id r = new_id) rows then (Inl OutboxConstraint, rows)
          else (Inr new_id, rows @ [new_event_row new_id now e]))"

section \<open>Leasing and settling\<close>

definition interval_seconds :: "int \<Rightarrow> int" where
  "interval_seconds s = s * 1000000"

definition update_event :: "uuid \<Rightarrow> (knowledge_event_row \<Rightarrow> knowledge_event_row) \<Rightarrow> outbox \<Rightarrow> outbox" where
  "update_event event_id f rows = map (\<lambda>r. if ob_id r = event_id then f r else r) rows"

definition claimable :: "int \<Rightarrow> knowledge_event_row \<Rightarrow> bool" where
  "claimable now r \<longleftrightarrow>
     ob_attempt_count r < OUTBOX_MAX_ATTEMPTS \<and> ob_next_attempt_at r \<le> now
     \<and> (ob_status r = EventPending
        \<or> (ob_status r = EventProcessing \<and> (case ob_lease_expires_at r of None \<Rightarrow> False | Some t \<Rightarrow> t \<le> now)))"

definition claim_order :: "knowledge_event_row \<Rightarrow> knowledge_event_row \<Rightarrow> bool" where
  "claim_order a b \<longleftrightarrow>
     (ob_next_attempt_at a, ob_created_at a, uint (ob_id a)) \<le> (ob_next_attempt_at b, ob_created_at b, uint (ob_id b))"

definition claimed :: "int \<Rightarrow> string \<Rightarrow> int \<Rightarrow> knowledge_event_row \<Rightarrow> knowledge_event_row" where
  "claimed now worker_id lease_seconds r =
     r\<lparr>ob_status := EventProcessing, ob_attempt_count := ob_attempt_count r + 1, ob_lease_owner := Some worker_id,
       ob_lease_expires_at := Some (now + interval_seconds lease_seconds), ob_updated_at := now\<rparr>"

definition lease_next ::
  "int \<Rightarrow> uuid list \<Rightarrow> string \<Rightarrow> int \<Rightarrow> outbox \<Rightarrow> knowledge_event_row option \<times> outbox" where
  "lease_next now locked worker_id lease_seconds rows =
     (case sort_by claim_order (filter (\<lambda>r. claimable now r \<and> ob_id r \<notin> set locked) rows) of
        [] \<Rightarrow> (None, rows)
      | r # _ \<Rightarrow> (Some (claimed now worker_id lease_seconds r), update_event (ob_id r) (claimed now worker_id lease_seconds) rows))"

definition held_by :: "uuid \<Rightarrow> string \<Rightarrow> outbox \<Rightarrow> knowledge_event_row option" where
  "held_by event_id worker_id rows =
     find (\<lambda>r. ob_id r = event_id \<and> ob_status r = EventProcessing \<and> ob_lease_owner r = Some worker_id) rows"

definition completed :: "int \<Rightarrow> uuid \<Rightarrow> uuid \<Rightarrow> knowledge_event_row \<Rightarrow> knowledge_event_row" where
  "completed now source_id job_id r =
     r\<lparr>ob_status := EventCompleted, ob_source_id := Some source_id, ob_knowledge_job_id := Some job_id,
       ob_completed_at := Some now, ob_lease_owner := None, ob_lease_expires_at := None, ob_last_error := None,
       ob_updated_at := now\<rparr>"

definition complete_event ::
  "outbox_refs \<Rightarrow> int \<Rightarrow> uuid \<Rightarrow> string \<Rightarrow> uuid \<Rightarrow> uuid \<Rightarrow> outbox \<Rightarrow> (outbox_error, knowledge_event_row) result \<times> outbox" where
  "complete_event R now event_id worker_id source_id job_id rows =
     (case held_by event_id worker_id rows of
        None \<Rightarrow> (Inl OutboxRowNotFound, rows)
      | Some r \<Rightarrow>
          if \<not> (or_source R (eq_tenant_id (ob_event r)) source_id \<and> or_job R (eq_tenant_id (ob_event r)) job_id)
          then (Inl OutboxConstraint, rows)
          else (Inr (completed now source_id job_id r), update_event event_id (completed now source_id job_id) rows))"

definition failed :: "int \<Rightarrow> string \<Rightarrow> knowledge_event_row \<Rightarrow> knowledge_event_row" where
  "failed now detail r =
     r\<lparr>ob_status := (if ob_attempt_count r \<ge> OUTBOX_MAX_ATTEMPTS then EventFailed else EventPending),
       ob_next_attempt_at := (if ob_attempt_count r \<ge> OUTBOX_MAX_ATTEMPTS then ob_next_attempt_at r
                              else now + interval_seconds (ob_attempt_count r * 2)),
       ob_lease_owner := None, ob_lease_expires_at := None, ob_last_error := Some detail, ob_updated_at := now\<rparr>"

definition clip_chars :: "nat \<Rightarrow> string \<Rightarrow> string" where
  "clip_chars n s = concat (take n (utf8_chunks s))"

definition fail_event ::
  "int \<Rightarrow> uuid \<Rightarrow> string \<Rightarrow> string \<Rightarrow> outbox \<Rightarrow> (outbox_error, failure_disposition) result \<times> outbox" where
  "fail_event now event_id worker_id detail rows =
     (let clipped = clip_chars 1000 detail
      in case held_by event_id worker_id rows of
        None \<Rightarrow> (Inl OutboxRowNotFound, rows)
      | Some r \<Rightarrow>
          (Inr (if ob_status (failed now clipped r) = EventFailed then Terminal else RetryLater),
           update_event event_id (failed now clipped) rows))"

section \<open>Reading and reporting\<close>

definition get_event :: "uuid \<Rightarrow> uuid \<Rightarrow> outbox \<Rightarrow> (outbox_error, knowledge_event_row) result" where
  "get_event tenant_id event_id rows =
     ok_or (find (\<lambda>r. eq_tenant_id (ob_event r) = tenant_id \<and> ob_id r = event_id) rows) OutboxRowNotFound"

definition unreported :: "knowledge_event_row \<Rightarrow> bool" where
  "unreported r \<longleftrightarrow> ob_status r = EventFailed \<and> ob_oversight_recorded_at r = None"

definition next_unreported_failure :: "outbox \<Rightarrow> knowledge_event_row option" where
  "next_unreported_failure rows =
     (case sort_by (\<lambda>a b. (ob_updated_at a, uint (ob_id a)) \<le> (ob_updated_at b, uint (ob_id b))) (filter unreported rows) of
        [] \<Rightarrow> None | r # _ \<Rightarrow> Some r)"

definition recorded :: "int \<Rightarrow> knowledge_event_row \<Rightarrow> knowledge_event_row" where
  "recorded now r = (if unreported r then r\<lparr>ob_oversight_recorded_at := Some now, ob_updated_at := now\<rparr> else r)"

definition mark_oversight_recorded :: "int \<Rightarrow> uuid \<Rightarrow> outbox \<Rightarrow> outbox" where
  "mark_oversight_recorded now event_id rows =
     update_event event_id (recorded now) rows"

section \<open>The worker\<close>

text \<open>
  One round of \<open>worker_loop\<close>.  The numbered statements have a time and may fail; \<open>materialize\<close> and
  \<open>record_terminal_failure\<close> reach other services and are arguments.
\<close>

record worker_world =
  ww_up :: "nat \<Rightarrow> bool"
  ww_now :: "nat \<Rightarrow> int"
  ww_locked :: "uuid list"
  ww_materialize :: "knowledge_event_row \<Rightarrow> (string, uuid \<times> uuid) result"
  ww_record_terminal :: "knowledge_event_row \<Rightarrow> string \<Rightarrow> bool"

definition report_failure :: "worker_world \<Rightarrow> nat \<Rightarrow> knowledge_event_row \<Rightarrow> string \<Rightarrow> outbox \<Rightarrow> outbox" where
  "report_failure W i r detail rows =
     (if ww_record_terminal W r detail \<and> ww_up W i then mark_oversight_recorded (ww_now W i) (ob_id r) rows else rows)"

definition report_round :: "worker_world \<Rightarrow> outbox \<Rightarrow> outbox" where
  "report_round W rows =
     (if \<not> ww_up W 0 then rows
      else case next_unreported_failure rows of
        None \<Rightarrow> rows
      | Some r \<Rightarrow>
          report_failure W 1 r
           (case ob_last_error r of Some e \<Rightarrow> e | None \<Rightarrow> ''Knowledge event materialization failed'') rows)"

definition settle_round :: "outbox_refs \<Rightarrow> worker_world \<Rightarrow> string \<Rightarrow> knowledge_event_row \<Rightarrow> outbox \<Rightarrow> outbox" where
  "settle_round R W worker_id r rows =
     (if \<not> ww_up W 3 then rows
      else case ww_materialize W r of
        Inr (source_id, job_id) \<Rightarrow> snd (complete_event R (ww_now W 3) (ob_id r) worker_id source_id job_id rows)
      | Inl e \<Rightarrow>
          (case fail_event (ww_now W 3) (ob_id r) worker_id e rows of
             (Inr Terminal, rows) \<Rightarrow> report_failure W 4 r e rows
           | (_, rows) \<Rightarrow> rows))"

definition worker_round :: "outbox_refs \<Rightarrow> worker_world \<Rightarrow> string \<Rightarrow> outbox \<Rightarrow> outbox" where
  "worker_round R W worker_id rows =
     (let rows = report_round W rows
      in if \<not> ww_up W 2 then rows
         else case lease_next (ww_now W 2) (ww_locked W) worker_id OUTBOX_LEASE_SECONDS rows of
           (None, rows) \<Rightarrow> rows
         | (Some r, rows) \<Rightarrow> settle_round R W worker_id r rows)"

section \<open>Runs\<close>

text \<open>
  The operations of any number of workers and publishers, in the order the database performs them, and the
  log of the leases they obtained.
\<close>

datatype outbox_op =
    OpEnqueue uuid int enqueue_knowledge_event
  | OpLease int "uuid list" string int
  | OpComplete int uuid string uuid uuid
  | OpFail int uuid string string
  | OpReport int uuid

definition apply_op :: "outbox_refs \<Rightarrow> outbox_op \<Rightarrow> outbox \<Rightarrow> outbox" where
  "apply_op R op rows =
     (case op of
        OpEnqueue new_id now e \<Rightarrow> snd (enqueue_in_transaction R new_id now e rows)
      | OpLease now locked w secs \<Rightarrow> snd (lease_next now locked w secs rows)
      | OpComplete now i w source job \<Rightarrow> snd (complete_event R now i w source job rows)
      | OpFail now i w detail \<Rightarrow> snd (fail_event now i w detail rows)
      | OpReport now i \<Rightarrow> mark_oversight_recorded now i rows)"

definition op_leases :: "outbox_op \<Rightarrow> outbox \<Rightarrow> (uuid \<times> string) list" where
  "op_leases op rows =
     (case op of
        OpLease now locked w secs \<Rightarrow>
          (case fst (lease_next now locked w secs rows) of None \<Rightarrow> [] | Some r \<Rightarrow> [(ob_id r, w)])
      | _ \<Rightarrow> [])"

definition outbox_run :: "outbox_refs \<Rightarrow> outbox_op list \<Rightarrow> outbox \<times> (uuid \<times> string) list" where
  "outbox_run R ops = fold (\<lambda>op (rows, log). (apply_op R op rows, log @ op_leases op rows)) ops ([], [])"

definition workers_of :: "uuid \<Rightarrow> (uuid \<times> string) list \<Rightarrow> string list" where
  "workers_of i leases = map snd (filter (\<lambda>l. fst l = i) leases)"

lemma workers_of_append [simp]: "workers_of i (a @ b) = workers_of i a @ workers_of i b"
  by (simp add: workers_of_def)

lemma workers_of_Nil [simp]: "workers_of i [] = []"
  by (simp add: workers_of_def)

lemma workers_of_single [simp]: "workers_of i [(j, w)] = (if i = j then [w] else [])"
  by (simp add: workers_of_def)

text \<open>A row is described by the workers it was leased to, in order.\<close>

definition row_ok :: "string list \<Rightarrow> knowledge_event_row \<Rightarrow> bool" where
  "row_ok ws r \<longleftrightarrow>
     ob_attempt_count r = len ws \<and> len ws \<le> OUTBOX_MAX_ATTEMPTS
     \<and> (case ob_status r of
          EventPending \<Rightarrow> len ws < OUTBOX_MAX_ATTEMPTS \<and> ob_lease_owner r = None \<and> ob_lease_expires_at r = None
        | EventProcessing \<Rightarrow> ws \<noteq> [] \<and> ob_lease_owner r = Some (last ws) \<and> ob_lease_expires_at r \<noteq> None
        | EventCompleted \<Rightarrow> ob_lease_owner r = None \<and> ob_source_id r \<noteq> None \<and> ob_knowledge_job_id r \<noteq> None
        | EventFailed \<Rightarrow> len ws = OUTBOX_MAX_ATTEMPTS \<and> ob_lease_owner r = None \<and> ob_last_error r \<noteq> None)
     \<and> (ob_status r \<noteq> EventCompleted \<longrightarrow> ob_source_id r = None \<and> ob_knowledge_job_id r = None)
     \<and> (ob_status r \<noteq> EventFailed \<longrightarrow> ob_oversight_recorded_at r = None)"

definition outbox_ok :: "outbox \<Rightarrow> (uuid \<times> string) list \<Rightarrow> bool" where
  "outbox_ok rows leases \<longleftrightarrow>
     distinct (map ob_id rows) \<and> distinct (map (outbox_key \<circ> ob_event) rows)
     \<and> (\<forall>r \<in> set rows. row_ok (workers_of (ob_id r) leases) r) \<and> (\<forall>l \<in> set leases. fst l \<in> ob_id ` set rows)"

definition keeps_identity :: "(knowledge_event_row \<Rightarrow> knowledge_event_row) \<Rightarrow> bool" where
  "keeps_identity f \<longleftrightarrow> (\<forall>r. ob_id (f r) = ob_id r \<and> ob_event (f r) = ob_event r)"

lemma keeps_identity_updates [simp]:
  "keeps_identity (claimed now w secs)" "keeps_identity (completed now source job)" "keeps_identity (failed now detail)"
  "keeps_identity (recorded now)"
  by (simp_all add: keeps_identity_def claimed_def completed_def failed_def recorded_def)

lemma update_event_maps:
  assumes "keeps_identity f"
  shows "map ob_id (update_event i f rows) = map ob_id rows"
    and "map (outbox_key \<circ> ob_event) (update_event i f rows) = map (outbox_key \<circ> ob_event) rows"
  using assms by (auto simp: update_event_def keeps_identity_def)

lemma update_event_ok:
  assumes "outbox_ok rows leases" "keeps_identity f" "r \<in> set rows"
    and "row_ok (workers_of (ob_id r) leases) r \<Longrightarrow> row_ok (workers_of (ob_id r) (leases @ extra)) (f r)"
    and "\<forall>l \<in> set extra. fst l = ob_id r"
  shows "outbox_ok (update_event (ob_id r) f rows) (leases @ extra)"
proof -
  have d: "distinct (map ob_id rows)" using assms(1) by (simp add: outbox_ok_def)
  have same: "s = r" if "s \<in> set rows" "ob_id s = ob_id r" for s
    using d that(1) assms(3) that(2) by (rule same_image)
  have others: "workers_of (ob_id s) extra = []" if "ob_id s \<noteq> ob_id r" for s
    using assms(5) that by (auto simp: workers_of_def filter_empty_conv)
  have "row_ok (workers_of (ob_id s) (leases @ extra)) s" if "s \<in> set (update_event (ob_id r) f rows)" for s
  proof -
    from that obtain x where x: "x \<in> set rows" "s = (if ob_id x = ob_id r then f x else x)"
      by (auto simp: update_event_def)
    show ?thesis
    proof (cases "ob_id x = ob_id r")
      case True
      with x same have "s = f r" by metis
      moreover have "row_ok (workers_of (ob_id r) leases) r" using assms(1,3) by (simp add: outbox_ok_def)
      ultimately show ?thesis using assms(2,4) by (simp add: keeps_identity_def)
    next
      case False
      with x assms(1) others [of x] show ?thesis by (simp add: outbox_ok_def)
    qed
  qed
  moreover have "ob_id ` set (update_event (ob_id r) f rows) = ob_id ` set rows"
    using update_event_maps(1) [OF assms(2), of "ob_id r" rows] by (metis list.set_map)
  ultimately show ?thesis
    using assms(1,3,5) update_event_maps [OF assms(2), of "ob_id r" rows] unfolding outbox_ok_def by auto
qed

lemma update_event_absent: "i \<notin> ob_id ` set rows \<Longrightarrow> update_event i f rows = rows"
  unfolding update_event_def by (rule map_idI) auto

lemma lease_next_cases:
  obtains (none) "lease_next now locked w secs rows = (None, rows)"
    | (some) r where "r \<in> set rows" "claimable now r" "ob_id r \<notin> set locked"
      "lease_next now locked w secs rows = (Some (claimed now w secs r), update_event (ob_id r) (claimed now w secs) rows)"
proof (cases "sort_by claim_order (filter (\<lambda>r. claimable now r \<and> ob_id r \<notin> set locked) rows)")
  case Nil
  then show ?thesis by (intro none) (simp add: lease_next_def)
next
  case (Cons r rs)
  then have "r \<in> set (sort_by claim_order (filter (\<lambda>r. claimable now r \<and> ob_id r \<notin> set locked) rows))" by simp
  then have "r \<in> set rows" "claimable now r" "ob_id r \<notin> set locked" by (simp_all add: set_sort_by)
  then show ?thesis by (rule some) (simp add: lease_next_def Cons)
qed

lemma held_by_Some:
  "held_by i w rows = Some r \<Longrightarrow>
     r \<in> set rows \<and> ob_id r = i \<and> ob_status r = EventProcessing \<and> ob_lease_owner r = Some w"
  by (auto simp: held_by_def find_Some_iff)

lemma apply_op_ok:
  assumes "outbox_ok rows leases"
  shows "outbox_ok (apply_op R op rows) (leases @ op_leases op rows)"
proof (cases op)
  case (OpEnqueue new_id now e)
  have "outbox_ok (rows @ [new_event_row new_id now e]) leases"
    if "find (\<lambda>r. outbox_key (ob_event r) = outbox_key e) rows = None" "\<not> list_ex (\<lambda>r. ob_id r = new_id) rows"
  proof -
    have "workers_of new_id leases = []"
      using assms that(2) unfolding outbox_ok_def workers_of_def by (force simp: filter_empty_conv list_ex_iff)
    then have "row_ok (workers_of new_id leases) (new_event_row new_id now e)"
      by (simp add: row_ok_def new_event_row_def len_def)
    with assms that show ?thesis
      by (auto simp: outbox_ok_def new_event_row_def find_None_iff list_ex_iff)
  qed
  with OpEnqueue assms show ?thesis
    by (auto simp: apply_op_def op_leases_def enqueue_in_transaction_def split: option.splits)
next
  case (OpLease now locked w secs)
  show ?thesis
  proof (cases now locked w secs rows rule: lease_next_cases)
    case none
    with OpLease assms show ?thesis by (simp add: apply_op_def op_leases_def)
  next
    case (some r)
    have "outbox_ok (update_event (ob_id r) (claimed now w secs) rows) (leases @ [(ob_id r, w)])"
      using some(2) by (intro update_event_ok [OF assms _ some(1)])
        (auto simp: row_ok_def claimable_def claimed_def len_def split: event_status.splits)
    with OpLease some show ?thesis by (simp add: apply_op_def op_leases_def claimed_def)
  qed
next
  case (OpComplete now i w source job)
  have "outbox_ok (update_event i (completed now source job) rows) leases" if "held_by i w rows = Some r" for r
  proof -
    from held_by_Some [OF that] have r: "r \<in> set rows" "ob_id r = i" "ob_status r = EventProcessing" by auto
    have "outbox_ok (update_event (ob_id r) (completed now source job) rows) (leases @ [])"
      using r(3) by (intro update_event_ok [OF assms _ r(1)]) (auto simp: row_ok_def completed_def)
    with r(2) show ?thesis by simp
  qed
  with OpComplete assms show ?thesis
    by (auto simp: apply_op_def op_leases_def complete_event_def split: option.splits)
next
  case (OpFail now i w detail)
  have "outbox_ok (update_event i (failed now d) rows) leases" if "held_by i w rows = Some r" for r d
  proof -
    from held_by_Some [OF that] have r: "r \<in> set rows" "ob_id r = i" "ob_status r = EventProcessing" by auto
    have "outbox_ok (update_event (ob_id r) (failed now d) rows) (leases @ [])"
      using r(3) by (intro update_event_ok [OF assms _ r(1)]) (auto simp: row_ok_def failed_def)
    with r(2) show ?thesis by simp
  qed
  with OpFail assms show ?thesis
    by (auto simp: apply_op_def op_leases_def fail_event_def Let_def split: option.splits)
next
  case (OpReport now i)
  show ?thesis
  proof (cases "i \<in> ob_id ` set rows")
    case True
    then obtain r where r: "r \<in> set rows" "ob_id r = i" by auto
    have "outbox_ok (update_event (ob_id r) (recorded now) rows) (leases @ [])"
      by (intro update_event_ok [OF assms _ r(1)]) (auto simp: row_ok_def recorded_def unreported_def)
    with r(2) OpReport show ?thesis by (simp add: apply_op_def op_leases_def mark_oversight_recorded_def)
  next
    case False
    with OpReport assms show ?thesis
      by (simp add: apply_op_def op_leases_def mark_oversight_recorded_def update_event_absent)
  qed
qed

lemma outbox_run_snoc:
  "outbox_run R (ops @ [op]) = (case outbox_run R ops of (rows, leases) \<Rightarrow> (apply_op R op rows, leases @ op_leases op rows))"
  by (simp add: outbox_run_def)

lemma outbox_run_ok: "outbox_run R ops = (rows, leases) \<Longrightarrow> outbox_ok rows leases"
proof (induction ops arbitrary: rows leases rule: rev_induct)
  case Nil
  then show ?case by (simp add: outbox_run_def outbox_ok_def)
next
  case (snoc op ops)
  obtain rows' leases' where r: "outbox_run R ops = (rows', leases')" by (cases "outbox_run R ops")
  with snoc.prems have "rows = apply_op R op rows'" "leases = leases' @ op_leases op rows'"
    by (simp_all add: outbox_run_snoc)
  with apply_op_ok [OF snoc.IH [OF r]] show ?case by simp
qed

section \<open>What workers can rely on\<close>

text \<open>
  (C17) An event is handed to a worker at most three times, whatever the interleaving of workers, failures and
  expired leases; and it is given up as failed only after exactly three attempts, with an error recorded.
\<close>

theorem event_leased_at_most_thrice:
  assumes "outbox_run R ops = (rows, leases)"
  shows "len (workers_of event_id leases) \<le> OUTBOX_MAX_ATTEMPTS
    \<and> (\<forall>r \<in> set rows. ob_status r = EventFailed \<longrightarrow>
        len (workers_of (ob_id r) leases) = OUTBOX_MAX_ATTEMPTS \<and> ob_last_error r \<noteq> None)"
proof -
  note ok = outbox_run_ok [OF assms]
  have "len (workers_of event_id leases) \<le> OUTBOX_MAX_ATTEMPTS"
  proof (cases "event_id \<in> ob_id ` set rows")
    case True
    with ok show ?thesis by (auto simp: outbox_ok_def row_ok_def)
  next
    case False
    with ok have "workers_of event_id leases = []" unfolding outbox_ok_def workers_of_def by (force simp: filter_empty_conv)
    then show ?thesis by (simp add: len_def)
  qed
  moreover have "len (workers_of (ob_id r) leases) = OUTBOX_MAX_ATTEMPTS \<and> ob_last_error r \<noteq> None"
    if "r \<in> set rows" "ob_status r = EventFailed" for r
    using ok that by (auto simp: outbox_ok_def row_ok_def)
  ultimately show ?thesis by blast
qed

text \<open>
  (C37) Only the worker that leased an event last can settle it: when an expired lease was taken over by
  another worker, the completion and the failure the first worker reports are refused and change nothing.
\<close>

theorem only_last_lessee_settles:
  assumes "outbox_run R ops = (rows, leases)"
    and "workers_of event_id leases = [] \<or> last (workers_of event_id leases) \<noteq> worker_id"
  shows "complete_event R now event_id worker_id source_id job_id rows = (Inl OutboxRowNotFound, rows)
    \<and> fail_event now event_id worker_id detail rows = (Inl OutboxRowNotFound, rows)"
proof -
  have "held_by event_id worker_id rows = None"
  proof (cases "held_by event_id worker_id rows")
    case (Some r)
    with held_by_Some [OF this] outbox_run_ok [OF assms(1)] assms(2) show ?thesis
      by (auto simp: outbox_ok_def row_ok_def)
  qed
  then show ?thesis by (simp add: complete_event_def fail_event_def)
qed

lemma apply_op_keeps_rows:
  assumes "r \<in> set rows"
  obtains r' where "r' \<in> set (apply_op R op rows)" "ob_id r' = ob_id r" "ob_event r' = ob_event r"
proof -
  have "\<exists>r' \<in> set (update_event i f rows). ob_id r' = ob_id r \<and> ob_event r' = ob_event r" if "keeps_identity f" for i f
    using assms that by (auto simp: update_event_def keeps_identity_def)
  then have "\<exists>r' \<in> set (apply_op R op rows). ob_id r' = ob_id r \<and> ob_event r' = ob_event r"
    using assms
    by (cases op)
      (auto simp: apply_op_def enqueue_in_transaction_def lease_next_def complete_event_def fail_event_def Let_def
        mark_oversight_recorded_def split: option.splits list.splits)
  with that show thesis by blast
qed

lemma run_keeps_rows:
  assumes "r \<in> set rows"
  shows "\<exists>r' \<in> set (fold (apply_op R) ops rows). ob_id r' = ob_id r \<and> ob_event r' = ob_event r"
  using assms
proof (induction ops arbitrary: rows r)
  case (Cons op ops)
  from apply_op_keeps_rows [OF Cons.prems] obtain r'
    where "r' \<in> set (apply_op R op rows)" "ob_id r' = ob_id r" "ob_event r' = ob_event r" .
  from Cons.IH [OF this(1)] this(2,3) show ?case by simp
qed auto

lemma outbox_run_append: "fst (outbox_run R (ops @ ops')) = fold (apply_op R) ops' (fst (outbox_run R ops))"
  by (induction ops' rule: rev_induct) (auto simp: outbox_run_snoc simp flip: append_assoc split: prod.split)

lemma enqueue_registers:
  assumes "enqueue_in_transaction R new_id now e rows = (Inr i, rows')"
  shows "\<exists>r \<in> set rows'. ob_id r = i \<and> outbox_key (ob_event r) = outbox_key e"
  using assms
  by (auto simp: enqueue_in_transaction_def new_event_row_def find_Some_iff split: if_splits option.splits)

text \<open>
  Publishing the same revision of a subject again gives the event that is already there, whatever happened
  to it since, and adds nothing.
\<close>

lemma enqueue_is_idempotent:
  assumes "outbox_run R ops = (rows, leases)" "enqueue_in_transaction R new_id now e rows = (Inr i, rows1)"
    and "outbox_key e' = outbox_key e" "event_checks e'"
  shows "enqueue_in_transaction R new_id' now' e' (fold (apply_op R) ops' rows1) = (Inr i, fold (apply_op R) ops' rows1)"
proof -
  have run: "fst (outbox_run R (ops @ OpEnqueue new_id now e # ops')) = fold (apply_op R) ops' rows1"
    by (simp only: outbox_run_append) (simp add: assms(1,2) apply_op_def)
  obtain leases' where "outbox_ok (fold (apply_op R) ops' rows1) leases'"
    using outbox_run_ok [of R "ops @ OpEnqueue new_id now e # ops'"] run by (metis prod.collapse)
  then have d: "distinct (map (outbox_key \<circ> ob_event) (fold (apply_op R) ops' rows1))" by (simp add: outbox_ok_def)
  from enqueue_registers [OF assms(2)] obtain r where "r \<in> set rows1" "ob_id r = i" "outbox_key (ob_event r) = outbox_key e"
    by blast
  with run_keeps_rows [of r rows1 R ops'] obtain r' where r': "r' \<in> set (fold (apply_op R) ops' rows1)" "ob_id r' = i"
    "outbox_key (ob_event r') = outbox_key e'" using assms(3) by auto
  from find_unique [OF d r'(1)] r'(3)
  have "find (\<lambda>r. outbox_key (ob_event r) = outbox_key e') (fold (apply_op R) ops' rows1) = Some r'" by simp
  with r'(2) assms(4) show ?thesis by (simp add: enqueue_in_transaction_def)
qed

subsection \<open>An abandoned last attempt\<close>

definition settles :: "uuid \<Rightarrow> string option \<Rightarrow> outbox_op \<Rightarrow> bool" where
  "settles event_id owner op \<longleftrightarrow>
     (case op of
        OpComplete _ i w _ _ \<Rightarrow> i = event_id \<and> Some w = owner
      | OpFail _ i w _ \<Rightarrow> i = event_id \<and> Some w = owner
      | _ \<Rightarrow> False)"

lemma update_event_other: "r \<in> set rows \<Longrightarrow> ob_id r \<noteq> i \<Longrightarrow> r \<in> set (update_event i f rows)"
  by (force simp: update_event_def)

lemma held_by_other:
  assumes "distinct (map ob_id rows)" "r \<in> set rows" "ob_lease_owner r \<noteq> Some w"
  shows "held_by (ob_id r) w rows = None"
proof (cases "held_by (ob_id r) w rows")
  case (Some s)
  with held_by_Some [OF this] same_image [OF assms(1) _ assms(2), of s] assms(3) show ?thesis by auto
qed

lemma apply_op_exhausted:
  assumes "distinct (map ob_id rows)" "r \<in> set rows" "ob_status r = EventProcessing"
    and "ob_attempt_count r = OUTBOX_MAX_ATTEMPTS" "\<not> settles (ob_id r) (ob_lease_owner r) op"
  shows "r \<in> set (apply_op R op rows)"
proof -
  have same: "s = r" if "s \<in> set rows" "ob_id s = ob_id r" for s
    using assms(1) that(1) assms(2) that(2) by (rule same_image)
  show ?thesis
  proof (cases op)
    case (OpEnqueue new_id now e)
    with assms(2) show ?thesis by (auto simp: apply_op_def enqueue_in_transaction_def split: option.split)
  next
    case (OpLease now locked w secs)
    show ?thesis
    proof (cases now locked w secs rows rule: lease_next_cases)
      case none
      with OpLease assms(2) show ?thesis by (simp add: apply_op_def)
    next
      case (some s)
      then have "ob_id r \<noteq> ob_id s" using same [of s] assms(4) by (auto simp: claimable_def)
      with some OpLease assms(2) show ?thesis by (simp add: apply_op_def update_event_other)
    qed
  next
    case (OpComplete now i w source job)
    then have "held_by i w rows = None \<or> i \<noteq> ob_id r"
      using assms(5) held_by_other [OF assms(1,2), of w] by (auto simp: settles_def)
    with OpComplete assms(2) show ?thesis
      by (auto simp: apply_op_def complete_event_def update_event_other split: option.split)
  next
    case (OpFail now i w detail)
    then have "held_by i w rows = None \<or> i \<noteq> ob_id r"
      using assms(5) held_by_other [OF assms(1,2), of w] by (auto simp: settles_def)
    with OpFail assms(2) show ?thesis
      by (auto simp: apply_op_def fail_event_def Let_def update_event_other split: option.split)
  next
    case (OpReport now i)
    have "recorded now r = r" using assms(3) by (simp add: recorded_def unreported_def)
    with OpReport assms(2) show ?thesis
      by (force simp: apply_op_def mark_oversight_recorded_def update_event_def image_iff)
  qed
qed

lemma apply_op_distinct:
  assumes "distinct (map ob_id rows)"
  shows "distinct (map ob_id (apply_op R op rows))"
  using assms
  by (cases op)
    (auto simp: apply_op_def enqueue_in_transaction_def lease_next_def complete_event_def fail_event_def Let_def
      mark_oversight_recorded_def update_event_maps new_event_row_def list_ex_iff split: option.splits list.splits)

lemma run_exhausted:
  assumes "distinct (map ob_id rows)" "r \<in> set rows" "ob_status r = EventProcessing"
    and "ob_attempt_count r = OUTBOX_MAX_ATTEMPTS" "\<forall>op \<in> set ops. \<not> settles (ob_id r) (ob_lease_owner r) op"
  shows "r \<in> set (fold (apply_op R) ops rows) \<and> distinct (map ob_id (fold (apply_op R) ops rows))"
  using assms(1,2,5)
  by (induction ops arbitrary: rows) (simp_all add: apply_op_exhausted apply_op_distinct assms(3,4))

text \<open>
  (C38) An event whose third attempt is abandoned is lost.  When the worker of the third attempt stops, or
  the database refuses its last statement, the event stays in processing for ever: no worker can lease it
  again however long its lease has expired, and it is never reported as failed.
\<close>

theorem abandoned_last_attempt_is_lost:
  assumes "outbox_run R ops = (rows, leases)" "r \<in> set rows" "ob_status r = EventProcessing"
    and "len (workers_of (ob_id r) leases) = OUTBOX_MAX_ATTEMPTS"
    and "\<forall>op \<in> set later. \<not> settles (ob_id r) (ob_lease_owner r) op"
    and "fold (apply_op R) later rows = rows'"
  shows "r \<in> set rows'
    \<and> (\<forall>now locked w secs x. fst (lease_next now locked w secs rows') = Some x \<longrightarrow> ob_id x \<noteq> ob_id r)
    \<and> (\<forall>x. next_unreported_failure rows' = Some x \<longrightarrow> ob_id x \<noteq> ob_id r)"
proof -
  note ok = outbox_run_ok [OF assms(1)]
  have a: "ob_attempt_count r = OUTBOX_MAX_ATTEMPTS"
    using ok assms(2,4) by (auto simp: outbox_ok_def row_ok_def)
  have "distinct (map ob_id rows)" using ok by (simp add: outbox_ok_def)
  from run_exhausted [OF this assms(2,3) a assms(5), where R = R] assms(6)
  have r: "r \<in> set rows'" and d: "distinct (map ob_id rows')" by auto
  have same: "s = r" if "s \<in> set rows'" "ob_id s = ob_id r" for s
    using d that(1) r that(2) by (rule same_image)
  have "ob_id x \<noteq> ob_id r" if "fst (lease_next now locked w secs rows') = Some x" for now locked w secs x
  proof (cases now locked w secs rows' rule: lease_next_cases)
    case (some s)
    with that a same [of s] show ?thesis by (auto simp: claimable_def claimed_def)
  qed (use that in simp)
  moreover have "ob_id x \<noteq> ob_id r" if "next_unreported_failure rows' = Some x" for x
  proof -
    from that have "x \<in> set (sort_by (\<lambda>a b. (ob_updated_at a, uint (ob_id a)) \<le> (ob_updated_at b, uint (ob_id b)))
        (filter unreported rows'))"
      by (auto simp: next_unreported_failure_def simp del: set_sort_by split: list.splits)
    then have "x \<in> set rows'" "ob_status x = EventFailed" by (auto simp: unreported_def)
    with same [of x] assms(3) show ?thesis by auto
  qed
  ultimately show ?thesis using r by blast
qed

section \<open>Sample runs\<close>

definition sample_outbox_event :: enqueue_knowledge_event where
  "sample_outbox_event =
     \<lparr>eq_tenant_id = 1, eq_descriptor_id = ''d'', eq_event_kind = ''incident.closed'', eq_publisher_bundle_id = ''server-administrator'',
      eq_subject_kind = ''incident'', eq_subject_id = ''42'', eq_subject_revision = ''7'', eq_snapshot = JObject [],
      eq_snapshot_hash = ''sha256:'' @ replicate 64 (CHR ''a''), eq_source_title = ''Disk full'', eq_source_path_prefix = ''incidents'',
      eq_acting_space_id = 2, eq_output_vault_bundle = ''v'', eq_knowledge_schema_id = ''s'', eq_researcher_bundle_id = ''r'',
      eq_researcher_role_id = ''role'', eq_requested_by_user_id = 3, eq_service_actor_user_id = 4, eq_effective_role = ''manager''\<rparr>"

definition sample_refs :: outbox_refs where
  "sample_refs = \<lparr>or_tenant = (\<lambda>_. True), or_space = (\<lambda>_ _. True), or_user = (\<lambda>_ _. True), or_source = (\<lambda>_ _. True), or_job = (\<lambda>_ _. True)\<rparr>"

text \<open>Three workers lease the event, the first two are taken over after their lease has expired.\<close>

definition sample_ops :: "outbox_op list" where
  "sample_ops = [OpEnqueue 9 0 sample_outbox_event, OpLease 1 [] ''w1'' 0, OpLease 2 [] ''w2'' 0, OpLease 3 [] ''w3'' 0]"

definition sample_rows :: outbox where
  "sample_rows =
     [\<lparr>ob_id = 9, ob_event = sample_outbox_event, ob_status = EventProcessing, ob_attempt_count = 3, ob_next_attempt_at = 0,
       ob_lease_owner = Some ''w3'', ob_lease_expires_at = Some 3, ob_last_error = None, ob_source_id = None,
       ob_knowledge_job_id = None, ob_created_at = 0, ob_updated_at = 3, ob_completed_at = None,
       ob_oversight_recorded_at = None\<rparr>]"

lemma sample_event_checks: "event_checks sample_outbox_event"
  by code_simp

lemma sample_outbox_run: "outbox_run sample_refs sample_ops = (sample_rows, [(9, ''w1''), (9, ''w2''), (9, ''w3'')])"
proof -
  have "apply_op sample_refs (OpEnqueue 9 0 sample_outbox_event) [] = [new_event_row 9 0 sample_outbox_event]"
    by (simp add: apply_op_def enqueue_in_transaction_def sample_event_checks event_refs_exist_def sample_refs_def)
  then show ?thesis
    by (simp add: outbox_run_def sample_ops_def apply_op_def op_leases_def lease_next_def claimable_def claimed_def
        update_event_def new_event_row_def interval_seconds_def sample_rows_def)
qed

theorem event_leased_at_most_thrice_witness:
  "workers_of 9 (snd (outbox_run sample_refs sample_ops)) = [''w1'', ''w2'', ''w3'']
   \<and> len (workers_of 9 (snd (outbox_run sample_refs sample_ops))) \<le> OUTBOX_MAX_ATTEMPTS"
  using event_leased_at_most_thrice [OF sample_outbox_run, of 9] by (simp add: sample_outbox_run workers_of_def)

theorem only_last_lessee_settles_witness:
  "complete_event sample_refs 4 9 ''w1'' 5 6 sample_rows = (Inl OutboxRowNotFound, sample_rows)
   \<and> fst (fail_event 4 9 ''w3'' ''boom'' sample_rows) = Inr Terminal"
  using only_last_lessee_settles [OF sample_outbox_run, of 9 "''w1''" 4 5 6 "''boom''"]
  by (simp add: workers_of_def fail_event_def held_by_def sample_rows_def failed_def Let_def)

theorem abandoned_last_attempt_is_lost_witness:
  "hd sample_rows \<in> set (fold (apply_op sample_refs) [OpLease 1000 [] ''w4'' 30, OpFail 1001 9 ''w4'' ''late'', OpReport 1002 9] sample_rows)"
  using abandoned_last_attempt_is_lost [OF sample_outbox_run, of "hd sample_rows"
      "[OpLease 1000 [] ''w4'' 30, OpFail 1001 9 ''w4'' ''late'', OpReport 1002 9]"]
  by (simp add: sample_rows_def workers_of_def len_def settles_def)

end
