(* ===== verification/Broker_Sql.thy ===== *)
theory Broker_Sql
  imports Broker_Lease Manifest_Types Knowledge_Events
begin

text \<open>
  The database operations of the Bundle broker, \<open>crates/gadgetron-gateway/src/web/bundle_broker.rs\<close>.

  The first part is the SQL text the code builds, with \<open>sqlx\<close>'s \<open>QueryBuilder\<close> as a text and a list of bound
  values: a bound value appears in the text only as its number.  The second part is what the statements
  do, on relations as lists of rows; a row's \<open>ctid\<close> is its position.  What is PostgreSQL's own (comparing
  \<open>jsonb\<close> values and keys, the order rows come in, converting a JSON object to a row, unique indexes and
  other constraints, failing transactions) is the argument \<open>sql_engine\<close>.
\<close>

section \<open>Statements\<close>

datatype sql_bind = BindUuid uuid | BindJson json | BindInt int

record query_builder =
  qb_text :: string
  qb_binds :: "sql_bind list"

definition query_new :: "string \<Rightarrow> query_builder" where
  "query_new t = \<lparr>qb_text = t, qb_binds = []\<rparr>"

definition push :: "string \<Rightarrow> query_builder \<Rightarrow> query_builder" where
  "push t q = q\<lparr>qb_text := qb_text q @ t\<rparr>"

definition push_bind :: "sql_bind \<Rightarrow> query_builder \<Rightarrow> query_builder" where
  "push_bind b q =
     q\<lparr>qb_text := qb_text q @ ''$'' @ show_nat (length (qb_binds q) + 1), qb_binds := qb_binds q @ [b]\<rparr>"

definition quoted_identifier :: "string \<Rightarrow> string" where
  "quoted_identifier identifier = CHR 0x22 # identifier @ [CHR 0x22]"

definition separated :: "string \<Rightarrow> ('a \<Rightarrow> query_builder \<Rightarrow> query_builder) \<Rightarrow> 'a list \<Rightarrow> query_builder \<Rightarrow> query_builder" where
  "separated sep f xs q = snd (foldl (\<lambda>(first, q) x. (False, f x (if first then q else push sep q))) (True, q) xs)"

definition push_identifier_list :: "string list \<Rightarrow> query_builder \<Rightarrow> query_builder" where
  "push_identifier_list names = separated '', '' (\<lambda>n. push (quoted_identifier n)) names"

definition push_filter :: "string \<times> json \<Rightarrow> query_builder \<Rightarrow> query_builder" where
  "push_filter = (\<lambda>(field, v) q.
     if v = JNull then push '' IS NULL'' (push (quoted_identifier field) (push '' AND '' q))
     else push_bind (BindJson v) (push '') = '' (push (quoted_identifier field) (push ''to_jsonb('' (push '' AND '' q)))))"

definition push_database_filters :: "(string \<times> json) list \<Rightarrow> query_builder \<Rightarrow> query_builder" where
  "push_database_filters filters q = foldl (\<lambda>q f. push_filter f q) q filters"

definition where_tenant :: "string \<Rightarrow> uuid \<Rightarrow> query_builder \<Rightarrow> query_builder" where
  "where_tenant table tenant q =
     push_bind (BindUuid tenant) (push '' WHERE \"tenant_id\" = '' (push (quoted_identifier table) q))"

definition push_order :: "bool \<Rightarrow> database_order \<Rightarrow> query_builder \<Rightarrow> query_builder" where
  "push_order first order_field q =
     push (case dor_direction order_field of Ascending \<Rightarrow> '' ASC'' | Descending \<Rightarrow> '' DESC'')
      (push (quoted_identifier (dor_field order_field)) (push (if first then '' ORDER BY '' else '', '') q))"

definition select_statement :: "uuid \<Rightarrow> string \<Rightarrow> database_select_request \<Rightarrow> query_builder" where
  "select_statement tenant table r =
     (let q = query_new ''SELECT jsonb_build_object('';
          q = separated '', '' (\<lambda>c. push (quoted_identifier c) \<circ> push (CHR 0x27 # '', '') \<circ> push c \<circ> push [CHR 0x27]) (sel_columns r) q;
          q = where_tenant table tenant (push '') FROM '' q);
          q = push_database_filters (sel_filters r) q;
          q = snd (foldl (\<lambda>(first, q) ord. (False, push_order first ord q)) (True, q) (sel_order_by r))
      in push_bind (BindInt (uint (sel_limit r) + 1)) (push '' LIMIT '' q))"

definition insert_statement :: "(uuid \<Rightarrow> string) \<Rightarrow> uuid \<Rightarrow> string \<Rightarrow> database_insert_request \<Rightarrow> query_builder" where
  "insert_statement show_uuid tenant table r =
     (let names = ''tenant_id'' # map fst (ins_values r);
          object = bm_insert ''tenant_id'' (JString (show_uuid tenant)) (ins_values r);
          q = push '' ('' (push (quoted_identifier table) (query_new ''INSERT INTO ''));
          q = push_identifier_list names (push '') SELECT '' (push_identifier_list names q));
          q = push '', '' (push (quoted_identifier table) (push '' FROM jsonb_populate_record(NULL::'' q));
          q = push '')'' (push_bind (BindJson (JObject object)) q)
      in if ins_conflict_keys r = [] then q
         else
          (let q = push_identifier_list (''tenant_id'' # ins_conflict_keys r) (push '' ON CONFLICT ('' q);
               updates = filter (\<lambda>f. f \<notin> set (ins_conflict_keys r)) (map fst (ins_values r))
           in separated '', '' (\<lambda>f. push (quoted_identifier f) \<circ> push '' = EXCLUDED.'' \<circ> push (quoted_identifier f))
               updates (push '') DO UPDATE SET '' q)))"

definition update_statement :: "uuid \<Rightarrow> string \<Rightarrow> database_update_request \<Rightarrow> query_builder" where
  "update_statement tenant table r =
     (let q = query_new ''WITH patch AS (SELECT * FROM jsonb_populate_record(NULL::'';
          q = push_bind (BindJson (JObject (upd_values r))) (push '', '' (push (quoted_identifier table) q));
          q = where_tenant table tenant (push '')), targets AS (SELECT ctid FROM '' q);
          q = push_database_filters (upd_filters r) q;
          q = push '' FOR UPDATE) UPDATE '' (push_bind (BindInt (uint (upd_limit r))) (push '' LIMIT '' q));
          q = push '' AS target SET '' (push (quoted_identifier table) q);
          q = separated '', '' (\<lambda>f. push (quoted_identifier f) \<circ> push '' = patch.'' \<circ> push (quoted_identifier f))
               (map fst (upd_values r)) q
      in push '' FROM patch, targets WHERE target.ctid = targets.ctid'' q)"

definition delete_statement :: "uuid \<Rightarrow> string \<Rightarrow> database_delete_request \<Rightarrow> query_builder" where
  "delete_statement tenant table r =
     (let q = where_tenant table tenant (query_new ''WITH targets AS (SELECT ctid FROM '');
          q = push_database_filters (del_filters r) q;
          q = push '' FOR UPDATE) DELETE FROM '' (push_bind (BindInt (uint (del_limit r))) (push '' LIMIT '' q))
      in push '' AS target USING targets WHERE target.ctid = targets.ctid'' (push (quoted_identifier table) q))"

section \<open>Relations and the engine\<close>

record table_row =
  row_tenant :: uuid
  row_cells :: "(string \<times> json option) list"

record relation =
  rel_is_view :: bool
  rel_tenant_is_uuid :: bool
  rel_columns :: "string list"
  rel_rows :: "table_row list"

record broker_db =
  bd_relations :: "(string \<times> relation) list"
  bd_outbox :: outbox

record sql_engine =
  eng_show_uuid :: "uuid \<Rightarrow> string"
  eng_parse_uuid :: "string \<Rightarrow> uuid option"
  eng_jsonb_eq :: "json \<Rightarrow> json \<Rightarrow> bool"
  eng_key_eq :: "string \<Rightarrow> string \<Rightarrow> json \<Rightarrow> json \<Rightarrow> bool"
  eng_order :: "database_order list \<Rightarrow> (nat \<times> table_row) list \<Rightarrow> (nat \<times> table_row) list"
  eng_populate :: "string \<Rightarrow> (string \<times> json) list \<Rightarrow> table_row option"
  eng_default :: "string \<Rightarrow> string \<Rightarrow> json option"
  eng_unique_index :: "string \<Rightarrow> string list \<Rightarrow> bool"
  eng_accepts :: "string \<Rightarrow> table_row list \<Rightarrow> table_row list \<Rightarrow> bool"
  eng_begins :: bool
  eng_sets_read_only :: bool
  eng_sets_timeout :: bool
  eng_completes :: bool
  eng_commits :: bool

definition cell :: "sql_engine \<Rightarrow> table_row \<Rightarrow> string \<Rightarrow> json option" where
  "cell E r field =
     (if field = ''tenant_id'' then Some (JString (eng_show_uuid E (row_tenant r)))
      else Option.bind (map_of (row_cells r) field) (\<lambda>c. c))"

text \<open>\<open>SET field = patch.field\<close>.\<close>

definition set_cell :: "sql_engine \<Rightarrow> table_row \<Rightarrow> string \<Rightarrow> table_row \<Rightarrow> table_row" where
  "set_cell E patch field r =
     (if field = ''tenant_id'' then r\<lparr>row_tenant := row_tenant patch\<rparr>
      else r\<lparr>row_cells := map (\<lambda>(f, c). (f, if f = field then cell E patch field else c)) (row_cells r)\<rparr>)"

definition columns_known :: "relation \<Rightarrow> string list \<Rightarrow> bool" where
  "columns_known rel names \<longleftrightarrow> list_all (\<lambda>f. f = ''tenant_id'' \<or> f \<in> set (rel_columns rel)) names"

definition filters_match :: "sql_engine \<Rightarrow> (string \<times> json) list \<Rightarrow> table_row \<Rightarrow> bool" where
  "filters_match E filters r \<longleftrightarrow>
     list_all (\<lambda>(field, v).
       if v = JNull then cell E r field = None
       else (case cell E r field of None \<Rightarrow> False | Some c \<Rightarrow> eng_jsonb_eq E c v)) filters"

text \<open>\<open>SELECT \<dots> FROM table WHERE tenant_id = $1 AND \<dots> ORDER BY \<dots>\<close>, with the positions of the rows.\<close>

definition scan ::
  "sql_engine \<Rightarrow> database_order list \<Rightarrow> uuid \<Rightarrow> (string \<times> json) list \<Rightarrow> table_row list \<Rightarrow> (nat \<times> table_row) list" where
  "scan E order_by tenant filters rows =
     eng_order E order_by
      (filter (\<lambda>(_, r). row_tenant r = tenant \<and> filters_match E filters r) (enumerate 0 rows))"

definition relation_has_tenant_uuid :: "broker_db \<Rightarrow> string \<Rightarrow> bool \<Rightarrow> bool" where
  "relation_has_tenant_uuid db name allow_views =
     (case map_of (bd_relations db) name of
        None \<Rightarrow> False
      | Some rel \<Rightarrow> rel_tenant_is_uuid rel \<and> (allow_views \<or> \<not> rel_is_view rel))"

definition with_rows :: "string \<Rightarrow> table_row list \<Rightarrow> broker_db \<Rightarrow> broker_db" where
  "with_rows name rows db =
     db\<lparr>bd_relations := map (\<lambda>(n, rel). (n, if n = name then rel\<lparr>rel_rows := rows\<rparr> else rel)) (bd_relations db)\<rparr>"

section \<open>Reading\<close>

definition database_dependency_unavailable :: broker_error where
  "database_dependency_unavailable =
     new_broker_error ''dependency-unavailable'' ''database broker dependency is unavailable'' True"

definition database_request_rejected :: broker_error where
  "database_request_rejected =
     new_broker_error ''database-request-rejected'' ''database broker rejected the structured mutation'' False"

definition validated_database_target ::
  "sql_engine \<Rightarrow> broker_db \<Rightarrow> string \<Rightarrow> string \<Rightarrow> bool \<Rightarrow> (broker_error, uuid \<times> string \<times> relation) result" where
  "validated_database_target E db tenant_text resource allow_views =
     and_then (ok_or (eng_parse_uuid E tenant_text)
        (new_broker_error ''invalid-invocation-context'' ''authenticated invocation tenant is not a UUID'' False)) (\<lambda>tenant.
     and_then (check (tenant \<noteq> 0)
        (new_broker_error ''invalid-invocation-context'' ''authenticated invocation tenant must not be nil'' False)) (\<lambda>_.
     and_then (ok_or (database_table_name resource)
        (new_broker_error ''resource-not-supported'' ''invalid database resource'' False)) (\<lambda>table.
     and_then (check (relation_has_tenant_uuid db table allow_views)
        (new_broker_error ''resource-unavailable'' ''database resource is absent or lacks a UUID tenant_id boundary'' False)) (\<lambda>_.
     and_then (ok_or (map_of (bd_relations db) table) database_request_rejected) (\<lambda>rel.
       Inr (tenant, table, rel))))))"

text \<open>\<open>jsonb_build_object('c', \"c\", \<dots>)\<close>, collected into a \<open>BTreeMap\<close>.\<close>

definition project_row :: "sql_engine \<Rightarrow> string list \<Rightarrow> table_row \<Rightarrow> (string \<times> json) list" where
  "project_row E columns r =
     fold (\<lambda>c m. bm_insert c (case cell E r c of None \<Rightarrow> JNull | Some v \<Rightarrow> v) m) columns []"

definition execute_database_select ::
  "sql_engine \<Rightarrow> broker_wire \<Rightarrow> string \<Rightarrow> database_select_request \<Rightarrow> broker_db
   \<Rightarrow> (broker_error, database_rows) result" where
  "execute_database_select E W tenant_text r db =
     and_then (validated_database_target E db tenant_text (sel_resource r) True) (\<lambda>(tenant, table, rel).
     and_then (check (eng_begins E)
        (new_broker_error ''dependency-unavailable'' ''database broker could not start a transaction'' True)) (\<lambda>_.
     and_then (check (eng_sets_read_only E)
        (new_broker_error ''dependency-unavailable'' ''database broker could not enforce a read-only transaction'' True)) (\<lambda>_.
     and_then (check (eng_sets_timeout E)
        (new_broker_error ''dependency-unavailable'' ''database broker could not enforce its statement timeout'' True)) (\<lambda>_.
     and_then (check (eng_completes E
          \<and> columns_known rel (sel_columns r @ map fst (sel_filters r) @ map dor_field (sel_order_by r)))
        (new_broker_error ''database-request-rejected'' ''database broker rejected the structured read'' False)) (\<lambda>_.
     (let fetched = take (unat (sel_limit r) + 1) (scan E (sel_order_by r) tenant (sel_filters r) (rel_rows rel))
      in and_then (check (eng_commits E)
            (new_broker_error ''dependency-unavailable'' ''database broker could not complete the read-only transaction'' True)) (\<lambda>_.
         (let rows = \<lparr>rows_rows = map (project_row E (sel_columns r) \<circ> snd) (take (unat (sel_limit r)) fetched),
                      rows_truncated = length fetched > unat (sel_limit r)\<rparr>
          in and_then (check (is_ok (validate_response W (DatabaseRowsResponse rows)))
                (new_broker_error ''database-response-too-large''
                  ''database broker response exceeded its row or byte ceiling'' False)) (\<lambda>_.
             Inr rows)))))))))"

section \<open>Changing\<close>

definition mutation_result :: "int \<Rightarrow> u32 \<Rightarrow> (broker_error, u32) result" where
  "mutation_result affected limit =
     and_then (check (\<not> affected > uint limit)
        (new_broker_error ''database-mutation-overflow'' ''database mutation exceeded its signed row ceiling'' False)) (\<lambda>_.
     and_then (check (affected < 2 ^ 32)
        (new_broker_error ''database-mutation-overflow'' ''database mutation row count cannot be represented'' False)) (\<lambda>_.
       Inr (word_of_int affected)))"

definition begin_mutation_transaction :: "sql_engine \<Rightarrow> (broker_error, unit) result" where
  "begin_mutation_transaction E =
     all_ok [check (eng_begins E) database_dependency_unavailable,
             check (eng_sets_timeout E) database_dependency_unavailable]"

text \<open>
  A mutation that ended: the changed rows and how many they are; a transaction that fails later leaves the
  database as it was.  \<open>follow_up\<close> is what the same transaction does next, for its tenant and table, when
  exactly one row changed.
\<close>

type_synonym mutation_follow_up = "uuid \<Rightarrow> string \<Rightarrow> broker_db \<Rightarrow> (broker_error, broker_db) result"

definition commit_mutation ::
  "sql_engine \<Rightarrow> (broker_db \<Rightarrow> (broker_error, broker_db) result) \<Rightarrow> u32 \<Rightarrow> int \<Rightarrow> broker_db \<Rightarrow> broker_db
   \<Rightarrow> (broker_error, u32) result \<times> broker_db" where
  "commit_mutation E follow_up limit affected changed db =
     (case if affected = 1 then follow_up changed else Inr changed of
        Inl e \<Rightarrow> (Inl e, db)
      | Inr final \<Rightarrow>
          if eng_commits E then (mutation_result affected limit, final)
          else (Inl database_dependency_unavailable, db))"

definition update_rows ::
  "sql_engine \<Rightarrow> table_row \<Rightarrow> string list \<Rightarrow> nat list \<Rightarrow> table_row list \<Rightarrow> table_row list" where
  "update_rows E patch names targets rows =
     map (\<lambda>(i, r). if i \<in> set targets then fold (set_cell E patch) names r else r) (enumerate 0 rows)"

definition delete_rows :: "nat list \<Rightarrow> table_row list \<Rightarrow> table_row list" where
  "delete_rows targets rows = map snd (filter (\<lambda>(i, _). i \<notin> set targets) (enumerate 0 rows))"

definition execute_database_update ::
  "sql_engine \<Rightarrow> mutation_follow_up \<Rightarrow> string \<Rightarrow> database_update_request \<Rightarrow> broker_db
   \<Rightarrow> (broker_error, u32) result \<times> broker_db" where
  "execute_database_update E follow_up tenant_text r db =
     (case and_then (validated_database_target E db tenant_text (upd_resource r) False) (\<lambda>target.
            and_then (begin_mutation_transaction E) (\<lambda>_.
            and_then (ok_or (eng_populate E (fst (snd target)) (upd_values r)) database_request_rejected) (\<lambda>patch.
              Inr (target, patch)))) of
        Inl e \<Rightarrow> (Inl e, db)
      | Inr ((tenant, table, rel), patch) \<Rightarrow>
          (let targets = map fst (take (unat (upd_limit r)) (scan E [] tenant (upd_filters r) (rel_rows rel)));
               rows = update_rows E patch (map fst (upd_values r)) targets (rel_rows rel)
           in if \<not> (eng_completes E \<and> columns_known rel (map fst (upd_values r) @ map fst (upd_filters r))
                   \<and> eng_accepts E table (rel_rows rel) rows)
              then (Inl database_request_rejected, db)
              else commit_mutation E (follow_up tenant table) (upd_limit r) (len targets) (with_rows table rows db) db))"

definition execute_database_delete ::
  "sql_engine \<Rightarrow> mutation_follow_up \<Rightarrow> string \<Rightarrow> database_delete_request \<Rightarrow> broker_db
   \<Rightarrow> (broker_error, u32) result \<times> broker_db" where
  "execute_database_delete E follow_up tenant_text r db =
     (case and_then (validated_database_target E db tenant_text (del_resource r) False) (\<lambda>target.
            and_then (begin_mutation_transaction E) (\<lambda>_. Inr target)) of
        Inl e \<Rightarrow> (Inl e, db)
      | Inr (tenant, table, rel) \<Rightarrow>
          (let targets = map fst (take (unat (del_limit r)) (scan E [] tenant (del_filters r) (rel_rows rel)));
               rows = delete_rows targets (rel_rows rel)
           in if \<not> (eng_completes E \<and> columns_known rel (map fst (del_filters r))
                   \<and> eng_accepts E table (rel_rows rel) rows)
              then (Inl database_request_rejected, db)
              else commit_mutation E (follow_up tenant table) (del_limit r) (len targets) (with_rows table rows db) db))"

text \<open>
  \<open>INSERT\<close>, with \<open>ON CONFLICT (tenant_id, keys) DO UPDATE\<close> of the values that are not keys.  The columns the
  request does not list take their defaults.
\<close>

definition inserted_row :: "sql_engine \<Rightarrow> string \<Rightarrow> relation \<Rightarrow> string list \<Rightarrow> table_row \<Rightarrow> table_row" where
  "inserted_row E table rel names populated =
     populated\<lparr>row_cells := map (\<lambda>c. (c, if c \<in> set names then cell E populated c else eng_default E table c)) (rel_columns rel)\<rparr>"

definition conflicting_row :: "sql_engine \<Rightarrow> string \<Rightarrow> string list \<Rightarrow> table_row \<Rightarrow> table_row list \<Rightarrow> nat option" where
  "conflicting_row E table keys new rows =
     map_option fst (find (\<lambda>(_, r). row_tenant r = row_tenant new
        \<and> list_all (\<lambda>k. case (cell E r k, cell E new k) of
            (Some a, Some b) \<Rightarrow> eng_key_eq E table k a b | _ \<Rightarrow> False) keys) (enumerate 0 rows))"

definition upsert_rows ::
  "sql_engine \<Rightarrow> string \<Rightarrow> string list \<Rightarrow> string list \<Rightarrow> table_row \<Rightarrow> table_row list \<Rightarrow> table_row list" where
  "upsert_rows E table names keys new rows =
     (case if keys = [] then None else conflicting_row E table keys new rows of
        None \<Rightarrow> rows @ [new]
      | Some i \<Rightarrow> update_rows E new (filter (\<lambda>f. f \<notin> set keys) names) [i] rows)"

definition execute_database_insert ::
  "sql_engine \<Rightarrow> mutation_follow_up \<Rightarrow> string \<Rightarrow> database_insert_request \<Rightarrow> broker_db
   \<Rightarrow> (broker_error, u32) result \<times> broker_db" where
  "execute_database_insert E follow_up tenant_text r db =
     (case and_then (validated_database_target E db tenant_text (ins_resource r) False) (\<lambda>target.
            and_then (begin_mutation_transaction E) (\<lambda>_.
            and_then (ok_or (eng_populate E (fst (snd target))
                (bm_insert ''tenant_id'' (JString (eng_show_uuid E (fst target))) (ins_values r)))
              database_request_rejected) (\<lambda>populated.
              Inr (target, populated)))) of
        Inl e \<Rightarrow> (Inl e, db)
      | Inr ((tenant, table, rel), populated) \<Rightarrow>
          (let names = map fst (ins_values r);
               keys = ins_conflict_keys r;
               rows = upsert_rows E table names keys (inserted_row E table rel names populated) (rel_rows rel)
           in if \<not> (eng_completes E \<and> columns_known rel (names @ keys)
                   \<and> (keys = [] \<or> eng_unique_index E table (''tenant_id'' # keys))
                   \<and> eng_accepts E table (rel_rows rel) rows)
              then (Inl database_request_rejected, db)
              else commit_mutation E (follow_up tenant table) 1 1 (with_rows table rows db) db))"

end
