(* ===== verification/Broker_Isolation.thy ===== *)
theory Broker_Isolation
  imports Broker_Sql
begin

text \<open>
  Two guarantees of the broker's database operations: no value of a request reaches the text of a
  statement, and no operation reads or changes a row of another tenant.
\<close>

section \<open>Statement texts\<close>

text \<open>Two builders agree when they have the same text and the same number of bound values.\<close>

definition agree :: "query_builder \<Rightarrow> query_builder \<Rightarrow> bool" where
  "agree q q' \<longleftrightarrow> qb_text q = qb_text q' \<and> length (qb_binds q) = length (qb_binds q')"

lemma agree_refl [simp]: "agree q q"
  by (simp add: agree_def)

lemma agree_push [intro]: "agree q q' \<Longrightarrow> agree (push t q) (push t q')"
  by (simp add: agree_def push_def)

lemma agree_push_bind [intro]: "agree q q' \<Longrightarrow> agree (push_bind b q) (push_bind b' q')"
  by (simp add: agree_def push_bind_def)

lemma agree_where_tenant [intro]:
  "agree q q' \<Longrightarrow> agree (where_tenant table t q) (where_tenant table t' q')"
  unfolding where_tenant_def by (intro agree_push agree_push_bind)

definition filter_shape :: "string \<times> json \<Rightarrow> string \<times> bool" where
  "filter_shape = (\<lambda>(field, v). (field, v = JNull))"

lemma agree_push_filter: "filter_shape f = filter_shape f' \<Longrightarrow> agree q q' \<Longrightarrow> agree (push_filter f q) (push_filter f' q')"
  by (cases f; cases f') (auto simp: filter_shape_def push_filter_def intro!: agree_push agree_push_bind)

lemma agree_filters [intro]:
  "map filter_shape fs = map filter_shape fs' \<Longrightarrow> agree q q' \<Longrightarrow>
     agree (push_database_filters fs q) (push_database_filters fs' q')"
proof (induction fs arbitrary: fs' q q')
  case Nil
  then show ?case by (simp add: push_database_filters_def)
next
  case (Cons f fs)
  then obtain f' gs where fs': "fs' = f' # gs" "filter_shape f = filter_shape f'" "map filter_shape fs = map filter_shape gs"
    by (cases fs') auto
  from Cons.IH [OF fs'(3) agree_push_filter [OF fs'(2) Cons.prems(2)]] show ?case
    by (simp add: push_database_filters_def fs'(1))
qed

lemma agree_separated [intro]:
  assumes "\<And>x q q'. agree q q' \<Longrightarrow> agree (f x q) (f x q')" and "agree q q'"
  shows "agree (separated sep f xs q) (separated sep f xs q')"
proof -
  have "agree (snd (foldl (\<lambda>(first, q) x. (False, f x (if first then q else push sep q))) (b, q) xs))
      (snd (foldl (\<lambda>(first, q) x. (False, f x (if first then q else push sep q))) (b, q') xs))" if "agree q q'" for b q q'
    using that
  proof (induction xs arbitrary: b q q')
    case (Cons x xs)
    show ?case by (cases b) (simp_all add: Cons.IH assms(1) agree_push Cons.prems)
  qed simp
  then show ?thesis using assms(2) by (simp add: separated_def)
qed

lemma agree_identifiers [intro]: "agree q q' \<Longrightarrow> agree (push_identifier_list ns q) (push_identifier_list ns q')"
  unfolding push_identifier_list_def by (intro agree_separated agree_push)

lemma agree_orders [intro]:
  "agree q q' \<Longrightarrow>
     agree (snd (foldl (\<lambda>(first, q) x. (False, push_order first x q)) (b, q) xs))
           (snd (foldl (\<lambda>(first, q) x. (False, push_order first x q)) (b, q') xs))"
proof (induction xs arbitrary: b q q')
  case (Cons x xs)
  then have "agree (push_order b x q) (push_order b x q')"
    unfolding push_order_def by (intro agree_push)
  then show ?case by (simp add: Cons.IH)
qed simp

lemma agree_columns [intro]:
  "agree q q' \<Longrightarrow>
     agree (separated sep (\<lambda>c. push (f c) \<circ> push t \<circ> push c \<circ> push u) xs q)
           (separated sep (\<lambda>c. push (f c) \<circ> push t \<circ> push c \<circ> push u) xs q')"
  by (rule agree_separated) (simp_all add: agree_push)

lemma agree_assignments [intro]:
  "agree q q' \<Longrightarrow>
     agree (separated sep (\<lambda>f. push (g f) \<circ> push t \<circ> push (g f)) xs q)
           (separated sep (\<lambda>f. push (g f) \<circ> push t \<circ> push (g f)) xs q')"
  by (rule agree_separated) (simp_all add: agree_push)

lemma agree_if: "agree a a' \<Longrightarrow> agree b b' \<Longrightarrow> agree (if c then a else b) (if c then a' else b')"
  by simp

lemmas agree_intros = agree_if agree_push agree_push_bind agree_where_tenant agree_identifiers agree_orders
  agree_columns agree_assignments agree_refl

definition same_select_shape :: "database_select_request \<Rightarrow> database_select_request \<Rightarrow> bool" where
  "same_select_shape r r' \<longleftrightarrow> sel_columns r = sel_columns r' \<and> sel_order_by r = sel_order_by r'
     \<and> map filter_shape (sel_filters r) = map filter_shape (sel_filters r')"

definition same_insert_shape :: "database_insert_request \<Rightarrow> database_insert_request \<Rightarrow> bool" where
  "same_insert_shape r r' \<longleftrightarrow> map fst (ins_values r) = map fst (ins_values r')
     \<and> ins_conflict_keys r = ins_conflict_keys r'"

definition same_update_shape :: "database_update_request \<Rightarrow> database_update_request \<Rightarrow> bool" where
  "same_update_shape r r' \<longleftrightarrow> map fst (upd_values r) = map fst (upd_values r')
     \<and> map filter_shape (upd_filters r) = map filter_shape (upd_filters r')"

definition same_delete_shape :: "database_delete_request \<Rightarrow> database_delete_request \<Rightarrow> bool" where
  "same_delete_shape r r' \<longleftrightarrow> map filter_shape (del_filters r) = map filter_shape (del_filters r')"

lemma agree_select:
  "same_select_shape r r' \<Longrightarrow> agree (select_statement t table r) (select_statement t' table r')"
  unfolding same_select_shape_def select_statement_def Let_def
  by (elim conjE, simp only:) (intro agree_intros agree_filters; assumption)

lemma agree_insert:
  "same_insert_shape r r' \<Longrightarrow> agree (insert_statement f t table r) (insert_statement f' t' table r')"
  unfolding same_insert_shape_def insert_statement_def Let_def
  by (elim conjE, simp only:) (intro agree_intros)

lemma agree_update:
  "same_update_shape r r' \<Longrightarrow> agree (update_statement t table r) (update_statement t' table r')"
  unfolding same_update_shape_def update_statement_def Let_def
  by (elim conjE, simp only:) (intro agree_intros agree_filters; assumption)

lemma agree_delete:
  "same_delete_shape r r' \<Longrightarrow> agree (delete_statement t table r) (delete_statement t' table r')"
  unfolding same_delete_shape_def delete_statement_def Let_def
  by (intro agree_intros agree_filters; assumption)


definition sample_delete :: "json \<Rightarrow> database_delete_request" where
  "sample_delete v = \<lparr>del_lease = ''lease'', del_permission_id = ''p'', del_resource = ''postgres:table:hosts'',
     del_filters = [(''name'', v)], del_limit = 1, del_event = None\<rparr>"


section \<open>Tenants\<close>

text \<open>
  What the isolation rests on of PostgreSQL: \<open>ORDER BY\<close> returns rows it was given, and
  \<open>jsonb_populate_record\<close> reads the tenant identifier it is given.
\<close>

definition orders_rows :: "sql_engine \<Rightarrow> bool" where
  "orders_rows E \<longleftrightarrow> (\<forall>order_by rows. set (eng_order E order_by rows) \<subseteq> set rows)"

definition populates_tenant :: "sql_engine \<Rightarrow> bool" where
  "populates_tenant E \<longleftrightarrow>
     (\<forall>table object tenant row. eng_populate E table object = Some row
        \<longrightarrow> map_of object ''tenant_id'' = Some (JString (eng_show_uuid E tenant)) \<longrightarrow> row_tenant row = tenant)"

definition catalog_ok :: "broker_db \<Rightarrow> bool" where
  "catalog_ok db \<longleftrightarrow> distinct (map fst (bd_relations db))"

definition foreign :: "uuid \<Rightarrow> relation \<Rightarrow> relation" where
  "foreign tenant rel = rel\<lparr>rel_rows := filter (\<lambda>r. row_tenant r \<noteq> tenant) (rel_rows rel)\<rparr>"

definition foreign_rows :: "uuid \<Rightarrow> broker_db \<Rightarrow> (string \<times> relation) list" where
  "foreign_rows tenant db = map (apsnd (foreign tenant)) (bd_relations db)"

text \<open>A follow-up of a mutation that keeps to the tenant it runs for.\<close>

definition follow_up_confined :: "mutation_follow_up \<Rightarrow> bool" where
  "follow_up_confined follow_up \<longleftrightarrow>
     (\<forall>tenant table db db'. catalog_ok db \<longrightarrow> follow_up tenant table db = Inr db'
        \<longrightarrow> foreign_rows tenant db' = foreign_rows tenant db)"

definition own_rows :: "uuid \<Rightarrow> broker_db \<Rightarrow> string \<Rightarrow> table_row list" where
  "own_rows tenant db name =
     (case map_of (bd_relations db) name of None \<Rightarrow> [] | Some rel \<Rightarrow> filter (\<lambda>r. row_tenant r = tenant) (rel_rows rel))"

lemma filter_map_enumerate:
  "(\<And>i r. (i, r) \<in> set (enumerate n rows) \<Longrightarrow> i \<in> S \<Longrightarrow> \<not> P r \<and> \<not> P (g r)) \<Longrightarrow>
     filter P (map (\<lambda>(i, r). if i \<in> S then g r else r) (enumerate n rows)) = filter P rows"
  by (induction rows arbitrary: n) auto

lemma filter_drop_enumerate:
  "(\<And>i r. (i, r) \<in> set (enumerate n rows) \<Longrightarrow> i \<in> S \<Longrightarrow> \<not> P r) \<Longrightarrow>
     filter P (map snd (filter (\<lambda>(i, _). i \<notin> S) (enumerate n rows))) = filter P rows"
  by (induction rows arbitrary: n) auto

lemma set_cells_keep_tenant: "''tenant_id'' \<notin> set names \<Longrightarrow> row_tenant (fold (set_cell E patch) names r) = row_tenant r"
  by (induction names arbitrary: r) (auto simp: set_cell_def)

lemma scan_targets_own:
  assumes "orders_rows E" "(i, r') \<in> set (take n (scan E order_by tenant filters rows))" "(i, r) \<in> set (enumerate 0 rows)"
  shows "row_tenant r = tenant"
proof -
  from assms(2) have "(i, r') \<in> set (scan E order_by tenant filters rows)" by (rule in_set_takeD)
  with assms(1) have "(i, r') \<in> set (enumerate 0 rows)" "row_tenant r' = tenant"
    unfolding scan_def orders_rows_def by (auto dest!: spec subsetD)
  with assms(3) show ?thesis by (simp add: in_set_enumerate_eq)
qed

lemma update_rows_foreign:
  assumes "\<And>i r. (i, r) \<in> set (enumerate 0 rows) \<Longrightarrow> i \<in> set targets \<Longrightarrow> row_tenant r = tenant"
    and "''tenant_id'' \<notin> set names"
  shows "filter (\<lambda>r. row_tenant r \<noteq> tenant) (update_rows E patch names targets rows) = filter (\<lambda>r. row_tenant r \<noteq> tenant) rows"
  unfolding update_rows_def
  by (rule filter_map_enumerate) (use assms in \<open>auto simp: set_cells_keep_tenant\<close>)

lemma delete_rows_foreign:
  assumes "\<And>i r. (i, r) \<in> set (enumerate 0 rows) \<Longrightarrow> i \<in> set targets \<Longrightarrow> row_tenant r = tenant"
  shows "filter (\<lambda>r. row_tenant r \<noteq> tenant) (delete_rows targets rows) = filter (\<lambda>r. row_tenant r \<noteq> tenant) rows"
  unfolding delete_rows_def
  by (rule filter_drop_enumerate) (use assms in \<open>auto\<close>)

lemma upsert_rows_foreign:
  assumes "row_tenant new = tenant" "''tenant_id'' \<notin> set names"
  shows "filter (\<lambda>r. row_tenant r \<noteq> tenant) (upsert_rows E table names keys new rows) = filter (\<lambda>r. row_tenant r \<noteq> tenant) rows"
proof (cases "if keys = [] then None else conflicting_row E table keys new rows")
  case None
  then show ?thesis using assms by (simp add: upsert_rows_def)
next
  case (Some i)
  then have "\<exists>r'. (i, r') \<in> set (enumerate 0 rows) \<and> row_tenant r' = tenant"
    using assms(1) by (auto simp: conflicting_row_def find_Some_iff split: if_splits) (metis length_enumerate nth_mem)
  then have "row_tenant r = tenant" if "(i, r) \<in> set (enumerate 0 rows)" for r
    using that by (auto simp: in_set_enumerate_eq)
  with Some assms show ?thesis by (auto simp: upsert_rows_def intro!: update_rows_foreign)
qed

lemma with_rows_foreign:
  assumes "catalog_ok db" "map_of (bd_relations db) name = Some rel"
    and "filter (\<lambda>r. row_tenant r \<noteq> tenant) rows = filter (\<lambda>r. row_tenant r \<noteq> tenant) (rel_rows rel)"
  shows "foreign_rows tenant (with_rows name rows db) = foreign_rows tenant db"
proof -
  have "r = rel" if "(name, r) \<in> set (bd_relations db)" for r
    using that assms(1,2) by (simp add: catalog_ok_def)
  then show ?thesis using assms(3) by (auto simp: foreign_rows_def with_rows_def foreign_def)
qed

lemma foreign_rows_names: "foreign_rows tenant a = foreign_rows tenant b \<Longrightarrow> map fst (bd_relations a) = map fst (bd_relations b)"
  by (drule arg_cong [where f = "map fst"]) (simp add: foreign_rows_def comp_def)

lemma commit_mutation_foreign:
  assumes "follow_up_confined follow_up" "catalog_ok db" "foreign_rows tenant changed = foreign_rows tenant db"
  shows "foreign_rows tenant (snd (commit_mutation E (follow_up tenant table) limit affected changed db)) = foreign_rows tenant db"
proof -
  have "catalog_ok changed" using assms(2) foreign_rows_names [OF assms(3)] by (simp add: catalog_ok_def)
  with assms show ?thesis by (auto simp: commit_mutation_def follow_up_confined_def split: sum.splits if_splits)
qed

lemma validated_target:
  "validated_database_target E db tenant_text resource views = Inr (tenant, table, rel) \<Longrightarrow>
     eng_parse_uuid E tenant_text = Some tenant \<and> map_of (bd_relations db) table = Some rel
     \<and> database_table_name resource = Some table \<and> rel_tenant_is_uuid rel"
  by (auto simp: validated_database_target_def result_simps relation_has_tenant_uuid_def split: option.splits)

lemma safe_fields_no_tenant: "\<forall>f \<in> S. safe_field f \<Longrightarrow> ''tenant_id'' \<notin> S"
  by (auto simp: safe_field_def)

subsection \<open>A mutation is confined to the tenant of its lease\<close>

locale confined_mutation =
  fixes run :: "sql_engine \<Rightarrow> mutation_follow_up \<Rightarrow> string \<Rightarrow> 'r \<Rightarrow> broker_db
      \<Rightarrow> (broker_error, u32) result \<times> broker_db"
    and valid :: "'r \<Rightarrow> bool"
  assumes confined:
    "orders_rows E \<Longrightarrow> populates_tenant E \<Longrightarrow> follow_up_confined follow_up \<Longrightarrow> catalog_ok db \<Longrightarrow> valid r \<Longrightarrow>
       eng_parse_uuid E tenant_text = Some tenant \<Longrightarrow>
       foreign_rows tenant (snd (run E follow_up tenant_text r db)) = foreign_rows tenant db"
    and unparsed: "eng_parse_uuid E tenant_text = None \<Longrightarrow> snd (run E follow_up tenant_text r db) = db"
begin

lemma catalog_kept:
  assumes "orders_rows E" "populates_tenant E" "follow_up_confined follow_up" "catalog_ok db" "valid r"
  shows "map fst (bd_relations (snd (run E follow_up tenant_text r db))) = map fst (bd_relations db)"
proof (cases "eng_parse_uuid E tenant_text")
  case (Some tenant)
  show ?thesis by (rule foreign_rows_names [OF confined [OF assms Some]])
qed (simp add: unparsed)

lemma others_untouched:
  assumes "orders_rows E" "populates_tenant E" "follow_up_confined follow_up" "catalog_ok db" "valid r"
    and "eng_parse_uuid E tenant_text \<noteq> Some other"
  shows "own_rows other (snd (run E follow_up tenant_text r db)) name = own_rows other db name"
proof (cases "eng_parse_uuid E tenant_text")
  case (Some tenant)
  have own: "own_rows other d name =
      (case map_of (foreign_rows tenant d) name of None \<Rightarrow> []
       | Some rel \<Rightarrow> filter (\<lambda>r. row_tenant r = other) (rel_rows rel))" for d
    using Some assms(6)
    by (auto simp: own_rows_def foreign_rows_def foreign_def map_of_map apsnd_def map_prod_def
        split: option.splits intro!: filter_cong)
  show ?thesis by (simp only: own confined [OF assms(1-5) Some])
qed (simp add: unparsed)

lemma others_untouched_by_many:
  assumes "orders_rows E" "populates_tenant E" "catalog_ok db"
    and "\<forall>(follow_up, tenant_text, r) \<in> set calls. follow_up_confined follow_up \<and> valid r \<and> eng_parse_uuid E tenant_text \<noteq> Some other"
  shows "own_rows other (fold (\<lambda>(follow_up, tenant_text, r) d. snd (run E follow_up tenant_text r d)) calls db) name
    = own_rows other db name"
  using assms(3,4)
proof (induction calls arbitrary: db)
  case (Cons c calls)
  obtain follow_up tenant_text r where c: "c = (follow_up, tenant_text, r)" by (cases c)
  let ?d = "snd (run E follow_up tenant_text r db)"
  from Cons.prems c have p: "follow_up_confined follow_up" "valid r" "eng_parse_uuid E tenant_text \<noteq> Some other" by auto
  have "catalog_ok ?d"
    using catalog_kept [OF assms(1,2) p(1) Cons.prems(1) p(2)] Cons.prems(1) by (simp add: catalog_ok_def)
  from Cons.IH [OF this] Cons.prems(2) others_untouched [OF assms(1,2) p(1) Cons.prems(1) p(2,3)]
  show ?case by (simp add: c)
qed simp

end

lemma execute_database_update_confined:
  assumes "orders_rows E" "follow_up_confined follow_up" "catalog_ok db" "''tenant_id'' \<notin> fst ` set (upd_values r)"
    and "eng_parse_uuid E tenant_text = Some tenant"
  shows "foreign_rows tenant (snd (execute_database_update E follow_up tenant_text r db)) = foreign_rows tenant db"
proof -
  have "foreign_rows tenant (with_rows table
      (update_rows E patch (map fst (upd_values r))
        (map fst (take (unat (upd_limit r)) (scan E [] tenant (upd_filters r) (rel_rows rel)))) (rel_rows rel)) db) = foreign_rows tenant db"
    if "map_of (bd_relations db) table = Some rel" for patch table rel
    using assms(1,4) by (intro with_rows_foreign [OF assms(3) that] update_rows_foreign) (auto dest: scan_targets_own)
  then show ?thesis
    using assms(2,3,5) unfolding execute_database_update_def Let_def
    by (auto simp: result_simps dest!: validated_target intro!: commit_mutation_foreign [OF assms(2)] split: sum.splits prod.splits)
qed

lemma execute_database_delete_confined:
  assumes "orders_rows E" "follow_up_confined follow_up" "catalog_ok db" "eng_parse_uuid E tenant_text = Some tenant"
  shows "foreign_rows tenant (snd (execute_database_delete E follow_up tenant_text r db)) = foreign_rows tenant db"
proof -
  have "foreign_rows tenant (with_rows table
      (delete_rows (map fst (take (unat (del_limit r)) (scan E [] tenant (del_filters r) (rel_rows rel)))) (rel_rows rel)) db)
      = foreign_rows tenant db"
    if "map_of (bd_relations db) table = Some rel" for table rel
    using assms(1) by (intro with_rows_foreign [OF assms(3) that] delete_rows_foreign) (auto dest: scan_targets_own)
  then show ?thesis
    using assms(2,3,4) unfolding execute_database_delete_def Let_def
    by (auto simp: result_simps dest!: validated_target intro!: commit_mutation_foreign [OF assms(2)] split: sum.splits prod.splits)
qed

lemma execute_database_insert_confined:
  assumes "populates_tenant E" "follow_up_confined follow_up" "catalog_ok db" "''tenant_id'' \<notin> fst ` set (ins_values r)"
    and "eng_parse_uuid E tenant_text = Some tenant"
  shows "foreign_rows tenant (snd (execute_database_insert E follow_up tenant_text r db)) = foreign_rows tenant db"
proof -
  have "row_tenant populated = tenant"
    if "eng_populate E table (bm_insert ''tenant_id'' (JString (eng_show_uuid E tenant)) (ins_values r)) = Some populated"
    for table populated
    using assms(1) that unfolding populates_tenant_def by (metis map_of_bm_insert fun_upd_same)
  then have "foreign_rows tenant (with_rows table
      (upsert_rows E table (map fst (ins_values r)) keys (inserted_row E table rel names populated) (rel_rows rel)) db)
      = foreign_rows tenant db"
    if "map_of (bd_relations db) table = Some rel"
      "eng_populate E table (bm_insert ''tenant_id'' (JString (eng_show_uuid E tenant)) (ins_values r)) = Some populated"
    for table rel populated keys names
    using that(2) assms(4)
    by (intro with_rows_foreign [OF assms(3) that(1)] upsert_rows_foreign) (auto simp: inserted_row_def)
  then show ?thesis
    using assms(2,3,5) unfolding execute_database_insert_def Let_def
    by (auto simp: result_simps dest!: validated_target intro!: commit_mutation_foreign [OF assms(2)] split: sum.splits prod.splits)
qed

lemma unparsed_target:
  "eng_parse_uuid E tenant_text = None \<Longrightarrow> validated_database_target E db tenant_text resource views
     = Inl (new_broker_error ''invalid-invocation-context'' ''authenticated invocation tenant is not a UUID'' False)"
  by (simp add: validated_database_target_def ok_or_def)

interpretation update_mutation: confined_mutation execute_database_update "\<lambda>r. \<exists>W. validate_database_update W r = Inr ()"
proof (unfold_locales, goal_cases)
  case 1
  then show ?case by (auto intro!: execute_database_update_confined dest!: validated_update safe_fields_no_tenant)
next
  case (2 E tenant_text follow_up r db)
  then show ?case by (simp add: execute_database_update_def unparsed_target)
qed

interpretation delete_mutation: confined_mutation execute_database_delete "\<lambda>r. \<exists>W. validate_database_delete W r = Inr ()"
proof (unfold_locales, goal_cases)
  case 1
  then show ?case by (auto intro!: execute_database_delete_confined)
next
  case (2 E tenant_text follow_up r db)
  then show ?case by (simp add: execute_database_delete_def unparsed_target)
qed

interpretation insert_mutation: confined_mutation execute_database_insert "\<lambda>r. \<exists>W. validate_database_insert W r = Inr ()"
proof (unfold_locales, goal_cases)
  case 1
  then show ?case
    by (auto intro!: execute_database_insert_confined dest!: validated_insert(1) safe_fields_no_tenant)
next
  case (2 E tenant_text follow_up r db)
  then show ?case by (simp add: execute_database_insert_def unparsed_target)
qed

text \<open>
  No structured mutation changes a row of another tenant.  Whatever an accepted insert, update or
  delete asks for, and whether it succeeds, is refused or fails half way, the rows of every tenant other
  than the one of the lease stay, in every table, as they were and in the order they were.
\<close>

lemma mutations_stay_in_tenant:
  assumes "orders_rows E" "populates_tenant E" "follow_up_confined follow_up" "catalog_ok db"
    and "eng_parse_uuid E tenant_text \<noteq> Some other"
  shows "(validate_database_insert W i = Inr ()
      \<longrightarrow> own_rows other (snd (execute_database_insert E follow_up tenant_text i db)) name = own_rows other db name)
    \<and> (validate_database_update W u = Inr ()
      \<longrightarrow> own_rows other (snd (execute_database_update E follow_up tenant_text u db)) name = own_rows other db name)
    \<and> (validate_database_delete W d = Inr ()
      \<longrightarrow> own_rows other (snd (execute_database_delete E follow_up tenant_text d db)) name = own_rows other db name)"
  using insert_mutation.others_untouched [OF assms(1-4) _ assms(5)] update_mutation.others_untouched [OF assms(1-4) _ assms(5)]
    delete_mutation.others_untouched [OF assms(1-4) _ assms(5)] by blast

lemma select_target:
  assumes "execute_database_select E W tenant_text r db = Inr rows"
  obtains tenant table rel where "validated_database_target E db tenant_text (sel_resource r) True = Inr (tenant, table, rel)"
    and "rows_rows rows = map (project_row E (sel_columns r) \<circ> snd)
      (take (unat (sel_limit r)) (scan E (sel_order_by r) tenant (sel_filters r) (rel_rows rel)))"
  using assms unfolding execute_database_select_def
  by (auto simp: result_simps Let_def min_def split: prod.splits)

text \<open>
  (C34) A structured read returns rows of the lease's tenant only: each row it returns is the projection, on
  the requested columns, of a row of that tenant in the one table the request names, and there are never
  more of them than the request's limit.
\<close>

theorem select_returns_own_rows:
  assumes "orders_rows E" "execute_database_select E W tenant_text r db = Inr rows"
  shows "\<exists>tenant table rel. eng_parse_uuid E tenant_text = Some tenant
     \<and> database_table_name (sel_resource r) = Some table \<and> map_of (bd_relations db) table = Some rel
     \<and> set (rows_rows rows) \<subseteq> project_row E (sel_columns r) ` {row \<in> set (rel_rows rel). row_tenant row = tenant}
     \<and> length (rows_rows rows) \<le> unat (sel_limit r)"
proof -
  from assms(2) obtain tenant table rel
    where t: "validated_database_target E db tenant_text (sel_resource r) True = Inr (tenant, table, rel)"
      and rows: "rows_rows rows = map (project_row E (sel_columns r) \<circ> snd)
        (take (unat (sel_limit r)) (scan E (sel_order_by r) tenant (sel_filters r) (rel_rows rel)))"
    by (rule select_target)
  have "row \<in> set (rel_rows rel) \<and> row_tenant row = tenant"
    if "(i, row) \<in> set (scan E (sel_order_by r) tenant (sel_filters r) (rel_rows rel))" for i row
  proof -
    from that assms(1) have "(i, row) \<in> set (enumerate 0 (rel_rows rel))" "row_tenant row = tenant"
      unfolding scan_def orders_rows_def by (auto dest!: spec subsetD)
    then show ?thesis by (auto simp: in_set_enumerate_eq)
  qed
  then have "set (rows_rows rows) \<subseteq> project_row E (sel_columns r) ` {row \<in> set (rel_rows rel). row_tenant row = tenant}"
    unfolding rows by (auto dest!: in_set_takeD)
  with validated_target [OF t] rows show ?thesis by (auto simp: min_def)
qed

section \<open>Sample database\<close>

definition sample_engine :: sql_engine where
  "sample_engine =
     \<lparr>eng_show_uuid = (\<lambda>u. show_nat (unat u)), eng_parse_uuid = (\<lambda>s. map_option of_nat (parse_digits s)),
      eng_jsonb_eq = (=), eng_key_eq = (\<lambda>_ _. (=)), eng_order = (\<lambda>_ rows. rows),
      eng_populate = (\<lambda>_ object. case map_of object ''tenant_id'' of
          Some (JString s) \<Rightarrow> map_option (\<lambda>n. \<lparr>row_tenant = of_nat n, row_cells = map (apsnd Some) object\<rparr>) (parse_digits s)
        | _ \<Rightarrow> None),
      eng_default = (\<lambda>_ _. None), eng_unique_index = (\<lambda>_ _. True), eng_accepts = (\<lambda>_ _ _. True),
      eng_begins = True, eng_sets_read_only = True, eng_sets_timeout = True, eng_completes = True, eng_commits = True\<rparr>"

lemma sample_engine_laws: "orders_rows sample_engine" "populates_tenant sample_engine"
  by (auto simp: orders_rows_def populates_tenant_def sample_engine_def split: option.splits json.splits)

definition sample_row :: "uuid \<Rightarrow> bool \<Rightarrow> table_row" where
  "sample_row tenant b = \<lparr>row_tenant = tenant, row_cells = [(''name'', Some (JBool b))]\<rparr>"

definition sample_hosts :: relation where
  "sample_hosts = \<lparr>rel_is_view = False, rel_tenant_is_uuid = True, rel_columns = [''name''],
     rel_rows = [sample_row 1 True, sample_row 2 True, sample_row 1 False]\<rparr>"

definition sample_broker_db :: broker_db where
  "sample_broker_db = \<lparr>bd_relations = [(''hosts'', sample_hosts)], bd_outbox = []\<rparr>"

definition sample_wire :: broker_wire where
  "sample_wire = \<lparr>bw_request = (\<lambda>_. Inr 10), bw_response = (\<lambda>_. Inr 10), bw_value = (\<lambda>_. Inr 10)\<rparr>"

lemma sample_names [simp]:
  "database_table_name ''postgres:table:hosts'' = Some ''hosts''" "safe_field ''name''"
  by code_simp+

lemma sample_tenant [simp]: "eng_parse_uuid sample_engine ''1'' = Some 1"
  by code_simp

lemma sample_engine_fields [simp]:
  "eng_begins sample_engine" "eng_sets_read_only sample_engine" "eng_sets_timeout sample_engine"
  "eng_completes sample_engine" "eng_commits sample_engine" "eng_accepts sample_engine t old new"
  "eng_order sample_engine ord pairs = pairs" "eng_jsonb_eq sample_engine = (=)"
  by (simp_all add: sample_engine_def)

lemma sample_target [simp]:
  "validated_database_target sample_engine sample_broker_db ''1'' ''postgres:table:hosts'' views = Inr (1, ''hosts'', sample_hosts)"
  by (simp add: validated_database_target_def relation_has_tenant_uuid_def ok_or_def sample_broker_db_def sample_hosts_def)

lemma sample_begins [simp]: "begin_mutation_transaction sample_engine = Inr ()"
  by (simp add: begin_mutation_transaction_def result_simps)

lemmas sample_scan = sample_hosts_def sample_row_def scan_def filters_match_def cell_def columns_known_def

lemma sample_delete_valid: "validate_database_delete sample_wire (sample_delete (JBool True)) = Inr ()"
  by (simp add: validate_database_delete_def validate_database_filters_def validate_database_mutation_resource_def
      validate_database_mutation_limit_def validate_serialized_size_def validate_filter_value_def result_simps
      sample_delete_def sample_wire_def len_def)

lemma mutations_stay_in_tenant_example:
  "fst (execute_database_delete sample_engine (\<lambda>_ _. Inr) ''1'' (sample_delete (JBool True)) sample_broker_db) = Inr 1
   \<and> own_rows 2 (snd (execute_database_delete sample_engine (\<lambda>_ _. Inr) ''1'' (sample_delete (JBool True)) sample_broker_db)) ''hosts''
     = own_rows 2 sample_broker_db ''hosts''"
proof -
  have "fst (execute_database_delete sample_engine (\<lambda>_ _. Inr) ''1'' (sample_delete (JBool True)) sample_broker_db) = Inr 1"
    "follow_up_confined (\<lambda>_ _. Inr)" "catalog_ok sample_broker_db" "eng_parse_uuid sample_engine ''1'' \<noteq> Some 2"
    by (simp add: sample_delete_def execute_database_delete_def commit_mutation_def mutation_result_def sample_scan len_def)
      (simp_all add: follow_up_confined_def catalog_ok_def sample_broker_db_def)
  then show ?thesis
    using mutations_stay_in_tenant [OF sample_engine_laws, of "\<lambda>_ _. Inr" sample_broker_db "''1''" 2 sample_wire undefined "''hosts''"
      undefined "sample_delete (JBool True)"] sample_delete_valid by blast
qed

definition sample_select :: database_select_request where
  "sample_select = \<lparr>sel_lease = ''lease'', sel_permission_id = ''p'', sel_resource = ''postgres:table:hosts'',
     sel_columns = [''name''], sel_filters = [], sel_order_by = [], sel_limit = 5\<rparr>"

theorem select_returns_own_rows_witness:
  "\<exists>rows. execute_database_select sample_engine sample_wire ''1'' sample_select sample_broker_db = Inr rows
     \<and> length (rows_rows rows) = 2
     \<and> set (rows_rows rows) \<subseteq> project_row sample_engine [''name''] ` {sample_row 1 True, sample_row 1 False}"
proof -
  have "map_sum (\<lambda>_. ()) (\<lambda>rows. length (rows_rows rows))
      (execute_database_select sample_engine sample_wire ''1'' sample_select sample_broker_db) = Inr 2"
    by (simp add: execute_database_select_def sample_scan project_row_def sample_select_def validate_response_def validate_database_rows_def validate_serialized_size_def is_ok_iff
        result_simps nth_Cons sample_wire_def len_def split: nat.splits)
  then obtain rows where rows: "execute_database_select sample_engine sample_wire ''1'' sample_select sample_broker_db = Inr rows"
    "length (rows_rows rows) = 2"
    by (auto simp: map_sum_def split: sum.splits)
  from select_returns_own_rows [OF sample_engine_laws(1) rows(1)]
  have "set (rows_rows rows) \<subseteq> project_row sample_engine [''name'']
      ` {row \<in> set [sample_row 1 True, sample_row 2 True, sample_row 1 False]. row_tenant row = 1}"
    by (auto simp: sample_broker_db_def sample_hosts_def sample_select_def split: if_splits)
  then have "set (rows_rows rows) \<subseteq> project_row sample_engine [''name''] ` {sample_row 1 True, sample_row 1 False}"
    by (rule order_trans) (auto simp: sample_row_def)
  with rows show ?thesis by blast
qed

end
