(* ===== verification/Knowledge_Spaces.thy ===== *)
theory Knowledge_Spaces
  imports Sql_Model
begin

text \<open>
  Knowledge Spaces and who may do what in them: \<open>crates/gadgetron-xaas/src/knowledge_spaces.rs\<close> and the
  paths of \<open>crates/gadgetron-core/src/knowledge/mod.rs\<close>.

  The tables of \<open>migrations/20260711000001_knowledge_spaces.sql\<close>, with the user, team and group tables they
  refer to, are the lists of their rows in \<open>spaces_db\<close>.  A query is the list operation it denotes, a
  constraint that is violated is a \<open>sql_fault\<close>, and a transaction that fails changes nothing.  \<open>NOW()\<close> and
  generated identifiers are arguments; an operation is one step, so the model does not interleave the role
  check of one call with the writes of another (the code runs them as separate statements); the text of UUIDs and faults and the collation are the fields of
  \<open>spaces_env\<close>.  Revisions are mathematical integers (they count changes in a \<open>BIGINT\<close>).
\<close>

section \<open>Data\<close>

record space_actor =
  sa_tenant_id :: uuid
  sa_user_id :: uuid

datatype space_role = Viewer | Contributor | Curator | Manager

fun role_text :: "space_role \<Rightarrow> string" where
  "role_text Viewer = ''viewer''"
| "role_text Contributor = ''contributor''"
| "role_text Curator = ''curator''"
| "role_text Manager = ''manager''"

fun weight :: "space_role \<Rightarrow> nat" where
  "weight Viewer = 1"
| "weight Contributor = 2"
| "weight Curator = 3"
| "weight Manager = 4"

datatype principal_kind = PrincipalUser | PrincipalTeam | PrincipalGroup

fun principal_kind_text :: "principal_kind \<Rightarrow> string" where
  "principal_kind_text PrincipalUser = ''user''"
| "principal_kind_text PrincipalTeam = ''team''"
| "principal_kind_text PrincipalGroup = ''group''"

datatype share_mode = ShareReference | ShareSnapshot | ShareFork | SharePromote | ShareSynthesize

datatype vault_owner_state = OwnerEnabled | OwnerDegraded | OwnerUnavailable

datatype sql_fault = UniqueViolation | ForeignKeyViolation | CheckViolation | RowNotFound

datatype knowledge_space_error =
    SpaceInvalidInput string
  | SpaceNotFound
  | SpaceForbidden
  | SpaceRevisionConflict
  | SpaceConflict
  | SpaceDatabase sql_fault

record user_row =
  us_id :: uuid
  us_tenant_id :: uuid
  us_role :: string
  us_is_active :: bool

record project_record =
  pj_id :: uuid
  pj_tenant_id :: uuid
  pj_slug :: string
  pj_title :: string
  pj_goal :: string
  pj_status :: string
  pj_owner_user_id :: uuid
  pj_policy :: json
  pj_policy_revision :: int
  pj_revision :: int
  pj_created_at :: int
  pj_updated_at :: int

record knowledge_space_row =
  sp_id :: uuid
  sp_tenant_id :: uuid
  sp_kind :: string
  sp_title :: string
  sp_owner_user_id :: "uuid option"
  sp_owner_team_id :: "string option"
  sp_owner_project_id :: "uuid option"
  sp_status :: string
  sp_policy :: json
  sp_revision :: int
  sp_created_at :: int
  sp_updated_at :: int

record effective_space_row =
  es_space :: knowledge_space_row
  es_effective_role :: space_role

record knowledge_space_grant_row =
  sg_id :: uuid
  sg_tenant_id :: uuid
  sg_space_id :: uuid
  sg_principal_kind :: string
  sg_principal_id :: string
  sg_role :: string
  sg_expires_at :: "int option"
  sg_created_by :: uuid
  sg_revision :: int
  sg_created_at :: int
  sg_updated_at :: int
  sg_revoked_at :: "int option"

record knowledge_vault_row =
  va_id :: uuid
  va_tenant_id :: uuid
  va_space_id :: uuid
  va_home_bundle_id :: string
  va_knowledge_schema_id :: string
  va_schema_version :: int
  va_owner_state :: vault_owner_state
  va_revision :: int
  va_created_at :: int
  va_updated_at :: int

record vault_object_row =
  vo_id :: uuid
  vo_tenant_id :: uuid
  vo_vault_id :: uuid
  vo_canonical_kind :: string
  vo_path :: string
  vo_status :: string
  vo_content_hash :: "string option"
  vo_created_by :: uuid
  vo_revision :: int
  vo_created_at :: int
  vo_updated_at :: int

record knowledge_share_row =
  sh_id :: uuid
  sh_tenant_id :: uuid
  sh_source_space_id :: uuid
  sh_source_object_id :: uuid
  sh_source_revision :: int
  sh_target_space_id :: uuid
  sh_mode :: share_mode
  sh_follow_latest :: bool
  sh_target_object_id :: "uuid option"
  sh_policy_disposition :: string
  sh_created_by :: uuid
  sh_revision :: int
  sh_created_at :: int
  sh_updated_at :: int
  sh_revoked_at :: "int option"

record create_project_request =
  cp_slug :: string
  cp_title :: string
  cp_goal :: string
  cp_policy :: json

record ensure_vault_request =
  ev_home_bundle_id :: string
  ev_knowledge_schema_id :: string
  ev_schema_version :: int

record register_object_request =
  ro_canonical_kind :: string
  ro_path :: string
  ro_content_hash :: "string option"

record create_share_request =
  cs_target_space_id :: uuid
  cs_source_revision :: int
  cs_mode :: share_mode
  cs_follow_latest :: bool
  cs_policy_disposition :: string

text \<open>Teams and groups are pairs of an identifier and a tenant; a membership names its team or group.\<close>

record spaces_db =
  sd_users :: "user_row list"
  sd_teams :: "(string \<times> uuid) list"
  sd_team_members :: "(string \<times> uuid \<times> string) list"
  sd_groups :: "(string \<times> uuid) list"
  sd_user_groups :: "(string \<times> uuid) list"
  sd_projects :: "project_record list"
  sd_spaces :: "knowledge_space_row list"
  sd_grants :: "knowledge_space_grant_row list"
  sd_vaults :: "knowledge_vault_row list"
  sd_objects :: "vault_object_row list"
  sd_shares :: "knowledge_share_row list"

record spaces_env =
  sv_show_uuid :: "uuid \<Rightarrow> string"
  sv_parse_uuid :: "string \<Rightarrow> uuid option"
  sv_fault_text :: "sql_fault \<Rightarrow> string"
  sv_space_le :: "knowledge_space_row \<Rightarrow> knowledge_space_row \<Rightarrow> bool"
  sv_text_le :: "string \<Rightarrow> string \<Rightarrow> bool"

type_synonym 'a space_result = "(knowledge_space_error, 'a) result"

section \<open>Paths\<close>

datatype knowledge_path_error = PathEmpty | PathTraversal | PathControlChar | PathTooLong int

abbreviation KNOWLEDGE_PATH_MAX_LEN :: int where "KNOWLEDGE_PATH_MAX_LEN \<equiv> 1024"

definition knowledge_path_new :: "string \<Rightarrow> (knowledge_path_error, string) result" where
  "knowledge_path_new s =
     (if s = [] then Inl PathEmpty
      else if len s > KNOWLEDGE_PATH_MAX_LEN then Inl (PathTooLong (len s))
      else if hd s = CHR ''/'' \<or> last s = CHR ''/'' then Inl PathTraversal
      else if ''..'' \<in> set (split_on (CHR ''/'') s) then Inl PathTraversal
      else if list_ex is_ascii_control s then Inl PathControlChar
      else Inr s)"

definition quoted :: "string \<Rightarrow> string" where
  "quoted s = CHR 0x27 # s @ [CHR 0x27]"

fun path_error_display :: "knowledge_path_error \<Rightarrow> string" where
  "path_error_display PathEmpty = ''knowledge path must not be empty''"
| "path_error_display PathTraversal =
     ''knowledge path must not contain '' @ quoted ''..'' @ '', lead with '' @ quoted ''/'' @ '', or end with '' @ quoted ''/''"
| "path_error_display PathControlChar = ''knowledge path must not contain ASCII control characters''"
| "path_error_display (PathTooLong actual) =
     ''knowledge path must be '' @ [CHR 0xE2, CHR 0x89, CHR 0xA4] @ '' '' @ show_int KNOWLEDGE_PATH_MAX_LEN @ '' bytes; got '' @ show_int actual @ '' bytes''"

section \<open>Roles\<close>

definition parse_role :: "string \<Rightarrow> space_role space_result" where
  "parse_role s =
     (case find (\<lambda>r. role_text r = s) [Viewer, Contributor, Curator, Manager] of
        Some r \<Rightarrow> Inr r
      | None \<Rightarrow> Inl (SpaceInvalidInput (''unknown Space role '' @ debug_id s)))"

definition stronger :: "space_role option \<Rightarrow> space_role \<Rightarrow> space_role option" where
  "stronger current candidate =
     (case current of Some r \<Rightarrow> if weight r \<ge> weight candidate then Some r else Some candidate | None \<Rightarrow> Some candidate)"

definition ensure_active_actor :: "spaces_db \<Rightarrow> space_actor \<Rightarrow> string space_result" where
  "ensure_active_actor db actor =
     ok_or (map_option us_role (find (\<lambda>u. us_id u = sa_user_id actor \<and> us_tenant_id u = sa_tenant_id actor \<and> us_is_active u)
        (sd_users db))) SpaceForbidden"

definition team_role :: "spaces_db \<Rightarrow> uuid \<Rightarrow> string \<Rightarrow> uuid \<Rightarrow> string option" where
  "team_role db tenant team user =
     (if (team, tenant) \<in> set (sd_teams db)
      then map_option (snd \<circ> snd) (find (\<lambda>(t, u, _). t = team \<and> u = user) (sd_team_members db))
      else None)"

definition in_group :: "spaces_db \<Rightarrow> uuid \<Rightarrow> string \<Rightarrow> uuid \<Rightarrow> bool" where
  "in_group db tenant grp user \<longleftrightarrow> (grp, tenant) \<in> set (sd_groups db) \<and> (grp, user) \<in> set (sd_user_groups db)"

definition project_owner :: "spaces_db \<Rightarrow> uuid \<Rightarrow> uuid \<Rightarrow> uuid option" where
  "project_owner db tenant project =
     map_option pj_owner_user_id (find (\<lambda>p. pj_id p = project \<and> pj_tenant_id p = tenant) (sd_projects db))"

definition grant_live :: "int \<Rightarrow> knowledge_space_grant_row \<Rightarrow> bool" where
  "grant_live now g \<longleftrightarrow> sg_revoked_at g = None \<and> (case sg_expires_at g of None \<Rightarrow> True | Some t \<Rightarrow> t > now)"

definition grant_names :: "spaces_env \<Rightarrow> spaces_db \<Rightarrow> space_actor \<Rightarrow> knowledge_space_grant_row \<Rightarrow> bool" where
  "grant_names E db actor g \<longleftrightarrow>
     (sg_principal_kind g = ''user'' \<and> sg_principal_id g = sv_show_uuid E (sa_user_id actor))
     \<or> (sg_principal_kind g = ''team'' \<and> team_role db (sa_tenant_id actor) (sg_principal_id g) (sa_user_id actor) \<noteq> None)
     \<or> (sg_principal_kind g = ''group'' \<and> in_group db (sa_tenant_id actor) (sg_principal_id g) (sa_user_id actor))"

definition explicit_roles :: "spaces_env \<Rightarrow> int \<Rightarrow> spaces_db \<Rightarrow> space_actor \<Rightarrow> uuid \<Rightarrow> string list" where
  "explicit_roles E now db actor space =
     map sg_role (filter (\<lambda>g. sg_tenant_id g = sa_tenant_id actor \<and> sg_space_id g = space \<and> grant_live now g \<and> grant_names E db actor g)
       (sd_grants db))"

fun strengthen :: "space_role option \<Rightarrow> string list \<Rightarrow> space_role option space_result" where
  "strengthen best [] = Inr best"
| "strengthen best (s # ss) = and_then (parse_role s) (\<lambda>r. strengthen (stronger best r) ss)"

definition implicit_role :: "spaces_db \<Rightarrow> space_actor \<Rightarrow> knowledge_space_row \<Rightarrow> space_role option" where
  "implicit_role db actor space =
     (let best = (if sp_owner_user_id space = Some (sa_user_id actor) then stronger None Manager else None);
          best = (case sp_owner_project_id space of
              Some project \<Rightarrow> if project_owner db (sa_tenant_id actor) project = Some (sa_user_id actor) then stronger best Manager else best
            | None \<Rightarrow> best);
          best = (case sp_owner_team_id space of
              Some team \<Rightarrow>
                (let membership = team_role db (sa_tenant_id actor) team (sa_user_id actor)
                 in if membership = Some ''lead'' then stronger best Manager
                    else if membership = Some ''member'' then stronger best Contributor else best)
            | None \<Rightarrow> best)
      in if sp_kind space = ''tenant_shared'' then stronger best Viewer else best)"

definition effective_role ::
  "spaces_env \<Rightarrow> int \<Rightarrow> spaces_db \<Rightarrow> space_actor \<Rightarrow> knowledge_space_row \<Rightarrow> space_role option space_result" where
  "effective_role E now db actor space =
     and_then (ensure_active_actor db actor) (\<lambda>actor_role.
       if actor_role = ''admin'' then Inr (Some Manager)
       else strengthen (implicit_role db actor space) (explicit_roles E now db actor (sp_id space)))"

definition find_space :: "spaces_db \<Rightarrow> uuid \<Rightarrow> uuid \<Rightarrow> knowledge_space_row option" where
  "find_space db tenant space = find (\<lambda>s. sp_tenant_id s = tenant \<and> sp_id s = space) (sd_spaces db)"

definition require_role ::
  "spaces_env \<Rightarrow> int \<Rightarrow> spaces_db \<Rightarrow> space_actor \<Rightarrow> uuid \<Rightarrow> space_role \<Rightarrow> bool \<Rightarrow> knowledge_space_row space_result" where
  "require_role E now db actor space_id required require_active =
     and_then (ok_or (find_space db (sa_tenant_id actor) space_id) SpaceNotFound) (\<lambda>space.
     and_then (check (\<not> (require_active \<and> sp_status space \<noteq> ''active'')) SpaceForbidden) (\<lambda>_.
     and_then (effective_role E now db actor space) (\<lambda>role.
     and_then (ok_or role SpaceForbidden) (\<lambda>role.
     and_then (check (\<not> weight role < weight required) SpaceForbidden) (\<lambda>_.
       Inr space)))))"

fun effective_from ::
  "spaces_env \<Rightarrow> int \<Rightarrow> spaces_db \<Rightarrow> space_actor \<Rightarrow> knowledge_space_row list \<Rightarrow> effective_space_row list space_result" where
  "effective_from E now db actor [] = Inr []"
| "effective_from E now db actor (s # ss) =
     and_then (effective_role E now db actor s) (\<lambda>role.
     and_then (effective_from E now db actor ss) (\<lambda>visible.
       Inr (case role of Some r \<Rightarrow> \<lparr>es_space = s, es_effective_role = r\<rparr> # visible | None \<Rightarrow> visible)))"

definition effective_spaces :: "spaces_env \<Rightarrow> int \<Rightarrow> spaces_db \<Rightarrow> space_actor \<Rightarrow> effective_space_row list space_result" where
  "effective_spaces E now db actor =
     and_then (ensure_active_actor db actor) (\<lambda>_.
       effective_from E now db actor
        (sort_by (sv_space_le E) (filter (\<lambda>s. sp_tenant_id s = sa_tenant_id actor) (sd_spaces db))))"

section \<open>Creating Spaces\<close>

fun map_constraint :: "spaces_env \<Rightarrow> sql_fault \<Rightarrow> knowledge_space_error" where
  "map_constraint E UniqueViolation = SpaceConflict"
| "map_constraint E ForeignKeyViolation = SpaceInvalidInput (sv_fault_text E ForeignKeyViolation)"
| "map_constraint E CheckViolation = SpaceInvalidInput (sv_fault_text E CheckViolation)"
| "map_constraint E RowNotFound = SpaceDatabase RowNotFound"

definition map_fault :: "(sql_fault \<Rightarrow> 'e) \<Rightarrow> (sql_fault, 'a) result \<Rightarrow> ('e, 'a) result" where
  "map_fault f r = map_sum f (\<lambda>a. a) r"

definition title_ok :: "string \<Rightarrow> bool" where
  "title_ok s \<longleftrightarrow> text_length_within 200 (btrim s)"

definition slug_ok :: "string \<Rightarrow> bool" where
  "slug_ok s \<longleftrightarrow>
     2 \<le> len s \<and> len s \<le> 64 \<and> is_ascii_lowercase (hd s) \<and> last s \<noteq> CHR ''-''
     \<and> list_all (\<lambda>c. is_ascii_lowercase c \<or> is_ascii_digit c \<or> c = CHR ''-'') s"

definition user_exists :: "spaces_db \<Rightarrow> uuid \<Rightarrow> uuid \<Rightarrow> bool" where
  "user_exists db tenant user \<longleftrightarrow> list_ex (\<lambda>u. us_tenant_id u = tenant \<and> us_id u = user) (sd_users db)"

definition space_shape_ok :: "knowledge_space_row \<Rightarrow> bool" where
  "space_shape_ok s \<longleftrightarrow>
     (sp_kind s, sp_owner_user_id s = None, sp_owner_team_id s = None, sp_owner_project_id s = None)
       \<in> set [(''personal'', False, True, True), (''team'', True, False, True), (''project'', True, True, False),
              (''tenant_shared'', True, True, True)]"

definition owner_key :: "knowledge_space_row \<Rightarrow> uuid \<times> string \<times> uuid option \<times> string option \<times> uuid option" where
  "owner_key s = (sp_tenant_id s, sp_kind s, sp_owner_user_id s, sp_owner_team_id s, sp_owner_project_id s)"

definition insert_space ::
  "uuid \<Rightarrow> int \<Rightarrow> uuid \<Rightarrow> string \<Rightarrow> string \<Rightarrow> uuid option \<Rightarrow> string option \<Rightarrow> uuid option \<Rightarrow> spaces_db
   \<Rightarrow> (sql_fault, knowledge_space_row \<times> spaces_db) result" where
  "insert_space new_id now tenant kind title owner_user owner_team owner_project db =
     (let s = \<lparr>sp_id = new_id, sp_tenant_id = tenant, sp_kind = kind, sp_title = title, sp_owner_user_id = owner_user,
               sp_owner_team_id = owner_team, sp_owner_project_id = owner_project, sp_status = ''active'',
               sp_policy = JObject [], sp_revision = 1, sp_created_at = now, sp_updated_at = now\<rparr>
      in if \<not> (title_ok title \<and> space_shape_ok s) then Inl CheckViolation
         else if list_ex (\<lambda>t. sp_id t = new_id \<or> owner_key t = owner_key s) (sd_spaces db) then Inl UniqueViolation
         else if \<not> ((case owner_user of None \<Rightarrow> True | Some u \<Rightarrow> user_exists db tenant u)
                  \<and> (case owner_team of None \<Rightarrow> True | Some t \<Rightarrow> (t, tenant) \<in> set (sd_teams db))
                  \<and> (case owner_project of None \<Rightarrow> True | Some p \<Rightarrow> project_owner db tenant p \<noteq> None))
         then Inl ForeignKeyViolation
         else Inr (s, db\<lparr>sd_spaces := sd_spaces db @ [s]\<rparr>))"

definition insert_project ::
  "uuid \<Rightarrow> int \<Rightarrow> space_actor \<Rightarrow> create_project_request \<Rightarrow> spaces_db \<Rightarrow> (sql_fault, project_record \<times> spaces_db) result" where
  "insert_project new_id now actor r db =
     (let p = \<lparr>pj_id = new_id, pj_tenant_id = sa_tenant_id actor, pj_slug = cp_slug r, pj_title = cp_title r,
               pj_goal = cp_goal r, pj_status = ''active'', pj_owner_user_id = sa_user_id actor, pj_policy = cp_policy r,
               pj_policy_revision = 1, pj_revision = 1, pj_created_at = now, pj_updated_at = now\<rparr>
      in if \<not> (slug_ok (cp_slug r) \<and> title_ok (cp_title r) \<and> as_object (cp_policy r) \<noteq> None) then Inl CheckViolation
         else if list_ex (\<lambda>q. pj_id q = new_id \<or> (pj_tenant_id q = sa_tenant_id actor \<and> pj_slug q = cp_slug r)) (sd_projects db)
         then Inl UniqueViolation
         else if \<not> user_exists db (sa_tenant_id actor) (sa_user_id actor) then Inl ForeignKeyViolation
         else Inr (p, db\<lparr>sd_projects := sd_projects db @ [p]\<rparr>))"

definition create_project ::
  "spaces_env \<Rightarrow> uuid \<times> uuid \<Rightarrow> int \<Rightarrow> space_actor \<Rightarrow> create_project_request \<Rightarrow> spaces_db
   \<Rightarrow> (project_record \<times> knowledge_space_row) space_result \<times> spaces_db" where
  "create_project E ids now actor r =
     transaction (\<lambda>db.
       and_then (ensure_active_actor db actor) (\<lambda>_.
       and_then (map_fault (map_constraint E) (insert_project (fst ids) now actor r db)) (\<lambda>(project, db).
       and_then (map_fault (map_constraint E)
          (insert_space (snd ids) now (sa_tenant_id actor) ''project'' (pj_title project) None None (Some (pj_id project)) db)) (\<lambda>(space, db).
         Inr ((project, space), db)))))"

definition find_owned_space :: "spaces_db \<Rightarrow> uuid \<Rightarrow> string \<Rightarrow> uuid \<Rightarrow> knowledge_space_row option" where
  "find_owned_space db tenant kind owner =
     find (\<lambda>s. sp_tenant_id s = tenant \<and> sp_kind s = kind \<and> sp_owner_user_id s = Some owner) (sd_spaces db)"

definition ensure_personal_space ::
  "spaces_env \<Rightarrow> uuid \<Rightarrow> int \<Rightarrow> space_actor \<Rightarrow> string \<Rightarrow> spaces_db \<Rightarrow> knowledge_space_row space_result \<times> spaces_db" where
  "ensure_personal_space E new_id now actor title =
     transaction (\<lambda>db.
       and_then (ensure_active_actor db actor) (\<lambda>_.
       (case find_owned_space db (sa_tenant_id actor) ''personal'' (sa_user_id actor) of
          Some s \<Rightarrow> Inr (s, db)
        | None \<Rightarrow>
            (case map_fault (map_constraint E)
                (insert_space new_id now (sa_tenant_id actor) ''personal'' title (Some (sa_user_id actor)) None None db) of
               Inl SpaceConflict \<Rightarrow>
                 and_then (ok_or (find_owned_space db (sa_tenant_id actor) ''personal'' (sa_user_id actor)) SpaceConflict) (\<lambda>s. Inr (s, db))
             | r \<Rightarrow> r))))"

definition ensure_team_space ::
  "spaces_env \<Rightarrow> uuid \<Rightarrow> int \<Rightarrow> space_actor \<Rightarrow> string \<Rightarrow> string \<Rightarrow> spaces_db \<Rightarrow> knowledge_space_row space_result \<times> spaces_db" where
  "ensure_team_space E new_id now actor team title =
     transaction (\<lambda>db.
       and_then (ensure_active_actor db actor) (\<lambda>actor_role.
       and_then (check (\<not> (actor_role \<noteq> ''admin'' \<and> team_role db (sa_tenant_id actor) team (sa_user_id actor) \<noteq> Some ''lead''))
          SpaceForbidden) (\<lambda>_.
       (case find (\<lambda>s. sp_tenant_id s = sa_tenant_id actor \<and> sp_kind s = ''team'' \<and> sp_owner_team_id s = Some team) (sd_spaces db) of
          Some s \<Rightarrow> Inr (s, db)
        | None \<Rightarrow> map_fault (map_constraint E) (insert_space new_id now (sa_tenant_id actor) ''team'' title None (Some team) None db)))))"

definition ensure_tenant_shared_space ::
  "spaces_env \<Rightarrow> uuid \<Rightarrow> int \<Rightarrow> space_actor \<Rightarrow> string \<Rightarrow> spaces_db \<Rightarrow> knowledge_space_row space_result \<times> spaces_db" where
  "ensure_tenant_shared_space E new_id now actor title =
     transaction (\<lambda>db.
       and_then (ensure_active_actor db actor) (\<lambda>actor_role.
       and_then (check (actor_role = ''admin'') SpaceForbidden) (\<lambda>_.
       (case find (\<lambda>s. sp_tenant_id s = sa_tenant_id actor \<and> sp_kind s = ''tenant_shared'') (sd_spaces db) of
          Some s \<Rightarrow> Inr (s, db)
        | None \<Rightarrow> map_fault (map_constraint E) (insert_space new_id now (sa_tenant_id actor) ''tenant_shared'' title None None None db)))))"

section \<open>Grants\<close>

definition validate_principal :: "spaces_env \<Rightarrow> spaces_db \<Rightarrow> uuid \<Rightarrow> principal_kind \<Rightarrow> string \<Rightarrow> unit space_result" where
  "validate_principal E db tenant kind principal_id =
     (case kind of
        PrincipalUser \<Rightarrow>
          and_then (ok_or (sv_parse_uuid E principal_id) (SpaceInvalidInput ''user principal must be a UUID'')) (\<lambda>u.
            check (user_exists db tenant u) SpaceNotFound)
      | PrincipalTeam \<Rightarrow> check ((principal_id, tenant) \<in> set (sd_teams db)) SpaceNotFound
      | PrincipalGroup \<Rightarrow> check ((principal_id, tenant) \<in> set (sd_groups db)) SpaceNotFound)"

definition same_grant :: "uuid \<Rightarrow> principal_kind \<Rightarrow> string \<Rightarrow> knowledge_space_grant_row \<Rightarrow> bool" where
  "same_grant space kind principal_id g \<longleftrightarrow>
     sg_space_id g = space \<and> sg_principal_kind g = principal_kind_text kind \<and> sg_principal_id g = principal_id"

definition upsert_grant_row ::
  "uuid \<Rightarrow> int \<Rightarrow> space_actor \<Rightarrow> uuid \<Rightarrow> principal_kind \<Rightarrow> string \<Rightarrow> space_role \<Rightarrow> int option \<Rightarrow> spaces_db
   \<Rightarrow> (sql_fault, knowledge_space_grant_row \<times> spaces_db) result" where
  "upsert_grant_row new_id now actor space kind principal_id role expires db =
     (if \<not> text_length_within 128 (btrim principal_id) then Inl CheckViolation
      else case find (same_grant space kind principal_id) (sd_grants db) of
        Some g \<Rightarrow>
          (let renewed = g\<lparr>sg_role := role_text role, sg_expires_at := expires, sg_revoked_at := None,
                 sg_revision := sg_revision g + 1, sg_updated_at := now, sg_created_by := sa_user_id actor\<rparr>
           in Inr (renewed, db\<lparr>sd_grants := map (\<lambda>h. if same_grant space kind principal_id h then renewed else h) (sd_grants db)\<rparr>))
      | None \<Rightarrow>
          (let g = \<lparr>sg_id = new_id, sg_tenant_id = sa_tenant_id actor, sg_space_id = space,
                 sg_principal_kind = principal_kind_text kind, sg_principal_id = principal_id, sg_role = role_text role,
                 sg_expires_at = expires, sg_created_by = sa_user_id actor, sg_revision = 1, sg_created_at = now,
                 sg_updated_at = now, sg_revoked_at = None\<rparr>
           in if list_ex (\<lambda>h. sg_id h = new_id) (sd_grants db) then Inl UniqueViolation
              else Inr (g, db\<lparr>sd_grants := sd_grants db @ [g]\<rparr>)))"

definition upsert_grant ::
  "spaces_env \<Rightarrow> uuid \<Rightarrow> int \<Rightarrow> space_actor \<Rightarrow> uuid \<Rightarrow> principal_kind \<Rightarrow> string \<Rightarrow> space_role \<Rightarrow> int option \<Rightarrow> spaces_db
   \<Rightarrow> knowledge_space_grant_row space_result \<times> spaces_db" where
  "upsert_grant E new_id now actor space kind principal_id role expires =
     transaction (\<lambda>db.
       and_then (require_role E now db actor space Manager True) (\<lambda>_.
       and_then (validate_principal E db (sa_tenant_id actor) kind principal_id) (\<lambda>_.
         map_fault SpaceDatabase (upsert_grant_row new_id now actor space kind principal_id role expires db))))"

text \<open>\<open>resolve_cas\<close>: the updated row, or why there is none.\<close>

definition resolve_cas :: "'a option \<Rightarrow> bool \<Rightarrow> 'a space_result" where
  "resolve_cas row row_exists = ok_or row (if row_exists then SpaceRevisionConflict else SpaceNotFound)"

definition revoke_grant ::
  "spaces_env \<Rightarrow> int \<Rightarrow> space_actor \<Rightarrow> uuid \<Rightarrow> uuid \<Rightarrow> int \<Rightarrow> spaces_db \<Rightarrow> knowledge_space_grant_row space_result \<times> spaces_db" where
  "revoke_grant E now actor space grant_id expected =
     transaction (\<lambda>db.
       and_then (require_role E now db actor space Manager True) (\<lambda>_.
       (let hit = (\<lambda>g. sg_id g = grant_id \<and> sg_tenant_id g = sa_tenant_id actor \<and> sg_space_id g = space
                     \<and> sg_revision g = expected \<and> sg_revoked_at g = None);
            revoked = (\<lambda>g. g\<lparr>sg_revoked_at := Some now, sg_revision := sg_revision g + 1, sg_updated_at := now\<rparr>)
        in and_then (resolve_cas (find hit (sd_grants db))
              (list_ex (\<lambda>g. sg_id g = grant_id \<and> sg_tenant_id g = sa_tenant_id actor) (sd_grants db))) (\<lambda>g.
             Inr (revoked g, db\<lparr>sd_grants := map (\<lambda>g. if hit g then revoked g else g) (sd_grants db)\<rparr>)))))"

section \<open>Vaults and objects\<close>

definition home_bundle_ok :: "string \<Rightarrow> bool" where
  "home_bundle_ok s \<longleftrightarrow> slug_ok s \<or> s = ''core''"

definition same_vault :: "uuid \<Rightarrow> uuid \<Rightarrow> string \<Rightarrow> knowledge_vault_row \<Rightarrow> bool" where
  "same_vault tenant space bundle v \<longleftrightarrow> va_tenant_id v = tenant \<and> va_space_id v = space \<and> va_home_bundle_id v = bundle"

text \<open>
  The \<open>INSERT \<dots> ON CONFLICT DO UPDATE\<close> of both vault operations.  \<open>only_enabled\<close> is the \<open>WHERE\<close> of the one
  that managers use: a vault in another state is left alone and no row comes back.
\<close>

definition upsert_vault ::
  "bool \<Rightarrow> uuid \<Rightarrow> int \<Rightarrow> uuid \<Rightarrow> uuid \<Rightarrow> ensure_vault_request \<Rightarrow> spaces_db \<Rightarrow> (sql_fault, knowledge_vault_row \<times> spaces_db) result" where
  "upsert_vault only_enabled new_id now tenant space r db =
     (if \<not> (home_bundle_ok (ev_home_bundle_id r) \<and> ev_schema_version r > 0) then Inl CheckViolation
      else case find (same_vault tenant space (ev_home_bundle_id r)) (sd_vaults db) of
        Some v \<Rightarrow>
          if only_enabled \<and> va_owner_state v \<noteq> OwnerEnabled then Inl RowNotFound
          else
           (let changed = va_knowledge_schema_id v \<noteq> ev_knowledge_schema_id r \<or> va_schema_version v \<noteq> ev_schema_version r;
                updated = v\<lparr>va_knowledge_schema_id := ev_knowledge_schema_id r, va_schema_version := ev_schema_version r,
                  va_revision := (if changed then va_revision v + 1 else va_revision v),
                  va_updated_at := (if changed then now else va_updated_at v)\<rparr>
            in Inr (updated, db\<lparr>sd_vaults := map (\<lambda>w. if same_vault tenant space (ev_home_bundle_id r) w then updated else w) (sd_vaults db)\<rparr>))
      | None \<Rightarrow>
          (let v = \<lparr>va_id = new_id, va_tenant_id = tenant, va_space_id = space, va_home_bundle_id = ev_home_bundle_id r,
                 va_knowledge_schema_id = ev_knowledge_schema_id r, va_schema_version = ev_schema_version r,
                 va_owner_state = OwnerEnabled, va_revision = 1, va_created_at = now, va_updated_at = now\<rparr>
           in if list_ex (\<lambda>w. va_id w = new_id) (sd_vaults db) then Inl UniqueViolation
              else Inr (v, db\<lparr>sd_vaults := sd_vaults db @ [v]\<rparr>)))"

definition check_schema :: "ensure_vault_request \<Rightarrow> unit space_result" where
  "check_schema r =
     check (\<not> (ev_schema_version r \<le> 0 \<or> is_blank (ev_knowledge_schema_id r)))
      (SpaceInvalidInput ''schema id/version must be non-empty and positive'')"

definition ensure_vault ::
  "spaces_env \<Rightarrow> uuid \<Rightarrow> int \<Rightarrow> space_actor \<Rightarrow> uuid \<Rightarrow> ensure_vault_request \<Rightarrow> spaces_db
   \<Rightarrow> knowledge_vault_row space_result \<times> spaces_db" where
  "ensure_vault E new_id now actor space r =
     transaction (\<lambda>db.
       and_then (require_role E now db actor space Manager True) (\<lambda>_.
       and_then (check_schema r) (\<lambda>_.
         map_fault (map_constraint E) (upsert_vault True new_id now (sa_tenant_id actor) space r db))))"

definition ensure_service_bundle_vault ::
  "spaces_env \<Rightarrow> uuid \<Rightarrow> int \<Rightarrow> space_actor \<Rightarrow> space_actor \<Rightarrow> uuid \<Rightarrow> ensure_vault_request \<Rightarrow> spaces_db
   \<Rightarrow> knowledge_vault_row space_result \<times> spaces_db" where
  "ensure_service_bundle_vault E new_id now service_actor on_behalf space r =
     transaction (\<lambda>db.
       and_then (check (sa_tenant_id service_actor = sa_tenant_id on_behalf) SpaceForbidden) (\<lambda>_.
       and_then (require_role E now db service_actor space Contributor True) (\<lambda>_.
       and_then (require_role E now db on_behalf space Contributor True) (\<lambda>_.
       and_then (check_schema r) (\<lambda>_.
         map_fault (map_constraint E) (upsert_vault False new_id now (sa_tenant_id service_actor) space r db))))))"

definition list_vaults ::
  "spaces_env \<Rightarrow> int \<Rightarrow> space_actor \<Rightarrow> uuid \<Rightarrow> spaces_db \<Rightarrow> knowledge_vault_row list space_result" where
  "list_vaults E now actor space db =
     and_then (require_role E now db actor space Viewer False) (\<lambda>_.
       Inr (sort_by (\<lambda>a b. sv_text_le E (va_home_bundle_id a) (va_home_bundle_id b))
         (filter (\<lambda>v. va_tenant_id v = sa_tenant_id actor \<and> va_space_id v = space) (sd_vaults db))))"

definition find_vault :: "spaces_db \<Rightarrow> uuid \<Rightarrow> uuid \<Rightarrow> knowledge_vault_row option" where
  "find_vault db tenant vault = find (\<lambda>v. va_id v = vault \<and> va_tenant_id v = tenant) (sd_vaults db)"

definition object_checks :: "register_object_request \<Rightarrow> bool" where
  "object_checks r \<longleftrightarrow>
     ro_canonical_kind r \<in> set [''source'', ''note'', ''candidate'', ''lesson'', ''insight'', ''domain_entity'']
     \<and> text_length_within 1024 (btrim (ro_path r))
     \<and> (case ro_content_hash r of None \<Rightarrow> True | Some h \<Rightarrow> is_sha256_text h)"

definition insert_object ::
  "uuid \<Rightarrow> int \<Rightarrow> space_actor \<Rightarrow> uuid \<Rightarrow> register_object_request \<Rightarrow> spaces_db \<Rightarrow> (sql_fault, vault_object_row \<times> spaces_db) result" where
  "insert_object new_id now actor vault r db =
     (let x = \<lparr>vo_id = new_id, vo_tenant_id = sa_tenant_id actor, vo_vault_id = vault, vo_canonical_kind = ro_canonical_kind r,
               vo_path = ro_path r, vo_status = ''active'', vo_content_hash = ro_content_hash r,
               vo_created_by = sa_user_id actor, vo_revision = 1, vo_created_at = now, vo_updated_at = now\<rparr>
      in if \<not> object_checks r then Inl CheckViolation
         else if list_ex (\<lambda>y. vo_id y = new_id \<or> (vo_vault_id y = vault \<and> vo_path y = ro_path r)) (sd_objects db) then Inl UniqueViolation
         else if \<not> user_exists db (sa_tenant_id actor) (sa_user_id actor) then Inl ForeignKeyViolation
         else Inr (x, db\<lparr>sd_objects := sd_objects db @ [x]\<rparr>))"

definition register_object ::
  "spaces_env \<Rightarrow> uuid \<Rightarrow> int \<Rightarrow> space_actor \<Rightarrow> uuid \<Rightarrow> register_object_request \<Rightarrow> spaces_db
   \<Rightarrow> vault_object_row space_result \<times> spaces_db" where
  "register_object E new_id now actor vault_id r =
     transaction (\<lambda>db.
       and_then (map_sum (\<lambda>e. SpaceInvalidInput (''invalid knowledge object path: '' @ path_error_display e)) (\<lambda>p. p)
          (knowledge_path_new (ro_path r))) (\<lambda>_.
       and_then (ok_or (find_vault db (sa_tenant_id actor) vault_id) SpaceNotFound) (\<lambda>vault.
       and_then (require_role E now db actor (va_space_id vault) Contributor True) (\<lambda>_.
       and_then (check (va_owner_state vault = OwnerEnabled) SpaceForbidden) (\<lambda>_.
         map_fault (map_constraint E) (insert_object new_id now actor vault_id r db))))))"

section \<open>Shares\<close>

text \<open>The Space and revision of an object whose status passes the test.\<close>

definition object_home :: "(string \<Rightarrow> bool) \<Rightarrow> spaces_db \<Rightarrow> uuid \<Rightarrow> uuid \<Rightarrow> (uuid \<times> int) option" where
  "object_home status_ok db tenant object =
     Option.bind (find (\<lambda>x. vo_id x = object \<and> vo_tenant_id x = tenant \<and> status_ok (vo_status x)) (sd_objects db)) (\<lambda>x.
       map_option (\<lambda>v. (va_space_id v, vo_revision x)) (find_vault db tenant (vo_vault_id x)))"

definition share_rules :: "create_share_request \<Rightarrow> uuid option \<Rightarrow> unit space_result" where
  "share_rules r target =
     all_ok
      [check (\<not> (cs_mode r \<in> set [SharePromote, ShareSynthesize] \<and> cs_policy_disposition r \<noteq> ''reviewed'')) SpaceForbidden,
       check (\<not> (cs_mode r = ShareReference \<and> target \<noteq> None))
        (SpaceInvalidInput ''reference shares cannot own a target object''),
       check (\<not> (cs_mode r \<noteq> ShareReference \<and> target = None))
        (SpaceInvalidInput ''materialized share modes require a target object''),
       check (cs_follow_latest r = (cs_mode r = ShareReference))
        (SpaceInvalidInput ''only reference shares may follow the latest revision'')]"

definition insert_share ::
  "uuid \<Rightarrow> int \<Rightarrow> space_actor \<Rightarrow> uuid \<Rightarrow> uuid \<Rightarrow> create_share_request \<Rightarrow> uuid option \<Rightarrow> spaces_db
   \<Rightarrow> (sql_fault, knowledge_share_row \<times> spaces_db) result" where
  "insert_share new_id now actor source_space object r target db =
     (let s = \<lparr>sh_id = new_id, sh_tenant_id = sa_tenant_id actor, sh_source_space_id = source_space, sh_source_object_id = object,
               sh_source_revision = cs_source_revision r, sh_target_space_id = cs_target_space_id r, sh_mode = cs_mode r,
               sh_follow_latest = cs_follow_latest r, sh_target_object_id = target,
               sh_policy_disposition = cs_policy_disposition r, sh_created_by = sa_user_id actor, sh_revision = 1,
               sh_created_at = now, sh_updated_at = now, sh_revoked_at = None\<rparr>
      in if \<not> (cs_source_revision r > 0 \<and> cs_policy_disposition r \<in> set [''allowed'', ''reviewed'', ''pending_review'']
              \<and> source_space \<noteq> cs_target_space_id r) then Inl CheckViolation
         else if list_ex (\<lambda>t. sh_id t = new_id
                 \<or> (sh_revoked_at t = None \<and> sh_tenant_id t = sa_tenant_id actor \<and> sh_source_object_id t = object
                    \<and> sh_target_space_id t = cs_target_space_id r \<and> sh_mode t = cs_mode r)) (sd_shares db) then Inl UniqueViolation
         else Inr (s, db\<lparr>sd_shares := sd_shares db @ [s]\<rparr>))"

definition share_object_with_target ::
  "spaces_env \<Rightarrow> uuid \<Rightarrow> int \<Rightarrow> space_actor \<Rightarrow> uuid \<Rightarrow> create_share_request \<Rightarrow> uuid option \<Rightarrow> spaces_db
   \<Rightarrow> knowledge_share_row space_result \<times> spaces_db" where
  "share_object_with_target E new_id now actor object r target =
     transaction (\<lambda>db.
       and_then (ok_or (object_home (\<lambda>s. s = ''active'') db (sa_tenant_id actor) object) SpaceNotFound) (\<lambda>(source_space, revision).
       and_then (check (revision = cs_source_revision r) SpaceRevisionConflict) (\<lambda>_.
       and_then (require_role E now db actor source_space Manager True) (\<lambda>_.
       and_then (require_role E now db actor (cs_target_space_id r) Contributor True) (\<lambda>_.
       and_then (share_rules r target) (\<lambda>_.
       and_then (check (case target of None \<Rightarrow> True
             | Some t \<Rightarrow> map_option fst (object_home (\<lambda>s. s = ''active'') db (sa_tenant_id actor) t) = Some (cs_target_space_id r))
          (SpaceInvalidInput ''share target object must belong to the target Space'')) (\<lambda>_.
         map_fault (map_constraint E) (insert_share new_id now actor source_space object r target db))))))))"

definition share_object ::
  "spaces_env \<Rightarrow> uuid \<Rightarrow> int \<Rightarrow> space_actor \<Rightarrow> uuid \<Rightarrow> create_share_request \<Rightarrow> spaces_db
   \<Rightarrow> knowledge_share_row space_result \<times> spaces_db" where
  "share_object E new_id now actor object r = share_object_with_target E new_id now actor object r None"

definition list_object_shares ::
  "spaces_env \<Rightarrow> int \<Rightarrow> space_actor \<Rightarrow> uuid \<Rightarrow> spaces_db \<Rightarrow> knowledge_share_row list space_result" where
  "list_object_shares E now actor object db =
     and_then (ok_or (object_home (\<lambda>s. s \<noteq> ''tombstone'') db (sa_tenant_id actor) object) SpaceNotFound) (\<lambda>(source_space, _).
     and_then (require_role E now db actor source_space Viewer False) (\<lambda>_.
     and_then (effective_spaces E now db actor) (\<lambda>visible.
       Inr (filter (\<lambda>s. sh_target_space_id s \<in> set (map (sp_id \<circ> es_space) visible))
        (sort_by (\<lambda>a b. (- sh_created_at a, uint (sh_id a)) \<le> (- sh_created_at b, uint (sh_id b)))
          (filter (\<lambda>s. sh_tenant_id s = sa_tenant_id actor \<and> sh_source_object_id s = object \<and> sh_revoked_at s = None) (sd_shares db)))))))"

definition revoke_share ::
  "spaces_env \<Rightarrow> int \<Rightarrow> space_actor \<Rightarrow> uuid \<Rightarrow> int \<Rightarrow> spaces_db \<Rightarrow> knowledge_share_row space_result \<times> spaces_db" where
  "revoke_share E now actor share_id expected =
     transaction (\<lambda>db.
       (let mine = (\<lambda>s. sh_id s = share_id \<and> sh_tenant_id s = sa_tenant_id actor);
            hit = (\<lambda>s. mine s \<and> sh_revision s = expected \<and> sh_revoked_at s = None);
            revoked = (\<lambda>s. s\<lparr>sh_revoked_at := Some now, sh_revision := sh_revision s + 1, sh_updated_at := now\<rparr>)
        in and_then (ok_or (map_option sh_source_space_id (find mine (sd_shares db))) SpaceNotFound) (\<lambda>source_space.
           and_then (require_role E now db actor source_space Manager True) (\<lambda>_.
           and_then (resolve_cas (find hit (sd_shares db)) (list_ex mine (sd_shares db))) (\<lambda>s.
             Inr (revoked s, db\<lparr>sd_shares := map (\<lambda>s. if hit s then revoked s else s) (sd_shares db)\<rparr>))))))"

section \<open>Lifecycle\<close>

definition set_bundle_owner_state_system ::
  "int \<Rightarrow> uuid \<Rightarrow> string \<Rightarrow> vault_owner_state \<Rightarrow> spaces_db \<Rightarrow> knowledge_vault_row list space_result \<times> spaces_db" where
  "set_bundle_owner_state_system now tenant bundle state db =
     (let hit = (\<lambda>v. va_tenant_id v = tenant \<and> va_home_bundle_id v = bundle \<and> va_owner_state v \<noteq> state);
          moved = (\<lambda>v. v\<lparr>va_owner_state := state, va_revision := va_revision v + 1, va_updated_at := now\<rparr>)
      in (Inr (map moved (filter hit (sd_vaults db))),
          db\<lparr>sd_vaults := map (\<lambda>v. if hit v then moved v else v) (sd_vaults db)\<rparr>))"

definition set_bundle_owner_state ::
  "int \<Rightarrow> space_actor \<Rightarrow> string \<Rightarrow> vault_owner_state \<Rightarrow> spaces_db \<Rightarrow> knowledge_vault_row list space_result \<times> spaces_db" where
  "set_bundle_owner_state now actor bundle state db =
     (case ensure_active_actor db actor of
        Inl e \<Rightarrow> (Inl e, db)
      | Inr actor_role \<Rightarrow>
          if actor_role \<noteq> ''admin'' then (Inl SpaceForbidden, db)
          else set_bundle_owner_state_system now (sa_tenant_id actor) bundle state db)"

definition archived_project :: "int \<Rightarrow> project_record \<Rightarrow> project_record" where
  "archived_project now p = p\<lparr>pj_status := ''archived'', pj_revision := pj_revision p + 1, pj_updated_at := now\<rparr>"

definition archived_space :: "int \<Rightarrow> knowledge_space_row \<Rightarrow> knowledge_space_row" where
  "archived_space now s = s\<lparr>sp_status := ''archived'', sp_revision := sp_revision s + 1, sp_updated_at := now\<rparr>"

definition archive_project ::
  "int \<Rightarrow> space_actor \<Rightarrow> uuid \<Rightarrow> int \<Rightarrow> spaces_db \<Rightarrow> (project_record \<times> knowledge_space_row) space_result \<times> spaces_db" where
  "archive_project now actor project_id expected =
     transaction (\<lambda>db.
       (let mine = (\<lambda>p. pj_id p = project_id \<and> pj_tenant_id p = sa_tenant_id actor);
            its_space = (\<lambda>s. sp_tenant_id s = sa_tenant_id actor \<and> sp_kind s = ''project'' \<and> sp_owner_project_id s = Some project_id)
        in and_then (ensure_active_actor db actor) (\<lambda>actor_role.
           and_then (ok_or (find mine (sd_projects db)) SpaceNotFound) (\<lambda>project.
           and_then (check (\<not> (pj_owner_user_id project \<noteq> sa_user_id actor \<and> actor_role \<noteq> ''admin'')) SpaceForbidden) (\<lambda>_.
           and_then (check (pj_revision project = expected) SpaceRevisionConflict) (\<lambda>_.
           and_then (ok_or (find its_space (sd_spaces db)) (SpaceDatabase RowNotFound)) (\<lambda>space.
             Inr ((archived_project now project, archived_space now space),
               db\<lparr>sd_projects := map (\<lambda>p. if mine p then archived_project now p else p) (sd_projects db),
                  sd_spaces := map (\<lambda>s. if its_space s then archived_space now s else s) (sd_spaces db)\<rparr>))))))))"

end
