(* ===== verification/Broker_Gateway.thy ===== *)
theory Broker_Gateway
  imports Broker_Isolation Bundle_Grants Knowledge_Spaces Policy_Core
begin

text \<open>
  The gateway's side of the Bundle broker, \<open>GatewayBundleBroker\<close> of
  \<open>crates/gadgetron-gateway/src/web/bundle_broker.rs\<close>: every request of a running Bundle passes its handlers,
  which compare the signed package, the operator's grants and the lease of the invocation before anything
  happens.  This composes the grants, the leases, the structured database operations, the outbox of knowledge
  events and the access rules of Knowledge Spaces.

  What the handlers reach outside is in \<open>gateway_env\<close>: PostgreSQL (\<open>sql_engine\<close>), the SSH control plane, the
  hash of a snapshot, fresh identifiers.  Calls of the SSH control plane are recorded in the state.  The handlers of
  the three knowledge requests are the argument \<open>knowledge\<close>; the optional Bundle events of an insert are
  written after its transaction and are not part of the state.
\<close>

section \<open>Parts\<close>

datatype bundle_ssh_error =
    SshInvalid string
  | SshTargetNotFound
  | SshSecretNotFound
  | SshSecretInUse
  | SshDnsChanged
  | SshTargetRevisionChanged
  | SshDependencyUnavailable
  | SshTimeout
  | SshOutputLimit
  | SshNonUtf8Output
  | SshPersistence
  | SshBootstrap string string

record ('v, 'r) gateway_bundle_broker =
  gb_manifest :: "('v, 'r) bundle_package_manifest"
  gb_manifest_sha256 :: string
  gb_grants :: grant_store
  gb_has_pool :: bool
  gb_has_intelligence :: bool
  gb_ssh_ready :: bool

record gateway_env =
  gx_sql :: sql_engine
  gx_wire :: broker_wire
  gx_spaces :: spaces_env
  gx_refs :: outbox_refs
  gx_event_id :: uuid
  gx_snapshot_hash :: "json \<Rightarrow> string option"
  gx_ssh :: "uuid \<Rightarrow> string \<Rightarrow> string \<Rightarrow> broker_operation_declaration \<Rightarrow> (bundle_ssh_error, ssh_execution_result) result"
  gx_targets :: "uuid \<Rightarrow> string \<Rightarrow> (string \<times> uuid option) list"

type_synonym ssh_call = "uuid \<times> string \<times> string \<times> broker_operation_declaration"

record gateway_state =
  gt_leases :: lease_store
  gt_db :: broker_db
  gt_spaces :: spaces_db
  gt_ssh_calls :: "ssh_call list"

record prepared_knowledge_event =
  pe_descriptor :: knowledge_event_descriptor
  pe_tenant_id :: uuid
  pe_publisher_bundle_id :: string
  pe_snapshot_filters :: "(string \<times> json) list"
  pe_acting_space_id :: "uuid option"
  pe_requested_by_user_id :: uuid
  pe_service_actor_user_id :: uuid
  pe_effective_role :: "string option"

definition runtime_identity :: "('v, 'r) bundle_package_manifest \<Rightarrow> 'v bundle_runtime_identity" where
  "runtime_identity m = \<lparr>bri_id = bi_id (pk_bundle m), bri_version = bi_version (pk_bundle m)\<rparr>"

fun ssh_broker_error :: "bundle_ssh_error \<Rightarrow> broker_error" where
  "ssh_broker_error SshTargetNotFound =
     new_broker_error ''target-not-found'' ''approved SSH target does not exist for this tenant and Bundle'' False"
| "ssh_broker_error SshSecretNotFound = new_broker_error ''secret-not-found'' ''approved SSH target secret is unavailable'' False"
| "ssh_broker_error SshDnsChanged =
     new_broker_error ''target-address-changed'' ''SSH target address changed and requires Manager re-approval'' False"
| "ssh_broker_error SshTargetRevisionChanged =
     new_broker_error ''target-revision-changed'' ''SSH target revision changed and requires a fresh setup plan'' False"
| "ssh_broker_error SshTimeout = new_broker_error ''ssh-timeout'' ''signed SSH operation exceeded its wall-time ceiling'' True"
| "ssh_broker_error SshOutputLimit = new_broker_error ''ssh-output-limit'' ''signed SSH operation exceeded its output ceiling'' False"
| "ssh_broker_error SshNonUtf8Output = new_broker_error ''ssh-output-invalid'' ''signed SSH operation returned non-UTF-8 output'' False"
| "ssh_broker_error SshDependencyUnavailable =
     new_broker_error ''dependency-unavailable'' ''Core SSH broker dependency is unavailable'' True"
| "ssh_broker_error SshPersistence = new_broker_error ''dependency-unavailable'' ''Core SSH broker dependency is unavailable'' True"
| "ssh_broker_error (SshInvalid _) =
     new_broker_error ''ssh-request-rejected'' ''SSH target or signed operation binding was rejected'' False"
| "ssh_broker_error SshSecretInUse =
     new_broker_error ''ssh-request-rejected'' ''SSH target or signed operation binding was rejected'' False"
| "ssh_broker_error (SshBootstrap _ _) =
     new_broker_error ''ssh-request-rejected'' ''SSH target or signed operation binding was rejected'' False"

section \<open>Permissions\<close>

definition authorize_permission ::
  "('v, 'r) gateway_bundle_broker \<Rightarrow> string \<Rightarrow> string \<Rightarrow> permission_kind option \<Rightarrow> (broker_error, permission_kind) result" where
  "authorize_permission B permission_id resource required_kind =
     and_then (ok_or (find (\<lambda>p. pm_id p = permission_id) (pk_permissions (gb_manifest B)))
        (new_broker_error ''permission-not-requested'' ''signed package did not request this broker permission'' False)) (\<lambda>permission.
     and_then (check (\<not> ((case required_kind of None \<Rightarrow> False | Some kind \<Rightarrow> pm_kind permission \<noteq> kind)
            \<or> \<not> list_ex (\<lambda>item. item = resource) (pm_resources permission)))
        (new_broker_error ''resource-not-requested'' ''signed package did not request this operation and exact resource'' False)) (\<lambda>_.
     and_then (check (case grants_get (gb_grants B) (bri_id (runtime_identity (gb_manifest B))) of
            None \<Rightarrow> False
          | Some g \<Rightarrow> grant_allows g (gb_manifest_sha256 B) permission_id (pm_kind permission) resource)
        (new_broker_error ''permission-not-granted'' ''operator grant is absent, revoked or pinned to another package digest'' False)) (\<lambda>_.
       Inr (pm_kind permission))))"

definition declared_operation :: "(broker_operation_declaration \<Rightarrow> string \<times> string) \<Rightarrow> ('v, 'r) gateway_bundle_broker \<Rightarrow> broker_probe_request \<Rightarrow> bool" where
  "declared_operation part B request \<longleftrightarrow>
     list_ex (\<lambda>operation. bo_kind operation = SshExecute \<and> part operation = (pq_permission_id request, pq_resource request))
      (pk_broker_operations (gb_manifest B))"

definition probe_answer :: "broker_probe_request \<Rightarrow> bool \<Rightarrow> string \<Rightarrow> broker_response" where
  "probe_answer request ready message =
     ProbeResponse (if ready then probe_ready (pq_permission_id request) (pq_resource request)
       else probe_unavailable (pq_permission_id request) (pq_resource request) message)"

definition resource_not_supported :: "string \<Rightarrow> broker_response" where
  "resource_not_supported message = ErrorResponse (new_broker_error ''resource-not-supported'' message False)"

definition probe_knowledge :: "('v, 'r) gateway_bundle_broker \<Rightarrow> broker_probe_request \<Rightarrow> string \<Rightarrow> bool \<Rightarrow> broker_response" where
  "probe_knowledge B request expected ready =
     (if pq_resource request \<noteq> expected then resource_not_supported ''knowledge broker probe requires its exact Core resource''
      else probe_answer request ready ''Core knowledge broker is not configured'')"

definition handle_probe :: "('v, 'r) gateway_bundle_broker \<Rightarrow> broker_db \<Rightarrow> broker_probe_request \<Rightarrow> broker_response" where
  "handle_probe B db request =
     (case authorize_permission B (pq_permission_id request) (pq_resource request) None of
        Inl e \<Rightarrow> ErrorResponse e
      | Inr Database \<Rightarrow>
          if \<not> gb_has_pool B then probe_answer request False ''Core database broker is not configured''
          else (case database_table_name (pq_resource request) of
              None \<Rightarrow> resource_not_supported ''database probe requires an exact postgres table resource''
            | Some table \<Rightarrow> probe_answer request (relation_has_tenant_uuid db table True)
                ''database resource is absent or lacks a UUID tenant_id boundary'')
      | Inr Network \<Rightarrow>
          if \<not> declared_operation (\<lambda>x. (bo_network_permission_id x, bo_network_resource x)) B request
          then resource_not_supported ''network resource is not bound to a signed broker operation''
          else probe_answer request (gb_ssh_ready B) ''Core SSH broker dependencies are unavailable''
      | Inr SecretUse \<Rightarrow>
          if \<not> declared_operation (\<lambda>x. (bo_secret_permission_id x, bo_secret_resource x)) B request
          then resource_not_supported ''secret resource is not bound to a signed broker operation''
          else probe_answer request (gb_ssh_ready B) ''Core SSH secret provider is unavailable''
      | Inr KnowledgeRead \<Rightarrow> probe_knowledge B request ''knowledge:context'' (gb_has_intelligence B)
      | Inr KnowledgeFeedback \<Rightarrow> probe_knowledge B request ''knowledge:feedback'' (gb_has_intelligence B)
      | Inr KnowledgeCollection \<Rightarrow> probe_knowledge B request ''knowledge:collection'' (gb_has_pool B)
      | Inr _ \<Rightarrow> ErrorResponse (new_broker_error ''operation-not-supported'' ''this permission kind has no v1 broker probe executor'' False))"

section \<open>Knowledge events of a mutation\<close>

definition event_context_forbidden :: broker_error where
  "event_context_forbidden =
     new_broker_error ''event-context-forbidden'' ''Bundle event enrichment did not inherit an authorized Team or Project context'' False"

text \<open>The Space among the effective ones of the user, if the user is more than a viewer in it.\<close>

definition acting_space ::
  "gateway_env \<Rightarrow> int \<Rightarrow> spaces_db \<Rightarrow> uuid \<Rightarrow> uuid \<Rightarrow> uuid \<Rightarrow> (broker_error, effective_space_row) result" where
  "acting_space X now spaces tenant user space =
     and_then (map_sum (\<lambda>_. event_context_forbidden) (\<lambda>v. v)
        (effective_spaces (gx_spaces X) now spaces \<lparr>sa_tenant_id = tenant, sa_user_id = user\<rparr>)) (\<lambda>visible.
       ok_or (Option.bind (find (\<lambda>c. sp_id (es_space c) = space) visible)
          (\<lambda>c. if es_effective_role c \<noteq> Viewer then Some c else None)) event_context_forbidden)"

definition validate_knowledge_event_context ::
  "gateway_env \<Rightarrow> int \<Rightarrow> spaces_db \<Rightarrow> uuid \<Rightarrow> uuid \<Rightarrow> uuid \<Rightarrow> uuid \<Rightarrow> (broker_error, string) result" where
  "validate_knowledge_event_context X now spaces tenant requested_by service_actor space =
     and_then (acting_space X now spaces tenant requested_by space) (\<lambda>requested.
     and_then (check (\<not> (sp_status (es_space requested) \<noteq> ''active''
            \<or> sp_kind (es_space requested) \<notin> set [''project'', ''team''])) event_context_forbidden) (\<lambda>_.
     and_then (acting_space X now spaces tenant service_actor space) (\<lambda>service.
     and_then (check (sp_status (es_space service) = ''active'') event_context_forbidden) (\<lambda>_.
       Inr (role_text (es_effective_role requested))))))"

definition resolve_knowledge_event ::
  "gateway_env \<Rightarrow> int \<Rightarrow> ('v, 'r) gateway_bundle_broker \<Rightarrow> 'v broker_caller \<Rightarrow> invocation_lease_binding \<Rightarrow> database_mutation_event
   \<Rightarrow> u32 \<Rightarrow> broker_db \<Rightarrow> spaces_db \<Rightarrow> (broker_error, prepared_knowledge_event) result" where
  "resolve_knowledge_event X now B caller lease event mutation_limit db spaces =
     and_then (check (mutation_limit = 1)
        (new_broker_error ''knowledge-event-limit-invalid'' ''a Knowledge event mutation must target exactly one row'' False)) (\<lambda>_.
     and_then (ok_or (dm_snapshot_filters event)
        (new_broker_error ''knowledge-event-snapshot-required'' ''a Knowledge event requires a post-mutation snapshot reference'' False)) (\<lambda>filters.
     and_then (ok_or (find (\<lambda>d. ke_event_kind d = dm_event_kind event \<and> ke_subject_kind d = dm_subject_kind event)
          (ca_knowledge_events (pk_capabilities (gb_manifest B))))
        (new_broker_error ''knowledge-event-not-declared'' ''signed package did not declare this Knowledge event route'' False)) (\<lambda>descriptor.
     and_then (authorize_permission B (ke_snapshot_permission_id descriptor) (ke_snapshot_resource descriptor) (Some Database)) (\<lambda>_.
     and_then (ok_or (database_table_name (ke_snapshot_resource descriptor))
        (new_broker_error ''knowledge-event-contract-invalid'' ''signed Knowledge snapshot resource is invalid'' False)) (\<lambda>table.
     and_then (check (relation_has_tenant_uuid db table True)
        (new_broker_error ''knowledge-event-projection-unavailable'' ''signed Knowledge snapshot projection is unavailable'' False)) (\<lambda>_.
     and_then (ok_or (eng_parse_uuid (gx_sql X) (lb_tenant_id lease))
        (new_broker_error ''lease-context-invalid'' ''invocation lease tenant is invalid'' False)) (\<lambda>tenant.
     and_then (ok_or (eng_parse_uuid (gx_sql X) (lb_actor_id lease))
        (new_broker_error ''lease-context-invalid'' ''invocation lease actor is invalid'' False)) (\<lambda>service_actor.
     (let requested_by = (case lb_delegated_actor_id lease of Some u \<Rightarrow> u | None \<Rightarrow> service_actor)
      in and_then
          (if ke_acting_space_id_field descriptor \<noteq> None then Inr (None, None)
           else and_then (ok_or (Option.bind (lb_acting_space_id lease) (eng_parse_uuid (gx_sql X)))
                  (new_broker_error ''knowledge-event-context-required'' ''Knowledge events require an inherited Team or Project context'' False)) (\<lambda>space.
                and_then (validate_knowledge_event_context X now spaces tenant requested_by service_actor space) (\<lambda>role.
                  Inr (Some space, Some role)))) (\<lambda>(space, role).
         Inr \<lparr>pe_descriptor = descriptor, pe_tenant_id = tenant, pe_publisher_bundle_id = bri_id (bcl_identity caller),
              pe_snapshot_filters = filters, pe_acting_space_id = space, pe_requested_by_user_id = requested_by,
              pe_service_actor_user_id = service_actor, pe_effective_role = role\<rparr>))))))))))"

definition invalid_knowledge_snapshot :: "string \<Rightarrow> broker_error" where
  "invalid_knowledge_snapshot field =
     new_broker_error ''knowledge-event-snapshot-invalid'' (''post-mutation Knowledge snapshot has an invalid '' @ field) False"

text \<open>
  The two \<open>expect\<close>s of \<open>capture_knowledge_event\<close> are this error; \<open>prepared_context\<close> below shows that no event that
  was resolved reaches them.
\<close>

definition assertion_failed :: "string \<Rightarrow> broker_error" where
  "assertion_failed message = new_broker_error ''panic'' message False"

definition snapshot_text :: "json \<Rightarrow> string \<Rightarrow> (string \<Rightarrow> string) \<Rightarrow> (string \<Rightarrow> bool) \<Rightarrow> string \<Rightarrow> (broker_error, string) result" where
  "snapshot_text snapshot field f ok name =
     ok_or (Option.bind (map_option f (Option.bind (value_get field snapshot) as_str)) (\<lambda>t. if ok t then Some t else None))
      (invalid_knowledge_snapshot name)"

definition read_snapshots ::
  "gateway_env \<Rightarrow> prepared_knowledge_event \<Rightarrow> string \<Rightarrow> broker_db \<Rightarrow> (broker_error, json list) result" where
  "read_snapshots X event table db =
     (let E = gx_sql X; columns = ke_snapshot_fields (pe_descriptor event);
          failure = new_broker_error ''knowledge-event-snapshot-failed'' ''post-mutation Knowledge snapshot could not be read'' True
      in and_then (ok_or (map_of (bd_relations db) table) failure) (\<lambda>rel.
         and_then (check (eng_completes E \<and> columns_known rel (columns @ map fst (pe_snapshot_filters event))) failure) (\<lambda>_.
           Inr (map (\<lambda>(_, r). JObject (project_row E columns r))
             (take 2 (scan E [] (pe_tenant_id event) (pe_snapshot_filters event) (rel_rows rel)))))))"

definition event_context ::
  "gateway_env \<Rightarrow> int \<Rightarrow> spaces_db \<Rightarrow> prepared_knowledge_event \<Rightarrow> json \<Rightarrow> (broker_error, (uuid \<times> string) option) result" where
  "event_context X now spaces event snapshot =
     (case ke_acting_space_id_field (pe_descriptor event) of
        Some field \<Rightarrow>
          (case value_get field snapshot of
             None \<Rightarrow> Inr None
           | Some v \<Rightarrow>
               if v = JNull then Inr None
               else and_then (ok_or (Option.bind (as_str v) (eng_parse_uuid (gx_sql X))) (invalid_knowledge_snapshot ''acting Space id'')) (\<lambda>space.
                    and_then (validate_knowledge_event_context X now spaces (pe_tenant_id event) (pe_requested_by_user_id event)
                        (pe_service_actor_user_id event) space) (\<lambda>role.
                      Inr (Some (space, role)))))
      | None \<Rightarrow>
          (case (pe_acting_space_id event, pe_effective_role event) of
             (Some space, Some role) \<Rightarrow> Inr (Some (space, role))
           | _ \<Rightarrow> Inl (assertion_failed ''lease context validated before mutation'')))"

definition captured_event ::
  "prepared_knowledge_event \<Rightarrow> json \<Rightarrow> string \<Rightarrow> string \<Rightarrow> string \<Rightarrow> string \<Rightarrow> uuid \<Rightarrow> string \<Rightarrow> enqueue_knowledge_event" where
  "captured_event event snapshot hash subject_id subject_revision title space role =
     (let d = pe_descriptor event
      in \<lparr>eq_tenant_id = pe_tenant_id event, eq_descriptor_id = ke_id d, eq_event_kind = ke_event_kind d,
          eq_publisher_bundle_id = pe_publisher_bundle_id event, eq_subject_kind = ke_subject_kind d, eq_subject_id = subject_id,
          eq_subject_revision = subject_revision, eq_snapshot = snapshot, eq_snapshot_hash = hash, eq_source_title = title,
          eq_source_path_prefix = ke_source_path_prefix d, eq_acting_space_id = space,
          eq_output_vault_bundle = ke_output_vault_bundle d, eq_knowledge_schema_id = ke_knowledge_schema_id d,
          eq_researcher_bundle_id = ke_researcher_bundle d, eq_researcher_role_id = ke_researcher_role d,
          eq_requested_by_user_id = pe_requested_by_user_id event, eq_service_actor_user_id = pe_service_actor_user_id event,
          eq_effective_role = role\<rparr>)"

definition capture_snapshot ::
  "gateway_env \<Rightarrow> int \<Rightarrow> spaces_db \<Rightarrow> prepared_knowledge_event \<Rightarrow> json \<Rightarrow> broker_db \<Rightarrow> (broker_error, broker_db) result" where
  "capture_snapshot X now spaces event snapshot db =
     (let d = pe_descriptor event; short = (\<lambda>t. t \<noteq> [] \<and> len t \<le> 256)
      in and_then (snapshot_text snapshot (ke_subject_id_field d) (\<lambda>t. t) short ''subject id'') (\<lambda>subject_id.
         and_then (snapshot_text snapshot (ke_subject_revision_field d) (\<lambda>t. t) short ''subject revision'') (\<lambda>subject_revision.
         and_then (snapshot_text snapshot (ke_title_field d) trim (\<lambda>t. t \<noteq> [] \<and> len (chars_of t) \<le> 512) ''title'') (\<lambda>title.
         and_then (event_context X now spaces event snapshot) (\<lambda>ctx.
           case ctx of
             None \<Rightarrow> Inr db
           | Some (space, role) \<Rightarrow>
               and_then (ok_or (gx_snapshot_hash X snapshot) (invalid_knowledge_snapshot ''canonical JSON'')) (\<lambda>hash.
               (case enqueue_in_transaction (gx_refs X) (gx_event_id X) now
                   (captured_event event snapshot (''sha256:'' @ hash) subject_id subject_revision title space role) (bd_outbox db) of
                  (Inl _, _) \<Rightarrow>
                    Inl (new_broker_error ''knowledge-event-enqueue-failed'' ''post-mutation Knowledge event could not be durably enqueued'' True)
                | (Inr _, rows) \<Rightarrow> Inr (db\<lparr>bd_outbox := rows\<rparr>))))))))"

definition capture_knowledge_event ::
  "gateway_env \<Rightarrow> int \<Rightarrow> spaces_db \<Rightarrow> prepared_knowledge_event \<Rightarrow> broker_db \<Rightarrow> (broker_error, broker_db) result" where
  "capture_knowledge_event X now spaces event db =
     (case database_table_name (ke_snapshot_resource (pe_descriptor event)) of
        None \<Rightarrow> Inl (assertion_failed ''validated Knowledge snapshot resource'')
      | Some table \<Rightarrow>
          and_then (read_snapshots X event table db) (\<lambda>rows.
            case rows of
              [] \<Rightarrow> Inr db
            | [row] \<Rightarrow> capture_snapshot X now spaces event (canonical_json row) db
            | _ \<Rightarrow> Inl (new_broker_error ''knowledge-event-snapshot-ambiguous'' ''post-mutation Knowledge snapshot must resolve exactly one subject'' False)))"

section \<open>The Space of a server incident\<close>

definition stamp_incidents :: "sql_engine \<Rightarrow> uuid \<Rightarrow> string \<Rightarrow> uuid \<Rightarrow> table_row list \<Rightarrow> table_row list" where
  "stamp_incidents E tenant fingerprint space rows =
     map (\<lambda>r. if row_tenant r = tenant \<and> cell E r ''fingerprint'' = Some (JString fingerprint)
              \<and> cell E r ''status'' = Some (JString ''active'') \<and> cell E r ''acting_space_id'' = None
            then r\<lparr>row_cells := map (\<lambda>(f, c). (f, if f = ''acting_space_id'' then Some (JString (eng_show_uuid E space)) else c)) (row_cells r)\<rparr>
            else r) rows"

definition host_target :: "sql_engine \<Rightarrow> uuid \<Rightarrow> uuid \<Rightarrow> broker_db \<Rightarrow> (broker_error, string option) result" where
  "host_target E tenant host db =
     and_then (ok_or (map_of (bd_relations db) ''server_target_health'') database_dependency_unavailable) (\<lambda>rel.
     and_then (check (eng_completes E \<and> columns_known rel [''target_id'', ''host_id'']) database_dependency_unavailable) (\<lambda>_.
       case eng_order E [] (filter (\<lambda>(_, r). row_tenant r = tenant \<and> cell E r ''host_id'' = Some (JString (eng_show_uuid E host)))
           (enumerate 0 (rel_rows rel))) of
         [] \<Rightarrow> Inr None
       | (_, r) # _ \<Rightarrow>
           (case cell E r ''target_id'' of Some (JString t) \<Rightarrow> Inr (Some t) | _ \<Rightarrow> Inl database_dependency_unavailable)))"

definition stamp_server_incident_acting_space ::
  "gateway_env \<Rightarrow> string \<Rightarrow> database_insert_request \<Rightarrow> mutation_follow_up" where
  "stamp_server_incident_acting_space X caller_bundle_id r tenant table db =
     (let E = gx_sql X
      in if caller_bundle_id \<noteq> ''server-administrator'' \<or> table \<noteq> ''alert_state'' then Inr db
         else case (get_as as_str ''fingerprint'' (ins_values r), Option.bind (get_as as_str ''host_id'' (ins_values r)) (eng_parse_uuid E)) of
           (Some fingerprint, Some host) \<Rightarrow>
             and_then (host_target E tenant host db) (\<lambda>target.
             (case Option.bind target (\<lambda>t. Option.bind (find (\<lambda>x. fst x = t) (gx_targets X tenant ''server-administrator'')) snd) of
                None \<Rightarrow> Inr db
              | Some space \<Rightarrow>
                  and_then (ok_or (map_of (bd_relations db) ''server_incidents'') database_dependency_unavailable) (\<lambda>rel.
                  (let rows = stamp_incidents E tenant fingerprint space (rel_rows rel)
                   in and_then (check (eng_completes E \<and> columns_known rel [''acting_space_id'', ''fingerprint'', ''status'']
                           \<and> eng_accepts E ''server_incidents'' (rel_rows rel) rows) database_dependency_unavailable) (\<lambda>_.
                        Inr (with_rows ''server_incidents'' rows db))))))
         | _ \<Rightarrow> Inr db)"

section \<open>Handlers\<close>

text \<open>What every database handler does first: the permission, then the lease.\<close>

definition admit_database ::
  "int \<Rightarrow> ('v, 'r) gateway_bundle_broker \<Rightarrow> 'v broker_caller \<Rightarrow> string \<Rightarrow> string \<Rightarrow> string \<Rightarrow> gateway_state
   \<Rightarrow> (broker_error, invocation_lease_binding) result \<times> gateway_state" where
  "admit_database now B caller permission_id resource token st =
     (case authorize_permission B permission_id resource (Some Database) of
        Inl e \<Rightarrow> (Inl e, st)
      | Inr _ \<Rightarrow> apsnd (\<lambda>leases. st\<lparr>gt_leases := leases\<rparr>) (validate_lease now caller token (gt_leases st)))"

definition handle_database_select ::
  "gateway_env \<Rightarrow> int \<Rightarrow> ('v, 'r) gateway_bundle_broker \<Rightarrow> 'v broker_caller \<Rightarrow> database_select_request \<Rightarrow> gateway_state
   \<Rightarrow> broker_response \<times> gateway_state" where
  "handle_database_select X now B caller r st =
     (case admit_database now B caller (sel_permission_id r) (sel_resource r) (sel_lease r) st of
        (Inl e, st) \<Rightarrow> (ErrorResponse e, st)
      | (Inr lease, st) \<Rightarrow>
          if \<not> gb_has_pool B then (ErrorResponse (new_broker_error ''dependency-unavailable'' ''Core database broker is not configured'' True), st)
          else (case execute_database_select (gx_sql X) (gx_wire X) (lb_tenant_id lease) r (gt_db st) of
              Inl e \<Rightarrow> (ErrorResponse e, st)
            | Inr rows \<Rightarrow> (DatabaseRowsResponse rows, st)))"

definition mutation_response :: "(broker_error, u32) result \<times> broker_db \<Rightarrow> gateway_state \<Rightarrow> broker_response \<times> gateway_state" where
  "mutation_response result st =
     (case fst result of Inl e \<Rightarrow> ErrorResponse e | Inr n \<Rightarrow> DatabaseMutationResponse n, st\<lparr>gt_db := snd result\<rparr>)"

definition handle_database_insert ::
  "gateway_env \<Rightarrow> int \<Rightarrow> ('v, 'r) gateway_bundle_broker \<Rightarrow> 'v broker_caller \<Rightarrow> database_insert_request \<Rightarrow> gateway_state
   \<Rightarrow> broker_response \<times> gateway_state" where
  "handle_database_insert X now B caller r st =
     (case admit_database now B caller (ins_permission_id r) (ins_resource r) (ins_lease r) st of
        (Inl e, st) \<Rightarrow> (ErrorResponse e, st)
      | (Inr lease, st) \<Rightarrow>
          if \<not> gb_has_pool B then (ErrorResponse database_dependency_unavailable, st)
          else mutation_response (execute_database_insert (gx_sql X)
              (stamp_server_incident_acting_space X (bri_id (bcl_identity caller)) r) (lb_tenant_id lease) r (gt_db st)) st)"

definition prepare_event ::
  "gateway_env \<Rightarrow> int \<Rightarrow> ('v, 'r) gateway_bundle_broker \<Rightarrow> 'v broker_caller \<Rightarrow> invocation_lease_binding
   \<Rightarrow> database_mutation_event option \<Rightarrow> u32 \<Rightarrow> gateway_state \<Rightarrow> (broker_error, prepared_knowledge_event option) result" where
  "prepare_event X now B caller lease event limit st =
     (case event of
        None \<Rightarrow> Inr None
      | Some e \<Rightarrow> map_sum (\<lambda>e. e) Some (resolve_knowledge_event X now B caller lease e limit (gt_db st) (gt_spaces st)))"

definition capture_follow_up :: "gateway_env \<Rightarrow> int \<Rightarrow> spaces_db \<Rightarrow> prepared_knowledge_event option \<Rightarrow> mutation_follow_up" where
  "capture_follow_up X now spaces event tenant table db =
     (case event of None \<Rightarrow> Inr db | Some e \<Rightarrow> capture_knowledge_event X now spaces e db)"

definition handle_database_update ::
  "gateway_env \<Rightarrow> int \<Rightarrow> ('v, 'r) gateway_bundle_broker \<Rightarrow> 'v broker_caller \<Rightarrow> database_update_request \<Rightarrow> gateway_state
   \<Rightarrow> broker_response \<times> gateway_state" where
  "handle_database_update X now B caller r st =
     (case admit_database now B caller (upd_permission_id r) (upd_resource r) (upd_lease r) st of
        (Inl e, st) \<Rightarrow> (ErrorResponse e, st)
      | (Inr lease, st) \<Rightarrow>
          if \<not> gb_has_pool B then (ErrorResponse database_dependency_unavailable, st)
          else (case prepare_event X now B caller lease (upd_event r) (upd_limit r) st of
              Inl e \<Rightarrow> (ErrorResponse e, st)
            | Inr event \<Rightarrow> mutation_response (execute_database_update (gx_sql X)
                  (capture_follow_up X now (gt_spaces st) event) (lb_tenant_id lease) r (gt_db st)) st))"

definition handle_database_delete ::
  "gateway_env \<Rightarrow> int \<Rightarrow> ('v, 'r) gateway_bundle_broker \<Rightarrow> 'v broker_caller \<Rightarrow> database_delete_request \<Rightarrow> gateway_state
   \<Rightarrow> broker_response \<times> gateway_state" where
  "handle_database_delete X now B caller r st =
     (case admit_database now B caller (del_permission_id r) (del_resource r) (del_lease r) st of
        (Inl e, st) \<Rightarrow> (ErrorResponse e, st)
      | (Inr lease, st) \<Rightarrow>
          if \<not> gb_has_pool B then (ErrorResponse database_dependency_unavailable, st)
          else (case prepare_event X now B caller lease (del_event r) (del_limit r) st of
              Inl e \<Rightarrow> (ErrorResponse e, st)
            | Inr event \<Rightarrow> mutation_response (execute_database_delete (gx_sql X)
                  (capture_follow_up X now (gt_spaces st) event) (lb_tenant_id lease) r (gt_db st)) st))"

definition operation_permissions :: "broker_operation_declaration \<Rightarrow> (string \<times> string \<times> permission_kind) list" where
  "operation_permissions x =
     [(bo_network_permission_id x, bo_network_resource x, Network), (bo_secret_permission_id x, bo_secret_resource x, SecretUse)]"

definition find_operation :: "('v, 'r) gateway_bundle_broker \<Rightarrow> string \<Rightarrow> broker_operation_declaration option" where
  "find_operation B i = find (\<lambda>x. bo_id x = i) (pk_broker_operations (gb_manifest B))"

definition authorize_operation ::
  "('v, 'r) gateway_bundle_broker \<Rightarrow> string \<Rightarrow> (broker_error, broker_operation_declaration) result" where
  "authorize_operation B operation_id =
     and_then (ok_or (find_operation B operation_id)
        (new_broker_error ''operation-not-requested'' ''signed package did not declare this broker operation'' False)) (\<lambda>operation.
     and_then (check (bo_kind operation = SshExecute)
        (new_broker_error ''operation-not-supported'' ''signed broker operation is not an SSH executor profile'' False)) (\<lambda>_.
     and_then (try_each (\<lambda>(permission_id, resource, kind).
          and_then (authorize_permission B permission_id resource (Some kind)) (\<lambda>_. Inr ())) (operation_permissions operation)) (\<lambda>_.
       Inr operation)))"

definition handle_ssh_execute ::
  "gateway_env \<Rightarrow> int \<Rightarrow> ('v, 'r) gateway_bundle_broker \<Rightarrow> 'v broker_caller \<Rightarrow> ssh_execute_request \<Rightarrow> gateway_state
   \<Rightarrow> broker_response \<times> gateway_state" where
  "handle_ssh_execute X now B caller r st =
     (case authorize_operation B (se_operation_id r) of
        Inl e \<Rightarrow> (ErrorResponse e, st)
      | Inr operation \<Rightarrow>
          (case validate_lease now caller (se_lease r) (gt_leases st) of
             (Inl e, leases) \<Rightarrow> (ErrorResponse e, st\<lparr>gt_leases := leases\<rparr>)
           | (Inr lease, leases) \<Rightarrow>
               (let st = st\<lparr>gt_leases := leases\<rparr>
                in case eng_parse_uuid (gx_sql X) (lb_tenant_id lease) of
                     None \<Rightarrow> (ErrorResponse (new_broker_error ''invalid-invocation-context'' ''authenticated invocation tenant is not a non-nil UUID'' False), st)
                   | Some tenant \<Rightarrow>
                       if tenant = 0
                       then (ErrorResponse (new_broker_error ''invalid-invocation-context'' ''authenticated invocation tenant is not a non-nil UUID'' False), st)
                       else (case gx_ssh X tenant (bri_id (bcl_identity caller)) (se_target_id r) operation of
                               Inl e \<Rightarrow> ErrorResponse (ssh_broker_error e) | Inr result \<Rightarrow> SshExecutionResponse result,
                             st\<lparr>gt_ssh_calls := gt_ssh_calls st @ [(tenant, bri_id (bcl_identity caller), se_target_id r, operation)]\<rparr>))))"

type_synonym 'v knowledge_handlers = "'v broker_caller \<Rightarrow> broker_request \<Rightarrow> gateway_state \<Rightarrow> broker_response \<times> gateway_state"

definition handle ::
  "gateway_env \<Rightarrow> 'v knowledge_handlers \<Rightarrow> int \<Rightarrow> ('v, 'r) gateway_bundle_broker \<Rightarrow> 'v broker_caller \<Rightarrow> broker_request \<Rightarrow> gateway_state
   \<Rightarrow> broker_response \<times> gateway_state" where
  "handle X knowledge now B caller request st =
     (if bcl_identity caller \<noteq> runtime_identity (gb_manifest B) \<or> bcl_package_manifest_sha256 caller \<noteq> gb_manifest_sha256 B
      then (ErrorResponse (new_broker_error ''runtime-identity-mismatch'' ''broker executor is bound to a different signed package'' False), st)
      else case request of
        Probe r \<Rightarrow> (handle_probe B (gt_db st) r, st)
      | DatabaseSelect r \<Rightarrow> handle_database_select X now B caller r st
      | DatabaseInsert r \<Rightarrow> handle_database_insert X now B caller r st
      | DatabaseUpdate r \<Rightarrow> handle_database_update X now B caller r st
      | DatabaseDelete r \<Rightarrow> handle_database_delete X now B caller r st
      | SshExecuteOp r \<Rightarrow> handle_ssh_execute X now B caller r st
      | _ \<Rightarrow> knowledge caller request st)"

end
