(* ===== verification/Broker_Authority.thy ===== *)
theory Broker_Authority
  imports Broker_Gateway Manifest_Sample
begin

text \<open>
  What a Bundle can reach through the gateway's broker.  An effect needs the signed permission, the operator's grant for
  this package digest and a live lease; it stays within the tenant of the lease; and a knowledge event it leaves
  behind names a Space in which the people it acts for may contribute.
\<close>

section \<open>Authority\<close>

definition authorised :: "('v, 'r) gateway_bundle_broker \<Rightarrow> string \<Rightarrow> string \<Rightarrow> permission_kind \<Rightarrow> bool" where
  "authorised B permission_id resource kind \<longleftrightarrow>
     (\<exists>p \<in> set (pk_permissions (gb_manifest B)). pm_id p = permission_id \<and> pm_kind p = kind \<and> resource \<in> set (pm_resources p))
     \<and> (\<exists>g. grants_get (gb_grants B) (bi_id (pk_bundle (gb_manifest B))) = Some g
          \<and> grant_allows g (gb_manifest_sha256 B) permission_id kind resource)"

lemma authorize_permission_ok: "authorize_permission B permission_id resource (Some kind) = Inr k \<Longrightarrow> authorised B permission_id resource kind"
  by (auto simp: authorize_permission_def authorised_def result_simps runtime_identity_def list_ex_iff
      split: option.splits dest!: find_SomeD)

text \<open>The lease a token stands for at a time.\<close>

definition live_lease ::
  "int \<Rightarrow> ('v, 'r) gateway_bundle_broker \<Rightarrow> string \<Rightarrow> lease_store \<Rightarrow> invocation_lease_binding \<Rightarrow> bool" where
  "live_lease now B token leases b \<longleftrightarrow>
     map_of (ls_active (retain_live now leases)) token = Some b \<and> lb_expires_at b > now
     \<and> lb_bundle_id b = bi_id (pk_bundle (gb_manifest B)) \<and> lb_package_manifest_sha256 b = gb_manifest_sha256 B"

lemma validate_lease_ok:
  assumes "validate_lease now caller token leases = (Inr b, leases')"
    "bcl_identity caller = runtime_identity (gb_manifest B)" "bcl_package_manifest_sha256 caller = gb_manifest_sha256 B"
  shows "live_lease now B token leases b"
proof -
  from assms have "map_of (ls_active (retain_live now leases)) token = Some b"
    and "lb_bundle_id b = bi_id (pk_bundle (gb_manifest B))" "lb_package_manifest_sha256 b = gb_manifest_sha256 B"
    by (auto simp: validate_lease_def Let_def result_simps runtime_identity_def split: if_splits)
  moreover from this(1) have "lb_expires_at b > now" by (auto simp: retain_live_def dest!: map_of_SomeD)
  ultimately show ?thesis by (simp add: live_lease_def)
qed

text \<open>The token of a request, and the permissions it needs.\<close>

fun request_lease :: "broker_request \<Rightarrow> string option" where
  "request_lease (DatabaseSelect r) = Some (sel_lease r)"
| "request_lease (DatabaseInsert r) = Some (ins_lease r)"
| "request_lease (DatabaseUpdate r) = Some (upd_lease r)"
| "request_lease (DatabaseDelete r) = Some (del_lease r)"
| "request_lease (SshExecuteOp r) = Some (se_lease r)"
| "request_lease _ = None"

fun request_needs :: "('v, 'r) gateway_bundle_broker \<Rightarrow> broker_request \<Rightarrow> (string \<times> string \<times> permission_kind) list" where
  "request_needs B (DatabaseSelect r) = [(sel_permission_id r, sel_resource r, Database)]"
| "request_needs B (DatabaseInsert r) = [(ins_permission_id r, ins_resource r, Database)]"
| "request_needs B (DatabaseUpdate r) = [(upd_permission_id r, upd_resource r, Database)]"
| "request_needs B (DatabaseDelete r) = [(del_permission_id r, del_resource r, Database)]"
| "request_needs B (SshExecuteOp r) =
     (case find_operation B (se_operation_id r) of None \<Rightarrow> [] | Some x \<Rightarrow> operation_permissions x)"
| "request_needs B _ = []"

definition lease_admits :: "int \<Rightarrow> ('v, 'r) gateway_bundle_broker \<Rightarrow> broker_request \<Rightarrow> lease_store \<Rightarrow> invocation_lease_binding \<Rightarrow> bool" where
  "lease_admits now B request leases b \<longleftrightarrow>
     (\<exists>token. request_lease request = Some token \<and> live_lease now B token leases b)
     \<and> (\<forall>(permission_id, resource, kind) \<in> set (request_needs B request). authorised B permission_id resource kind)"

definition is_knowledge_request :: "broker_request \<Rightarrow> bool" where
  "is_knowledge_request request \<longleftrightarrow>
     (case request of IntelligenceContext _ \<Rightarrow> True | OutcomeFeedback _ \<Rightarrow> True | KnowledgeCollectionOp _ \<Rightarrow> True | _ \<Rightarrow> False)"

text \<open>
  What handling a request comes to: nothing happens to the database and the hosts, or the request is admitted and one of
  the executors ran for the tenant of its lease.
\<close>

inductive handled ::
  "gateway_env \<Rightarrow> int \<Rightarrow> ('v, 'r) gateway_bundle_broker \<Rightarrow> 'v broker_caller \<Rightarrow> broker_request \<Rightarrow> gateway_state
   \<Rightarrow> broker_response \<Rightarrow> gateway_state \<Rightarrow> bool"
  for X now B caller request st where
  refused:
    "gt_db st' = gt_db st \<Longrightarrow> gt_ssh_calls st' = gt_ssh_calls st \<Longrightarrow> (\<forall>rows. resp \<noteq> DatabaseRowsResponse rows) \<Longrightarrow>
     handled X now B caller request st resp st'"
| selected:
    "request = DatabaseSelect r \<Longrightarrow> lease_admits now B request (gt_leases st) b \<Longrightarrow>
     execute_database_select (gx_sql X) (gx_wire X) (lb_tenant_id b) r (gt_db st) = Inr rows \<Longrightarrow>
     resp = DatabaseRowsResponse rows \<Longrightarrow> gt_db st' = gt_db st \<Longrightarrow> gt_ssh_calls st' = gt_ssh_calls st \<Longrightarrow>
     handled X now B caller request st resp st'"
| inserted:
    "request = DatabaseInsert r \<Longrightarrow> lease_admits now B request (gt_leases st) b \<Longrightarrow>
     gt_db st' = snd (execute_database_insert (gx_sql X) (stamp_server_incident_acting_space X (bri_id (bcl_identity caller)) r)
       (lb_tenant_id b) r (gt_db st)) \<Longrightarrow> gt_ssh_calls st' = gt_ssh_calls st \<Longrightarrow> (\<forall>rows. resp \<noteq> DatabaseRowsResponse rows) \<Longrightarrow>
     handled X now B caller request st resp st'"
| updated:
    "request = DatabaseUpdate r \<Longrightarrow> lease_admits now B request (gt_leases st) b \<Longrightarrow>
     prepare_event X now B caller b (upd_event r) (upd_limit r) st = Inr event \<Longrightarrow>
     gt_db st' = snd (execute_database_update (gx_sql X) (capture_follow_up X now (gt_spaces st) event) (lb_tenant_id b) r (gt_db st)) \<Longrightarrow>
     gt_ssh_calls st' = gt_ssh_calls st \<Longrightarrow> (\<forall>rows. resp \<noteq> DatabaseRowsResponse rows) \<Longrightarrow>
     handled X now B caller request st resp st'"
| deleted:
    "request = DatabaseDelete r \<Longrightarrow> lease_admits now B request (gt_leases st) b \<Longrightarrow>
     prepare_event X now B caller b (del_event r) (del_limit r) st = Inr event \<Longrightarrow>
     gt_db st' = snd (execute_database_delete (gx_sql X) (capture_follow_up X now (gt_spaces st) event) (lb_tenant_id b) r (gt_db st)) \<Longrightarrow>
     gt_ssh_calls st' = gt_ssh_calls st \<Longrightarrow> (\<forall>rows. resp \<noteq> DatabaseRowsResponse rows) \<Longrightarrow>
     handled X now B caller request st resp st'"
| executed:
    "request = SshExecuteOp r \<Longrightarrow> lease_admits now B request (gt_leases st) b \<Longrightarrow> find_operation B (se_operation_id r) = Some operation \<Longrightarrow>
     eng_parse_uuid (gx_sql X) (lb_tenant_id b) = Some tenant \<Longrightarrow>
     gt_ssh_calls st' = gt_ssh_calls st @ [(tenant, bri_id (bcl_identity caller), se_target_id r, operation)] \<Longrightarrow>
     gt_db st' = gt_db st \<Longrightarrow> (\<forall>rows. resp \<noteq> DatabaseRowsResponse rows) \<Longrightarrow>
     handled X now B caller request st resp st'"

lemma admit_database_ok:
  assumes "admit_database now B caller permission_id resource token st = (Inr b, st')"
    "bcl_identity caller = runtime_identity (gb_manifest B)" "bcl_package_manifest_sha256 caller = gb_manifest_sha256 B"
  shows "authorised B permission_id resource Database \<and> live_lease now B token (gt_leases st) b"
  using assms(1) validate_lease_ok [OF _ assms(2,3), of now token "gt_leases st" b]
  by (auto simp: admit_database_def apsnd_def map_prod_def split: sum.splits prod.splits dest!: authorize_permission_ok)

lemma admit_database_state:
  "admit_database now B caller permission_id resource token st = (x, st') \<Longrightarrow>
     gt_db st' = gt_db st \<and> gt_ssh_calls st' = gt_ssh_calls st \<and> gt_spaces st' = gt_spaces st"
  by (auto simp: admit_database_def apsnd_def map_prod_def split: sum.splits prod.splits)

lemma prepare_event_state:
  "gt_db st' = gt_db st \<Longrightarrow> gt_spaces st' = gt_spaces st \<Longrightarrow>
     prepare_event X now B caller b event limit st' = prepare_event X now B caller b event limit st"
  by (simp add: prepare_event_def split: option.split)

lemma mutation_response_sel:
  "gt_db (snd (mutation_response res st)) = snd res" "gt_ssh_calls (snd (mutation_response res st)) = gt_ssh_calls st"
  "fst (mutation_response res st) \<noteq> DatabaseRowsResponse rows"
  by (simp_all add: mutation_response_def split: sum.split)

section \<open>Handling a request\<close>

lemma admitted_database:
  assumes "admit_database now B caller permission_id resource token st = (Inr b, st')"
    "bcl_identity caller = runtime_identity (gb_manifest B)" "bcl_package_manifest_sha256 caller = gb_manifest_sha256 B"
    "request_lease request = Some token" "request_needs B request = [(permission_id, resource, Database)]"
  shows "lease_admits now B request (gt_leases st) b"
  using admit_database_ok [OF assms(1-3)] assms(4,5) by (simp add: lease_admits_def)

lemma handle_select_handled:
  assumes "bcl_identity caller = runtime_identity (gb_manifest B)" "bcl_package_manifest_sha256 caller = gb_manifest_sha256 B"
    and "handle_database_select X now B caller r st = (resp, st')"
  shows "handled X now B caller (DatabaseSelect r) st resp st'"
proof (cases "admit_database now B caller (sel_permission_id r) (sel_resource r) (sel_lease r) st")
  case (Pair x st1)
  note same = admit_database_state [OF Pair]
  show ?thesis
  proof (cases x)
    case (Inr b)
    then have adm: "lease_admits now B (DatabaseSelect r) (gt_leases st) b"
      using Pair by (intro admitted_database [OF _ assms(1,2)]) simp_all
    from assms(3) Pair Inr same show ?thesis
      by (auto simp: handle_database_select_def split: if_splits sum.splits intro: refused selected [OF refl adm])
  qed (use assms(3) Pair same in \<open>auto simp: handle_database_select_def intro: refused\<close>)
qed

lemma handle_insert_handled:
  assumes "bcl_identity caller = runtime_identity (gb_manifest B)" "bcl_package_manifest_sha256 caller = gb_manifest_sha256 B"
    and "handle_database_insert X now B caller r st = (resp, st')"
  shows "handled X now B caller (DatabaseInsert r) st resp st'"
proof (cases "admit_database now B caller (ins_permission_id r) (ins_resource r) (ins_lease r) st")
  case (Pair x st1)
  note same = admit_database_state [OF Pair]
  show ?thesis
  proof (cases x)
    case (Inr b)
    then have adm: "lease_admits now B (DatabaseInsert r) (gt_leases st) b"
      using Pair by (intro admitted_database [OF _ assms(1,2)]) simp_all
    show ?thesis
    proof (cases "gb_has_pool B")
      case True
      let ?res = "execute_database_insert (gx_sql X) (stamp_server_incident_acting_space X (bri_id (bcl_identity caller)) r)
        (lb_tenant_id b) r (gt_db st)"
      from assms(3) Pair Inr same True have "mutation_response ?res st1 = (resp, st')" by (simp add: handle_database_insert_def)
      then have "gt_db st' = snd ?res" "gt_ssh_calls st' = gt_ssh_calls st" "\<forall>rows. resp \<noteq> DatabaseRowsResponse rows"
        using mutation_response_sel [of ?res st1] same by simp_all
      then show ?thesis by (rule inserted [OF refl adm])
    qed (use assms(3) Pair Inr same in \<open>auto simp: handle_database_insert_def intro: refused\<close>)
  qed (use assms(3) Pair same in \<open>auto simp: handle_database_insert_def intro: refused\<close>)
qed

lemma handle_update_handled:
  assumes "bcl_identity caller = runtime_identity (gb_manifest B)" "bcl_package_manifest_sha256 caller = gb_manifest_sha256 B"
    and "handle_database_update X now B caller r st = (resp, st')"
  shows "handled X now B caller (DatabaseUpdate r) st resp st'"
proof (cases "admit_database now B caller (upd_permission_id r) (upd_resource r) (upd_lease r) st")
  case (Pair x st1)
  note same = admit_database_state [OF Pair]
  show ?thesis
  proof (cases "\<exists>b event. x = Inr b \<and> gb_has_pool B \<and> prepare_event X now B caller b (upd_event r) (upd_limit r) st1 = Inr event")
    case True
    then obtain b event where b: "x = Inr b" "gb_has_pool B" "prepare_event X now B caller b (upd_event r) (upd_limit r) st1 = Inr event" by blast
    have adm: "lease_admits now B (DatabaseUpdate r) (gt_leases st) b"
      using Pair b(1) by (intro admitted_database [OF _ assms(1,2)]) simp_all
    let ?res = "execute_database_update (gx_sql X) (capture_follow_up X now (gt_spaces st) event) (lb_tenant_id b) r (gt_db st)"
    from assms(3) Pair b same have "mutation_response ?res st1 = (resp, st')" by (simp add: handle_database_update_def)
    then have "gt_db st' = snd ?res" "gt_ssh_calls st' = gt_ssh_calls st" "\<forall>rows. resp \<noteq> DatabaseRowsResponse rows"
      using mutation_response_sel [of ?res st1] same by simp_all
    moreover have "prepare_event X now B caller b (upd_event r) (upd_limit r) st = Inr event"
      using prepare_event_state [of st1 st X now B caller b "upd_event r" "upd_limit r"] b(3) same by simp
    ultimately show ?thesis by (intro updated [OF refl adm])
  qed (use assms(3) Pair same in \<open>auto simp: handle_database_update_def split: sum.splits if_splits intro: refused\<close>)
qed

lemma handle_delete_handled:
  assumes "bcl_identity caller = runtime_identity (gb_manifest B)" "bcl_package_manifest_sha256 caller = gb_manifest_sha256 B"
    and "handle_database_delete X now B caller r st = (resp, st')"
  shows "handled X now B caller (DatabaseDelete r) st resp st'"
proof (cases "admit_database now B caller (del_permission_id r) (del_resource r) (del_lease r) st")
  case (Pair x st1)
  note same = admit_database_state [OF Pair]
  show ?thesis
  proof (cases "\<exists>b event. x = Inr b \<and> gb_has_pool B \<and> prepare_event X now B caller b (del_event r) (del_limit r) st1 = Inr event")
    case True
    then obtain b event where b: "x = Inr b" "gb_has_pool B" "prepare_event X now B caller b (del_event r) (del_limit r) st1 = Inr event" by blast
    have adm: "lease_admits now B (DatabaseDelete r) (gt_leases st) b"
      using Pair b(1) by (intro admitted_database [OF _ assms(1,2)]) simp_all
    let ?res = "execute_database_delete (gx_sql X) (capture_follow_up X now (gt_spaces st) event) (lb_tenant_id b) r (gt_db st)"
    from assms(3) Pair b same have "mutation_response ?res st1 = (resp, st')" by (simp add: handle_database_delete_def)
    then have "gt_db st' = snd ?res" "gt_ssh_calls st' = gt_ssh_calls st" "\<forall>rows. resp \<noteq> DatabaseRowsResponse rows"
      using mutation_response_sel [of ?res st1] same by simp_all
    moreover have "prepare_event X now B caller b (del_event r) (del_limit r) st = Inr event"
      using prepare_event_state [of st1 st X now B caller b "del_event r" "del_limit r"] b(3) same by simp
    ultimately show ?thesis by (intro deleted [OF refl adm])
  qed (use assms(3) Pair same in \<open>auto simp: handle_database_delete_def split: sum.splits if_splits intro: refused\<close>)
qed

lemma authorize_operation_ok:
  assumes "authorize_operation B i = Inr operation"
  shows "find_operation B i = Some operation
    \<and> (\<forall>(permission_id, resource, kind) \<in> set (operation_permissions operation). authorised B permission_id resource kind)"
  using assms by (auto simp: authorize_operation_def result_simps dest!: authorize_permission_ok)

lemma handle_ssh_handled:
  assumes "bcl_identity caller = runtime_identity (gb_manifest B)" "bcl_package_manifest_sha256 caller = gb_manifest_sha256 B"
    and "handle_ssh_execute X now B caller r st = (resp, st')"
  shows "handled X now B caller (SshExecuteOp r) st resp st'"
proof (cases "authorize_operation B (se_operation_id r)")
  case (Inr operation)
  note ok = authorize_operation_ok [OF Inr]
  show ?thesis
  proof (cases "validate_lease now caller (se_lease r) (gt_leases st)")
    case (Pair x leases)
    show ?thesis
    proof (cases "\<exists>b tenant. x = Inr b \<and> eng_parse_uuid (gx_sql X) (lb_tenant_id b) = Some tenant \<and> tenant \<noteq> 0")
      case True
      then obtain b tenant where b: "x = Inr b" "eng_parse_uuid (gx_sql X) (lb_tenant_id b) = Some tenant" "tenant \<noteq> 0" by blast
      have adm: "lease_admits now B (SshExecuteOp r) (gt_leases st) b"
        using ok validate_lease_ok [OF _ assms(1,2)] Pair b(1) by (auto simp: lease_admits_def)
      from assms(3) Inr Pair b show ?thesis
        by (intro executed [OF refl adm ok [THEN conjunct1] b(2)]) (auto simp: handle_ssh_execute_def Let_def split: sum.splits)
    qed (use assms(3) Inr Pair in \<open>auto simp: handle_ssh_execute_def Let_def split: sum.splits option.splits if_splits intro!: refused\<close>)
  qed
qed (use assms(3) in \<open>auto simp: handle_ssh_execute_def intro: refused\<close>)

lemma handle_probe_no_rows: "handle_probe B db r \<noteq> DatabaseRowsResponse rows"
  by (simp add: handle_probe_def probe_answer_def resource_not_supported_def probe_knowledge_def split: sum.split permission_kind.split option.split)

lemma handle_handled:
  assumes "handle X knowledge now B caller request st = (resp, st')" "\<not> is_knowledge_request request"
  shows "handled X now B caller request st resp st'"
proof (cases "bcl_identity caller = runtime_identity (gb_manifest B) \<and> bcl_package_manifest_sha256 caller = gb_manifest_sha256 B")
  case True
  note who = True [THEN conjunct1] True [THEN conjunct2]
  from assms True show ?thesis
    by (cases request) (auto simp: handle_def is_knowledge_request_def handle_probe_no_rows intro: refused handle_select_handled [OF who] handle_insert_handled [OF who]
        handle_update_handled [OF who] handle_delete_handled [OF who] handle_ssh_handled [OF who])
qed (use assms(1) in \<open>auto simp: handle_def intro: refused\<close>)

section \<open>Effects are authorised\<close>


section \<open>Effects stay in the tenant of the lease\<close>

lemma capture_snapshot_cases:
  assumes "capture_snapshot X now spaces event snapshot db = Inr db'"
  shows "db' = db \<or> (\<exists>e i. enqueue_in_transaction (gx_refs X) (gx_event_id X) now e (bd_outbox db) = (Inr i, bd_outbox db')
      \<and> db' = db\<lparr>bd_outbox := bd_outbox db'\<rparr> \<and> event_context X now spaces event snapshot = Inr (Some (eq_acting_space_id e, eq_effective_role e))
      \<and> eq_tenant_id e = pe_tenant_id event \<and> eq_requested_by_user_id e = pe_requested_by_user_id event
      \<and> eq_service_actor_user_id e = pe_service_actor_user_id event)"
proof -
  from assms obtain i r t ctx where ctx: "event_context X now spaces event snapshot = Inr ctx"
    and body: "(case ctx of None \<Rightarrow> Inr db
      | Some (space, role) \<Rightarrow>
          and_then (ok_or (gx_snapshot_hash X snapshot) (invalid_knowledge_snapshot ''canonical JSON'')) (\<lambda>hash.
          (case enqueue_in_transaction (gx_refs X) (gx_event_id X) now
              (captured_event event snapshot (''sha256:'' @ hash) i r t space role) (bd_outbox db) of
             (Inl _, _) \<Rightarrow>
               Inl (new_broker_error ''knowledge-event-enqueue-failed'' ''post-mutation Knowledge event could not be durably enqueued'' True)
           | (Inr _, rows) \<Rightarrow> Inr (db\<lparr>bd_outbox := rows\<rparr>)))) = Inr db'"
    unfolding capture_snapshot_def Let_def and_then_eq_Inr by blast
  show ?thesis
  proof (cases ctx)
    case (Some sr)
    obtain space role where sr: "sr = (space, role)" by (cases sr)
    with body Some obtain hash where hash: "(case enqueue_in_transaction (gx_refs X) (gx_event_id X) now
              (captured_event event snapshot (''sha256:'' @ hash) i r t space role) (bd_outbox db) of
             (Inl _, _) \<Rightarrow>
               Inl (new_broker_error ''knowledge-event-enqueue-failed'' ''post-mutation Knowledge event could not be durably enqueued'' True)
           | (Inr _, rows) \<Rightarrow> Inr (db\<lparr>bd_outbox := rows\<rparr>)) = Inr db'"
      by (auto simp: and_then_eq_Inr)
    obtain res rows where enq: "enqueue_in_transaction (gx_refs X) (gx_event_id X) now
        (captured_event event snapshot (''sha256:'' @ hash) i r t space role) (bd_outbox db) = (res, rows)" by (rule prod.exhaust)
    with hash obtain k where k: "res = Inr k" "db' = db\<lparr>bd_outbox := rows\<rparr>" by (cases res) auto
    show ?thesis
      by (rule disjI2, rule exI [of _ "captured_event event snapshot (''sha256:'' @ hash) i r t space role"], rule exI [of _ k])
        (use enq k ctx Some sr in \<open>simp add: captured_event_def Let_def\<close>)
  qed (use body in simp)
qed

lemma capture_snapshot_relations:
  "capture_snapshot X now spaces event snapshot db = Inr db' \<Longrightarrow> bd_relations db' = bd_relations db"
  by (drule capture_snapshot_cases) (metis broker_db.select_convs(1) broker_db.surjective broker_db.update_convs(2))

lemma capture_cases:
  assumes "capture_knowledge_event X now spaces event db = Inr db'"
  shows "db' = db \<or> (\<exists>snapshot. capture_snapshot X now spaces event snapshot db = Inr db')"
proof -
  from assms obtain rows where "(case rows of [] \<Rightarrow> Inr db
      | [row] \<Rightarrow> capture_snapshot X now spaces event (canonical_json row) db
      | _ \<Rightarrow> Inl (new_broker_error ''knowledge-event-snapshot-ambiguous'' ''post-mutation Knowledge snapshot must resolve exactly one subject'' False)) = Inr db'"
    by (auto simp only: capture_knowledge_event_def and_then_eq_Inr split: option.splits)
  then show ?thesis by (cases rows; cases "tl rows") auto
qed

lemma capture_relations: "capture_knowledge_event X now spaces event db = Inr db' \<Longrightarrow> bd_relations db' = bd_relations db"
  by (drule capture_cases) (auto dest: capture_snapshot_relations)

lemma capture_confined: "follow_up_confined (capture_follow_up X now spaces event)"
  by (auto simp: follow_up_confined_def capture_follow_up_def foreign_rows_def split: option.splits dest!: capture_relations)

lemma stamp_incidents_foreign:
  "filter (\<lambda>r. row_tenant r \<noteq> tenant) (stamp_incidents E tenant fingerprint space rows) = filter (\<lambda>r. row_tenant r \<noteq> tenant) rows"
  by (induction rows) (auto simp: stamp_incidents_def)

lemma stamp_confined: "follow_up_confined (stamp_server_incident_acting_space X bundle_id r)"
  by (auto simp: follow_up_confined_def stamp_server_incident_acting_space_def Let_def result_simps
      split: if_splits option.splits intro!: with_rows_foreign stamp_incidents_foreign)


section \<open>Knowledge events are authorised\<close>

text \<open>A user who is more than a viewer in an active Space.\<close>

definition may_contribute :: "spaces_env \<Rightarrow> int \<Rightarrow> spaces_db \<Rightarrow> uuid \<Rightarrow> uuid \<Rightarrow> uuid \<Rightarrow> space_role \<Rightarrow> bool" where
  "may_contribute V now spaces tenant user space role \<longleftrightarrow>
     role \<noteq> Viewer \<and> (\<exists>s \<in> set (sd_spaces spaces). sp_id s = space \<and> sp_tenant_id s = tenant \<and> sp_status s = ''active''
       \<and> effective_role V now spaces \<lparr>sa_tenant_id = tenant, sa_user_id = user\<rparr> s = Inr (Some role))"

lemma effective_from_role:
  "effective_from V now db actor ss = Inr visible \<Longrightarrow> c \<in> set visible \<Longrightarrow>
     es_space c \<in> set ss \<and> effective_role V now db actor (es_space c) = Inr (Some (es_effective_role c))"
  by (induction ss arbitrary: visible) (auto simp: result_simps split: option.splits)

lemma effective_spaces_role:
  assumes "effective_spaces V now db actor = Inr visible" "c \<in> set visible"
  shows "es_space c \<in> set (sd_spaces db) \<and> sp_tenant_id (es_space c) = sa_tenant_id actor
    \<and> effective_role V now db actor (es_space c) = Inr (Some (es_effective_role c))"
proof -
  from assms(1) have "effective_from V now db actor
      (sort_by (sv_space_le V) (filter (\<lambda>s. sp_tenant_id s = sa_tenant_id actor) (sd_spaces db))) = Inr visible"
    by (auto simp: effective_spaces_def result_simps)
  from effective_from_role [OF this assms(2)] show ?thesis by simp
qed

lemma acting_space_role:
  assumes "acting_space X now spaces tenant user space = Inr c" "sp_status (es_space c) = ''active''"
  shows "may_contribute (gx_spaces X) now spaces tenant user space (es_effective_role c)"
proof -
  from assms(1) obtain visible where visible: "effective_spaces (gx_spaces X) now spaces \<lparr>sa_tenant_id = tenant, sa_user_id = user\<rparr> = Inr visible"
      and found: "find (\<lambda>c. sp_id (es_space c) = space) visible = Some c" and role: "es_effective_role c \<noteq> Viewer"
    by (auto simp: acting_space_def result_simps map_sum_eq_Inr bind_eq_Some_conv split: if_splits)
  from find_SomeD [OF found] have c: "c \<in> set visible" "sp_id (es_space c) = space" by simp_all
  from effective_spaces_role [OF visible c(1)] c(2) role assms(2) show ?thesis
    unfolding may_contribute_def by (intro conjI bexI [of _ "es_space c"]) simp_all
qed

definition event_context_ok :: "gateway_env \<Rightarrow> int \<Rightarrow> spaces_db \<Rightarrow> uuid \<Rightarrow> uuid \<Rightarrow> uuid \<Rightarrow> uuid \<Rightarrow> string \<Rightarrow> bool" where
  "event_context_ok X now spaces tenant requested_by service_actor space role \<longleftrightarrow>
     (\<exists>r. may_contribute (gx_spaces X) now spaces tenant requested_by space r \<and> role = role_text r)
     \<and> (\<exists>r. may_contribute (gx_spaces X) now spaces tenant service_actor space r)"

lemma validated_context:
  assumes "validate_knowledge_event_context X now spaces tenant requested_by service_actor space = Inr role"
  shows "event_context_ok X now spaces tenant requested_by service_actor space role"
  using assms by (auto simp: validate_knowledge_event_context_def event_context_ok_def result_simps dest!: acting_space_role)

lemma map_sum_Some: "map_sum (\<lambda>e. e) Some r = Inr (Some a) \<longleftrightarrow> r = Inr a"
  by (cases r) auto

text \<open>A resolved event belongs to the tenant of the lease, and has its context or will read it from the snapshot.\<close>

lemma prepared_context:
  assumes "prepare_event X now B caller b event limit st = Inr (Some e)"
  shows "eng_parse_uuid (gx_sql X) (lb_tenant_id b) = Some (pe_tenant_id e)
    \<and> database_table_name (ke_snapshot_resource (pe_descriptor e)) \<noteq> None
    \<and> (ke_acting_space_id_field (pe_descriptor e) \<noteq> None
      \<or> (\<exists>space role. pe_acting_space_id e = Some space \<and> pe_effective_role e = Some role
          \<and> event_context_ok X now (gt_spaces st) (pe_tenant_id e) (pe_requested_by_user_id e) (pe_service_actor_user_id e) space role))"
  using assms
  by (auto simp: prepare_event_def resolve_knowledge_event_def Let_def result_simps map_sum_Some split: option.splits if_splits dest!: validated_context)

lemma event_context_authorised:
  assumes "prepare_event X now B caller b event limit st = Inr (Some e)"
    and "event_context X now (gt_spaces st) e snapshot = Inr (Some (space, role))"
  shows "event_context_ok X now (gt_spaces st) (pe_tenant_id e) (pe_requested_by_user_id e) (pe_service_actor_user_id e) space role"
  using prepared_context [OF assms(1)] assms(2)
  by (auto simp: event_context_def result_simps split: option.splits if_splits dest!: validated_context)

text \<open>The outbox after a mutation is the one before it, or the one its follow-up leaves.\<close>

definition outbox_via :: "mutation_follow_up \<Rightarrow> broker_db \<Rightarrow> broker_db \<Rightarrow> bool" where
  "outbox_via follow_up db db' \<longleftrightarrow>
     bd_outbox db' = bd_outbox db \<or> (\<exists>tenant table changed. bd_outbox changed = bd_outbox db \<and> follow_up tenant table changed = Inr db')"

lemma commit_outbox:
  "bd_outbox changed = bd_outbox db \<Longrightarrow> outbox_via follow_up db (snd (commit_mutation E (follow_up tenant table) limit affected changed db))"
  by (auto simp: outbox_via_def commit_mutation_def split: sum.splits if_splits)

lemma with_rows_outbox [simp]: "bd_outbox (with_rows name rows db) = bd_outbox db"
  by (simp add: with_rows_def)

lemma same_outbox: "outbox_via follow_up db db"
  by (simp add: outbox_via_def)

lemma execute_outbox:
  "outbox_via follow_up db (snd (execute_database_insert E follow_up tenant_text i db))"
  "outbox_via follow_up db (snd (execute_database_update E follow_up tenant_text u db))"
  "outbox_via follow_up db (snd (execute_database_delete E follow_up tenant_text d db))"
  by (simp_all add: execute_database_insert_def execute_database_update_def execute_database_delete_def Let_def same_outbox commit_outbox
      split: sum.split prod.split)

lemma stamp_outbox: "stamp_server_incident_acting_space X bundle_id r tenant table db = Inr db' \<Longrightarrow> bd_outbox db' = bd_outbox db"
  by (auto simp: stamp_server_incident_acting_space_def Let_def result_simps split: if_splits option.splits)

lemma enqueue_adds:
  "enqueue_in_transaction R i now e rows = (res, rows') \<Longrightarrow> r \<in> set rows' \<Longrightarrow> r \<notin> set rows \<Longrightarrow> ob_event r = e"
  by (auto simp: enqueue_in_transaction_def new_event_row_def split: if_splits option.splits)

lemma captured_row:
  assumes "prepare_event X now B caller b event limit st = Inr prepared"
    and "outbox_via (capture_follow_up X now (gt_spaces st) prepared) db db'"
    and "r \<in> set (bd_outbox db')" "r \<notin> set (bd_outbox db)"
  shows "eng_parse_uuid (gx_sql X) (lb_tenant_id b) = Some (eq_tenant_id (ob_event r))
    \<and> event_context_ok X now (gt_spaces st) (eq_tenant_id (ob_event r)) (eq_requested_by_user_id (ob_event r))
        (eq_service_actor_user_id (ob_event r)) (eq_acting_space_id (ob_event r)) (eq_effective_role (ob_event r))"
proof -
  from assms(2-4) obtain tenant table changed where ch: "bd_outbox changed = bd_outbox db"
      "capture_follow_up X now (gt_spaces st) prepared tenant table changed = Inr db'" by (auto simp: outbox_via_def)
  then obtain p where p: "prepared = Some p" "capture_knowledge_event X now (gt_spaces st) p changed = Inr db'"
    using assms(3,4) by (auto simp: capture_follow_up_def split: option.splits)
  from capture_cases [OF p(2)] ch(1) assms(3,4) obtain snapshot where "capture_snapshot X now (gt_spaces st) p snapshot changed = Inr db'" by auto
  from capture_snapshot_cases [OF this] ch(1) assms(3,4) obtain e i where
    e: "enqueue_in_transaction (gx_refs X) (gx_event_id X) now e (bd_outbox db) = (Inr i, bd_outbox db')"
      "event_context X now (gt_spaces st) p snapshot = Inr (Some (eq_acting_space_id e, eq_effective_role e))"
      "eq_tenant_id e = pe_tenant_id p" "eq_requested_by_user_id e = pe_requested_by_user_id p"
      "eq_service_actor_user_id e = pe_service_actor_user_id p" by auto
  from enqueue_adds [OF e(1) assms(3,4)] have "ob_event r = e" .
  with e(3-5) prepared_context [OF assms(1) [unfolded p(1)]] event_context_authorised [OF assms(1) [unfolded p(1)] e(2)] show ?thesis by simp
qed

text \<open>
  (C16) A knowledge event that a request of a Bundle leaves in the outbox belongs to the tenant of its admitted lease, and names
  an active Space of that tenant in which both the person it acts for and the service actor are more than viewers; the role it
  records is the one that person has there.
\<close>

theorem captured_events_are_authorised:
  assumes "handle X knowledge now B caller request st = (resp, st')" "\<not> is_knowledge_request request"
    and "r \<in> set (bd_outbox (gt_db st'))" "r \<notin> set (bd_outbox (gt_db st))"
  shows "\<exists>b. lease_admits now B request (gt_leases st) b
    \<and> eng_parse_uuid (gx_sql X) (lb_tenant_id b) = Some (eq_tenant_id (ob_event r))
    \<and> event_context_ok X now (gt_spaces st) (eq_tenant_id (ob_event r)) (eq_requested_by_user_id (ob_event r))
        (eq_service_actor_user_id (ob_event r)) (eq_acting_space_id (ob_event r)) (eq_effective_role (ob_event r))"
  using handle_handled [OF assms(1,2)]
proof cases
  case (inserted i b)
  have "bd_outbox (gt_db st') = bd_outbox (gt_db st)"
    unfolding inserted(3) using execute_outbox(1) [of "stamp_server_incident_acting_space X (bri_id (bcl_identity caller)) i" "gt_db st" "gx_sql X" "lb_tenant_id b" i]
    by (auto simp: outbox_via_def dest: stamp_outbox)
  with assms(3,4) show ?thesis by simp
next
  case (updated u b event)
  from captured_row [OF updated(3) execute_outbox(2) assms(3,4) [unfolded updated(4)]] updated(2) show ?thesis by blast
next
  case (deleted d b event)
  from captured_row [OF deleted(3) execute_outbox(3) assms(3,4) [unfolded deleted(4)]] deleted(2) show ?thesis by blast
qed (use assms(3,4) in simp_all)

section \<open>A sample Bundle at work\<close>

text \<open>The accepted package of \<open>Manifest_Sample\<close>, with a permission on two tables and a knowledge event for closed hosts.\<close>

definition table_permission :: permission_declaration where
  "table_permission = \<lparr>pm_id = ''p'', pm_kind = Database, pm_description = ''tables'',
     pm_resources = [''postgres:table:hosts'', ''postgres:table:closed''], pm_secret_references = []\<rparr>"

definition closed_event :: knowledge_event_descriptor where
  "closed_event = \<lparr>ke_id = ''closed'', ke_event_kind = ''closed'', ke_subject_kind = ''host'', ke_snapshot_permission_id = ''p'',
     ke_snapshot_resource = ''postgres:table:closed'', ke_snapshot_fields = [''id'', ''rev'', ''title''], ke_acting_space_id_field = None,
     ke_subject_id_field = ''id'', ke_subject_revision_field = ''rev'', ke_title_field = ''title'', ke_researcher_bundle = ''r'',
     ke_researcher_role = ''role'', ke_output_vault_bundle = ''v'', ke_knowledge_schema_id = ''s'', ke_source_path_prefix = ''hosts''\<rparr>"

definition working_package :: "(nat, nat) bundle_package_manifest" where
  "working_package = sample_package\<lparr>pk_permissions := sample_permissions @ [table_permission],
     pk_capabilities := sample_capabilities\<lparr>ca_knowledge_events := [closed_event]\<rparr>\<rparr>"

definition working_broker :: "(nat, nat) gateway_bundle_broker" where
  "working_broker =
     \<lparr>gb_manifest = working_package, gb_manifest_sha256 = ''digest'',
      gb_grants = \<lparr>gs_files = [], gs_grants = [(''srv-admin'',
        \<lparr>bg_format_version = 1, bg_grant_revision = ''1'', bg_bundle_id = ''srv-admin'', bg_package_manifest_sha256 = ''digest'',
         bg_permissions = map granted_permission_from (pk_permissions working_package), bg_granted_at_ms = 0\<rparr>)]\<rparr>,
      gb_has_pool = True, gb_has_intelligence = False, gb_ssh_ready = True\<rparr>"

definition working_caller :: "nat broker_caller" where
  "working_caller = \<lparr>bcl_identity = runtime_identity working_package, bcl_package_manifest_sha256 = ''digest''\<rparr>"

definition working_lease :: invocation_lease_binding where
  "working_lease = \<lparr>lb_bundle_id = ''srv-admin'', lb_package_manifest_sha256 = ''digest'', lb_tenant_id = ''1'', lb_actor_id = ''5'',
     lb_acting_space_id = Some ''20'', lb_delegated_actor_id = None, lb_request_id = ''req'', lb_scopes = [], lb_expires_at = 100\<rparr>"

definition working_spaces :: spaces_db where
  "working_spaces =
     \<lparr>sd_users = [\<lparr>us_id = 5, us_tenant_id = 1, us_role = ''admin'', us_is_active = True\<rparr>], sd_teams = [], sd_team_members = [], sd_groups = [],
      sd_user_groups = [], sd_projects = [],
      sd_spaces = [\<lparr>sp_id = 20, sp_tenant_id = 1, sp_kind = ''project'', sp_title = ''Ops'', sp_owner_user_id = None, sp_owner_team_id = None,
        sp_owner_project_id = Some 30, sp_status = ''active'', sp_policy = JObject [], sp_revision = 1, sp_created_at = 0, sp_updated_at = 0\<rparr>],
      sd_grants = [], sd_vaults = [], sd_objects = [], sd_shares = []\<rparr>"

definition closed_hosts :: relation where
  "closed_hosts = \<lparr>rel_is_view = True, rel_tenant_is_uuid = True, rel_columns = [''id'', ''rev'', ''title''],
     rel_rows = [\<lparr>row_tenant = 1, row_cells = [(''id'', Some (JString ''7'')), (''rev'', Some (JString ''1'')), (''title'', Some (JString ''Closed''))]\<rparr>]\<rparr>"

definition working_state :: gateway_state where
  "working_state = \<lparr>gt_leases = \<lparr>ls_ttl = 100, ls_active = [(''lease'', working_lease)]\<rparr>,
     gt_db = \<lparr>bd_relations = [(''hosts'', sample_hosts), (''closed'', closed_hosts)], bd_outbox = []\<rparr>,
     gt_spaces = working_spaces, gt_ssh_calls = []\<rparr>"

definition ssh_output :: ssh_execution_result where
  "ssh_output = \<lparr>sx_target_id = ''web1'', sx_operation_id = ''inventory'', sx_exit_code = 0, sx_stdout = ''Linux'', sx_stderr = [], sx_duration_ms = 3\<rparr>"

definition working_env :: gateway_env where
  "working_env =
     \<lparr>gx_sql = sample_engine, gx_wire = sample_wire,
      gx_spaces = \<lparr>sv_show_uuid = eng_show_uuid sample_engine, sv_parse_uuid = eng_parse_uuid sample_engine, sv_fault_text = (\<lambda>_. []),
        sv_space_le = (\<lambda>_ _. True), sv_text_le = (\<lambda>_ _. True)\<rparr>,
      gx_refs = sample_refs, gx_event_id = 9, gx_snapshot_hash = (\<lambda>_. Some (replicate 64 (CHR ''a''))),
      gx_ssh = (\<lambda>_ _ _ _. Inr ssh_output), gx_targets = (\<lambda>_ _. [])\<rparr>"

definition ssh_request :: ssh_execute_request where
  "ssh_request = \<lparr>se_lease = ''lease'', se_target_id = ''web1'', se_operation_id = ''inventory''\<rparr>"

definition no_knowledge :: "nat knowledge_handlers" where
  "no_knowledge _ _ st = (ErrorResponse database_request_rejected, st)"

lemmas working_defs = working_broker_def working_package_def sample_package_def sample_permissions_def table_permission_def

lemma working_permissions:
  "authorize_permission working_broker ''p'' ''postgres:table:hosts'' (Some Database) = Inr Database"
  "authorize_permission working_broker ''p'' ''postgres:table:closed'' (Some Database) = Inr Database"
  "authorize_permission working_broker ''net'' ''ssh:operation:inventory'' (Some Network) = Inr Network"
  "authorize_permission working_broker ''key'' ''secret:use:ssh-identity'' (Some SecretUse) = Inr SecretUse"
  by (simp_all add: authorize_permission_def grants_get_def grant_allows_def granted_permission_from_def runtime_identity_def ok_or_def working_defs)

lemma working_lease_valid:
  "validate_lease 50 working_caller ''lease'' (gt_leases working_state) = (Inr working_lease, gt_leases working_state)"
  by (simp add: validate_lease_def Let_def retain_live_def working_state_def working_lease_def working_caller_def runtime_identity_def
      working_package_def sample_package_def ok_or_def)

lemma working_identity:
  "bcl_identity working_caller = runtime_identity (gb_manifest working_broker)" "bcl_package_manifest_sha256 working_caller = gb_manifest_sha256 working_broker"
  by (simp_all add: working_caller_def working_broker_def)

lemma working_ssh:
  "handle working_env no_knowledge 50 working_broker working_caller (SshExecuteOp ssh_request) working_state
   = (SshExecutionResponse ssh_output, working_state\<lparr>gt_ssh_calls := [(1, ''srv-admin'', ''web1'', sample_operation)]\<rparr>)"
proof -
  have "find_operation working_broker ''inventory'' = Some sample_operation"
    by (simp add: find_operation_def working_broker_def working_package_def sample_package_def sample_operation_def)
  then have "authorize_operation working_broker ''inventory'' = Inr sample_operation"
    by (simp add: authorize_operation_def result_simps ok_or_def operation_permissions_def sample_operation_def working_permissions)
  moreover have "bri_id (bcl_identity working_caller) = ''srv-admin''"
    by (simp add: working_caller_def runtime_identity_def working_package_def sample_package_def)
  moreover have "eng_parse_uuid (gx_sql working_env) (lb_tenant_id working_lease) = Some 1" by (simp add: working_env_def working_lease_def)
  ultimately show ?thesis
    by (simp add: handle_def working_identity handle_ssh_execute_def ssh_request_def working_lease_valid Let_def)
      (simp add: working_env_def working_state_def)
qed


definition closing_delete :: database_delete_request where
  "closing_delete = (sample_delete (JBool True))\<lparr>del_event := Some \<lparr>dm_event_kind = ''closed'', dm_subject_kind = ''host'',
     dm_subject_id = [], dm_subject_revision = [], dm_input = JObject [], dm_snapshot_filters = Some [(''id'', JString ''7'')]\<rparr>\<rparr>"

definition closing_event :: prepared_knowledge_event where
  "closing_event = \<lparr>pe_descriptor = closed_event, pe_tenant_id = 1, pe_publisher_bundle_id = ''srv-admin'', pe_snapshot_filters = [(''id'', JString ''7'')],
     pe_acting_space_id = Some 20, pe_requested_by_user_id = 5, pe_service_actor_user_id = 5, pe_effective_role = Some ''manager''\<rparr>"

definition closing_snapshot :: json where
  "closing_snapshot = JObject [(''id'', JString ''7''), (''rev'', JString ''1''), (''title'', JString ''Closed'')]"

definition closing_row :: knowledge_event_row where
  "closing_row = new_event_row 9 50
     (captured_event closing_event closing_snapshot (''sha256:'' @ replicate 64 (CHR ''a'')) ''7'' ''1'' ''Closed'' 20 ''manager'')"

lemma working_numbers:
  "eng_parse_uuid sample_engine ''5'' = Some 5" "eng_parse_uuid sample_engine ''20'' = Some 20"
  "database_table_name ''postgres:table:closed'' = Some ''closed''"
  by code_simp+

lemma working_context: "validate_knowledge_event_context working_env 50 working_spaces 1 5 5 20 = Inr ''manager''"
proof -
  let ?s = "hd (sd_spaces working_spaces)"
  have "effective_spaces (gx_spaces working_env) 50 working_spaces \<lparr>sa_tenant_id = 1, sa_user_id = 5\<rparr>
      = Inr [\<lparr>es_space = ?s, es_effective_role = Manager\<rparr>]"
    by (simp add: effective_spaces_def effective_role_def ensure_active_actor_def working_spaces_def ok_or_def sort_by_simps)
  then have "acting_space working_env 50 working_spaces 1 5 20 = Inr \<lparr>es_space = ?s, es_effective_role = Manager\<rparr>"
    by (simp add: acting_space_def ok_or_def working_spaces_def)
  then show ?thesis by (simp add: validate_knowledge_event_context_def working_spaces_def)
qed

lemma working_prepare:
  "prepare_event working_env 50 working_broker working_caller working_lease (del_event closing_delete) (del_limit closing_delete) working_state
   = Inr (Some closing_event)"
proof -
  have "ca_knowledge_events (pk_capabilities (gb_manifest working_broker)) = [closed_event]"
    by (simp add: working_broker_def working_package_def)
  moreover have "relation_has_tenant_uuid (gt_db working_state) ''closed'' True"
    by (simp add: relation_has_tenant_uuid_def working_state_def closed_hosts_def)
  moreover have "bri_id (bcl_identity working_caller) = ''srv-admin''"
    by (simp add: working_caller_def runtime_identity_def working_package_def sample_package_def)
  moreover have "gx_sql working_env = sample_engine" "gt_spaces working_state = working_spaces" by (simp_all add: working_env_def working_state_def)
  ultimately show ?thesis
    by (simp add: prepare_event_def resolve_knowledge_event_def closing_delete_def sample_delete_def closed_event_def ok_or_def
        working_permissions working_numbers working_lease_def working_context closing_event_def)
qed

lemma ok_or_Some: "ok_or (Some a) e = Inr a"
  by (simp add: ok_or_def)

lemma working_capture:
  assumes "map_of (bd_relations db) ''closed'' = Some closed_hosts" "bd_outbox db = []"
  shows "capture_knowledge_event working_env 50 working_spaces closing_event db = Inr (db\<lparr>bd_outbox := [closing_row]\<rparr>)"
proof -
  have "read_snapshots working_env closing_event ''closed'' db = Inr [closing_snapshot]"
    using assms(1) by (simp add: read_snapshots_def Let_def working_env_def closing_event_def closed_event_def ok_or_def closed_hosts_def
        columns_known_def scan_def filters_match_def project_row_def cell_def closing_snapshot_def)
  moreover have canon: "canonical_json closing_snapshot = closing_snapshot" by code_simp
  moreover have "capture_snapshot working_env 50 working_spaces closing_event closing_snapshot db = Inr (db\<lparr>bd_outbox := [closing_row]\<rparr>)"
  proof -
    let ?e = "captured_event closing_event closing_snapshot (''sha256:'' @ replicate 64 (CHR ''a'')) ''7'' ''1'' ''Closed'' 20 ''manager''"
    have "event_checks ?e" by code_simp
    then have enq: "enqueue_in_transaction (gx_refs working_env) (gx_event_id working_env) 50 ?e (bd_outbox db) = (Inr 9, [closing_row])"
      unfolding enqueue_in_transaction_def assms(2) closing_row_def by (simp add: working_env_def event_refs_exist_def sample_refs_def)
    have "snapshot_text closing_snapshot (ke_subject_id_field (pe_descriptor closing_event)) (\<lambda>t. t) (\<lambda>t. t \<noteq> [] \<and> len t \<le> 256) ''subject id'' = Inr ''7''"
      "snapshot_text closing_snapshot (ke_subject_revision_field (pe_descriptor closing_event)) (\<lambda>t. t) (\<lambda>t. t \<noteq> [] \<and> len t \<le> 256) ''subject revision'' = Inr ''1''"
      "snapshot_text closing_snapshot (ke_title_field (pe_descriptor closing_event)) trim (\<lambda>t. t \<noteq> [] \<and> len (chars_of t) \<le> 512) ''title'' = Inr ''Closed''"
      by code_simp+
    moreover have "event_context working_env 50 working_spaces closing_event closing_snapshot = Inr (Some (20, ''manager''))"
      by (simp add: event_context_def closing_event_def closed_event_def)
    moreover have "gx_snapshot_hash working_env closing_snapshot = Some (replicate 64 (CHR ''a''))" by (simp add: working_env_def)
    ultimately show ?thesis
      unfolding capture_snapshot_def Let_def by (simp only: and_then_Inr option.case prod.case ok_or_Some enq sum.case)
  qed
  ultimately show ?thesis
    by (simp add: capture_knowledge_event_def closing_event_def closed_event_def working_numbers)
qed

definition closing_db :: broker_db where
  "closing_db = \<lparr>bd_relations = [(''hosts'', sample_hosts\<lparr>rel_rows := [sample_row 2 True, sample_row 1 False]\<rparr>), (''closed'', closed_hosts)],
     bd_outbox = [closing_row]\<rparr>"

lemma working_delete:
  "handle working_env no_knowledge 50 working_broker working_caller (DatabaseDelete closing_delete) working_state
   = (DatabaseMutationResponse 1, working_state\<lparr>gt_db := closing_db\<rparr>)"
proof -
  let ?db = "gt_db working_state"
  let ?f = "capture_follow_up working_env 50 working_spaces (Some closing_event)"
  let ?rows = "[sample_row 2 True, sample_row 1 False]"
  have admit: "admit_database 50 working_broker working_caller (del_permission_id closing_delete) (del_resource closing_delete)
      (del_lease closing_delete) working_state = (Inr working_lease, working_state)"
    by (simp add: admit_database_def closing_delete_def sample_delete_def working_permissions working_lease_valid)
  have target: "validated_database_target sample_engine ?db ''1'' ''postgres:table:hosts'' False = Inr (1, ''hosts'', sample_hosts)"
    by (simp add: validated_database_target_def relation_has_tenant_uuid_def ok_or_def working_state_def sample_hosts_def)
  have "?f 1 ''hosts'' (with_rows ''hosts'' ?rows ?db) = Inr ((with_rows ''hosts'' ?rows ?db)\<lparr>bd_outbox := [closing_row]\<rparr>)"
    by (simp add: capture_follow_up_def working_capture with_rows_def working_state_def)
  also have "(with_rows ''hosts'' ?rows ?db)\<lparr>bd_outbox := [closing_row]\<rparr> = closing_db"
    by (simp add: with_rows_def working_state_def closing_db_def)
  finally have follow: "?f 1 ''hosts'' (with_rows ''hosts'' ?rows ?db) = Inr closing_db" .
  have "execute_database_delete sample_engine ?f ''1'' closing_delete ?db = (Inr 1, closing_db)"
    by (simp add: execute_database_delete_def closing_delete_def sample_delete_def target commit_mutation_def mutation_result_def sample_scan
        len_def delete_rows_def follow [unfolded sample_row_def])
  moreover have "gx_sql working_env = sample_engine" "lb_tenant_id working_lease = ''1''" "gt_spaces working_state = working_spaces" "gb_has_pool working_broker"
    by (simp_all add: working_env_def working_lease_def working_state_def working_broker_def)
  ultimately show ?thesis
    by (simp add: handle_def working_identity handle_database_delete_def admit working_prepare mutation_response_def)
qed

lemma closing_delete_valid: "validate_request sample_wire (DatabaseDelete closing_delete) = Inr ()"
  by code_simp

lemma working_admitted:
  "lease_admits 50 working_broker (DatabaseDelete closing_delete) (gt_leases working_state) b \<Longrightarrow> b = working_lease"
  by (auto simp: lease_admits_def live_lease_def closing_delete_def sample_delete_def working_state_def retain_live_def split: if_splits)


theorem captured_events_are_authorised_witness:
  "\<exists>b. lease_admits 50 working_broker (DatabaseDelete closing_delete) (gt_leases working_state) b
     \<and> lb_tenant_id b = ''1'' \<and> eq_tenant_id (ob_event closing_row) = 1
     \<and> event_context_ok working_env 50 working_spaces 1 5 5 20 ''manager''"
proof -
  have row: "closing_row \<in> set (bd_outbox closing_db)" "closing_row \<notin> set (bd_outbox (gt_db working_state))"
    by (simp_all add: closing_db_def working_state_def)
  from captured_events_are_authorised [OF working_delete] row obtain b
    where b: "lease_admits 50 working_broker (DatabaseDelete closing_delete) (gt_leases working_state) b"
      "event_context_ok working_env 50 (gt_spaces working_state) (eq_tenant_id (ob_event closing_row)) (eq_requested_by_user_id (ob_event closing_row))
        (eq_service_actor_user_id (ob_event closing_row)) (eq_acting_space_id (ob_event closing_row)) (eq_effective_role (ob_event closing_row))"
    by (auto simp: is_knowledge_request_def)
  moreover have "gt_spaces working_state = working_spaces" by (simp add: working_state_def)
  ultimately show ?thesis
    using working_admitted [OF b(1)] by (auto simp: closing_row_def new_event_row_def captured_event_def closing_event_def working_lease_def)
qed

end
