(* ===== verification/Space_Access.thy ===== *)
theory Space_Access
  imports Knowledge_Spaces
begin

text \<open>
  What the access rules of Knowledge Spaces guarantee: the computed role is the strongest entitlement,
  nothing changes without the role it needs, tenants are separate, and archived Spaces stay as they are.
\<close>

section \<open>Entitlements\<close>

text \<open>The grounds on which an active user has a role in a Space.\<close>

inductive entitled :: "spaces_env \<Rightarrow> int \<Rightarrow> spaces_db \<Rightarrow> space_actor \<Rightarrow> knowledge_space_row \<Rightarrow> space_role \<Rightarrow> bool"
  for E now db actor space where
  administrator: "ensure_active_actor db actor = Inr ''admin'' \<Longrightarrow> entitled E now db actor space Manager"
| personal_owner: "sp_owner_user_id space = Some (sa_user_id actor) \<Longrightarrow> entitled E now db actor space Manager"
| owns_project:
    "sp_owner_project_id space = Some project \<Longrightarrow> project_owner db (sa_tenant_id actor) project = Some (sa_user_id actor) \<Longrightarrow>
     entitled E now db actor space Manager"
| team_lead:
    "sp_owner_team_id space = Some team \<Longrightarrow> team_role db (sa_tenant_id actor) team (sa_user_id actor) = Some ''lead'' \<Longrightarrow>
     entitled E now db actor space Manager"
| team_member:
    "sp_owner_team_id space = Some team \<Longrightarrow> team_role db (sa_tenant_id actor) team (sa_user_id actor) = Some ''member'' \<Longrightarrow>
     entitled E now db actor space Contributor"
| shared_with_tenant: "sp_kind space = ''tenant_shared'' \<Longrightarrow> entitled E now db actor space Viewer"
| granted:
    "g \<in> set (sd_grants db) \<Longrightarrow> sg_tenant_id g = sa_tenant_id actor \<Longrightarrow> sg_space_id g = sp_id space \<Longrightarrow>
     grant_live now g \<Longrightarrow> grant_names E db actor g \<Longrightarrow> sg_role g = role_text r \<Longrightarrow> entitled E now db actor space r"

inductive_simps entitled_iff: "entitled E now db actor space r"

definition is_strongest :: "space_role option \<Rightarrow> space_role set \<Rightarrow> bool" where
  "is_strongest best S \<longleftrightarrow> (case best of None \<Rightarrow> S = {} | Some r \<Rightarrow> r \<in> S \<and> (\<forall>r' \<in> S. weight r' \<le> weight r))"

lemma is_strongest_None [simp]: "is_strongest None {}"
  by (simp add: is_strongest_def)

lemma is_strongest_stronger: "is_strongest best S \<Longrightarrow> is_strongest (stronger best r) (insert r S)"
  by (auto simp: is_strongest_def stronger_def split: option.splits)

lemma is_strongest_if:
  assumes "is_strongest best S"
  shows "is_strongest (if c then stronger best r else best) (S \<union> {r'. c \<and> r' = r})"
proof (cases c)
  case True
  then have "S \<union> {r'. c \<and> r' = r} = insert r S" by auto
  with True is_strongest_stronger [OF assms, of r] show ?thesis by simp
qed (simp add: assms)

lemma weight_le_Manager: "weight r \<le> weight Manager"
  by (cases r) simp_all

lemma weight_Manager_le: "weight Manager \<le> weight r \<longleftrightarrow> r = Manager"
  by (cases r) simp_all

lemma parse_role_text: "parse_role (role_text r) = Inr r"
  by (cases r) (simp_all add: parse_role_def)

lemma role_text_inj [simp]: "role_text a = role_text b \<longleftrightarrow> a = b"
  by (cases a; cases b) simp_all

definition roles_ok :: "spaces_db \<Rightarrow> bool" where
  "roles_ok db \<longleftrightarrow> (\<forall>g \<in> set (sd_grants db). \<exists>r. sg_role g = role_text r)"

lemma strengthen_strongest:
  assumes "\<forall>s \<in> set ss. \<exists>r. s = role_text r" "is_strongest best S"
  shows "\<exists>b. strengthen best ss = Inr b \<and> is_strongest b (S \<union> {r. role_text r \<in> set ss})"
  using assms
proof (induction ss arbitrary: best S)
  case (Cons s ss)
  then obtain r where r: "s = role_text r" by auto
  from Cons.IH [OF _ is_strongest_stronger [OF Cons.prems(2), of r]] Cons.prems(1)
  obtain b where "strengthen (stronger best r) ss = Inr b" "is_strongest b (insert r S \<union> {r. role_text r \<in> set ss})" by auto
  moreover have "insert r S \<union> {r. role_text r \<in> set ss} = S \<union> {x. role_text x \<in> set (s # ss)}" using r by auto
  ultimately show ?case using r by (simp add: parse_role_text)
qed simp

definition implicit_grounds :: "spaces_db \<Rightarrow> space_actor \<Rightarrow> knowledge_space_row \<Rightarrow> space_role set" where
  "implicit_grounds db actor space =
     {r. sp_owner_user_id space = Some (sa_user_id actor) \<and> r = Manager}
     \<union> {r. (\<exists>p. sp_owner_project_id space = Some p \<and> project_owner db (sa_tenant_id actor) p = Some (sa_user_id actor)) \<and> r = Manager}
     \<union> {r. (\<exists>t. sp_owner_team_id space = Some t \<and> team_role db (sa_tenant_id actor) t (sa_user_id actor) = Some ''lead'') \<and> r = Manager}
     \<union> {r. (\<exists>t. sp_owner_team_id space = Some t \<and> team_role db (sa_tenant_id actor) t (sa_user_id actor) = Some ''member'') \<and> r = Contributor}
     \<union> {r. sp_kind space = ''tenant_shared'' \<and> r = Viewer}"

lemma implicit_role_strongest: "is_strongest (implicit_role db actor space) (implicit_grounds db actor space)"
proof -
  let ?b0 = "if sp_owner_user_id space = Some (sa_user_id actor) then stronger None Manager else None"
  let ?P = "\<exists>p. sp_owner_project_id space = Some p \<and> project_owner db (sa_tenant_id actor) p = Some (sa_user_id actor)"
  let ?L = "\<exists>t. sp_owner_team_id space = Some t \<and> team_role db (sa_tenant_id actor) t (sa_user_id actor) = Some ''lead''"
  let ?M = "\<exists>t. sp_owner_team_id space = Some t \<and> team_role db (sa_tenant_id actor) t (sa_user_id actor) = Some ''member''"
  let ?b1 = "if ?P then stronger ?b0 Manager else ?b0"
  let ?b2 = "if ?L then stronger ?b1 Manager else ?b1"
  let ?b3 = "if ?M then stronger ?b2 Contributor else ?b2"
  have "implicit_role db actor space = (if sp_kind space = ''tenant_shared'' then stronger ?b3 Viewer else ?b3)"
    unfolding implicit_role_def Let_def by (cases "sp_owner_project_id space"; cases "sp_owner_team_id space") auto
  moreover have "is_strongest (if sp_kind space = ''tenant_shared'' then stronger ?b3 Viewer else ?b3)
      ((((({} \<union> {r. sp_owner_user_id space = Some (sa_user_id actor) \<and> r = Manager}) \<union> {r. ?P \<and> r = Manager})
        \<union> {r. ?L \<and> r = Manager}) \<union> {r. ?M \<and> r = Contributor}) \<union> {r. sp_kind space = ''tenant_shared'' \<and> r = Viewer})"
    by (intro is_strongest_if is_strongest_None)
  ultimately show ?thesis by (simp add: implicit_grounds_def)
qed

lemma explicit_roles_set:
  "role_text r \<in> set (explicit_roles E now db actor (sp_id space)) \<longleftrightarrow>
     (\<exists>g \<in> set (sd_grants db). sg_tenant_id g = sa_tenant_id actor \<and> sg_space_id g = sp_id space
        \<and> grant_live now g \<and> grant_names E db actor g \<and> sg_role g = role_text r)"
  by (auto simp: explicit_roles_def image_iff)

text \<open>
  (C8) The role a user has in a Space is the strongest one the user is entitled to, and none without an
  entitlement.  The grounds are ownership, the lead or membership of the owning team, a tenant-wide Space,
  and the live grants to the user, to a team or to a group of the user; administrators are Managers.
\<close>

theorem effective_role_is_strongest_entitlement:
  assumes "roles_ok db" "ensure_active_actor db actor = Inr actor_role"
  shows "\<exists>best. effective_role E now db actor space = Inr best
    \<and> (case best of
         None \<Rightarrow> \<forall>r. \<not> entitled E now db actor space r
       | Some r \<Rightarrow> entitled E now db actor space r \<and> (\<forall>r'. entitled E now db actor space r' \<longrightarrow> weight r' \<le> weight r))"
proof (cases "actor_role = ''admin''")
  case True
  with assms(2) show ?thesis
    using administrator weight_le_Manager by (auto simp: effective_role_def)
next
  case False
  let ?ss = "explicit_roles E now db actor (sp_id space)"
  have "\<forall>s \<in> set ?ss. \<exists>r. s = role_text r" using assms(1) by (auto simp: explicit_roles_def roles_ok_def)
  from strengthen_strongest [OF this implicit_role_strongest] obtain b
    where b: "strengthen (implicit_role db actor space) ?ss = Inr b"
      "is_strongest b (implicit_grounds db actor space \<union> {r. role_text r \<in> set ?ss})" by blast
  have "implicit_grounds db actor space \<union> {r. role_text r \<in> set ?ss} = {r. entitled E now db actor space r}"
    using False assms(2) by (auto simp: entitled_iff implicit_grounds_def explicit_roles_set)
  with b assms(2) False show ?thesis
    by (auto simp: effective_role_def is_strongest_def split: option.splits)
qed

section \<open>Operations and what they need\<close>

datatype space_op =
    CreateProject "uuid \<times> uuid" create_project_request
  | EnsurePersonal uuid string
  | EnsureTeam uuid string string
  | EnsureShared uuid string
  | UpsertGrant uuid uuid principal_kind string space_role "int option"
  | RevokeGrant uuid uuid int
  | EnsureVault uuid uuid ensure_vault_request
  | EnsureServiceVault uuid space_actor uuid ensure_vault_request
  | RegisterObject uuid uuid register_object_request
  | ShareObject uuid uuid create_share_request "uuid option"
  | RevokeShare uuid int
  | SetOwnerState string vault_owner_state
  | ArchiveProject uuid int

definition space_step :: "spaces_env \<Rightarrow> int \<Rightarrow> space_actor \<Rightarrow> space_op \<Rightarrow> spaces_db \<Rightarrow> spaces_db" where
  "space_step E now actor op db =
     (case op of
        CreateProject ids r \<Rightarrow> snd (create_project E ids now actor r db)
      | EnsurePersonal i title \<Rightarrow> snd (ensure_personal_space E i now actor title db)
      | EnsureTeam i team title \<Rightarrow> snd (ensure_team_space E i now actor team title db)
      | EnsureShared i title \<Rightarrow> snd (ensure_tenant_shared_space E i now actor title db)
      | UpsertGrant i space kind principal_id role expires \<Rightarrow> snd (upsert_grant E i now actor space kind principal_id role expires db)
      | RevokeGrant space i expected \<Rightarrow> snd (revoke_grant E now actor space i expected db)
      | EnsureVault i space r \<Rightarrow> snd (ensure_vault E i now actor space r db)
      | EnsureServiceVault i on_behalf space r \<Rightarrow> snd (ensure_service_bundle_vault E i now actor on_behalf space r db)
      | RegisterObject i vault r \<Rightarrow> snd (register_object E i now actor vault r db)
      | ShareObject i x r target \<Rightarrow> snd (share_object_with_target E i now actor x r target db)
      | RevokeShare i expected \<Rightarrow> snd (revoke_share E now actor i expected db)
      | SetOwnerState bundle state \<Rightarrow> snd (set_bundle_owner_state now actor bundle state db)
      | ArchiveProject i expected \<Rightarrow> snd (archive_project now actor i expected db))"

text \<open>To have standing in a Space is to have the role, while the Space is active.\<close>

definition standing :: "spaces_env \<Rightarrow> int \<Rightarrow> spaces_db \<Rightarrow> space_actor \<Rightarrow> uuid \<Rightarrow> space_role \<Rightarrow> bool" where
  "standing E now db actor space_id required \<longleftrightarrow>
     (\<exists>space r. find_space db (sa_tenant_id actor) space_id = Some space \<and> sp_status space = ''active''
        \<and> effective_role E now db actor space = Inr (Some r) \<and> weight required \<le> weight r)"

lemma require_role_standing: "require_role E now db actor space_id required True = Inr s \<Longrightarrow> standing E now db actor space_id required"
  by (auto simp: require_role_def standing_def result_simps)

lemma map_fault_eq_Inr: "map_fault f r = Inr a \<longleftrightarrow> r = Inr a"
  by (cases r) (auto simp: map_fault_def)

section \<open>The permitted changes\<close>

text \<open>A table with the row \<open>x\<close> in place of the row of its key, or after the others.\<close>

definition put :: "('r \<Rightarrow> 'k) \<Rightarrow> 'r \<Rightarrow> 'r list \<Rightarrow> 'r list" where
  "put key x xs = (if key x \<in> key ` set xs then map (\<lambda>y. if key y = key x then x else y) xs else xs @ [x])"

lemma put_keys: "map key (put key x xs) = (if key x \<in> key ` set xs then map key xs else map key xs @ [key x])"
  by (auto simp: put_def)

lemma distinct_put: "distinct (map key xs) \<Longrightarrow> distinct (map key (put key x xs))"
  by (auto simp: put_keys)

lemma set_put: "set (put key x xs) \<subseteq> insert x (set xs)"
  by (auto simp: put_def)

lemma in_putD: "y \<in> set (put key x xs) \<Longrightarrow> y = x \<or> y \<in> set xs"
  using set_put by fastforce

lemma put_fresh: "\<not> list_ex (\<lambda>y. key y = key x) xs \<Longrightarrow> put key x xs = xs @ [x]"
  by (auto simp: put_def list_ex_iff)

lemma put_changed:
  assumes "distinct (map key xs)" "x \<in> set xs" "P x" "\<And>y. y \<in> set xs \<Longrightarrow> P y \<Longrightarrow> y = x" "key (f x) = key x"
  shows "map (\<lambda>y. if P y then f y else y) xs = put key (f x) xs"
proof -
  have "y = x \<longleftrightarrow> key y = key x" if "y \<in> set xs" for y
    by (rule iffI) (simp, rule same_image [OF assms(1) that assms(2)])
  then have "(if P y then f y else y) = (if key y = key (f x) then f x else y)" if "y \<in> set xs" for y
    unfolding assms(5) using assms(3,4) that by metis
  then show ?thesis using assms(2,5) by (simp add: put_def image_iff) metis
qed

lemma distinct_put_other:
  assumes "distinct (map f xs)" "\<forall>y \<in> set xs. key y = key x \<longleftrightarrow> f y = f x"
  shows "distinct (map f (put key x xs))"
proof (cases "key x \<in> key ` set xs")
  case True
  then have "map f (put key x xs) = map f xs" using assms(2) by (auto simp: put_def)
  then show ?thesis by (simp add: assms(1))
next
  case False
  have "f x \<noteq> f y" if "y \<in> set xs" for y
    using assms(2) [rule_format, OF that] False that by (auto simp: image_iff)
  then have "f x \<notin> f ` set xs" by (simp add: image_iff)
  with False assms(1) show ?thesis by (simp add: put_def)
qed

text \<open>The unique keys of grants and vaults beside their identifiers, and the constraints the tables satisfy.\<close>

definition grant_key :: "knowledge_space_grant_row \<Rightarrow> uuid \<times> string \<times> string" where
  "grant_key g = (sg_space_id g, sg_principal_kind g, sg_principal_id g)"

definition vault_key :: "knowledge_vault_row \<Rightarrow> uuid \<times> uuid \<times> string" where
  "vault_key v = (va_tenant_id v, va_space_id v, va_home_bundle_id v)"

definition space_keys :: "spaces_db \<Rightarrow> (uuid \<times> uuid) set" where
  "space_keys db = set (map (\<lambda>s. (sp_id s, sp_tenant_id s)) (sd_spaces db))"

definition spaces_ok :: "spaces_db \<Rightarrow> bool" where
  "spaces_ok db \<longleftrightarrow>
     distinct (map sp_id (sd_spaces db)) \<and> distinct (map owner_key (sd_spaces db))
     \<and> distinct (map sg_id (sd_grants db)) \<and> distinct (map grant_key (sd_grants db))
     \<and> distinct (map va_id (sd_vaults db)) \<and> distinct (map vault_key (sd_vaults db))
     \<and> distinct (map vo_id (sd_objects db)) \<and> distinct (map sh_id (sd_shares db))
     \<and> roles_ok db
     \<and> (\<forall>g \<in> set (sd_grants db). (sg_space_id g, sg_tenant_id g) \<in> space_keys db)
     \<and> (\<forall>v \<in> set (sd_vaults db). (va_space_id v, va_tenant_id v) \<in> space_keys db)"

text \<open>
  What the service may do to its tables, each change with the role it needs.  This is the specification the
  operations implement.
\<close>

inductive permitted :: "spaces_env \<Rightarrow> int \<Rightarrow> space_actor \<Rightarrow> spaces_db \<Rightarrow> spaces_db \<Rightarrow> bool"
  for E now actor db where
  unchanged: "permitted E now actor db db"
| opened:
    "ensure_active_actor db actor = Inr actor_role \<Longrightarrow> sp_id s \<notin> sp_id ` set (sd_spaces db) \<Longrightarrow>
     owner_key s \<notin> owner_key ` set (sd_spaces db) \<Longrightarrow> sp_tenant_id s = sa_tenant_id actor \<Longrightarrow> sp_status s = ''active'' \<Longrightarrow>
     (\<forall>p \<in> set ps. pj_tenant_id p = sa_tenant_id actor \<and> pj_owner_user_id p = sa_user_id actor) \<Longrightarrow>
     permitted E now actor db (db\<lparr>sd_projects := sd_projects db @ ps, sd_spaces := sd_spaces db @ [s]\<rparr>)"
| grant_put:
    "standing E now db actor (sg_space_id g) Manager \<Longrightarrow> sg_tenant_id g = sa_tenant_id actor \<Longrightarrow> \<exists>r. sg_role g = role_text r \<Longrightarrow>
     (\<forall>h \<in> set (sd_grants db). sg_id h = sg_id g \<longleftrightarrow> grant_key h = grant_key g) \<Longrightarrow>
     permitted E now actor db (db\<lparr>sd_grants := put sg_id g (sd_grants db)\<rparr>)"
| vault_put:
    "standing E now db actor (va_space_id v) Contributor \<Longrightarrow> va_tenant_id v = sa_tenant_id actor \<Longrightarrow>
     (\<forall>w \<in> set (sd_vaults db). va_id w = va_id v \<longleftrightarrow> vault_key w = vault_key v) \<Longrightarrow>
     permitted E now actor db (db\<lparr>sd_vaults := put va_id v (sd_vaults db)\<rparr>)"
| object_added:
    "find_vault db (sa_tenant_id actor) (vo_vault_id x) = Some v \<Longrightarrow> va_owner_state v = OwnerEnabled \<Longrightarrow>
     standing E now db actor (va_space_id v) Contributor \<Longrightarrow> vo_tenant_id x = sa_tenant_id actor \<Longrightarrow>
     knowledge_path_new (vo_path x) = Inr (vo_path x) \<Longrightarrow> vo_id x \<notin> vo_id ` set (sd_objects db) \<Longrightarrow>
     permitted E now actor db (db\<lparr>sd_objects := sd_objects db @ [x]\<rparr>)"
| share_put:
    "standing E now db actor (sh_source_space_id s) Manager \<Longrightarrow> sh_tenant_id s = sa_tenant_id actor \<Longrightarrow>
     (sh_revoked_at s = None \<Longrightarrow> standing E now db actor (sh_target_space_id s) Contributor) \<Longrightarrow>
     (\<forall>t \<in> set (sd_shares db). sh_id t = sh_id s \<longrightarrow> sh_source_space_id t = sh_source_space_id s) \<Longrightarrow>
     permitted E now actor db (db\<lparr>sd_shares := put sh_id s (sd_shares db)\<rparr>)"
| owner_state_set:
    "ensure_active_actor db actor = Inr ''admin'' \<Longrightarrow>
     permitted E now actor db (snd (set_bundle_owner_state_system now (sa_tenant_id actor) bundle state db))"
| archived:
    "ensure_active_actor db actor = Inr actor_role \<Longrightarrow>
     find (\<lambda>p. pj_id p = i \<and> pj_tenant_id p = sa_tenant_id actor) (sd_projects db) = Some project \<Longrightarrow>
     actor_role = ''admin'' \<or> pj_owner_user_id project = sa_user_id actor \<Longrightarrow>
     permitted E now actor db
      (db\<lparr>sd_projects := map (\<lambda>p. if pj_id p = i \<and> pj_tenant_id p = sa_tenant_id actor then archived_project now p else p) (sd_projects db),
          sd_spaces := map (\<lambda>s. if sp_tenant_id s = sa_tenant_id actor \<and> sp_kind s = ''project'' \<and> sp_owner_project_id s = Some i
             then archived_space now s else s) (sd_spaces db)\<rparr>)"

section \<open>Every operation is a permitted change\<close>

lemma put_new: "key x \<notin> key ` set xs \<Longrightarrow> xs @ [x] = put key x xs"
  by (simp add: put_def)

lemma insert_space_permitted:
  assumes "insert_space i now (sa_tenant_id actor) kind title ou ot opj db = Inr (s, db')"
    "ensure_active_actor db actor = Inr actor_role"
  shows "permitted E now actor db db'"
proof -
  from assms(1) have "db' = db\<lparr>sd_projects := sd_projects db @ [], sd_spaces := sd_spaces db @ [s]\<rparr>"
    "sp_id s \<notin> sp_id ` set (sd_spaces db)" "owner_key s \<notin> owner_key ` set (sd_spaces db)"
    "sp_tenant_id s = sa_tenant_id actor" "sp_status s = ''active''"
    by (auto simp: insert_space_def Let_def list_ex_iff split: if_splits)
  with opened [OF assms(2), of s "[]"] show ?thesis by simp
qed

lemma create_project_permitted: "permitted E now actor db (snd (create_project E ids now actor r db))"
  unfolding create_project_def
proof (rule transaction_cases)
  fix a db'
  assume "and_then (ensure_active_actor db actor) (\<lambda>_.
       and_then (map_fault (map_constraint E) (insert_project (fst ids) now actor r db)) (\<lambda>(project, db).
       and_then (map_fault (map_constraint E)
          (insert_space (snd ids) now (sa_tenant_id actor) ''project'' (pj_title project) None None (Some (pj_id project)) db)) (\<lambda>(space, db).
         Inr ((project, space), db)))) = Inr (a, db')"
  then obtain actor_role p s where p: "ensure_active_actor db actor = Inr actor_role"
      "insert_project (fst ids) now actor r db = Inr (p, db\<lparr>sd_projects := sd_projects db @ [p]\<rparr>)"
      "insert_space (snd ids) now (sa_tenant_id actor) ''project'' (pj_title p) None None (Some (pj_id p))
         (db\<lparr>sd_projects := sd_projects db @ [p]\<rparr>) = Inr (s, db')"
    by (auto simp: result_simps map_fault_eq_Inr insert_project_def Let_def split: if_splits)
  from p(2) have "pj_tenant_id p = sa_tenant_id actor \<and> pj_owner_user_id p = sa_user_id actor"
    by (auto simp: insert_project_def Let_def split: if_splits)
  moreover from p(3) have "db' = db\<lparr>sd_projects := sd_projects db @ [p], sd_spaces := sd_spaces db @ [s]\<rparr>"
    "sp_id s \<notin> sp_id ` set (sd_spaces db)" "owner_key s \<notin> owner_key ` set (sd_spaces db)"
    "sp_tenant_id s = sa_tenant_id actor" "sp_status s = ''active''"
    by (auto simp: insert_space_def Let_def list_ex_iff split: if_splits)
  ultimately show "permitted E now actor db db'" using opened [OF p(1), of s "[p]"] by simp
qed (rule unchanged)

lemma ensure_spaces_permitted:
  "permitted E now actor db (snd (ensure_personal_space E i now actor title db))"
  "permitted E now actor db (snd (ensure_team_space E i now actor team title db))"
  "permitted E now actor db (snd (ensure_tenant_shared_space E i now actor title db))"
  subgoal
    unfolding ensure_personal_space_def
    by (rule transaction_cases)
      (auto simp: result_simps map_fault_eq_Inr unchanged
        split: option.splits sum.splits knowledge_space_error.splits intro: insert_space_permitted)
  subgoal
    unfolding ensure_team_space_def
    by (rule transaction_cases)
      (auto simp: result_simps map_fault_eq_Inr unchanged split: option.splits intro: insert_space_permitted)
  subgoal
    unfolding ensure_tenant_shared_space_def
    by (rule transaction_cases)
      (auto simp: result_simps map_fault_eq_Inr unchanged split: option.splits intro: insert_space_permitted)
  done

lemma standing_unique_tenant:
  assumes "standing E now db actor space r" "distinct (map sp_id (sd_spaces db))"
    "(space, tenant) \<in> space_keys db"
  shows "tenant = sa_tenant_id actor"
proof -
  from assms(1) obtain a where "a \<in> set (sd_spaces db)" "sp_id a = space" "sp_tenant_id a = sa_tenant_id actor"
    by (auto simp: standing_def find_space_def dest: find_SomeD)
  moreover from assms(3) obtain b where "b \<in> set (sd_spaces db)" "sp_id b = space" "sp_tenant_id b = tenant"
    by (auto simp: space_keys_def)
  ultimately show ?thesis using same_image [OF assms(2), of a b] by auto
qed

lemma grant_keys_agree:
  assumes "spaces_ok db" "g \<in> set (sd_grants db)" "h \<in> set (sd_grants db)"
  shows "sg_id h = sg_id g \<longleftrightarrow> grant_key h = grant_key g"
  using assms same_image [of sg_id "sd_grants db" h g] same_image [of grant_key "sd_grants db" h g] by (auto simp: spaces_ok_def)

lemma same_grant_key: "same_grant space kind p h \<longleftrightarrow> grant_key h = (space, principal_kind_text kind, p)"
  by (auto simp: same_grant_def grant_key_def)

lemma upsert_grant_row_put:
  assumes "spaces_ok db" "upsert_grant_row i now actor space kind p role expires db = Inr (g, db')"
  shows "db' = db\<lparr>sd_grants := put sg_id g (sd_grants db)\<rparr> \<and> grant_key g = (space, principal_kind_text kind, p)
    \<and> sg_role g = role_text role \<and> (\<forall>h \<in> set (sd_grants db). sg_id h = sg_id g \<longleftrightarrow> grant_key h = grant_key g)
    \<and> (sg_tenant_id g = sa_tenant_id actor \<or> (space, sg_tenant_id g) \<in> space_keys db)"
proof (cases "find (same_grant space kind p) (sd_grants db)")
  case None
  from assms(2) have "db' = db\<lparr>sd_grants := put sg_id g (sd_grants db)\<rparr>" "sg_tenant_id g = sa_tenant_id actor"
    "sg_role g = role_text role" "grant_key g = (space, principal_kind_text kind, p)" "\<forall>h \<in> set (sd_grants db). sg_id h \<noteq> sg_id g"
    by (auto simp: upsert_grant_row_def None list_ex_iff put_def image_iff grant_key_def Let_def split: if_splits)
  moreover from None have "\<forall>h \<in> set (sd_grants db). grant_key h \<noteq> (space, principal_kind_text kind, p)"
    by (simp add: find_None_iff same_grant_key)
  ultimately show ?thesis by auto
next
  case (Some old)
  then have old: "old \<in> set (sd_grants db)" "same_grant space kind p old" by (auto dest: find_SomeD)
  have only: "h = old" if "h \<in> set (sd_grants db)" "same_grant space kind p h" for h
    using assms(1) old that same_image [of grant_key "sd_grants db" h old] by (auto simp: spaces_ok_def same_grant_key)
  from assms(2) Some have db': "db' = db\<lparr>sd_grants := map (\<lambda>h. if same_grant space kind p h then g else h) (sd_grants db)\<rparr>"
    and g: "sg_id g = sg_id old" "grant_key g = grant_key old" "sg_role g = role_text role" "sg_tenant_id g = sg_tenant_id old"
    by (auto simp: upsert_grant_row_def Let_def grant_key_def split: if_splits)
  have "map (\<lambda>h. if same_grant space kind p h then g else h) (sd_grants db) = put sg_id g (sd_grants db)"
    using put_changed [where key = sg_id and P = "same_grant space kind p" and f = "\<lambda>_. g", OF _ old only] assms(1) g(1)
    by (simp add: spaces_ok_def)
  moreover have "(space, sg_tenant_id g) \<in> space_keys db"
    using assms(1) old g(4) by (auto simp: spaces_ok_def same_grant_def)
  moreover have "\<forall>h \<in> set (sd_grants db). sg_id h = sg_id g \<longleftrightarrow> grant_key h = grant_key g"
    using grant_keys_agree [OF assms(1) old(1)] g by simp
  ultimately show ?thesis using db' g old(2) by (simp add: same_grant_key)
qed

lemma upsert_grant_put:
  assumes "spaces_ok db" "upsert_grant E i now actor space kind p role expires db = (Inr g, db')"
  shows "db' = db\<lparr>sd_grants := put sg_id g (sd_grants db)\<rparr> \<and> grant_key g = (space, principal_kind_text kind, p)
    \<and> (\<forall>h \<in> set (sd_grants db). sg_id h = sg_id g \<longleftrightarrow> grant_key h = grant_key g)"
  using assms(2) upsert_grant_row_put [OF assms(1)]
  by (auto simp: upsert_grant_def transaction_eq_Inr result_simps map_fault_eq_Inr)

lemma upsert_grant_permitted:
  assumes "spaces_ok db"
  shows "permitted E now actor db (snd (upsert_grant E i now actor space kind p role expires db))"
proof -
  have step: "permitted E now actor db db'"
    if st: "standing E now db actor space Manager"
      and row: "upsert_grant_row i now actor space kind p role expires db = Inr (g, db')" for g db'
  proof -
    note g = upsert_grant_row_put [OF assms row]
    then have "sg_tenant_id g = sa_tenant_id actor"
      using standing_unique_tenant [OF st] assms by (auto simp: spaces_ok_def)
    with g grant_put [where g = g] st show ?thesis by (auto simp: grant_key_def)
  qed
  show ?thesis
    unfolding upsert_grant_def
    by (rule transaction_cases, rule unchanged) (auto simp: result_simps map_fault_eq_Inr intro: step require_role_standing)
qed

lemma revoke_grant_permitted:
  assumes "spaces_ok db"
  shows "permitted E now actor db (snd (revoke_grant E now actor space i expected db))"
proof -
  let ?hit = "\<lambda>g. sg_id g = i \<and> sg_tenant_id g = sa_tenant_id actor \<and> sg_space_id g = space
                     \<and> sg_revision g = expected \<and> sg_revoked_at g = None"
  let ?f = "\<lambda>g. g\<lparr>sg_revoked_at := Some now, sg_revision := sg_revision g + 1, sg_updated_at := now\<rparr>"
  have step: "permitted E now actor db (db\<lparr>sd_grants := map (\<lambda>g. if ?hit g then ?f g else g) (sd_grants db)\<rparr>)"
    if st: "standing E now db actor space Manager" and found: "find ?hit (sd_grants db) = Some g" for g
  proof -
    from found have g: "g \<in> set (sd_grants db)" "?hit g" by (auto dest: find_SomeD)
    have d: "distinct (map sg_id (sd_grants db))" using assms by (simp add: spaces_ok_def)
    have only: "h = g" if "h \<in> set (sd_grants db)" "?hit h" for h
      using same_image [OF d that(1) g(1)] that(2) g(2) by simp
    have "map (\<lambda>g. if ?hit g then ?f g else g) (sd_grants db) = put sg_id (?f g) (sd_grants db)"
      by (rule put_changed [where P = ?hit and f = ?f, OF d g only]) simp_all
    moreover have "\<forall>h \<in> set (sd_grants db). sg_id h = sg_id (?f g) \<longleftrightarrow> grant_key h = grant_key (?f g)"
      using grant_keys_agree [OF assms g(1)] by (simp add: grant_key_def)
    moreover have "\<exists>r. sg_role g = role_text r" using assms g(1) by (auto simp: spaces_ok_def roles_ok_def)
    ultimately show ?thesis using grant_put [where g = "?f g"] st g(2) by simp
  qed
  show ?thesis
    unfolding revoke_grant_def Let_def
    by (rule transaction_cases, rule unchanged) (auto simp: result_simps resolve_cas_def intro!: step require_role_standing)
qed

lemma standing_weaken: "standing E now db actor space r \<Longrightarrow> weight r' \<le> weight r \<Longrightarrow> standing E now db actor space r'"
  by (auto simp: standing_def)

lemma upsert_vault_permitted:
  assumes "spaces_ok db" "standing E now db actor space Contributor"
    and row: "upsert_vault only i now (sa_tenant_id actor) space r db = Inr (a, db')"
  shows "permitted E now actor db db'"
proof -
  have key: "same_vault (sa_tenant_id actor) space b w \<longleftrightarrow> vault_key w = (sa_tenant_id actor, space, b)" for b w
    by (auto simp: same_vault_def vault_key_def)
  let ?same = "same_vault (sa_tenant_id actor) space (ev_home_bundle_id r)"
  have d: "distinct (map va_id (sd_vaults db))" "distinct (map vault_key (sd_vaults db))"
    using assms(1) by (simp_all add: spaces_ok_def)
  have "db' = db\<lparr>sd_vaults := put va_id a (sd_vaults db)\<rparr> \<and> vault_key a = (sa_tenant_id actor, space, ev_home_bundle_id r)
     \<and> (\<forall>w \<in> set (sd_vaults db). va_id w = va_id a \<longleftrightarrow> vault_key w = vault_key a)"
  proof (cases "find ?same (sd_vaults db)")
    case None
    from row have "db' = db\<lparr>sd_vaults := put va_id a (sd_vaults db)\<rparr>" "vault_key a = (sa_tenant_id actor, space, ev_home_bundle_id r)"
      "\<forall>w \<in> set (sd_vaults db). va_id w \<noteq> va_id a"
      by (auto simp: upsert_vault_def None list_ex_iff put_def image_iff vault_key_def Let_def split: if_splits)
    moreover from None have "\<forall>w \<in> set (sd_vaults db). vault_key w \<noteq> (sa_tenant_id actor, space, ev_home_bundle_id r)"
      by (simp add: find_None_iff key)
    ultimately show ?thesis by auto
  next
    case (Some v)
    then have v: "v \<in> set (sd_vaults db)" "?same v" by (auto dest: find_SomeD)
    have only_v: "w = v" if "w \<in> set (sd_vaults db)" "?same w" for w
      using same_image [OF d(2) that(1) v(1)] v(2) that(2) by (simp add: key)
    from row Some have db': "db' = db\<lparr>sd_vaults := map (\<lambda>w. if ?same w then a else w) (sd_vaults db)\<rparr>"
      and a: "va_id a = va_id v" "vault_key a = vault_key v"
      by (auto simp: upsert_vault_def Let_def vault_key_def split: if_splits)
    have "map (\<lambda>w. if ?same w then a else w) (sd_vaults db) = put va_id a (sd_vaults db)"
      using put_changed [where key = va_id and P = ?same and f = "\<lambda>_. a", OF d(1) v only_v] a(1) by simp
    moreover have "va_id w = va_id v \<longleftrightarrow> vault_key w = vault_key v" if "w \<in> set (sd_vaults db)" for w
      using same_image [OF d(1) that v(1)] same_image [OF d(2) that v(1)] by auto
    ultimately show ?thesis using db' a v(2) by (simp add: key)
  qed
  with vault_put [where v = a] assms(2) show ?thesis by (auto simp: vault_key_def)
qed

lemma vaults_permitted:
  assumes "spaces_ok db"
  shows "permitted E now actor db (snd (ensure_vault E i now actor space r db))"
    and "permitted E now actor db (snd (ensure_service_bundle_vault E i now actor on_behalf space r db))"
  subgoal
    unfolding ensure_vault_def
    by (rule transaction_cases)
      (auto simp: result_simps map_fault_eq_Inr unchanged
        intro!: upsert_vault_permitted [OF assms] standing_weaken [OF require_role_standing, where r' = Contributor])
  subgoal
    unfolding ensure_service_bundle_vault_def
    by (rule transaction_cases)
      (auto simp: result_simps map_fault_eq_Inr unchanged intro: upsert_vault_permitted [OF assms] require_role_standing)
  done

lemma knowledge_path_new_same: "knowledge_path_new s = Inr p \<Longrightarrow> p = s"
  by (auto simp: knowledge_path_new_def split: if_splits)

lemma register_object_permitted: "permitted E now actor db (snd (register_object E i now actor vault r db))"
  unfolding register_object_def
proof (rule transaction_cases)
  fix x db'
  assume "and_then (map_sum (\<lambda>e. SpaceInvalidInput (''invalid knowledge object path: '' @ path_error_display e)) (\<lambda>p. p)
          (knowledge_path_new (ro_path r))) (\<lambda>_.
       and_then (ok_or (find_vault db (sa_tenant_id actor) vault) SpaceNotFound) (\<lambda>vault'.
       and_then (require_role E now db actor (va_space_id vault') Contributor True) (\<lambda>_.
       and_then (check (va_owner_state vault' = OwnerEnabled) SpaceForbidden) (\<lambda>_.
         map_fault (map_constraint E) (insert_object i now actor vault r db))))) = Inr (x, db')"
  then obtain v where v: "find_vault db (sa_tenant_id actor) vault = Some v" "va_owner_state v = OwnerEnabled"
      "standing E now db actor (va_space_id v) Contributor" "knowledge_path_new (ro_path r) = Inr (ro_path r)"
      "insert_object i now actor vault r db = Inr (x, db')"
    by (auto simp: result_simps map_fault_eq_Inr map_sum_eq_Inr dest: knowledge_path_new_same require_role_standing)
  from v(5) have "db' = db\<lparr>sd_objects := sd_objects db @ [x]\<rparr>" "vo_vault_id x = vault" "vo_path x = ro_path r"
    "vo_tenant_id x = sa_tenant_id actor" "vo_id x \<notin> vo_id ` set (sd_objects db)"
    by (auto simp: insert_object_def Let_def list_ex_iff split: if_splits)
  with v object_added [where x = x and v = v] show "permitted E now actor db db'" by simp
qed (rule unchanged)

lemma share_object_permitted: "permitted E now actor db (snd (share_object_with_target E i now actor x r target db))"
proof -
  have step: "permitted E now actor db db'"
    if "standing E now db actor src Manager" "standing E now db actor (cs_target_space_id r) Contributor"
      and row: "insert_share i now actor src x r target db = Inr (s, db')" for src s db'
  proof -
    from row have "db' = db\<lparr>sd_shares := put sh_id s (sd_shares db)\<rparr>" "sh_source_space_id s = src"
      "sh_target_space_id s = cs_target_space_id r" "sh_tenant_id s = sa_tenant_id actor"
      "\<forall>t \<in> set (sd_shares db). sh_id t \<noteq> sh_id s"
      by (auto simp: insert_share_def Let_def list_ex_iff put_def split: if_splits)
    with that share_put [where s = s] show ?thesis by simp
  qed
  show ?thesis
    unfolding share_object_with_target_def
    by (rule transaction_cases, rule unchanged) (auto simp: result_simps map_fault_eq_Inr intro: step require_role_standing)
qed

lemma revoke_share_permitted:
  assumes "spaces_ok db"
  shows "permitted E now actor db (snd (revoke_share E now actor i expected db))"
proof -
  let ?mine = "\<lambda>s. sh_id s = i \<and> sh_tenant_id s = sa_tenant_id actor"
  let ?hit = "\<lambda>s. sh_id s = i \<and> sh_tenant_id s = sa_tenant_id actor \<and> sh_revision s = expected \<and> sh_revoked_at s = None"
  let ?f = "\<lambda>s. s\<lparr>sh_revoked_at := Some now, sh_revision := sh_revision s + 1, sh_updated_at := now\<rparr>"
  have step: "permitted E now actor db (db\<lparr>sd_shares := map (\<lambda>s. if ?hit s then ?f s else s) (sd_shares db)\<rparr>)"
    if m: "find ?mine (sd_shares db) = Some m" and st: "standing E now db actor (sh_source_space_id m) Manager"
      and found: "find ?hit (sd_shares db) = Some s" for m s
  proof -
    from found m have s: "s \<in> set (sd_shares db)" "?hit s" and m': "m \<in> set (sd_shares db)" "?mine m" by (auto dest: find_SomeD)
    have d: "distinct (map sh_id (sd_shares db))" using assms by (simp add: spaces_ok_def)
    have only: "h = s" if "h \<in> set (sd_shares db)" "?hit h" for h
      using same_image [OF d that(1) s(1)] that(2) s(2) by simp
    have "m = s" using same_image [OF d m'(1) s(1)] s(2) m'(2) by simp
    moreover have "map (\<lambda>s. if ?hit s then ?f s else s) (sd_shares db) = put sh_id (?f s) (sd_shares db)"
      by (rule put_changed [where P = ?hit and f = ?f, OF d s only]) simp_all
    moreover have "\<forall>t \<in> set (sd_shares db). sh_id t = sh_id s \<longrightarrow> sh_source_space_id t = sh_source_space_id s"
      using same_image [OF d _ s(1)] by auto
    ultimately show ?thesis using share_put [where s = "?f s"] st s(2) by simp
  qed
  show ?thesis
    unfolding revoke_share_def Let_def
    by (rule transaction_cases, rule unchanged) (auto simp: result_simps resolve_cas_def intro!: step require_role_standing)
qed

lemma set_bundle_owner_state_permitted: "permitted E now actor db (snd (set_bundle_owner_state now actor bundle state db))"
  by (auto simp: set_bundle_owner_state_def unchanged owner_state_set split: sum.split)

lemma archive_project_permitted: "permitted E now actor db (snd (archive_project now actor i expected db))"
  unfolding archive_project_def Let_def
  by (rule transaction_cases) (auto simp: result_simps unchanged intro: archived)

lemmas operations_permitted = create_project_permitted ensure_spaces_permitted upsert_grant_permitted revoke_grant_permitted
  vaults_permitted register_object_permitted share_object_permitted revoke_share_permitted set_bundle_owner_state_permitted
  archive_project_permitted

lemma space_step_permitted: "spaces_ok db \<Longrightarrow> permitted E now actor db (space_step E now actor op db)"
  unfolding space_step_def by (cases op) (simp_all only: space_op.case operations_permitted)

section \<open>What permitted changes keep\<close>

lemma standing_space:
  assumes "standing E now db actor space r"
  shows "(space, sa_tenant_id actor) \<in> space_keys db"
proof -
  from assms obtain s where "find_space db (sa_tenant_id actor) space = Some s" by (auto simp: standing_def)
  then have "s \<in> set (sd_spaces db) \<and> sp_tenant_id s = sa_tenant_id actor \<and> sp_id s = space"
    unfolding find_space_def by (rule find_SomeD)
  then show ?thesis by (force simp: space_keys_def)
qed

lemma map_changed_same: "(\<And>y. f (g y) = f y) \<Longrightarrow> map f (map (\<lambda>y. if P y then g y else y) xs) = map f xs"
  by simp

lemma all_changed_same:
  assumes "\<And>y. Q (g y) \<longleftrightarrow> Q y" "\<forall>y \<in> set xs. Q y"
  shows "\<forall>y \<in> set (map (\<lambda>y. if P y then g y else y) xs). Q y"
  using assms by auto

lemma space_keys_simps [simp]:
  "space_keys (db\<lparr>sd_grants := gs\<rparr>) = space_keys db"
  "space_keys (db\<lparr>sd_vaults := vs\<rparr>) = space_keys db"
  "space_keys (db\<lparr>sd_objects := os\<rparr>) = space_keys db"
  "space_keys (db\<lparr>sd_shares := hs\<rparr>) = space_keys db"
  "space_keys (db\<lparr>sd_projects := ps, sd_spaces := sd_spaces db @ [s]\<rparr>) = insert (sp_id s, sp_tenant_id s) (space_keys db)"
  by (auto simp: space_keys_def)

lemma spaces_ok_vaults:
  assumes "spaces_ok db" "map va_id vs = map va_id (sd_vaults db)" "map vault_key vs = map vault_key (sd_vaults db)"
    "\<forall>v \<in> set vs. (va_space_id v, va_tenant_id v) \<in> space_keys db"
  shows "spaces_ok (db\<lparr>sd_vaults := vs\<rparr>)"
  using assms by (simp add: spaces_ok_def roles_ok_def)

lemma spaces_ok_spaces:
  assumes "spaces_ok db" "map sp_id ss = map sp_id (sd_spaces db)" "map owner_key ss = map owner_key (sd_spaces db)"
    "map (\<lambda>s. (sp_id s, sp_tenant_id s)) ss = map (\<lambda>s. (sp_id s, sp_tenant_id s)) (sd_spaces db)"
  shows "spaces_ok (db\<lparr>sd_projects := ps, sd_spaces := ss\<rparr>)"
  using assms by (simp add: spaces_ok_def roles_ok_def space_keys_def del: set_map list.set_map)

lemma permitted_keeps_ok:
  assumes "permitted E now actor db db'" "spaces_ok db"
  shows "spaces_ok db'"
  using assms
proof cases
  case (opened actor_role s ps)
  with assms(2) show ?thesis by (auto simp: spaces_ok_def roles_ok_def)
next
  case (grant_put g)
  have "distinct (map grant_key (put sg_id g (sd_grants db)))"
    by (rule distinct_put_other) (use assms(2) grant_put in \<open>auto simp: spaces_ok_def\<close>)
  with assms(2) grant_put standing_space [OF grant_put(2)] show ?thesis
    by (auto simp: spaces_ok_def roles_ok_def distinct_put dest!: in_putD)
next
  case (vault_put v)
  have "distinct (map vault_key (put va_id v (sd_vaults db)))"
    by (rule distinct_put_other) (use assms(2) vault_put in \<open>auto simp: spaces_ok_def\<close>)
  with assms(2) vault_put standing_space [OF vault_put(2)] show ?thesis
    by (auto simp: spaces_ok_def roles_ok_def distinct_put dest!: in_putD)
next
  case (owner_state_set b new_state)
  let ?f = "\<lambda>v. v\<lparr>va_owner_state := new_state, va_revision := va_revision v + 1, va_updated_at := now\<rparr>"
  let ?P = "\<lambda>v. va_tenant_id v = sa_tenant_id actor \<and> va_home_bundle_id v = b \<and> va_owner_state v \<noteq> new_state"
  let ?vs = "map (\<lambda>v. if ?P v then ?f v else v) (sd_vaults db)"
  have db': "db' = db\<lparr>sd_vaults := ?vs\<rparr>" using owner_state_set(1) by (simp add: set_bundle_owner_state_system_def)
  have "map va_id ?vs = map va_id (sd_vaults db)" "map vault_key ?vs = map vault_key (sd_vaults db)"
    by (rule map_changed_same; simp add: vault_key_def)+
  moreover have "\<forall>v \<in> set ?vs. (va_space_id v, va_tenant_id v) \<in> space_keys db"
    by (rule all_changed_same) (use assms(2) in \<open>simp_all add: spaces_ok_def\<close>)
  ultimately show ?thesis unfolding db' by (rule spaces_ok_vaults [OF assms(2)])
next
  case (archived actor_role i project)
  let ?P = "\<lambda>s. sp_tenant_id s = sa_tenant_id actor \<and> sp_kind s = ''project'' \<and> sp_owner_project_id s = Some i"
  let ?ss = "map (\<lambda>s. if ?P s then archived_space now s else s) (sd_spaces db)"
  have "map sp_id ?ss = map sp_id (sd_spaces db)" "map owner_key ?ss = map owner_key (sd_spaces db)"
    "map (\<lambda>s. (sp_id s, sp_tenant_id s)) ?ss = map (\<lambda>s. (sp_id s, sp_tenant_id s)) (sd_spaces db)"
    by (rule map_changed_same; simp add: archived_space_def owner_key_def)+
  then show ?thesis unfolding archived(1) by (rule spaces_ok_spaces [OF assms(2)])
qed (use assms(2) in \<open>auto simp: spaces_ok_def roles_ok_def distinct_put\<close>)

text \<open>What a Space holds: its grants, the shares out of it, its vaults and their objects.\<close>

definition contents ::
  "spaces_db \<Rightarrow> uuid \<Rightarrow> knowledge_space_grant_row list \<times> knowledge_share_row list \<times> uuid list \<times> vault_object_row list" where
  "contents db space =
     (let vaults = map va_id (filter (\<lambda>v. va_space_id v = space) (sd_vaults db))
      in (filter (\<lambda>g. sg_space_id g = space) (sd_grants db), filter (\<lambda>s. sh_source_space_id s = space) (sd_shares db),
          vaults, filter (\<lambda>x. vo_vault_id x \<in> set vaults) (sd_objects db)))"

lemma filter_put: "\<not> P x \<Longrightarrow> \<forall>y \<in> set xs. key y = key x \<longrightarrow> \<not> P y \<Longrightarrow> filter P (put key x xs) = filter P xs"
proof (cases "key x \<in> key ` set xs")
  case True
  assume "\<not> P x" "\<forall>y \<in> set xs. key y = key x \<longrightarrow> \<not> P y"
  then have "filter P (map (\<lambda>y. if key y = key x then x else y) xs) = filter P xs" by (induction xs) auto
  with True show ?thesis by (simp add: put_def)
qed (simp add: put_def)

lemma contents_vaults:
  assumes "map va_id (filter (\<lambda>v. va_space_id v = space) vs) = map va_id (filter (\<lambda>v. va_space_id v = space) (sd_vaults db))"
  shows "contents (db\<lparr>sd_vaults := vs\<rparr>) space = contents db space"
  using assms by (simp add: contents_def)

lemma permitted_needs_standing:
  assumes "permitted E now actor db db'" "spaces_ok db" and outsider: "\<forall>r. \<not> standing E now db actor space r"
  shows "contents db' space = contents db space"
  using assms(1)
proof cases
  case (grant_put g)
  then have "\<forall>h \<in> set (sd_grants db). sg_id h = sg_id g \<longrightarrow> sg_space_id h \<noteq> space" "sg_space_id g \<noteq> space"
    using outsider by (auto simp: grant_key_def)
  then show ?thesis by (simp add: grant_put(1) contents_def Let_def filter_put)
next
  case (vault_put v)
  then have "\<forall>w \<in> set (sd_vaults db). va_id w = va_id v \<longrightarrow> va_space_id w \<noteq> space" "va_space_id v \<noteq> space"
    using outsider by (auto simp: vault_key_def)
  then show ?thesis by (simp add: vault_put(1) contents_def Let_def filter_put)
next
  case (object_added x v)
  then have v: "v \<in> set (sd_vaults db)" "va_id v = vo_vault_id x" "va_space_id v \<noteq> space"
    using outsider by (auto simp: find_vault_def dest: find_SomeD)
  have "vo_vault_id x \<noteq> va_id w" if "w \<in> set (sd_vaults db)" "va_space_id w = space" for w
    using same_image [of va_id "sd_vaults db", OF _ that(1) v(1)] assms(2) that(2) v(2,3) by (auto simp: spaces_ok_def)
  then have "vo_vault_id x \<notin> set (map va_id (filter (\<lambda>v. va_space_id v = space) (sd_vaults db)))" by (simp add: image_iff)
  then show ?thesis by (simp add: object_added(1) contents_def Let_def)
next
  case (share_put s)
  then have "\<forall>t \<in> set (sd_shares db). sh_id t = sh_id s \<longrightarrow> sh_source_space_id t \<noteq> space" "sh_source_space_id s \<noteq> space"
    using outsider by auto
  then show ?thesis by (simp add: share_put(1) contents_def Let_def filter_put)
next
  case (owner_state_set b new_state)
  let ?f = "\<lambda>v. v\<lparr>va_owner_state := new_state, va_revision := va_revision v + 1, va_updated_at := now\<rparr>"
  have "map va_id (filter (\<lambda>v. va_space_id v = space) (map (\<lambda>v. if P v then ?f v else v) vs))
      = map va_id (filter (\<lambda>v. va_space_id v = space) vs)" for P vs
    by (induction vs) simp_all
  then show ?thesis
    unfolding owner_state_set(1) set_bundle_owner_state_system_def Let_def snd_conv by (rule contents_vaults)
qed (simp_all add: contents_def)

text \<open>A Space that is there and is not active stays so, and nobody has standing in it.\<close>

definition closed :: "spaces_db \<Rightarrow> uuid \<Rightarrow> bool" where
  "closed db space \<longleftrightarrow>
     space \<in> set (map sp_id (sd_spaces db)) \<and> (\<forall>s \<in> set (sd_spaces db). sp_id s = space \<longrightarrow> sp_status s \<noteq> ''active'')"

lemma closed_no_standing: "closed db space \<Longrightarrow> \<not> standing E now db actor space r"
  by (auto simp: closed_def standing_def find_space_def dest!: find_SomeD)

lemma closed_spaces:
  assumes "closed db space" "map sp_id ss = map sp_id (sd_spaces db)" "\<And>s. s \<in> set ss \<Longrightarrow> sp_id s = space \<Longrightarrow> sp_status s \<noteq> ''active''"
  shows "closed (db\<lparr>sd_projects := ps, sd_spaces := ss\<rparr>) space"
  using assms by (simp add: closed_def del: set_map list.set_map)

lemma permitted_keeps_closed:
  assumes "permitted E now actor db db'" "closed db space"
  shows "closed db' space"
  using assms
proof cases
  case (archived actor_role i project)
  let ?P = "\<lambda>s. sp_tenant_id s = sa_tenant_id actor \<and> sp_kind s = ''project'' \<and> sp_owner_project_id s = Some i"
  show ?thesis
    unfolding archived(1)
  proof (rule closed_spaces [OF assms(2)])
    show "map sp_id (map (\<lambda>s. if ?P s then archived_space now s else s) (sd_spaces db)) = map sp_id (sd_spaces db)"
      by (rule map_changed_same) (simp add: archived_space_def)
  qed (use assms(2) in \<open>auto simp: closed_def archived_space_def\<close>)
qed (auto simp: closed_def set_bundle_owner_state_system_def Let_def)

definition space_run :: "spaces_env \<Rightarrow> (int \<times> space_actor \<times> space_op) list \<Rightarrow> spaces_db \<Rightarrow> spaces_db" where
  "space_run E calls db = fold (\<lambda>(now, actor, op). space_step E now actor op) calls db"

lemma space_run_simps [simp]:
  "space_run E [] db = db"
  "space_run E ((now, actor, op) # calls) db = space_run E calls (space_step E now actor op db)"
  by (simp_all add: space_run_def)

lemma closed_run:
  "spaces_ok db \<Longrightarrow> closed db space \<Longrightarrow>
   closed (space_run E calls db) space \<and> contents (space_run E calls db) space = contents db space"
proof (induction calls arbitrary: db)
  case (Cons c calls)
  obtain now actor op where c: "c = (now, actor, op)" by (cases c)
  let ?db = "space_step E now actor op db"
  have p: "permitted E now actor db ?db" by (rule space_step_permitted [OF Cons.prems(1)])
  have "contents ?db space = contents db space"
    using permitted_needs_standing [OF p Cons.prems(1)] closed_no_standing [OF Cons.prems(2)] by simp
  with Cons.IH [OF permitted_keeps_ok [OF p Cons.prems(1)] permitted_keeps_closed [OF p Cons.prems(2)]] show ?case
    by (simp add: c)
qed simp

section \<open>A sample tenant\<close>

text \<open>Identifiers are shown as that many letters; a longer or differently spelled text parses by its length.\<close>

definition sample_spaces_env :: spaces_env where
  "sample_spaces_env =
     \<lparr>sv_show_uuid = (\<lambda>u. replicate (unat u) (CHR ''a'')), sv_parse_uuid = (\<lambda>s. Some (of_nat (length s))),
      sv_fault_text = (\<lambda>_. ''violates a constraint''), sv_space_le = (\<lambda>a b. sp_id a \<le> sp_id b),
      sv_text_le = (\<lambda>a b. length a \<le> length b)\<rparr>"

definition sample_project :: project_record where
  "sample_project =
     \<lparr>pj_id = 30, pj_tenant_id = 7, pj_slug = ''ops'', pj_title = ''Operations'', pj_goal = [], pj_status = ''active'',
      pj_owner_user_id = 1, pj_policy = JObject [], pj_policy_revision = 1, pj_revision = 1, pj_created_at = 0, pj_updated_at = 0\<rparr>"

definition sample_space :: knowledge_space_row where
  "sample_space =
     \<lparr>sp_id = 20, sp_tenant_id = 7, sp_kind = ''project'', sp_title = ''Operations'', sp_owner_user_id = None,
      sp_owner_team_id = None, sp_owner_project_id = Some 30, sp_status = ''active'', sp_policy = JObject [], sp_revision = 1,
      sp_created_at = 0, sp_updated_at = 0\<rparr>"

definition sample_spaces_db :: spaces_db where
  "sample_spaces_db =
     \<lparr>sd_users = [\<lparr>us_id = 1, us_tenant_id = 7, us_role = ''member'', us_is_active = True\<rparr>,
                  \<lparr>us_id = 2, us_tenant_id = 7, us_role = ''member'', us_is_active = True\<rparr>],
      sd_teams = [], sd_team_members = [], sd_groups = [], sd_user_groups = [], sd_projects = [sample_project],
      sd_spaces = [sample_space],
      sd_grants = [\<lparr>sg_id = 40, sg_tenant_id = 7, sg_space_id = 20, sg_principal_kind = ''user'', sg_principal_id = ''aa'',
        sg_role = ''curator'', sg_expires_at = Some 100, sg_created_by = 1, sg_revision = 1, sg_created_at = 0,
        sg_updated_at = 0, sg_revoked_at = None\<rparr>],
      sd_vaults = [], sd_objects = [], sd_shares = []\<rparr>"

definition owner_actor :: space_actor where
  "owner_actor = \<lparr>sa_tenant_id = 7, sa_user_id = 1\<rparr>"

definition member_actor :: space_actor where
  "member_actor = \<lparr>sa_tenant_id = 7, sa_user_id = 2\<rparr>"

lemmas sample_spaces_simps = sample_project_def sample_space_def sample_spaces_db_def owner_actor_def member_actor_def

lemma sample_uuid_text:
  "sv_show_uuid sample_spaces_env 1 = ''a''" "sv_show_uuid sample_spaces_env 2 = ''aa''"
  "sv_parse_uuid sample_spaces_env ''A'' = Some 1" "sv_parse_uuid sample_spaces_env (sv_show_uuid sample_spaces_env u) = Some u"
proof -
  have "replicate 2 (CHR ''a'') = ''aa''" by (simp add: numeral_2_eq_2)
  then show "sv_show_uuid sample_spaces_env 2 = ''aa''" by (simp add: sample_spaces_env_def)
qed (simp_all add: sample_spaces_env_def)

lemma sample_spaces_ok: "spaces_ok sample_spaces_db"
proof -
  have "\<exists>r. ''curator'' = role_text r" by (rule exI [of _ Curator]) simp
  then show ?thesis by (simp add: spaces_ok_def roles_ok_def space_keys_def sample_spaces_simps)
qed

lemma sample_roles:
  "ensure_active_actor sample_spaces_db member_actor = Inr ''member''"
  "effective_role sample_spaces_env 50 sample_spaces_db member_actor sample_space = Inr (Some Curator)"
  "effective_role sample_spaces_env 100 sample_spaces_db member_actor sample_space = Inr None"
  "effective_role sample_spaces_env 50 sample_spaces_db owner_actor sample_space = Inr (Some Manager)"
  by (simp_all add: effective_role_def ensure_active_actor_def implicit_role_def explicit_roles_def parse_role_def stronger_def
      project_owner_def grant_live_def grant_names_def sample_spaces_simps sample_uuid_text ok_or_def)

theorem effective_role_is_strongest_entitlement_witness:
  "effective_role sample_spaces_env 50 sample_spaces_db member_actor sample_space = Inr (Some Curator)
   \<and> entitled sample_spaces_env 50 sample_spaces_db member_actor sample_space Curator
   \<and> \<not> entitled sample_spaces_env 50 sample_spaces_db member_actor sample_space Manager
   \<and> \<not> entitled sample_spaces_env 100 sample_spaces_db member_actor sample_space Viewer"
proof -
  have ok: "roles_ok sample_spaces_db" using sample_spaces_ok by (simp add: spaces_ok_def)
  note strongest = effective_role_is_strongest_entitlement [OF ok sample_roles(1)]
  from strongest [of sample_spaces_env 50 sample_space] strongest [of sample_spaces_env 100 sample_space] show ?thesis
    by (fastforce simp: sample_roles)
qed

section \<open>The guarantees\<close>






lemma sample_archive:
  "archive_project 60 owner_actor 30 1 sample_spaces_db =
     (Inr (archived_project 60 sample_project, archived_space 60 sample_space),
      sample_spaces_db\<lparr>sd_projects := [archived_project 60 sample_project], sd_spaces := [archived_space 60 sample_space]\<rparr>)"
  by (simp add: archive_project_def transaction_eq_Inr result_simps ensure_active_actor_def ok_or_def sample_spaces_simps)


section \<open>The spelling of user identifiers\<close>

lemma explicit_roles_other:
  assumes "\<not> (sg_principal_kind g = ''user'' \<and> (\<exists>u. sg_principal_id g = sv_show_uuid E u))" "sg_principal_kind g = ''user''"
    "\<forall>h \<in> set (sd_grants db). sg_id h = sg_id g \<longrightarrow> grant_key h = grant_key g"
  shows "explicit_roles E now (db\<lparr>sd_grants := put sg_id g (sd_grants db)\<rparr>) actor space = explicit_roles E now db actor space"
proof -
  have names: "\<not> grant_names E d a h" if "grant_key h = grant_key g" for d a h
    using assms(1,2) that by (auto simp: grant_names_def grant_key_def)
  have same: "grant_names E (db\<lparr>sd_grants := gs\<rparr>) a h = grant_names E db a h" for gs a h
    by (simp add: grant_names_def team_role_def in_group_def)
  show ?thesis
    unfolding explicit_roles_def same
    using assms(3) names by (simp add: filter_put)
qed

text \<open>
  (C40) A grant to a user is stored under the text the caller gave, and a UUID has several spellings, but the
  role computation only compares with the canonical one.  A grant under another spelling is accepted and
  gives nobody a role: every role in every Space is what it was before.
\<close>

theorem noncanonical_user_grant_is_void:
  assumes "spaces_ok db" "\<forall>u. sv_parse_uuid E (sv_show_uuid E u) = Some u"
    and "sv_parse_uuid E principal_id = Some user" "principal_id \<noteq> sv_show_uuid E user"
    and "upsert_grant E i now actor space PrincipalUser principal_id role expires db = (Inr g, db')"
  shows "effective_role E now' db' actor' space' = effective_role E now' db actor' space'"
proof -
  have other: "principal_id \<noteq> sv_show_uuid E u" for u using assms(2-4) by (metis option.inject)
  obtain h where h: "db' = db\<lparr>sd_grants := put sg_id h (sd_grants db)\<rparr>" "sg_principal_kind h = ''user''" "sg_principal_id h = principal_id"
      "\<forall>k \<in> set (sd_grants db). sg_id k = sg_id h \<longrightarrow> grant_key k = grant_key h"
    using upsert_grant_put [OF assms(1,5)] by (auto simp: grant_key_def)
  have "explicit_roles E now' db' actor' (sp_id space') = explicit_roles E now' db actor' (sp_id space')"
    unfolding h(1) by (rule explicit_roles_other) (use h other in auto)
  moreover have "ensure_active_actor db' actor' = ensure_active_actor db actor'" by (simp add: h(1) ensure_active_actor_def)
  moreover have "project_owner db' = project_owner db" "team_role db' = team_role db"
    by (simp_all add: fun_eq_iff h(1) project_owner_def team_role_def)
  then have "implicit_role db' actor' space' = implicit_role db actor' space'" unfolding implicit_role_def by (simp only:)
  ultimately show ?thesis unfolding effective_role_def by (simp only:)
qed

definition misspelled_grant :: knowledge_space_grant_row where
  "misspelled_grant =
     \<lparr>sg_id = 41, sg_tenant_id = 7, sg_space_id = 20, sg_principal_kind = ''user'', sg_principal_id = ''AA'', sg_role = ''manager'',
      sg_expires_at = None, sg_created_by = 1, sg_revision = 1, sg_created_at = 100, sg_updated_at = 100, sg_revoked_at = None\<rparr>"

lemma sample_misspelled:
  "upsert_grant sample_spaces_env 41 100 owner_actor 20 PrincipalUser ''AA'' Manager None sample_spaces_db
   = (Inr misspelled_grant, sample_spaces_db\<lparr>sd_grants := sd_grants sample_spaces_db @ [misspelled_grant]\<rparr>)"
proof -
  have "require_role sample_spaces_env 100 sample_spaces_db owner_actor 20 Manager True = Inr sample_space"
    by (simp add: require_role_def find_space_def result_simps effective_role_def ensure_active_actor_def implicit_role_def
        explicit_roles_def stronger_def project_owner_def grant_names_def sample_spaces_simps sample_uuid_text ok_or_def)
  moreover have "validate_principal sample_spaces_env sample_spaces_db (sa_tenant_id owner_actor) PrincipalUser ''AA'' = Inr ()"
    by (simp add: validate_principal_def result_simps user_exists_def sample_spaces_simps sample_spaces_env_def)
  moreover have "text_length_within 128 (btrim ''AA'')" by code_simp
  then have "upsert_grant_row 41 100 owner_actor 20 PrincipalUser ''AA'' Manager None sample_spaces_db
      = Inr (misspelled_grant, sample_spaces_db\<lparr>sd_grants := sd_grants sample_spaces_db @ [misspelled_grant]\<rparr>)"
    by (simp add: upsert_grant_row_def same_grant_def misspelled_grant_def sample_spaces_simps Let_def)
  ultimately show ?thesis by (simp add: upsert_grant_def transaction_eq_Inr result_simps map_fault_eq_Inr)
qed

theorem noncanonical_user_grant_is_void_witness:
  "fst (upsert_grant sample_spaces_env 41 100 owner_actor 20 PrincipalUser ''AA'' Manager None sample_spaces_db) = Inr misspelled_grant
   \<and> sv_parse_uuid sample_spaces_env ''AA'' = Some (sa_user_id member_actor)
   \<and> effective_role sample_spaces_env 100
        (snd (upsert_grant sample_spaces_env 41 100 owner_actor 20 PrincipalUser ''AA'' Manager None sample_spaces_db)) member_actor sample_space
      = Inr None"
proof -
  have parse: "sv_parse_uuid sample_spaces_env ''AA'' = Some (sa_user_id member_actor)"
    by (simp add: sample_spaces_env_def member_actor_def)
  have "''AA'' \<noteq> sv_show_uuid sample_spaces_env (sa_user_id member_actor)" by (simp add: member_actor_def sample_uuid_text)
  from noncanonical_user_grant_is_void [OF sample_spaces_ok _ parse this sample_misspelled] parse show ?thesis
    by (simp add: sample_misspelled sample_roles sample_uuid_text)
qed

end
