(* ===== verification/Spec2Isabelle.thy ===== *)
theory Spec2Isabelle
  imports Bundle_Set Policy_Enforcement Scheduler Quota Router Safe_Fetch Manifest_Closure Ontology_Kernel
    Bundle_Grants Broker_Authority Space_Access
begin

text \<open>
  Verification of the Gadgetron core.

  Gadgetron is a gateway for language models and agents.  Requests come in with an API key and are
  given a tenant context; a quota enforcer admits them; a router chooses a provider; a scheduler and
  its node agents run local models.  Functionality is packaged in Bundles, which are installed in
  sets, depend on each other, and offer Gadgets; whether a Gadget or Workbench action may run is
  decided by a tenant's autonomy policy, by an approver where the policy asks for review, and every
  decision is logged.  This development models these parts as functions over explicit states.

  \<^bold>\<open>Parts and theories.\<close>

  \<^item> \<open>Gadgetron_Prelude\<close>: machine integers, \<open>Result\<close> as a sum, strings as UTF-8 bytes, ordered and
    hashed containers, and the lemma collections the other theories use.
  \<^item> \<open>Machine_Float\<close>: IEEE rounding, its error bounds, and the values of \<open>f32\<close> and \<open>f64\<close>.
  \<^item> \<open>Bundle_Ids\<close> (\<open>crates/gadgetron-bundle-sdk/src/id.rs\<close>): the validated identifiers; a relative
    package path stays below its directory, a Gadget name has a valid namespace.
  \<^item> \<open>Json_Value\<close> (the accessors of \<open>serde_json\<close>), \<open>Broker_Resource\<close> (resource identifiers of \<open>broker.rs\<close>),
    \<open>Manifest_Types\<close>, \<open>Manifest_Checks\<close>, \<open>Manifest_Schemas\<close>, \<open>Manifest_Capabilities\<close> and \<open>Bundle_Manifest\<close>
    (\<open>manifest.rs\<close>): the signed package manifest, from its records to the validator of the whole.
    \<open>Manifest_Sample\<close> is an accepted package, \<open>Manifest_Safety\<close> and \<open>Manifest_Closure\<close> hold what acceptance
    means: no input makes the validator panic; files are pinned and disjoint; broker operations are
    covered by permissions; settings are scalars; references are closed; and the dependency resolver
    accepts the candidates made from accepted manifests.
  \<^item> \<open>Bundle_Order\<close>, \<open>Bundle_Dependency\<close> (\<open>dependency.rs\<close>) and \<open>Bundle_Set\<close> (\<open>bundle_set.rs\<close>): resolving
    capability declarations, ordering Bundles (Kahn's algorithm, cycle search), pinning the packages
    of a set.  An unblocked plan enables providers before consumers; a plan is blocked exactly by an
    unmet requirement, a conflict or a cycle; resolution returns for every input.
  \<^item> \<open>Gadget_Modes\<close> (\<open>gadgetron-core/src/agent/config.rs\<close>, \<open>tools.rs\<close>), \<open>Policy_Core\<close>
    (\<open>gadgetron-core/src/policy.rs\<close>), \<open>Policy_Legacy\<close> (the migration of the old mode matrix) and
    \<open>Policy_Store\<close> (\<open>gadgetron-xaas/src/policy.rs\<close>): the evaluation loop refines a declarative
    policy, its trace explains it, the migration preserves the old modes, revisions are immutable and
    never lost, every logged decision replays, nothing executes that the policy does not allow.
  \<^item> \<open>Approval\<close> (\<open>gadgetron-core/src/workbench/approval.rs\<close>, \<open>gadgetron-gateway/src/web/approval_store.rs\<close>,
    the waiting caller of \<open>policy_enforcement.rs\<close>): resolutions are final and stay within their tenant;
    a waiting caller returns, and never reports an approval that was not given.
  \<^item> \<open>Tenant_Context\<close> (\<open>gadgetron-core/src/context.rs\<close>, the gateway's tenant middleware) and
    \<open>Policy_Enforcement\<close> (\<open>gadgetron-gateway/src/policy_enforcement.rs\<close>): an action never runs for an
    actor without its required scope; this composes the gateway with the policy store.
  \<^item> \<open>Rate_Limit\<close>, \<open>Pricing\<close>, \<open>Quota\<close> (\<open>gadgetron-xaas/src/quota\<close>, \<open>billing\<close>,
    \<open>gadgetron-core/src/pricing.rs\<close>): the token bucket bounds every window of requests although it
    computes in floating point; prices are exact and bounded; the quota page agrees with the ledger;
    the middleware's placeholder means that no request is refused for its spend.
  \<^item> \<open>Router\<close> (\<open>gadgetron-core/src/routing.rs\<close>, \<open>gadgetron-router\<close>): decisions name registered
    providers, round robin is fair, a request fails only when every fallback failed, every attempt is
    counted.
  \<^item> \<open>Model_Node\<close> (\<open>gadgetron-core/src/model.rs\<close>, \<open>node.rs\<close>), \<open>Node_Agent\<close> (\<open>gadgetron-node\<close>) and
    \<open>Scheduler\<close> (\<open>gadgetron-scheduler\<close>): the process state machine, port accounting under start and
    stop, placement and minimal least-recently-used eviction, and the invariant of the whole cluster.
  \<^item> \<open>Safe_Fetch\<close> (\<open>gadgetron-gateway/src/web/safe_fetch.rs\<close>): the address filter is the registry of
    special-purpose blocks; a fetch contacts only allowed hosts at public addresses, and is bounded.
  \<^item> \<open>Sdk_Checks\<close>, \<open>Intelligence_Contract\<close> and \<open>Domain_Ontology\<close> (\<open>crates/gadgetron-bundle-sdk/src/intelligence.rs\<close>,
    \<open>ontology.rs\<close>): the contracts of knowledge work and the schemas of a domain; an accepted ontology is closed.
    \<open>Ontology_Registry\<close> and \<open>Ontology_Kernel\<close> (\<open>crates/gadgetron-knowledge/src/ontology.rs\<close>): registering,
    activating and using them; mappings use active types, the history of activations is linear.
  \<^item> \<open>Broker_Protocol\<close> (\<open>crates/gadgetron-bundle-sdk/src/broker.rs\<close>), \<open>Broker_Lease\<close>, \<open>Broker_Sql\<close> and
    \<open>Broker_Isolation\<close> (\<open>gadgetron-gateway/src/web/bundle_broker.rs\<close>), \<open>Bundle_Grants\<close> (\<open>bundle_grants.rs\<close>): what a
    Bundle may ask of the gateway.  An honoured lease was issued to that Bundle and is live; structured reads
    and mutations stay within the tenant of the lease, and no value of a request reaches the text of a statement;
    grants survive a restart.
  \<^item> \<open>Broker_Gateway\<close> and \<open>Broker_Authority\<close> (\<open>GatewayBundleBroker\<close> of \<open>bundle_broker.rs\<close>) compose them with the outbox and the
    Spaces: an effect needs the signed permission, the operator's grant for the package digest and a live lease; it stays in
    the tenant of the lease; and the knowledge events it captures name Spaces in which their actors may contribute.
  \<^item> \<open>Sql_Model\<close>: transactions and check constraints.  \<open>Knowledge_Events\<close> (\<open>gadgetron-xaas/src/knowledge_events.rs\<close> and
    the worker of \<open>gadgetron-gateway/src/knowledge_events.rs\<close>): the outbox of knowledge events.  An event is leased at
    most three times and settled only by its last lessee; one whose third attempt is abandoned is lost.
  \<^item> \<open>Knowledge_Spaces\<close> and \<open>Space_Access\<close> (\<open>gadgetron-xaas/src/knowledge_spaces.rs\<close>, the paths of
    \<open>gadgetron-core/src/knowledge/mod.rs\<close>): Spaces, roles, grants, vaults, objects and shares.  The computed role is the
    strongest entitlement; every operation refines the specification \<open>permitted\<close>, so outsiders change nothing and an
    archived Space is read-only; a grant under another spelling of a UUID is void.

  \<^bold>\<open>Conventions.\<close>  A struct is a record with a prefix per type, an enum a datatype, a \<open>u64\<close> a
  \<open>64 word\<close>; an \<open>i64\<close> is an integer whose wrap-around is written out.  A function that changes state
  returns the new state; errors are \<open>Inl\<close>.  Times, fresh identifiers, the visiting order of a hash map
  and random numbers are arguments.  External code is an argument too: serialisation and hashing
  (\<open>policy_encoding\<close>), UUID text (\<open>spaces_env\<close>), the TOML parser, engines and HTTP (\<open>engine_host\<close>,
  \<open>fetch_world\<close>), the planner and the value conversions of PostgreSQL (\<open>sql_engine\<close>), what a worker makes
  of an event (\<open>worker_world\<close>), the SSH control plane (\<open>gateway_env\<close>), model providers.
  A PostgreSQL table is the list of its rows, a statement the list operation it denotes together with
  the constraints of the schema; a transaction that fails changes nothing.

  \<^bold>\<open>Interfaces.\<close>  The ordered sets of the prelude, comparators, the order of enabling, the hosts of model processes, the
  approval store, the quota enforcer and mutations confined to a tenant are locales; each is interpreted on the
  definitions of the model (the last on the structured insert, update and delete), and the rate-limited enforcer is shown to satisfy the contract whenever the wrapped one does.

  \<^bold>\<open>Loops and bounds.\<close>  All loops are structural or have a termination proof, with one exception: the
  waiting caller polls until a deadline, so its loop takes fuel, and the theorem states that one round
  more than the rounds until the clock passes the deadline is enough.  Where 64-bit counters could wrap
  (round robin, failed inserts) the theorems state the bound.

  \<^bold>\<open>Not modelled.\<close>  HTTP handlers, the web and terminal interfaces, the command line; process
  supervision and sandboxing; provider adapters, embeddings, search, git and the agent subprocess,
  which are clients of external programs; the domain Bundles.  Of the pure parts the replay cache, the Gadget registry, the wiki's text
  processing and the streaming audit are still open.
\<close>

end
